(* ===== verification/Prelude.thy ===== *)
theory Prelude
  imports Main "HOL-Library.Sublist" "HOL-Library.Char_ord" "HOL-Library.List_Lexorder"
    "HOL-Library.Product_Lexorder"
begin

text \<open>
  Shared vocabulary of the development.  It fixes the types that stand for SQL values
  (identifiers, timestamps, nullable columns), the relational operations the statements of the
  control plane are written with (an \<open>UPDATE\<close>, a \<open>DELETE\<close>, a row count, a keyed lookup) and
  the interface \<open>keyed_table\<close>: the laws every table with a primary key offers, which the
  store theory proves for the tables of the schema and the component theories build on.
\<close>

section \<open>Collections of simplification rules\<close>

named_theorems table_simps \<open>how relational updates act on rows\<close>
named_theorems str_simps \<open>definitions of the string operations, for evaluation\<close>
named_theorems json_simps \<open>definitions of the JSON operations, for evaluation\<close>

section \<open>SQL values\<close>

type_synonym uuid = nat
type_synonym timestamp = nat  \<comment> \<open>microseconds, the resolution of \<open>timestamptz\<close>\<close>

definition seconds :: "nat \<Rightarrow> timestamp" where
  "seconds n = n * 1000000"

definition minutes :: "nat \<Rightarrow> timestamp" where
  "minutes n = seconds (n * 60)"

definition years :: "nat \<Rightarrow> timestamp" where
  "years n = seconds (n * 31557600)"

text \<open>
  Comparisons of a nullable timestamp: the comparison with \<open>NULL\<close> is not true, so a row whose
  column is \<open>NULL\<close> is not selected.
\<close>

definition ts_gt :: "timestamp option \<Rightarrow> timestamp \<Rightarrow> bool" where
  "ts_gt t c \<longleftrightarrow> (case t of None \<Rightarrow> False | Some x \<Rightarrow> c < x)"

definition ts_lt :: "timestamp option \<Rightarrow> timestamp \<Rightarrow> bool" where
  "ts_lt t c \<longleftrightarrow> (case t of None \<Rightarrow> False | Some x \<Rightarrow> x < c)"

definition coalesce :: "'a option \<Rightarrow> 'a option \<Rightarrow> 'a option" where
  "coalesce a b = (case a of None \<Rightarrow> b | Some x \<Rightarrow> Some x)"

lemma ts_gt_simps [simp]: "ts_gt None c \<longleftrightarrow> False" "ts_gt (Some x) c \<longleftrightarrow> c < x"
  by (simp_all add: ts_gt_def)

lemma ts_lt_simps [simp]: "ts_lt None c \<longleftrightarrow> False" "ts_lt (Some x) c \<longleftrightarrow> x < c"
  by (simp_all add: ts_lt_def)

lemma coalesce_simps [simp]: "coalesce None b = b" "coalesce (Some x) b = Some x"
  by (simp_all add: coalesce_def)

text \<open>A lease that is still current has not lapsed: the two recovery predicates are disjoint.\<close>

lemma ts_gt_not_lt: "ts_gt t c \<Longrightarrow> \<not> ts_lt t c"
  by (cases t) auto

section \<open>Results\<close>

text \<open>The \<open>?\<close> operator: go on with the value, or return the error.\<close>

definition and_then :: "'e + 'a \<Rightarrow> ('a \<Rightarrow> 'e + 'b) \<Rightarrow> 'e + 'b" where
  "and_then r f = (case r of Inl e \<Rightarrow> Inl e | Inr x \<Rightarrow> f x)"

lemma and_then_simps [simp]: "and_then (Inl e) f = Inl e" "and_then (Inr x) f = f x"
  by (simp_all add: and_then_def)

lemma and_then_Inr_iff: "and_then r f = Inr y \<longleftrightarrow> (\<exists>x. r = Inr x \<and> f x = Inr y)"
  by (cases r) simp_all

section \<open>Relational operations on a table\<close>

definition update_where :: "('r \<Rightarrow> bool) \<Rightarrow> ('r \<Rightarrow> 'r) \<Rightarrow> 'r list \<Rightarrow> 'r list" where
  "update_where P f rs = map (\<lambda>r. if P r then f r else r) rs"

definition delete_where :: "('r \<Rightarrow> bool) \<Rightarrow> 'r list \<Rightarrow> 'r list" where
  "delete_where P rs = filter (\<lambda>r. \<not> P r) rs"

definition count_where :: "('r \<Rightarrow> bool) \<Rightarrow> 'r list \<Rightarrow> nat" where
  "count_where P rs = length (filter P rs)"

definition exists_where :: "('r \<Rightarrow> bool) \<Rightarrow> 'r list \<Rightarrow> bool" where
  "exists_where P rs \<longleftrightarrow> list_ex P rs"

lemma exists_where_iff: "exists_where P rs \<longleftrightarrow> (\<exists>r \<in> set rs. P r)"
  by (simp add: exists_where_def list_ex_iff)

lemma exists_where_eval [simp]:
  "exists_where P [] \<longleftrightarrow> False" "exists_where P (r # rs) \<longleftrightarrow> P r \<or> exists_where P rs"
  by (simp_all add: exists_where_def)

lemma update_where_eval [simp]:
  "update_where P f [] = []"
  "update_where P f (r # rs) = (if P r then f r else r) # update_where P f rs"
  by (simp_all add: update_where_def)

lemma set_update_where: "set (update_where P f rs) = (\<lambda>r. if P r then f r else r) ` set rs"
  by (simp add: update_where_def)

lemma in_update_where:
  "r' \<in> set (update_where P f rs) \<longleftrightarrow> (\<exists>r \<in> set rs. r' = (if P r then f r else r))"
  by (auto simp: set_update_where)

lemma update_where_hit: "r \<in> set rs \<Longrightarrow> P r \<Longrightarrow> f r \<in> set (update_where P f rs)"
  by (force simp: set_update_where)

lemma length_update_where [simp]: "length (update_where P f rs) = length rs"
  by (simp add: update_where_def)

lemma map_update_where:
  "(\<And>r. P r \<Longrightarrow> k (f r) = k r) \<Longrightarrow> map k (update_where P f rs) = map k rs"
  by (auto simp: update_where_def)

lemma set_delete_where [simp]: "set (delete_where P rs) = {r \<in> set rs. \<not> P r}"
  by (auto simp: delete_where_def)

lemma update_where_none:
  "(\<And>r. r \<in> set rs \<Longrightarrow> \<not> P r) \<Longrightarrow> update_where P f rs = rs"
  unfolding update_where_def by (rule map_idI) simp

lemma count_where_0: "count_where P rs = 0 \<longleftrightarrow> (\<forall>r \<in> set rs. \<not> P r)"
  by (simp add: count_where_def filter_empty_conv)

lemma find_SomeD: "find P xs = Some x \<Longrightarrow> x \<in> set xs \<and> P x"
  by (induction xs) (auto split: if_splits)

text \<open>A keyed lookup: the first row whose key is the one asked for.\<close>

definition find_row :: "('r \<Rightarrow> 'k) \<Rightarrow> 'k \<Rightarrow> 'r list \<Rightarrow> 'r option" where
  "find_row key k rs = find (\<lambda>r. key r = k) rs"

lemma find_row_eval [simp]:
  "find_row key k [] = None"
  "find_row key k (r # rs) = (if key r = k then Some r else find_row key k rs)"
  by (simp_all add: find_row_def)

lemma find_row_SomeD: "find_row key k rs = Some r \<Longrightarrow> r \<in> set rs \<and> key r = k"
  by (auto simp: find_row_def find_Some_iff)

lemma find_row_None_iff: "find_row key k rs = None \<longleftrightarrow> (\<forall>r \<in> set rs. key r \<noteq> k)"
  by (auto simp: find_row_def find_None_iff)

lemma find_row_unique:
  assumes "distinct (map key rs)" "r \<in> set rs" "key r = k"
  shows "find_row key k rs = Some r"
  using assms by (induction rs) auto

lemma find_row_map:
  "(\<And>r. key (f r) = key r) \<Longrightarrow> find_row key k (map f rs) = map_option f (find_row key k rs)"
  by (induction rs) auto

lemma find_row_update:
  "(\<And>r. key (f r) = key r) \<Longrightarrow>
    find_row key k (update_where P f rs) = map_option (\<lambda>r. if P r then f r else r) (find_row key k rs)"
  by (induction rs) auto

lemma find_row_append:
  "find_row key k (xs @ ys) = (case find_row key k xs of None \<Rightarrow> find_row key k ys | Some r \<Rightarrow> Some r)"
  by (induction xs) auto

lemma count_where_1D: "count_where P rs = 1 \<Longrightarrow> \<exists>r \<in> set rs. P r"
  by (rule ccontr) (use count_where_0 [of P rs] in auto)

text \<open>With a unique key, the row a guard selects by key is the row a lookup returns.\<close>

lemma count_where_1_lookup:
  assumes "count_where P rs = 1" "\<And>r. P r \<Longrightarrow> key r = k" "distinct (map key rs)"
    "find_row key k rs = Some r"
  shows "P r"
  using count_where_1D [OF assms(1)] assms(2-4) by (metis find_row_unique option.inject)

lemma count_where_key:
  assumes "distinct (map key rs)" "r \<in> set rs" "P r" "\<And>x. P x \<Longrightarrow> key x = key r"
  shows "count_where P rs = 1"
  using assms
proof (induction rs)
  case (Cons x rs)
  show ?case
  proof (cases "x = r")
    case True
    have "\<not> P y" if "y \<in> set rs" for y
      using Cons.prems(1,4) that True by (metis distinct.simps(2) image_eqI list.simps(9) set_map)
    then show ?thesis using True Cons.prems(3) by (simp add: count_where_def filter_empty_conv)
  next
    case False
    then have r: "r \<in> set rs" using Cons.prems(2) by simp
    then have "\<not> P x"
      using Cons.prems(1,4) by (metis distinct.simps(2) image_eqI list.simps(9) set_map)
    with Cons.IH [OF _ r Cons.prems(3,4)] Cons.prems(1) show ?thesis by (simp add: count_where_def)
  qed
qed simp

section \<open>The interface of a table with a primary key\<close>

text \<open>
  A client of a table relies on three things only: what a lookup returns after an update, that an
  update touches no other key, and that the key column stays unique.  The locale states that for
  a table given by its row list inside a larger state, so that the laws are about the state the
  handlers pass around and not about a bare list.
\<close>

locale keyed_table =
  fixes rows :: "'s \<Rightarrow> 'r list"
    and set_rows :: "('r list \<Rightarrow> 'r list) \<Rightarrow> 's \<Rightarrow> 's"
    and key :: "'r \<Rightarrow> uuid"
  assumes rows_set: "rows (set_rows F s) = F (rows s)"
begin

lemma keys_update:
  assumes "\<And>r. key (f r) = key r"
  shows "map key (rows (set_rows (update_where P f) s)) = map key (rows s)"
  using assms by (simp add: rows_set map_update_where)

lemma lookup_iff:
  assumes "distinct (map key (rows s))"
  shows "find_row key k (rows s) = Some r \<longleftrightarrow> r \<in> set (rows s) \<and> key r = k"
  using find_row_unique [OF assms] find_row_SomeD by metis

lemma lookup_update:
  assumes "\<And>r. key (f r) = key r"
  shows "find_row key k (rows (set_rows (update_where P f) s)) =
    map_option (\<lambda>r. if P r then f r else r) (find_row key k (rows s))"
proof -
  have "find_row key k (update_where P f rs) =
      map_option (\<lambda>r. if P r then f r else r) (find_row key k rs)" for rs
    using assms by (induction rs) auto
  then show ?thesis by (simp add: rows_set)
qed

lemma lookup_update_hit:
  assumes "\<And>r. key (f r) = key r" "find_row key k (rows s) = Some r" "P r"
  shows "find_row key k (rows (set_rows (update_where P f) s)) = Some (f r)"
  using assms by (simp add: lookup_update)

lemma lookup_update_miss:
  assumes "\<And>r. key (f r) = key r" "find_row key k (rows s) = Some r" "\<not> P r"
  shows "find_row key k (rows (set_rows (update_where P f) s)) = Some r"
  using assms by (simp add: lookup_update)

lemma lookup_insert:
  "find_row key k (rows (set_rows (\<lambda>rs. rs @ [r]) s)) =
    (case find_row key k (rows s) of Some q \<Rightarrow> Some q
     | None \<Rightarrow> if key r = k then Some r else None)"
proof -
  have "find_row key k (rs @ [r]) =
      (case find_row key k rs of Some q \<Rightarrow> Some q | None \<Rightarrow> if key r = k then Some r else None)"
    for rs by (induction rs) auto
  then show ?thesis by (simp add: rows_set)
qed

lemma keys_insert:
  assumes "distinct (map key (rows s))" "find_row key (key r) (rows s) = None"
  shows "distinct (map key (rows (set_rows (\<lambda>rs. rs @ [r]) s)))"
  using assms by (auto simp: rows_set find_row_None_iff)

end

section \<open>The interface of a transition system\<close>

text \<open>
  Safety arguments all have the same shape: a predicate holds at the start and no step breaks it.
\<close>

locale transition_system =
  fixes init :: "'s \<Rightarrow> bool" and step :: "'s \<Rightarrow> 's \<Rightarrow> bool" and reach :: "'s \<Rightarrow> bool"
  assumes reach_least:
    "reach s \<Longrightarrow> (\<And>t. init t \<Longrightarrow> I t) \<Longrightarrow> (\<And>t u. reach t \<Longrightarrow> I t \<Longrightarrow> step t u \<Longrightarrow> I u) \<Longrightarrow> I s"
begin

lemma invariant:
  assumes "\<And>t. init t \<Longrightarrow> I t" "\<And>t u. I t \<Longrightarrow> step t u \<Longrightarrow> I u" "reach s"
  shows "I s"
  by (rule reach_least [OF assms(3)]) (use assms(1,2) in blast)+

lemma invariant_with:
  assumes "\<And>t. init t \<Longrightarrow> I t" "\<And>t. reach t \<Longrightarrow> J t"
    "\<And>t u. I t \<Longrightarrow> J t \<Longrightarrow> step t u \<Longrightarrow> I u" "reach s"
  shows "I s"
  by (rule reach_least [OF assms(4)]) (use assms(1-3) in blast)+

end

section \<open>The interface of a wire enumeration\<close>

text \<open>
  A status type and its canonical strings: \<open>as_str\<close> prints a variant, \<open>from_str\<close> reads it back.
\<close>

locale wire_enum =
  fixes as_str :: "'e \<Rightarrow> string" and from_str :: "string \<Rightarrow> 'e option"
  assumes from_as: "from_str (as_str v) = Some v"
    and as_from: "from_str s = Some v \<Longrightarrow> as_str v = s"
begin

lemma as_str_inject: "as_str v = as_str w \<longleftrightarrow> v = w"
  by (metis from_as option.inject)

lemma from_str_iff: "from_str s = Some v \<longleftrightarrow> s = as_str v"
  by (metis from_as as_from)

lemma from_str_None_iff: "from_str s = None \<longleftrightarrow> s \<notin> range as_str"
  by (metis from_str_iff not_Some_eq rangeE rangeI)

end

end
