(* ===== verification/Rust_Str.thy ===== *)
theory Rust_Str
  imports Prelude
begin

text \<open>
  The operations of Rust's \<open>str\<close> and \<open>char\<close> that the validators use.  A \<open>str\<close> is the list of its
  UTF-8 bytes, so \<open>len()\<close> is \<open>length\<close> and a literal of the source is a literal here.  A test
  that \<open>chars().all\<close> makes for an ASCII class is the same test on bytes, because no byte of a
  multi-byte sequence is an ASCII byte; \<open>is_control\<close> and \<open>trim\<close> also concern characters outside
  ASCII and read their byte sequences.
\<close>

section \<open>Character classes\<close>

definition byte :: "char \<Rightarrow> nat" where
  "byte c = of_char c"

definition is_ascii_digit :: "char \<Rightarrow> bool" where
  "is_ascii_digit c \<longleftrightarrow> 48 \<le> byte c \<and> byte c \<le> 57"

definition is_ascii_uppercase :: "char \<Rightarrow> bool" where
  "is_ascii_uppercase c \<longleftrightarrow> 65 \<le> byte c \<and> byte c \<le> 90"

definition is_ascii_lowercase :: "char \<Rightarrow> bool" where
  "is_ascii_lowercase c \<longleftrightarrow> 97 \<le> byte c \<and> byte c \<le> 122"

definition is_ascii_alphanumeric :: "char \<Rightarrow> bool" where
  "is_ascii_alphanumeric c \<longleftrightarrow> is_ascii_digit c \<or> is_ascii_uppercase c \<or> is_ascii_lowercase c"

definition is_ascii_hexdigit :: "char \<Rightarrow> bool" where
  "is_ascii_hexdigit c \<longleftrightarrow> is_ascii_digit c \<or> 65 \<le> byte c \<and> byte c \<le> 70
     \<or> 97 \<le> byte c \<and> byte c \<le> 102"

definition to_ascii_lowercase :: "char \<Rightarrow> char" where
  "to_ascii_lowercase c = (if is_ascii_uppercase c then char_of (byte c + 32) else c)"

text \<open>A byte \<open>10xxxxxx\<close> continues a character; every other byte starts one.\<close>

definition is_continuation :: "char \<Rightarrow> bool" where
  "is_continuation c \<longleftrightarrow> 128 \<le> byte c \<and> byte c < 192"

text \<open>
  \<open>char::is_control\<close> is the Unicode category Cc: U+0000..U+001F, U+007F and U+0080..U+009F, the
  last of which are the byte pairs \<open>C2 80\<close>..\<open>C2 9F\<close>.
\<close>

fun has_control :: "string \<Rightarrow> bool" where
  "has_control [] = False"
| "has_control (c # s) =
     (byte c < 32 \<or> byte c = 127
      \<or> (case s of [] \<Rightarrow> False | d # _ \<Rightarrow> byte c = 194 \<and> 128 \<le> byte d \<and> byte d < 160)
      \<or> has_control s)"

section \<open>Trimming\<close>

text \<open>
  \<open>str::trim\<close> removes the Unicode \<open>White_Space\<close> characters at both ends: in ASCII the bytes 9 to
  13 and 32; beyond it U+0085, U+00A0, U+1680, U+2000..U+200A, U+2028, U+2029, U+202F, U+205F and
  U+3000.  \<open>ws_len\<close> is the length of the white-space character a string begins with, \<open>ws_len_rev\<close>
  the same at the end of a string given in reverse.
\<close>

definition ws1 :: "nat \<Rightarrow> bool" where
  "ws1 b \<longleftrightarrow> 9 \<le> b \<and> b \<le> 13 \<or> b = 32"

definition ws2 :: "nat \<Rightarrow> nat \<Rightarrow> bool" where
  "ws2 a b \<longleftrightarrow> a = 194 \<and> (b = 133 \<or> b = 160)"

definition ws3 :: "nat \<Rightarrow> nat \<Rightarrow> nat \<Rightarrow> bool" where
  "ws3 a b c \<longleftrightarrow> a = 225 \<and> b = 154 \<and> c = 128
     \<or> a = 226 \<and> b = 128 \<and> (128 \<le> c \<and> c \<le> 138 \<or> c = 168 \<or> c = 169 \<or> c = 175)
     \<or> a = 226 \<and> b = 129 \<and> c = 159
     \<or> a = 227 \<and> b = 128 \<and> c = 128"

fun trim_start :: "string \<Rightarrow> string" where
  "trim_start (a # b # c # s) =
     (if ws1 (byte a) then trim_start (b # c # s)
      else if ws2 (byte a) (byte b) then trim_start (c # s)
      else if ws3 (byte a) (byte b) (byte c) then trim_start s
      else a # b # c # s)"
| "trim_start [a, b] =
     (if ws1 (byte a) then trim_start [b]
      else if ws2 (byte a) (byte b) then [] else [a, b])"
| "trim_start [a] = (if ws1 (byte a) then [] else [a])"
| "trim_start [] = []"

fun trim_rev :: "string \<Rightarrow> string" where
  "trim_rev (c # b # a # s) =
     (if ws1 (byte c) then trim_rev (b # a # s)
      else if ws2 (byte b) (byte c) then trim_rev (a # s)
      else if ws3 (byte a) (byte b) (byte c) then trim_rev s
      else c # b # a # s)"
| "trim_rev [b, a] =
     (if ws1 (byte b) then trim_rev [a]
      else if ws2 (byte a) (byte b) then [] else [b, a])"
| "trim_rev [a] = (if ws1 (byte a) then [] else [a])"
| "trim_rev [] = []"

definition trim_end :: "string \<Rightarrow> string" where
  "trim_end s = rev (trim_rev (rev s))"

definition trim :: "string \<Rightarrow> string" where
  "trim s = trim_end (trim_start s)"

section \<open>Searching and splitting\<close>

definition starts_with :: "string \<Rightarrow> string \<Rightarrow> bool" where
  "starts_with s p \<longleftrightarrow> take (length p) s = p"

definition ends_with :: "string \<Rightarrow> string \<Rightarrow> bool" where
  "ends_with s p \<longleftrightarrow> length p \<le> length s \<and> drop (length s - length p) s = p"

fun str_contains :: "string \<Rightarrow> string \<Rightarrow> bool" where
  "str_contains [] p \<longleftrightarrow> p = []"
| "str_contains (c # s) p \<longleftrightarrow> starts_with (c # s) p \<or> str_contains s p"

definition strip_prefix :: "string \<Rightarrow> string \<Rightarrow> string option" where
  "strip_prefix s p = (if starts_with s p then Some (drop (length p) s) else None)"

text \<open>\<open>str::split\<close> on a separator character: always at least one piece.\<close>

fun split_char :: "char \<Rightarrow> string \<Rightarrow> string list" where
  "split_char sep [] = [[]]"
| "split_char sep (c # s) =
     (if c = sep then [] # split_char sep s
      else case split_char sep s of [] \<Rightarrow> [[c]] | p # ps \<Rightarrow> (c # p) # ps)"

fun join_char :: "char \<Rightarrow> string list \<Rightarrow> string" where
  "join_char sep [] = []"
| "join_char sep [p] = p"
| "join_char sep (p # q # ps) = p @ sep # join_char sep (q # ps)"

text \<open>\<open>rsplit_once\<close>: split at the last separator, if there is one.\<close>

fun rsplit_once :: "char \<Rightarrow> string \<Rightarrow> (string \<times> string) option" where
  "rsplit_once sep [] = None"
| "rsplit_once sep (c # s) =
     (case rsplit_once sep s of
        Some (h, t) \<Rightarrow> Some (c # h, t)
      | None \<Rightarrow> if c = sep then Some ([], s) else None)"

text \<open>\<open>trim_matches\<close> on one character, and \<open>trim_start_matches\<close> on one character.\<close>

definition trim_start_char :: "char \<Rightarrow> string \<Rightarrow> string" where
  "trim_start_char sep s = dropWhile (\<lambda>c. c = sep) s"

definition trim_matches_char :: "char \<Rightarrow> string \<Rightarrow> string" where
  "trim_matches_char sep s = rev (dropWhile (\<lambda>c. c = sep) (rev (dropWhile (\<lambda>c. c = sep) s)))"

section \<open>Parsing decimal numbers\<close>

fun digits_value :: "nat \<Rightarrow> string \<Rightarrow> nat option" where
  "digits_value acc [] = Some acc"
| "digits_value acc (c # s) =
     (if is_ascii_digit c then digits_value (acc * 10 + (byte c - 48)) s else None)"

text \<open>
  \<open>parse::<uN>()\<close>: an optional \<open>+\<close>, then at least one digit, and the value within the width.
\<close>

definition parse_unsigned :: "nat \<Rightarrow> string \<Rightarrow> nat option" where
  "parse_unsigned m s =
     (let d = (case s of c # t \<Rightarrow> if c = CHR ''+'' then t else s | [] \<Rightarrow> []) in
      if d = [] then None
      else case digits_value 0 d of
        None \<Rightarrow> None
      | Some n \<Rightarrow> if n \<le> m then Some n else None)"

definition parse_u16 :: "string \<Rightarrow> nat option" where
  "parse_u16 s = parse_unsigned 65535 s"

definition parse_u64 :: "string \<Rightarrow> nat option" where
  "parse_u64 s = parse_unsigned 18446744073709551615 s"

lemmas char_defs [str_simps] = byte_def is_ascii_digit_def is_ascii_uppercase_def
  is_ascii_lowercase_def is_ascii_alphanumeric_def is_ascii_hexdigit_def to_ascii_lowercase_def
  is_continuation_def ws1_def ws2_def ws3_def

lemmas str_defs [str_simps] = trim_end_def trim_def starts_with_def ends_with_def
  strip_prefix_def trim_start_char_def trim_matches_char_def parse_unsigned_def parse_u16_def
  parse_u64_def

section \<open>Facts about the string operations\<close>

lemma split_char_nonempty [simp]: "split_char sep s \<noteq> []"
  by (induction s) (auto split: list.splits)

lemma join_split [simp]: "join_char sep (split_char sep s) = s"
proof (induction s)
  case (Cons c s)
  then show ?case by (cases "split_char sep s" rule: remdups_adj.cases) auto
qed simp

lemma split_char_no_sep: "p \<in> set (split_char sep s) \<Longrightarrow> sep \<notin> set p"
proof (induction s arbitrary: p)
  case (Cons c s)
  then show ?case
    by (cases "split_char sep s") (auto split: if_splits)
qed simp

lemma split_char_subset: "p \<in> set (split_char sep s) \<Longrightarrow> set p \<subseteq> set s"
proof (induction s arbitrary: p)
  case (Cons c s)
  then show ?case
    by (cases "split_char sep s") (fastforce split: if_splits)+
qed simp

lemma split_join:
  assumes "ps \<noteq> []" "\<And>p. p \<in> set ps \<Longrightarrow> sep \<notin> set p"
  shows "split_char sep (join_char sep ps) = ps"
  using assms
proof (induction ps rule: join_char.induct [of _ sep])
  case (2 sep p)
  have "split_char sep q = [q]" if "sep \<notin> set q" for q
    using that by (induction q) auto
  with 2 show ?case by simp
next
  case (3 sep p q ps)
  have "split_char sep (u @ sep # v) = u # split_char sep v" if "sep \<notin> set u" for u v
    using that by (induction u) auto
  with 3 show ?case by simp
qed auto

lemma rsplit_once_None_iff: "rsplit_once sep s = None \<longleftrightarrow> sep \<notin> set s"
  by (induction s) (auto split: option.splits)

lemma rsplit_once_SomeD: "rsplit_once sep s = Some (h, t) \<Longrightarrow> s = h @ sep # t \<and> sep \<notin> set t"
  by (induction s arbitrary: h)
    (auto split: option.splits if_splits simp: rsplit_once_None_iff)

lemma rsplit_once_append: "sep \<notin> set t \<Longrightarrow> rsplit_once sep (h @ sep # t) = Some (h, t)"
proof (induction h)
  case Nil
  then show ?case using rsplit_once_None_iff [of sep t] by (simp split: option.splits)
qed simp

lemma digits_value_append:
  "digits_value acc (u @ v) = (case digits_value acc u of None \<Rightarrow> None | Some n \<Rightarrow> digits_value n v)"
  by (induction u arbitrary: acc) auto

lemma parse_unsigned_le: "parse_unsigned m s = Some n \<Longrightarrow> n \<le> m"
  by (auto simp: parse_unsigned_def Let_def split: list.splits if_splits option.splits)

text \<open>Trimming the end of a text takes characters off its end.\<close>

lemma trim_rev_suffix: "\<exists>u. s = u @ trim_rev s"
proof (induction s rule: trim_rev.induct)
  case (1 c b a s)
  then show ?case by (auto; metis append_Cons append_Nil)
qed auto

end
