(* ===== verification/Contract_Status.thy ===== *)
theory Contract_Status
  imports Rust_Str
begin

text \<open>
  The status enumerations of \<open>crates/contracts/src/lib.rs\<close>.  The macro \<open>string_status_enum!\<close>
  gives each variant one canonical string, the value stored in Postgres and sent over the wire;
  \<open>*_as_str\<close> and \<open>*_from_str\<close> are the two functions it generates.
\<close>

section \<open>Deployments\<close>

datatype deployment_status =
    D_Queued | D_QueuedForBuild | D_Running | D_Building | D_Publishing | D_QueuedForRelease
  | D_Pulling | D_Starting | D_HealthChecking | D_Routing
  | D_Success | D_Failed | D_RolledBack | D_Canceled

fun deployment_as_str :: "deployment_status \<Rightarrow> string" where
  "deployment_as_str D_Queued = ''queued''"
| "deployment_as_str D_QueuedForBuild = ''queued_for_build''"
| "deployment_as_str D_Running = ''running''"
| "deployment_as_str D_Building = ''building''"
| "deployment_as_str D_Publishing = ''publishing''"
| "deployment_as_str D_QueuedForRelease = ''queued_for_release''"
| "deployment_as_str D_Pulling = ''pulling''"
| "deployment_as_str D_Starting = ''starting''"
| "deployment_as_str D_HealthChecking = ''health_checking''"
| "deployment_as_str D_Routing = ''routing''"
| "deployment_as_str D_Success = ''success''"
| "deployment_as_str D_Failed = ''failed''"
| "deployment_as_str D_RolledBack = ''rolled_back''"
| "deployment_as_str D_Canceled = ''canceled''"

definition deployment_variants :: "deployment_status list" where
  "deployment_variants = [D_Queued, D_QueuedForBuild, D_Running, D_Building, D_Publishing,
     D_QueuedForRelease, D_Pulling, D_Starting, D_HealthChecking, D_Routing, D_Success, D_Failed,
     D_RolledBack, D_Canceled]"

text \<open>The generated \<open>match\<close> tries the variants in order.\<close>

definition deployment_from_str :: "string \<Rightarrow> deployment_status option" where
  "deployment_from_str s = find (\<lambda>v. deployment_as_str v = s) deployment_variants"

text \<open>\<open>ACTIVE_DEPLOYMENT_STATUSES\<close> of \<open>apps/api/src/deploy.rs\<close>.\<close>

definition active_deployment_statuses :: "deployment_status list" where
  "active_deployment_statuses = [D_Queued, D_QueuedForBuild, D_Running, D_Building, D_Publishing,
     D_QueuedForRelease, D_Pulling, D_Starting, D_HealthChecking, D_Routing]"

definition active_status :: "deployment_status \<Rightarrow> bool" where
  "active_status s \<longleftrightarrow> s \<in> set active_deployment_statuses"

section \<open>Agent jobs\<close>

datatype job_status =
    J_Queued | J_Claimed | J_Running | J_Success | J_Failed | J_Canceled | J_Cancelled | J_Expired

fun job_as_str :: "job_status \<Rightarrow> string" where
  "job_as_str J_Queued = ''queued''"
| "job_as_str J_Claimed = ''claimed''"
| "job_as_str J_Running = ''running''"
| "job_as_str J_Success = ''success''"
| "job_as_str J_Failed = ''failed''"
| "job_as_str J_Canceled = ''canceled''"
| "job_as_str J_Cancelled = ''cancelled''"
| "job_as_str J_Expired = ''expired''"

definition job_variants :: "job_status list" where
  "job_variants = [J_Queued, J_Claimed, J_Running, J_Success, J_Failed, J_Canceled, J_Cancelled,
     J_Expired]"

definition job_from_str :: "string \<Rightarrow> job_status option" where
  "job_from_str s = find (\<lambda>v. job_as_str v = s) job_variants"

text \<open>The status lists the statements over \<open>agent_jobs\<close> use.\<close>

abbreviation job_live :: "job_status \<Rightarrow> bool" where
  "job_live s \<equiv> s = J_Queued \<or> s = J_Claimed \<or> s = J_Running"

abbreviation job_leased :: "job_status \<Rightarrow> bool" where
  "job_leased s \<equiv> s = J_Claimed \<or> s = J_Running"

section \<open>Runtime health\<close>

datatype health_status = H_Healthy | H_Degraded | H_Unhealthy | H_Unknown

fun health_as_str :: "health_status \<Rightarrow> string" where
  "health_as_str H_Healthy = ''healthy''"
| "health_as_str H_Degraded = ''degraded''"
| "health_as_str H_Unhealthy = ''unhealthy''"
| "health_as_str H_Unknown = ''unknown''"

definition health_variants :: "health_status list" where
  "health_variants = [H_Healthy, H_Degraded, H_Unhealthy, H_Unknown]"

definition health_from_str :: "string \<Rightarrow> health_status option" where
  "health_from_str s = find (\<lambda>v. health_as_str v = s) health_variants"

section \<open>What the API accepts from an agent\<close>

text \<open>\<open>apps/api/src/agent/validation.rs\<close>\<close>

definition valid_deployment_status :: "string \<Rightarrow> bool" where
  "valid_deployment_status s \<longleftrightarrow> deployment_from_str s \<noteq> None \<and> s \<noteq> ''canceled''"

definition valid_agent_job_status :: "string \<Rightarrow> bool" where
  "valid_agent_job_status s \<longleftrightarrow> job_from_str s \<noteq> None \<and> s \<noteq> ''canceled''"

definition valid_health_status :: "string \<Rightarrow> bool" where
  "valid_health_status s \<longleftrightarrow> health_from_str s \<noteq> None"

definition valid_reconcile_reason :: "string \<Rightarrow> bool" where
  "valid_reconcile_reason reason \<longleftrightarrow> reason = ''rebuild''"

section \<open>The enumerations are wire enumerations\<close>

lemma find_variant:
  assumes "\<And>v w. f v = f w \<Longrightarrow> v = w" "v \<in> set vs"
  shows "find (\<lambda>w. f w = f v) vs = Some v"
  using assms by (induction vs) auto

lemma deployment_as_str_inj: "deployment_as_str v = deployment_as_str w \<Longrightarrow> v = w"
  by (cases v; cases w) simp_all

lemma job_as_str_inj: "job_as_str v = job_as_str w \<Longrightarrow> v = w"
  by (cases v; cases w) simp_all

lemma health_as_str_inj: "health_as_str v = health_as_str w \<Longrightarrow> v = w"
  by (cases v; cases w) simp_all

interpretation deployment_wire: wire_enum deployment_as_str deployment_from_str
proof
  fix v show "deployment_from_str (deployment_as_str v) = Some v"
    unfolding deployment_from_str_def
    by (rule find_variant [OF deployment_as_str_inj]) (cases v; simp add: deployment_variants_def)+
qed (auto simp: deployment_from_str_def find_Some_iff)

interpretation job_wire: wire_enum job_as_str job_from_str
proof
  fix v show "job_from_str (job_as_str v) = Some v"
    unfolding job_from_str_def
    by (rule find_variant [OF job_as_str_inj]) (cases v; simp add: job_variants_def)+
qed (auto simp: job_from_str_def find_Some_iff)

interpretation health_wire: wire_enum health_as_str health_from_str
proof
  fix v show "health_from_str (health_as_str v) = Some v"
    unfolding health_from_str_def
    by (rule find_variant [OF health_as_str_inj]) (cases v; simp add: health_variants_def)+
qed (auto simp: health_from_str_def find_Some_iff)

lemma active_status_simps [simp]:
  "active_status D_Queued" "active_status D_QueuedForBuild" "active_status D_Running"
  "active_status D_Building" "active_status D_Publishing" "active_status D_QueuedForRelease"
  "active_status D_Pulling" "active_status D_Starting" "active_status D_HealthChecking"
  "active_status D_Routing"
  "\<not> active_status D_Success" "\<not> active_status D_Failed" "\<not> active_status D_RolledBack"
  "\<not> active_status D_Canceled"
  by (simp_all add: active_status_def active_deployment_statuses_def)

lemma active_or_terminal:
  "active_status s \<or> s = D_Success \<or> s = D_Failed \<or> s = D_RolledBack \<or> s = D_Canceled"
  by (cases s) simp_all

end
