(* ===== verification/Rust_Text.thy ===== *)
theory Rust_Text
  imports Rust_Str
begin

text \<open>
  The operations of Rust's \<open>str\<close> that work on whole texts: lines, words, substrings, character
  boundaries, the validity of UTF-8, and printing and reading decimal numbers.  The strings are lists
  of bytes, as in \<open>Rust_Str\<close>.
\<close>

section \<open>Searching\<close>

fun str_find :: "string \<Rightarrow> string \<Rightarrow> nat option" where
  "str_find p [] = (if p = [] then Some 0 else None)"
| "str_find p (c # s) = (if starts_with (c # s) p then Some 0 else map_option Suc (str_find p s))"

definition split_once_str :: "string \<Rightarrow> string \<Rightarrow> (string \<times> string) option" where
  "split_once_str p s = map_option (\<lambda>i. (take i s, drop (i + length p) s)) (str_find p s)"

definition split_once_char :: "char \<Rightarrow> string \<Rightarrow> (string \<times> string) option" where
  "split_once_char sep s = (if sep \<in> set s then Some (takeWhile (\<lambda>c. c \<noteq> sep) s, tl (dropWhile (\<lambda>c. c \<noteq> sep) s)) else None)"

definition strip_suffix :: "string \<Rightarrow> string \<Rightarrow> string option" where
  "strip_suffix s p = (if ends_with s p then Some (take (length s - length p) s) else None)"

definition trim_end_char :: "char \<Rightarrow> string \<Rightarrow> string" where
  "trim_end_char sep s = rev (dropWhile (\<lambda>c. c = sep) (rev s))"

section \<open>Lines and words\<close>

definition newline :: char where
  "newline = CHR 0x0A"

definition chomp_cr :: "string \<Rightarrow> string" where
  "chomp_cr l = (if l \<noteq> [] \<and> last l = CHR 0x0D then butlast l else l)"

text \<open>
  \<open>str::lines\<close>: a line ends with \<open>LF\<close> or \<open>CR LF\<close>; a last line without an ending counts when it is not
  empty and keeps a \<open>CR\<close>.
\<close>

definition str_lines :: "string \<Rightarrow> string list" where
  "str_lines s = (let ps = split_char newline s in
     map chomp_cr (butlast ps) @ (if last ps = [] then [] else [last ps]))"

text \<open>\<open>split_whitespace\<close>: a white-space character starts where \<open>trim_start\<close> would remove something.\<close>

fun take_word :: "string \<Rightarrow> string \<times> string" where
  "take_word [] = ([], [])"
| "take_word (c # s) =
     (if trim_start (c # s) \<noteq> c # s then ([], c # s) else let (w, r) = take_word s in (c # w, r))"

lemma take_word_length: "length (snd (take_word s)) \<le> length s"
  by (induction s rule: take_word.induct) (auto simp: Let_def split: prod.splits)

lemma trim_start_length: "length (trim_start s) \<le> length s"
  by (induction s rule: trim_start.induct) auto

lemma take_word_shorter:
  assumes "trim_start s = c # t"
  shows "length (snd (take_word (c # t))) < length (c # t)"
proof -
  have "trim_start (trim_start r) = trim_start r" for r by (induction r rule: trim_start.induct) auto
  then have "trim_start (c # t) = c # t" using assms by metis
  then show ?thesis using take_word_length [of t] by (cases "take_word t") simp
qed

function split_whitespace :: "string \<Rightarrow> string list" where
  "split_whitespace s =
     (case trim_start s of [] \<Rightarrow> [] | c # t \<Rightarrow> fst (take_word (c # t)) # split_whitespace (snd (take_word (c # t))))"
  by auto
termination
proof (relation "measure length")
  fix s :: string and c t
  assume t: "trim_start s = c # t"
  then have "length (snd (take_word (c # t))) < length (c # t)" by (rule take_word_shorter)
  also have "\<dots> \<le> length s" using trim_start_length [of s] t by simp
  finally show "(snd (take_word (c # t)), s) \<in> measure length" by simp
qed simp

declare split_whitespace.simps [simp del]

section \<open>UTF-8\<close>

definition is_char_boundary :: "string \<Rightarrow> nat \<Rightarrow> bool" where
  "is_char_boundary s i \<longleftrightarrow> i = 0 \<or> i = length s \<or> i < length s \<and> \<not> is_continuation (s ! i)"

fun boundary_before :: "string \<Rightarrow> nat \<Rightarrow> nat" where
  "boundary_before s 0 = 0"
| "boundary_before s (Suc i) = (if is_char_boundary s (Suc i) then Suc i else boundary_before s i)"

text \<open>
  \<open>str::from_utf8\<close> accepts the well-formed sequences of the Unicode standard (table 3-7); \<open>utf8_step\<close> takes
  the first character off.
\<close>

definition utf8_step :: "string \<Rightarrow> string option" where
  "utf8_step s = (case s of [] \<Rightarrow> None | a # s1 \<Rightarrow> if byte a < 128 then Some s1
     else case s1 of [] \<Rightarrow> None | b # s2 \<Rightarrow> if 194 \<le> byte a \<and> byte a \<le> 223 \<and> is_continuation b then Some s2
     else case s2 of [] \<Rightarrow> None | c # s3 \<Rightarrow> if 224 \<le> byte a \<and> byte a \<le> 239 \<and> is_continuation b \<and> is_continuation c
         \<and> (byte a = 224 \<longrightarrow> 160 \<le> byte b) \<and> (byte a = 237 \<longrightarrow> byte b < 160) then Some s3
     else case s3 of [] \<Rightarrow> None | d # s4 \<Rightarrow> if 240 \<le> byte a \<and> byte a \<le> 244 \<and> is_continuation b \<and> is_continuation c
         \<and> is_continuation d \<and> (byte a = 240 \<longrightarrow> 144 \<le> byte b) \<and> (byte a = 244 \<longrightarrow> byte b < 144) then Some s4
     else None)"

lemma utf8_step_shorter: "utf8_step s = Some t \<Longrightarrow> length t < length s"
  by (auto simp: utf8_step_def split: list.splits if_splits)

function valid_utf8 :: "string \<Rightarrow> bool" where
  "valid_utf8 s = (case utf8_step s of None \<Rightarrow> s = [] | Some t \<Rightarrow> valid_utf8 t)"
  by auto
termination by (relation "measure length") (auto dest: utf8_step_shorter)

declare valid_utf8.simps [simp del]

section \<open>Decimal numbers\<close>

function show_nat :: "nat \<Rightarrow> string" where
  "show_nat n = (if n < 10 then [char_of (48 + n)] else show_nat (n div 10) @ [char_of (48 + n mod 10)])"
  by auto
termination by (relation "measure id") auto

declare show_nat.simps [simp del]

definition show_int :: "int \<Rightarrow> string" where
  "show_int n = (if n < 0 then CHR ''-'' # show_nat (nat (- n)) else show_nat (nat n))"

definition parse_signed :: "nat \<Rightarrow> string \<Rightarrow> int option" where
  "parse_signed m s =
     (case s of
        CHR ''-'' # ds \<Rightarrow>
          if starts_with ds ''+'' then None
          else map_option (\<lambda>n. - int n) (parse_unsigned (Suc m) ds)
      | _ \<Rightarrow> map_option int (parse_unsigned m s))"

definition parse_i64 :: "string \<Rightarrow> int option" where
  "parse_i64 s = parse_signed 9223372036854775807 s"

lemmas text_defs [str_simps] = split_once_str_def split_once_char_def strip_suffix_def trim_end_char_def newline_def
  chomp_cr_def str_lines_def is_char_boundary_def show_int_def parse_signed_def parse_i64_def

section \<open>Facts\<close>

lemma strip_prefix_iff: "strip_prefix s p = Some t \<longleftrightarrow> s = p @ t"
proof -
  have "take (length p) s = p \<Longrightarrow> s = p @ drop (length p) s" by (metis append_take_drop_id)
  then show ?thesis by (auto simp: strip_prefix_def starts_with_def)
qed

lemma starts_with_iff: "starts_with s p \<longleftrightarrow> (\<exists>t. s = p @ t)"
  by (metis strip_prefix_iff strip_prefix_def option.distinct(1) option.sel)

lemma str_contains_iff: "str_contains s p \<longleftrightarrow> (\<exists>u v. s = u @ p @ v)"
proof (induction s)
  case (Cons c s)
  have "(\<exists>u v. c # s = u @ p @ v) \<longleftrightarrow> (\<exists>v. c # s = p @ v) \<or> (\<exists>u v. s = u @ p @ v)"
    by (metis append_Cons append_Nil list.inject neq_Nil_conv)
  with Cons show ?case by (simp add: starts_with_iff)
qed auto

lemma str_find_None_iff: "str_find p s = None \<longleftrightarrow> \<not> str_contains s p"
  by (induction p s rule: str_find.induct) auto

lemma until_simps:
  assumes "sep \<notin> set u"
  shows "takeWhile (\<lambda>c. c \<noteq> sep) (u @ sep # v) = u" "dropWhile (\<lambda>c. c \<noteq> sep) (u @ sep # v) = sep # v"
  using assms by (induction u) auto

lemma valid_utf8_Nil [simp]: "valid_utf8 []"
  by (simp add: valid_utf8.simps utf8_step_def)

lemma utf8_step_append: "utf8_step s = Some r \<Longrightarrow> utf8_step (s @ t) = Some (r @ t)"
proof -
  assume s: "utf8_step s = Some r"
  consider "s = []" | a where "s = [a]" | a b where "s = [a, b]" | a b c where "s = [a, b, c]"
    | a b c d u where "s = a # b # c # d # u"
    by (metis neq_Nil_conv)
  then show ?thesis using s by cases (simp_all add: utf8_step_def split: if_splits, blast?)
qed

lemma valid_utf8_append: "valid_utf8 s \<Longrightarrow> valid_utf8 t \<Longrightarrow> valid_utf8 (s @ t)"
proof (induction s rule: valid_utf8.induct)
  case (1 s)
  show ?case
  proof (cases "utf8_step s")
    case None
    with 1 show ?thesis by (simp add: valid_utf8.simps [of s])
  next
    case (Some r)
    then have "utf8_step (s @ t) = Some (r @ t)" by (rule utf8_step_append)
    with 1 Some show ?thesis by (simp add: valid_utf8.simps [of s] valid_utf8.simps [of "s @ t"])
  qed
qed

lemma valid_utf8_ascii: "list_all (\<lambda>c. byte c < 128) s \<Longrightarrow> valid_utf8 s"
  by (induction s) (simp_all add: valid_utf8.simps [of "_ # _"] utf8_step_def)

lemma boundary_before: "boundary_before s i \<le> i \<and> is_char_boundary s (boundary_before s i)"
  by (induction i) (auto simp: is_char_boundary_def)

lemma split_char_append: "sep \<notin> set u \<Longrightarrow> split_char sep (u @ sep # v) = u # split_char sep v"
  by (induction u) auto

lemma str_lines_Nil [simp]: "str_lines [] = []"
  by (simp add: str_lines_def)

lemma str_lines_step:
  "newline \<notin> set l \<Longrightarrow> str_lines (l @ newline # s) = chomp_cr l # str_lines s"
  by (simp add: str_lines_def split_char_append Let_def)

lemma chomp_cr_id: "l = [] \<or> last l \<noteq> CHR 0x0D \<Longrightarrow> chomp_cr l = l"
  by (auto simp: chomp_cr_def)

lemma show_nat_digits: "list_all is_ascii_digit (show_nat n) \<and> show_nat n \<noteq> []"
proof (induction n rule: show_nat.induct)
  case (1 n)
  then show ?case
    by (subst (1 2) show_nat.simps) (auto simp: is_ascii_digit_def [of "char_of _"] byte_def)
qed

lemma digits_value_show: "digits_value 0 (show_nat n) = Some n"
proof (induction n rule: show_nat.induct)
  case (1 n)
  then show ?case
    by (subst show_nat.simps) (auto simp: digits_value_append is_ascii_digit_def byte_def)
qed

lemma show_nat_hd:
  obtains c s where "show_nat n = c # s" "is_ascii_digit c"
  using show_nat_digits [of n] by (cases "show_nat n") auto

lemma parse_unsigned_show: "n \<le> m \<Longrightarrow> parse_unsigned m (show_nat n) = Some n"
proof -
  assume m: "n \<le> m"
  obtain c s where s: "show_nat n = c # s" "is_ascii_digit c" by (rule show_nat_hd)
  have "c \<noteq> CHR ''+''" using s(2) by (auto simp: is_ascii_digit_def byte_def)
  with m s(1) digits_value_show [of n] show ?thesis by (simp add: parse_unsigned_def)
qed

lemma parse_signed_show: "0 \<le> n \<Longrightarrow> nat n \<le> m \<Longrightarrow> parse_signed m (show_int n) = Some n"
proof -
  assume n: "0 \<le> n" "nat n \<le> m"
  obtain c s where s: "show_nat (nat n) = c # s" "is_ascii_digit c" by (rule show_nat_hd)
  have "c \<noteq> CHR ''-''" using s(2) by (auto simp: is_ascii_digit_def byte_def)
  then have "parse_signed m (c # s) = map_option int (parse_unsigned m (c # s))"
    unfolding parse_signed_def by (auto split: char.splits bool.splits)
  with n s(1) parse_unsigned_show [of "nat n" m] show ?thesis by (simp add: show_int_def)
qed

lemma parse_i64_show: "0 \<le> n \<Longrightarrow> n \<le> 9223372036854775807 \<Longrightarrow> parse_i64 (show_int n) = Some n"
  by (simp add: parse_i64_def parse_signed_show)

end
