(* ===== verification/Json.thy ===== *)
theory Json
  imports Rust_Text
begin

text \<open>
  JSON documents, as \<open>serde_json::Value\<close> holds them in the API and \<open>jsonb\<close> holds them in a column.
  An object is an association list in which a key occurs once; \<open>insert\<close> replaces, \<open>remove\<close> deletes.
  Numbers are integers: the payload fields that the modelled code reads as numbers are integral.
\<close>

datatype json =
    JNull
  | JBool bool
  | JInt int
  | JStr string
  | JArr "json list"
  | JObj "(string \<times> json) list"

section \<open>Access\<close>

definition json_get :: "json \<Rightarrow> string \<Rightarrow> json option" where
  "json_get v k = (case v of JObj kvs \<Rightarrow> map_of kvs k | _ \<Rightarrow> None)"

text \<open>\<open>Value::pointer\<close> on a path of object keys.\<close>

fun json_pointer :: "json \<Rightarrow> string list \<Rightarrow> json option" where
  "json_pointer v [] = Some v"
| "json_pointer v (k # ks) =
     (case json_get v k of None \<Rightarrow> None | Some w \<Rightarrow> json_pointer w ks)"

fun as_str :: "json \<Rightarrow> string option" where
  "as_str (JStr s) = Some s" | "as_str _ = None"

fun as_bool :: "json \<Rightarrow> bool option" where
  "as_bool (JBool b) = Some b" | "as_bool _ = None"

fun as_array :: "json \<Rightarrow> json list option" where
  "as_array (JArr xs) = Some xs" | "as_array _ = None"

text \<open>\<open>as_i64\<close> and \<open>as_u64\<close> refuse an integer outside the width.\<close>

fun as_i64 :: "json \<Rightarrow> int option" where
  "as_i64 (JInt n) = (if - 9223372036854775808 \<le> n \<and> n \<le> 9223372036854775807 then Some n else None)"
| "as_i64 _ = None"

fun as_u64 :: "json \<Rightarrow> int option" where
  "as_u64 (JInt n) = (if 0 \<le> n \<and> n \<le> 18446744073709551615 then Some n else None)"
| "as_u64 _ = None"

definition get_str :: "json \<Rightarrow> string \<Rightarrow> string option" where
  "get_str v k = Option.bind (json_get v k) as_str"

text \<open>
  \<open>payload->>'k'\<close>: the text of a field.  Objects, arrays and integers have a text form too; the
  statements of the control plane compare the text only with \<open>true\<close>, a platform, a role or a
  service name, which none of those forms equals.
\<close>

definition json_text :: "json \<Rightarrow> string \<Rightarrow> string option" where
  "json_text v k =
     (case json_get v k of
        Some (JStr s) \<Rightarrow> Some s
      | Some (JBool b) \<Rightarrow> Some (if b then ''true'' else ''false'')
      | _ \<Rightarrow> None)"

section \<open>Update\<close>

fun obj_insert :: "string \<Rightarrow> json \<Rightarrow> (string \<times> json) list \<Rightarrow> (string \<times> json) list" where
  "obj_insert k v [] = [(k, v)]"
| "obj_insert k v ((l, w) # kvs) = (if k = l then (k, v) # kvs else (l, w) # obj_insert k v kvs)"

text \<open>\<open>as_object_mut\<close> followed by \<open>insert\<close>: nothing happens to a value that is no object.\<close>

definition json_insert :: "string \<Rightarrow> json \<Rightarrow> json \<Rightarrow> json" where
  "json_insert k v j = (case j of JObj kvs \<Rightarrow> JObj (obj_insert k v kvs) | _ \<Rightarrow> j)"

text \<open>\<open>jsonb - 'key'\<close> and \<open>Map::remove\<close>.\<close>

definition json_remove :: "string \<Rightarrow> json \<Rightarrow> json" where
  "json_remove k j = (case j of JObj kvs \<Rightarrow> JObj (filter (\<lambda>kv. fst kv \<noteq> k) kvs) | _ \<Rightarrow> j)"

definition is_object :: "json \<Rightarrow> bool" where
  "is_object j \<longleftrightarrow> (case j of JObj _ \<Rightarrow> True | _ \<Rightarrow> False)"

definition json_opt_str :: "string option \<Rightarrow> json" where
  "json_opt_str s = (case s of None \<Rightarrow> JNull | Some x \<Rightarrow> JStr x)"

lemmas json_defs [json_simps] = json_get_def get_str_def json_text_def json_insert_def
  json_remove_def is_object_def json_opt_str_def

section \<open>Laws\<close>

lemma map_of_obj_insert: "map_of (obj_insert k v kvs) l = (if l = k then Some v else map_of kvs l)"
  by (induction kvs) auto

lemma json_get_insert:
  "is_object j \<Longrightarrow> json_get (json_insert k v j) l = (if l = k then Some v else json_get j l)"
  by (cases j) (auto simp: json_insert_def json_get_def is_object_def map_of_obj_insert)

lemma json_get_insert_other: "l \<noteq> k \<Longrightarrow> json_get (json_insert k v j) l = json_get j l"
  by (cases j) (auto simp: json_insert_def json_get_def map_of_obj_insert)

lemma map_of_filter_key: "map_of (filter (\<lambda>kv. fst kv \<noteq> k) kvs) l = (if l = k then None else map_of kvs l)"
  by (induction kvs) auto

lemma json_get_remove: "json_get (json_remove k j) l = (if l = k then None else json_get j l)"
  by (cases j) (auto simp: json_remove_def json_get_def map_of_filter_key)

lemma json_remove_absent: "json_get j k = None \<Longrightarrow> json_remove k j = j"
proof (cases j)
  case (JObj kvs)
  assume "json_get j k = None"
  then have "k \<notin> fst ` set kvs" by (simp add: JObj json_get_def map_of_eq_None_iff)
  then show ?thesis unfolding JObj json_remove_def
    by (auto simp: filter_id_conv image_iff)
qed (simp_all add: json_remove_def)

lemma is_object_insert [simp]: "is_object (json_insert k v j) = is_object j"
  by (cases j) (simp_all add: json_insert_def is_object_def)

lemma is_object_remove [simp]: "is_object (json_remove k j) = is_object j"
  by (cases j) (simp_all add: json_remove_def is_object_def)

lemma json_text_cong: "json_get v k = json_get w k \<Longrightarrow> json_text v k = json_text w k"
  by (simp add: json_text_def)

section \<open>The secrets of a job payload\<close>

text \<open>
  Every terminal transition of a job strips the same three keys from its payload:
  \<open>payload_json - 'env' - 'github_token' - 'artifact_registry'\<close>.
\<close>

definition secret_keys :: "string list" where
  "secret_keys = [''env'', ''github_token'', ''artifact_registry'']"

definition scrub :: "json \<Rightarrow> json" where
  "scrub j = json_remove ''artifact_registry'' (json_remove ''github_token'' (json_remove ''env'' j))"

definition has_secrets :: "json \<Rightarrow> bool" where
  "has_secrets j \<longleftrightarrow> list_ex (\<lambda>k. json_get j k \<noteq> None) secret_keys"

lemma json_get_scrub: "json_get (scrub j) k = (if k \<in> set secret_keys then None else json_get j k)"
  by (simp add: scrub_def json_get_remove secret_keys_def)

lemma scrub_no_secrets [simp]: "\<not> has_secrets (scrub j)"
  by (simp add: has_secrets_def list_ex_iff json_get_scrub)

lemma no_secrets_empty [simp]: "\<not> has_secrets (JObj [])"
  by (simp add: has_secrets_def list_ex_iff json_get_def)

lemma json_text_scrub: "k \<notin> set secret_keys \<Longrightarrow> json_text (scrub j) k = json_text j k"
  by (rule json_text_cong) (simp add: json_get_scrub)

end
