(* ===== verification/Store.thy ===== *)
theory Store
  imports Contract_Status Json
begin

text \<open>
  The Postgres schema of the control plane (\<open>apps/api/migrations\<close>) as far as the lifecycle of
  deployments and agent jobs reads or writes it: one record per table, one field per column, a
  nullable column as an \<open>option\<close>.  A table is the list of its rows in insertion order.  The theory
  also holds the row locks of \<open>apps/api/src/agent/locks.rs\<close> (whose only observable result is
  whether the row exists), the values a handler reads from outside the database (clock,
  generated identifiers, environment variables, failing database calls) and the shape of an HTTP
  response.
\<close>

section \<open>Rows\<close>

record host_snapshot =
  hs_memory_total_mib :: int
  hs_memory_available_mib :: int
  hs_disk_total_mib :: int
  hs_disk_free_mib :: int

record server_row =
  s_id :: uuid
  s_user_id :: "uuid option"
  s_kind :: string
  s_status :: string
  s_capabilities :: "string list"
  s_draining :: bool
  s_max_concurrent_apps :: int
  s_max_concurrent_builds :: int
  s_max_runtime_memory_mb :: "int option"
  s_max_running_services :: "int option"
  s_min_available_memory_mb :: "int option"
  s_min_disk_free_mb :: "int option"
  s_resource_snapshot :: "host_snapshot option"
  s_resource_snapshot_at :: "timestamp option"
  s_build_pool_id :: "uuid option"
  s_platforms :: "string list"
  s_agent_protocol_version :: int
  s_agent_token_hash :: "string option"
  s_last_seen_at :: "timestamp option"
  s_last_build_assigned_at :: "timestamp option"
  s_created_at :: timestamp

record app_row =
  a_id :: uuid
  a_user_id :: uuid
  a_server_id :: uuid
  a_container_port :: int
  a_health_path :: string
  a_domain :: string
  a_current_deployment_id :: "uuid option"
  a_pending_deployment_id :: "uuid option"
  a_route_generation :: int
  a_suspended_at :: "timestamp option"
  a_queue_priority_offset :: int
  a_runtime_kind :: string
  a_runtime_config :: json
  a_public_exposure :: bool
  a_build_pool_id :: "uuid option"
  a_name :: string
  a_repo_full_name :: string
  a_branch :: string
  a_hostlet_config_path :: string
  a_packaging_strategy :: string
  a_root_directory :: string
  a_install_command :: "string option"
  a_build_command :: "string option"
  a_start_command :: "string option"
  a_memory_limit_mb :: "int option"
  a_auto_deploy :: bool
  a_cpu_limit :: json  \<comment> \<open>the \<open>float8\<close> as it is printed, or \<open>null\<close>\<close>
  a_updated_at :: timestamp

record deployment_row =
  d_id :: uuid
  d_app_id :: uuid
  d_server_id :: uuid
  d_status :: deployment_status
  d_commit_sha :: string
  d_image_tag :: "string option"
  d_container_name :: "string option"
  d_published_port :: "int option"
  d_compose_project :: "string option"
  d_runtime_kind :: string
  d_runtime_metadata :: json
  d_artifact_manifest :: json
  d_build_id :: "uuid option"
  d_expected_current_deployment_id :: "uuid option"
  d_activation_generation :: "int option"
  d_failure_summary :: "string option"
  d_failure_code :: "string option"
  d_last_heartbeat_at :: "timestamp option"
  d_started_at :: "timestamp option"
  d_finished_at :: "timestamp option"
  d_created_at :: timestamp

record job_row =
  j_id :: uuid
  j_server_id :: "uuid option"
  j_build_pool_id :: "uuid option"
  j_app_id :: "uuid option"
  j_deployment_id :: "uuid option"
  j_job_type :: string
  j_status :: job_status
  j_payload :: json
  j_result :: "json option"
  j_priority :: int
  j_protocol_version :: int
  j_attempt :: int
  j_max_attempts :: int
  j_claimed_by :: "string option"
  j_claimed_at :: "timestamp option"
  j_claim_token :: "uuid option"
  j_lease_expires_at :: "timestamp option"
  j_cancel_requested_at :: "timestamp option"
  j_failure_summary :: "string option"
  j_last_error :: "string option"
  j_available_at :: timestamp
  j_started_at :: "timestamp option"
  j_finished_at :: "timestamp option"
  j_created_at :: timestamp
  j_updated_at :: timestamp

datatype build_status =
    B_Queued | B_Leased | B_Building | B_Publishing | B_RetryWait
  | B_Succeeded | B_Failed | B_Canceled

record build_row =
  b_id :: uuid
  b_deployment_id :: uuid
  b_build_pool_id :: uuid
  b_status :: build_status
  b_required_platform :: string
  b_build_spec :: json
  b_build_plan_digest :: "string option"
  b_artifact_manifest :: json
  b_waiting_reason :: "string option"
  b_failure_code :: "string option"
  b_failure_summary :: "string option"
  b_started_at :: "timestamp option"
  b_finished_at :: "timestamp option"
  b_updated_at :: timestamp

record service_row =
  v_deployment_id :: uuid
  v_app_id :: uuid
  v_service_name :: string
  v_role :: string
  v_container_name :: "string option"
  v_image_tag :: "string option"
  v_target_port :: "int option"
  v_published_port :: "int option"
  v_status :: "string option"
  v_health_status :: "string option"
  v_last_checked_at :: "timestamp option"
  v_last_healthy_at :: "timestamp option"

record suspension_row =
  p_app_id :: uuid
  p_reason :: string
  p_created_at :: timestamp
  p_created_by :: string

record compose_runtime_row =
  c_app_id :: uuid
  c_stable_project :: string
  c_stable_network :: string
  c_backing_spec_hash :: "string option"
  c_backing_status :: string
  c_last_applied_deployment_id :: "uuid option"
  c_updated_at :: timestamp

record health_row =
  h_app_id :: uuid
  h_deployment_id :: "uuid option"
  h_container_name :: "string option"
  h_status :: health_status
  h_checked_url :: "string option"
  h_http_status :: "int option"
  h_latency_ms :: "int option"
  h_failure_count :: int
  h_success_count :: int
  h_last_error :: "string option"
  h_last_checked_at :: "timestamp option"
  h_last_healthy_at :: "timestamp option"
  h_updated_at :: timestamp

record health_event_row =
  e_app_id :: uuid
  e_deployment_id :: "uuid option"
  e_container_name :: "string option"
  e_status :: health_status
  e_checked_url :: "string option"
  e_http_status :: "int option"
  e_latency_ms :: "int option"
  e_error :: "string option"
  e_created_at :: timestamp

record browser_row =
  w_app_id :: uuid
  w_deployment_id :: "uuid option"
  w_status :: string
  w_failure :: "string option"
  w_checked_at :: "timestamp option"
  w_updated_at :: timestamp

record storage_row =
  u_app_id :: uuid
  u_used_bytes :: int
  u_image_bytes :: int
  u_container_bytes :: int
  u_volumes :: "(string \<times> int) list"
  u_sampled_at :: timestamp

record log_row =
  l_deployment_id :: uuid
  l_stream :: string
  l_line :: string
  l_created_at :: timestamp

record resource_row =
  r_container_name :: string
  r_cpu_percent :: string
  r_memory_usage :: string
  r_memory_percent :: string
  r_network_io :: string
  r_block_io :: string
  r_pids :: string
  r_cpu_percent_value :: "json option"  \<comment> \<open>a \<open>float8\<close> as it is printed, or \<open>NULL\<close>\<close>
  r_memory_usage_bytes :: "int option"
  r_memory_limit_bytes :: "int option"
  r_memory_percent_value :: "json option"
  r_network_rx_bytes :: "int option"
  r_network_tx_bytes :: "int option"
  r_block_read_bytes :: "int option"
  r_block_write_bytes :: "int option"
  r_pids_current :: "int option"
  r_sampled_at :: timestamp

record screenshot_row =
  i_id :: uuid
  i_app_id :: uuid
  i_deployment_id :: "uuid option"
  i_agent_job_id :: "uuid option"
  i_source :: string
  i_content_type :: string
  i_byte_size :: int
  i_width :: "int option"
  i_height :: "int option"
  i_storage_path :: string
  i_capture_url :: "string option"
  i_captured_at :: timestamp

record webhook_row =
  y_id :: uuid
  y_delivery :: string
  y_repo_full_name :: string
  y_event_type :: string
  y_payload :: json
  y_branch :: "string option"
  y_commit_sha :: "string option"
  y_ignored_reason :: "string option"
  y_processed :: bool
  y_processed_at :: "timestamp option"
  y_processing :: bool
  y_processing_started_at :: "timestamp option"
  y_processing_token :: "uuid option"
  y_created_at :: timestamp

record webhook_app_row =
  z_event_id :: uuid
  z_app_id :: uuid
  z_deployment_id :: "uuid option"
  z_repo_full_name :: string
  z_branch :: string
  z_commit_sha :: string
  z_status :: string
  z_ignored_reason :: "string option"
  z_created_at :: timestamp

record audit_row =
  x_actor_type :: string
  x_actor_id :: "string option"
  x_event_type :: string
  x_app_id :: "uuid option"
  x_deployment_id :: "uuid option"
  x_job_id :: "uuid option"
  x_metadata :: json
  x_created_at :: timestamp

record build_pool_row =
  q_id :: uuid
  q_provider :: string
  q_enabled :: bool
  q_qualification_status :: string
  q_is_default :: bool
  q_supported_platforms :: "string list"
  q_max_concurrent_builds :: int
  q_created_at :: timestamp

record env_row =
  n_app_id :: uuid
  n_key :: string
  n_value_ciphertext :: string

record rollback_row =
  k_app_id :: uuid
  k_from_deployment_id :: "uuid option"
  k_to_deployment_id :: uuid
  k_status :: string

record dns_record_row =
  y_app_id :: uuid
  y_zone_id :: string
  y_hostname :: string
  y_cloudflare_record_id :: string
  y_target :: string

section \<open>The database\<close>

record db =
  servers :: "server_row list"
  apps :: "app_row list"
  deployments :: "deployment_row list"
  agent_jobs :: "job_row list"
  deployment_builds :: "build_row list"
  deployment_services :: "service_row list"
  app_suspensions :: "suspension_row list"
  app_compose_runtime :: "compose_runtime_row list"
  app_health_snapshots :: "health_row list"
  app_health_events :: "health_event_row list"
  app_browser_health :: "browser_row list"
  app_storage_usage :: "storage_row list"
  deployment_logs :: "log_row list"
  app_resource_snapshots :: "resource_row list"
  app_screenshots :: "screenshot_row list"
  webhook_events :: "webhook_row list"
  webhook_app_events :: "webhook_app_row list"
  audit_events :: "audit_row list"
  build_pools :: "build_pool_row list"
  app_env_vars :: "env_row list"
  rollback_events :: "rollback_row list"
  app_public_dns_records :: "dns_record_row list"

definition empty_db :: db where
  "empty_db = \<lparr> servers = [], apps = [], deployments = [], agent_jobs = [], deployment_builds = [],
     deployment_services = [], app_suspensions = [], app_compose_runtime = [],
     app_health_snapshots = [], app_health_events = [], app_browser_health = [],
     app_storage_usage = [], deployment_logs = [], app_resource_snapshots = [], app_screenshots = [],
     webhook_events = [], webhook_app_events = [], audit_events = [],
     build_pools = [], app_env_vars = [], rollback_events = [], app_public_dns_records = [] \<rparr>"

abbreviation update_jobs :: "(job_row \<Rightarrow> bool) \<Rightarrow> (job_row \<Rightarrow> job_row) \<Rightarrow> db \<Rightarrow> db" where
  "update_jobs P f \<equiv> agent_jobs_update (update_where P f)"

abbreviation update_deployments ::
    "(deployment_row \<Rightarrow> bool) \<Rightarrow> (deployment_row \<Rightarrow> deployment_row) \<Rightarrow> db \<Rightarrow> db" where
  "update_deployments P f \<equiv> deployments_update (update_where P f)"

abbreviation update_apps :: "(app_row \<Rightarrow> bool) \<Rightarrow> (app_row \<Rightarrow> app_row) \<Rightarrow> db \<Rightarrow> db" where
  "update_apps P f \<equiv> apps_update (update_where P f)"

abbreviation update_servers :: "(server_row \<Rightarrow> bool) \<Rightarrow> (server_row \<Rightarrow> server_row) \<Rightarrow> db \<Rightarrow> db" where
  "update_servers P f \<equiv> servers_update (update_where P f)"

abbreviation update_builds :: "(build_row \<Rightarrow> bool) \<Rightarrow> (build_row \<Rightarrow> build_row) \<Rightarrow> db \<Rightarrow> db" where
  "update_builds P f \<equiv> deployment_builds_update (update_where P f)"

abbreviation find_job :: "uuid \<Rightarrow> db \<Rightarrow> job_row option" where
  "find_job i db \<equiv> find_row j_id i (agent_jobs db)"

abbreviation find_deployment :: "uuid \<Rightarrow> db \<Rightarrow> deployment_row option" where
  "find_deployment i db \<equiv> find_row d_id i (deployments db)"

abbreviation find_app :: "uuid \<Rightarrow> db \<Rightarrow> app_row option" where
  "find_app i db \<equiv> find_row a_id i (apps db)"

abbreviation find_server :: "uuid \<Rightarrow> db \<Rightarrow> server_row option" where
  "find_server i db \<equiv> find_row s_id i (servers db)"

text \<open>The tables with a primary key satisfy the laws of \<open>keyed_table\<close>.\<close>

interpretation job_table: keyed_table agent_jobs agent_jobs_update j_id
  by unfold_locales simp

interpretation deployment_table: keyed_table deployments deployments_update d_id
  by unfold_locales simp

interpretation app_table: keyed_table apps apps_update a_id
  by unfold_locales simp

interpretation server_table: keyed_table servers servers_update s_id
  by unfold_locales simp

definition wf_keys :: "db \<Rightarrow> bool" where
  "wf_keys db \<longleftrightarrow> distinct (map j_id (agent_jobs db)) \<and> distinct (map d_id (deployments db))
     \<and> distinct (map a_id (apps db)) \<and> distinct (map s_id (servers db))"

section \<open>What a handler reads from outside the database\<close>

text \<open>
  \<open>tx_now\<close> is \<open>now()\<close>, the start of the transaction; \<open>clock k\<close> is \<open>clock_timestamp()\<close> as the
  \<open>k\<close>-th statement of the transaction reads it; \<open>fresh k\<close> is the \<open>k\<close>-th identifier that
  \<open>uuid_generate_v4()\<close> produces; \<open>fault k\<close> says that the \<open>k\<close>-th database call of the handler
  fails, which aborts the transaction; \<open>row_locked\<close> tells the rows that \<open>SKIP LOCKED\<close> passes
  over; \<open>uuid_text\<close> and \<open>parse_uuid\<close> are the printing and parsing of identifiers, \<open>env_var\<close> the
  process environment.
\<close>

record world =
  tx_now :: timestamp
  clock :: "nat \<Rightarrow> timestamp"
  fresh :: "nat \<Rightarrow> uuid"
  fault :: "nat \<Rightarrow> bool"
  row_locked :: "uuid \<Rightarrow> bool"
  uuid_text :: "uuid \<Rightarrow> string"
  parse_uuid :: "string \<Rightarrow> uuid option"
  env_var :: "string \<Rightarrow> string option"

section \<open>Responses\<close>

datatype status_code =
    NO_CONTENT | ACCEPTED | BAD_REQUEST | UNAUTHORIZED | PAYMENT_REQUIRED | NOT_FOUND | CONFLICT
  | INTERNAL_SERVER_ERROR

datatype 'a response = Code status_code | Text status_code string | Reply 'a

section \<open>Row locks\<close>

text \<open>
  \<open>SELECT .. FOR UPDATE\<close> of one row: the helper fails exactly when the row is missing.  The lock
  itself is what lets a transaction be modelled as one step; see the header of the development.
\<close>

definition lock_app :: "uuid \<Rightarrow> db \<Rightarrow> bool" where
  "lock_app app_id db = exists_where (\<lambda>a. a_id a = app_id) (apps db)"

definition lock_deployment :: "uuid \<Rightarrow> uuid \<Rightarrow> db \<Rightarrow> bool" where
  "lock_deployment deployment_id app_id db =
     exists_where (\<lambda>d. d_id d = deployment_id \<and> d_app_id d = app_id) (deployments db)"

definition lock_job :: "uuid \<Rightarrow> uuid option \<Rightarrow> uuid option \<Rightarrow> db \<Rightarrow> bool" where
  "lock_job job_id app_id deployment_id db =
     exists_where (\<lambda>j. j_id j = job_id
        \<and> (app_id = None \<or> j_app_id j = app_id)
        \<and> (deployment_id = None \<or> j_deployment_id j = deployment_id)) (agent_jobs db)"

definition lock_server :: "uuid \<Rightarrow> db \<Rightarrow> bool" where
  "lock_server server_id db = exists_where (\<lambda>s. s_id s = server_id) (servers db)"

section \<open>Audit events and defaults of an inserted job\<close>

definition audit :: "timestamp \<Rightarrow> string \<Rightarrow> string option \<Rightarrow> string \<Rightarrow> uuid option \<Rightarrow> uuid option
    \<Rightarrow> uuid option \<Rightarrow> json \<Rightarrow> db \<Rightarrow> db" where
  "audit t actor_type actor_id event_type app_id deployment_id job_id metadata =
     audit_events_update (\<lambda>es. es @ [\<lparr> x_actor_type = actor_type, x_actor_id = actor_id,
       x_event_type = event_type, x_app_id = app_id, x_deployment_id = deployment_id,
       x_job_id = job_id, x_metadata = metadata, x_created_at = t \<rparr>])"

definition default_job :: "timestamp \<Rightarrow> uuid \<Rightarrow> job_row" where
  "default_job t i = \<lparr> j_id = i, j_server_id = None, j_build_pool_id = None, j_app_id = None,
     j_deployment_id = None, j_job_type = '''', j_status = J_Queued, j_payload = JObj [],
     j_result = None, j_priority = 100, j_protocol_version = 1, j_attempt = 0, j_max_attempts = 3,
     j_claimed_by = None, j_claimed_at = None, j_claim_token = None, j_lease_expires_at = None,
     j_cancel_requested_at = None, j_failure_summary = None, j_last_error = None,
     j_available_at = t, j_started_at = None, j_finished_at = None, j_created_at = t,
     j_updated_at = t \<rparr>"

section \<open>Frame facts\<close>

lemma audit_frame [simp]:
  "agent_jobs (audit t p q r s u v m db) = agent_jobs db"
  "deployments (audit t p q r s u v m db) = deployments db"
  "apps (audit t p q r s u v m db) = apps db"
  "servers (audit t p q r s u v m db) = servers db"
  "deployment_builds (audit t p q r s u v m db) = deployment_builds db"
  "app_suspensions (audit t p q r s u v m db) = app_suspensions db"
  "deployment_services (audit t p q r s u v m db) = deployment_services db"
  by (simp_all add: audit_def)

lemma lock_app_iff: "lock_app i db \<longleftrightarrow> (\<exists>a \<in> set (apps db). a_id a = i)"
  by (simp add: lock_app_def exists_where_iff)

lemma lock_deployment_iff:
  "lock_deployment i a db \<longleftrightarrow> (\<exists>d \<in> set (deployments db). d_id d = i \<and> d_app_id d = a)"
  by (simp add: lock_deployment_def exists_where_iff)

end
