(* ===== verification/Contract_Names.thy ===== *)
theory Contract_Names
  imports Rust_Str
begin

text \<open>
  The pure input validators of \<open>crates/contracts/src/lib.rs\<close> and
  \<open>crates/contracts/src/validation.rs\<close>: the names, paths, domains, versions and environment
  variables that the API accepts and the agent hands to Git, Docker and Caddy.  Each definition
  is the boolean expression (or the early-return chain) of the source; \<open>Err\<close> is \<open>Inl\<close>.
\<close>

section \<open>Definitions\<close>

subsection \<open>Repositories, branches, domains\<close>

definition repo_char :: "char \<Rightarrow> bool" where
  "repo_char c \<longleftrightarrow> is_ascii_alphanumeric c \<or> c \<in> {CHR ''.'', CHR ''_'', CHR ''-''}"

definition valid_repo_part :: "string \<Rightarrow> bool" where
  "valid_repo_part value \<longleftrightarrow>
     value \<noteq> [] \<and> length value \<le> 100 \<and> list_all repo_char value
     \<and> \<not> starts_with value ''.'' \<and> \<not> ends_with value ''.''"

definition valid_repo_full_name :: "string \<Rightarrow> bool" where
  "valid_repo_full_name value =
     (case split_char (CHR ''/'') value of
        [owner, repo] \<Rightarrow>
          list_all (\<lambda>part. part \<noteq> [] \<and> length part \<le> 100 \<and> list_all repo_char part
            \<and> \<not> starts_with part ''.'' \<and> \<not> ends_with part ''.'') [owner, repo]
      | _ \<Rightarrow> False)"

definition valid_branch :: "string \<Rightarrow> bool" where
  "valid_branch value \<longleftrightarrow>
     value \<noteq> [] \<and> length value \<le> 255
     \<and> \<not> starts_with value ''-'' \<and> \<not> starts_with value ''/'' \<and> \<not> ends_with value ''/''
     \<and> \<not> str_contains value ''..'' \<and> \<not> str_contains value [CHR ''@'', CHR ''{'']
     \<and> list_all (\<lambda>c. is_ascii_alphanumeric c
          \<or> c \<in> {CHR ''/'', CHR ''.'', CHR ''_'', CHR ''-''}) value"

definition valid_hostname :: "string \<Rightarrow> bool" where
  "valid_hostname value \<longleftrightarrow>
     value \<noteq> [] \<and> length value \<le> 253
     \<and> \<not> starts_with value ''.'' \<and> \<not> ends_with value ''.''
     \<and> list_all (\<lambda>label. label \<noteq> [] \<and> length label \<le> 63
          \<and> \<not> starts_with label ''-'' \<and> \<not> ends_with label ''-''
          \<and> list_all (\<lambda>c. is_ascii_alphanumeric c \<or> c = CHR ''-'') label)
        (split_char (CHR ''.'') value)"

definition valid_domain :: "string \<Rightarrow> bool" where
  "valid_domain value =
     (case rsplit_once (CHR '':'') value of
        None \<Rightarrow> valid_hostname value
      | Some (host, port) \<Rightarrow> valid_hostname host \<and> port \<noteq> [] \<and> parse_u16 port \<noteq> None)"

definition domain_host :: "string \<Rightarrow> string option" where
  "domain_host value =
     (case rsplit_once (CHR '':'') value of
        Some (host, port) \<Rightarrow> if parse_u16 port \<noteq> None then Some host else Some value
      | None \<Rightarrow> Some value)"

subsection \<open>Paths\<close>

definition valid_health_path :: "string \<Rightarrow> bool" where
  "valid_health_path value \<longleftrightarrow>
     starts_with value ''/'' \<and> length value \<le> 256
     \<and> \<not> (has_control value \<or> CHR 0x5C \<in> set value)"

definition valid_root_directory :: "string \<Rightarrow> bool" where
  "valid_root_directory value0 =
     (let value = trim value0 in
      value \<noteq> [] \<and> length value \<le> 256
      \<and> \<not> starts_with value ''/'' \<and> \<not> starts_with value [CHR 0x5C]
      \<and> \<not> list_ex (\<lambda>part. part = ''..'') (split_char (CHR ''/'') value)
      \<and> \<not> (has_control value \<or> CHR 0x5C \<in> set value))"

definition valid_relative_file_path :: "string \<Rightarrow> bool" where
  "valid_relative_file_path value0 =
     (let value = trim value0 in
      value \<noteq> [] \<and> length value \<le> 256
      \<and> \<not> starts_with value ''/'' \<and> \<not> starts_with value [CHR 0x5C]
      \<and> \<not> list_ex (\<lambda>part. part = [] \<or> part = ''..'') (split_char (CHR ''/'') value)
      \<and> \<not> (has_control value
           \<or> list_ex (\<lambda>c. c \<in> {CHR 0x5C, CHR ''?'', CHR ''#''}) value))"

text \<open>The shared shape \<open>value.map(str::trim).filter(nonempty).unwrap_or(default)\<close>.\<close>

definition trimmed_or :: "string option \<Rightarrow> string \<Rightarrow> string" where
  "trimmed_or value d =
     (case value of None \<Rightarrow> d | Some v \<Rightarrow> if trim v = [] then d else trim v)"

definition clean_hostlet_config_path :: "string option \<Rightarrow> string + string" where
  "clean_hostlet_config_path value0 =
     (let value = trimmed_or value0 ''hostlet.yml'' in
      if valid_relative_file_path value \<and> (ends_with value ''.yml'' \<or> ends_with value ''.yaml'')
      then Inr value
      else Inl ''Hostlet config path must be a relative .yml or .yaml file'')"

subsection \<open>Environment variables\<close>

definition valid_env_key :: "string \<Rightarrow> bool" where
  "valid_env_key key \<longleftrightarrow>
     key \<noteq> [] \<and> length key \<le> 128
     \<and> list_all (\<lambda>c. is_ascii_uppercase c \<or> is_ascii_digit c \<or> c = CHR ''_'') key"

definition valid_env_value :: "string \<Rightarrow> bool" where
  "valid_env_value value \<longleftrightarrow> length value \<le> 65536"

fun validate_env_pairs_from :: "string list \<Rightarrow> (string \<times> string) list \<Rightarrow> string + unit" where
  "validate_env_pairs_from keys [] = Inr ()"
| "validate_env_pairs_from keys ((key, value) # pairs) =
     (if \<not> valid_env_key key then Inl ''invalid env var key''
      else if \<not> valid_env_value value then Inl ''env var value is too large''
      else if key \<in> set keys then Inl ''env var keys must be unique''
      else validate_env_pairs_from (key # keys) pairs)"

definition validate_env_pairs :: "(string \<times> string) list \<Rightarrow> string + unit" where
  "validate_env_pairs pairs = validate_env_pairs_from [] pairs"

definition dangerous_host_process_env_key :: "string \<Rightarrow> bool" where
  "dangerous_host_process_env_key key \<longleftrightarrow>
     key \<in> set [''PATH'', ''HOME'', ''IFS'', ''CDPATH'', ''ENV'', ''BASH_ENV'', ''SHELLOPTS'',
       ''GLOBIGNORE'', ''RUSTC_WRAPPER'', ''RUSTFLAGS'', ''CARGO'', ''CARGO_HOME'',
       ''RUSTUP_HOME'', ''DOCKER_CONFIG'', ''DOCKER_CONTEXT'', ''DOCKER_HOST'', ''DOCKER_TLS'',
       ''DOCKER_TLS_VERIFY'', ''DOCKER_CERT_PATH'', ''BUILDKIT_HOST'', ''COMPOSE_FILE'',
       ''COMPOSE_PROJECT_NAME'', ''COMPOSE_PROFILES'', ''COMPOSE_ENV_FILES'']
     \<or> starts_with key ''LD_'' \<or> starts_with key ''DYLD_'' \<or> starts_with key ''COMPOSE_''"

definition valid_host_process_env_key :: "string \<Rightarrow> bool" where
  "valid_host_process_env_key key \<longleftrightarrow> valid_env_key key \<and> \<not> dangerous_host_process_env_key key"

subsection \<open>Names and slugs\<close>

definition valid_app_name :: "string \<Rightarrow> bool" where
  "valid_app_name value \<longleftrightarrow>
     value \<noteq> [] \<and> length value \<le> 80
     \<and> list_all (\<lambda>c. is_ascii_alphanumeric c \<or> c \<in> {CHR ''-'', CHR ''_'', CHR '' ''}) value"

definition valid_container_name :: "string \<Rightarrow> bool" where
  "valid_container_name value \<longleftrightarrow>
     starts_with value ''hostlet-'' \<and> length value \<le> 128
     \<and> list_all (\<lambda>c. is_ascii_alphanumeric c \<or> c \<in> {CHR ''-'', CHR ''_'', CHR ''.''}) value"

text \<open>
  \<open>chars().map\<close> maps one character to one character; a character outside ASCII becomes a single
  \<open>-\<close>, so its continuation bytes disappear.
\<close>

definition app_slug :: "string \<Rightarrow> string" where
  "app_slug value =
     (let slug = trim_matches_char (CHR ''-'')
        (map (\<lambda>c. if is_ascii_alphanumeric c then to_ascii_lowercase c else CHR ''-'')
           (filter (\<lambda>c. \<not> is_continuation c) (trim value))) in
      if slug = [] then ''app'' else slug)"

subsection \<open>Commands and choices\<close>

definition clean_optional :: "string option \<Rightarrow> string option" where
  "clean_optional value =
     (case value of None \<Rightarrow> None | Some v \<Rightarrow> if trim v = [] then None else Some (trim v))"

definition command_error :: string where
  "command_error =
     ''commands cannot contain newlines, NUL bytes, or more than 500 characters''"

definition clean_command :: "string option \<Rightarrow> string + string option" where
  "clean_command value0 =
     (case clean_optional value0 of
        None \<Rightarrow> Inr None
      | Some value \<Rightarrow>
          if 500 < length value \<or> list_ex (\<lambda>c. c \<in> {CHR 0x0A, CHR 0x0D, CHR 0x00}) value
          then Inl command_error else Inr (Some value))"

definition clean_optional_command :: "string option option \<Rightarrow> string + string option option" where
  "clean_optional_command field =
     (case field of
        Some (Some value) \<Rightarrow>
          (case clean_command (Some value) of Inl e \<Rightarrow> Inl e | Inr c \<Rightarrow> Inr (Some c))
      | Some None \<Rightarrow> Inr (Some None)
      | None \<Rightarrow> Inr None)"

definition clean_runtime_kind :: "string option \<Rightarrow> string + string" where
  "clean_runtime_kind value0 =
     (let value = trimmed_or value0 ''single'' in
      if value = ''single'' \<or> value = ''compose'' then Inr value
      else Inl ''runtime kind must be single or compose'')"

definition clean_packaging_strategy :: "string option \<Rightarrow> string + string" where
  "clean_packaging_strategy value0 =
     (let value = trimmed_or value0 ''auto'' in
      if value = ''auto'' \<or> value = ''dockerfile'' \<or> value = ''generated'' then Inr value
      else Inl ''packaging strategy must be auto, dockerfile, or generated'')"

subsection \<open>Repository inputs, commits, versions, limits\<close>

definition parse_owner_repo :: "string \<Rightarrow> string option" where
  "parse_owner_repo value =
     (case filter (\<lambda>part. part \<noteq> []) (split_char (CHR ''/'') value) of
        [owner, repo] \<Rightarrow>
          if \<not> valid_repo_part owner \<or> \<not> valid_repo_part repo then None
          else Some (owner @ ''/'' @ repo)
      | _ \<Rightarrow> None)"

text \<open>\<open>trim_end_matches(".git")\<close> removes the suffix as often as it occurs.\<close>

fun trim_end_git_rev :: "string \<Rightarrow> string" where
  "trim_end_git_rev (a # b # c # d # s) =
     (if a = CHR ''t'' \<and> b = CHR ''i'' \<and> c = CHR ''g'' \<and> d = CHR ''.'' then trim_end_git_rev s
      else a # b # c # d # s)"
| "trim_end_git_rev s = s"

text \<open>
  \<open>url::Url::parse\<close> is library code: the parameter gives the host and the path of an input it
  accepts, \<open>None\<close> for one it rejects.
\<close>

definition parse_github_repo ::
    "(string \<Rightarrow> (string option \<times> string) option) \<Rightarrow> string \<Rightarrow> string option" where
  "parse_github_repo url_parse input =
     (let trimmed = rev (trim_end_git_rev (rev (trim input))) in
      case Option.bind (strip_prefix trimmed ''git@github.com:'') parse_owner_repo of
        Some repo \<Rightarrow> Some repo
      | None \<Rightarrow>
        (case url_parse trimmed of
           Some (host, path) \<Rightarrow>
             (case host of
                None \<Rightarrow> None
              | Some h \<Rightarrow> if h \<noteq> ''github.com'' then None
                          else parse_owner_repo (trim_start_char (CHR ''/'') path))
         | None \<Rightarrow> parse_owner_repo trimmed))"

definition valid_commit_sha :: "string \<Rightarrow> bool" where
  "valid_commit_sha value \<longleftrightarrow>
     length value = 40 \<and> list_all is_ascii_hexdigit value
     \<and> \<not> list_all (\<lambda>c. c = CHR ''0'') value"

definition version_parts :: "string \<Rightarrow> nat \<times> nat \<times> nat" where
  "version_parts value =
     (let parts = map (\<lambda>part. case parse_u64 part of None \<Rightarrow> 0 | Some n \<Rightarrow> n)
        (split_char (CHR ''.'') (trim_start_char (CHR ''v'') value));
        nth_or = (\<lambda>i. if i < length parts then parts ! i else 0) in
      (nth_or 0, nth_or 1, nth_or 2))"

definition version_is_newer :: "string \<Rightarrow> string \<Rightarrow> bool" where
  "version_is_newer current latest \<longleftrightarrow> version_parts current < version_parts latest"

definition valid_memory_limit :: "int option \<Rightarrow> bool" where
  "valid_memory_limit value = (case value of None \<Rightarrow> True | Some v \<Rightarrow> 64 \<le> v \<and> v \<le> 262144)"

lemmas contract_defs [str_simps] = repo_char_def valid_repo_part_def valid_repo_full_name_def
  valid_branch_def valid_hostname_def valid_domain_def domain_host_def valid_health_path_def
  valid_root_directory_def valid_relative_file_path_def trimmed_or_def valid_env_key_def
  valid_env_value_def validate_env_pairs_def valid_container_name_def valid_app_name_def

section \<open>Paths stay below the directory they are resolved in\<close>

text \<open>
  What a file system does with the components of a relative path: \<open>..\<close> goes to the parent, \<open>.\<close>
  and the empty component stay, anything else descends.
\<close>

fun walk :: "string list \<Rightarrow> string list \<Rightarrow> string list" where
  "walk dir [] = dir"
| "walk dir (p # ps) =
     walk (if p = ''..'' then butlast dir else if p = [] \<or> p = ''.'' then dir else dir @ [p]) ps"

lemma walk_below: "''..'' \<notin> set ps \<Longrightarrow> prefix dir (walk dir ps)"
proof (induction ps arbitrary: dir)
  case (Cons p ps)
  have "prefix (if p = [] \<or> p = ''.'' then dir else dir @ [p])
      (walk (if p = [] \<or> p = ''.'' then dir else dir @ [p]) ps)"
    using Cons by auto
  moreover have "prefix dir (if p = [] \<or> p = ''.'' then dir else dir @ [p])"
    by simp
  ultimately have "prefix dir (walk (if p = [] \<or> p = ''.'' then dir else dir @ [p]) ps)"
    by (rule prefix_order.trans [rotated])
  with Cons.prems show ?case by (simp split: if_splits)
qed simp

lemma relative_file_path_is_root_directory:
  "valid_relative_file_path v \<Longrightarrow> valid_root_directory v"
  by (auto simp: valid_relative_file_path_def valid_root_directory_def Let_def list_ex_iff)

lemma root_directory_components:
  "valid_root_directory v \<Longrightarrow> ''..'' \<notin> set (split_char (CHR ''/'') (trim v))"
  by (auto simp: valid_root_directory_def Let_def list_ex_iff)

section \<open>Slugs\<close>

definition slug_char :: "char \<Rightarrow> bool" where
  "slug_char c \<longleftrightarrow> is_ascii_lowercase c \<or> is_ascii_digit c \<or> c = CHR ''-''"

definition well_formed_slug :: "string \<Rightarrow> bool" where
  "well_formed_slug s \<longleftrightarrow> s \<noteq> [] \<and> list_all slug_char s \<and> hd s \<noteq> CHR ''-'' \<and> last s \<noteq> CHR ''-''"

lemma byte_less: "byte c < 256"
  by (simp add: byte_def)

lemma lowercase_is_slug: "is_ascii_alphanumeric c \<Longrightarrow> slug_char (to_ascii_lowercase c)"
  by (auto simp: slug_char_def to_ascii_lowercase_def is_ascii_alphanumeric_def
      is_ascii_uppercase_def is_ascii_lowercase_def is_ascii_digit_def byte_def)

lemma trim_matches_set: "set (trim_matches_char sep s) \<subseteq> set s"
  unfolding trim_matches_char_def using set_dropWhileD by (metis set_rev subsetI)

lemma trim_matches_ends:
  assumes "trim_matches_char sep s \<noteq> []"
  shows "hd (trim_matches_char sep s) \<noteq> sep \<and> last (trim_matches_char sep s) \<noteq> sep"
proof -
  let ?t = "dropWhile (\<lambda>c. c = sep) s"
  let ?u = "dropWhile (\<lambda>c. c = sep) (rev ?t)"
  have u: "?u \<noteq> []" using assms by (simp add: trim_matches_char_def)
  have hdu: "hd ?u \<noteq> sep" by (rule hd_dropWhile [OF u])
  have "?t \<noteq> []" using u by (metis dropWhile.simps(1) rev.simps(1))
  have split: "?t = rev ?u @ rev (takeWhile (\<lambda>c. c = sep) (rev ?t))"
    by (metis rev_append rev_rev_ident takeWhile_dropWhile_id)
  have "hd ?t = hd (rev ?u)"
    using u by (subst split, intro hd_append2) (simp only: rev_is_Nil_conv not_False_eq_True)
  moreover have "hd ?t \<noteq> sep" by (rule hd_dropWhile [OF \<open>?t \<noteq> []\<close>])
  ultimately show ?thesis using u hdu by (simp add: trim_matches_char_def last_rev)
qed

lemma app_slug_well_formed: "well_formed_slug (app_slug value)"
proof -
  let ?m = "map (\<lambda>c. if is_ascii_alphanumeric c then to_ascii_lowercase c else CHR ''-'')
      (filter (\<lambda>c. \<not> is_continuation c) (trim value))"
  let ?s = "trim_matches_char (CHR ''-'') ?m"
  have all: "slug_char c" if "c \<in> set ?s" for c
  proof -
    from that have "c \<in> set ?m" using trim_matches_set by blast
    then show ?thesis by (auto simp: lowercase_is_slug) (simp_all add: slug_char_def)
  qed
  show ?thesis
  proof (cases "?s = []")
    case True
    then show ?thesis
      by (simp add: app_slug_def Let_def well_formed_slug_def slug_char_def char_defs)
  next
    case False
    then show ?thesis using all trim_matches_ends [OF False]
      by (simp add: app_slug_def Let_def well_formed_slug_def list_all_iff)
  qed
qed

lemma trim_start_id:
  assumes "s = [] \<or> (\<not> ws1 (byte (hd s)) \<and> byte (hd s) < 128)"
  shows "trim_start s = s"
  using assms by (cases s rule: trim_start.cases) (auto simp: ws2_def ws3_def)

lemma trim_rev_id:
  assumes "s = [] \<or> (\<not> ws1 (byte (hd s)) \<and> byte (hd s) < 128)"
  shows "trim_rev s = s"
  using assms by (cases s rule: trim_rev.cases) (auto simp: ws2_def ws3_def)

lemma trim_id:
  assumes "s \<noteq> []" "\<not> ws1 (byte (hd s))" "byte (hd s) < 128"
    "\<not> ws1 (byte (last s))" "byte (last s) < 128"
  shows "trim s = s"
  using assms by (simp add: trim_def trim_end_def trim_start_id trim_rev_id hd_rev)

lemma slug_char_ascii: "slug_char c \<Longrightarrow> \<not> ws1 (byte c) \<and> byte c < 128 \<and> \<not> is_continuation c"
  by (auto simp: slug_char_def is_ascii_lowercase_def is_ascii_digit_def ws1_def byte_def
      is_continuation_def)

lemma slug_char_fixed:
  "slug_char c \<Longrightarrow> (if is_ascii_alphanumeric c then to_ascii_lowercase c else CHR ''-'') = c"
  by (auto simp: slug_char_def to_ascii_lowercase_def is_ascii_alphanumeric_def
      is_ascii_uppercase_def is_ascii_lowercase_def is_ascii_digit_def byte_def)

lemma trim_matches_id:
  "s \<noteq> [] \<Longrightarrow> hd s \<noteq> sep \<Longrightarrow> last s \<noteq> sep \<Longrightarrow> trim_matches_char sep s = s"
proof -
  assume a: "s \<noteq> []" "hd s \<noteq> sep" "last s \<noteq> sep"
  then have "dropWhile (\<lambda>c. c = sep) s = s" by (cases s) auto
  moreover have "dropWhile (\<lambda>c. c = sep) (rev s) = rev s"
    using a by (cases s rule: rev_cases) auto
  ultimately show ?thesis by (simp add: trim_matches_char_def)
qed

lemma app_slug_fixpoint:
  assumes "well_formed_slug s"
  shows "app_slug s = s"
proof -
  from assms have ne: "s \<noteq> []" and all: "\<forall>c \<in> set s. slug_char c"
    and ends: "hd s \<noteq> CHR ''-''" "last s \<noteq> CHR ''-''"
    by (auto simp: well_formed_slug_def list_all_iff)
  have "trim s = s"
    using ne all slug_char_ascii by (intro trim_id) auto
  moreover have "filter (\<lambda>c. \<not> is_continuation c) s = s"
    using all slug_char_ascii by (simp add: filter_id_conv)
  moreover have "map (\<lambda>c. if is_ascii_alphanumeric c then to_ascii_lowercase c else CHR ''-'') s = s"
    using all slug_char_fixed by (intro map_idI) blast
  ultimately show ?thesis
    using ne trim_matches_id [OF ne ends] by (simp add: app_slug_def Let_def)
qed

text \<open>
  C40: a slug is a label.  Whatever the name of an app was, its slug is a non-empty string of lowercase
  letters, digits and hyphens that neither begins nor ends with a hyphen, and a slug is its own slug.
\<close>

theorem app_slug_type: "well_formed_slug (app_slug value) \<and> app_slug (app_slug value) = app_slug value"
  using app_slug_well_formed app_slug_fixpoint by blast

section \<open>Repository names\<close>

lemma repo_char_no_slash: "list_all repo_char p \<Longrightarrow> CHR ''/'' \<notin> set p"
  by (auto simp: list_all_iff repo_char_def char_defs)

lemma valid_repo_part_no_slash: "valid_repo_part p \<Longrightarrow> CHR ''/'' \<notin> set p"
  by (simp add: valid_repo_part_def repo_char_no_slash)

lemma split_two:
  "CHR ''/'' \<notin> set a \<Longrightarrow> CHR ''/'' \<notin> set b \<Longrightarrow> split_char (CHR ''/'') (a @ ''/'' @ b) = [a, b]"
  using split_join [of "[a, b]" "CHR ''/''"] by fastforce

lemma valid_repo_full_name_iff:
  "valid_repo_full_name v \<longleftrightarrow>
    (\<exists>owner repo. v = owner @ ''/'' @ repo \<and> valid_repo_part owner \<and> valid_repo_part repo)"
proof
  assume v: "valid_repo_full_name v"
  then obtain owner repo where s: "split_char (CHR ''/'') v = [owner, repo]"
    by (auto simp: valid_repo_full_name_def split: list.splits)
  have "v = owner @ ''/'' @ repo"
    using join_split [of "CHR ''/''" v] by (simp add: s)
  moreover have "valid_repo_part owner \<and> valid_repo_part repo"
    using v s by (simp add: valid_repo_full_name_def valid_repo_part_def)
  ultimately show "\<exists>owner repo. v = owner @ ''/'' @ repo \<and> valid_repo_part owner
      \<and> valid_repo_part repo" by blast
next
  assume "\<exists>owner repo. v = owner @ ''/'' @ repo \<and> valid_repo_part owner \<and> valid_repo_part repo"
  then obtain owner repo where v: "v = owner @ ''/'' @ repo"
    and p: "valid_repo_part owner" "valid_repo_part repo" by blast
  have "split_char (CHR ''/'') v = [owner, repo]"
    unfolding v by (rule split_two) (use p valid_repo_part_no_slash in blast)+
  with p show "valid_repo_full_name v"
    by (simp add: valid_repo_full_name_def valid_repo_part_def)
qed

lemma parse_owner_repo_valid: "parse_owner_repo v = Some r \<Longrightarrow> valid_repo_full_name r"
  by (auto simp: parse_owner_repo_def valid_repo_full_name_iff split: list.splits if_splits)

lemma parse_owner_repo_fixpoint:
  assumes "valid_repo_full_name v"
  shows "parse_owner_repo v = Some v"
proof -
  from assms obtain owner repo where v: "v = owner @ ''/'' @ repo"
    and p: "valid_repo_part owner" "valid_repo_part repo"
    by (auto simp: valid_repo_full_name_iff)
  have "split_char (CHR ''/'') v = [owner, repo]"
    unfolding v by (rule split_two) (use p valid_repo_part_no_slash in blast)+
  moreover have "owner \<noteq> []" "repo \<noteq> []" using p by (auto simp: valid_repo_part_def)
  ultimately show ?thesis using p by (simp add: parse_owner_repo_def v)
qed

section \<open>Environment variables\<close>

lemma validate_env_pairs_from_iff:
  "validate_env_pairs_from keys pairs = Inr () \<longleftrightarrow>
     (\<forall>(k, v) \<in> set pairs. valid_env_key k \<and> valid_env_value v)
     \<and> distinct (map fst pairs) \<and> set (map fst pairs) \<inter> set keys = {}"
  by (induction keys pairs rule: validate_env_pairs_from.induct) auto

section \<open>Domains\<close>

lemma valid_hostname_no_colon: "valid_hostname v \<Longrightarrow> CHR '':'' \<notin> set v"
proof
  assume v: "valid_hostname v" and c: "CHR '':'' \<in> set v"
  have "set v \<subseteq> insert (CHR ''.'') (\<Union>p \<in> set (split_char (CHR ''.'') v). set p)"
  proof -
    have "set (join_char s ps) \<subseteq> insert s (\<Union>p \<in> set ps. set p)" for s ps
      by (induction s ps rule: join_char.induct) auto
    then show ?thesis by (metis join_split)
  qed
  with c obtain p where "p \<in> set (split_char (CHR ''.'') v)" "CHR '':'' \<in> set p" by auto
  moreover have "list_all (\<lambda>c. is_ascii_alphanumeric c \<or> c = CHR ''-'') p"
    using v calculation(1) by (auto simp: valid_hostname_def list_all_iff)
  moreover have "\<not> is_ascii_alphanumeric (CHR '':'')" by (simp add: char_defs)
  ultimately show False by (auto simp: list_all_iff)
qed

end
