(* ===== verification/Candidate.thy ===== *)
theory Candidate
  imports Store Contract_Names
begin

text \<open>
  The runtime facts an agent reports before a route may change (\<open>CandidateRuntime\<close> and
  \<open>DeploymentServiceReport\<close> of \<open>crates/contracts\<close>) and their JSON form: \<open>prepare_activation\<close> stores
  the candidate in \<open>agent_jobs.result_json\<close> with \<open>serde_json::to_value\<close> and \<open>commit_activation\<close>
  reads it back with \<open>serde_json::from_value\<close>.
\<close>

record service_report =
  sr_name :: string
  sr_role :: string
  sr_container_name :: "string option"
  sr_image_tag :: "string option"
  sr_target_port :: "int option"
  sr_published_port :: "int option"
  sr_status :: "string option"
  sr_health_status :: "string option"

record candidate_runtime =
  cr_container_name :: string
  cr_published_port :: int
  cr_image_tag :: "string option"
  cr_compose_project :: "string option"
  cr_runtime_metadata :: json
  cr_services :: "service_report list"

definition in_i32 :: "int \<Rightarrow> bool" where
  "in_i32 n \<longleftrightarrow> - 2147483648 \<le> n \<and> n \<le> 2147483647"

section \<open>Encoding\<close>

definition enc_opt_int :: "int option \<Rightarrow> json" where
  "enc_opt_int v = (case v of None \<Rightarrow> JNull | Some n \<Rightarrow> JInt n)"

definition service_report_to_json :: "service_report \<Rightarrow> json" where
  "service_report_to_json s = JObj
     [(''name'', JStr (sr_name s)), (''role'', JStr (sr_role s)),
      (''containerName'', json_opt_str (sr_container_name s)),
      (''imageTag'', json_opt_str (sr_image_tag s)),
      (''targetPort'', enc_opt_int (sr_target_port s)),
      (''publishedPort'', enc_opt_int (sr_published_port s)),
      (''status'', json_opt_str (sr_status s)),
      (''healthStatus'', json_opt_str (sr_health_status s))]"

definition candidate_to_json :: "candidate_runtime \<Rightarrow> json" where
  "candidate_to_json c = JObj
     [(''containerName'', JStr (cr_container_name c)),
      (''publishedPort'', JInt (cr_published_port c)),
      (''imageTag'', json_opt_str (cr_image_tag c)),
      (''composeProject'', json_opt_str (cr_compose_project c)),
      (''runtimeMetadata'', cr_runtime_metadata c),
      (''services'', JArr (map service_report_to_json (cr_services c)))]"

section \<open>Decoding\<close>

definition dec_i32 :: "json \<Rightarrow> int option" where
  "dec_i32 v = (case v of JInt n \<Rightarrow> if in_i32 n then Some n else None | _ \<Rightarrow> None)"

text \<open>A missing or \<open>null\<close> field of type \<open>Option\<close> decodes to \<open>None\<close>; a required one must be there.\<close>

definition dec_opt :: "(json \<Rightarrow> 'a option) \<Rightarrow> json \<Rightarrow> string \<Rightarrow> 'a option option" where
  "dec_opt dec v k =
     (case json_get v k of
        None \<Rightarrow> Some None
      | Some JNull \<Rightarrow> Some None
      | Some x \<Rightarrow> map_option Some (dec x))"

definition dec_req :: "(json \<Rightarrow> 'a option) \<Rightarrow> json \<Rightarrow> string \<Rightarrow> 'a option" where
  "dec_req dec v k = Option.bind (json_get v k) dec"

definition service_report_from_json :: "json \<Rightarrow> service_report option" where
  "service_report_from_json v =
     (case (dec_req as_str v ''name'', dec_req as_str v ''role'',
            dec_opt as_str v ''containerName'', dec_opt as_str v ''imageTag'',
            dec_opt dec_i32 v ''targetPort'', dec_opt dec_i32 v ''publishedPort'',
            dec_opt as_str v ''status'', dec_opt as_str v ''healthStatus'') of
        (Some n, Some r, Some c, Some i, Some t, Some p, Some s, Some h) \<Rightarrow>
          Some \<lparr> sr_name = n, sr_role = r, sr_container_name = c, sr_image_tag = i,
            sr_target_port = t, sr_published_port = p, sr_status = s, sr_health_status = h \<rparr>
      | _ \<Rightarrow> None)"

definition dec_services :: "json \<Rightarrow> service_report list option" where
  "dec_services v =
     (case json_get v ''services'' of
        None \<Rightarrow> Some []
      | Some (JArr xs) \<Rightarrow> those (map service_report_from_json xs)
      | Some _ \<Rightarrow> None)"

definition candidate_from_json :: "json \<Rightarrow> candidate_runtime option" where
  "candidate_from_json v =
     (case (dec_req as_str v ''containerName'', dec_req dec_i32 v ''publishedPort'',
            dec_opt as_str v ''imageTag'', dec_opt as_str v ''composeProject'',
            dec_services v) of
        (Some c, Some p, Some i, Some cp, Some ss) \<Rightarrow>
          Some \<lparr> cr_container_name = c, cr_published_port = p, cr_image_tag = i,
            cr_compose_project = cp,
            cr_runtime_metadata = (case json_get v ''runtimeMetadata'' of None \<Rightarrow> JNull | Some m \<Rightarrow> m),
            cr_services = ss \<rparr>
      | _ \<Rightarrow> None)"

section \<open>What survives of a reported service\<close>

text \<open>\<open>DEPLOYMENT_SERVICE_REPORT_MAX\<close> and the filter of \<open>commit_activation\<close>.\<close>

definition deployment_service_report_max :: nat where
  "deployment_service_report_max = 64"

definition skip_service :: "service_report \<Rightarrow> bool" where
  "skip_service s \<longleftrightarrow>
     sr_name s = [] \<or> 64 < length (sr_name s)
     \<or> \<not> (sr_role s = ''web'' \<or> sr_role s = ''backing'')
     \<or> (case sr_container_name s of None \<Rightarrow> False | Some n \<Rightarrow> \<not> valid_container_name n)"

section \<open>The round trip\<close>

definition service_in_range :: "service_report \<Rightarrow> bool" where
  "service_in_range s \<longleftrightarrow> (\<forall>p. sr_target_port s = Some p \<longrightarrow> in_i32 p)
     \<and> (\<forall>p. sr_published_port s = Some p \<longrightarrow> in_i32 p)"

lemma dec_opt_str:
  "json_get v k = Some (json_opt_str s) \<Longrightarrow> dec_opt as_str v k = Some s"
  by (cases s) (simp_all add: dec_opt_def json_opt_str_def)

lemma dec_opt_int:
  "json_get v k = Some (enc_opt_int n) \<Longrightarrow> (\<And>p. n = Some p \<Longrightarrow> in_i32 p) \<Longrightarrow> dec_opt dec_i32 v k = Some n"
  by (cases n) (simp_all add: dec_opt_def enc_opt_int_def dec_i32_def)

lemma service_report_roundtrip:
  assumes "service_in_range s"
  shows "service_report_from_json (service_report_to_json s) = Some s"
proof -
  let ?v = "service_report_to_json s"
  have "dec_opt as_str ?v ''containerName'' = Some (sr_container_name s)"
    "dec_opt as_str ?v ''imageTag'' = Some (sr_image_tag s)"
    "dec_opt as_str ?v ''status'' = Some (sr_status s)"
    "dec_opt as_str ?v ''healthStatus'' = Some (sr_health_status s)"
    by (simp_all add: dec_opt_str service_report_to_json_def json_get_def)
  moreover have "dec_opt dec_i32 ?v ''targetPort'' = Some (sr_target_port s)"
    "dec_opt dec_i32 ?v ''publishedPort'' = Some (sr_published_port s)"
    using assms by (auto intro!: dec_opt_int simp: service_report_to_json_def json_get_def
        service_in_range_def)
  moreover have "dec_req as_str ?v ''name'' = Some (sr_name s)"
    "dec_req as_str ?v ''role'' = Some (sr_role s)"
    by (simp_all add: dec_req_def service_report_to_json_def json_get_def)
  ultimately show ?thesis by (simp add: service_report_from_json_def)
qed

lemma those_map_roundtrip:
  "(\<And>x. x \<in> set xs \<Longrightarrow> f (g x) = Some x) \<Longrightarrow> those (map f (map g xs)) = Some xs"
  by (induction xs) auto

lemma candidate_roundtrip_helper:
  assumes "in_i32 (cr_published_port c)" "list_all service_in_range (cr_services c)"
  shows "candidate_from_json (candidate_to_json c) = Some c"
proof -
  let ?v = "candidate_to_json c"
  have "dec_opt as_str ?v ''imageTag'' = Some (cr_image_tag c)"
    "dec_opt as_str ?v ''composeProject'' = Some (cr_compose_project c)"
    by (simp_all add: dec_opt_str candidate_to_json_def json_get_def)
  moreover have "those (map service_report_from_json (map service_report_to_json (cr_services c)))
      = Some (cr_services c)"
    by (rule those_map_roundtrip) (use assms(2) service_report_roundtrip in \<open>auto simp: list_all_iff\<close>)
  then have "dec_services ?v = Some (cr_services c)"
    by (simp add: dec_services_def candidate_to_json_def json_get_def)
  moreover have "dec_req as_str ?v ''containerName'' = Some (cr_container_name c)"
    "dec_req dec_i32 ?v ''publishedPort'' = Some (cr_published_port c)"
    "json_get ?v ''runtimeMetadata'' = Some (cr_runtime_metadata c)"
    using assms(1) by (simp_all add: dec_req_def candidate_to_json_def json_get_def dec_i32_def)
  ultimately show ?thesis by (simp add: candidate_from_json_def)
qed

end
