(* ===== verification/Job_Insert.thy ===== *)
theory Job_Insert
  imports Store
begin

text \<open>
  Creating a row of \<open>agent_jobs\<close> (\<open>apps/api/src/deploy/agent_jobs.rs\<close>): the protocol version a
  job needs from the agent that runs it, and the insertion itself.
\<close>

definition required_protocol_version :: "string \<Rightarrow> json \<Rightarrow> int" where
  "required_protocol_version job_type payload =
     (if job_type = ''build'' \<or> job_type = ''release'' then 6
      else if job_type = ''suspend_app'' \<or> job_type = ''resume_app''
        \<or> job_type = ''stop_previous_deployment'' then 4
      else if job_type = ''deploy''
        \<and> json_pointer payload [''runtime_config'', ''generatedTopology''] \<noteq> None then 3
      else if job_type = ''rollback''
        \<and> (json_pointer payload
              [''target_runtime_metadata'', ''inferenceReceipt'', ''schemaVersion''] \<noteq> None
           \<or> Option.bind (json_pointer payload [''target_runtime_metadata'', ''runtime'']) as_str
              = Some ''generated_topology'') then 3
      else if job_type = ''deploy'' \<or> job_type = ''rollback'' then 2
      else 1)"

text \<open>\<open>DEPLOYMENT_PROTOCOL_VERSION\<close> of \<open>crates/contracts/src/protocol.rs\<close>.\<close>

definition deployment_protocol_version :: int where
  "deployment_protocol_version = 6"

definition new_agent_job :: "timestamp \<Rightarrow> uuid \<Rightarrow> uuid \<Rightarrow> uuid option \<Rightarrow> uuid option \<Rightarrow> string
    \<Rightarrow> json \<Rightarrow> int \<Rightarrow> job_row" where
  "new_agent_job t job_id server_id app_id deployment_id job_type payload priority =
     (default_job t job_id)\<lparr> j_server_id := Some server_id, j_app_id := app_id,
        j_deployment_id := deployment_id, j_job_type := job_type, j_status := J_Queued,
        j_payload := payload, j_priority := priority,
        j_protocol_version := required_protocol_version job_type payload \<rparr>"

definition insert_agent_job_in_transaction :: "timestamp \<Rightarrow> uuid \<Rightarrow> uuid \<Rightarrow> uuid option
    \<Rightarrow> uuid option \<Rightarrow> string \<Rightarrow> json \<Rightarrow> int \<Rightarrow> db \<Rightarrow> db" where
  "insert_agent_job_in_transaction t job_id server_id app_id deployment_id job_type payload
     priority = agent_jobs_update (\<lambda>js. js @ [new_agent_job t job_id server_id app_id
       deployment_id job_type payload priority])"

lemma required_protocol_version_bounds:
  "1 \<le> required_protocol_version t p" "required_protocol_version t p \<le> deployment_protocol_version"
  by (auto simp: required_protocol_version_def deployment_protocol_version_def)

lemma new_agent_job_simps [simp]:
  "j_id (new_agent_job t i s a d ty p pr) = i"
  "j_server_id (new_agent_job t i s a d ty p pr) = Some s"
  "j_app_id (new_agent_job t i s a d ty p pr) = a"
  "j_deployment_id (new_agent_job t i s a d ty p pr) = d"
  "j_job_type (new_agent_job t i s a d ty p pr) = ty"
  "j_status (new_agent_job t i s a d ty p pr) = J_Queued"
  "j_payload (new_agent_job t i s a d ty p pr) = p"
  "j_priority (new_agent_job t i s a d ty p pr) = pr"
  "j_cancel_requested_at (new_agent_job t i s a d ty p pr) = None"
  "j_claim_token (new_agent_job t i s a d ty p pr) = None"
  "j_lease_expires_at (new_agent_job t i s a d ty p pr) = None"
  "j_protocol_version (new_agent_job t i s a d ty p pr) = required_protocol_version ty p"
  by (simp_all add: new_agent_job_def default_job_def)

lemma insert_agent_job_frame [simp]:
  "deployments (insert_agent_job_in_transaction t i s a d ty p pr db) = deployments db"
  "apps (insert_agent_job_in_transaction t i s a d ty p pr db) = apps db"
  "servers (insert_agent_job_in_transaction t i s a d ty p pr db) = servers db"
  "deployment_builds (insert_agent_job_in_transaction t i s a d ty p pr db) = deployment_builds db"
  "app_suspensions (insert_agent_job_in_transaction t i s a d ty p pr db) = app_suspensions db"
  "audit_events (insert_agent_job_in_transaction t i s a d ty p pr db) = audit_events db"
  "deployment_services (insert_agent_job_in_transaction t i s a d ty p pr db) =
     deployment_services db"
  "app_compose_runtime (insert_agent_job_in_transaction t i s a d ty p pr db) =
     app_compose_runtime db"
  by (simp_all add: insert_agent_job_in_transaction_def)

lemma agent_jobs_insert [simp]:
  "agent_jobs (insert_agent_job_in_transaction t i s a d ty p pr db) =
     agent_jobs db @ [new_agent_job t i s a d ty p pr]"
  by (simp add: insert_agent_job_in_transaction_def)

end
