(* ===== verification/Browser_Health.thy ===== *)
theory Browser_Health
  imports Store
begin

text \<open>
  \<open>apps/api/src/browser_health.rs\<close>: the app-keyed health rows that an activation resets and that
  the result of a browser smoke job updates.
\<close>

definition reset_for_activation :: "uuid \<Rightarrow> db \<Rightarrow> db" where
  "reset_for_activation app_id db =
     db\<lparr> app_health_snapshots := delete_where (\<lambda>h. h_app_id h = app_id) (app_health_snapshots db),
         app_browser_health := delete_where (\<lambda>w. w_app_id w = app_id) (app_browser_health db) \<rparr>"

definition combined_status :: "string \<Rightarrow> string option \<Rightarrow> string" where
  "combined_status http_status browser_status =
     (if http_status = ''unhealthy'' then ''unhealthy''
      else if http_status = ''degraded'' then ''degraded''
      else if http_status = ''healthy''
        \<and> (browser_status = Some ''pending'' \<or> browser_status = Some ''failed'') then ''degraded''
      else http_status)"

text \<open>
  \<open>INSERT .. ON CONFLICT (app_id) DO UPDATE .. WHERE app_browser_health.deployment_id =
  EXCLUDED.deployment_id\<close>: a row of another deployment is left alone.
\<close>

definition upsert_browser :: "browser_row \<Rightarrow> browser_row list \<Rightarrow> browser_row list" where
  "upsert_browser row rows =
     (if exists_where (\<lambda>w. w_app_id w = w_app_id row) rows
      then update_where (\<lambda>w. w_app_id w = w_app_id row
             \<and> w_deployment_id w \<noteq> None \<and> w_deployment_id w = w_deployment_id row)
           (\<lambda>_. row) rows
      else rows @ [row])"

definition mark_pending :: "world \<Rightarrow> uuid \<Rightarrow> uuid \<Rightarrow> db \<Rightarrow> db" where
  "mark_pending w app_id deployment_id db =
     (case find_app app_id db of
        None \<Rightarrow> db
      | Some a \<Rightarrow>
          if \<not> a_public_exposure a \<or> a_current_deployment_id a \<noteq> Some deployment_id then db
          else db\<lparr> app_browser_health := upsert_browser
            \<lparr> w_app_id = app_id, w_deployment_id = Some deployment_id, w_status = ''pending'',
              w_failure = None, w_checked_at = None, w_updated_at = tx_now w \<rparr>
            (app_browser_health db) \<rparr>)"

definition record_job_result :: "world \<Rightarrow> string \<Rightarrow> uuid option \<Rightarrow> uuid option \<Rightarrow> string
    \<Rightarrow> string option \<Rightarrow> db \<Rightarrow> db" where
  "record_job_result w job_type app_id0 deployment_id0 job_status failure0 db =
     (if job_type \<noteq> ''browser_smoke'' then db
      else case (app_id0, deployment_id0) of
        (Some app_id, Some deployment_id) \<Rightarrow>
          (let status = (if job_status = ''success'' then ''ready'' else ''failed'');
               failure = (if status = ''failed''
                          then coalesce failure0 (Some ''Browser check did not complete.'')
                          else None) in
           case find_app app_id db of
             None \<Rightarrow> db
           | Some a \<Rightarrow>
               if a_current_deployment_id a \<noteq> Some deployment_id then db
               else db\<lparr> app_browser_health := upsert_browser
                 \<lparr> w_app_id = app_id, w_deployment_id = Some deployment_id, w_status = status,
                   w_failure = failure, w_checked_at = Some (tx_now w), w_updated_at = tx_now w \<rparr>
                 (app_browser_health db) \<rparr>)
      | _ \<Rightarrow> db)"

lemma reset_for_activation_frame [simp]:
  "agent_jobs (reset_for_activation i db) = agent_jobs db"
  "deployments (reset_for_activation i db) = deployments db"
  "apps (reset_for_activation i db) = apps db"
  "servers (reset_for_activation i db) = servers db"
  "deployment_builds (reset_for_activation i db) = deployment_builds db"
  "app_suspensions (reset_for_activation i db) = app_suspensions db"
  "deployment_services (reset_for_activation i db) = deployment_services db"
  "app_compose_runtime (reset_for_activation i db) = app_compose_runtime db"
  "audit_events (reset_for_activation i db) = audit_events db"
  by (simp_all add: reset_for_activation_def)

lemma record_job_result_frame [simp]:
  "agent_jobs (record_job_result w t a d s f db) = agent_jobs db"
  "deployments (record_job_result w t a d s f db) = deployments db"
  "apps (record_job_result w t a d s f db) = apps db"
  "servers (record_job_result w t a d s f db) = servers db"
  "deployment_builds (record_job_result w t a d s f db) = deployment_builds db"
  "app_suspensions (record_job_result w t a d s f db) = app_suspensions db"
  by (auto simp: record_job_result_def Let_def split: option.splits)

lemma mark_pending_frame [simp]:
  "agent_jobs (mark_pending w a d db) = agent_jobs db"
  "deployments (mark_pending w a d db) = deployments db"
  "apps (mark_pending w a d db) = apps db"
  "app_suspensions (mark_pending w a d db) = app_suspensions db"
  by (auto simp: mark_pending_def split: option.splits)

end
