(* ===== verification/Activation.thy ===== *)
theory Activation
  imports Candidate Job_Insert Browser_Health
begin

text \<open>
  The transactional deployment protocol of \<open>apps/api/src/deployment_execution.rs\<close>: the lease
  heartbeat of a running job, the preparation of an activation (which allocates a route
  generation) and its commit (which makes the deployment current).  Each handler is one
  transaction: it returns the response and the committed database, which is the old one whenever
  the handler returns before \<open>commit\<close>.  Route generations, \<open>i64\<close> in the
  source and one step up per activation, are unbounded here.  The numbers given to \<open>fault\<close> and \<open>clock\<close> count the
  database calls of the handler.
\<close>

section \<open>Shared parts\<close>

definition lease_minutes :: nat where
  "lease_minutes = 5"

text \<open>
  \<open>lock_activation_rows\<close>: \<open>Inl ()\<close> is \<open>Err\<close>, \<open>Inr None\<close> a deployment that is not this server's.
\<close>

definition lock_activation_rows :: "world \<Rightarrow> uuid \<Rightarrow> uuid \<Rightarrow> uuid \<Rightarrow> db \<Rightarrow> unit + uuid option" where
  "lock_activation_rows w deployment_id job_id server_id db =
     (if fault w 1 then Inl ()
      else case find_deployment deployment_id db of
        None \<Rightarrow> Inr None
      | Some d \<Rightarrow>
          if d_server_id d \<noteq> server_id then Inr None
          else if fault w 2 \<or> \<not> lock_app (d_app_id d) db
            \<or> fault w 3 \<or> \<not> lock_deployment deployment_id (d_app_id d) db
            \<or> fault w 4 \<or> \<not> lock_job job_id (Some (d_app_id d)) (Some deployment_id) db
          then Inl ()
          else Inr (Some (d_app_id d)))"

text \<open>The join of deployment, app and job that both activation handlers select.\<close>

definition activation_row ::
    "uuid \<Rightarrow> uuid \<Rightarrow> uuid \<Rightarrow> db \<Rightarrow> (deployment_row \<times> app_row \<times> job_row) option" where
  "activation_row job_id deployment_id server_id db =
     (case find_deployment deployment_id db of
        None \<Rightarrow> None
      | Some d \<Rightarrow>
        (case (find_app (d_app_id d) db, find_job job_id db) of
           (Some a, Some j) \<Rightarrow>
             if d_server_id d = server_id \<and> j_deployment_id j = Some deployment_id
               \<and> j_server_id j = Some server_id
             then Some (d, a, j) else None
         | _ \<Rightarrow> None))"

section \<open>Heartbeat\<close>

record heartbeat_request =
  hb_claim_token :: uuid
  hb_phase :: deployment_status

record heartbeat_receipt =
  hr_cancel_requested :: bool
  hr_lease_expires_at :: "timestamp option"

definition heartbeat_guard :: "world \<Rightarrow> uuid \<Rightarrow> uuid \<Rightarrow> uuid \<Rightarrow> job_row \<Rightarrow> bool" where
  "heartbeat_guard w job_id server_id token j \<longleftrightarrow>
     j_id j = job_id \<and> j_server_id j = Some server_id \<and> j_claim_token j = Some token
     \<and> job_leased (j_status j) \<and> ts_gt (j_lease_expires_at j) (clock w 4)"

definition heartbeat_set :: "world \<Rightarrow> job_row \<Rightarrow> job_row" where
  "heartbeat_set w j = j\<lparr> j_status := J_Running, j_updated_at := tx_now w,
     j_lease_expires_at := (if j_cancel_requested_at j = None
        then Some (tx_now w + minutes lease_minutes) else j_lease_expires_at j) \<rparr>"

definition heartbeat_deployment_set ::
    "world \<Rightarrow> deployment_status \<Rightarrow> deployment_row \<Rightarrow> deployment_row" where
  "heartbeat_deployment_set w phase d = d\<lparr>
     d_status := (if phase = D_Running \<and> d_status d \<noteq> D_Queued then d_status d else phase),
     d_last_heartbeat_at := Some (tx_now w) \<rparr>"

definition heartbeat_deployment :: "world \<Rightarrow> uuid \<Rightarrow> deployment_status \<Rightarrow> uuid \<Rightarrow> db \<Rightarrow> db" where
  "heartbeat_deployment w server_id phase deployment_id =
     update_deployments (\<lambda>d. d_id d = deployment_id \<and> d_server_id d = server_id
       \<and> active_status (d_status d)) (heartbeat_deployment_set w phase)"

definition heartbeat :: "world \<Rightarrow> uuid option \<Rightarrow> uuid \<Rightarrow> heartbeat_request \<Rightarrow> db
    \<Rightarrow> heartbeat_receipt response \<times> db" where
  "heartbeat w auth job_id request db =
     (case auth of
        None \<Rightarrow> (Code UNAUTHORIZED, db)
      | Some server_id \<Rightarrow>
        if \<not> active_status (hb_phase request)
        then (Text BAD_REQUEST ''invalid active deployment phase'', db)
        else if fault w 0 \<or> fault w 1 then (Code INTERNAL_SERVER_ERROR, db)
        else case find (\<lambda>j. j_id j = job_id \<and> j_server_id j = Some server_id
            \<and> j_claim_token j = Some (hb_claim_token request)) (agent_jobs db) of
          None \<Rightarrow> (Code CONFLICT, db)
        | Some ids \<Rightarrow>
          if (case j_app_id ids of
                None \<Rightarrow> False
              | Some app_id \<Rightarrow> fault w 2 \<or> \<not> lock_app app_id db
                  \<or> (case j_deployment_id ids of
                       None \<Rightarrow> False
                     | Some deployment_id \<Rightarrow>
                         fault w 3 \<or> \<not> lock_deployment deployment_id app_id db))
          then (Code CONFLICT, db)
          else if fault w 4 then (Code CONFLICT, db)
          else case find (heartbeat_guard w job_id server_id (hb_claim_token request))
              (agent_jobs db) of
            None \<Rightarrow> (Code CONFLICT, db)
          | Some j \<Rightarrow>
            (let db1 = update_jobs (heartbeat_guard w job_id server_id (hb_claim_token request))
                   (heartbeat_set w) db;
                 touch = j_cancel_requested_at j = None \<and> j_deployment_id j \<noteq> None;
                 db2 = (if touch
                   then heartbeat_deployment w server_id (hb_phase request)
                          (the (j_deployment_id j)) db1
                   else db1) in
             if touch \<and> fault w 5 then (Code INTERNAL_SERVER_ERROR, db)
             else if fault w 6 then (Code INTERNAL_SERVER_ERROR, db)
             else (Reply \<lparr> hr_cancel_requested = j_cancel_requested_at j \<noteq> None,
                     hr_lease_expires_at = j_lease_expires_at (heartbeat_set w j) \<rparr>, db2)))"

section \<open>Preparing an activation\<close>

record prepare_request =
  pr_job_id :: uuid
  pr_claim_token :: uuid
  pr_expected_current_deployment_id :: "uuid option"
  pr_candidate :: candidate_runtime

text \<open>The unique index \<open>idx_apps_one_pending_activation\<close> over \<open>apps(pending_deployment_id)\<close>.\<close>

definition pending_taken :: "uuid \<Rightarrow> uuid \<Rightarrow> db \<Rightarrow> bool" where
  "pending_taken app_id deployment_id db =
     exists_where (\<lambda>a. a_id a \<noteq> app_id \<and> a_pending_deployment_id a = Some deployment_id) (apps db)"

definition prepare_app :: "world \<Rightarrow> uuid \<Rightarrow> uuid \<Rightarrow> int \<Rightarrow> db \<Rightarrow> db" where
  "prepare_app w app_id deployment_id generation =
     update_apps (\<lambda>a. a_id a = app_id)
       (\<lambda>a. a\<lparr> a_pending_deployment_id := Some deployment_id, a_route_generation := generation,
              a_updated_at := tx_now w \<rparr>)"

definition prepare_deployment :: "world \<Rightarrow> uuid \<Rightarrow> uuid option \<Rightarrow> int \<Rightarrow> candidate_runtime
    \<Rightarrow> db \<Rightarrow> db" where
  "prepare_deployment w deployment_id current generation c =
     update_deployments (\<lambda>d. d_id d = deployment_id \<and> active_status (d_status d))
       (\<lambda>d. d\<lparr> d_status := D_Routing, d_expected_current_deployment_id := current,
              d_activation_generation := Some generation, d_last_heartbeat_at := Some (tx_now w),
              d_image_tag := coalesce (cr_image_tag c) (d_image_tag d),
              d_container_name := Some (cr_container_name c),
              d_published_port := Some (cr_published_port c),
              d_compose_project := coalesce (cr_compose_project c) (d_compose_project d),
              d_runtime_metadata := cr_runtime_metadata c \<rparr>)"

definition prepare_job :: "world \<Rightarrow> uuid \<Rightarrow> candidate_runtime \<Rightarrow> db \<Rightarrow> db" where
  "prepare_job w job_id c =
     update_jobs (\<lambda>j. j_id j = job_id)
       (\<lambda>j. j\<lparr> j_result := Some (candidate_to_json c), j_updated_at := tx_now w \<rparr>)"

definition prepare_effect :: "world \<Rightarrow> uuid \<Rightarrow> uuid \<Rightarrow> uuid \<Rightarrow> prepare_request \<Rightarrow> uuid option
    \<Rightarrow> int \<Rightarrow> db \<Rightarrow> db" where
  "prepare_effect w server_id app_id deployment_id request current generation db =
     audit (tx_now w) ''agent'' (Some (uuid_text w server_id)) ''deployment_activation_prepared''
       (Some app_id) (Some deployment_id) (Some (pr_job_id request))
       (JObj [(''routeGeneration'', JInt generation)])
       (prepare_job w (pr_job_id request) (pr_candidate request)
         (prepare_deployment w deployment_id current generation (pr_candidate request)
           (prepare_app w app_id deployment_id generation db)))"

definition prepare_activation :: "world \<Rightarrow> uuid option \<Rightarrow> uuid \<Rightarrow> prepare_request \<Rightarrow> db
    \<Rightarrow> int response \<times> db" where
  "prepare_activation w auth deployment_id request db =
     (case auth of
        None \<Rightarrow> (Code UNAUTHORIZED, db)
      | Some server_id \<Rightarrow>
        if fault w 0 then (Code INTERNAL_SERVER_ERROR, db)
        else case lock_activation_rows w deployment_id (pr_job_id request) server_id db of
          Inl _ \<Rightarrow> (Code CONFLICT, db)
        | Inr None \<Rightarrow> (Code CONFLICT, db)
        | Inr (Some _) \<Rightarrow>
          if fault w 5 then (Code CONFLICT, db)
          else case activation_row (pr_job_id request) deployment_id server_id db of
            None \<Rightarrow> (Code CONFLICT, db)
          | Some (d, a, j) \<Rightarrow>
            if \<not> (j_claim_token j = Some (pr_claim_token request) \<and> job_leased (j_status j)
                 \<and> ts_gt (j_lease_expires_at j) (clock w 5))
            then (Code CONFLICT, db)
            else if j_cancel_requested_at j \<noteq> None
            then (Text CONFLICT ''deployment cancellation was requested'', db)
            else if a_suspended_at a \<noteq> None then (Text CONFLICT ''app is paused'', db)
            else if a_current_deployment_id a \<noteq> pr_expected_current_deployment_id request
            then (Text CONFLICT ''current deployment changed'', db)
            else if a_pending_deployment_id a \<noteq> None
              \<and> a_pending_deployment_id a \<noteq> Some deployment_id
            then (Text CONFLICT ''another activation is pending'', db)
            else
              (let generation = (if a_pending_deployment_id a = Some deployment_id
                     then a_route_generation a else a_route_generation a + 1) in
               if fault w 6 \<or> pending_taken (a_id a) deployment_id db
                 \<or> fault w 7 \<or> fault w 8 \<or> fault w 9 \<or> fault w 10
               then (Code INTERNAL_SERVER_ERROR, db)
               else (Reply generation,
                     prepare_effect w server_id (a_id a) deployment_id request
                       (a_current_deployment_id a) generation db)))"

section \<open>Stopping the superseded runtime\<close>

definition cancel_queued_stops :: "world \<Rightarrow> uuid \<Rightarrow> db \<Rightarrow> db" where
  "cancel_queued_stops w app_id =
     update_jobs (\<lambda>j. j_app_id j = Some app_id \<and> j_job_type j = ''stop_previous_deployment''
         \<and> j_status j = J_Queued)
       (\<lambda>j. j\<lparr> j_status := J_Cancelled,
              j_failure_summary := Some ''Superseded by a newer activation decision.'',
              j_payload := JObj [], j_updated_at := tx_now w, j_finished_at := Some (tx_now w) \<rparr>)"

definition stop_payload :: "world \<Rightarrow> string \<Rightarrow> uuid \<Rightarrow> uuid \<Rightarrow> string \<Rightarrow> string option \<Rightarrow> int \<Rightarrow> int
    \<Rightarrow> string \<Rightarrow> string \<Rightarrow> json" where
  "stop_payload w kind app_id deployment_id container_name compose_project container_port
     published_port health_path domain = JObj
     [(''type'', JStr kind), (''app_id'', JStr (uuid_text w app_id)),
      (''deployment_id'', JStr (uuid_text w deployment_id)),
      (''container_name'', JStr container_name),
      (''compose_project'', json_opt_str compose_project),
      (''container_port'', JInt container_port), (''published_port'', JInt published_port),
      (''health_path'', JStr health_path), (''domain'', JStr domain),
      (''route_key'', JStr (''app-'' @ uuid_text w app_id))]"

text \<open>\<open>None\<close> is \<open>Err\<close>.  The delayed job is \<open>fresh w 0\<close>.\<close>

definition schedule_previous_runtime_stop :: "world \<Rightarrow> uuid \<Rightarrow> uuid \<Rightarrow> uuid option \<Rightarrow> uuid
    \<Rightarrow> db \<Rightarrow> db option" where
  "schedule_previous_runtime_stop w server_id app_id previous new_deployment_id db =
     (if fault w 82 then None
      else let db1 = cancel_queued_stops w app_id db in
        case previous of
          None \<Rightarrow> Some db1
        | Some previous_id \<Rightarrow>
          if previous_id = new_deployment_id then Some db1
          else if fault w 83 then None
          else case (find_deployment previous_id db1, find_app app_id db1) of
            (Some d, Some a) \<Rightarrow>
              if d_app_id d \<noteq> app_id \<or> d_server_id d \<noteq> server_id then Some db1
              else (case (d_container_name d, d_published_port d) of
                (Some container_name, Some published_port) \<Rightarrow>
                  if fault w 84 \<or> fault w 85 then None
                  else Some (update_jobs (\<lambda>j. j_id j = fresh w 0)
                    (\<lambda>j. j\<lparr> j_available_at := tx_now w + minutes 15 \<rparr>)
                    (insert_agent_job_in_transaction (tx_now w) (fresh w 0) server_id
                      (Some app_id) (Some previous_id) ''stop_previous_deployment''
                      (stop_payload w ''stop_previous_deployment'' app_id previous_id
                        container_name (d_compose_project d) (a_container_port a) published_port
                        (a_health_path a) (a_domain a)) 20 db1))
              | _ \<Rightarrow> Some db1)
          | _ \<Rightarrow> Some db1)"

section \<open>Committing an activation\<close>

record commit_request =
  cm_job_id :: uuid
  cm_claim_token :: uuid
  cm_route_generation :: int
  cm_local_url :: "string option"
  cm_runtime_metadata :: "json option"
  cm_rolled_back :: bool

definition terminal_status :: "commit_request \<Rightarrow> deployment_status" where
  "terminal_status request = (if cm_rolled_back request then D_RolledBack else D_Success)"

definition commit_job_guard :: "world \<Rightarrow> uuid \<Rightarrow> commit_request \<Rightarrow> job_row \<Rightarrow> bool" where
  "commit_job_guard w server_id request j \<longleftrightarrow>
     j_id j = cm_job_id request \<and> j_server_id j = Some server_id \<and> job_leased (j_status j)
     \<and> j_claim_token j = Some (cm_claim_token request)
     \<and> ts_gt (j_lease_expires_at j) (clock w 6) \<and> j_cancel_requested_at j = None"

definition commit_job :: "world \<Rightarrow> uuid \<Rightarrow> commit_request \<Rightarrow> db \<Rightarrow> db" where
  "commit_job w server_id request =
     update_jobs (commit_job_guard w server_id request)
       (\<lambda>j. j\<lparr> j_status := J_Success, j_payload := scrub (j_payload j),
              j_lease_expires_at := None, j_updated_at := tx_now w,
              j_finished_at := Some (tx_now w) \<rparr>)"

definition commit_app_guard :: "uuid \<Rightarrow> uuid \<Rightarrow> int \<Rightarrow> app_row \<Rightarrow> bool" where
  "commit_app_guard app_id deployment_id generation a \<longleftrightarrow>
     a_id a = app_id \<and> a_pending_deployment_id a = Some deployment_id
     \<and> a_route_generation a = generation"

definition commit_app :: "world \<Rightarrow> uuid \<Rightarrow> uuid \<Rightarrow> commit_request \<Rightarrow> db \<Rightarrow> db" where
  "commit_app w app_id deployment_id request =
     update_apps (commit_app_guard app_id deployment_id (cm_route_generation request))
       (\<lambda>a. a\<lparr> a_current_deployment_id := Some deployment_id, a_pending_deployment_id := None,
              a_domain := (case cm_local_url request of None \<Rightarrow> a_domain a | Some u \<Rightarrow> u),
              a_updated_at := tx_now w \<rparr>)"

definition commit_deployment :: "world \<Rightarrow> uuid \<Rightarrow> commit_request \<Rightarrow> db \<Rightarrow> db" where
  "commit_deployment w deployment_id request =
     update_deployments (\<lambda>d. d_id d = deployment_id \<and> active_status (d_status d))
       (\<lambda>d. d\<lparr> d_status := terminal_status request, d_failure_summary := None,
              d_failure_code := None,
              d_runtime_metadata := (case cm_runtime_metadata request of
                 None \<Rightarrow> d_runtime_metadata d | Some m \<Rightarrow> m),
              d_finished_at := Some (tx_now w), d_last_heartbeat_at := Some (tx_now w) \<rparr>)"

text \<open>The service rows: \<open>UNIQUE(deployment_id, service_name)\<close> makes a second insertion fail.\<close>

definition service_exists :: "uuid \<Rightarrow> string \<Rightarrow> service_row list \<Rightarrow> bool" where
  "service_exists deployment_id name rows =
     exists_where (\<lambda>v. v_deployment_id v = deployment_id \<and> v_service_name v = name) rows"

definition service_of_report :: "uuid \<Rightarrow> uuid \<Rightarrow> service_report \<Rightarrow> service_row" where
  "service_of_report deployment_id app_id s = \<lparr> v_deployment_id = deployment_id,
     v_app_id = app_id, v_service_name = sr_name s, v_role = sr_role s,
     v_container_name = sr_container_name s, v_image_tag = sr_image_tag s,
     v_target_port = sr_target_port s, v_published_port = sr_published_port s,
     v_status = sr_status s, v_health_status = sr_health_status s,
     v_last_checked_at = None, v_last_healthy_at = None \<rparr>"

fun insert_reported_services :: "world \<Rightarrow> nat \<Rightarrow> uuid \<Rightarrow> uuid \<Rightarrow> service_report list
    \<Rightarrow> service_row list \<Rightarrow> service_row list option" where
  "insert_reported_services w k deployment_id app_id [] rows = Some rows"
| "insert_reported_services w k deployment_id app_id (s # ss) rows =
     (if skip_service s then insert_reported_services w (Suc k) deployment_id app_id ss rows
      else if fault w k \<or> service_exists deployment_id (sr_name s) rows then None
      else insert_reported_services w (Suc k) deployment_id app_id ss
             (rows @ [service_of_report deployment_id app_id s]))"

definition copy_services :: "uuid \<Rightarrow> uuid \<Rightarrow> uuid \<Rightarrow> service_row list \<Rightarrow> service_row list option" where
  "copy_services deployment_id app_id target rows =
     (let copies = map (\<lambda>v. v\<lparr> v_deployment_id := deployment_id, v_app_id := app_id,
            v_last_checked_at := None \<rparr>) (filter (\<lambda>v. v_deployment_id v = target) rows) in
      if list_ex (\<lambda>v. service_exists deployment_id (v_service_name v) rows) copies then None
      else Some (rows @ copies))"

definition upsert_compose_runtime ::
    "compose_runtime_row \<Rightarrow> compose_runtime_row list \<Rightarrow> compose_runtime_row list" where
  "upsert_compose_runtime row rows =
     (if exists_where (\<lambda>c. c_app_id c = c_app_id row) rows
      then update_where (\<lambda>c. c_app_id c = c_app_id row) (\<lambda>_. row) rows
      else rows @ [row])"

definition rollback_target :: "world \<Rightarrow> commit_request \<Rightarrow> candidate_runtime \<Rightarrow> uuid option" where
  "rollback_target w request c =
     (if cm_rolled_back request
      then Option.bind (get_str (cr_runtime_metadata c) ''rollbackTargetDeploymentId'')
             (parse_uuid w)
      else None)"

definition stable_compose :: "candidate_runtime \<Rightarrow> (string \<times> string) option" where
  "stable_compose c =
     (case (get_str (cr_runtime_metadata c) ''stableProject'',
            get_str (cr_runtime_metadata c) ''backingSpecHash'') of
        (Some project, Some hash) \<Rightarrow> Some (project, hash)
      | _ \<Rightarrow> None)"

text \<open>The inventory part of the commit, done only when the stored candidate decodes.\<close>

definition commit_inventory :: "world \<Rightarrow> uuid \<Rightarrow> uuid \<Rightarrow> commit_request \<Rightarrow> candidate_runtime
    \<Rightarrow> db \<Rightarrow> db option" where
  "commit_inventory w app_id deployment_id request c db =
     (if fault w 12 then None
      else case insert_reported_services w 13 deployment_id app_id
          (take deployment_service_report_max (cr_services c))
          (delete_where (\<lambda>v. v_deployment_id v = deployment_id) (deployment_services db)) of
        None \<Rightarrow> None
      | Some rows1 \<Rightarrow>
        (case (case rollback_target w request c of
                 None \<Rightarrow> Some rows1
               | Some target \<Rightarrow>
                   if fault w 80 then None else copy_services deployment_id app_id target rows1) of
           None \<Rightarrow> None
         | Some rows2 \<Rightarrow>
           (case stable_compose c of
              None \<Rightarrow> Some (db\<lparr> deployment_services := rows2 \<rparr>)
            | Some (project, hash) \<Rightarrow>
                if fault w 81 then None
                else Some (db\<lparr> deployment_services := rows2,
                  app_compose_runtime := upsert_compose_runtime
                    \<lparr> c_app_id = app_id, c_stable_project = project,
                      c_stable_network = project @ ''_default'',
                      c_backing_spec_hash = Some hash, c_backing_status = ''ready'',
                      c_last_applied_deployment_id = Some deployment_id,
                      c_updated_at = tx_now w \<rparr> (app_compose_runtime db) \<rparr>))))"

definition commit_replay :: "uuid \<Rightarrow> commit_request \<Rightarrow> deployment_row \<Rightarrow> app_row \<Rightarrow> job_row \<Rightarrow> bool" where
  "commit_replay deployment_id request d a j \<longleftrightarrow>
     d_status d = terminal_status request \<and> j_status j = J_Success
     \<and> a_current_deployment_id a = Some deployment_id
     \<and> j_claim_token j = Some (cm_claim_token request)
     \<and> a_route_generation a = cm_route_generation request"

definition commit_effect :: "world \<Rightarrow> uuid \<Rightarrow> uuid \<Rightarrow> uuid \<Rightarrow> commit_request \<Rightarrow> db \<Rightarrow> db" where
  "commit_effect w server_id app_id deployment_id request db =
     audit (tx_now w) ''agent'' (Some (uuid_text w server_id)) ''deployment_activation_committed''
       (Some app_id) (Some deployment_id) (Some (cm_job_id request))
       (JObj [(''routeGeneration'', JInt (cm_route_generation request))])
       (commit_deployment w deployment_id request
         (reset_for_activation app_id
           (commit_app w app_id deployment_id request
             (commit_job w server_id request db))))"

text \<open>
  The tail of the transaction, after the three rows have been switched: inventory, delayed stop,
  \<open>commit\<close>.
\<close>

definition commit_finish :: "world \<Rightarrow> uuid \<Rightarrow> uuid \<Rightarrow> uuid \<Rightarrow> commit_request \<Rightarrow> uuid option
    \<Rightarrow> candidate_runtime option \<Rightarrow> db \<Rightarrow> db option" where
  "commit_finish w server_id app_id deployment_id request previous candidate db =
     (case (case candidate of
              None \<Rightarrow> Some db
            | Some c \<Rightarrow> commit_inventory w app_id deployment_id request c db) of
        None \<Rightarrow> None
      | Some db1 \<Rightarrow>
        (case schedule_previous_runtime_stop w server_id app_id previous deployment_id db1 of
           None \<Rightarrow> None
         | Some db2 \<Rightarrow> if fault w 90 then None else Some db2))"

definition commit_activation :: "world \<Rightarrow> uuid option \<Rightarrow> uuid \<Rightarrow> commit_request \<Rightarrow> db
    \<Rightarrow> unit response \<times> db" where
  "commit_activation w auth deployment_id request db =
     (case auth of
        None \<Rightarrow> (Code UNAUTHORIZED, db)
      | Some server_id \<Rightarrow>
        if fault w 0 then (Code INTERNAL_SERVER_ERROR, db)
        else case lock_activation_rows w deployment_id (cm_job_id request) server_id db of
          Inl _ \<Rightarrow> (Code INTERNAL_SERVER_ERROR, db)
        | Inr None \<Rightarrow> (Code NOT_FOUND, db)
        | Inr (Some _) \<Rightarrow>
          if fault w 5 then (Code NOT_FOUND, db)
          else case activation_row (cm_job_id request) deployment_id server_id db of
            None \<Rightarrow> (Code NOT_FOUND, db)
          | Some (d, a, j) \<Rightarrow>
            if commit_replay deployment_id request d a j then (Code NO_CONTENT, db)
            else if \<not> job_leased (j_status j) then (Text CONFLICT ''job is no longer active'', db)
            else if j_claim_token j \<noteq> Some (cm_claim_token request)
              \<or> a_pending_deployment_id a \<noteq> Some deployment_id
              \<or> a_route_generation a \<noteq> cm_route_generation request
            then (Code CONFLICT, db)
            else if j_cancel_requested_at j \<noteq> None
            then (Text CONFLICT ''deployment cancellation was requested'', db)
            else if a_suspended_at a \<noteq> None then (Text CONFLICT ''app is paused'', db)
            else if \<not> ts_gt (j_lease_expires_at j) (clock w 5)
            then (Text CONFLICT ''job lease has expired'', db)
            else if fault w 6 then (Code INTERNAL_SERVER_ERROR, db)
            else if count_where (commit_job_guard w server_id request) (agent_jobs db) \<noteq> 1
            then (Text CONFLICT ''activation authority expired'', db)
            else if fault w 7 then (Code INTERNAL_SERVER_ERROR, db)
            else if count_where (commit_app_guard (a_id a) deployment_id
                (cm_route_generation request)) (apps db) \<noteq> 1
            then (Text CONFLICT ''pending activation changed'', db)
            else if fault w 8 \<or> fault w 9 \<or> fault w 10 then (Code INTERNAL_SERVER_ERROR, db)
            else if count_where (\<lambda>d. d_id d = deployment_id \<and> active_status (d_status d))
                (deployments db) \<noteq> 1
            then (Text CONFLICT ''deployment activation changed'', db)
            else if fault w 11 then (Code INTERNAL_SERVER_ERROR, db)
            else case commit_finish w server_id (a_id a) deployment_id request
                (a_current_deployment_id a) (Option.bind (j_result j) candidate_from_json)
                (commit_effect w server_id (a_id a) deployment_id request db) of
              None \<Rightarrow> (Code INTERNAL_SERVER_ERROR, db)
            | Some db' \<Rightarrow> (Code NO_CONTENT, db'))"


section \<open>What a changed database says about the request\<close>

text \<open>
  The three handlers are long decision lists; each gets one elimination lemma that says what holds
  when the database changed.  Everything after rests on these.
\<close>

definition commit_authority :: "world \<Rightarrow> uuid \<Rightarrow> uuid \<Rightarrow> commit_request \<Rightarrow> db
    \<Rightarrow> deployment_row \<Rightarrow> app_row \<Rightarrow> job_row \<Rightarrow> bool" where
  "commit_authority w server_id deployment_id request db d a j \<longleftrightarrow>
     activation_row (cm_job_id request) deployment_id server_id db = Some (d, a, j)
     \<and> \<not> commit_replay deployment_id request d a j
     \<and> job_leased (j_status j) \<and> j_claim_token j = Some (cm_claim_token request)
     \<and> a_pending_deployment_id a = Some deployment_id
     \<and> a_route_generation a = cm_route_generation request
     \<and> j_cancel_requested_at j = None \<and> a_suspended_at a = None
     \<and> ts_gt (j_lease_expires_at j) (clock w 5)
     \<and> count_where (commit_job_guard w server_id request) (agent_jobs db) = 1
     \<and> count_where (commit_app_guard (a_id a) deployment_id (cm_route_generation request))
         (apps db) = 1
     \<and> count_where (\<lambda>d. d_id d = deployment_id \<and> active_status (d_status d)) (deployments db) = 1"

lemma commit_activation_elim:
  assumes "commit_activation w auth deployment_id request db = (r, db')"
  obtains (refused) "db' = db" "r \<noteq> Code NO_CONTENT"
  | (replayed) server_id d a j where "auth = Some server_id" "db' = db" "r = Code NO_CONTENT"
      "activation_row (cm_job_id request) deployment_id server_id db = Some (d, a, j)"
      "commit_replay deployment_id request d a j"
      "lock_activation_rows w deployment_id (cm_job_id request) server_id db \<noteq> Inl ()"
  | (committed) server_id d a j where "auth = Some server_id" "r = Code NO_CONTENT"
      "commit_authority w server_id deployment_id request db d a j"
      "commit_finish w server_id (a_id a) deployment_id request (a_current_deployment_id a)
         (Option.bind (j_result j) candidate_from_json)
         (commit_effect w server_id (a_id a) deployment_id request db) = Some db'"
      "lock_activation_rows w deployment_id (cm_job_id request) server_id db \<noteq> Inl ()"
  using assms unfolding commit_activation_def commit_authority_def
  by (fastforce split: option.splits sum.splits prod.splits if_splits)

definition prepare_authority :: "world \<Rightarrow> uuid \<Rightarrow> uuid \<Rightarrow> prepare_request \<Rightarrow> db
    \<Rightarrow> deployment_row \<Rightarrow> app_row \<Rightarrow> job_row \<Rightarrow> bool" where
  "prepare_authority w server_id deployment_id request db d a j \<longleftrightarrow>
     activation_row (pr_job_id request) deployment_id server_id db = Some (d, a, j)
     \<and> job_leased (j_status j) \<and> j_claim_token j = Some (pr_claim_token request)
     \<and> ts_gt (j_lease_expires_at j) (clock w 5)
     \<and> j_cancel_requested_at j = None \<and> a_suspended_at a = None
     \<and> a_current_deployment_id a = pr_expected_current_deployment_id request
     \<and> (a_pending_deployment_id a = None \<or> a_pending_deployment_id a = Some deployment_id)
     \<and> \<not> pending_taken (a_id a) deployment_id db"

definition prepared_generation :: "uuid \<Rightarrow> app_row \<Rightarrow> int" where
  "prepared_generation deployment_id a =
     (if a_pending_deployment_id a = Some deployment_id
      then a_route_generation a else a_route_generation a + 1)"

lemma prepare_activation_elim:
  assumes "prepare_activation w auth deployment_id request db = (r, db')"
  obtains (refused) "db' = db" "\<And>g. r \<noteq> Reply g"
  | (prepared) server_id d a j where "auth = Some server_id"
      "prepare_authority w server_id deployment_id request db d a j"
      "r = Reply (prepared_generation deployment_id a)"
      "db' = prepare_effect w server_id (a_id a) deployment_id request
         (a_current_deployment_id a) (prepared_generation deployment_id a) db"
  using assms unfolding prepare_activation_def prepare_authority_def prepared_generation_def Let_def
  by (fastforce split: option.splits sum.splits prod.splits if_splits)


section \<open>Frame facts of the statements\<close>

lemma activation_rowD:
  assumes "activation_row job_id deployment_id server_id db = Some (d, a, j)"
  shows "find_deployment deployment_id db = Some d" "d_id d = deployment_id"
    "find_app (d_app_id d) db = Some a" "a_id a = d_app_id d"
    "find_job job_id db = Some j" "j_id j = job_id" "d_server_id d = server_id"
    "j_deployment_id j = Some deployment_id" "j_server_id j = Some server_id"
  using assms by (auto simp: activation_row_def split: option.splits if_splits dest: find_row_SomeD)

lemma commit_inventory_frame:
  assumes "commit_inventory w i k request c db = Some db'"
  shows "agent_jobs db' = agent_jobs db" "deployments db' = deployments db" "apps db' = apps db"
    "servers db' = servers db" "app_suspensions db' = app_suspensions db"
    "deployment_builds db' = deployment_builds db"
  using assms by (auto simp: commit_inventory_def split: option.splits if_splits)

lemma schedule_stop_frame:
  assumes "schedule_previous_runtime_stop w s i p k db = Some db'"
  shows "deployments db' = deployments db" "apps db' = apps db" "servers db' = servers db"
    "app_suspensions db' = app_suspensions db" "deployment_builds db' = deployment_builds db"
    "deployment_services db' = deployment_services db"
    "app_compose_runtime db' = app_compose_runtime db"
  using assms by (auto simp: schedule_previous_runtime_stop_def cancel_queued_stops_def Let_def
      split: option.splits if_splits)

text \<open>
  The jobs after scheduling a stop: queued stops of the app are cancelled, at most one queued stop
  is appended, and nothing else happens to any row.
\<close>

definition stop_cancelled :: "world \<Rightarrow> uuid \<Rightarrow> job_row \<Rightarrow> job_row" where
  "stop_cancelled w app_id j =
     (if j_app_id j = Some app_id \<and> j_job_type j = ''stop_previous_deployment''
        \<and> j_status j = J_Queued
      then j\<lparr> j_status := J_Cancelled,
             j_failure_summary := Some ''Superseded by a newer activation decision.'',
             j_payload := JObj [], j_updated_at := tx_now w, j_finished_at := Some (tx_now w) \<rparr>
      else j)"

lemma cancel_queued_stops_jobs:
  "agent_jobs (cancel_queued_stops w i db) = map (stop_cancelled w i) (agent_jobs db)"
  by (simp add: cancel_queued_stops_def stop_cancelled_def update_where_def fun_eq_iff)

lemma schedule_stop_jobs:
  assumes "schedule_previous_runtime_stop w s i p k db = Some db'"
  obtains "agent_jobs db' = map (stop_cancelled w i) (agent_jobs db)"
  | d payload where "p \<noteq> Some k" "p = Some d"
    "agent_jobs db' = update_where (\<lambda>j. j_id j = fresh w 0)
       (\<lambda>j. j\<lparr> j_available_at := tx_now w + minutes 15 \<rparr>)
       (map (stop_cancelled w i) (agent_jobs db) @ [new_agent_job (tx_now w) (fresh w 0) s (Some i)
          (Some d) ''stop_previous_deployment'' payload 20])"
  using assms unfolding schedule_previous_runtime_stop_def Let_def
  by (auto simp: cancel_queued_stops_jobs split: option.splits if_splits)

lemma stop_cancelled_id [simp]: "j_id (stop_cancelled w i j) = j_id j"
  by (simp add: stop_cancelled_def)

lemma stop_cancelled_other: "j_status j \<noteq> J_Queued \<Longrightarrow> stop_cancelled w i j = j"
  by (simp add: stop_cancelled_def)

lemma schedule_stop_other_job:
  assumes "schedule_previous_runtime_stop w s i p k db = Some db'"
    "find_job job_id db = Some j" "j_status j \<noteq> J_Queued"
  obtains t where "find_job job_id db' = Some (j\<lparr> j_available_at := t \<rparr>)"
  using assms(1)
proof (cases rule: schedule_stop_jobs)
  case 1
  with assms(2,3) have "find_job job_id db' = Some (j\<lparr> j_available_at := j_available_at j \<rparr>)"
    by (simp add: find_row_map stop_cancelled_other)
  with that show ?thesis by blast
next
  case (2 d payload)
  with assms(2,3) have "find_job job_id db' = Some (j\<lparr> j_available_at :=
      if j_id j = fresh w 0 then tx_now w + minutes 15 else j_available_at j \<rparr>)"
    by (simp add: find_row_map find_row_update find_row_append stop_cancelled_other)
  with that show ?thesis by blast
qed

lemma commit_effect_frame [simp]:
  "servers (commit_effect w s i k r db) = servers db"
  "app_suspensions (commit_effect w s i k r db) = app_suspensions db"
  "deployment_builds (commit_effect w s i k r db) = deployment_builds db"
  "deployment_services (commit_effect w s i k r db) = deployment_services db"
  by (simp_all add: commit_effect_def commit_job_def commit_app_def commit_deployment_def)

lemma commit_finish_split:
  assumes "commit_finish w s i k request p c db = Some db'"
  obtains db1 where "agent_jobs db1 = agent_jobs db" "deployments db1 = deployments db"
    "apps db1 = apps db" "servers db1 = servers db" "app_suspensions db1 = app_suspensions db"
    "deployment_builds db1 = deployment_builds db"
    "schedule_previous_runtime_stop w s i p k db1 = Some db'"
proof (cases c)
  case None
  with assms that [of db] show ?thesis
    by (auto simp: commit_finish_def split: option.splits if_splits)
next
  case (Some c')
  with assms obtain db1 where "commit_inventory w i k request c' db = Some db1"
      "schedule_previous_runtime_stop w s i p k db1 = Some db'"
    by (auto simp: commit_finish_def split: option.splits if_splits)
  with that [of db1] show ?thesis by (simp add: commit_inventory_frame)
qed

lemma commit_job_guard_id: "commit_job_guard w s request j \<Longrightarrow> j_id j = cm_job_id request"
  by (simp add: commit_job_guard_def)

text \<open>The three rows a commit switches, after the commit.\<close>

lemma commit_rows:
  assumes auth: "commit_authority w s k request db d a j"
    and fin: "commit_finish w s (a_id a) k request p c (commit_effect w s (a_id a) k request db)
      = Some db'"
    and keys: "wf_keys db"
  obtains t where
    "find_app (a_id a) db' = Some (a\<lparr> a_current_deployment_id := Some k,
       a_pending_deployment_id := None,
       a_domain := (case cm_local_url request of None \<Rightarrow> a_domain a | Some u \<Rightarrow> u),
       a_updated_at := tx_now w \<rparr>)"
    "find_deployment k db' = Some (d\<lparr> d_status := terminal_status request,
       d_failure_summary := None, d_failure_code := None,
       d_runtime_metadata := (case cm_runtime_metadata request of
          None \<Rightarrow> d_runtime_metadata d | Some m \<Rightarrow> m),
       d_finished_at := Some (tx_now w), d_last_heartbeat_at := Some (tx_now w) \<rparr>)"
    "find_job (cm_job_id request) db' = Some (j\<lparr> j_status := J_Success,
       j_payload := scrub (j_payload j), j_lease_expires_at := None, j_updated_at := tx_now w,
       j_finished_at := Some (tx_now w), j_available_at := t \<rparr>)"
proof -
  let ?e = "commit_effect w s (a_id a) k request db"
  have row: "activation_row (cm_job_id request) k s db = Some (d, a, j)"
    using auth by (simp add: commit_authority_def)
  note rowD = activation_rowD [OF row]
  have app: "find_app (a_id a) db = Some a" using rowD by simp
  have ag: "commit_app_guard (a_id a) k (cm_route_generation request) a"
    using auth by (simp add: commit_authority_def commit_app_guard_def)
  have jg: "commit_job_guard w s request j"
    by (rule count_where_1_lookup [OF _ _ _ rowD(5)])
      (use auth keys in \<open>simp_all add: commit_authority_def wf_keys_def commit_job_guard_id\<close>)
  have "d_id d = k \<and> active_status (d_status d)"
    by (rule count_where_1_lookup [OF _ _ _ rowD(1)])
      (use auth keys in \<open>auto simp: commit_authority_def wf_keys_def\<close>)
  then have dg: "active_status (d_status d)" by simp
  obtain db1 where f: "agent_jobs db1 = agent_jobs ?e" "deployments db1 = deployments ?e"
      "apps db1 = apps ?e" "schedule_previous_runtime_stop w s (a_id a) p k db1 = Some db'"
    using commit_finish_split [OF fin] by metis
  have j1: "find_job (cm_job_id request) db1 = Some (j\<lparr> j_status := J_Success,
       j_payload := scrub (j_payload j), j_lease_expires_at := None, j_updated_at := tx_now w,
       j_finished_at := Some (tx_now w) \<rparr>)"
    using rowD jg by (simp add: f commit_effect_def commit_job_def commit_app_def
        commit_deployment_def find_row_update)
  have a1: "find_app (a_id a) db1 = Some (a\<lparr> a_current_deployment_id := Some k,
       a_pending_deployment_id := None,
       a_domain := (case cm_local_url request of None \<Rightarrow> a_domain a | Some u \<Rightarrow> u),
       a_updated_at := tx_now w \<rparr>)"
    using app ag by (simp add: f commit_effect_def commit_job_def commit_app_def
        commit_deployment_def find_row_update)
  have d1: "find_deployment k db1 = Some (d\<lparr> d_status := terminal_status request,
       d_failure_summary := None, d_failure_code := None,
       d_runtime_metadata := (case cm_runtime_metadata request of
          None \<Rightarrow> d_runtime_metadata d | Some m \<Rightarrow> m),
       d_finished_at := Some (tx_now w), d_last_heartbeat_at := Some (tx_now w) \<rparr>)"
    using rowD dg by (simp add: f commit_effect_def commit_job_def commit_app_def
        commit_deployment_def find_row_update)
  obtain t where "find_job (cm_job_id request) db' = Some ((j\<lparr> j_status := J_Success,
       j_payload := scrub (j_payload j), j_lease_expires_at := None, j_updated_at := tx_now w,
       j_finished_at := Some (tx_now w) \<rparr>)\<lparr> j_available_at := t \<rparr>)"
    by (rule schedule_stop_other_job [OF f(4) j1]) auto
  with a1 d1 that [of t] show ?thesis
    by (simp add: schedule_stop_frame(1,2) [OF f(4)])
qed

section \<open>Correctness of the commit\<close>

text \<open>
  C4: a commit changes the database only on current authority.  If it does, the caller is the
  server of the deployment, the job is this deployment's, leased to this claim token with a lease
  that both reads of the clock find current, neither cancelled nor of a paused app, the app waits
  for exactly this deployment at exactly this route generation and the deployment is not
  terminal.  In every other case, every error included, the database is as it was.
\<close>

theorem commit_needs_authority:
  assumes "commit_activation w auth deployment_id request db = (r, db')" "db' \<noteq> db" "wf_keys db"
  shows "\<exists>server_id d a j. auth = Some server_id \<and> r = Code NO_CONTENT
    \<and> find_deployment deployment_id db = Some d \<and> d_server_id d = server_id
    \<and> active_status (d_status d)
    \<and> find_app (d_app_id d) db = Some a \<and> a_suspended_at a = None
    \<and> a_pending_deployment_id a = Some deployment_id
    \<and> a_route_generation a = cm_route_generation request
    \<and> find_job (cm_job_id request) db = Some j \<and> j_server_id j = Some server_id
    \<and> j_deployment_id j = Some deployment_id \<and> job_leased (j_status j)
    \<and> j_claim_token j = Some (cm_claim_token request) \<and> j_cancel_requested_at j = None
    \<and> ts_gt (j_lease_expires_at j) (clock w 5) \<and> ts_gt (j_lease_expires_at j) (clock w 6)"
  using assms(1)
proof (cases rule: commit_activation_elim)
  case (committed s d a j)
  note A = committed(3) [unfolded commit_authority_def]
  note rowD = activation_rowD [OF A [THEN conjunct1]]
  have "commit_job_guard w s request j"
    by (rule count_where_1_lookup [OF _ _ _ rowD(5)])
      (use A assms(3) in \<open>simp_all add: wf_keys_def commit_job_guard_id\<close>)
  moreover have "d_id d = deployment_id \<and> active_status (d_status d)"
    by (rule count_where_1_lookup [OF _ _ _ rowD(1)]) (use A assms(3) in \<open>auto simp: wf_keys_def\<close>)
  ultimately have "ts_gt (j_lease_expires_at j) (clock w 6)" "active_status (d_status d)"
    by (simp_all add: commit_job_guard_def)
  with A rowD committed(1,2) show ?thesis by blast
qed (use assms(2) in auto)

text \<open>
  An acknowledged commit has happened.  Whenever the answer is \<open>204\<close> - for a first commit and
  for a repeated one - the deployment is the current one of its app, it has the terminal status of
  the request, and the job has succeeded under the claim token of the request.
\<close>

theorem commit_acknowledged:
  assumes "commit_activation w auth deployment_id request db = (Code NO_CONTENT, db')" "wf_keys db"
  shows "\<exists>d a j. find_deployment deployment_id db' = Some d
    \<and> d_status d = (if cm_rolled_back request then D_RolledBack else D_Success)
    \<and> find_app (d_app_id d) db' = Some a \<and> a_current_deployment_id a = Some deployment_id
    \<and> a_route_generation a = cm_route_generation request
    \<and> (db' \<noteq> db \<longrightarrow> a_pending_deployment_id a = None)
    \<and> find_job (cm_job_id request) db' = Some j \<and> j_status j = J_Success
    \<and> j_claim_token j = Some (cm_claim_token request)
    \<and> (db' \<noteq> db \<longrightarrow> \<not> has_secrets (j_payload j) \<and> j_lease_expires_at j = None)"
  using assms(1)
proof (cases rule: commit_activation_elim)
  case (replayed s d a j)
  then show ?thesis
    using activation_rowD [OF replayed(4)] by (auto simp: commit_replay_def terminal_status_def)
next
  case (committed s d a j)
  have row: "activation_row (cm_job_id request) deployment_id s db = Some (d, a, j)"
    "j_claim_token j = Some (cm_claim_token request)"
    "a_route_generation a = cm_route_generation request"
    using committed(3) by (simp_all add: commit_authority_def)
  show ?thesis
    by (rule commit_rows [OF committed(3,4) assms(2)])
      (use row activation_rowD(4) [OF row(1)] in \<open>simp add: terminal_status_def\<close>)
qed simp

lemma locked_job_app:
  assumes "lock_activation_rows w k job_id s db \<noteq> Inl ()" "wf_keys db"
    "activation_row job_id k s db = Some (d, a, j)"
  shows "j_app_id j = Some (d_app_id d)"
proof -
  note rowD = activation_rowD [OF assms(3)]
  with assms(1) have "\<exists>x \<in> set (agent_jobs db). j_id x = job_id \<and> j_app_id x = Some (d_app_id d)"
    by (auto simp: lock_activation_rows_def lock_job_def exists_where_iff split: if_splits)
  with assms(2) rowD(5) show ?thesis unfolding wf_keys_def by (metis find_row_unique option.inject)
qed

lemma committed_row:
  assumes "commit_activation w auth k request db = (Code NO_CONTENT, db')" "wf_keys db"
  shows "\<exists>s d a j. auth = Some s \<and> activation_row (cm_job_id request) k s db' = Some (d, a, j)
    \<and> j_app_id j = Some (d_app_id d) \<and> commit_replay k request d a j"
  using assms(1)
proof (cases rule: commit_activation_elim)
  case (committed s d a j)
  have row: "activation_row (cm_job_id request) k s db = Some (d, a, j)"
    "j_claim_token j = Some (cm_claim_token request)"
    "a_route_generation a = cm_route_generation request"
    using committed(3) by (simp_all add: commit_authority_def)
  note rowD = activation_rowD [OF row(1)]
  note app = locked_job_app [OF committed(5) assms(2) row(1)]
  show ?thesis
    by (rule commit_rows [OF committed(3,4) assms(2)])
      (use row rowD committed(1) app in \<open>simp add: commit_replay_def activation_row_def\<close>)
qed (use locked_job_app [OF _ assms(2)] in auto)

lemma locks_free:
  assumes "activation_row job_id k s db = Some (d, a, j)" "j_app_id j = Some (d_app_id d)"
    "\<And>n. \<not> fault w n"
  shows "lock_activation_rows w k job_id s db = Inr (Some (d_app_id d))"
proof -
  note rowD = activation_rowD [OF assms(1)]
  have "\<exists>x \<in> set (deployments db). d_id x = k \<and> d_app_id x = d_app_id d"
    "\<exists>x \<in> set (apps db). a_id x = d_app_id d" "j \<in> set (agent_jobs db)"
    using rowD(1,3,5) find_row_SomeD rowD(2,4) by metis+
  then show ?thesis using assms rowD
    by (auto simp: lock_activation_rows_def lock_app_iff lock_deployment_iff lock_job_def
        exists_where_iff)
qed

text \<open>The acknowledgement of a commit is repeated for every request with the same authority.\<close>

lemma commit_replayed:
  assumes "commit_activation w auth deployment_id request db = (Code NO_CONTENT, db')" "wf_keys db"
    "\<And>n. \<not> fault w' n" "cm_job_id again = cm_job_id request" "cm_claim_token again = cm_claim_token request"
    "cm_route_generation again = cm_route_generation request" "cm_rolled_back again = cm_rolled_back request"
  shows "commit_activation w' auth deployment_id again db' = (Code NO_CONTENT, db')"
proof -
  obtain s d a j where "auth = Some s" "j_app_id j = Some (d_app_id d)"
    and row: "activation_row (cm_job_id again) deployment_id s db' = Some (d, a, j)"
    and "commit_replay deployment_id again d a j"
    using committed_row [OF assms(1,2)] by (auto simp: commit_replay_def terminal_status_def assms(4-7))
  then show ?thesis
    by (simp add: commit_activation_def assms(3) locks_free [OF row _ assms(3)])
qed

text \<open>
  Committing is idempotent.  A repeated commit - the agent did not see the first answer - is
  acknowledged again and changes nothing, whatever the clock says by then.
\<close>

theorem commit_idempotent:
  assumes "commit_activation w auth deployment_id request db = (Code NO_CONTENT, db')" "wf_keys db"
    "\<And>n. \<not> fault w' n"
  shows "commit_activation w' auth deployment_id request db' = (Code NO_CONTENT, db')"
  by (rule commit_replayed [OF assms refl refl refl refl])

section \<open>Correctness of the preparation\<close>

lemma prepare_effect_frame [simp]:
  "servers (prepare_effect w s i k r c g db) = servers db"
  "app_suspensions (prepare_effect w s i k r c g db) = app_suspensions db"
  "deployment_builds (prepare_effect w s i k r c g db) = deployment_builds db"
  by (simp_all add: prepare_effect_def prepare_job_def prepare_app_def prepare_deployment_def)

text \<open>The rows of an activation after it has been prepared.\<close>

definition prepared_app :: "world \<Rightarrow> uuid \<Rightarrow> int \<Rightarrow> app_row \<Rightarrow> app_row" where
  "prepared_app w k g a = a\<lparr> a_pending_deployment_id := Some k, a_route_generation := g,
     a_updated_at := tx_now w \<rparr>"

definition prepared_job :: "world \<Rightarrow> candidate_runtime \<Rightarrow> job_row \<Rightarrow> job_row" where
  "prepared_job w c j = j\<lparr> j_result := Some (candidate_to_json c), j_updated_at := tx_now w \<rparr>"

definition prepared_deployment :: "world \<Rightarrow> uuid option \<Rightarrow> int \<Rightarrow> candidate_runtime
    \<Rightarrow> deployment_row \<Rightarrow> deployment_row" where
  "prepared_deployment w current g c d = (if active_status (d_status d) then
     d\<lparr> d_status := D_Routing, d_expected_current_deployment_id := current,
        d_activation_generation := Some g, d_last_heartbeat_at := Some (tx_now w),
        d_image_tag := coalesce (cr_image_tag c) (d_image_tag d),
        d_container_name := Some (cr_container_name c),
        d_published_port := Some (cr_published_port c),
        d_compose_project := coalesce (cr_compose_project c) (d_compose_project d),
        d_runtime_metadata := cr_runtime_metadata c \<rparr>
     else d)"

lemma prepared_simps [simp]:
  "a_id (prepared_app w k g a) = a_id a" "a_pending_deployment_id (prepared_app w k g a) = Some k"
  "a_route_generation (prepared_app w k g a) = g"
  "a_current_deployment_id (prepared_app w k g a) = a_current_deployment_id a"
  "a_suspended_at (prepared_app w k g a) = a_suspended_at a"
  "j_id (prepared_job w c j) = j_id j" "j_status (prepared_job w c j) = j_status j"
  "j_claim_token (prepared_job w c j) = j_claim_token j"
  "j_lease_expires_at (prepared_job w c j) = j_lease_expires_at j"
  "j_cancel_requested_at (prepared_job w c j) = j_cancel_requested_at j"
  "j_server_id (prepared_job w c j) = j_server_id j" "j_app_id (prepared_job w c j) = j_app_id j"
  "j_deployment_id (prepared_job w c j) = j_deployment_id j"
  "j_result (prepared_job w c j) = Some (candidate_to_json c)"
  "d_id (prepared_deployment w u g c d) = d_id d"
  "d_app_id (prepared_deployment w u g c d) = d_app_id d"
  "d_server_id (prepared_deployment w u g c d) = d_server_id d"
  "active_status (d_status (prepared_deployment w u g c d)) = active_status (d_status d)"
  by (simp_all add: prepared_app_def prepared_job_def prepared_deployment_def)

lemma prepare_row:
  assumes "activation_row (pr_job_id request) k s db = Some (d, a, j)"
  shows "activation_row (pr_job_id request) k s (prepare_effect w s (a_id a) k request u g db) =
    Some (prepared_deployment w u g (pr_candidate request) d, prepared_app w k g a,
      prepared_job w (pr_candidate request) j)"
  using activation_rowD [OF assms]
  by (auto simp: activation_row_def prepare_effect_def prepare_job_def prepare_app_def
      prepare_deployment_def find_row_update prepared_app_def prepared_job_def
      prepared_deployment_def)

text \<open>
  Preparing allocates the route generation.  An accepted preparation answers the generation
  that the app row now carries: the old one when this deployment was already pending, the next one
  otherwise; the app waits for this deployment, its current deployment is untouched and is the one
  the agent expected, an active deployment is \<open>routing\<close>, and the candidate can be read back from
  the job row exactly as it was sent.
\<close>

theorem prepare_allocates:
  assumes "prepare_activation w auth deployment_id request db = (Reply g, db')"
    "in_i32 (cr_published_port (pr_candidate request))"
    "list_all service_in_range (cr_services (pr_candidate request))"
  shows "\<exists>d a a' d' j'. find_deployment deployment_id db = Some d
    \<and> find_app (d_app_id d) db = Some a \<and> find_app (d_app_id d) db' = Some a'
    \<and> g = a_route_generation a + (if a_pending_deployment_id a = Some deployment_id then 0 else 1)
    \<and> a_route_generation a' = g \<and> a_pending_deployment_id a' = Some deployment_id
    \<and> a_current_deployment_id a' = a_current_deployment_id a
    \<and> a_current_deployment_id a = pr_expected_current_deployment_id request
    \<and> find_deployment deployment_id db' = Some d'
    \<and> (active_status (d_status d) \<longrightarrow> d_status d' = D_Routing \<and> d_activation_generation d' = Some g)
    \<and> find_job (pr_job_id request) db' = Some j'
    \<and> Option.bind (j_result j') candidate_from_json = Some (pr_candidate request)"
  using assms(1)
proof (cases rule: prepare_activation_elim)
  case (prepared s d a j)
  note A = prepared(2) [unfolded prepare_authority_def]
  note row = A [THEN conjunct1]
  have g: "g = prepared_generation deployment_id a" using prepared(3) by simp
  note rowD = activation_rowD [OF row]
    activation_rowD [OF prepare_row [OF row, of w "a_current_deployment_id a" g]]
  have "a_current_deployment_id a = pr_expected_current_deployment_id request" using A by simp
  moreover have "d_app_id (prepared_deployment w (a_current_deployment_id a) g (pr_candidate request) d)
      = d_app_id d" by simp
  ultimately show ?thesis unfolding prepared(4) g [symmetric]
    using rowD(1,3) rowD(10,12,14) candidate_roundtrip_helper [OF assms(2,3)] g
    by (simp add: prepared_generation_def prepared_deployment_def)
qed blast

lemma pending_taken_prepare [simp]:
  "pending_taken i k (prepare_effect w s i k r u g db) = pending_taken i k db"
  by (auto simp: pending_taken_def prepare_effect_def prepare_job_def prepare_app_def
      prepare_deployment_def exists_where_iff set_update_where split: if_splits)

lemma prepare_lock:
  assumes "prepare_activation w auth k request db = (Reply g, db')"
  obtains s i where "auth = Some s" "lock_activation_rows w k (pr_job_id request) s db = Inr (Some i)"
  using assms unfolding prepare_activation_def
  by (auto split: option.splits sum.splits prod.splits if_splits)

lemma prepare_activation_run:
  assumes "\<And>n. \<not> fault w n" "prepare_authority w s k request db d a j"
    "j_app_id j = Some (d_app_id d)"
  shows "prepare_activation w (Some s) k request db = (Reply (prepared_generation k a),
    prepare_effect w s (a_id a) k request (a_current_deployment_id a) (prepared_generation k a) db)"
proof -
  note A = assms(2) [unfolded prepare_authority_def]
  have lock: "lock_activation_rows w k (pr_job_id request) s db = Inr (Some (d_app_id d))"
    using locks_free [OF A [THEN conjunct1] assms(3) assms(1)] .
  from A have pend: "\<not> (a_pending_deployment_id a \<noteq> None \<and> a_pending_deployment_id a \<noteq> Some k)"
    by auto
  from A have lease: "\<not> \<not> (j_claim_token j = Some (pr_claim_token request) \<and> job_leased (j_status j)
       \<and> ts_gt (j_lease_expires_at j) (clock w 5))" by simp
  show ?thesis
    unfolding prepare_activation_def prepared_generation_def Let_def
    using A by (simp only: lock pend lease assms(1) option.case sum.case prod.case if_False simp_thms)
qed

text \<open>
  Preparing is idempotent.  The same request, repeated while the lease is current, is answered
  with the same generation; the route generation does not move a second time.
\<close>

theorem prepare_idempotent:
  assumes "prepare_activation w auth deployment_id request db = (Reply g, db')" "wf_keys db"
    "\<And>n. \<not> fault w' n"
    "\<And>j. find_job (pr_job_id request) db = Some j \<Longrightarrow> ts_gt (j_lease_expires_at j) (clock w' 5)"
  shows "fst (prepare_activation w' auth deployment_id request db') = Reply g"
  using assms(1)
proof (cases rule: prepare_activation_elim)
  case (prepared s d a j)
  let ?c = "pr_candidate request" and ?u = "a_current_deployment_id a"
  note A = prepared(2) [unfolded prepare_authority_def]
  note row = A [THEN conjunct1]
  note row' = prepare_row [OF row, of w ?u g]
  have "lock_activation_rows w deployment_id (pr_job_id request) s db \<noteq> Inl ()"
    by (rule prepare_lock [OF assms(1)]) (simp add: prepared(1))
  then have app: "j_app_id j = Some (d_app_id d)" by (rule locked_job_app [OF _ assms(2) row])
  have g: "g = prepared_generation deployment_id a" using prepared(3) by simp
  have "prepare_authority w' s deployment_id request db' (prepared_deployment w ?u g ?c d)
      (prepared_app w deployment_id g a) (prepared_job w ?c j)"
    using A row' assms(4) [OF activation_rowD(5) [OF row]]
    by (simp add: prepare_authority_def prepared(4) g [symmetric])
  from prepare_activation_run [OF assms(3) this] app prepared(1) show ?thesis
    by (simp add: prepared_generation_def)
qed blast

section \<open>A prepared activation commits\<close>

text \<open>
  The liveness side: what the commit needs beyond its authority is that the service rows can be
  inserted, that is, that the reported services it keeps have pairwise different names and - for a
  rollback, which copies the service rows of its target - that the target is another deployment and
  none of its services has a name the candidate reports.
\<close>

definition reported_names :: "candidate_runtime \<Rightarrow> string list" where
  "reported_names c = map sr_name (filter (\<lambda>s. \<not> skip_service s)
     (take deployment_service_report_max (cr_services c)))"

definition copies_fit :: "world \<Rightarrow> uuid \<Rightarrow> commit_request \<Rightarrow> candidate_runtime \<Rightarrow> service_row list \<Rightarrow> bool" where
  "copies_fit w k request c rows \<longleftrightarrow>
     (case rollback_target w request c of
        None \<Rightarrow> True
      | Some target \<Rightarrow> target \<noteq> k \<and> (\<forall>v\<in>set rows. v_deployment_id v = target \<longrightarrow>
          v_service_name v \<notin> set (reported_names c)))"

lemma insert_reported_services_runs:
  assumes "\<And>n. \<not> fault w n"
    "\<And>s. s \<in> set ss \<Longrightarrow> \<not> skip_service s \<Longrightarrow> \<not> service_exists k (sr_name s) rows"
    "distinct (map sr_name (filter (\<lambda>s. \<not> skip_service s) ss))"
  shows "insert_reported_services w n k i ss rows =
    Some (rows @ map (service_of_report k i) (filter (\<lambda>s. \<not> skip_service s) ss))"
  using assms
proof (induction ss arbitrary: n rows)
  case (Cons s ss)
  show ?case
  proof (cases "skip_service s")
    case True
    with Cons show ?thesis by simp
  next
    case False
    have "\<not> service_exists k (sr_name t) (rows @ [service_of_report k i s])"
      if "t \<in> set ss" "\<not> skip_service t" for t
      using Cons.prems(2) [of t] Cons.prems(3) that False
      by (auto simp: service_exists_def exists_where_iff service_of_report_def)
    moreover have "\<not> service_exists k (sr_name s) rows" using Cons.prems(2) [of s] False by simp
    ultimately show ?thesis using Cons.IH [of "rows @ [service_of_report k i s]"] Cons.prems False
      by simp
  qed
qed simp

lemma service_of_report_key:
  "v_service_name (service_of_report k i s) = sr_name s" "v_deployment_id (service_of_report k i s) = k"
  by (simp_all add: service_of_report_def)

lemma copy_services_runs:
  assumes "target \<noteq> k"
    "\<And>v. v \<in> set rows \<Longrightarrow> v_deployment_id v = target \<Longrightarrow> \<not> service_exists k (v_service_name v) rows"
  shows "\<exists>rows'. copy_services k i target rows = Some rows'"
  using assms by (auto simp: copy_services_def Let_def list_ex_iff)

lemma commit_inventory_runs:
  assumes "\<And>n. \<not> fault w n" "distinct (reported_names c)"
    "copies_fit w k request c (deployment_services db)"
  shows "\<exists>db'. commit_inventory w i k request c db = Some db'"
proof -
  let ?kept = "delete_where (\<lambda>v. v_deployment_id v = k) (deployment_services db)"
  let ?rows = "?kept @ map (service_of_report k i) (filter (\<lambda>s. \<not> skip_service s)
          (take deployment_service_report_max (cr_services c)))"
  have insert: "insert_reported_services w 13 k i (take deployment_service_report_max (cr_services c))
      ?kept = Some ?rows"
    by (rule insert_reported_services_runs)
      (use assms in \<open>auto simp: service_exists_def exists_where_iff reported_names_def\<close>)
  have "\<exists>rows'. copy_services k i target ?rows = Some rows'" if "rollback_target w request c = Some target" for target
  proof (rule copy_services_runs)
    show "target \<noteq> k" using assms(3) that by (simp add: copies_fit_def)
    fix v
    assume v: "v \<in> set ?rows" "v_deployment_id v = target"
    then have "v \<in> set (deployment_services db)" using \<open>target \<noteq> k\<close> by (auto simp: service_of_report_key)
    then have "v_service_name v \<notin> set (reported_names c)" using assms(3) that v(2) by (auto simp: copies_fit_def)
    moreover have "v_service_name u \<in> set (reported_names c)" if u: "u \<in> set ?rows" "v_deployment_id u = k" for u
    proof -
      have "u \<notin> set ?kept" using u(2) by simp
      then obtain x where "u = service_of_report k i x" "x \<in> set (filter (\<lambda>s. \<not> skip_service s)
          (take deployment_service_report_max (cr_services c)))" using u(1) by auto
      then show ?thesis by (simp add: service_of_report_key reported_names_def)
    qed
    ultimately show "\<not> service_exists k (v_service_name v) ?rows"
      unfolding service_exists_def exists_where_iff by metis
  qed
  then show ?thesis using assms(1) insert
    by (fastforce simp: commit_inventory_def split: option.split)
qed

lemma schedule_stop_runs:
  assumes "\<And>n. \<not> fault w n"
  shows "\<exists>db'. schedule_previous_runtime_stop w s i p k db = Some db'"
  using assms by (auto simp: schedule_previous_runtime_stop_def Let_def split: option.splits)

lemma commit_finish_runs:
  assumes "\<And>n. \<not> fault w n" "\<And>c'. c = Some c' \<Longrightarrow> distinct (reported_names c')"
    "\<And>c'. c = Some c' \<Longrightarrow> copies_fit w k request c' (deployment_services db)"
  shows "\<exists>db'. commit_finish w s i k request p c db = Some db'"
proof (cases c)
  case None
  with assms(1) schedule_stop_runs [OF assms(1)] show ?thesis
    by (simp add: commit_finish_def split: option.split)
next
  case (Some c')
  obtain db1 where "commit_inventory w i k request c' db = Some db1"
    using commit_inventory_runs [OF assms(1) assms(2,3) [OF Some]] by blast
  moreover obtain db2 where "schedule_previous_runtime_stop w s i p k db1 = Some db2"
    using schedule_stop_runs [OF assms(1)] by blast
  ultimately show ?thesis using assms(1) Some by (simp add: commit_finish_def)
qed

lemma commit_activation_run:
  assumes "\<And>n. \<not> fault w n" "commit_authority w s k request db d a j"
    "j_app_id j = Some (d_app_id d)"
    "commit_finish w s (a_id a) k request (a_current_deployment_id a)
       (Option.bind (j_result j) candidate_from_json)
       (commit_effect w s (a_id a) k request db) = Some db'"
  shows "commit_activation w (Some s) k request db = (Code NO_CONTENT, db')"
proof -
  note A = assms(2) [unfolded commit_authority_def]
  have lock: "lock_activation_rows w k (cm_job_id request) s db = Inr (Some (d_app_id d))"
    using locks_free [OF A [THEN conjunct1] assms(3) assms(1)] .
  show ?thesis
    unfolding commit_activation_def using A
    by (simp only: lock assms(1,4) option.case sum.case prod.case if_False simp_thms)
qed

lemma prepare_keys:
  "wf_keys (prepare_effect w s i k r u g db) = wf_keys db"
  by (simp add: wf_keys_def prepare_effect_def prepare_job_def prepare_app_def
      prepare_deployment_def map_update_where)

text \<open>What the commit of a prepared activation finds and does.\<close>

lemma prepared_commit:
  assumes "prepare_activation w auth deployment_id request db = (Reply g, db')" "wf_keys db"
    "\<And>d. find_deployment deployment_id db = Some d \<Longrightarrow> active_status (d_status d)"
    "\<And>n. \<not> fault w' n"
    "\<And>j. find_job (pr_job_id request) db = Some j \<Longrightarrow>
       ts_gt (j_lease_expires_at j) (clock w' 5) \<and> ts_gt (j_lease_expires_at j) (clock w' 6)"
    "in_i32 (cr_published_port (pr_candidate request))"
    "list_all service_in_range (cr_services (pr_candidate request))"
    "distinct (reported_names (pr_candidate request))"
    "cm_job_id commit = pr_job_id request" "cm_claim_token commit = pr_claim_token request"
    "cm_route_generation commit = g"
    "copies_fit w' deployment_id commit (pr_candidate request) (deployment_services db)"
  shows "\<exists>db'' d a. commit_activation w' auth deployment_id commit db' = (Code NO_CONTENT, db'')
    \<and> find_deployment deployment_id db'' = Some d
    \<and> d_status d = (if cm_rolled_back commit then D_RolledBack else D_Success)
    \<and> find_app (d_app_id d) db'' = Some a \<and> a_current_deployment_id a = Some deployment_id
    \<and> a_pending_deployment_id a = None"
  using assms(1)
proof (cases rule: prepare_activation_elim)
  case (prepared s d a j)
  let ?c = "pr_candidate request" and ?u = "a_current_deployment_id a"
  let ?d = "prepared_deployment w ?u g ?c d" and ?a = "prepared_app w deployment_id g a"
    and ?j = "prepared_job w ?c j"
  note A = prepared(2) [unfolded prepare_authority_def]
  note row = A [THEN conjunct1]
  have g: "g = prepared_generation deployment_id a" using prepared(3) by simp
  have db': "db' = prepare_effect w s (a_id a) deployment_id request ?u g db"
    using prepared(4) g by simp
  have row': "activation_row (cm_job_id commit) deployment_id s db' = Some (?d, ?a, ?j)"
    using prepare_row [OF row, of w ?u g] by (simp add: db' assms(9))
  note rowD = activation_rowD [OF row']
  have keys: "wf_keys db'" using assms(2) by (simp add: db' prepare_keys)
  have "lock_activation_rows w deployment_id (pr_job_id request) s db \<noteq> Inl ()"
    by (rule prepare_lock [OF assms(1)]) (simp add: prepared(1))
  then have app: "j_app_id j = Some (d_app_id d)" by (rule locked_job_app [OF _ assms(2) row])
  have active: "active_status (d_status d)" using assms(3) activation_rowD(1) [OF row] .
  have lease: "ts_gt (j_lease_expires_at j) (clock w' 5)" "ts_gt (j_lease_expires_at j) (clock w' 6)"
    using assms(5) [OF activation_rowD(5) [OF row]] by simp_all
  have guards: "commit_job_guard w' s commit ?j"
    "commit_app_guard (a_id ?a) deployment_id (cm_route_generation commit) ?a"
    using A lease rowD(6,9) by (simp_all add: commit_job_guard_def commit_app_guard_def assms(9-11))
  have mem: "?j \<in> set (agent_jobs db')" "?a \<in> set (apps db')" "?d \<in> set (deployments db')"
    using rowD(1,3,5) find_row_SomeD by metis+
  have "count_where (commit_job_guard w' s commit) (agent_jobs db') = 1"
    by (rule count_where_key [where key = j_id, OF _ mem(1)])
      (use keys rowD(6) guards(1) in \<open>simp_all add: wf_keys_def commit_job_guard_id\<close>)
  moreover have "count_where (commit_app_guard (a_id ?a) deployment_id (cm_route_generation commit))
      (apps db') = 1"
    by (rule count_where_key [where key = a_id, OF _ mem(2)])
      (use keys guards(2) in \<open>simp_all add: wf_keys_def commit_app_guard_def\<close>)
  moreover have "count_where (\<lambda>x. d_id x = deployment_id \<and> active_status (d_status x))
      (deployments db') = 1"
    by (rule count_where_key [where key = d_id, OF _ mem(3)])
      (use keys rowD(2) active in \<open>auto simp: wf_keys_def\<close>)
  ultimately have auth: "commit_authority w' s deployment_id commit db' ?d ?a ?j"
    using row' A lease by (auto simp: commit_authority_def commit_replay_def assms(10,11))
  have cand: "Option.bind (j_result ?j) candidate_from_json = Some ?c"
    by (simp add: candidate_roundtrip_helper assms(6,7))
  have services: "deployment_services (commit_effect w' s (a_id ?a) deployment_id commit db') = deployment_services db"
    by (simp add: db' commit_effect_def commit_deployment_def reset_for_activation_def commit_app_def
        commit_job_def prepare_effect_def prepare_job_def prepare_app_def prepare_deployment_def audit_def)
  obtain db'' where fin: "commit_finish w' s (a_id ?a) deployment_id commit
      (a_current_deployment_id ?a) (Option.bind (j_result ?j) candidate_from_json)
      (commit_effect w' s (a_id ?a) deployment_id commit db') = Some db''"
    using commit_finish_runs [OF assms(4), where c = "Some ?c"] assms(8,12) services unfolding cand by fastforce
  have run: "commit_activation w' auth deployment_id commit db' = (Code NO_CONTENT, db'')"
    using commit_activation_run [OF assms(4) auth _ fin] app prepared(1) by simp
  show ?thesis
    by (rule commit_rows [OF auth fin keys])
      (use run rowD(4) in \<open>simp add: terminal_status_def\<close>)
qed blast

section \<open>Correctness of the heartbeat\<close>

lemma heartbeat_elim:
  assumes "heartbeat w auth job_id request db = (r, db')"
  obtains (refused) "db' = db" "\<And>x. r \<noteq> Reply x"
  | (renewed) server_id j where "auth = Some server_id" "active_status (hb_phase request)"
      "j \<in> set (agent_jobs db)" "heartbeat_guard w job_id server_id (hb_claim_token request) j"
      "r = Reply \<lparr> hr_cancel_requested = j_cancel_requested_at j \<noteq> None,
         hr_lease_expires_at = j_lease_expires_at (heartbeat_set w j) \<rparr>"
      "db' = (let db1 = update_jobs (heartbeat_guard w job_id server_id (hb_claim_token request))
                (heartbeat_set w) db in
              if j_cancel_requested_at j = None \<and> j_deployment_id j \<noteq> None
              then heartbeat_deployment w server_id (hb_phase request) (the (j_deployment_id j)) db1
              else db1)"
proof (cases "\<exists>x. r = Reply x")
  case False
  then have "db' = db" using assms unfolding heartbeat_def Let_def
    by (auto split: option.splits if_splits)
  with False refused show ?thesis by blast
next
  case True
  then obtain s j where r: "auth = Some s" "active_status (hb_phase request)"
    "find (heartbeat_guard w job_id s (hb_claim_token request)) (agent_jobs db) = Some j"
    "r = Reply \<lparr> hr_cancel_requested = j_cancel_requested_at j \<noteq> None,
       hr_lease_expires_at = j_lease_expires_at (heartbeat_set w j) \<rparr>"
    "db' = (let db1 = update_jobs (heartbeat_guard w job_id s (hb_claim_token request))
              (heartbeat_set w) db in
            if j_cancel_requested_at j = None \<and> j_deployment_id j \<noteq> None
            then heartbeat_deployment w s (hb_phase request) (the (j_deployment_id j)) db1
            else db1)"
    using assms unfolding heartbeat_def Let_def by (auto split: option.splits if_splits)
  from find_SomeD [OF r(3)] renewed [OF r(1,2) _ _ r(4,5)] show ?thesis by blast
qed

text \<open>
  C5: two-phase activation makes progress, for deployments and rollbacks alike.  Take an accepted
  preparation of a deployment that is active.  The commit that follows it directly, carries the
  returned generation, runs before the lease ends and while the database works, is accepted: the
  deployment is the current one of its app, no activation is pending, and its status is \<open>success\<close>,
  or \<open>rolled_back\<close> for a rollback.  The candidate has to be in range (its ports are 32-bit numbers) and its service rows have to fit: it names each service
  once, and the services a rollback copies from its target have other names than those reported.
  Activity is a real condition: the preparation itself does not check it (it ignores how many
  deployment rows it updated), and for an inactive deployment the commit answers a conflict.
\<close>

theorem prepare_then_commit:
  assumes "prepare_activation w auth deployment_id request db = (Reply g, db')" "wf_keys db"
    "\<And>d. find_deployment deployment_id db = Some d \<Longrightarrow> active_status (d_status d)"
    "\<And>n. \<not> fault w' n"
    "\<And>j. find_job (pr_job_id request) db = Some j \<Longrightarrow>
       ts_gt (j_lease_expires_at j) (clock w' 5) \<and> ts_gt (j_lease_expires_at j) (clock w' 6)"
    "in_i32 (cr_published_port (pr_candidate request))"
    "list_all service_in_range (cr_services (pr_candidate request))"
    "distinct (reported_names (pr_candidate request))"
    "cm_job_id commit = pr_job_id request" "cm_claim_token commit = pr_claim_token request"
    "cm_route_generation commit = g"
    "copies_fit w' deployment_id commit (pr_candidate request) (deployment_services db)"
  shows "\<exists>db'' d a. commit_activation w' auth deployment_id commit db' = (Code NO_CONTENT, db'')
    \<and> find_deployment deployment_id db'' = Some d
    \<and> d_status d = (if cm_rolled_back commit then D_RolledBack else D_Success)
    \<and> find_app (d_app_id d) db'' = Some a \<and> a_current_deployment_id a = Some deployment_id
    \<and> a_pending_deployment_id a = None"
  by (rule prepared_commit [OF assms])

lemma heartbeat_jobs:
  assumes "heartbeat w (Some s) job_id request db = (Reply x, db')"
  shows "agent_jobs db' = update_where (heartbeat_guard w job_id s (hb_claim_token request))
    (heartbeat_set w) (agent_jobs db)"
  using assms
  by (cases rule: heartbeat_elim) (auto simp: Let_def heartbeat_deployment_def)

text \<open>
  The heartbeat is fenced by the claim.  It is answered with a receipt only if the job is
  leased to the calling server under the claim token of the request and the lease has not run
  out; then it moves no other job, no app, and no deployment but the job's own, which keeps its
  status when it is terminal or when the pulse is the generic \<open>running\<close> and the deployment has left
  \<open>queued\<close>; the lease is renewed for five minutes unless cancellation was requested, in which
  case it keeps running out and the receipt says so.
\<close>

theorem heartbeat_fenced:
  assumes "heartbeat w auth job_id request db = (Reply receipt, db')" "wf_keys db"
  shows "\<exists>server_id j j'. auth = Some server_id \<and> find_job job_id db = Some j
    \<and> j_server_id j = Some server_id \<and> j_claim_token j = Some (hb_claim_token request)
    \<and> job_leased (j_status j) \<and> ts_gt (j_lease_expires_at j) (clock w 4)
    \<and> find_job job_id db' = Some j' \<and> j_status j' = J_Running
    \<and> j_lease_expires_at j' = (if j_cancel_requested_at j = None
        then Some (tx_now w + 5 * 60 * 1000000) else j_lease_expires_at j)
    \<and> hr_cancel_requested receipt = (j_cancel_requested_at j \<noteq> None)
    \<and> hr_lease_expires_at receipt = j_lease_expires_at j'
    \<and> apps db' = apps db
    \<and> (\<forall>i. i \<noteq> job_id \<longrightarrow> find_job i db' = find_job i db)
    \<and> (\<forall>i d. find_deployment i db = Some d \<longrightarrow> (\<exists>d'. find_deployment i db' = Some d'
         \<and> (Some i \<noteq> j_deployment_id j \<or> j_cancel_requested_at j \<noteq> None \<longrightarrow> d' = d)
         \<and> (\<not> active_status (d_status d) \<or> hb_phase request = D_Running \<and> d_status d \<noteq> D_Queued
              \<longrightarrow> d_status d' = d_status d)))"
  using assms(1)
proof (cases rule: heartbeat_elim)
  case (renewed s j)
  let ?g = "heartbeat_guard w job_id s (hb_claim_token request)"
  have g: "j_id j = job_id" "j_server_id j = Some s" "j_claim_token j = Some (hb_claim_token request)"
    "job_leased (j_status j)" "ts_gt (j_lease_expires_at j) (clock w 4)"
    using renewed(4) by (simp_all add: heartbeat_guard_def)
  have j: "find_job job_id db = Some j"
    using assms(2) renewed(3) g(1) by (auto simp: wf_keys_def intro: find_row_unique)
  have jobs: "agent_jobs db' = update_where ?g (heartbeat_set w) (agent_jobs db)"
    using heartbeat_jobs assms(1) renewed(1) by blast
  have find: "find_job i db' = map_option (\<lambda>r. if ?g r then heartbeat_set w r else r) (find_job i db)" for i
    unfolding jobs by (rule find_row_update) (simp add: heartbeat_set_def)
  have other: "find_job i db' = find_job i db" if "i \<noteq> job_id" for i
    unfolding find using that
    by (cases "find_job i db") (auto simp: heartbeat_guard_def dest: find_row_SomeD)
  have here: "find_job job_id db' = Some (heartbeat_set w j)" using find j renewed(4) by simp
  have deps: "\<exists>d'. find_deployment i db' = Some d'
         \<and> (Some i \<noteq> j_deployment_id j \<or> j_cancel_requested_at j \<noteq> None \<longrightarrow> d' = d)
         \<and> (\<not> active_status (d_status d) \<or> hb_phase request = D_Running \<and> d_status d \<noteq> D_Queued
              \<longrightarrow> d_status d' = d_status d)" if "find_deployment i db = Some d" for i d
    using that find_row_SomeD [OF that] unfolding renewed(6)
    by (auto simp: Let_def heartbeat_deployment_def find_row_update heartbeat_deployment_set_def)
  have "apps db' = apps db" unfolding renewed(6) by (simp add: Let_def heartbeat_deployment_def)
  moreover have "j_status (heartbeat_set w j) = J_Running"
    "j_lease_expires_at (heartbeat_set w j) = (if j_cancel_requested_at j = None
        then Some (tx_now w + 5 * 60 * 1000000) else j_lease_expires_at j)"
    by (simp_all add: heartbeat_set_def minutes_def seconds_def lease_minutes_def)
  ultimately show ?thesis using renewed(1,5) g j here other deps by auto
qed blast

end
