(* ===== verification/Capacity.thy ===== *)
theory Capacity
  imports Job_Insert
begin

text \<open>
  \<open>apps/api/src/server_capacity.rs\<close>: how much of a server a deployment needs, whether the server
  has that much left, which server a new app is placed on, and the scheduler pass that admits
  waiting deployments.  Counters are \<open>i64\<close> with saturating arithmetic, written out over \<open>int\<close>.
\<close>

section \<open>Saturating 64-bit arithmetic\<close>

definition i64_max :: int where
  "i64_max = 9223372036854775807"

definition i64_min :: int where
  "i64_min = - 9223372036854775808"

definition u64_max :: int where
  "u64_max = 18446744073709551615"

definition saturate :: "int \<Rightarrow> int" where
  "saturate n = max i64_min (min i64_max n)"

definition saturating_add :: "int \<Rightarrow> int \<Rightarrow> int" where
  "saturating_add a b = saturate (a + b)"

definition saturating_sub :: "int \<Rightarrow> int \<Rightarrow> int" where
  "saturating_sub a b = saturate (a - b)"

definition saturating_mul :: "int \<Rightarrow> int \<Rightarrow> int" where
  "saturating_mul a b = saturate (a * b)"

text \<open>\<open>usize::try_from(n).unwrap_or(0)\<close> of an \<open>i32\<close>.\<close>

definition usize_or_zero :: "int \<Rightarrow> nat" where
  "usize_or_zero n = nat n"

section \<open>Demand\<close>

record runtime_need =
  reserved_memory_mb :: int
  services :: int

definition no_need :: runtime_need where
  "no_need = \<lparr> reserved_memory_mb = 0, services = 0 \<rparr>"

definition add_need :: "runtime_need \<Rightarrow> runtime_need \<Rightarrow> runtime_need" where
  "add_need a b = \<lparr> reserved_memory_mb = saturating_add (reserved_memory_mb a) (reserved_memory_mb b),
     services = saturating_add (services a) (services b) \<rparr>"

definition in_range :: "int \<Rightarrow> int \<Rightarrow> int option \<Rightarrow> int option" where
  "in_range lo hi v = (case v of None \<Rightarrow> None | Some n \<Rightarrow> if lo \<le> n \<and> n \<le> hi then Some n else None)"

definition runtime_demand :: "json \<Rightarrow> runtime_need" where
  "runtime_demand config =
     (let explicit_memory = in_range 32 65536
            (Option.bind (json_pointer config [''capacity'', ''reservedMemoryMb'']) as_i64);
          explicit_services = in_range 1 64
            (Option.bind (json_pointer config [''capacity'', ''reservedServiceCount'']) as_i64);
          add_ons = (case Option.bind (json_pointer config [''compose'', ''addOns'']) as_array of
            None \<Rightarrow> 0 | Some items \<Rightarrow> int (length items));
          generated_extra = (if json_pointer config [''generatedTopology''] \<noteq> None then 1 else 0);
          inferred_services = saturating_add (saturating_add 1 add_ons) generated_extra in
      \<lparr> reserved_memory_mb = (case explicit_memory of
          Some m \<Rightarrow> m
        | None \<Rightarrow> saturating_add 128 (saturating_mul (saturating_sub inferred_services 1) 96)),
        services = (case explicit_services of Some n \<Rightarrow> n | None \<Rightarrow> inferred_services) \<rparr>)"

abbreviation app_need :: "app_row \<Rightarrow> runtime_need" where
  "app_need a \<equiv> runtime_demand (a_runtime_config a)"

section \<open>The decision\<close>

datatype capacity_decision = Admitted | Waiting string

definition capacity_job :: "job_row \<Rightarrow> bool" where
  "capacity_job j \<longleftrightarrow> j_job_type j = ''deploy'' \<or> j_job_type j = ''rollback'' \<or> j_job_type j = ''release''"

definition holds_reservation :: "job_row \<Rightarrow> bool" where
  "holds_reservation j \<longleftrightarrow> capacity_job j \<and> job_live (j_status j)
     \<and> json_text (j_payload j) ''capacity_reserved'' = Some ''true''"

definition reserved_jobs :: "uuid \<Rightarrow> uuid option \<Rightarrow> db \<Rightarrow> job_row list" where
  "reserved_jobs server_id exclude db =
     filter (\<lambda>j. j_server_id j = Some server_id \<and> (exclude = None \<or> exclude \<noteq> Some (j_id j))
        \<and> holds_reservation j) (agent_jobs db)"

definition occupied_now :: "app_row \<Rightarrow> bool" where
  "occupied_now a \<longleftrightarrow> a_current_deployment_id a \<noteq> None \<and> a_suspended_at a = None"

text \<open>One turn of the loop over the apps of the server: the set of occupied apps and the demand.\<close>

definition occupy :: "app_row \<Rightarrow> uuid list \<times> runtime_need \<Rightarrow> uuid list \<times> runtime_need" where
  "occupy a acc = (List.insert (a_id a) (fst acc), add_need (snd acc) (app_need a))"

definition tally_app :: "uuid list \<Rightarrow> app_row \<Rightarrow> uuid list \<times> runtime_need
    \<Rightarrow> uuid list \<times> runtime_need" where
  "tally_app reserved_app_ids a acc =
     (occupy a ^^ length (filter (\<lambda>i. i = a_id a) reserved_app_ids))
       (if occupied_now a then occupy a acc else acc)"

definition tally :: "uuid list \<Rightarrow> app_row list \<Rightarrow> uuid list \<times> runtime_need" where
  "tally reserved_app_ids rows = fold (tally_app reserved_app_ids) rows ([], no_need)"

definition snapshot_fresh :: "world \<Rightarrow> server_row \<Rightarrow> bool" where
  "snapshot_fresh w s = (case s_resource_snapshot_at s of
     None \<Rightarrow> False | Some t \<Rightarrow> tx_now w < t + seconds 60)"

definition exceeds :: "int \<Rightarrow> int option \<Rightarrow> bool" where
  "exceeds n limit = (case limit of None \<Rightarrow> False | Some l \<Rightarrow> l < n)"

text \<open>\<open>u64::try_from(n).unwrap_or(u64::MAX)\<close> and \<open>u64::try_from(n).unwrap_or(0)\<close>.\<close>

definition u64_or_max :: "int \<Rightarrow> int" where
  "u64_or_max n = (if n < 0 then u64_max else n)"

definition u64_or_zero :: "int \<Rightarrow> int" where
  "u64_or_zero n = (if n < 0 then 0 else n)"

definition live_memory_short :: "server_row \<Rightarrow> runtime_need \<Rightarrow> host_snapshot \<Rightarrow> bool" where
  "live_memory_short s need snapshot = (case s_min_available_memory_mb s of
     None \<Rightarrow> False
   | Some minimum \<Rightarrow> hs_memory_available_mib snapshot
       < u64_or_max (saturating_add minimum (reserved_memory_mb need)))"

definition disk_short :: "server_row \<Rightarrow> host_snapshot \<Rightarrow> bool" where
  "disk_short s snapshot = (case s_min_disk_free_mb s of
     None \<Rightarrow> False | Some minimum \<Rightarrow> hs_disk_free_mib snapshot < u64_or_zero minimum)"

definition budget_decision :: "world \<Rightarrow> server_row \<Rightarrow> uuid \<Rightarrow> nat \<Rightarrow> uuid list \<times> runtime_need
    \<Rightarrow> runtime_need \<Rightarrow> capacity_decision" where
  "budget_decision w s app_id reserved_count acc need =
     (let demand = add_need (snd acc) need in
      if app_id \<notin> set (fst acc) \<and> usize_or_zero (s_max_concurrent_apps s) \<le> length (fst acc)
      then Waiting ''app_slots''
      else if usize_or_zero (s_max_concurrent_builds s) \<le> reserved_count
      then Waiting ''build_slot''
      else if exceeds (reserved_memory_mb demand) (s_max_runtime_memory_mb s)
      then Waiting ''runtime_memory''
      else if exceeds (services demand) (s_max_running_services s)
      then Waiting ''service_slots''
      else if (s_min_available_memory_mb s \<noteq> None \<or> s_min_disk_free_mb s \<noteq> None)
        \<and> (\<not> snapshot_fresh w s \<or> s_resource_snapshot s = None)
      then Waiting ''telemetry_stale''
      else (case s_resource_snapshot s of
          None \<Rightarrow> Admitted
        | Some snapshot \<Rightarrow>
            if live_memory_short s need snapshot then Waiting ''live_memory''
            else if disk_short s snapshot then Waiting ''disk''
            else Admitted))"

text \<open>\<open>k\<close> is the number of the first database call.\<close>

definition capacity_decision_in_transaction :: "world \<Rightarrow> nat \<Rightarrow> uuid \<Rightarrow> uuid \<Rightarrow> uuid option \<Rightarrow> db
    \<Rightarrow> string + capacity_decision" where
  "capacity_decision_in_transaction w k server_id app_id exclude db =
     (if fault w k then Inl ''database''
      else case find_server server_id db of
        None \<Rightarrow> Inl ''the app's assigned server is no longer available''
      | Some s \<Rightarrow>
        if fault w (k + 1) then Inl ''database''
        else let rows = filter (\<lambda>a. a_server_id a = server_id) (apps db) in
          case find_row a_id app_id rows of
            None \<Rightarrow> Inl ''app no longer exists''
          | Some candidate \<Rightarrow>
            if fault w (k + 2) then Inl ''database''
            else let reserved = reserved_jobs server_id exclude db in
              Inr (budget_decision w s app_id (length reserved)
                (tally (List.map_filter j_app_id reserved) rows) (app_need candidate)))"

section \<open>Placement of a new app\<close>

text \<open>The predicate \<open>APP_OCCUPIES_SLOT\<close>.\<close>

definition app_occupies_slot :: "db \<Rightarrow> app_row \<Rightarrow> bool" where
  "app_occupies_slot db a \<longleftrightarrow> occupied_now a
     \<or> exists_where (\<lambda>j. j_app_id j = Some (a_id a) \<and> holds_reservation j) (agent_jobs db)"

definition active_apps :: "db \<Rightarrow> server_row \<Rightarrow> int" where
  "active_apps db s = int (count_where (\<lambda>a. a_server_id a = s_id s \<and> app_occupies_slot db a) (apps db))"

datatype server_selection_error = NotFound | NotAppRunner | Draining | Full | NoCapacity | Database

definition validate_runner :: "db \<Rightarrow> server_row \<Rightarrow> server_selection_error + uuid" where
  "validate_runner db s =
     (if s_kind s \<noteq> ''local'' then Inl NotFound
      else if s_status s \<noteq> ''online'' then Inl NotFound
      else if ''app_runner'' \<notin> set (s_capabilities s) then Inl NotAppRunner
      else if s_draining s then Inl Draining
      else if s_max_concurrent_apps s \<le> active_apps db s then Inl Full
      else Inr (s_id s))"

definition select_requested_app_runner :: "world \<Rightarrow> uuid \<Rightarrow> db \<Rightarrow> server_selection_error + uuid" where
  "select_requested_app_runner w server_id db =
     (if fault w 0 then Inl Database
      else case find_server server_id db of
        None \<Rightarrow> Inl NotFound
      | Some s \<Rightarrow> validate_runner db s)"

definition available_runner :: "db \<Rightarrow> server_row \<Rightarrow> bool" where
  "available_runner db s \<longleftrightarrow> ''app_runner'' \<in> set (s_capabilities s) \<and> s_kind s = ''local''
     \<and> s_status s = ''online'' \<and> \<not> s_draining s \<and> active_apps db s < s_max_concurrent_apps s"

definition select_available_app_runner :: "world \<Rightarrow> db \<Rightarrow> server_selection_error + uuid" where
  "select_available_app_runner w db =
     (if fault w 0 then Inl Database
      else case sort_key (\<lambda>s. (active_apps db s, s_created_at s, s_id s))
          (filter (available_runner db) (servers db)) of
        [] \<Rightarrow> Inl NoCapacity
      | s # _ \<Rightarrow> Inr (s_id s))"

definition select_app_runner :: "world \<Rightarrow> uuid option \<Rightarrow> db \<Rightarrow> server_selection_error + uuid" where
  "select_app_runner w requested db =
     (case requested of
        Some server_id \<Rightarrow> select_requested_app_runner w server_id db
      | None \<Rightarrow> select_available_app_runner w db)"

section \<open>The scheduler pass\<close>

definition waits_for_capacity :: "job_row \<Rightarrow> bool" where
  "waits_for_capacity j \<longleftrightarrow> json_text (j_payload j) ''capacity_wait'' = Some ''true''"

definition admitted_payload :: "json \<Rightarrow> json" where
  "admitted_payload p = json_insert ''capacity_reserved'' (JBool True)
     (json_remove ''capacity_wait_reason'' (json_remove ''capacity_wait'' p))"

definition admit_guard :: "uuid \<Rightarrow> job_row \<Rightarrow> bool" where
  "admit_guard job_id j \<longleftrightarrow> j_id j = job_id \<and> j_status j = J_Queued \<and> waits_for_capacity j"

definition admit_job :: "world \<Rightarrow> uuid \<Rightarrow> db \<Rightarrow> db" where
  "admit_job w job_id = update_jobs (admit_guard job_id)
     (\<lambda>j. j\<lparr> j_payload := admitted_payload (j_payload j), j_available_at := tx_now w,
            j_updated_at := tx_now w \<rparr>)"

definition mark_running :: "uuid \<Rightarrow> db \<Rightarrow> db" where
  "mark_running deployment_id = update_deployments
     (\<lambda>d. d_id d = deployment_id \<and> d_status d = D_Queued) (\<lambda>d. d\<lparr> d_status := D_Running \<rparr>)"

text \<open>
  One iteration: the transaction for one waiting job.  \<open>Inl\<close> is the error that ends the pass, \<open>Inr b\<close>
  says whether the job was admitted.
\<close>

definition admit_one :: "world \<Rightarrow> job_row \<Rightarrow> db \<Rightarrow> (string + bool) \<times> db" where
  "admit_one w row db =
     (case (j_server_id row, j_app_id row) of
        (None, _) \<Rightarrow> (Inl ''server_id is null'', db)
      | (Some _, None) \<Rightarrow> (Inr False, db)
      | (Some server_id, Some app_id) \<Rightarrow>
        if fault w 0 \<or> fault w 1 \<or> \<not> lock_app app_id db
          \<or> (case j_deployment_id row of
               None \<Rightarrow> False
             | Some deployment_id \<Rightarrow> fault w 2 \<or> \<not> lock_deployment deployment_id app_id db)
          \<or> fault w 3 \<or> \<not> lock_job (j_id row) (Some app_id) (j_deployment_id row) db
        then (Inl ''lock'', db)
        else case capacity_decision_in_transaction w 4 server_id app_id (Some (j_id row)) db of
          Inl e \<Rightarrow> (Inl e, db)
        | Inr (Waiting _) \<Rightarrow> if fault w 9 then (Inl ''database'', db) else (Inr False, db)
        | Inr Admitted \<Rightarrow>
          if fault w 7 then (Inl ''database'', db)
          else case find (admit_guard (j_id row)) (agent_jobs db) of
            None \<Rightarrow> if fault w 9 then (Inl ''database'', db) else (Inr False, db)
          | Some changed \<Rightarrow>
            if (j_deployment_id changed \<noteq> None \<and> fault w 8) \<or> fault w 9
            then (Inl ''database'', db)
            else (Inr True, (case j_deployment_id changed of
                None \<Rightarrow> admit_job w (j_id row) db
              | Some deployment_id \<Rightarrow> mark_running deployment_id (admit_job w (j_id row) db))))"

fun admit_loop :: "(nat \<Rightarrow> world) \<Rightarrow> nat \<Rightarrow> nat \<Rightarrow> job_row list \<Rightarrow> db \<Rightarrow> (string + nat) \<times> db" where
  "admit_loop ws k admitted [] db = (Inr admitted, db)"
| "admit_loop ws k admitted (row # rows) db =
     (case admit_one (ws k) row db of
        (Inl e, db') \<Rightarrow> (Inl e, db')
      | (Inr b, db') \<Rightarrow> admit_loop ws (Suc k) (if b then Suc admitted else admitted) rows db')"

definition waiting_jobs :: "db \<Rightarrow> job_row list" where
  "waiting_jobs db = sort_key (\<lambda>j. (j_priority j, j_created_at j, j_id j))
     (filter (\<lambda>j. j_status j = J_Queued \<and> capacity_job j \<and> waits_for_capacity j) (agent_jobs db))"

definition admit_waiting_deployments :: "(nat \<Rightarrow> world) \<Rightarrow> db \<Rightarrow> (string + nat) \<times> db" where
  "admit_waiting_deployments ws db =
     (if fault (ws 0) 0 then (Inl ''database'', db)
      else admit_loop ws 1 0 (waiting_jobs db) db)"

section \<open>Budgets from the environment\<close>

definition parse_i32 :: "string \<Rightarrow> int option" where
  "parse_i32 s = parse_signed 2147483647 s"

definition positive_env_i32 :: "world \<Rightarrow> string \<Rightarrow> int option" where
  "positive_env_i32 w key = in_range 1 2147483647
     (Option.bind (env_var w key) (\<lambda>v. parse_i32 (trim v)))"

definition nonnegative_env_i32 :: "world \<Rightarrow> string \<Rightarrow> int option" where
  "nonnegative_env_i32 w key = in_range 0 2147483647
     (Option.bind (env_var w key) (\<lambda>v. parse_i32 (trim v)))"

definition configure_local_server_capacity_from_env :: "world \<Rightarrow> uuid \<Rightarrow> db \<Rightarrow> db option" where
  "configure_local_server_capacity_from_env w local_server_id db =
     (let v0 = positive_env_i32 w ''HOSTLET_MAX_RUNTIME_MEMORY_MB'';
          v1 = positive_env_i32 w ''HOSTLET_MAX_RUNNING_SERVICES'';
          v2 = nonnegative_env_i32 w ''HOSTLET_MIN_AVAILABLE_MEMORY_MB'';
          v3 = nonnegative_env_i32 w ''HOSTLET_MIN_DISK_FREE_MB'' in
      if v0 = None \<and> v1 = None \<and> v2 = None \<and> v3 = None then Some db
      else if fault w 0 then None
      else Some (update_servers (\<lambda>s. s_id s = local_server_id)
        (\<lambda>s. s\<lparr> s_max_runtime_memory_mb := coalesce v0 (s_max_runtime_memory_mb s),
               s_max_running_services := coalesce v1 (s_max_running_services s),
               s_min_available_memory_mb := coalesce v2 (s_min_available_memory_mb s),
               s_min_disk_free_mb := coalesce v3 (s_min_disk_free_mb s) \<rparr>) db))"

section \<open>The specification of the budget\<close>

text \<open>
  What the decision promises is stated over plain sums: how many reservations an app has, and the
  memory and services all of them need together, with no saturation.
\<close>

definition app_load :: "uuid list \<Rightarrow> app_row \<Rightarrow> nat" where
  "app_load reserved a =
     (if occupied_now a then 1 else 0) + length (filter (\<lambda>i. i = a_id a) reserved)"

definition total_need :: "(runtime_need \<Rightarrow> int) \<Rightarrow> uuid list \<Rightarrow> app_row list \<Rightarrow> int" where
  "total_need f reserved rows =
     sum_list (map (\<lambda>a. int (app_load reserved a) * f (app_need a)) rows)"

definition occupied_ids :: "uuid list \<Rightarrow> app_row list \<Rightarrow> uuid set" where
  "occupied_ids reserved rows = a_id ` {a \<in> set rows. 0 < app_load reserved a}"

lemma saturate_bounds: "i64_min \<le> saturate n" "saturate n \<le> i64_max"
  by (auto simp: saturate_def i64_min_def i64_max_def)

lemma saturate_nonneg: "0 \<le> n \<Longrightarrow> saturate n = min i64_max n"
  by (auto simp: saturate_def i64_min_def i64_max_def)

lemma saturate_0_le: "0 \<le> n \<Longrightarrow> 0 \<le> saturate n"
  by (simp add: saturate_nonneg i64_max_def)

lemma saturating_add_min:
  "0 \<le> a \<Longrightarrow> 0 \<le> b \<Longrightarrow> saturating_add (min i64_max a) b = min i64_max (a + b)"
  by (auto simp: saturating_add_def saturate_def i64_max_def i64_min_def)

lemma in_range_SomeD: "in_range lo hi v = Some n \<Longrightarrow> lo \<le> n \<and> n \<le> hi"
  by (auto simp: in_range_def split: option.splits if_splits)

text \<open>A demand is never negative and never zero services.\<close>

lemma runtime_demand_nonneg: "0 \<le> reserved_memory_mb (runtime_demand c)" "1 \<le> services (runtime_demand c)"
proof -
  define k where "k = (case Option.bind (json_pointer c [''compose'', ''addOns'']) as_array of
    None \<Rightarrow> 0 | Some items \<Rightarrow> int (length items))"
  have k: "0 \<le> k" by (simp add: k_def split: option.split)
  have "1 \<le> saturating_add (saturating_add 1 k) g" if "0 \<le> g" for g
    using k that by (simp add: saturating_add_def saturate_def i64_max_def i64_min_def)
  then have inf: "1 \<le> saturating_add (saturating_add 1 k)
      (if json_pointer c [''generatedTopology''] \<noteq> None then 1 else 0)" by simp
  have mem: "0 \<le> saturating_add 128 (saturating_mul (saturating_sub n 1) 96)" if "1 \<le> n" for n
    using that unfolding saturating_add_def saturating_mul_def saturating_sub_def
    by (intro saturate_0_le add_nonneg_nonneg mult_nonneg_nonneg) simp_all
  show "0 \<le> reserved_memory_mb (runtime_demand c)"
    using mem [OF inf] unfolding runtime_demand_def Let_def k_def [symmetric]
    by (auto split: option.split dest: in_range_SomeD simp del: json_pointer.simps)
  show "1 \<le> services (runtime_demand c)"
    using inf unfolding runtime_demand_def Let_def k_def [symmetric]
    by (auto split: option.split dest: in_range_SomeD simp del: json_pointer.simps)
qed

text \<open>The loop computes the sums, cut off at the largest \<open>i64\<close>.\<close>

lemma occupy_power:
  "fst ((occupy a ^^ n) acc) = (if n = 0 then fst acc else List.insert (a_id a) (fst acc))"
  by (induction n) (auto simp: occupy_def List.insert_def)

lemma occupy_power_need:
  assumes f: "\<And>x y. f (add_need x y) = saturating_add (f x) (f y)" and "0 \<le> f (app_need a)"
    and "0 \<le> m" "f (snd acc) = min i64_max m"
  shows "f (snd ((occupy a ^^ n) acc)) = min i64_max (m + int n * f (app_need a))"
proof (induction n)
  case (Suc n)
  have "0 \<le> m + int n * f (app_need a)" using assms(2,3) by simp
  from saturating_add_min [OF this assms(2)] Suc show ?case
    by (simp add: occupy_def f algebra_simps)
qed (use assms in simp)

lemma tally_fold_need:
  assumes f: "\<And>x y. f (add_need x y) = saturating_add (f x) (f y)" and pos: "\<And>c. 0 \<le> f (runtime_demand c)"
    and "0 \<le> m" "f (snd acc) = min i64_max m"
  shows "f (snd (fold (tally_app R) rows acc)) = min i64_max (m + total_need f R rows)"
  using assms(3,4)
proof (induction rows arbitrary: acc m)
  case (Cons a rows)
  let ?acc = "if occupied_now a then occupy a acc else acc"
  let ?m = "if occupied_now a then m + f (app_need a) else m"
  have "f (snd ?acc) = min i64_max ?m"
    using occupy_power_need [OF f pos Cons.prems, where a = a and n = 1] Cons.prems(2) by simp
  moreover have "0 \<le> ?m" using Cons.prems(1) pos [of "a_runtime_config a"] by simp
  ultimately have "f (snd (tally_app R a acc)) =
      min i64_max (?m + int (length (filter (\<lambda>i. i = a_id a) R)) * f (app_need a))"
    unfolding tally_app_def using occupy_power_need [OF f pos] by blast
  moreover have "?m + int (length (filter (\<lambda>i. i = a_id a) R)) * f (app_need a)
      = m + int (app_load R a) * f (app_need a)"
    by (simp add: app_load_def algebra_simps)
  moreover have "0 \<le> m + int (app_load R a) * f (app_need a)"
    using Cons.prems(1) pos [of "a_runtime_config a"] by simp
  ultimately show ?case
    using Cons.IH [of "m + int (app_load R a) * f (app_need a)" "tally_app R a acc"]
    by (simp add: total_need_def add.assoc)
qed (simp add: total_need_def)

lemma tally_need:
  assumes "f = reserved_memory_mb \<or> f = services"
  shows "f (snd (tally R rows)) = min i64_max (total_need f R rows)"
proof -
  have f: "f (add_need x y) = saturating_add (f x) (f y)" for x y
    using assms by (auto simp: add_need_def)
  have pos: "0 \<le> f (runtime_demand c)" for c using assms runtime_demand_nonneg [of c] by auto
  have "f (snd ([], no_need)) = min i64_max 0" using assms by (auto simp: no_need_def i64_max_def)
  from tally_fold_need [OF f pos _ this, of R rows] show ?thesis by (simp add: tally_def)
qed

lemma tally_fold_ids:
  "distinct (fst acc) \<Longrightarrow> distinct (fst (fold (tally_app R) rows acc))
    \<and> set (fst (fold (tally_app R) rows acc)) = set (fst acc) \<union> occupied_ids R rows"
proof (induction rows arbitrary: acc)
  case (Cons a rows)
  have "distinct (fst (tally_app R a acc))"
    using Cons.prems by (simp add: tally_app_def occupy_power occupy_def)
  moreover have "set (fst (tally_app R a acc)) =
      set (fst acc) \<union> (if 0 < app_load R a then {a_id a} else {})"
    by (auto simp: tally_app_def occupy_power occupy_def app_load_def)
  moreover have "occupied_ids R (a # rows) =
      (if 0 < app_load R a then {a_id a} else {}) \<union> occupied_ids R rows"
    by (auto simp: occupied_ids_def)
  ultimately show ?case using Cons.IH [of "tally_app R a acc"] by auto
qed (simp add: occupied_ids_def)

lemma tally_ids: "set (fst (tally R rows)) = occupied_ids R rows"
    "length (fst (tally R rows)) = card (occupied_ids R rows)"
  using tally_fold_ids [of "([], no_need)" R rows]
  by (simp_all add: tally_def) (metis distinct_card)

lemma exceeds_sum:
  assumes "\<not> exceeds (saturating_add (min i64_max m) n) (Some limit)" "0 \<le> m" "0 \<le> n"
    "limit < i64_max"
  shows "m + n \<le> limit"
  using assms(1,4) by (simp add: saturating_add_min [OF assms(2,3)] exceeds_def)

lemma total_need_nonneg:
  assumes "\<And>c. 0 \<le> f (runtime_demand c)" shows "0 \<le> total_need f R rows"
  unfolding total_need_def by (rule sum_list_nonneg) (use assms in auto)

text \<open>
  C26: an admitted deployment fits.  When the decision is \<open>Admitted\<close>, everything the server runs and
  has promised, counted without any cut-off - each live app once, each reserved job once more - and
  the candidate on top stay within the configured memory and service limits, one more reservation
  stays within the build limit, an app that is new on the server leaves it within its app limit,
  and the live memory and disk reserves hold on a fresh snapshot.
\<close>

theorem capacity_admitted_fits:
  assumes "capacity_decision_in_transaction w k server_id app_id exclude db = Inr Admitted"
    "find_server server_id db = Some s"
  shows "\<exists>a. a \<in> set (apps db) \<and> a_id a = app_id \<and> a_server_id a = server_id \<and>
    (let rows = filter (\<lambda>a. a_server_id a = server_id) (apps db);
         reserved = List.map_filter j_app_id (reserved_jobs server_id exclude db) in
     (\<forall>limit. s_max_runtime_memory_mb s = Some limit \<and> limit < i64_max \<longrightarrow>
        total_need reserved_memory_mb reserved rows + reserved_memory_mb (app_need a) \<le> limit)
     \<and> (\<forall>limit. s_max_running_services s = Some limit \<and> limit < i64_max \<longrightarrow>
        total_need services reserved rows + services (app_need a) \<le> limit)
     \<and> int (length (reserved_jobs server_id exclude db)) + 1 \<le> s_max_concurrent_builds s
     \<and> (app_id \<in> occupied_ids reserved rows
        \<or> int (card (occupied_ids reserved rows)) + 1 \<le> s_max_concurrent_apps s)
     \<and> (\<forall>minimum. s_min_disk_free_mb s = Some minimum \<longrightarrow> snapshot_fresh w s
        \<and> (\<exists>snap. s_resource_snapshot s = Some snap \<and> u64_or_zero minimum \<le> hs_disk_free_mib snap)))"
proof -
  let ?rows = "filter (\<lambda>a. a_server_id a = server_id) (apps db)"
  let ?jobs = "reserved_jobs server_id exclude db"
  let ?R = "List.map_filter j_app_id ?jobs"
  from assms obtain a where a: "find_row a_id app_id ?rows = Some a"
    and dec: "budget_decision w s app_id (length ?jobs) (tally ?R ?rows) (app_need a) = Admitted"
    by (auto simp: capacity_decision_in_transaction_def Let_def split: option.splits if_splits)
  note dec = dec [unfolded budget_decision_def Let_def]
  have mem: "f (add_need x y) = saturating_add (f x) (f y)" if "f = reserved_memory_mb \<or> f = services" for f x y
    using that by (auto simp: add_need_def)
  have lim: "total_need f ?R ?rows + f (app_need a) \<le> limit"
    if "f = reserved_memory_mb \<or> f = services" "\<not> exceeds (f (add_need (snd (tally ?R ?rows)) (app_need a))) (Some limit)"
      "limit < i64_max" for f limit
  proof (rule exceeds_sum [OF _ _ _ that(3)])
    have pos: "0 \<le> f (runtime_demand c)" for c using that(1) runtime_demand_nonneg [of c] by auto
    then show "0 \<le> total_need f ?R ?rows" "0 \<le> f (app_need a)" by (auto intro: total_need_nonneg)
    show "\<not> exceeds (saturating_add (min i64_max (total_need f ?R ?rows)) (f (app_need a))) (Some limit)"
      using that(2) by (simp add: mem [OF that(1)] tally_need [OF that(1)])
  qed
  have "\<not> exceeds (reserved_memory_mb (add_need (snd (tally ?R ?rows)) (app_need a))) (s_max_runtime_memory_mb s)"
    "\<not> exceeds (services (add_need (snd (tally ?R ?rows)) (app_need a))) (s_max_running_services s)"
    "\<not> usize_or_zero (s_max_concurrent_builds s) \<le> length ?jobs"
    "app_id \<in> set (fst (tally ?R ?rows)) \<or> \<not> usize_or_zero (s_max_concurrent_apps s) \<le> length (fst (tally ?R ?rows))"
    "\<And>minimum. s_min_disk_free_mb s = Some minimum \<Longrightarrow> snapshot_fresh w s \<and> s_resource_snapshot s \<noteq> None"
    "\<And>snap. s_resource_snapshot s = Some snap \<Longrightarrow> \<not> disk_short s snap"
    using dec by (auto split: if_splits option.splits)
  note B = this
  have "a \<in> set (apps db)" "a_id a = app_id" "a_server_id a = server_id"
    using find_row_SomeD [OF a] by auto
  moreover have "\<forall>limit. s_max_runtime_memory_mb s = Some limit \<and> limit < i64_max \<longrightarrow>
      total_need reserved_memory_mb ?R ?rows + reserved_memory_mb (app_need a) \<le> limit"
    using lim [of reserved_memory_mb] B(1) by metis
  moreover have "\<forall>limit. s_max_running_services s = Some limit \<and> limit < i64_max \<longrightarrow>
      total_need services ?R ?rows + services (app_need a) \<le> limit"
    using lim [of services] B(2) by metis
  moreover have "int (length ?jobs) + 1 \<le> s_max_concurrent_builds s"
    using B(3) by (simp add: usize_or_zero_def)
  moreover have "app_id \<in> occupied_ids ?R ?rows
      \<or> int (card (occupied_ids ?R ?rows)) + 1 \<le> s_max_concurrent_apps s"
    using B(4) by (auto simp: usize_or_zero_def tally_ids)
  moreover have "\<forall>minimum. s_min_disk_free_mb s = Some minimum \<longrightarrow> snapshot_fresh w s
        \<and> (\<exists>snap. s_resource_snapshot s = Some snap \<and> u64_or_zero minimum \<le> hs_disk_free_mib snap)"
    using B(5,6) by (force simp: disk_short_def not_less)
  ultimately show ?thesis unfolding Let_def by blast
qed

section \<open>Placement\<close>

text \<open>
  A selected runner can take the app.  Whatever was asked for, the chosen server exists, is a
  local, online app runner that is not draining and has a free app slot; when the choice was left
  to the API, no available runner has fewer occupied slots.
\<close>

theorem select_app_runner_sound:
  assumes "select_app_runner w requested db = Inr server_id"
  shows "\<exists>s \<in> set (servers db). s_id s = server_id \<and> available_runner db s
    \<and> (requested = None \<longrightarrow> (\<forall>t \<in> set (servers db). available_runner db t
         \<longrightarrow> active_apps db s \<le> active_apps db t))
    \<and> (requested \<noteq> None \<longrightarrow> requested = Some server_id)"
proof (cases requested)
  case (Some i)
  then show ?thesis using assms
    by (auto simp: select_app_runner_def select_requested_app_runner_def validate_runner_def
        available_runner_def split: option.splits if_splits dest: find_row_SomeD)
next
  case None
  let ?k = "\<lambda>s. (active_apps db s, s_created_at s, s_id s)"
  let ?xs = "sort_key ?k (filter (available_runner db) (servers db))"
  from None assms obtain s rest where xs: "?xs = s # rest" "s_id s = server_id"
    by (auto simp: select_app_runner_def select_available_app_runner_def split: list.splits if_splits)
  have "sorted (map ?k ?xs)" by simp
  then have least: "\<forall>t \<in> set ?xs. ?k s \<le> ?k t" unfolding xs(1) by auto
  have mem: "set ?xs = {t \<in> set (servers db). available_runner db t}" by auto
  have "s \<in> set ?xs" using xs by simp
  moreover have "active_apps db s \<le> active_apps db t" if "t \<in> set ?xs" for t
    using least that by (fastforce simp: less_eq_prod_def)
  ultimately show ?thesis using None xs(2) unfolding mem by blast
qed

section \<open>The scheduler never oversubscribes a server\<close>

definition builds_within_limit :: "db \<Rightarrow> bool" where
  "builds_within_limit db \<longleftrightarrow> (\<forall>s \<in> set (servers db).
     length (reserved_jobs (s_id s) None db) \<le> usize_or_zero (s_max_concurrent_builds s))"

lemma length_filter_mono:
  "(\<And>x. x \<in> set xs \<Longrightarrow> P x \<Longrightarrow> Q x) \<Longrightarrow> length (filter P xs) \<le> length (filter Q xs)"
  by (induction xs) (auto simp: le_SucI)

lemma filter_key_Suc:
  assumes "distinct (map key xs)" "\<And>x. x \<in> set xs \<Longrightarrow> key x \<noteq> k \<Longrightarrow> P x \<Longrightarrow> Q x"
  shows "length (filter P xs) \<le> Suc (length (filter (\<lambda>x. key x \<noteq> k \<and> Q x) xs))"
  using assms
proof (induction xs)
  case (Cons x xs)
  show ?case
  proof (cases "key x = k")
    case True
    with Cons.prems(1) have "\<And>y. y \<in> set xs \<Longrightarrow> key y \<noteq> k" by (auto intro: rev_image_eqI)
    with Cons.prems(2) have "length (filter P xs) \<le> length (filter (\<lambda>x. key x \<noteq> k \<and> Q x) xs)"
      by (intro length_filter_mono) auto
    with True show ?thesis by auto
  next
    case False
    with Cons show ?thesis by auto
  qed
qed simp

lemma admit_job_reserved:
  assumes "distinct (map j_id (agent_jobs db))"
  shows "length (reserved_jobs sid None (admit_job w i db)) \<le> Suc (length (reserved_jobs sid (Some i) db))"
proof -
  let ?f = "\<lambda>j. if admit_guard i j then j\<lparr> j_payload := admitted_payload (j_payload j),
     j_available_at := tx_now w, j_updated_at := tx_now w \<rparr> else j"
  let ?P = "\<lambda>j. j_server_id j = Some sid \<and> holds_reservation j"
  have "length (filter ?P (map ?f (agent_jobs db))) = length (filter (?P \<circ> ?f) (agent_jobs db))"
    by (simp add: filter_map)
  also have "\<dots> \<le> Suc (length (filter (\<lambda>j. j_id j \<noteq> i \<and> ?P j) (agent_jobs db)))"
    by (rule filter_key_Suc [OF assms]) (auto simp: admit_guard_def)
  finally show ?thesis
    by (simp add: reserved_jobs_def admit_job_def update_where_def conj_ac neq_commute)
qed

lemma admit_job_other_server:
  assumes "distinct (map j_id (agent_jobs db))" "find_job i db = Some j" "j_server_id j \<noteq> Some sid"
  shows "length (reserved_jobs sid None (admit_job w i db)) = length (reserved_jobs sid None db)"
proof -
  let ?f = "\<lambda>j. if admit_guard i j then j\<lparr> j_payload := admitted_payload (j_payload j),
     j_available_at := tx_now w, j_updated_at := tx_now w \<rparr> else j"
  have "j_server_id x \<noteq> Some sid" if "x \<in> set (agent_jobs db)" "admit_guard i x" for x
    using assms that by (metis admit_guard_def find_row_unique option.inject)
  then have "filter ((\<lambda>j. j_server_id j = Some sid \<and> holds_reservation j) \<circ> ?f) (agent_jobs db)
      = filter (\<lambda>j. j_server_id j = Some sid \<and> holds_reservation j) (agent_jobs db)"
    by (intro filter_cong) auto
  then show ?thesis
    by (simp add: reserved_jobs_def admit_job_def update_where_def filter_map)
qed

lemma mark_running_frame [simp]:
  "agent_jobs (mark_running i db) = agent_jobs db" "servers (mark_running i db) = servers db"
  "apps (mark_running i db) = apps db" "app_suspensions (mark_running i db) = app_suspensions db"
  by (simp_all add: mark_running_def)

lemma admit_job_frame [simp]:
  "servers (admit_job w i db) = servers db" "apps (admit_job w i db) = apps db"
  "deployments (admit_job w i db) = deployments db"
  "app_suspensions (admit_job w i db) = app_suspensions db"
  by (simp_all add: admit_job_def)

lemma admit_job_keys [simp]:
  "map j_id (agent_jobs (admit_job w i db)) = map j_id (agent_jobs db)"
  "map (\<lambda>j. (j_id j, j_server_id j)) (agent_jobs (admit_job w i db)) =
     map (\<lambda>j. (j_id j, j_server_id j)) (agent_jobs db)"
  by (simp_all add: admit_job_def map_update_where)

lemma admit_one_elim:
  assumes "admit_one w row db = (r, db')"
  obtains (kept) "db' = db"
  | (admitted) server_id app_id where "j_server_id row = Some server_id" "j_app_id row = Some app_id"
      "capacity_decision_in_transaction w 4 server_id app_id (Some (j_id row)) db = Inr Admitted"
      "agent_jobs db' = agent_jobs (admit_job w (j_id row) db)" "servers db' = servers db"
  using assms unfolding admit_one_def
  by (auto split: option.splits sum.splits capacity_decision.splits if_splits)

lemma admitted_below:
  assumes "capacity_decision_in_transaction w k sid i e db = Inr Admitted"
    "s \<in> set (servers db)" "s_id s = sid" "distinct (map s_id (servers db))"
  shows "length (reserved_jobs sid e db) < usize_or_zero (s_max_concurrent_builds s)"
proof -
  have "find_server sid db = Some s" using assms(2-4) by (auto intro: find_row_unique)
  with assms(1) show ?thesis
    by (auto simp: capacity_decision_in_transaction_def budget_decision_def Let_def
        split: option.splits if_splits)
qed

lemma admit_one_within_limit:
  assumes "admit_one w row db = (r, db')" "builds_within_limit db" "wf_keys db"
    "\<exists>j. find_job (j_id row) db = Some j \<and> j_server_id j = j_server_id row"
  shows "builds_within_limit db'"
  using assms(1)
proof (cases rule: admit_one_elim)
  case kept
  with assms(2) show ?thesis by simp
next
  case (admitted sid i)
  have jobs: "reserved_jobs x None db' = reserved_jobs x None (admit_job w (j_id row) db)" for x
    by (simp add: reserved_jobs_def admitted(4))
  have keys: "distinct (map j_id (agent_jobs db))" "distinct (map s_id (servers db))"
    using assms(3) by (simp_all add: wf_keys_def)
  show ?thesis unfolding builds_within_limit_def admitted(5)
  proof
    fix s assume s: "s \<in> set (servers db)"
    show "length (reserved_jobs (s_id s) None db') \<le> usize_or_zero (s_max_concurrent_builds s)"
    proof (cases "s_id s = sid")
      case True
      from admitted_below [OF admitted(3) s True keys(2)] admit_job_reserved [OF keys(1)]
      show ?thesis unfolding jobs True by (meson Suc_leI le_trans)
    next
      case False
      with assms(4) admitted(1) admit_job_other_server [OF keys(1)] show ?thesis
        using assms(2) s unfolding jobs builds_within_limit_def by fastforce
    qed
  qed
qed

lemma find_job_server:
  assumes "map (\<lambda>j. (j_id j, j_server_id j)) js' = map (\<lambda>j. (j_id j, j_server_id j)) js"
  shows "map_option j_server_id (find_row j_id i js') = map_option j_server_id (find_row j_id i js)"
  using assms by (induction js' arbitrary: js) (auto simp: Cons_eq_map_conv)

lemma admit_loop_within_limit:
  assumes "builds_within_limit db" "wf_keys db"
    "\<And>row. row \<in> set rows \<Longrightarrow> map_option j_server_id (find_job (j_id row) db) = Some (j_server_id row)"
  shows "builds_within_limit (snd (admit_loop ws k n rows db))"
  using assms
proof (induction rows arbitrary: db k n)
  case (Cons row rows)
  obtain r db' where one: "admit_one (ws k) row db = (r, db')" by fastforce
  have ok: "builds_within_limit db'"
    by (rule admit_one_within_limit [OF one Cons.prems(1,2)]) (use Cons.prems(3) [of row] in auto)
  have js: "map (\<lambda>j. (j_id j, j_server_id j)) (agent_jobs db') =
      map (\<lambda>j. (j_id j, j_server_id j)) (agent_jobs db)"
    using one by (cases rule: admit_one_elim) simp_all
  have ids: "map j_id (agent_jobs db') = map j_id (agent_jobs db)"
    using arg_cong [OF js, of "map fst"] by (simp add: comp_def)
  have keys: "wf_keys db'" using one Cons.prems(2) ids
    unfolding admit_one_def wf_keys_def
    by (auto simp: mark_running_def map_update_where split: option.splits sum.splits
        capacity_decision.splits if_splits)
  have "map_option j_server_id (find_job (j_id x) db') = Some (j_server_id x)" if "x \<in> set rows" for x
    using Cons.prems(3) [of x] that find_job_server [OF js] by simp
  with Cons.IH [OF ok keys] ok one show ?case by (cases r) simp_all
qed simp

text \<open>
  A scheduler pass keeps every server within its build limit.  If no server has more reserved
  deployments than its \<open>max_concurrent_builds\<close>, the same holds after a whole pass over the waiting
  jobs, also when the pass stops half way on an error.
\<close>

theorem scheduler_within_limit:
  assumes "builds_within_limit db" "wf_keys db"
  shows "builds_within_limit (snd (admit_waiting_deployments ws db))"
proof -
  have "map_option j_server_id (find_job (j_id row) db) = Some (j_server_id row)"
    if "row \<in> set (waiting_jobs db)" for row
    using that assms(2) find_row_unique [of j_id "agent_jobs db" row]
    by (auto simp: waiting_jobs_def wf_keys_def)
  with admit_loop_within_limit [OF assms] assms(1) show ?thesis
    by (simp add: admit_waiting_deployments_def)
qed

end
