(* ===== verification/Job_Queue.thy ===== *)
theory Job_Queue
  imports Capacity
begin

text \<open>
  The producers of agent jobs: \<open>enqueue_agent_job\<close> and \<open>send_job\<close> of \<open>apps/api/src/deploy.rs\<close> and
  \<open>deploy/agent_jobs.rs\<close>, and \<open>enqueue_interactive_agent_job_for_actor\<close> of
  \<open>apps/api/src/job_control.rs\<close>.  All of them take the app row and then look for the deletion
  marker, so none adds work to an app that is being deleted.
\<close>

section \<open>The deletion fence\<close>

definition deletion_marker :: "uuid \<Rightarrow> job_row \<Rightarrow> bool" where
  "deletion_marker app_id j \<longleftrightarrow> j_app_id j = Some app_id \<and> j_job_type j = ''delete_app''
     \<and> (job_live (j_status j) \<or> j_status j = J_Success
        \<or> json_text (j_payload j) ''teardown_fence'' = Some ''true'')"

definition deletion_fenced :: "uuid \<Rightarrow> db \<Rightarrow> bool" where
  "deletion_fenced app_id db = exists_where (deletion_marker app_id) (agent_jobs db)"

section \<open>Actors\<close>

record job_audit_actor =
  actor_type :: string
  actor_id :: "string option"

definition owner :: job_audit_actor where
  "owner = \<lparr> actor_type = ''owner'', actor_id = None \<rparr>"

definition record_agent_job_audit_event_in_transaction :: "world \<Rightarrow> job_audit_actor \<Rightarrow> string
    \<Rightarrow> uuid option \<Rightarrow> uuid option \<Rightarrow> uuid option \<Rightarrow> db \<Rightarrow> db" where
  "record_agent_job_audit_event_in_transaction w actor event_type app_id deployment_id job_id =
     audit (tx_now w) (actor_type actor) (actor_id actor) event_type app_id deployment_id job_id
       (JObj [])"

section \<open>Interactive jobs\<close>

record interactive_agent_job =
  ij_server_id :: uuid
  ij_app_id :: uuid
  ij_deployment_id :: "uuid option"
  ij_job_type :: string
  ij_payload :: json

definition enqueue_interactive_agent_job_for_actor :: "world \<Rightarrow> job_audit_actor
    \<Rightarrow> interactive_agent_job \<Rightarrow> db \<Rightarrow> (string + uuid) \<times> db" where
  "enqueue_interactive_agent_job_for_actor w actor job db =
     (if fault w 0 then (Inl ''database'', db)
      else if fault w 1 \<or> \<not> lock_app (ij_app_id job) db then (Inl ''app no longer exists'', db)
      else if (case ij_deployment_id job of
                 None \<Rightarrow> False
               | Some deployment_id \<Rightarrow>
                   fault w 2 \<or> \<not> lock_deployment deployment_id (ij_app_id job) db)
      then (Inl ''deployment no longer exists'', db)
      else if fault w 3 then (Inl ''database'', db)
      else case find_app (ij_app_id job) db of
        None \<Rightarrow> (Inl ''app no longer exists'', db)
      | Some a \<Rightarrow>
        if fault w 4 then (Inl ''database'', db)
        else if deletion_fenced (ij_app_id job) db then (Inl ''app deletion is in progress'', db)
        else if fault w 5 \<or> fault w 6 \<or> fault w 7 then (Inl ''database'', db)
        else (Inr (fresh w 0),
          record_agent_job_audit_event_in_transaction w actor (ij_job_type job @ ''_requested'')
            (Some (ij_app_id job)) (ij_deployment_id job) (Some (fresh w 0))
            (insert_agent_job_in_transaction (tx_now w) (fresh w 0) (ij_server_id job)
              (Some (ij_app_id job)) (ij_deployment_id job) (ij_job_type job) (ij_payload job)
              (20 + a_queue_priority_offset a) db)))"

definition enqueue_interactive_agent_job :: "world \<Rightarrow> uuid \<Rightarrow> uuid \<Rightarrow> uuid option \<Rightarrow> string \<Rightarrow> json
    \<Rightarrow> db \<Rightarrow> uuid response \<times> db" where
  "enqueue_interactive_agent_job w server_id app_id deployment_id job_type payload db =
     (case enqueue_interactive_agent_job_for_actor w owner
         \<lparr> ij_server_id = server_id, ij_app_id = app_id, ij_deployment_id = deployment_id,
           ij_job_type = job_type, ij_payload = payload \<rparr> db of
        (Inr job_id, db') \<Rightarrow> (Reply job_id, db')
      | (Inl _, db') \<Rightarrow> (Code INTERNAL_SERVER_ERROR, db'))"

section \<open>Deployment jobs\<close>

definition lifecycle_job_type :: "string \<Rightarrow> bool" where
  "lifecycle_job_type job_type \<longleftrightarrow> job_type = ''deploy'' \<or> job_type = ''rollback''
     \<or> job_type = ''build'' \<or> job_type = ''release''"

text \<open>The guards of \<open>enqueue_agent_job\<close> for an app: \<open>Inr\<close> is the priority offset.\<close>

definition enqueue_app_guard :: "world \<Rightarrow> uuid \<Rightarrow> uuid option \<Rightarrow> string \<Rightarrow> db \<Rightarrow> string + int" where
  "enqueue_app_guard w app_id deployment_id job_type db =
     (if fault w 1 \<or> \<not> lock_app app_id db then Inl ''app no longer exists''
      else if (case deployment_id of
                 None \<Rightarrow> False
               | Some d \<Rightarrow> fault w 2 \<or> \<not> lock_deployment d app_id db)
      then Inl ''deployment no longer exists''
      else if fault w 3 then Inl ''database''
      else case find_app app_id db of
        None \<Rightarrow> Inl ''app no longer exists''
      | Some a \<Rightarrow>
        if lifecycle_job_type job_type \<and> a_suspended_at a \<noteq> None
        then Inl ''this app is paused; resume it before queueing lifecycle work''
        else if job_type \<noteq> ''delete_app'' \<and> fault w 4 then Inl ''database''
        else if job_type \<noteq> ''delete_app'' \<and> deletion_fenced app_id db
        then Inl ''app deletion is in progress''
        else Inr (a_queue_priority_offset a))"

definition capacity_payload :: "capacity_decision option \<Rightarrow> json \<Rightarrow> json" where
  "capacity_payload decision payload =
     (case decision of
        Some Admitted \<Rightarrow> json_insert ''capacity_reserved'' (JBool True) payload
      | Some (Waiting reason) \<Rightarrow> json_insert ''capacity_wait_reason'' (JStr reason)
          (json_insert ''capacity_wait'' (JBool True) payload)
      | None \<Rightarrow> payload)"

definition delay_job :: "world \<Rightarrow> uuid \<Rightarrow> db \<Rightarrow> db" where
  "delay_job w job_id = update_jobs (\<lambda>j. j_id j = job_id)
     (\<lambda>j. j\<lparr> j_available_at := tx_now w + years 100 \<rparr>)"

definition enqueue_decision :: "world \<Rightarrow> uuid \<Rightarrow> uuid option \<Rightarrow> string \<Rightarrow> db
    \<Rightarrow> string + capacity_decision option" where
  "enqueue_decision w server_id app_id job_type db =
     (if job_type = ''deploy'' \<or> job_type = ''rollback'' then
        (case app_id of
           None \<Rightarrow> Inl ''capacity-managed job is missing its app''
         | Some i \<Rightarrow>
             (case capacity_decision_in_transaction w 5 server_id i None db of
                Inl e \<Rightarrow> Inl e
              | Inr decision \<Rightarrow> Inr (Some decision)))
      else Inr None)"

definition enqueue_agent_job :: "world \<Rightarrow> uuid \<Rightarrow> uuid option \<Rightarrow> uuid option \<Rightarrow> string \<Rightarrow> json \<Rightarrow> int
    \<Rightarrow> db \<Rightarrow> (string + uuid) \<times> db" where
  "enqueue_agent_job w server_id app_id deployment_id job_type payload priority db =
     (if fault w 0 then (Inl ''database'', db)
      else case (case app_id of
                   Some i \<Rightarrow> enqueue_app_guard w i deployment_id job_type db
                 | None \<Rightarrow> if job_type = ''docker_cleanup'' then Inr 0
                           else Inl ''app-bound agent job is missing its app'') of
        Inl e \<Rightarrow> (Inl e, db)
      | Inr offset \<Rightarrow>
        (case enqueue_decision w server_id app_id job_type db of
           Inl e \<Rightarrow> (Inl e, db)
         | Inr decision \<Rightarrow>
           if fault w 8 then (Inl ''database'', db)
           else
             (let db1 = insert_agent_job_in_transaction (tx_now w) (fresh w 0) server_id app_id
                    deployment_id job_type (capacity_payload decision payload) (priority + offset)
                    db;
                  waiting = (case decision of Some (Waiting _) \<Rightarrow> True | _ \<Rightarrow> False);
                  db2 = (if waiting then delay_job w (fresh w 0) db1 else db1) in
              if (waiting \<and> fault w 9) \<or> fault w 10 then (Inl ''database'', db)
              else (Inr (fresh w 0), db2))))"

section \<open>Sending a deployment job\<close>

text \<open>\<open>deploy/recovery.rs\<close>: best effort, a failing call changes nothing.\<close>

definition mark_deployment_running :: "world \<Rightarrow> uuid \<Rightarrow> db \<Rightarrow> db" where
  "mark_deployment_running w deployment_id db =
     (if fault w 0 then db
      else update_deployments (\<lambda>d. d_id d = deployment_id \<and> d_status d = D_Queued)
        (\<lambda>d. d\<lparr> d_status := D_Running \<rparr>) db)"

definition record_audit_event :: "world \<Rightarrow> string \<Rightarrow> uuid \<Rightarrow> uuid \<Rightarrow> uuid option \<Rightarrow> uuid option
    \<Rightarrow> db \<Rightarrow> db" where
  "record_audit_event w event_type user_id app_id deployment_id job_id db =
     (if fault w 0 then db
      else audit (tx_now w) ''owner'' (Some (uuid_text w user_id)) event_type (Some app_id)
        deployment_id job_id (JObj []) db)"

text \<open>
  \<open>send_job\<close> is five separate database calls; \<open>ws k\<close> is the world of the \<open>k\<close>-th.  \<open>Uuid::nil()\<close> is 0.
\<close>

definition send_job :: "(nat \<Rightarrow> world) \<Rightarrow> uuid \<Rightarrow> uuid \<Rightarrow> json \<Rightarrow> db \<Rightarrow> (string + unit) \<times> db" where
  "send_job ws server_id deployment_id payload db =
     (let job_type = (case get_str payload ''type'' of None \<Rightarrow> ''deployment'' | Some t \<Rightarrow> t);
          app_id = Option.bind (get_str payload ''app_id'') (parse_uuid (ws 0));
          required = required_protocol_version job_type payload in
      if 3 \<le> required \<and> fault (ws 0) 0 then (Inl ''database'', db)
      else if 3 \<le> required \<and> (case find_server server_id db of
                None \<Rightarrow> 1 | Some s \<Rightarrow> s_agent_protocol_version s) < required
      then (Inl ''agent_upgrade_required'', db)
      else case enqueue_agent_job (ws 1) server_id app_id (Some deployment_id) job_type payload 10 db of
        (Inl e, db1) \<Rightarrow> (Inl e, db1)
      | (Inr job_id, db1) \<Rightarrow>
        (let db2 = (case app_id of
               None \<Rightarrow> db1
             | Some i \<Rightarrow> record_audit_event (ws 2) (job_type @ ''_job_queued'') 0 i
                 (Some deployment_id) (Some job_id) db1);
             waiting_for_capacity = (\<not> fault (ws 3) 0 \<and>
               (case find_job job_id db2 of None \<Rightarrow> False | Some j \<Rightarrow> waits_for_capacity j));
             db3 = (if waiting_for_capacity then db2
               else mark_deployment_running (ws 4) deployment_id db2) in
         (Inr (), db3)))"

section \<open>What an enqueued job looks like\<close>

lemma delay_job_frame [simp]:
  "deployments (delay_job w i db) = deployments db" "apps (delay_job w i db) = apps db"
  "servers (delay_job w i db) = servers db"
  "app_suspensions (delay_job w i db) = app_suspensions db"
  by (simp_all add: delay_job_def)

lemma record_audit_frame [simp]:
  "agent_jobs (record_agent_job_audit_event_in_transaction w x e a d j db) = agent_jobs db"
  "deployments (record_agent_job_audit_event_in_transaction w x e a d j db) = deployments db"
  "apps (record_agent_job_audit_event_in_transaction w x e a d j db) = apps db"
  "servers (record_agent_job_audit_event_in_transaction w x e a d j db) = servers db"
  "deployment_builds (record_agent_job_audit_event_in_transaction w x e a d j db) = deployment_builds db"
  "app_suspensions (record_agent_job_audit_event_in_transaction w x e a d j db) = app_suspensions db"
  by (simp_all add: record_agent_job_audit_event_in_transaction_def)

lemma enqueue_agent_job_elim:
  assumes "enqueue_agent_job w server_id app_id deployment_id job_type payload priority db = (r, db')"
  obtains (refused) e where "r = Inl e" "db' = db"
  | (queued) offset decision where "r = Inr (fresh w 0)"
      "app_id = None \<longrightarrow> offset = 0 \<and> job_type = ''docker_cleanup''"
      "\<And>i. app_id = Some i \<Longrightarrow> enqueue_app_guard w i deployment_id job_type db = Inr offset"
      "enqueue_decision w server_id app_id job_type db = Inr decision"
      "db' = (let db1 = insert_agent_job_in_transaction (tx_now w) (fresh w 0) server_id app_id
          deployment_id job_type (capacity_payload decision payload) (priority + offset) db in
        if \<exists>reason. decision = Some (Waiting reason) then delay_job w (fresh w 0) db1 else db1)"
  using assms unfolding enqueue_agent_job_def Let_def
  by (auto split: option.splits sum.splits capacity_decision.splits if_splits)

lemma enqueue_app_guard_InrD:
  assumes "enqueue_app_guard w i d job_type db = Inr offset"
  obtains a where "find_app i db = Some a" "offset = a_queue_priority_offset a"
    "lifecycle_job_type job_type \<Longrightarrow> a_suspended_at a = None"
    "job_type \<noteq> ''delete_app'' \<Longrightarrow> \<not> deletion_fenced i db"
  using assms unfolding enqueue_app_guard_def
  by (auto split: option.splits if_splits)

text \<open>
  No work is added to a paused or vanishing app.  When an enqueue is accepted, the job is new,
  queued, of the requested type, within the priority band of the request; the app exists, is not
  paused if the job is lifecycle work and is not being deleted unless the job is the deletion; a
  deploy or rollback is either marked as reserved or held back for a hundred years.  When it is
  refused nothing changes.
\<close>

theorem enqueue_agent_job_correct:
  assumes "enqueue_agent_job w server_id app_id deployment_id job_type payload priority db = (r, db')"
    "is_object payload" "find_job (fresh w 0) db = None"
    "\<forall>a \<in> set (apps db). 0 \<le> a_queue_priority_offset a \<and> a_queue_priority_offset a \<le> 4"
  shows "(\<exists>e. r = Inl e \<and> db' = db) \<or>
    (\<exists>j. r = Inr (fresh w 0) \<and> find_job (fresh w 0) db' = Some j \<and> j_status j = J_Queued
       \<and> j_job_type j = job_type \<and> j_app_id j = app_id \<and> j_server_id j = Some server_id
       \<and> priority \<le> j_priority j \<and> j_priority j < priority + 5
       \<and> apps db' = apps db \<and> deployments db' = deployments db
       \<and> (\<forall>i. i \<noteq> fresh w 0 \<longrightarrow> find_job i db' = find_job i db)
       \<and> (\<forall>i. app_id = Some i \<longrightarrow> (\<exists>a. find_app i db = Some a
            \<and> (lifecycle_job_type job_type \<longrightarrow> a_suspended_at a = None)
            \<and> (job_type \<noteq> ''delete_app'' \<longrightarrow> \<not> deletion_fenced i db)))
       \<and> (job_type = ''deploy'' \<or> job_type = ''rollback'' \<longrightarrow>
            (holds_reservation j \<or> waits_for_capacity j \<and> j_available_at j = tx_now w + years 100)))"
  using assms(1)
proof (cases rule: enqueue_agent_job_elim)
  case (queued offset decision)
  let ?j = "new_agent_job (tx_now w) (fresh w 0) server_id app_id deployment_id job_type
    (capacity_payload decision payload) (priority + offset)"
  have off: "0 \<le> offset \<and> offset < 5"
  proof (cases app_id)
    case (Some i)
    show ?thesis
      by (rule enqueue_app_guard_InrD [OF queued(3) [OF Some]])
        (use assms(4) find_row_SomeD in fastforce)
  qed (use queued(2) in simp)
  have guard: "\<exists>a. find_app i db = Some a \<and> (lifecycle_job_type job_type \<longrightarrow> a_suspended_at a = None)
      \<and> (job_type \<noteq> ''delete_app'' \<longrightarrow> \<not> deletion_fenced i db)" if "app_id = Some i" for i
    by (rule enqueue_app_guard_InrD [OF queued(3) [OF that]]) blast
  let ?w = "\<exists>reason. decision = Some (Waiting reason)"
  define j' where "j' = (if ?w then ?j\<lparr> j_available_at := tx_now w + years 100 \<rparr> else ?j)"
  have jobs: "find_job i db' = (if i = fresh w 0 then Some j' else find_job i db)" for i
    using assms(3) unfolding queued(5) j'_def
    by (auto simp: Let_def delay_job_def find_row_update find_row_append split: option.split dest: find_row_SomeD)
  have reserved: "holds_reservation j' \<or> waits_for_capacity j' \<and> j_available_at j' = tx_now w + years 100"
    if "job_type = ''deploy'' \<or> job_type = ''rollback''"
    using queued(4) that assms(2) unfolding j'_def
    by (auto simp: enqueue_decision_def holds_reservation_def capacity_job_def waits_for_capacity_def
        capacity_payload_def json_text_def json_get_insert split: option.splits sum.splits
        capacity_decision.splits)
  have fields: "j_status j' = J_Queued" "j_job_type j' = job_type" "j_app_id j' = app_id"
    "j_server_id j' = Some server_id" "j_priority j' = priority + offset"
    by (simp_all add: j'_def)
  have frame: "apps db' = apps db" "deployments db' = deployments db"
    by (simp_all add: queued(5) Let_def)
  show ?thesis
    using queued(1) off guard jobs reserved by (simp add: fields frame)
qed auto

end
