(* ===== verification/Build_Queue.thy ===== *)
theory Build_Queue
  imports Job_Queue
begin

text \<open>
  \<open>apps/api/src/deploy/build_queue.rs\<close>, \<open>apps/api/src/storage.rs\<close> and \<open>deploy/helpers.rs\<close>: which
  build pool builds a deployment, why a build has to wait, the storage quota, and the transaction
  that queues the build.  The URL parser of the \<open>url\<close> crate is a parameter: it returns scheme, host,
  port and path.
\<close>

type_synonym url_parser = "string \<Rightarrow> (string \<times> string option \<times> nat option \<times> string) option"

section \<open>Storage limits\<close>

definition positive :: "int option \<Rightarrow> int option" where
  "positive v = (case v of Some n \<Rightarrow> if 0 < n then Some n else None | None \<Rightarrow> None)"

definition default_volume_storage_limit_mb :: "world \<Rightarrow> int" where
  "default_volume_storage_limit_mb w =
     (case positive (Option.bind (env_var w ''HOSTLET_DEFAULT_VOLUME_STORAGE_MB'') parse_i64) of
        Some mb \<Rightarrow> mb | None \<Rightarrow> 5120)"

definition volume_storage_limit_bytes :: "world \<Rightarrow> json \<Rightarrow> int" where
  "volume_storage_limit_bytes w config = saturating_mul
     (case positive (Option.bind (json_pointer config [''compose'', ''volumeStorageLimitMb'']) as_i64) of
        Some mb \<Rightarrow> mb | None \<Rightarrow> default_volume_storage_limit_mb w) (1024 * 1024)"

definition account_storage_limit_bytes :: "json \<Rightarrow> int option" where
  "account_storage_limit_bytes config = map_option (\<lambda>mb. saturating_mul mb (1024 * 1024))
     (positive (Option.bind (json_pointer config [''compose'', ''accountStorageLimitMb'']) as_i64))"

datatype storage_scope = Account | PerApp

definition storage_over_quota_error :: "int \<Rightarrow> int \<Rightarrow> storage_scope \<Rightarrow> string option" where
  "storage_over_quota_error used_bytes limit_bytes scope =
     (if used_bytes < limit_bytes then None
      else
        (let limit_mb = limit_bytes div (1024 * 1024);
             used_mb = used_bytes div (1024 * 1024) in
         Some (case scope of
           Account \<Rightarrow> ''Your projects are over the '' @ show_int limit_mb
             @ '' MB account storage limit ('' @ show_int used_mb
             @ '' MB used by their images + volumes). Remove a project, shrink an image, or upgrade your plan before deploying.''
         | PerApp \<Rightarrow> ''This app is over its '' @ show_int limit_mb @ '' MB storage limit (''
             @ show_int used_mb
             @ '' MB used by its image + volumes). Free space, shrink the image, or raise the limit before deploying.'')))"

definition in_i64 :: "int \<Rightarrow> bool" where
  "in_i64 n \<longleftrightarrow> i64_min \<le> n \<and> n \<le> i64_max"

text \<open>The quota gate of \<open>create_and_send_deploy_with_approval\<close>: \<open>Some e\<close> refuses the deployment.\<close>

definition owner_usage :: "uuid \<Rightarrow> db \<Rightarrow> int list" where
  "owner_usage app_id db = map (\<lambda>u. u_used_bytes u + u_image_bytes u)
     (filter (\<lambda>u. case (find_app (u_app_id u) db, find_app app_id db) of
        (Some a, Some b) \<Rightarrow> a_user_id a = a_user_id b | _ \<Rightarrow> False) (app_storage_usage db))"

definition storage_gate :: "world \<Rightarrow> app_row \<Rightarrow> db \<Rightarrow> string option" where
  "storage_gate w a db =
     (if fault w 0 then Some ''database''
      else case account_storage_limit_bytes (a_runtime_config a) of
        Some account_limit \<Rightarrow>
          (let sums = owner_usage (a_id a) db in
           if list_all in_i64 sums \<and> in_i64 (sum_list sums)
           then storage_over_quota_error (sum_list sums) account_limit Account
           else Some ''database'')
      | None \<Rightarrow>
          storage_over_quota_error
            (case find_row u_app_id (a_id a) (app_storage_usage db) of
               None \<Rightarrow> 0 | Some u \<Rightarrow> saturating_add (u_used_bytes u) (u_image_bytes u))
            (volume_storage_limit_bytes w (a_runtime_config a)) PerApp)"

section \<open>Build pools\<close>

definition oldest_default :: "build_pool_row list \<Rightarrow> build_pool_row option" where
  "oldest_default pools =
     (case sort_key q_created_at (filter q_is_default pools) of [] \<Rightarrow> None | p # _ \<Rightarrow> Some p)"

definition selected_build_pool :: "world \<Rightarrow> uuid option \<Rightarrow> db \<Rightarrow> string + uuid \<times> string" where
  "selected_build_pool w app_pool_id db =
     (if fault w 0 then Inl ''database''
      else case (case app_pool_id of
                   Some i \<Rightarrow> find_row q_id i (build_pools db)
                 | None \<Rightarrow> oldest_default (build_pools db)) of
        None \<Rightarrow> Inl ''no default build pool is configured''
      | Some p \<Rightarrow>
        if \<not> q_enabled p then Inl ''selected build pool is disabled''
        else if q_provider p = ''cloudflare'' \<and> q_qualification_status p \<noteq> ''passed''
        then Inl ''Cloudflare build pool must pass qualification before production use''
        else Inr (q_id p, q_provider p))"

definition registry_host :: "url_parser \<Rightarrow> string \<Rightarrow> string + string" where
  "registry_host url_parse url =
     (case url_parse url of
        None \<Rightarrow> Inl ''artifact registry URL is invalid''
      | Some (scheme, host, port, path) \<Rightarrow>
        if \<not> (scheme = ''https''
          \<or> scheme = ''http'' \<and> (host = Some ''localhost'' \<or> host = Some ''127.0.0.1''))
        then Inl ''artifact registry must use HTTPS''
        else if \<not> (path = [] \<or> path = ''/'') then Inl ''artifact registry URL cannot contain a path''
        else case host of
          None \<Rightarrow> Inl ''artifact registry URL is missing a host''
        | Some h \<Rightarrow> Inr (case port of Some p \<Rightarrow> h @ '':'' @ show_nat p | None \<Rightarrow> h))"

definition non_blank :: "string option \<Rightarrow> string option" where
  "non_blank v = (case v of Some s \<Rightarrow> if trim s = [] then None else Some s | None \<Rightarrow> None)"

definition required_registry_env :: "world \<Rightarrow> string \<Rightarrow> string + string" where
  "required_registry_env w key =
     (case non_blank (env_var w key) of
        Some v \<Rightarrow> Inr v | None \<Rightarrow> Inl (key @ '' is required for remote build pools''))"

definition build_registry_url :: "world \<Rightarrow> string \<Rightarrow> string + string" where
  "build_registry_url w provider =
     (case (if provider = ''local''
            then non_blank (env_var w ''HOSTLET_ARTIFACT_REGISTRY_LOCAL_URL'') else None) of
        Some url \<Rightarrow> Inr url
      | None \<Rightarrow> required_registry_env w ''HOSTLET_ARTIFACT_REGISTRY_URL'')"

definition build_waiting_reason :: "world \<Rightarrow> uuid \<Rightarrow> string \<Rightarrow> uuid \<Rightarrow> string \<Rightarrow> db
    \<Rightarrow> string + string option" where
  "build_waiting_reason w build_pool_id provider runner_server_id platform db =
     (if fault w 2 then Inl ''database''
      else if provider = ''local'' then
        (case find_server runner_server_id db of
           None \<Rightarrow> Inl ''database''
         | Some s \<Rightarrow> Inr
             (if s_agent_protocol_version s < deployment_protocol_version
              then Some ''control_plane_agent_requires_upgrade''
              else if s_status s \<noteq> ''online'' then Some ''control_plane_builder_offline''
              else None))
      else
        (let rows = filter (\<lambda>s. s_build_pool_id s = Some build_pool_id
               \<and> ''builder'' \<in> set (s_capabilities s) \<and> s_status s \<noteq> ''revoked'') (servers db);
             compatible = filter (\<lambda>s. platform \<in> set (s_platforms s)) rows in
         Inr (if rows = [] then Some ''no_enrolled_builder''
              else if compatible = [] then Some ''no_compatible_builder_platform''
              else if list_all (\<lambda>s. s_agent_protocol_version s < deployment_protocol_version) compatible
              then Some ''builder_agents_require_upgrade''
              else if list_all s_draining compatible then Some ''compatible_builders_draining''
              else if list_all (\<lambda>s. s_status s \<noteq> ''online'') compatible
              then Some ''no_online_compatible_builder''
              else None)))"

section \<open>Queueing the build\<close>

text \<open>
  The unique index \<open>idx_deployments_one_active_per_app\<close>: making \<open>deployment_id\<close> active fails when
  another deployment of the app is active.
\<close>

definition another_active :: "uuid \<Rightarrow> uuid \<Rightarrow> db \<Rightarrow> bool" where
  "another_active deployment_id app_id db = exists_where
     (\<lambda>d. d_id d \<noteq> deployment_id \<and> d_app_id d = app_id \<and> active_status (d_status d)) (deployments db)"

definition registry_json :: "string \<Rightarrow> string \<Rightarrow> string \<Rightarrow> string \<Rightarrow> string \<Rightarrow> string \<Rightarrow> json" where
  "registry_json url host repository tag push_username push_password = JObj
     [(''url'', JStr url), (''host'', JStr host), (''repository'', JStr repository),
      (''tag'', JStr tag), (''pushUsername'', JStr push_username),
      (''pushPassword'', JStr push_password)]"

definition build_payload :: "world \<Rightarrow> uuid \<Rightarrow> string \<Rightarrow> json \<Rightarrow> json \<Rightarrow> json" where
  "build_payload w runner_server_id platform registry payload =
     json_insert ''artifact_registry'' registry
       (json_insert ''required_platform'' (JStr platform)
         (json_insert ''runner_server_id'' (JStr (uuid_text w runner_server_id))
           (json_insert ''type'' (JStr ''build'') payload)))"

definition new_build :: "world \<Rightarrow> uuid \<Rightarrow> uuid \<Rightarrow> uuid \<Rightarrow> string \<Rightarrow> json \<Rightarrow> string option \<Rightarrow> build_row" where
  "new_build w build_id deployment_id build_pool_id platform spec waiting_reason = \<lparr> b_id = build_id,
     b_deployment_id = deployment_id, b_build_pool_id = build_pool_id, b_status = B_Queued,
     b_required_platform = platform, b_build_spec = spec, b_build_plan_digest = None,
     b_artifact_manifest = JObj [], b_waiting_reason = waiting_reason, b_failure_code = None,
     b_failure_summary = None, b_started_at = None, b_finished_at = None, b_updated_at = tx_now w \<rparr>"

definition new_build_job :: "world \<Rightarrow> uuid \<Rightarrow> uuid option \<Rightarrow> uuid \<Rightarrow> uuid \<Rightarrow> uuid \<Rightarrow> json \<Rightarrow> job_row" where
  "new_build_job w job_id server_id build_pool_id app_id deployment_id payload =
     (default_job (tx_now w) job_id)\<lparr> j_server_id := server_id, j_build_pool_id := Some build_pool_id,
       j_app_id := Some app_id, j_deployment_id := Some deployment_id, j_job_type := ''build'',
       j_status := J_Queued, j_payload := payload, j_priority := 10, j_protocol_version := 6 \<rparr>"

definition insert_build :: "build_row \<Rightarrow> db \<Rightarrow> db" where
  "insert_build row = deployment_builds_update (\<lambda>bs. bs @ [row])"

definition attach_build :: "uuid \<Rightarrow> uuid \<Rightarrow> db \<Rightarrow> db" where
  "attach_build build_id deployment_id = update_deployments (\<lambda>d. d_id d = deployment_id)
     (\<lambda>d. d\<lparr> d_build_id := Some build_id, d_status := D_QueuedForBuild \<rparr>)"

text \<open>
  The transaction of \<open>enqueue_build\<close>: \<open>fresh w 0\<close> is the build, \<open>fresh w 1\<close> the job.
\<close>

definition enqueue_build_tx :: "world \<Rightarrow> uuid \<Rightarrow> string \<Rightarrow> uuid \<Rightarrow> uuid \<Rightarrow> uuid \<Rightarrow> string
    \<Rightarrow> string option \<Rightarrow> json \<Rightarrow> db \<Rightarrow> (string + unit) \<times> db" where
  "enqueue_build_tx w build_pool_id provider runner_server_id deployment_id app_id platform
     waiting_reason payload db =
     (if fault w 3 \<or> fault w 4 then (Inl ''database'', db)
      else case find_app app_id db of
        None \<Rightarrow> (Inl ''database'', db)
      | Some a \<Rightarrow>
        if a_suspended_at a \<noteq> None then (Inl ''app is paused; build is not permitted'', db)
        else if fault w 5 \<or> \<not> lock_deployment deployment_id app_id db
        then (Inl ''deployment no longer exists'', db)
        else if fault w 6
          \<or> exists_where (\<lambda>b. b_deployment_id b = deployment_id) (deployment_builds db)
        then (Inl ''database'', db)
        else if fault w 7 \<or> another_active deployment_id app_id db \<or> fault w 8 \<or> fault w 9
        then (Inl ''database'', db)
        else (Inr (),
          agent_jobs_update (\<lambda>js. js @ [new_build_job w (fresh w 1)
              (if provider = ''local'' then Some runner_server_id else None) build_pool_id app_id
              deployment_id (json_insert ''build_id'' (JStr (uuid_text w (fresh w 0))) payload)])
            (attach_build (fresh w 0) deployment_id
              (insert_build (new_build w (fresh w 0) deployment_id build_pool_id platform
                (scrub payload) waiting_reason) db))))"

text \<open>The registry part of \<open>enqueue_build\<close>: address, host and push credentials, or the first error.\<close>

definition registry_settings :: "world \<Rightarrow> url_parser \<Rightarrow> string
    \<Rightarrow> string + string \<times> string \<times> string \<times> string" where
  "registry_settings w url_parse provider =
     and_then (build_registry_url w provider) (\<lambda>registry_url.
       if provider = ''vm'' \<and> \<not> starts_with registry_url ''https://''
       then Inl ''remote build pools require a builder-reachable HTTPS artifact registry URL''
       else and_then (registry_host url_parse registry_url) (\<lambda>host.
         and_then (required_registry_env w ''HOSTLET_ARTIFACT_REGISTRY_PUSH_USERNAME'') (\<lambda>username.
           and_then (required_registry_env w ''HOSTLET_ARTIFACT_REGISTRY_PUSH_PASSWORD'') (\<lambda>password.
             and_then (required_registry_env w ''HOSTLET_ARTIFACT_REGISTRY_PULL_USERNAME'') (\<lambda>_.
               and_then (required_registry_env w ''HOSTLET_ARTIFACT_REGISTRY_PULL_PASSWORD'') (\<lambda>_.
                 Inr (registry_url, host, username, password)))))))"

text \<open>The platform of the runner, if the pool supports it.\<close>

definition build_platform :: "world \<Rightarrow> uuid \<Rightarrow> uuid \<Rightarrow> db \<Rightarrow> string + string" where
  "build_platform w build_pool_id runner_server_id db =
     (if fault w 0 then Inl ''database''
      else case find_server runner_server_id db of
        None \<Rightarrow> Inl ''database''
      | Some s \<Rightarrow>
        (let platform = (case s_platforms s of [] \<Rightarrow> ''linux/amd64'' | p # _ \<Rightarrow> p) in
         if fault w 1 then Inl ''database''
         else case find_row q_id build_pool_id (build_pools db) of
           None \<Rightarrow> Inl ''database''
         | Some pool \<Rightarrow>
           if platform \<in> set (q_supported_platforms pool) then Inr platform
           else Inl (''selected build pool does not support runner platform '' @ platform)))"

definition enqueue_build :: "world \<Rightarrow> url_parser \<Rightarrow> uuid \<Rightarrow> string \<Rightarrow> uuid \<Rightarrow> uuid \<Rightarrow> uuid \<Rightarrow> json
    \<Rightarrow> db \<Rightarrow> (string + unit) \<times> db" where
  "enqueue_build w url_parse build_pool_id provider runner_server_id deployment_id app_id payload db =
     (if \<not> (provider = ''local'' \<or> provider = ''vm'')
      then (Inl ''selected provider does not implement the universal build contract'', db)
      else case registry_settings w url_parse provider of
        Inl e \<Rightarrow> (Inl e, db)
      | Inr (registry_url, host, push_username, push_password) \<Rightarrow>
        (case build_platform w build_pool_id runner_server_id db of
           Inl e \<Rightarrow> (Inl e, db)
         | Inr platform \<Rightarrow>
           (case build_waiting_reason w build_pool_id provider runner_server_id platform db of
              Inl e \<Rightarrow> (Inl e, db)
            | Inr waiting_reason \<Rightarrow>
                enqueue_build_tx w build_pool_id provider runner_server_id deployment_id app_id
                  platform waiting_reason
                  (build_payload w runner_server_id platform
                    (registry_json registry_url host
                      (''hostlet/apps/'' @ uuid_text w app_id @ ''/artifacts'')
                      (''deployment-'' @ uuid_text w deployment_id) push_username push_password)
                    payload) db)))"

section \<open>Elimination\<close>

definition build_queued :: "world \<Rightarrow> uuid \<Rightarrow> string \<Rightarrow> uuid \<Rightarrow> uuid \<Rightarrow> uuid \<Rightarrow> string
    \<Rightarrow> string option \<Rightarrow> json \<Rightarrow> db \<Rightarrow> db" where
  "build_queued w build_pool_id provider runner_server_id deployment_id app_id platform
     waiting_reason payload db =
     agent_jobs_update (\<lambda>js. js @ [new_build_job w (fresh w 1)
         (if provider = ''local'' then Some runner_server_id else None) build_pool_id app_id
         deployment_id (json_insert ''build_id'' (JStr (uuid_text w (fresh w 0))) payload)])
       (attach_build (fresh w 0) deployment_id
         (insert_build (new_build w (fresh w 0) deployment_id build_pool_id platform
           (scrub payload) waiting_reason) db))"

lemma enqueue_build_tx_elim:
  assumes "enqueue_build_tx w pool provider runner k i platform reason payload db = (r, db')"
  obtains (refused) e where "r = Inl e" "db' = db"
  | (queued) a where "r = Inr ()" "find_app i db = Some a" "a_suspended_at a = None"
      "lock_deployment k i db" "\<not> another_active k i db"
      "\<not> exists_where (\<lambda>b. b_deployment_id b = k) (deployment_builds db)"
      "db' = build_queued w pool provider runner k i platform reason payload db"
proof (cases "\<exists>e. r = Inl e \<and> db' = db")
  case True
  with refused show ?thesis by blast
next
  case False
  then have "\<exists>a. r = Inr () \<and> find_app i db = Some a \<and> a_suspended_at a = None
      \<and> lock_deployment k i db \<and> \<not> another_active k i db
      \<and> \<not> exists_where (\<lambda>b. b_deployment_id b = k) (deployment_builds db)
      \<and> db' = build_queued w pool provider runner k i platform reason payload db"
    using assms unfolding enqueue_build_tx_def build_queued_def
    by (simp split: option.splits if_splits) auto
  with queued show ?thesis by blast
qed

lemma enqueue_build_elim:
  assumes "enqueue_build w url_parse pool provider runner k i payload db = (r, db')"
  obtains (refused) e where "r = Inl e" "db' = db"
  | (queued) a platform reason registry where "r = Inr ()" "find_app i db = Some a"
      "a_suspended_at a = None" "lock_deployment k i db" "\<not> another_active k i db"
      "provider = ''local'' \<or> provider = ''vm''"
      "db' = build_queued w pool provider runner k i platform reason
         (build_payload w runner platform registry payload) db"
proof (cases "\<exists>e. r = Inl e \<and> db' = db")
  case True
  with refused show ?thesis by blast
next
  case False
  with assms obtain platform reason registry where
    tx: "enqueue_build_tx w pool provider runner k i platform reason
       (build_payload w runner platform registry payload) db = (r, db')"
    and p: "provider = ''local'' \<or> provider = ''vm''"
    unfolding enqueue_build_def by (auto split: sum.splits prod.splits if_splits)
  from tx show ?thesis
    by (cases rule: enqueue_build_tx_elim) (use queued p False in auto)
qed

end
