(* ===== verification/Deploy.thy ===== *)
theory Deploy
  imports Build_Queue
begin

text \<open>
  Starting a deployment and a rollback (\<open>apps/api/src/deploy.rs\<close>, \<open>deploy/deploy_app.rs\<close>,
  \<open>deploy/recovery.rs\<close>).  Both are sequences of separate database calls: \<open>ws k\<close> is the world of the
  \<open>k\<close>-th.  What is outside the repository is a field of \<open>deploy_env\<close>: the token provider, the GitHub
  API, the decryption of stored values and the URL parser.
\<close>

record deploy_env =
  token_for_deploy :: "uuid \<Rightarrow> string \<Rightarrow> string + string option"
  github_commit :: "string \<Rightarrow> string \<Rightarrow> string option \<Rightarrow> string + json"
  decrypt :: "string \<Rightarrow> string + string"
  parse_url :: url_parser

section \<open>Pure helpers\<close>

definition route_key :: "world \<Rightarrow> uuid \<Rightarrow> string" where
  "route_key w app_id = ''app-'' @ uuid_text w app_id"

definition rollback_supported_for_runtime :: "string \<Rightarrow> bool" where
  "rollback_supported_for_runtime kind \<longleftrightarrow> kind = ''single'' \<or> kind = ''compose''"

text \<open>\<open>valid_container_mount_path\<close> of \<open>crates/contracts/src/compose.rs\<close>.\<close>

definition valid_container_mount_path :: "string \<Rightarrow> bool" where
  "valid_container_mount_path value \<longleftrightarrow>
     starts_with value ''/'' \<and> value \<noteq> ''/'' \<and> length value \<le> 256
     \<and> ''..'' \<notin> set (split_char (CHR ''/'') value)
     \<and> \<not> has_control value
     \<and> \<not> list_ex (\<lambda>c. c = CHR 0x5C \<or> c = CHR '','' \<or> c = CHR ''='') value"

definition deploy_safe_runtime_config :: "json \<Rightarrow> json" where
  "deploy_safe_runtime_config config =
     (case json_get config ''dataMountPath'' of
        None \<Rightarrow> config
      | Some v \<Rightarrow>
          (case as_str v of
             Some s \<Rightarrow> if valid_container_mount_path s then config
                       else json_remove ''dataMountPath'' config
           | None \<Rightarrow> json_remove ''dataMountPath'' config))"

definition opt_int_json :: "int option \<Rightarrow> json" where
  "opt_int_json v = (case v of None \<Rightarrow> JNull | Some n \<Rightarrow> JInt n)"

definition deploy_payload :: "world \<Rightarrow> app_row \<Rightarrow> uuid \<Rightarrow> string \<Rightarrow> (string \<times> json) list
    \<Rightarrow> string option \<Rightarrow> json" where
  "deploy_payload w a deployment_id commit_sha env github_token = JObj
     [(''type'', JStr ''deploy''), (''deployment_id'', JStr (uuid_text w deployment_id)),
      (''app_id'', JStr (uuid_text w (a_id a))), (''route_key'', JStr (route_key w (a_id a))),
      (''app_name'', JStr (a_name a)), (''repo'', JStr (a_repo_full_name a)),
      (''branch'', JStr (a_branch a)), (''commit_sha'', JStr commit_sha),
      (''container_port'', JInt (a_container_port a)), (''health_path'', JStr (a_health_path a)),
      (''domain'', JStr (a_domain a)), (''env'', JObj env),
      (''runtime_kind'', JStr (a_runtime_kind a)),
      (''hostlet_config_path'', JStr (a_hostlet_config_path a)),
      (''runtime_config'', deploy_safe_runtime_config (a_runtime_config a)),
      (''packaging_strategy'', JStr (a_packaging_strategy a)),
      (''root_directory'', JStr (a_root_directory a)),
      (''install_command'', json_opt_str (a_install_command a)),
      (''build_command'', json_opt_str (a_build_command a)),
      (''start_command'', json_opt_str (a_start_command a)),
      (''memory_limit_mb'', opt_int_json (a_memory_limit_mb a)),
      (''cpu_limit'', a_cpu_limit a), (''github_token'', json_opt_str github_token)]"

definition immutable_sha :: "string \<Rightarrow> bool" where
  "immutable_sha s \<longleftrightarrow> length s = 40 \<and> list_all is_ascii_hexdigit s"

definition resolve_commit_sha :: "deploy_env \<Rightarrow> string \<Rightarrow> string \<Rightarrow> string \<Rightarrow> string option
    \<Rightarrow> string + string" where
  "resolve_commit_sha env repo branch requested token =
     (if requested \<noteq> ''HEAD'' then
        (if immutable_sha requested then Inr (map to_ascii_lowercase requested)
         else Inl ''commit sha must be HEAD or a 40-character hex SHA'')
      else and_then (github_commit env repo branch (non_blank token)) (\<lambda>value.
        case get_str value ''sha'' of
          Some sha \<Rightarrow> if immutable_sha sha then Inr (map to_ascii_lowercase sha)
                     else Inl ''GitHub did not return an immutable commit SHA''
        | None \<Rightarrow> Inl ''GitHub did not return an immutable commit SHA''))"

section \<open>The deployment row\<close>

definition fail_deployment_row :: "world \<Rightarrow> uuid \<Rightarrow> string \<Rightarrow> db \<Rightarrow> db" where
  "fail_deployment_row w deployment_id summary db =
     (if fault w 0 then db
      else update_deployments (\<lambda>d. d_id d = deployment_id \<and> active_status (d_status d))
        (\<lambda>d. d\<lparr> d_status := D_Failed, d_failure_summary := Some summary,
               d_finished_at := Some (tx_now w) \<rparr>) db)"

definition active_deployment :: "uuid \<Rightarrow> db \<Rightarrow> deployment_row option" where
  "active_deployment app_id db =
     find (\<lambda>d. d_app_id d = app_id \<and> active_status (d_status d)) (deployments db)"

definition ensure_no_active_deployment :: "world \<Rightarrow> uuid \<Rightarrow> db \<Rightarrow> string + unit" where
  "ensure_no_active_deployment w app_id db =
     (if fault w 0 then Inl ''database''
      else case active_deployment app_id db of
        Some d \<Rightarrow> Inl (''deployment '' @ uuid_text w (d_id d) @ '' is already ''
          @ deployment_as_str (d_status d) @ '' for this app'')
      | None \<Rightarrow> Inr ())"

definition new_deployment :: "world \<Rightarrow> uuid \<Rightarrow> app_row \<Rightarrow> string \<Rightarrow> uuid option \<Rightarrow> deployment_row" where
  "new_deployment w deployment_id a commit_sha expected = \<lparr> d_id = deployment_id,
     d_app_id = a_id a, d_server_id = a_server_id a, d_status = D_Queued,
     d_commit_sha = commit_sha, d_image_tag = None, d_container_name = None,
     d_published_port = None, d_compose_project = None, d_runtime_kind = a_runtime_kind a,
     d_runtime_metadata = JObj [], d_artifact_manifest = JObj [], d_build_id = None,
     d_expected_current_deployment_id = expected, d_activation_generation = None,
     d_failure_summary = None, d_failure_code = None, d_last_heartbeat_at = None,
     d_started_at = Some (tx_now w), d_finished_at = None, d_created_at = tx_now w \<rparr>"

text \<open>
  The insertion transaction, shared by both: the app row is locked, the pause is checked again and
  the unique index admits one active deployment per app.  \<open>row\<close> is the row to insert.
\<close>

definition insert_deployment_tx :: "world \<Rightarrow> string \<Rightarrow> uuid \<Rightarrow> deployment_row \<Rightarrow> db
    \<Rightarrow> (string + uuid) \<times> db" where
  "insert_deployment_tx w what app_id row db =
     (if fault w 0 \<or> fault w 1 \<or> \<not> lock_app app_id db then (Inl ''app no longer exists'', db)
      else if fault w 2 then (Inl ''database'', db)
      else case find_app app_id db of
        None \<Rightarrow> (Inl ''database'', db)
      | Some a \<Rightarrow>
        if a_suspended_at a \<noteq> None
        then (Inl (''this app is paused; resume it before starting a '' @ what), db)
        else if fault w 3 then (Inl ''database'', db)
        else if active_deployment app_id db \<noteq> None
        then (Inl ''an active deployment is already running for this app'', db)
        else if fault w 4 then (Inl ''database'', db)
        else (Inr (d_id row), deployments_update (\<lambda>ds. ds @ [row]) db))"

section \<open>Starting a deployment\<close>

fun decrypt_env :: "deploy_env \<Rightarrow> env_row list \<Rightarrow> string + (string \<times> json) list" where
  "decrypt_env env [] = Inr []"
| "decrypt_env env (r # rs) = and_then (decrypt env (n_value_ciphertext r)) (\<lambda>v.
     and_then (decrypt_env env rs) (\<lambda>kvs.
       Inr (if n_key r \<in> fst ` set kvs then kvs else (n_key r, JStr v) # kvs)))"

text \<open>Everything between the insertion and the queued build; an error makes the caller fail the row.\<close>

definition start_build :: "(nat \<Rightarrow> world) \<Rightarrow> deploy_env \<Rightarrow> app_row \<Rightarrow> uuid \<Rightarrow> string \<Rightarrow> string option
    \<Rightarrow> string option \<Rightarrow> db \<Rightarrow> (string + unit) \<times> db" where
  "start_build ws env a deployment_id commit_sha github_token approved db =
     (if fault (ws 4) 0 then (Inl ''database'', db)
      else case decrypt_env env (filter (\<lambda>r. n_app_id r = a_id a) (app_env_vars db)) of
        Inl e \<Rightarrow> (Inl e, db)
      | Inr kvs \<Rightarrow>
        if fault (ws 5) 0 then (Inl ''database'', db)
        else
          (let expected_hash = (case find_row c_app_id (a_id a) (app_compose_runtime db) of
                 None \<Rightarrow> None | Some c \<Rightarrow> c_backing_spec_hash c);
               payload = json_insert ''approved_backing_spec_hash'' (json_opt_str approved)
                 (json_insert ''expected_backing_spec_hash'' (json_opt_str expected_hash)
                   (deploy_payload (ws 5) a deployment_id commit_sha kvs github_token)) in
           case selected_build_pool (ws 6) (a_build_pool_id a) db of
             Inl e \<Rightarrow> (Inl e, db)
           | Inr (pool_id, provider) \<Rightarrow>
               enqueue_build (ws 7) (parse_url env) pool_id provider (a_server_id a) deployment_id
                 (a_id a) payload db))"

text \<open>The reads before anything is created.\<close>

definition deploy_preconditions :: "(nat \<Rightarrow> world) \<Rightarrow> deploy_env \<Rightarrow> uuid \<Rightarrow> uuid \<Rightarrow> string \<Rightarrow> db
    \<Rightarrow> string + app_row \<times> string option \<times> string" where
  "deploy_preconditions ws env user_id app_id requested db =
     and_then (ensure_no_active_deployment (ws 0) app_id db) (\<lambda>_.
       case (if fault (ws 1) 0 then None else find_app app_id db) of
         None \<Rightarrow> Inl ''database''
       | Some a \<Rightarrow>
         if a_user_id a \<noteq> user_id then Inl ''database''
         else if a_suspended_at a \<noteq> None
         then Inl ''this app is paused; resume it before starting a deployment''
         else (case storage_gate (ws 2) a db of
             Some e \<Rightarrow> Inl e
           | None \<Rightarrow>
               and_then (token_for_deploy env user_id (a_repo_full_name a)) (\<lambda>token.
                 and_then (resolve_commit_sha env (a_repo_full_name a) (a_branch a) requested token)
                   (\<lambda>sha. Inr (a, token, sha)))))"

definition create_and_send_deploy_with_approval :: "(nat \<Rightarrow> world) \<Rightarrow> deploy_env \<Rightarrow> uuid \<Rightarrow> uuid \<Rightarrow> string
    \<Rightarrow> string option \<Rightarrow> db \<Rightarrow> (string + uuid) \<times> db" where
  "create_and_send_deploy_with_approval ws env user_id app_id requested approved db =
     (case deploy_preconditions ws env user_id app_id requested db of
        Inl e \<Rightarrow> (Inl e, db)
      | Inr (a, token, sha) \<Rightarrow>
        (case insert_deployment_tx (ws 3) ''deployment'' app_id
            (new_deployment (ws 3) (fresh (ws 3) 0) a sha
              (Option.bind (find_app app_id db) a_current_deployment_id)) db of
           (Inl e, db1) \<Rightarrow> (Inl e, db1)
         | (Inr deployment_id, db1) \<Rightarrow>
           (case start_build ws env a deployment_id sha token approved db1 of
              (Inl e, db2) \<Rightarrow> (Inl e, fail_deployment_row (ws 8) deployment_id
                 (''Deployment could not be started: '' @ e) db2)
            | (Inr _, db2) \<Rightarrow> (Inr deployment_id, record_audit_event (ws 9) ''deployment_requested''
                 user_id app_id (Some deployment_id) None db2))))"

definition create_and_send_deploy :: "(nat \<Rightarrow> world) \<Rightarrow> deploy_env \<Rightarrow> uuid \<Rightarrow> uuid \<Rightarrow> string \<Rightarrow> db
    \<Rightarrow> (string + uuid) \<times> db" where
  "create_and_send_deploy ws env user_id app_id requested db =
     create_and_send_deploy_with_approval ws env user_id app_id requested None db"

section \<open>Starting a rollback\<close>

text \<open>\<open>ORDER BY finished_at DESC LIMIT 1\<close>: Postgres puts \<open>NULL\<close> first.\<close>

definition later :: "timestamp option \<Rightarrow> timestamp option \<Rightarrow> bool" where
  "later a b \<longleftrightarrow> (case (a, b) of
     (_, None) \<Rightarrow> False | (None, Some _) \<Rightarrow> True | (Some x, Some y) \<Rightarrow> y < x)"

fun newest :: "('r \<Rightarrow> timestamp option) \<Rightarrow> 'r list \<Rightarrow> 'r option" where
  "newest t [] = None"
| "newest t (r # rs) = (case newest t rs of
     None \<Rightarrow> Some r | Some q \<Rightarrow> if later (t q) (t r) then Some q else Some r)"

definition previous_success :: "app_row \<Rightarrow> db \<Rightarrow> deployment_row option" where
  "previous_success a db = newest d_finished_at
     (filter (\<lambda>d. d_app_id d = a_id a \<and> d_status d = D_Success
        \<and> (a_current_deployment_id a = None \<or> a_current_deployment_id a \<noteq> Some (d_id d))) (deployments db))"

definition service_json :: "service_row \<Rightarrow> json" where
  "service_json v = JObj
     [(''name'', JStr (v_service_name v)), (''role'', JStr (v_role v)),
      (''containerName'', json_opt_str (v_container_name v)),
      (''imageTag'', json_opt_str (v_image_tag v)),
      (''targetPort'', opt_int_json (v_target_port v)),
      (''publishedPort'', opt_int_json (v_published_port v)),
      (''status'', json_opt_str (v_status v)), (''healthStatus'', json_opt_str (v_health_status v))]"

definition rollback_registry :: "world \<Rightarrow> deploy_env \<Rightarrow> uuid \<Rightarrow> deployment_row \<Rightarrow> string + json" where
  "rollback_registry w env app_id prev =
     (if Option.bind (json_get (d_artifact_manifest prev) ''schemaVersion'') as_u64 = Some 2 then
        and_then (required_registry_env w ''HOSTLET_ARTIFACT_REGISTRY_URL'') (\<lambda>url.
          and_then (registry_host (parse_url env) url) (\<lambda>host.
            and_then (required_registry_env w ''HOSTLET_ARTIFACT_REGISTRY_PULL_USERNAME'') (\<lambda>username.
              and_then (required_registry_env w ''HOSTLET_ARTIFACT_REGISTRY_PULL_PASSWORD'') (\<lambda>password.
                Inr (JObj [(''url'', JStr url), (''host'', JStr host),
                  (''repository'', JStr (''hostlet/apps/'' @ uuid_text w app_id @ ''/artifacts'')),
                  (''tag'', JStr (''deployment-'' @ uuid_text w (d_id prev))),
                  (''pullUsername'', JStr username), (''pullPassword'', JStr password)])))))
      else Inr JNull)"

definition rollback_payload :: "world \<Rightarrow> uuid \<Rightarrow> app_row \<Rightarrow> deployment_row \<Rightarrow> int \<Rightarrow> json list \<Rightarrow> json
    \<Rightarrow> json" where
  "rollback_payload w rollback_id a prev published_port target_services registry = JObj
     [(''type'', JStr ''rollback''), (''deployment_id'', JStr (uuid_text w rollback_id)),
      (''app_id'', JStr (uuid_text w (a_id a))), (''route_key'', JStr (route_key w (a_id a))),
      (''target_deployment_id'', JStr (uuid_text w (d_id prev))),
      (''target_container'', json_opt_str (d_container_name prev)),
      (''domain'', JStr (a_domain a)), (''container_port'', JInt (a_container_port a)),
      (''health_path'', JStr (a_health_path a)), (''published_port'', JInt published_port),
      (''target_image'', json_opt_str (d_image_tag prev)),
      (''target_compose_project'', json_opt_str (d_compose_project prev)),
      (''target_runtime_metadata'', d_runtime_metadata prev),
      (''target_services'', JArr target_services),
      (''artifact_manifest'', d_artifact_manifest prev), (''artifact_registry'', registry)]"

definition rollback_target_of :: "(nat \<Rightarrow> world) \<Rightarrow> uuid \<Rightarrow> uuid \<Rightarrow> db
    \<Rightarrow> string + app_row \<times> deployment_row \<times> int \<times> json list" where
  "rollback_target_of ws user_id app_id db =
     and_then (ensure_no_active_deployment (ws 0) app_id db) (\<lambda>_.
       case (if fault (ws 1) 0 then None else find_app app_id db) of
         None \<Rightarrow> Inl ''database''
       | Some a \<Rightarrow>
         if a_user_id a \<noteq> user_id then Inl ''database''
         else if a_suspended_at a \<noteq> None
         then Inl ''this app is paused; resume it before starting a rollback''
         else if \<not> rollback_supported_for_runtime (a_runtime_kind a)
         then Inl ''rollback is not supported for this runtime''
         else if fault (ws 2) 0 then Inl ''database''
         else (case previous_success a db of
             None \<Rightarrow> Inl ''no previous successful deployment is available''
           | Some prev \<Rightarrow>
             (case d_published_port prev of
                None \<Rightarrow> Inl ''previous deployment is missing route metadata; deploy again before rolling back''
              | Some port \<Rightarrow>
                if fault (ws 3) 0 then Inl ''database''
                else Inr (a, prev, port, map service_json
                  (filter (\<lambda>v. v_deployment_id v = d_id prev) (deployment_services db))))))"

definition start_rollback :: "(nat \<Rightarrow> world) \<Rightarrow> deploy_env \<Rightarrow> app_row \<Rightarrow> deployment_row \<Rightarrow> int
    \<Rightarrow> json list \<Rightarrow> uuid \<Rightarrow> db \<Rightarrow> (string + unit) \<times> db" where
  "start_rollback ws env a prev port target_services rollback_id db =
     (if fault (ws 5) 0 then (Inl ''database'', db)
      else
        (let db1 = rollback_events_update (\<lambda>es. es @ [\<lparr> k_app_id = a_id a,
               k_from_deployment_id = a_current_deployment_id a, k_to_deployment_id = d_id prev,
               k_status = ''queued'' \<rparr>]) db in
         case rollback_registry (ws 5) env (a_id a) prev of
           Inl e \<Rightarrow> (Inl e, db1)
         | Inr registry \<Rightarrow>
             send_job (\<lambda>k. ws (6 + k)) (a_server_id a) rollback_id
               (rollback_payload (ws 5) rollback_id a prev port target_services registry) db1))"

definition create_and_send_rollback :: "(nat \<Rightarrow> world) \<Rightarrow> deploy_env \<Rightarrow> uuid \<Rightarrow> uuid \<Rightarrow> db
    \<Rightarrow> (string + uuid) \<times> db" where
  "create_and_send_rollback ws env user_id app_id db =
     (case rollback_target_of ws user_id app_id db of
        Inl e \<Rightarrow> (Inl e, db)
      | Inr (a, prev, port, target_services) \<Rightarrow>
        (case insert_deployment_tx (ws 4) ''rollback'' app_id
            ((new_deployment (ws 4) (fresh (ws 4) 0) a ''rollback'' (a_current_deployment_id a))
              \<lparr> d_image_tag := d_image_tag prev, d_container_name := d_container_name prev,
                d_compose_project := d_compose_project prev \<rparr>) db of
           (Inl e, db1) \<Rightarrow> (Inl e, db1)
         | (Inr rollback_id, db1) \<Rightarrow>
           (case start_rollback ws env a prev port target_services rollback_id db1 of
              (Inl e, db2) \<Rightarrow> (Inl e, fail_deployment_row (ws 11) rollback_id
                 (''Deployment could not be started: '' @ e) db2)
            | (Inr _, db2) \<Rightarrow> (Inr rollback_id, record_audit_event (ws 12) ''rollback_requested''
                 user_id app_id (Some rollback_id) None db2))))"

section \<open>Correctness\<close>

lemma insert_deployment_tx_elim:
  assumes "insert_deployment_tx w what i row db = (r, db')"
  obtains (refused) e where "r = Inl e" "db' = db"
  | (inserted) a where "r = Inr (d_id row)" "find_app i db = Some a" "a_suspended_at a = None"
      "active_deployment i db = None" "db' = deployments_update (\<lambda>ds. ds @ [row]) db"
proof (cases "\<exists>e. r = Inl e \<and> db' = db")
  case True
  with refused show ?thesis by blast
next
  case False
  then have "\<exists>a. r = Inr (d_id row) \<and> find_app i db = Some a \<and> a_suspended_at a = None
      \<and> active_deployment i db = None \<and> db' = deployments_update (\<lambda>ds. ds @ [row]) db"
    using assms unfolding insert_deployment_tx_def by (simp split: option.splits if_splits) auto
  with inserted show ?thesis by blast
qed

lemma active_deployment_None_iff:
  "active_deployment i db = None \<longleftrightarrow>
    (\<forall>d \<in> set (deployments db). d_app_id d = i \<longrightarrow> \<not> active_status (d_status d))"
  by (auto simp: active_deployment_def find_None_iff)

lemma build_queued_simps [simp]:
  "apps (build_queued w q p s k i f r y db) = apps db"
  "servers (build_queued w q p s k i f r y db) = servers db"
  "app_suspensions (build_queued w q p s k i f r y db) = app_suspensions db"
  "deployments (build_queued w q p s k i f r y db) = update_where (\<lambda>d. d_id d = k)
     (\<lambda>d. d\<lparr> d_build_id := Some (fresh w 0), d_status := D_QueuedForBuild \<rparr>) (deployments db)"
  "deployment_builds (build_queued w q p s k i f r y db) =
     deployment_builds db @ [new_build w (fresh w 0) k q f (scrub y) r]"
  "agent_jobs (build_queued w q p s k i f r y db) = agent_jobs db @ [new_build_job w (fresh w 1)
     (if p = ''local'' then Some s else None) q i k
     (json_insert ''build_id'' (JStr (uuid_text w (fresh w 0))) y)]"
  by (simp_all add: build_queued_def attach_build_def insert_build_def)

lemma record_audit_event_frame [simp]:
  "agent_jobs (record_audit_event w e u i d j db) = agent_jobs db"
  "deployments (record_audit_event w e u i d j db) = deployments db"
  "apps (record_audit_event w e u i d j db) = apps db"
  "servers (record_audit_event w e u i d j db) = servers db"
  "deployment_builds (record_audit_event w e u i d j db) = deployment_builds db"
  "app_suspensions (record_audit_event w e u i d j db) = app_suspensions db"
  by (simp_all add: record_audit_event_def)

lemma new_build_job_simps [simp]:
  "j_id (new_build_job w i s q a d p) = i" "j_server_id (new_build_job w i s q a d p) = s"
  "j_build_pool_id (new_build_job w i s q a d p) = Some q"
  "j_app_id (new_build_job w i s q a d p) = Some a"
  "j_deployment_id (new_build_job w i s q a d p) = Some d"
  "j_job_type (new_build_job w i s q a d p) = ''build''"
  "j_status (new_build_job w i s q a d p) = J_Queued" "j_payload (new_build_job w i s q a d p) = p"
  "j_cancel_requested_at (new_build_job w i s q a d p) = None"
  "j_claim_token (new_build_job w i s q a d p) = None"
  "j_lease_expires_at (new_build_job w i s q a d p) = None"
  by (simp_all add: new_build_job_def default_job_def)

lemma start_build_elim:
  assumes "start_build ws env a k sha token approved db = (r, db')"
  obtains (refused) e where "r = Inl e" "db' = db"
  | (queued) b q provider platform reason payload where "r = Inr ()"
      "find_app (a_id a) db = Some b" "a_suspended_at b = None"
      "provider = ''local'' \<or> provider = ''vm''"
      "db' = build_queued (ws 7) q provider (a_server_id a) k (a_id a) platform reason payload db"
proof (cases "\<exists>e. r = Inl e \<and> db' = db")
  case True
  with refused show ?thesis by blast
next
  case False
  with assms obtain q provider payload where
    "enqueue_build (ws 7) (parse_url env) q provider (a_server_id a) k (a_id a) payload db = (r, db')"
    unfolding start_build_def Let_def by (auto split: sum.splits prod.splits if_splits)
  then show ?thesis
    by (cases rule: enqueue_build_elim) (use False queued in auto)
qed

lemma resolve_commit_sha_InrD:
  assumes "resolve_commit_sha env repo branch requested token = Inr sha"
  shows "\<exists>s. immutable_sha s \<and> sha = map to_ascii_lowercase s"
  using assms by (auto simp: resolve_commit_sha_def and_then_Inr_iff split: if_splits option.splits)

lemma deploy_preconditionsD:
  assumes "deploy_preconditions ws env user_id i requested db = Inr (a, token, sha)"
  shows "find_app i db = Some a" "a_id a = i" "a_user_id a = user_id" "a_suspended_at a = None"
    "storage_gate (ws 2) a db = None" "\<exists>s. immutable_sha s \<and> sha = map to_ascii_lowercase s"
  using assms resolve_commit_sha_InrD unfolding deploy_preconditions_def
  by (auto simp: and_then_Inr_iff split: option.splits if_splits dest: find_row_SomeD)

lemma deploy_elim:
  assumes "create_and_send_deploy_with_approval ws env user_id i requested approved db = (r, db')"
  obtains (refused) e where "r = Inl e" "db' = db"
  | (failed) e row where "r = Inl e" "d_app_id row = i"
      "d_id row = fresh (ws 3) 0" "active_deployment i db = None" "d_status row = D_Queued"
      "db' = fail_deployment_row (ws 8) (d_id row) (''Deployment could not be started: '' @ e)
         (deployments_update (\<lambda>ds. ds @ [row]) db)"
  | (started) a token sha b q provider platform reason payload
    where "deploy_preconditions ws env user_id i requested db = Inr (a, token, sha)"
      "r = Inr (fresh (ws 3) 0)" "active_deployment i db = None"
      "find_app i db = Some b" "a_suspended_at b = None"
      "db' = record_audit_event (ws 9) ''deployment_requested'' user_id i (Some (fresh (ws 3) 0)) None
         (build_queued (ws 7) q provider (a_server_id a) (fresh (ws 3) 0) i platform reason payload
           (deployments_update (\<lambda>ds. ds @ [new_deployment (ws 3) (fresh (ws 3) 0) a sha
             (a_current_deployment_id a)]) db))"
proof (cases "\<exists>e. r = Inl e \<and> db' = db")
  case True
  with refused show ?thesis by blast
next
  case False
  then obtain a token sha where pre: "deploy_preconditions ws env user_id i requested db = Inr (a, token, sha)"
    using assms by (auto simp: create_and_send_deploy_with_approval_def split: sum.splits)
  note D = deploy_preconditionsD [OF pre]
  let ?row = "new_deployment (ws 3) (fresh (ws 3) 0) a sha (a_current_deployment_id a)"
  obtain r1 db1 where tx: "insert_deployment_tx (ws 3) ''deployment'' i ?row db = (r1, db1)" by fastforce
  from tx show ?thesis
  proof (cases rule: insert_deployment_tx_elim)
    case (refused e)
    with False assms tx pre D show ?thesis by (auto simp: create_and_send_deploy_with_approval_def)
  next
    case (inserted b)
    have id: "d_id ?row = fresh (ws 3) 0" "d_app_id ?row = i" "d_status ?row = D_Queued"
      using D(2) by (simp_all add: new_deployment_def)
    obtain r2 db2 where sb: "start_build ws env a (fresh (ws 3) 0) sha token approved db1 = (r2, db2)"
      by fastforce
    from sb show ?thesis
    proof (cases rule: start_build_elim)
      case (refused e)
      with assms tx pre D inserted(1,5) sb id show ?thesis
        by (intro failed [of e ?row]) (simp_all add: create_and_send_deploy_with_approval_def inserted(4))
    next
      case (queued c q provider platform reason payload)
      have "find_app i db1 = Some b" using inserted by simp
      with assms tx pre D inserted(1-4) sb id queued show ?thesis
        by (intro started [OF pre, of b q provider platform reason payload])
          (simp_all add: create_and_send_deploy_with_approval_def inserted(5))
    qed
  qed
qed

text \<open>
  C27: a deployment starts completely or leaves nothing active behind.  An accepted request created
  the one active deployment of an unpaused app of this user, pinned to a lower-case 40-digit commit,
  waiting for its build, with a queued build job and a build record whose stored specification
  carries no secret.  A refused request, as long as the update that takes back a deployment already
  inserted works, leaves no active deployment that was not active before.
\<close>

theorem create_and_send_deploy_correct:
  assumes "create_and_send_deploy_with_approval ws env user_id app_id requested approved db = (r, db')"
    "find_deployment (fresh (ws 3) 0) db = None" "find_job (fresh (ws 7) 1) db = None"
    "\<not> fault (ws 8) 0"
  shows "(\<forall>k. r = Inr k \<longrightarrow>
      (\<exists>a d j. find_app app_id db = Some a \<and> a_user_id a = user_id \<and> a_suspended_at a = None
         \<and> (\<forall>d \<in> set (deployments db). d_app_id d = app_id \<longrightarrow> \<not> active_status (d_status d))
         \<and> find_deployment k db' = Some d \<and> d_app_id d = app_id \<and> d_status d = D_QueuedForBuild
         \<and> length (d_commit_sha d) = 40
         \<and> list_all (\<lambda>c. is_ascii_hexdigit c \<and> \<not> is_ascii_uppercase c) (d_commit_sha d)
         \<and> find_job (fresh (ws 7) 1) db' = Some j \<and> j_job_type j = ''build'' \<and> j_status j = J_Queued
         \<and> j_deployment_id j = Some k
         \<and> (\<exists>b \<in> set (deployment_builds db'). b_deployment_id b = k \<and> d_build_id d = Some (b_id b)
              \<and> b_status b = B_Queued \<and> \<not> has_secrets (b_build_spec b))))
    \<and> (\<forall>e. r = Inl e \<longrightarrow> (\<forall>d \<in> set (deployments db'). active_status (d_status d) \<longrightarrow> d \<in> set (deployments db)))"
  using assms(1)
proof (cases rule: deploy_elim)
  case (failed e row)
  have "d \<in> set (deployments db)"
    if "d \<in> set (deployments db')" "active_status (d_status d)" for d
    using that assms(4) failed(3,5) find_row_None_iff [of d_id "fresh (ws 3) 0" "deployments db"] assms(2)
    by (auto simp: failed(6) fail_deployment_row_def in_update_where split: if_splits)
  with failed(1) show ?thesis by simp
next
  case (started a token sha b q provider platform reason payload)
  note D = deploy_preconditionsD [OF started(1)]
  have lower: "is_ascii_hexdigit (to_ascii_lowercase c) \<and> \<not> is_ascii_uppercase (to_ascii_lowercase c)"
    if "is_ascii_hexdigit c" for c
    using that by (auto simp: char_defs split: if_splits)
  have sha: "length sha = 40" "list_all (\<lambda>c. is_ascii_hexdigit c \<and> \<not> is_ascii_uppercase c) sha"
    using D(6) lower by (auto simp: immutable_sha_def list_all_iff)
  show ?thesis
    using D started(2-5) sha assms(2,3)
    by (auto simp: started(6) find_row_update find_row_append new_deployment_def new_build_def
        active_deployment_None_iff split: option.split)
qed simp

section \<open>One active deployment per app\<close>

definition one_active :: "db \<Rightarrow> bool" where
  "one_active db \<longleftrightarrow> (\<forall>d \<in> set (deployments db). \<forall>e \<in> set (deployments db).
     d_app_id d = d_app_id e \<and> active_status (d_status d) \<and> active_status (d_status e)
       \<longrightarrow> d_id d = d_id e)"

end
