(* ===== verification/Recovery.thy ===== *)
theory Recovery
  imports Deploy
begin

text \<open>
  Recovery of lapsed work: \<open>apps/api/src/agent/recovery_helpers.rs\<close>, the reconciliation of fenced
  jobs and the recovery pass of \<open>apps/api/src/agent/routes.rs\<close>, and \<open>recover_stale_deployments\<close> of
  \<open>deploy/recovery.rs\<close>.  Each function is one transaction; it returns the number of rows it changed.
\<close>

definition faults :: "world \<Rightarrow> nat list \<Rightarrow> bool" where
  "faults w ks \<longleftrightarrow> list_ex (fault w) ks"

lemma faults_simps [simp]: "faults w [] \<longleftrightarrow> False" "faults w (k # ks) \<longleftrightarrow> fault w k \<or> faults w ks"
  by (simp_all add: faults_def)

lemma no_faults [simp]: "(\<And>n. \<not> fault w n) \<Longrightarrow> \<not> faults w ks"
  by (induction ks) simp_all

section \<open>Locks\<close>

definition lifecycle_app_id :: "db \<Rightarrow> job_row \<Rightarrow> uuid option" where
  "lifecycle_app_id db j = coalesce (j_app_id j)
     (Option.bind (j_deployment_id j) (\<lambda>i. map_option d_app_id (find_deployment i db)))"

text \<open>\<open>lock_lifecycle_rows\<close> locks what exists; it fails only with the database, from call \<open>k\<close> on.\<close>

definition lock_lifecycle_rows :: "world \<Rightarrow> nat \<Rightarrow> uuid list \<Rightarrow> uuid list \<Rightarrow> uuid list \<Rightarrow> bool" where
  "lock_lifecycle_rows w k app_ids deployment_ids job_ids \<longleftrightarrow>
     \<not> (app_ids \<noteq> [] \<and> fault w k) \<and> \<not> (deployment_ids \<noteq> [] \<and> fault w (k + 1))
     \<and> \<not> (job_ids \<noteq> [] \<and> fault w (k + 2))"

definition lock_candidates :: "world \<Rightarrow> nat \<Rightarrow> job_row list \<Rightarrow> db \<Rightarrow> bool" where
  "lock_candidates w k candidates db = lock_lifecycle_rows w k
     (List.map_filter (lifecycle_app_id db) candidates)
     (List.map_filter j_deployment_id candidates) (map j_id candidates)"

section \<open>Statements\<close>

definition open_build :: "build_row \<Rightarrow> bool" where
  "open_build b \<longleftrightarrow> b_status b \<noteq> B_Succeeded \<and> b_status b \<noteq> B_Failed \<and> b_status b \<noteq> B_Canceled"

text \<open>\<open>UPDATE deployments SET status=..,failure_code=COALESCE(..),failure_summary=COALESCE(..)\<close>\<close>

definition end_deployments :: "timestamp \<Rightarrow> deployment_status \<Rightarrow> string \<Rightarrow> string \<Rightarrow> uuid list \<Rightarrow> db \<Rightarrow> db" where
  "end_deployments t status code summary ids =
     update_deployments (\<lambda>d. d_id d \<in> set ids \<and> active_status (d_status d))
       (\<lambda>d. d\<lparr> d_status := status, d_failure_code := coalesce (d_failure_code d) (Some code),
              d_failure_summary := coalesce (d_failure_summary d) (Some summary),
              d_finished_at := Some t \<rparr>)"

definition end_builds :: "timestamp \<Rightarrow> build_status \<Rightarrow> string \<Rightarrow> string \<Rightarrow> uuid list \<Rightarrow> db \<Rightarrow> db" where
  "end_builds t status code summary ids =
     update_builds (\<lambda>b. b_deployment_id b \<in> set ids \<and> open_build b)
       (\<lambda>b. b\<lparr> b_status := status, b_failure_code := coalesce (b_failure_code b) (Some code),
              b_failure_summary := coalesce (b_failure_summary b) (Some summary),
              b_finished_at := Some t, b_updated_at := t \<rparr>)"

definition clear_pending :: "timestamp \<Rightarrow> uuid list \<Rightarrow> db \<Rightarrow> db" where
  "clear_pending t ids =
     update_apps (\<lambda>a. case a_pending_deployment_id a of None \<Rightarrow> False | Some i \<Rightarrow> i \<in> set ids)
       (\<lambda>a. a\<lparr> a_pending_deployment_id := None, a_updated_at := t \<rparr>)"

section \<open>Cancelled jobs whose lease has lapsed\<close>

definition cancel_lapsed :: "timestamp \<Rightarrow> job_row \<Rightarrow> bool" where
  "cancel_lapsed t j \<longleftrightarrow> job_leased (j_status j) \<and> j_cancel_requested_at j \<noteq> None
     \<and> (case j_lease_expires_at j of None \<Rightarrow> True | Some e \<Rightarrow> e \<le> t)"

definition cancelled_late :: string where
  "cancelled_late = ''Job cancellation was requested before its lease expired.''"

definition terminalize_jobs :: "world \<Rightarrow> (job_row \<Rightarrow> bool) \<Rightarrow> db \<Rightarrow> db" where
  "terminalize_jobs w P = update_jobs P
     (\<lambda>j. j\<lparr> j_status := J_Cancelled,
            j_failure_summary := coalesce (j_failure_summary j) (Some cancelled_late),
            j_last_error := coalesce (j_last_error j) (Some cancelled_late),
            j_payload := scrub (j_payload j), j_claimed_by := None, j_claimed_at := None,
            j_claim_token := None, j_lease_expires_at := None,
            j_finished_at := Some (clock w 5), j_updated_at := clock w 5 \<rparr>)"

definition terminalize_expired_cancellations :: "world \<Rightarrow> db \<Rightarrow> (unit + nat) \<times> db" where
  "terminalize_expired_cancellations w db =
     (if faults w [0, 1] then (Inl (), db)
      else
        (let candidates = filter (cancel_lapsed (clock w 1)) (agent_jobs db);
             job_ids = map j_id candidates;
             hit = (\<lambda>j. j_id j \<in> set job_ids \<and> cancel_lapsed (clock w 5) j);
             rows = filter hit (agent_jobs db);
             deployment_ids = List.map_filter j_deployment_id rows;
             db1 = terminalize_jobs w hit db in
         if job_ids = [] then (if fault w 10 then Inl () else Inr 0, db)
         else if \<not> lock_candidates w 2 candidates db \<or> fault w 5 then (Inl (), db)
         else if deployment_ids = [] then
           (if fault w 9 then (Inl (), db) else (Inr (length rows), db1))
         else if faults w [6, 7, 8, 9] then (Inl (), db)
         else (Inr (length rows),
           clear_pending (clock w 8) deployment_ids
             (end_builds (clock w 7) B_Canceled ''cancelled_by_owner'' cancelled_late deployment_ids
               (end_deployments (clock w 6) D_Canceled ''cancelled_by_owner'' cancelled_late
                 deployment_ids db1)))))"

section \<open>Jobs whose lease has lapsed\<close>

definition app_exists :: "uuid \<Rightarrow> db \<Rightarrow> bool" where
  "app_exists app_id db = exists_where (\<lambda>a. a_id a = app_id) (apps db)"

text \<open>\<open>RETRYABLE_EXPIRED_JOBS_PREDICATE\<close> and its counterpart for exhausted jobs.\<close>

definition retryable_expired :: "db \<Rightarrow> timestamp \<Rightarrow> job_row \<Rightarrow> bool" where
  "retryable_expired db t j \<longleftrightarrow> job_leased (j_status j) \<and> ts_lt (j_lease_expires_at j) t
     \<and> j_attempt j < j_max_attempts j \<and> j_cancel_requested_at j = None
     \<and> (j_job_type j = ''docker_cleanup'' \<or> j_job_type j = ''delete_app''
        \<or> (case j_app_id j of
             None \<Rightarrow> False
           | Some app_id \<Rightarrow> app_exists app_id db \<and> \<not> deletion_fenced app_id db))"

definition exhausted_expired :: "timestamp \<Rightarrow> job_row \<Rightarrow> bool" where
  "exhausted_expired t j \<longleftrightarrow> job_leased (j_status j) \<and> ts_lt (j_lease_expires_at j) t
     \<and> j_max_attempts j \<le> j_attempt j \<and> j_cancel_requested_at j = None"

text \<open>\<open>REQUEUE_JOB_SET_CLAUSE\<close>\<close>

definition requeue_set :: "world \<Rightarrow> job_row \<Rightarrow> job_row" where
  "requeue_set w j = j\<lparr> j_status := J_Queued,
     j_server_id := (if j_build_pool_id j \<noteq> None then None else j_server_id j),
     j_claimed_by := None, j_claimed_at := None, j_claim_token := None,
     j_lease_expires_at := None,
     j_available_at := tx_now w + seconds (nat (min (j_attempt j) 6) * 10),
     j_updated_at := tx_now w \<rparr>"

definition lease_exhausted :: string where
  "lease_exhausted = ''Agent job lease expired and retry limit was reached.''"

definition exhaust_set :: "timestamp \<Rightarrow> job_row \<Rightarrow> job_row" where
  "exhaust_set t j = j\<lparr> j_status := J_Failed,
     j_failure_summary := coalesce (j_failure_summary j) (Some lease_exhausted),
     j_last_error := coalesce (j_last_error j) (Some lease_exhausted),
     j_payload := scrub (j_payload j), j_lease_expires_at := None, j_updated_at := t,
     j_finished_at := Some t \<rparr>"

definition recover_expired_jobs :: "world \<Rightarrow> bool \<Rightarrow> db \<Rightarrow> (unit + nat) \<times> db" where
  "recover_expired_jobs w fail db =
     (if faults w [0, 1] then (Inl (), db)
      else
        (let pred = (\<lambda>t j. if fail then exhausted_expired t j else retryable_expired db t j);
             candidates = filter (pred (clock w 1)) (agent_jobs db);
             job_ids = map j_id candidates;
             hit = (\<lambda>j. j_id j \<in> set job_ids \<and> pred (clock w 5) j);
             rows = filter hit (agent_jobs db);
             deployment_ids = List.map_filter j_deployment_id rows;
             db1 = update_jobs hit (if fail then exhaust_set (clock w 5) else requeue_set w) db in
         if job_ids = [] then (if fault w 10 then Inl () else Inr 0, db)
         else if \<not> lock_candidates w 2 candidates db \<or> fault w 5 then (Inl (), db)
         else if \<not> fail \<or> deployment_ids = [] then
           (if fault w 9 then (Inl (), db) else (Inr (length rows), db1))
         else if faults w [6, 7, 8, 9] then (Inl (), db)
         else (Inr (length rows),
           clear_pending (clock w 8) deployment_ids
             (end_builds (clock w 7) B_Failed ''execution_lease_exhausted''
                ''Builder recovery attempts were exhausted.'' deployment_ids
               (end_deployments (clock w 6) D_Failed ''execution_lease_exhausted''
                 ''Deployment recovery attempts were exhausted.'' deployment_ids db1)))))"

section \<open>Secrets of terminal jobs\<close>

definition scrub_guard :: "job_row \<Rightarrow> bool" where
  "scrub_guard j \<longleftrightarrow> (j_status j = J_Success \<or> j_status j = J_Failed \<or> j_status j = J_Cancelled
     \<or> j_status j = J_Expired) \<and> has_secrets (j_payload j)"

definition scrub_terminal_job_payload_secrets :: "world \<Rightarrow> db \<Rightarrow> (unit + nat) \<times> db" where
  "scrub_terminal_job_payload_secrets w db =
     (if fault w 0 then (Inl (), db)
      else (Inr (count_where scrub_guard (agent_jobs db)),
            update_jobs scrub_guard (\<lambda>j. j\<lparr> j_payload := scrub (j_payload j) \<rparr>) db))"

section \<open>Jobs of apps that are being deleted\<close>

definition fenced_job :: "db \<Rightarrow> uuid option \<Rightarrow> job_row \<Rightarrow> bool" where
  "fenced_job db server_id j \<longleftrightarrow> (server_id = None \<or> j_server_id j = server_id)
     \<and> j_job_type j \<noteq> ''docker_cleanup'' \<and> j_job_type j \<noteq> ''delete_app''
     \<and> (case j_app_id j of None \<Rightarrow> True | Some app_id \<Rightarrow> deletion_fenced app_id db)"

definition fenced_summary :: string where
  "fenced_summary = ''App was deleted or fenced before this job could run.''"

definition fenced_terminal :: "timestamp \<Rightarrow> job_row \<Rightarrow> job_row" where
  "fenced_terminal t j = j\<lparr> j_status := J_Cancelled,
     j_failure_summary := coalesce (j_failure_summary j) (Some fenced_summary),
     j_last_error := coalesce (j_last_error j) (Some fenced_summary),
     j_payload := JObj [], j_claim_token := None, j_lease_expires_at := None,
     j_cancel_requested_at := None, j_updated_at := t, j_finished_at := Some t \<rparr>"

definition fence_deployments :: "timestamp \<Rightarrow> uuid list \<Rightarrow> db \<Rightarrow> db" where
  "fence_deployments t ids = update_deployments (\<lambda>d. d_id d \<in> set ids \<and> active_status (d_status d))
     (\<lambda>d. d\<lparr> d_status := D_Canceled, d_failure_code := Some ''cancelled_by_owner'',
            d_failure_summary := Some ''App deletion fenced this deployment.'',
            d_finished_at := Some t \<rparr>)"

definition request_cancel :: "timestamp \<Rightarrow> job_row \<Rightarrow> job_row" where
  "request_cancel t j = j\<lparr> j_cancel_requested_at := coalesce (j_cancel_requested_at j) (Some t),
     j_updated_at := t \<rparr>"

definition reconcile_teardown_fenced_jobs :: "world \<Rightarrow> uuid option \<Rightarrow> db \<Rightarrow> (unit + nat) \<times> db" where
  "reconcile_teardown_fenced_jobs w server_id db =
     (if faults w [0, 1] then (Inl (), db)
      else
        (let candidates = filter (\<lambda>j. fenced_job db server_id j \<and> job_live (j_status j)) (agent_jobs db);
             job_ids = map j_id candidates;
             dead = (\<lambda>j. j_id j \<in> set job_ids \<and> fenced_job db server_id j
               \<and> (j_status j = J_Queued
                  \<or> job_leased (j_status j) \<and> ts_lt (j_lease_expires_at j) (clock w 5)));
             rows = filter dead (agent_jobs db);
             deployment_ids = List.map_filter j_deployment_id rows;
             db1 = update_jobs dead (fenced_terminal (clock w 5)) db;
             db2 = (if deployment_ids = [] then db1
               else clear_pending (clock w 7) deployment_ids
                 (fence_deployments (clock w 6) deployment_ids db1));
             db3 = update_jobs (\<lambda>j. j_id j \<in> set job_ids \<and> fenced_job db2 server_id j
                 \<and> job_leased (j_status j) \<and> \<not> ts_lt (j_lease_expires_at j) (clock w 8))
               (request_cancel (clock w 8)) db2 in
         if job_ids = [] then (if fault w 10 then Inl () else Inr 0, db)
         else if \<not> lock_candidates w 2 candidates db \<or> fault w 5
           \<or> (deployment_ids \<noteq> [] \<and> faults w [6, 7]) \<or> faults w [8, 9]
         then (Inl (), db)
         else (Inr (length rows), db3)))"

section \<open>The recovery pass\<close>

definition recover_stale_deployments :: "world \<Rightarrow> db \<Rightarrow> (unit + nat) \<times> db" where
  "recover_stale_deployments w db =
     (let stale = (\<lambda>d. active_status (d_status d) \<and> \<not> exists_where
            (\<lambda>j. j_deployment_id j = Some (d_id d) \<and> job_live (j_status j)) (agent_jobs db)) in
      if fault w 0 then (Inl (), db)
      else (Inr (count_where stale (deployments db)),
        update_deployments stale
          (\<lambda>d. d\<lparr> d_status := D_Failed,
                 d_failure_summary := coalesce (d_failure_summary d)
                   (Some ''Deployment lost its durable execution job before completion.''),
                 d_failure_code := coalesce (d_failure_code d) (Some ''missing_execution_job''),
                 d_finished_at := Some (tx_now w) \<rparr>) db))"

text \<open>\<open>recover_stale_agent_jobs\<close>: five transactions, the first error ends the pass.\<close>

fun run_passes :: "(world \<Rightarrow> db \<Rightarrow> (unit + nat) \<times> db) list \<Rightarrow> (nat \<Rightarrow> world) \<Rightarrow> nat \<Rightarrow> nat \<Rightarrow> db
    \<Rightarrow> (unit + nat) \<times> db" where
  "run_passes [] ws k n db = (Inr n, db)"
| "run_passes (p # ps) ws k n db = (case p (ws k) db of
     (Inl e, db') \<Rightarrow> (Inl e, db')
   | (Inr m, db') \<Rightarrow> run_passes ps ws (Suc k) (n + m) db')"

definition recover_stale_agent_jobs :: "(nat \<Rightarrow> world) \<Rightarrow> db \<Rightarrow> (unit + nat) \<times> db" where
  "recover_stale_agent_jobs ws db = run_passes
     [\<lambda>w. reconcile_teardown_fenced_jobs w None, terminalize_expired_cancellations,
      \<lambda>w. recover_expired_jobs w False, \<lambda>w. recover_expired_jobs w True,
      \<lambda>w db. case scrub_terminal_job_payload_secrets w db of
        (Inl e, db') \<Rightarrow> (Inl e, db') | (Inr _, db') \<Rightarrow> (Inr 0, db')] ws 0 0 db"

section \<open>What the passes do to a job\<close>

text \<open>
  With or without a failing call, the job table after a pass is the old one with one update applied
  to it - or untouched.  The update is described by what it does to a single row.
\<close>

lemma frames [simp]:
  "agent_jobs (end_deployments t s c m is db) = agent_jobs db"
  "agent_jobs (end_builds t bs c m is db) = agent_jobs db"
  "agent_jobs (clear_pending t is db) = agent_jobs db"
  "agent_jobs (fence_deployments t is db) = agent_jobs db"
  "apps (end_deployments t s c m is db) = apps db"
  "apps (end_builds t bs c m is db) = apps db"
  "apps (fence_deployments t is db) = apps db"
  "deployments (end_builds t bs c m is db) = deployments db"
  "deployments (clear_pending t is db) = deployments db"
  "servers (end_deployments t s c m is db) = servers db"
  "servers (end_builds t bs c m is db) = servers db"
  "servers (clear_pending t is db) = servers db"
  "servers (fence_deployments t is db) = servers db"
  "app_suspensions (end_deployments t s c m is db) = app_suspensions db"
  "app_suspensions (end_builds t bs c m is db) = app_suspensions db"
  "app_suspensions (clear_pending t is db) = app_suspensions db"
  "app_suspensions (fence_deployments t is db) = app_suspensions db"
  "deployments (terminalize_jobs w P db) = deployments db"
  "apps (terminalize_jobs w P db) = apps db"
  "servers (terminalize_jobs w P db) = servers db"
  "app_suspensions (terminalize_jobs w P db) = app_suspensions db"
  by (simp_all add: end_deployments_def end_builds_def clear_pending_def fence_deployments_def
      terminalize_jobs_def)

lemma selected_id_iff:
  assumes "distinct (map j_id js)" "j \<in> set js"
  shows "j_id j \<in> set (map j_id (filter P js)) \<longleftrightarrow> P j"
  using assms by (auto simp: distinct_map inj_on_def)

lemma update_where_cong:
  "(\<And>r. r \<in> set rs \<Longrightarrow> P r = Q r) \<Longrightarrow> update_where P f rs = update_where Q f rs"
  by (simp add: update_where_def)

definition terminalized :: "world \<Rightarrow> job_row \<Rightarrow> job_row" where
  "terminalized w j = (if cancel_lapsed (clock w 1) j \<and> cancel_lapsed (clock w 5) j
     then j\<lparr> j_status := J_Cancelled,
            j_failure_summary := coalesce (j_failure_summary j) (Some cancelled_late),
            j_last_error := coalesce (j_last_error j) (Some cancelled_late),
            j_payload := scrub (j_payload j), j_claimed_by := None, j_claimed_at := None,
            j_claim_token := None, j_lease_expires_at := None,
            j_finished_at := Some (clock w 5), j_updated_at := clock w 5 \<rparr> else j)"

definition recovered :: "world \<Rightarrow> bool \<Rightarrow> db \<Rightarrow> job_row \<Rightarrow> job_row" where
  "recovered w fail db j =
     (if fail \<and> exhausted_expired (clock w 1) j \<and> exhausted_expired (clock w 5) j
      then exhaust_set (clock w 5) j
      else if \<not> fail \<and> retryable_expired db (clock w 1) j \<and> retryable_expired db (clock w 5) j
      then requeue_set w j else j)"

lemma terminalize_jobs_map:
  assumes "distinct (map j_id (agent_jobs db))"
  shows "agent_jobs (snd (terminalize_expired_cancellations w db)) = agent_jobs db
    \<or> agent_jobs (snd (terminalize_expired_cancellations w db)) = map (terminalized w) (agent_jobs db)"
    and "(\<And>n. \<not> fault w n) \<Longrightarrow>
      agent_jobs (snd (terminalize_expired_cancellations w db)) = map (terminalized w) (agent_jobs db)"
proof -
  define ids where "ids = map j_id (filter (cancel_lapsed (clock w 1)) (agent_jobs db))"
  have mem: "j_id j \<in> set ids \<longleftrightarrow> cancel_lapsed (clock w 1) j" if "j \<in> set (agent_jobs db)" for j
    unfolding ids_def by (rule selected_id_iff [OF assms that])
  have hit: "agent_jobs (terminalize_jobs w (\<lambda>j. j_id j \<in> set ids \<and> cancel_lapsed (clock w 5) j) db)
      = map (terminalized w) (agent_jobs db)"
    by (simp add: terminalize_jobs_def terminalized_def update_where_def mem)
  have none: "map (terminalized w) (agent_jobs db) = agent_jobs db" if "ids = []"
    using that by (intro map_idI) (auto simp: terminalized_def filter_empty_conv ids_def)
  show "agent_jobs (snd (terminalize_expired_cancellations w db)) = agent_jobs db
    \<or> agent_jobs (snd (terminalize_expired_cancellations w db)) = map (terminalized w) (agent_jobs db)"
    unfolding terminalize_expired_cancellations_def Let_def ids_def [symmetric] using hit by simp
  show "agent_jobs (snd (terminalize_expired_cancellations w db)) = map (terminalized w) (agent_jobs db)"
    if "\<And>n. \<not> fault w n"
    unfolding terminalize_expired_cancellations_def Let_def ids_def [symmetric]
    using hit none that by (simp add: lock_candidates_def lock_lifecycle_rows_def)
qed

lemma recover_jobs_map:
  assumes "distinct (map j_id (agent_jobs db))"
  shows "agent_jobs (snd (recover_expired_jobs w fail db)) = agent_jobs db
    \<or> agent_jobs (snd (recover_expired_jobs w fail db)) = map (recovered w fail db) (agent_jobs db)"
    and "(\<And>n. \<not> fault w n) \<Longrightarrow>
      agent_jobs (snd (recover_expired_jobs w fail db)) = map (recovered w fail db) (agent_jobs db)"
proof -
  define pred where "pred t j = (if fail then exhausted_expired t j else retryable_expired db t j)" for t j
  define ids where "ids = map j_id (filter (pred (clock w 1)) (agent_jobs db))"
  define upd where "upd = (if fail then exhaust_set (clock w 5) else requeue_set w)"
  have mem: "j_id j \<in> set ids \<longleftrightarrow> pred (clock w 1) j" if "j \<in> set (agent_jobs db)" for j
    unfolding ids_def by (rule selected_id_iff [OF assms that])
  have hit: "update_where (\<lambda>j. j_id j \<in> set ids \<and> pred (clock w 5) j) upd (agent_jobs db)
      = map (recovered w fail db) (agent_jobs db)"
    by (auto simp: recovered_def update_where_def mem) (simp_all add: pred_def upd_def split: if_splits)
  have none: "map (recovered w fail db) (agent_jobs db) = agent_jobs db" if "ids = []"
    using that by (intro map_idI) (auto simp: recovered_def filter_empty_conv ids_def pred_def split: if_splits)
  note fold = pred_def [symmetric] ids_def [symmetric] upd_def [symmetric]
  show "agent_jobs (snd (recover_expired_jobs w fail db)) = agent_jobs db
    \<or> agent_jobs (snd (recover_expired_jobs w fail db)) = map (recovered w fail db) (agent_jobs db)"
    unfolding recover_expired_jobs_def Let_def fold using hit by simp
  show "agent_jobs (snd (recover_expired_jobs w fail db)) = map (recovered w fail db) (agent_jobs db)"
    if "\<And>n. \<not> fault w n"
    unfolding recover_expired_jobs_def Let_def fold
    using hit none that by (simp add: lock_candidates_def lock_lifecycle_rows_def)
qed

definition fence_dead :: "world \<Rightarrow> db \<Rightarrow> uuid option \<Rightarrow> job_row \<Rightarrow> bool" where
  "fence_dead w db s j \<longleftrightarrow> fenced_job db s j \<and> (j_status j = J_Queued
     \<or> job_leased (j_status j) \<and> ts_lt (j_lease_expires_at j) (clock w 5))"

definition reconciled :: "world \<Rightarrow> db \<Rightarrow> uuid option \<Rightarrow> job_row \<Rightarrow> job_row" where
  "reconciled w db s j =
     (if fence_dead w db s j then fenced_terminal (clock w 5) j
      else if fenced_job db s j \<and> job_leased (j_status j) \<and> \<not> ts_lt (j_lease_expires_at j) (clock w 8)
      then request_cancel (clock w 8) j else j)"

text \<open>Ending jobs that are no deletion keeps every deletion marker.\<close>

lemma deletion_marker_other: "j_job_type j \<noteq> ''delete_app'' \<Longrightarrow> \<not> deletion_marker i j"
  by (simp add: deletion_marker_def)

lemma deletion_fenced_map:
  assumes "\<And>j. j \<in> set (agent_jobs db) \<Longrightarrow> deletion_marker i (f j) = deletion_marker i j"
    "agent_jobs db' = map f (agent_jobs db)"
  shows "deletion_fenced i db' = deletion_fenced i db"
  using assms by (auto simp: deletion_fenced_def exists_where_iff)

lemma reconcile_jobs_map:
  assumes "distinct (map j_id (agent_jobs db))"
  shows "agent_jobs (snd (reconcile_teardown_fenced_jobs w s db)) = agent_jobs db
    \<or> agent_jobs (snd (reconcile_teardown_fenced_jobs w s db)) = map (reconciled w db s) (agent_jobs db)"
    and "(\<And>n. \<not> fault w n) \<Longrightarrow>
      agent_jobs (snd (reconcile_teardown_fenced_jobs w s db)) = map (reconciled w db s) (agent_jobs db)"
proof -
  define ids where "ids = map j_id (filter (\<lambda>j. fenced_job db s j \<and> job_live (j_status j)) (agent_jobs db))"
  define dead where "dead j \<longleftrightarrow> j_id j \<in> set ids \<and> fenced_job db s j
     \<and> (j_status j = J_Queued \<or> job_leased (j_status j) \<and> ts_lt (j_lease_expires_at j) (clock w 5))" for j
  define db1 where "db1 = update_jobs dead (fenced_terminal (clock w 5)) db"
  define db2 where "db2 ds = (if ds = [] then db1
     else clear_pending (clock w 7) ds (fence_deployments (clock w 6) ds db1))" for ds
  have mem: "j_id j \<in> set ids \<longleftrightarrow> fenced_job db s j \<and> job_live (j_status j)"
    if "j \<in> set (agent_jobs db)" for j
    unfolding ids_def by (rule selected_id_iff [OF assms that])
  note fold = ids_def [symmetric] dead_def [symmetric] db1_def [symmetric] db2_def [symmetric]
  define f where "f j = (if fence_dead w db s j then fenced_terminal (clock w 5) j else j)" for j
  have jobs1: "agent_jobs db1 = map f (agent_jobs db)"
    by (auto simp: f_def fence_dead_def update_where_def db1_def dead_def mem)
  have f: "j_id (f j) = j_id j" "j_app_id (f j) = j_app_id j" "j_job_type (f j) = j_job_type j"
    "j_server_id (f j) = j_server_id j" for j
    by (simp_all add: f_def fenced_terminal_def)
  have marker: "deletion_marker i (f j) = deletion_marker i j" for i j
    by (cases "j_job_type j = ''delete_app''")
      (simp_all add: f_def fence_dead_def fenced_job_def deletion_marker_other fenced_terminal_def)
  have jobs2: "agent_jobs (db2 ds) = map f (agent_jobs db)" for ds by (simp add: db2_def jobs1)
  have fj: "fenced_job (db2 ds) s (f j) = fenced_job db s j" for j ds
    using deletion_fenced_map [OF marker jobs2] by (auto simp: fenced_job_def f split: option.split)
  have step: "(if j_id (f j) \<in> set ids \<and> fenced_job (db2 ds) s (f j) \<and> job_leased (j_status (f j))
        \<and> \<not> ts_lt (j_lease_expires_at (f j)) (clock w 8) then request_cancel (clock w 8) (f j) else f j)
      = reconciled w db s j" if "j \<in> set (agent_jobs db)" for j ds
    unfolding f(1) mem [OF that] fj reconciled_def
    by (auto simp: f_def fenced_terminal_def fence_dead_def)
  have final: "update_where (\<lambda>j. j_id j \<in> set ids \<and> fenced_job (db2 ds) s j
      \<and> job_leased (j_status j) \<and> \<not> ts_lt (j_lease_expires_at j) (clock w 8)) (request_cancel (clock w 8))
      (agent_jobs (db2 ds)) = map (reconciled w db s) (agent_jobs db)" for ds
    using step by (simp add: jobs2 update_where_def)
  have none: "map (reconciled w db s) (agent_jobs db) = agent_jobs db" if "ids = []"
    using that by (intro map_idI) (auto simp: reconciled_def fence_dead_def filter_empty_conv ids_def)
  show "agent_jobs (snd (reconcile_teardown_fenced_jobs w s db)) = agent_jobs db
    \<or> agent_jobs (snd (reconcile_teardown_fenced_jobs w s db)) = map (reconciled w db s) (agent_jobs db)"
    unfolding reconcile_teardown_fenced_jobs_def Let_def fold using final by simp
  show "agent_jobs (snd (reconcile_teardown_fenced_jobs w s db)) = map (reconciled w db s) (agent_jobs db)"
    if "\<And>n. \<not> fault w n"
    unfolding reconcile_teardown_fenced_jobs_def Let_def fold
    using final none that by (simp add: lock_candidates_def lock_lifecycle_rows_def)
qed

section \<open>Invariants of a recovery pass\<close>

lemma run_passes_inv:
  assumes "\<And>p w db. p \<in> set ps \<Longrightarrow> w \<in> range ws \<Longrightarrow> I db \<Longrightarrow> I (snd (p w db))" "I db"
  shows "I (snd (run_passes ps ws k n db))"
  using assms
proof (induction ps arbitrary: k n db)
  case (Cons p ps)
  obtain r db' where p: "p (ws k) db = (r, db')" by fastforce
  have "I db'" using Cons.prems(1) [of p "ws k" db] Cons.prems(2) p by simp
  with Cons.IH [of db'] Cons.prems(1) p show ?case by (cases r) simp_all
qed simp

definition scrub_pass :: "world \<Rightarrow> db \<Rightarrow> (unit + nat) \<times> db" where
  "scrub_pass w db = (case scrub_terminal_job_payload_secrets w db of
     (Inl e, db') \<Rightarrow> (Inl e, db') | (Inr _, db') \<Rightarrow> (Inr 0, db'))"

definition passes :: "(world \<Rightarrow> db \<Rightarrow> (unit + nat) \<times> db) list" where
  "passes = [\<lambda>w. reconcile_teardown_fenced_jobs w None, terminalize_expired_cancellations,
     \<lambda>w. recover_expired_jobs w False, \<lambda>w. recover_expired_jobs w True, scrub_pass]"

lemma recover_stale_agent_jobs_passes:
  "recover_stale_agent_jobs ws db = run_passes passes ws 0 0 db"
  by (simp add: recover_stale_agent_jobs_def passes_def scrub_pass_def [abs_def])

definition scrubbed :: "job_row \<Rightarrow> job_row" where
  "scrubbed j = (if scrub_guard j then j\<lparr> j_payload := scrub (j_payload j) \<rparr> else j)"

lemma scrub_pass_map:
  "agent_jobs (snd (scrub_pass w db)) = agent_jobs db
    \<or> agent_jobs (snd (scrub_pass w db)) = map scrubbed (agent_jobs db)"
  "\<not> fault w 0 \<Longrightarrow> agent_jobs (snd (scrub_pass w db)) = map scrubbed (agent_jobs db)"
  by (simp_all add: scrub_pass_def scrub_terminal_job_payload_secrets_def update_where_def scrubbed_def)

text \<open>Every pass is one row function over the job table, or nothing.\<close>

lemma pass_cases:
  assumes "p \<in> set passes" "distinct (map j_id (agent_jobs db))"
  obtains "agent_jobs (snd (p w db)) = agent_jobs db"
  | g where "g \<in> {reconciled w db None, terminalized w, recovered w False db, recovered w True db, scrubbed}"
    "agent_jobs (snd (p w db)) = map g (agent_jobs db)"
  using assms(1) reconcile_jobs_map(1) [OF assms(2), of w None] terminalize_jobs_map(1) [OF assms(2), of w]
    recover_jobs_map(1) [OF assms(2), of w False] recover_jobs_map(1) [OF assms(2), of w True]
    scrub_pass_map(1) [of w db]
  unfolding passes_def by auto

lemmas row_functions = reconciled_def terminalized_def recovered_def scrubbed_def fenced_terminal_def
  request_cancel_def requeue_set_def exhaust_set_def

lemma row_function_id:
  assumes "g \<in> {reconciled w db None, terminalized w, recovered w False db, recovered w True db, scrubbed}"
  shows "j_id (g j) = j_id j" "j_app_id (g j) = j_app_id j" "j_job_type (g j) = j_job_type j"
    "j_deployment_id (g j) = j_deployment_id j"
  using assms by (auto simp: row_functions)

lemma pass_lookup:
  assumes "p \<in> set passes" "distinct (map j_id (agent_jobs db))" "find_job i db = Some j"
    "\<And>g. g \<in> {reconciled w db None, terminalized w, recovered w False db, recovered w True db, scrubbed}
      \<Longrightarrow> Q (g j)" "Q j"
  shows "distinct (map j_id (agent_jobs (snd (p w db)))) \<and> (\<exists>j'. find_job i (snd (p w db)) = Some j' \<and> Q j')"
  using assms(1,2)
proof (cases rule: pass_cases [where w = w])
  case 1
  with assms show ?thesis by simp
next
  case (2 g)
  have id: "j_id \<circ> g = j_id" using row_function_id(1) [OF 2(1)] by auto
  from 2 assms(2-4) row_function_id(1) [OF 2(1)] show ?thesis by (simp add: find_row_map id)
qed

text \<open>
  C9: recovery never takes work from a live worker.  A leased job whose lease ends after every
  reading of the clock in the pass keeps its status, claim token, lease and payload through a whole
  recovery pass, however the pass ends; the pass can at most ask it to cancel.
\<close>

theorem recovery_respects_leases:
  assumes "distinct (map j_id (agent_jobs db))" "find_job i db = Some j" "job_leased (j_status j)"
    "j_lease_expires_at j = Some e" "\<And>m n. clock (ws m) n < e"
  shows "\<exists>j'. find_job i (snd (recover_stale_agent_jobs ws db)) = Some j'
    \<and> j_status j' = j_status j \<and> j_claim_token j' = j_claim_token j
    \<and> j_lease_expires_at j' = Some e \<and> j_payload j' = j_payload j \<and> j_server_id j' = j_server_id j"
proof -
  define Q where "Q j' \<longleftrightarrow> j_status j' = j_status j \<and> j_claim_token j' = j_claim_token j
    \<and> j_lease_expires_at j' = Some e \<and> j_payload j' = j_payload j \<and> j_server_id j' = j_server_id j" for j' :: job_row
  define I where "I db \<longleftrightarrow> distinct (map j_id (agent_jobs db)) \<and> (\<exists>j'. find_job i db = Some j' \<and> Q j')" for db
  have row: "Q (g j')" if w_ws: "w \<in> range ws" and "Q j'" and
    "g \<in> {reconciled w db None, terminalized w, recovered w False db, recovered w True db, scrubbed}"
    for g j' w db
  proof -
    obtain m where w: "w = ws m" using w_ws by blast
    have "\<not> ts_lt (j_lease_expires_at j') (clock w n)" "\<not> cancel_lapsed (clock w n) j'" for n
      using that(2) assms(5) [of m n] by (auto simp: Q_def cancel_lapsed_def w)
    then show ?thesis using that(2,3) assms(3)
      by (auto simp: Q_def row_functions fence_dead_def retryable_expired_def exhausted_expired_def scrub_guard_def)
  qed
  have "I (snd (run_passes passes ws 0 0 db))"
  proof (rule run_passes_inv)
    show "I (snd (p w db))" if "p \<in> set passes" "w \<in> range ws" "I db" for p w db
      using that(3) pass_lookup [OF that(1), of db i _ w Q] row [OF that(2)] unfolding I_def by blast
    show "I db" using assms(1-4) by (simp add: I_def Q_def)
  qed
  then show ?thesis by (simp add: I_def Q_def recover_stale_agent_jobs_passes)
qed

text \<open>
  A finished recovery pass leaves no secret behind.  After a pass that reports success, no job
  in a terminal status still has environment values, a GitHub token or registry credentials in
  its payload.
\<close>

theorem recovery_scrubs_secrets:
  assumes "recover_stale_agent_jobs ws db = (Inr n, db')" "j \<in> set (agent_jobs db')"
    "j_status j = J_Success \<or> j_status j = J_Failed \<or> j_status j = J_Cancelled \<or> j_status j = J_Expired"
  shows "\<not> has_secrets (j_payload j)"
proof -
  from assms(1) obtain w db4 m where last: "scrub_pass w db4 = (Inr m, db')"
    unfolding recover_stale_agent_jobs_passes passes_def
    by (auto split: prod.splits sum.splits)
  then have "\<not> fault w 0" by (auto simp: scrub_pass_def scrub_terminal_job_payload_secrets_def split: if_splits)
  with last scrub_pass_map(2) [of w db4] have "agent_jobs db' = map scrubbed (agent_jobs db4)" by simp
  with assms(2,3) show ?thesis by (auto simp: scrubbed_def scrub_guard_def split: if_splits)
qed

section \<open>A recovery pass frees lapsed jobs\<close>

lemma clear_pending_ids [simp]: "map a_id (apps (clear_pending t is db)) = map a_id (apps db)"
  by (simp add: clear_pending_def map_update_where)

lemma clear_pending_none:
  assumes "a \<in> set (apps (clear_pending t is db))" "k \<in> set is"
  shows "a_pending_deployment_id a \<noteq> Some k"
proof -
  from assms(1) obtain b where "b \<in> set (apps db)"
    "a = (if (case a_pending_deployment_id b of None \<Rightarrow> False | Some i \<Rightarrow> i \<in> set is)
          then b\<lparr> a_pending_deployment_id := None, a_updated_at := t \<rparr> else b)"
    by (auto simp: clear_pending_def set_update_where)
  with assms(2) show ?thesis by (cases "a_pending_deployment_id b") auto
qed

lemma pass_apps:
  assumes "p \<in> set passes"
  shows "map a_id (apps (snd (p w db))) = map a_id (apps db)"
  using assms unfolding passes_def
  by (auto simp: reconcile_teardown_fenced_jobs_def terminalize_expired_cancellations_def
      recover_expired_jobs_def scrub_pass_def scrub_terminal_job_payload_secrets_def Let_def)

lemma app_exists_ids: "app_exists i db \<longleftrightarrow> i \<in> set (map a_id (apps db))"
  by (auto simp: app_exists_def exists_where_iff)

lemma json_text_fence [simp]: "json_text (scrub p) ''teardown_fence'' = json_text p ''teardown_fence''"
  by (rule json_text_scrub) (simp add: secret_keys_def)

lemma row_function_marker:
  assumes "g \<in> {reconciled w db None, terminalized w, recovered w False db, recovered w True db, scrubbed}"
    "deletion_marker i (g j)"
  shows "deletion_marker i j"
  using assms
  by (auto simp: row_functions deletion_marker_def retryable_expired_def exhausted_expired_def
      fence_dead_def fenced_job_def cancel_lapsed_def split: if_splits)

lemma pass_fence:
  assumes "p \<in> set passes" "distinct (map j_id (agent_jobs db))" "\<not> deletion_fenced i db"
  shows "\<not> deletion_fenced i (snd (p w db))"
  using assms(1,2)
proof (cases rule: pass_cases [where w = w])
  case 1
  with assms(3) show ?thesis by (simp add: deletion_fenced_def)
next
  case (2 g)
  with assms(3) row_function_marker [OF 2(1)] show ?thesis
    by (auto simp: deletion_fenced_def exists_where_iff)
qed

text \<open>The state of one lapsed job between the passes.\<close>

definition lapsed_job :: "timestamp \<Rightarrow> job_row \<Rightarrow> bool" where
  "lapsed_job e j \<longleftrightarrow> job_leased (j_status j) \<and> j_lease_expires_at j = Some e"

lemma unleased_row_function:
  assumes "g \<in> {reconciled w db None, terminalized w, recovered w False db, recovered w True db, scrubbed}"
    "\<not> job_leased (j_status j)"
  shows "\<not> job_leased (j_status (g j))"
  using assms by (auto simp: row_functions fence_dead_def retryable_expired_def exhausted_expired_def
      cancel_lapsed_def split: if_splits)

lemma unleased_pass:
  assumes "p \<in> set passes" "distinct (map j_id (agent_jobs db))"
    "\<exists>j. find_job i db = Some j \<and> \<not> job_leased (j_status j)"
  shows "\<exists>j. find_job i (snd (p w db)) = Some j \<and> \<not> job_leased (j_status j)"
  using assms pass_lookup [OF assms(1,2), where Q = "\<lambda>j. \<not> job_leased (j_status j)" and w = w]
    unleased_row_function by blast

lemma pass_distinct:
  assumes "p \<in> set passes" "distinct (map j_id (agent_jobs db))"
  shows "distinct (map j_id (agent_jobs (snd (p w db))))"
  using assms
proof (cases rule: pass_cases [where w = w])
  case (2 g)
  have "j_id \<circ> g = j_id" using row_function_id(1) [OF 2(1)] by auto
  with 2 assms(2) show ?thesis by simp
qed (use assms in simp)

text \<open>What the four passes leave of a lapsed job \<open>j\<close>: it is freed, or it still is \<open>j\<close>.\<close>

definition still :: "uuid \<Rightarrow> job_row \<Rightarrow> (job_row \<Rightarrow> bool) \<Rightarrow> db \<Rightarrow> bool" where
  "still i j P db \<longleftrightarrow> distinct (map j_id (agent_jobs db)) \<and>
     ((\<exists>j'. find_job i db = Some j' \<and> \<not> job_leased (j_status j')) \<or> find_job i db = Some j \<and> P j)"

lemma still_pass:
  assumes "p \<in> set passes" "still i j P db"
    "agent_jobs (snd (p w db)) = map g (agent_jobs db)" "\<And>j. j_id (g j) = j_id j"
    "P j \<Longrightarrow> find_job i db = Some j \<Longrightarrow> \<not> job_leased (j_status (g j)) \<or> g j = j \<and> P' j"
  shows "still i j P' (snd (p w db))"
proof -
  have d: "distinct (map j_id (agent_jobs db))" using assms(2) by (simp add: still_def)
  from pass_distinct [OF assms(1) d] have d': "distinct (map j_id (agent_jobs (snd (p w db))))" .
  show ?thesis
  proof (cases "\<exists>j'. find_job i db = Some j' \<and> \<not> job_leased (j_status j')")
    case True
    from unleased_pass [OF assms(1) d True] d' show ?thesis by (auto simp: still_def)
  next
    case False
    with assms(2) have j: "find_job i db = Some j" "P j" by (auto simp: still_def)
    then have "find_job i (snd (p w db)) = Some (g j)"
      by (simp add: assms(3) find_row_map assms(4))
    with assms(5) [OF j(2,1)] d' show ?thesis by (auto simp: still_def)
  qed
qed

text \<open>
  C10: no lapsed job stays leased.  A recovery pass that meets no database error takes every job
  whose lease had run out before the pass away from its worker: it is queued again, failed for
  good, or cancelled.
\<close>

theorem recovery_frees_lapsed:
  assumes "distinct (map j_id (agent_jobs db))" "find_job i db = Some j" "job_leased (j_status j)"
    "j_lease_expires_at j = Some e" "\<And>m n. e < clock (ws m) n" "\<And>m n. \<not> fault (ws m) n"
    "\<And>a. j_app_id j = Some a \<Longrightarrow> app_exists a db"
  shows "\<exists>j'. find_job i (snd (recover_stale_agent_jobs ws db)) = Some j' \<and> \<not> job_leased (j_status j')"
proof -
  define db1 where "db1 = snd (reconcile_teardown_fenced_jobs (ws 0) None db)"
  define db2 where "db2 = snd (terminalize_expired_cancellations (ws 1) db1)"
  define db3 where "db3 = snd (recover_expired_jobs (ws 2) False db2)"
  define db4 where "db4 = snd (recover_expired_jobs (ws 3) True db3)"
  define db5 where "db5 = snd (scrub_pass (ws 4) db4)"
  note mem = list.set_intros insertI1 insertI2
  have P: "(\<lambda>w. reconcile_teardown_fenced_jobs w None) \<in> set passes"
    "terminalize_expired_cancellations \<in> set passes" "(\<lambda>w. recover_expired_jobs w False) \<in> set passes"
    "(\<lambda>w. recover_expired_jobs w True) \<in> set passes" "scrub_pass \<in> set passes"
    by (simp_all add: passes_def)
  have lapsed: "ts_lt (j_lease_expires_at j) (clock (ws m) n)" for m n using assms(4,5) by simp
  have s0: "still i j (\<lambda>_. True) db" using assms(1,2) by (simp add: still_def)
  have s1: "still i j (\<lambda>j. \<not> fenced_job db None j) db1"
    unfolding db1_def
    by (rule still_pass [OF P(1) s0 reconcile_jobs_map(2) [OF assms(1,6)]])
      (use assms(3) lapsed in \<open>auto simp: row_functions fence_dead_def\<close>)
  have "distinct (map j_id (agent_jobs db1))" using s1 by (simp add: still_def)
  note m2 = terminalize_jobs_map(2) [OF this assms(6)]
  have s2: "still i j (\<lambda>j. \<not> fenced_job db None j \<and> j_cancel_requested_at j = None) db2"
    unfolding db2_def
    by (rule still_pass [OF P(2) s1 m2])
      (use assms(3) lapsed in \<open>auto simp: row_functions cancel_lapsed_def assms(4) less_imp_le [OF assms(5)]\<close>)
  have keep: "map a_id (apps db2) = map a_id (apps db)"
    using pass_apps [OF P(2)] pass_apps [OF P(1)] by (simp add: db1_def db2_def)
  have fence: "\<not> deletion_fenced a db \<Longrightarrow> \<not> deletion_fenced a db2" for a
    using pass_fence [OF P(2)] pass_fence [OF P(1) assms(1)] pass_distinct [OF P(1) assms(1)]
    by (simp add: db1_def db2_def)
  have "distinct (map j_id (agent_jobs db2))" using s2 by (simp add: still_def)
  note m3 = recover_jobs_map(2) [OF this assms(6)]
  have retry: "retryable_expired db2 (clock (ws 2) n) j"
    if "\<not> fenced_job db None j" "j_cancel_requested_at j = None" "j_attempt j < j_max_attempts j" for n
    using that assms(3,7) lapsed fence keep
    by (auto simp: retryable_expired_def fenced_job_def app_exists_ids split: option.splits)
  have s3: "still i j (\<lambda>j. j_cancel_requested_at j = None \<and> j_max_attempts j \<le> j_attempt j) db3"
    unfolding db3_def
    by (rule still_pass [OF P(3) s2 m3]) (use retry in \<open>auto simp: row_functions not_le\<close>)
  have "distinct (map j_id (agent_jobs db3))" using s3 by (simp add: still_def)
  note m4 = recover_jobs_map(2) [OF this assms(6)]
  have s4: "still i j (\<lambda>_. False) db4"
    unfolding db4_def
    by (rule still_pass [OF P(4) s3 m4])
      (use assms(3) lapsed in \<open>auto simp: row_functions exhausted_expired_def\<close>)
  have s5: "still i j (\<lambda>_. False) db5"
    unfolding db5_def
    by (rule still_pass [OF P(5) s4 scrub_pass_map(2) [OF assms(6)]]) (auto simp: row_functions)
  have ok: "fst (reconcile_teardown_fenced_jobs (ws 0) None db) \<noteq> Inl ()"
    "fst (terminalize_expired_cancellations (ws 1) db1) \<noteq> Inl ()"
    "fst (recover_expired_jobs (ws 2) False db2) \<noteq> Inl ()"
    "fst (recover_expired_jobs (ws 3) True db3) \<noteq> Inl ()"
    using assms(6) by (simp_all add: reconcile_teardown_fenced_jobs_def Let_def lock_candidates_def
        terminalize_expired_cancellations_def recover_expired_jobs_def lock_lifecycle_rows_def)
  have "snd (recover_stale_agent_jobs ws db) = db5"
    using ok unfolding recover_stale_agent_jobs_passes passes_def db1_def db2_def db3_def db4_def db5_def
    by (auto split: prod.splits sum.splits simp: numeral_eq_Suc)
  with s5 show ?thesis by (simp add: still_def)
qed

text \<open>
  An exhausted job takes its deployment with it.  When the retry limit of a lapsed job is
  reached and the recovery succeeds, the job has failed, its active deployment has failed, and no
  app waits for that deployment any more - the activation fence is released.
\<close>

theorem exhausted_job_fails_deployment:
  assumes "wf_keys db" "find_job i db = Some j" "\<And>n. exhausted_expired (clock w n) j"
    "j_deployment_id j = Some k" "find_deployment k db = Some d" "active_status (d_status d)"
    "\<And>n. \<not> fault w n"
  shows "\<exists>j' d'. find_job i (snd (recover_expired_jobs w True db)) = Some j' \<and> j_status j' = J_Failed
    \<and> \<not> has_secrets (j_payload j')
    \<and> find_deployment k (snd (recover_expired_jobs w True db)) = Some d' \<and> d_status d' = D_Failed
    \<and> (\<forall>a \<in> set (apps (snd (recover_expired_jobs w True db))). a_pending_deployment_id a \<noteq> Some k)"
proof -
  have d: "distinct (map j_id (agent_jobs db))" using assms(1) by (simp add: wf_keys_def)
  have mem: "j \<in> set (agent_jobs db)" "j_id j = i" using find_row_SomeD [OF assms(2)] by auto
  have job: "find_job i (snd (recover_expired_jobs w True db)) = Some (exhaust_set (clock w 5) j)"
    by (simp add: recover_jobs_map(2) [OF d assms(7)] find_row_map row_functions assms(2,3))
  define rows where "rows = filter (\<lambda>x. j_id x \<in> set (map j_id (filter (exhausted_expired (clock w 1)) (agent_jobs db)))
    \<and> exhausted_expired (clock w 5) x) (agent_jobs db)"
  have "j \<in> set rows" using mem assms(3) by (auto simp: rows_def)
  then have k: "k \<in> set (List.map_filter j_deployment_id rows)"
    using assms(4) by (force simp: List.map_filter_def)
  have res: "snd (recover_expired_jobs w True db) =
     clear_pending (clock w 8) (List.map_filter j_deployment_id rows)
       (end_builds (clock w 7) B_Failed ''execution_lease_exhausted''
          ''Builder recovery attempts were exhausted.'' (List.map_filter j_deployment_id rows)
         (end_deployments (clock w 6) D_Failed ''execution_lease_exhausted''
           ''Deployment recovery attempts were exhausted.'' (List.map_filter j_deployment_id rows)
           (update_jobs (\<lambda>x. j_id x \<in> set (map j_id (filter (exhausted_expired (clock w 1)) (agent_jobs db)))
             \<and> exhausted_expired (clock w 5) x) (exhaust_set (clock w 5)) db)))"
    using k assms(3,7) mem unfolding recover_expired_jobs_def Let_def lock_candidates_def lock_lifecycle_rows_def
      rows_def by (auto simp: filter_empty_conv)
  have "find_deployment k (snd (recover_expired_jobs w True db)) = Some (d\<lparr> d_status := D_Failed,
      d_failure_code := coalesce (d_failure_code d) (Some ''execution_lease_exhausted''),
      d_failure_summary := coalesce (d_failure_summary d)
        (Some ''Deployment recovery attempts were exhausted.''), d_finished_at := Some (clock w 6) \<rparr>)"
    unfolding res using k assms(5,6) find_row_SomeD [OF assms(5)]
    by (simp add: end_deployments_def find_row_update)
  moreover have "\<forall>a \<in> set (apps (snd (recover_expired_jobs w True db))). a_pending_deployment_id a \<noteq> Some k"
    unfolding res using clear_pending_none [OF _ k] by blast
  ultimately show ?thesis by (simp add: job exhaust_set_def)
qed

end
