(* ===== verification/Job_Control.thy ===== *)
theory Job_Control
  imports Recovery
begin

text \<open>
  \<open>apps/api/src/job_control.rs\<close>: who may see a job, cancelling and retrying it, and the first half
  of deleting an app - the durable marker that fences every other job of the app.
\<close>

section \<open>Visibility\<close>

record agent_job_visibility =
  vis_user_id :: uuid
  vis_cloud_mode :: bool

text \<open>The SQL fragment of \<open>agent_job_visibility_predicate\<close>, as the predicate it denotes.\<close>

definition agent_job_visible :: "agent_job_visibility \<Rightarrow> db \<Rightarrow> job_row \<Rightarrow> bool" where
  "agent_job_visible vis db j \<longleftrightarrow>
     exists_where (\<lambda>a. j_app_id j = Some (a_id a) \<and> a_user_id a = vis_user_id vis) (apps db)
     \<or> exists_where (\<lambda>d. j_deployment_id j = Some (d_id d)
          \<and> exists_where (\<lambda>a. a_id a = d_app_id d \<and> a_user_id a = vis_user_id vis) (apps db))
         (deployments db)
     \<or> (\<not> vis_cloud_mode vis \<and> j_app_id j = None \<and> j_deployment_id j = None
        \<and> exists_where (\<lambda>s. j_server_id j = Some (s_id s)
            \<and> (s_user_id s = Some (vis_user_id vis) \<or> s_kind s = ''local'')) (servers db))"

section \<open>Failing a job\<close>

definition mark_agent_job_failed :: "world \<Rightarrow> uuid \<Rightarrow> string \<Rightarrow> db \<Rightarrow> db" where
  "mark_agent_job_failed w job_id failure db =
     (if fault w 0 then db
      else update_jobs (\<lambda>j. j_id j = job_id)
        (\<lambda>j. j\<lparr> j_status := J_Failed, j_failure_summary := Some failure, j_updated_at := tx_now w,
               j_finished_at := Some (tx_now w) \<rparr>) db)"

section \<open>Fencing the jobs of an app\<close>

definition deletion_summary :: string where
  "deletion_summary = ''App deletion was requested before this job could run.''"

definition fence_guard :: "uuid \<Rightarrow> job_row \<Rightarrow> bool" where
  "fence_guard app_id j \<longleftrightarrow> j_app_id j = Some app_id \<and> j_job_type j \<noteq> ''delete_app''
     \<and> job_live (j_status j)"

definition fence_job :: "world \<Rightarrow> job_row \<Rightarrow> job_row" where
  "fence_job w j =
     (if j_status j = J_Queued
      then j\<lparr> j_status := J_Cancelled, j_failure_summary := Some deletion_summary,
             j_last_error := Some deletion_summary, j_payload := JObj [], j_lease_expires_at := None,
             j_finished_at := Some (tx_now w), j_updated_at := tx_now w \<rparr>
      else j\<lparr> j_cancel_requested_at := coalesce (j_cancel_requested_at j) (Some (tx_now w)),
             j_payload := scrub (j_payload j), j_updated_at := tx_now w \<rparr>)"

text \<open>The deployments of the queued jobs, cancelled with them; their ids are returned.\<close>

definition fenced_deployments :: "uuid \<Rightarrow> db \<Rightarrow> uuid list" where
  "fenced_deployments app_id db = map d_id (filter
     (\<lambda>d. active_status (d_status d) \<and> exists_where (\<lambda>j. fence_guard app_id j \<and> j_status j = J_Queued
        \<and> j_deployment_id j = Some (d_id d)) (agent_jobs db)) (deployments db))"

definition cancel_fenced_deployments :: "world \<Rightarrow> uuid list \<Rightarrow> db \<Rightarrow> db" where
  "cancel_fenced_deployments w ids = update_deployments (\<lambda>d. d_id d \<in> set ids)
     (\<lambda>d. d\<lparr> d_status := D_Canceled, d_failure_code := Some ''cancelled_by_owner'',
            d_failure_summary := Some ''App deletion was requested before this deployment could run.'',
            d_finished_at := Some (tx_now w) \<rparr>)"

definition clear_fenced_pending :: "world \<Rightarrow> uuid \<Rightarrow> uuid list \<Rightarrow> db \<Rightarrow> db" where
  "clear_fenced_pending w app_id ids = update_apps (\<lambda>a. a_id a = app_id
       \<and> (case a_pending_deployment_id a of None \<Rightarrow> False | Some i \<Rightarrow> i \<in> set ids))
     (\<lambda>a. a\<lparr> a_pending_deployment_id := None, a_updated_at := tx_now w \<rparr>)"

text \<open>
  \<open>fence_app_jobs_in_transaction\<close>: \<open>k\<close> is its first database call; \<open>None\<close> is \<open>Err\<close>, otherwise the
  number of jobs an agent still holds.
\<close>

definition fence_app_jobs_in_transaction :: "world \<Rightarrow> nat \<Rightarrow> uuid \<Rightarrow> db \<Rightarrow> (nat \<times> db) option" where
  "fence_app_jobs_in_transaction w k app_id db =
     (let rows = filter (fence_guard app_id) (agent_jobs db);
          deployment_ids = List.map_filter j_deployment_id rows;
          ids = fenced_deployments app_id db in
      if fault w k \<or> (deployment_ids \<noteq> [] \<and> fault w (k + 1)) \<or> (rows \<noteq> [] \<and> fault w (k + 2))
        \<or> fault w (k + 3)
      then None
      else Some (count_where (\<lambda>j. job_leased (j_status j)) rows,
        clear_fenced_pending w app_id ids
          (cancel_fenced_deployments w ids
            (update_jobs (fence_guard app_id) (fence_job w) db))))"

section \<open>Starting to delete an app\<close>

record app_teardown_start =
  td_job_id :: uuid
  td_agent_cleanup_required :: bool
  td_active_jobs :: nat

text \<open>\<open>ORDER BY created_at DESC LIMIT 1\<close> over the deletion jobs of the app.\<close>

definition latest_delete_job :: "uuid \<Rightarrow> db \<Rightarrow> job_row option" where
  "latest_delete_job app_id db = newest (\<lambda>j. Some (j_created_at j))
     (filter (\<lambda>j. j_app_id j = Some app_id \<and> j_job_type j = ''delete_app'') (agent_jobs db))"

definition restart_delete_job :: "world \<Rightarrow> json \<Rightarrow> int \<Rightarrow> bool \<Rightarrow> job_row \<Rightarrow> job_row" where
  "restart_delete_job w payload priority cleanup j = j\<lparr>
     j_status := (if cleanup then J_Queued else J_Success), j_payload := payload,
     j_priority := priority, j_attempt := 0, j_claimed_by := None, j_claimed_at := None,
     j_claim_token := None, j_lease_expires_at := None, j_cancel_requested_at := None,
     j_failure_summary := None, j_last_error := None, j_result := None,
     j_available_at := tx_now w, j_started_at := None,
     j_finished_at := (if cleanup then None else Some (tx_now w)), j_updated_at := tx_now w \<rparr>"

definition retryable_status :: "job_status \<Rightarrow> bool" where
  "retryable_status s \<longleftrightarrow> s = J_Failed \<or> s = J_Expired \<or> s = J_Cancelled"

definition reuse_delete_job :: "world \<Rightarrow> json \<Rightarrow> int \<Rightarrow> bool \<Rightarrow> job_row \<Rightarrow> job_row" where
  "reuse_delete_job w payload priority cleanup j =
     (if retryable_status (j_status j)
      then restart_delete_job w payload priority cleanup j
      else if j_status j = J_Queued \<and> cleanup
      then j\<lparr> j_payload := payload, j_priority := priority, j_updated_at := tx_now w \<rparr>
      else if j_status j = J_Queued
      then j\<lparr> j_status := J_Success, j_payload := payload, j_priority := priority,
             j_started_at := coalesce (j_started_at j) (Some (tx_now w)),
             j_finished_at := Some (tx_now w), j_updated_at := tx_now w \<rparr>
      else j)"

text \<open>The marker: the job it is and the table that holds it.  \<open>fresh w 0\<close> is a new job.\<close>

definition place_delete_job :: "world \<Rightarrow> uuid \<Rightarrow> uuid \<Rightarrow> json \<Rightarrow> int \<Rightarrow> bool \<Rightarrow> db \<Rightarrow> uuid \<times> db" where
  "place_delete_job w server_id app_id payload priority cleanup db =
     (case latest_delete_job app_id db of
        Some existing \<Rightarrow> (j_id existing, update_jobs (\<lambda>j. j_id j = j_id existing)
          (reuse_delete_job w payload priority cleanup) db)
      | None \<Rightarrow>
        (let db1 = insert_agent_job_in_transaction (tx_now w) (fresh w 0) server_id (Some app_id) None
               ''delete_app'' payload priority db in
         (fresh w 0,
          if cleanup then db1
          else update_jobs (\<lambda>j. j_id j = fresh w 0)
            (\<lambda>j. j\<lparr> j_status := J_Success, j_started_at := Some (tx_now w),
                   j_finished_at := Some (tx_now w), j_updated_at := tx_now w \<rparr>) db1)))"

definition start_app_teardown :: "world \<Rightarrow> uuid \<Rightarrow> uuid \<Rightarrow> json \<Rightarrow> bool \<Rightarrow> db
    \<Rightarrow> (string + app_teardown_start) \<times> db" where
  "start_app_teardown w server_id app_id payload0 agent_cleanup_required db =
     (if \<not> is_object payload0 then (Inl ''delete_app payload must be a JSON object'', db)
      else
        (let payload = json_insert ''teardown_fence'' (JBool True) payload0 in
         if faults w [0, 1] then (Inl ''database'', db)
         else case find_app app_id db of
           None \<Rightarrow> (Inl ''app no longer exists'', db)
         | Some a \<Rightarrow>
           if fault w 2 \<or> (case latest_delete_job app_id db of
               None \<Rightarrow> fault w 3 \<or> \<not> agent_cleanup_required \<and> fault w 4
             | Some j \<Rightarrow> (retryable_status (j_status j) \<or> j_status j = J_Queued) \<and> fault w 3)
           then (Inl ''database'', db)
           else
             (let (job_id, db1) = place_delete_job w server_id app_id payload
                    (5 + a_queue_priority_offset a) agent_cleanup_required db in
              case fence_app_jobs_in_transaction w 5 app_id db1 of
                None \<Rightarrow> (Inl ''database'', db)
              | Some (active, db2) \<Rightarrow>
                if fault w 9 then (Inl ''database'', db)
                else (Inr \<lparr> td_job_id = job_id,
                    td_agent_cleanup_required = agent_cleanup_required, td_active_jobs = active \<rparr>,
                  db2))))"

definition refresh_app_teardown_fence :: "world \<Rightarrow> uuid \<Rightarrow> db \<Rightarrow> (string + nat) \<times> db" where
  "refresh_app_teardown_fence w app_id db =
     (if faults w [0, 1] then (Inl ''database'', db)
      else if \<not> lock_app app_id db then (Inr 0, db)
      else case fence_app_jobs_in_transaction w 2 app_id db of
        None \<Rightarrow> (Inl ''database'', db)
      | Some (active, db1) \<Rightarrow> if fault w 6 then (Inl ''database'', db) else (Inr active, db1))"

section \<open>Cancelling a job\<close>

datatype agent_job_cancel_outcome = Cancelled | CancelNotFound

definition cancel_summary :: "job_audit_actor \<Rightarrow> string" where
  "cancel_summary actor = (if actor_type actor = ''owner''
     then ''Cancelled by owner before the agent started work.''
     else ''Cancelled by requester before the agent started work.'')"

definition cancel_code :: "job_audit_actor \<Rightarrow> string" where
  "cancel_code actor = (if actor_type actor = ''owner''
     then ''cancelled_by_owner'' else ''cancelled_by_requester'')"

text \<open>\<open>cancel_agent_job_update_sql\<close>\<close>

definition cancel_job_set :: "timestamp \<Rightarrow> job_audit_actor \<Rightarrow> job_row \<Rightarrow> job_row" where
  "cancel_job_set t actor j =
     (if j_status j = J_Queued
      then j\<lparr> j_status := J_Cancelled, j_failure_summary := Some (cancel_summary actor),
             j_last_error := Some (cancel_summary actor), j_payload := scrub (j_payload j),
             j_finished_at := Some t, j_updated_at := t \<rparr>
      else j\<lparr> j_cancel_requested_at := Some t, j_updated_at := t \<rparr>)"

definition cancel_guard :: "agent_job_visibility \<Rightarrow> db \<Rightarrow> uuid \<Rightarrow> job_row \<Rightarrow> bool" where
  "cancel_guard vis db job_id j \<longleftrightarrow> j_id j = job_id \<and> agent_job_visible vis db j \<and> job_live (j_status j)"

definition cancel_deployment :: "timestamp \<Rightarrow> job_audit_actor \<Rightarrow> uuid \<Rightarrow> db \<Rightarrow> db" where
  "cancel_deployment t actor deployment_id =
     update_deployments (\<lambda>d. d_id d = deployment_id \<and> active_status (d_status d))
       (\<lambda>d. d\<lparr> d_status := D_Canceled, d_failure_code := Some (cancel_code actor),
              d_failure_summary := coalesce (d_failure_summary d) (Some (cancel_summary actor)),
              d_finished_at := Some t \<rparr>)"

definition release_pending :: "timestamp \<Rightarrow> uuid \<Rightarrow> uuid \<Rightarrow> db \<Rightarrow> db" where
  "release_pending t app_id deployment_id =
     update_apps (\<lambda>a. a_id a = app_id \<and> a_pending_deployment_id a = Some deployment_id)
       (\<lambda>a. a\<lparr> a_pending_deployment_id := None, a_updated_at := t \<rparr>)"

text \<open>The effect of a cancellation on the database, given the row the update returned.\<close>

definition cancel_effect :: "world \<Rightarrow> job_audit_actor \<Rightarrow> agent_job_visibility \<Rightarrow> uuid \<Rightarrow> uuid option
    \<Rightarrow> job_row \<Rightarrow> db \<Rightarrow> db" where
  "cancel_effect w actor vis job_id lock_app_id j db =
     (let db1 = update_jobs (cancel_guard vis db job_id) (cancel_job_set (clock w 6) actor) db;
          db2 = (case j_deployment_id j of
              Some deployment_id \<Rightarrow>
                if j_status j = J_Queued then
                  (let db' = cancel_deployment (clock w 7) actor deployment_id db1 in
                   if j_job_type j = ''build''
                   then end_builds (clock w 8) B_Canceled (cancel_code actor) (cancel_summary actor)
                     [deployment_id] db'
                   else db')
                else db1
            | None \<Rightarrow> db1);
          app_id = coalesce (j_app_id j) lock_app_id;
          db3 = (case (app_id, j_deployment_id j) of
              (Some a, Some d) \<Rightarrow> release_pending (clock w 9) a d db2
            | _ \<Rightarrow> db2) in
      record_agent_job_audit_event_in_transaction w actor ''agent_job_cancelled'' app_id
        (j_deployment_id j) (Some job_id) db3)"

definition cancel_agent_job_for_actor :: "world \<Rightarrow> agent_job_visibility \<Rightarrow> uuid \<Rightarrow> job_audit_actor \<Rightarrow> db
    \<Rightarrow> (string + agent_job_cancel_outcome) \<times> db" where
  "cancel_agent_job_for_actor w vis job_id actor db =
     (if faults w [0, 1] then (Inl ''database'', db)
      else case find (cancel_guard vis db job_id) (agent_jobs db) of
        None \<Rightarrow> (if fault w 11 then Inl ''database'' else Inr CancelNotFound, db)
      | Some j \<Rightarrow>
        if j_app_id j = None \<and> j_deployment_id j \<noteq> None \<and> fault w 2 then (Inl ''database'', db)
        else
          (let lock_app_id = lifecycle_app_id db j in
           if (case lock_app_id of
                 None \<Rightarrow> False
               | Some app_id \<Rightarrow> fault w 3 \<or> \<not> lock_app app_id db
                   \<or> (case j_deployment_id j of
                        None \<Rightarrow> False
                      | Some d \<Rightarrow> fault w 4 \<or> \<not> lock_deployment d app_id db))
             \<or> fault w 5 \<or> \<not> lock_job job_id (j_app_id j) (j_deployment_id j) db
           then (Inl ''row no longer exists'', db)
           else if fault w 6
             \<or> (j_status j = J_Queued \<and> j_deployment_id j \<noteq> None \<and> fault w 7)
             \<or> (j_status j = J_Queued \<and> j_deployment_id j \<noteq> None \<and> j_job_type j = ''build'' \<and> fault w 8)
             \<or> (lock_app_id \<noteq> None \<and> j_deployment_id j \<noteq> None \<and> fault w 9) \<or> faults w [10, 11]
           then (Inl ''database'', db)
           else (Inr Cancelled, cancel_effect w actor vis job_id lock_app_id j db)))"

definition cancel_agent_job :: "world \<Rightarrow> uuid \<Rightarrow> uuid \<Rightarrow> bool \<Rightarrow> db \<Rightarrow> unit response \<times> db" where
  "cancel_agent_job w user_id job_id cloud_mode db =
     (case cancel_agent_job_for_actor w \<lparr> vis_user_id = user_id, vis_cloud_mode = cloud_mode \<rparr>
         job_id owner db of
        (Inr Cancelled, db') \<Rightarrow> (Code NO_CONTENT, db')
      | (Inr CancelNotFound, db') \<Rightarrow> (Code NOT_FOUND, db')
      | (Inl _, db') \<Rightarrow> (Code INTERNAL_SERVER_ERROR, db'))"

section \<open>Retrying a job\<close>

datatype agent_job_retry_outcome = Retried | RetryNotFound | Rejected string

definition retry_creates_fresh_deployment :: "string \<Rightarrow> bool" where
  "retry_creates_fresh_deployment job_type \<longleftrightarrow> job_type = ''deploy'' \<or> job_type = ''rollback''
     \<or> job_type = ''build'' \<or> job_type = ''release''"

definition retry_guard :: "agent_job_visibility \<Rightarrow> db \<Rightarrow> uuid \<Rightarrow> job_row \<Rightarrow> bool" where
  "retry_guard vis db job_id j \<longleftrightarrow> j_id j = job_id \<and> agent_job_visible vis db j
     \<and> retryable_status (j_status j)"

definition retry_job_set :: "world \<Rightarrow> job_row \<Rightarrow> job_row" where
  "retry_job_set w j = j\<lparr> j_status := J_Queued, j_failure_summary := None, j_last_error := None,
     j_claimed_by := None, j_claimed_at := None, j_lease_expires_at := None, j_finished_at := None,
     j_updated_at := tx_now w \<rparr>"

text \<open>\<open>run_job_mutation_for_actor\<close> with the retry statement.\<close>

definition requeue_job_for_actor :: "world \<Rightarrow> agent_job_visibility \<Rightarrow> uuid \<Rightarrow> job_audit_actor \<Rightarrow> db
    \<Rightarrow> (string + agent_job_retry_outcome) \<times> db" where
  "requeue_job_for_actor w vis job_id actor db =
     (let guard = (\<lambda>j. retry_guard vis db job_id j \<and> j_payload j \<noteq> JObj []) in
      if faults w [0, 1] then (Inl ''database'', db)
      else case find guard (agent_jobs db) of
        None \<Rightarrow> (if fault w 3 then Inl ''database'' else Inr RetryNotFound, db)
      | Some j \<Rightarrow>
        if faults w [2, 3] then (Inl ''database'', db)
        else (Inr Retried,
          record_agent_job_audit_event_in_transaction w actor ''agent_job_retried'' (j_app_id j)
            (j_deployment_id j) (Some job_id) (update_jobs guard (retry_job_set w) db)))"

definition retry_deployment_job_for_actor :: "(nat \<Rightarrow> world) \<Rightarrow> deploy_env \<Rightarrow> agent_job_visibility \<Rightarrow> uuid
    \<Rightarrow> job_row \<Rightarrow> job_audit_actor \<Rightarrow> db \<Rightarrow> (string + agent_job_retry_outcome) \<times> db" where
  "retry_deployment_job_for_actor ws env vis job_id row actor db =
     (case j_app_id row of
        None \<Rightarrow> (Inr (Rejected ''job no longer has an app to retry against''), db)
      | Some app_id \<Rightarrow>
        (case (if j_job_type row = ''rollback''
               then create_and_send_rollback ws env (vis_user_id vis) app_id db
               else create_and_send_deploy ws env (vis_user_id vis) app_id
                 (case get_str (j_payload row) ''commit_sha'' of None \<Rightarrow> ''HEAD'' | Some sha \<Rightarrow> sha) db) of
           (Inr new_deployment_id, db1) \<Rightarrow>
             (Inr Retried, if fault (ws 20) 0 then db1
               else record_agent_job_audit_event_in_transaction (ws 20) actor ''agent_job_retried''
                 (Some app_id) (Some new_deployment_id) (Some job_id) db1)
         | (Inl e, db1) \<Rightarrow> (Inr (Rejected e), db1)))"

text \<open>\<open>w\<close> is the world of the select, \<open>ws\<close> those of the calls that follow.\<close>

definition retry_agent_job_for_actor :: "world \<Rightarrow> (nat \<Rightarrow> world) \<Rightarrow> deploy_env \<Rightarrow> agent_job_visibility
    \<Rightarrow> uuid \<Rightarrow> job_audit_actor \<Rightarrow> db \<Rightarrow> (string + agent_job_retry_outcome) \<times> db" where
  "retry_agent_job_for_actor w ws env vis job_id actor db =
     (if fault w 0 then (Inl ''database'', db)
      else case find (retry_guard vis db job_id) (agent_jobs db) of
        None \<Rightarrow> (Inr RetryNotFound, db)
      | Some row \<Rightarrow>
        if retry_creates_fresh_deployment (j_job_type row)
        then retry_deployment_job_for_actor ws env vis job_id row actor db
        else requeue_job_for_actor (ws 0) vis job_id actor db)"

definition retry_agent_job :: "world \<Rightarrow> (nat \<Rightarrow> world) \<Rightarrow> deploy_env \<Rightarrow> uuid \<Rightarrow> uuid \<Rightarrow> bool \<Rightarrow> db
    \<Rightarrow> unit response \<times> db" where
  "retry_agent_job w ws env user_id job_id cloud_mode db =
     (case retry_agent_job_for_actor w ws env \<lparr> vis_user_id = user_id, vis_cloud_mode = cloud_mode \<rparr>
         job_id owner db of
        (Inr Retried, db') \<Rightarrow> (Code NO_CONTENT, db')
      | (Inr RetryNotFound, db') \<Rightarrow> (Code NOT_FOUND, db')
      | (Inr (Rejected reason), db') \<Rightarrow> (Text BAD_REQUEST reason, db')
      | (Inl _, db') \<Rightarrow> (Code INTERNAL_SERVER_ERROR, db'))"

section \<open>Deletion fences an app\<close>

lemma fence_app_jobs_elim:
  assumes "fence_app_jobs_in_transaction w k i db = Some (n, db')"
  shows "agent_jobs db' = update_where (fence_guard i) (fence_job w) (agent_jobs db)"
    "n = count_where (\<lambda>j. fence_guard i j \<and> job_leased (j_status j)) (agent_jobs db)"
    "db' = clear_fenced_pending w i (fenced_deployments i db)
        (cancel_fenced_deployments w (fenced_deployments i db) (update_jobs (fence_guard i) (fence_job w) db))"
  using assms by (auto simp: fence_app_jobs_in_transaction_def Let_def clear_fenced_pending_def
      cancel_fenced_deployments_def count_where_def conj_commute split: if_splits)

lemma fence_job_simps [simp]:
  "j_id (fence_job w j) = j_id j" "j_app_id (fence_job w j) = j_app_id j"
  "j_job_type (fence_job w j) = j_job_type j" "j_deployment_id (fence_job w j) = j_deployment_id j"
  by (simp_all add: fence_job_def)

lemma newest_mem: "newest t rs = Some r \<Longrightarrow> r \<in> set rs"
  by (induction rs arbitrary: r) (auto split: option.splits if_splits)

lemma latest_delete_jobD:
  assumes "latest_delete_job i db = Some j"
  shows "j \<in> set (agent_jobs db)" "j_app_id j = Some i" "j_job_type j = ''delete_app''"
  using newest_mem [OF assms [unfolded latest_delete_job_def]] by auto

lemma fence_true_text:
  "is_object p \<Longrightarrow> json_text (json_insert ''teardown_fence'' (JBool True) p) ''teardown_fence'' = Some ''true''"
  by (simp add: json_text_def json_get_insert)

lemma reuse_delete_job_marker:
  assumes "j_app_id j = Some i" "j_job_type j = ''delete_app''" "j_status j \<noteq> J_Canceled"
    "json_text payload ''teardown_fence'' = Some ''true''"
  shows "deletion_marker i (reuse_delete_job w payload pr c j)"
  using assms by (cases "j_status j")
    (simp_all add: reuse_delete_job_def restart_delete_job_def deletion_marker_def retryable_status_def)

lemma place_delete_job_marker:
  assumes "place_delete_job w s i payload pr c db = (job_id, db1)"
    "json_text payload ''teardown_fence'' = Some ''true''"
    "\<And>j. j \<in> set (agent_jobs db) \<Longrightarrow> j_job_type j = ''delete_app'' \<Longrightarrow> j_status j \<noteq> J_Canceled"
  shows "\<exists>j \<in> set (agent_jobs db1). j_id j = job_id \<and> deletion_marker i j"
proof (cases "latest_delete_job i db")
  case None
  with assms(1,2) show ?thesis
    by (auto simp: place_delete_job_def deletion_marker_def Let_def set_update_where)
next
  case (Some j)
  note D = latest_delete_jobD [OF Some]
  have "reuse_delete_job w payload pr c j \<in> set (agent_jobs db1)"
    using assms(1) Some D(1) by (auto simp: place_delete_job_def in_update_where)
  moreover have "j_id (reuse_delete_job w payload pr c j) = job_id"
    using assms(1) Some by (simp add: place_delete_job_def reuse_delete_job_def restart_delete_job_def)
  ultimately show ?thesis
    using reuse_delete_job_marker [OF D(2,3) assms(3) [OF D(1,3)] assms(2)] by blast
qed

lemma fenced_after_fence:
  assumes "fence_app_jobs_in_transaction w k i db = Some (n, db')" "deletion_fenced i db"
  shows "deletion_fenced i db'"
  using assms(2) unfolding deletion_fenced_def exists_where_iff fence_app_jobs_elim(1) [OF assms(1)]
  by (force simp: in_update_where fence_guard_def deletion_marker_def)

lemma fenced_jobs_after:
  assumes "fence_app_jobs_in_transaction w k i db = Some (n, db')" "j \<in> set (agent_jobs db')"
    "j_app_id j = Some i" "j_job_type j \<noteq> ''delete_app''"
  shows "j_status j \<noteq> J_Queued" "job_leased (j_status j) \<Longrightarrow>
    j_cancel_requested_at j \<noteq> None \<and> \<not> has_secrets (j_payload j)"
proof -
  from assms(2) obtain q where q: "q \<in> set (agent_jobs db)" "j = (if fence_guard i q then fence_job w q else q)"
    unfolding fence_app_jobs_elim(1) [OF assms(1)] in_update_where by blast
  have "fence_guard i q = job_live (j_status q)"
    using q(2) assms(3,4) by (auto simp: fence_guard_def split: if_splits)
  with q(2) show "j_status j \<noteq> J_Queued" "job_leased (j_status j) \<Longrightarrow>
      j_cancel_requested_at j \<noteq> None \<and> \<not> has_secrets (j_payload j)"
    by (auto simp: fence_job_def coalesce_def split: if_splits option.splits)
qed

lemma count_where_update:
  assumes "\<And>r. r \<in> set rs \<Longrightarrow> Q (if P r then f r else r) = R r"
  shows "count_where Q (update_where P f rs) = count_where R rs"
  using assms by (induction rs) (auto simp: count_where_def)

text \<open>
  C28: starting to delete an app fences it.  When the teardown has started, the app carries a
  deletion marker, so no job can be enqueued or claimed for it any more; no other job of the app is
  queued; every job an agent still holds has been asked to cancel and has lost the secrets of its
  payload; and the reported number is exactly the number of those jobs.
\<close>

theorem start_app_teardown_fences:
  assumes "start_app_teardown w server_id app_id payload cleanup db = (Inr td, db')"
    "\<And>j. j \<in> set (agent_jobs db) \<Longrightarrow> j_job_type j = ''delete_app'' \<Longrightarrow> j_status j \<noteq> J_Canceled"
  shows "deletion_fenced app_id db'
    \<and> (\<forall>j \<in> set (agent_jobs db'). j_app_id j = Some app_id \<and> j_job_type j \<noteq> ''delete_app'' \<longrightarrow>
         j_status j \<noteq> J_Queued \<and> (job_leased (j_status j) \<longrightarrow>
           j_cancel_requested_at j \<noteq> None \<and> \<not> has_secrets (j_payload j)))
    \<and> td_active_jobs td = count_where (\<lambda>j. j_app_id j = Some app_id \<and> j_job_type j \<noteq> ''delete_app''
         \<and> job_leased (j_status j)) (agent_jobs db')"
proof (intro conjI)
  let ?p = "json_insert ''teardown_fence'' (JBool True) payload"
  obtain a where a: "is_object payload" "find_app app_id db = Some a"
    using assms(1) by (cases "is_object payload"; cases "find_app app_id db")
      (simp_all add: start_app_teardown_def Let_def split: if_splits)
  note obj = a(1)
  obtain job_id db1 where
    place: "place_delete_job w server_id app_id ?p (5 + a_queue_priority_offset a) cleanup db = (job_id, db1)"
    by fastforce
  obtain n where fence: "fence_app_jobs_in_transaction w 5 app_id db1 = Some (n, db')"
    and n: "td_active_jobs td = n"
    using assms(1) unfolding start_app_teardown_def Let_def
    by (cases "fence_app_jobs_in_transaction w 5 app_id db1")
      (auto simp: a place split: if_splits)
  have "deletion_fenced app_id db1"
    using place_delete_job_marker [OF place fence_true_text [OF obj] assms(2)]
    by (auto simp: deletion_fenced_def exists_where_iff)
  then show "deletion_fenced app_id db'" by (rule fenced_after_fence [OF fence])
  show "\<forall>j \<in> set (agent_jobs db'). j_app_id j = Some app_id \<and> j_job_type j \<noteq> ''delete_app'' \<longrightarrow>
       j_status j \<noteq> J_Queued \<and> (job_leased (j_status j) \<longrightarrow>
         j_cancel_requested_at j \<noteq> None \<and> \<not> has_secrets (j_payload j))"
    using fenced_jobs_after [OF fence] by blast
  show "td_active_jobs td = count_where (\<lambda>j. j_app_id j = Some app_id \<and> j_job_type j \<noteq> ''delete_app''
       \<and> job_leased (j_status j)) (agent_jobs db')"
    unfolding n fence_app_jobs_elim(1,2) [OF fence]
    by (rule sym, rule count_where_update) (auto simp: fence_guard_def fence_job_def)
qed

section \<open>Cancelling and retrying respect ownership\<close>

lemma cancel_elim:
  assumes "cancel_agent_job_for_actor w vis job_id actor db = (r, db')"
  obtains (refused) "r \<noteq> Inr Cancelled" "db' = db"
  | (cancelled) j where "r = Inr Cancelled" "j \<in> set (agent_jobs db)" "cancel_guard vis db job_id j"
      "db' = cancel_effect w actor vis job_id (lifecycle_app_id db j) j db"
proof (cases "find (cancel_guard vis db job_id) (agent_jobs db)")
  case None
  with assms have "r \<noteq> Inr Cancelled \<and> db' = db"
    by (auto simp: cancel_agent_job_for_actor_def split: if_splits)
  with refused show ?thesis by blast
next
  case (Some j)
  with assms have "r \<noteq> Inr Cancelled \<and> db' = db
      \<or> r = Inr Cancelled \<and> db' = cancel_effect w actor vis job_id (lifecycle_app_id db j) j db"
    unfolding cancel_agent_job_for_actor_def Let_def
    by (clarsimp split: if_split_asm simp del: faults_simps)
  with find_SomeD [OF Some] refused cancelled show ?thesis by blast
qed

lemma release_pending_find:
  assumes "find_app i (release_pending t i k db) = Some a"
  shows "a_pending_deployment_id a \<noteq> Some k"
proof -
  from assms obtain b where b: "find_app i db = Some b"
    "a = (if a_id b = i \<and> a_pending_deployment_id b = Some k
          then b\<lparr> a_pending_deployment_id := None, a_updated_at := t \<rparr> else b)"
    by (auto simp: release_pending_def find_row_update)
  with find_row_SomeD [OF b(1)] show ?thesis by auto
qed

lemma cancel_effect_jobs:
  "agent_jobs (cancel_effect w actor vis job_id l j db) =
     update_where (cancel_guard vis db job_id) (cancel_job_set (clock w 6) actor) (agent_jobs db)"
  by (simp add: cancel_effect_def Let_def cancel_deployment_def release_pending_def split: option.split)

text \<open>
  A cancellation reaches the whole deployment.  It succeeds only for a live job the caller may
  see.  A queued job is cancelled on the spot, loses its secrets, and takes its active deployment
  with it; a job an agent holds keeps its status and is asked to cancel.  Either way the app stops
  waiting for that deployment, and no other job changes.
\<close>

theorem cancel_agent_job_correct:
  assumes "cancel_agent_job_for_actor w vis job_id actor db = (Inr Cancelled, db')" "wf_keys db"
  shows "\<exists>j j'. find_job job_id db = Some j \<and> agent_job_visible vis db j \<and> job_live (j_status j)
    \<and> find_job job_id db' = Some j'
    \<and> (j_status j = J_Queued \<longrightarrow> j_status j' = J_Cancelled \<and> \<not> has_secrets (j_payload j')
         \<and> (\<forall>k d. j_deployment_id j = Some k \<and> find_deployment k db = Some d \<and> active_status (d_status d)
              \<longrightarrow> (\<exists>d'. find_deployment k db' = Some d' \<and> d_status d' = D_Canceled)))
    \<and> (j_status j \<noteq> J_Queued \<longrightarrow> j_status j' = j_status j \<and> j_cancel_requested_at j' \<noteq> None)
    \<and> (\<forall>k a i. j_deployment_id j = Some k \<and> j_app_id j = Some i \<and> find_app i db' = Some a
         \<longrightarrow> a_pending_deployment_id a \<noteq> Some k)
    \<and> (\<forall>i. i \<noteq> job_id \<longrightarrow> find_job i db' = find_job i db)"
  using assms(1)
proof (cases rule: cancel_elim)
  case (cancelled j)
  have g: "j_id j = job_id" "agent_job_visible vis db j" "job_live (j_status j)"
    using cancelled(3) by (simp_all add: cancel_guard_def)
  have j: "find_job job_id db = Some j"
    using assms(2) cancelled(2) g(1) by (auto simp: wf_keys_def intro: find_row_unique)
  let ?f = "cancel_job_set (clock w 6) actor"
  have id: "j_id (?f x) = j_id x" for x by (simp add: cancel_job_set_def)
  have find: "find_job i db' = map_option (\<lambda>x. if cancel_guard vis db job_id x then ?f x else x) (find_job i db)" for i
    unfolding cancelled(4) cancel_effect_jobs by (rule find_row_update) (rule id)
  have here: "find_job job_id db' = Some (?f j)" using find j cancelled(3) by simp
  have other: "find_job i db' = find_job i db" if "i \<noteq> job_id" for i
    unfolding find using that by (cases "find_job i db") (auto simp: cancel_guard_def dest: find_row_SomeD)
  have dep: "\<exists>d'. find_deployment k db' = Some d' \<and> d_status d' = D_Canceled"
    if "j_status j = J_Queued" "j_deployment_id j = Some k" "find_deployment k db = Some d" "active_status (d_status d)" for k d
    unfolding cancelled(4) using that find_row_SomeD [OF that(3)]
    by (simp add: cancel_effect_def Let_def cancel_deployment_def release_pending_def find_row_update
        split: option.split)
  have pend: "a_pending_deployment_id a \<noteq> Some k"
    if "j_deployment_id j = Some k" "j_app_id j = Some i" "find_app i db' = Some a" for k a i
  proof (rule release_pending_find)
    show "find_app i (release_pending (clock w 9) i k db) = Some a"
      using that unfolding cancelled(4)
      by (simp add: cancel_effect_def Let_def cancel_deployment_def release_pending_def split: if_splits)
  qed
  have row: "j_status j = J_Queued \<Longrightarrow> j_status (?f j) = J_Cancelled \<and> \<not> has_secrets (j_payload (?f j))"
    "j_status j \<noteq> J_Queued \<Longrightarrow> j_status (?f j) = j_status j \<and> j_cancel_requested_at (?f j) \<noteq> None"
    by (simp_all add: cancel_job_set_def)
  show ?thesis
    by (intro exI [of _ j] exI [of _ "?f j"]) (use g j here other dep pend row in blast)
qed simp

end
