(* ===== verification/Teardown.thy ===== *)
theory Teardown
  imports Job_Control Contract_Names
begin

text \<open>
  The second half of deleting an app (\<open>apps/api/src/web/app_delete.rs\<close>): the request, the
  finalization once the agent has cleaned up, and the removal of the rows with the cascades that
  the foreign keys of the schema declare.  Before that the DNS record of a public app is removed at
  Cloudflare (\<open>apps/api/src/web/dns/cloudflare.rs\<close>); the request to Cloudflare is a parameter.
\<close>

section \<open>Removing the rows\<close>

definition app_deployments :: "uuid \<Rightarrow> db \<Rightarrow> uuid list" where
  "app_deployments app_id db = map d_id (filter (\<lambda>d. d_app_id d = app_id) (deployments db))"

definition null_if :: "uuid list \<Rightarrow> uuid option \<Rightarrow> uuid option" where
  "null_if ids v = (case v of None \<Rightarrow> None | Some i \<Rightarrow> if i \<in> set ids then None else Some i)"

text \<open>\<open>DELETE FROM apps\<close> of one row with its \<open>ON DELETE CASCADE\<close> and \<open>ON DELETE SET NULL\<close> actions.\<close>

definition cascade_delete_app :: "uuid \<Rightarrow> db \<Rightarrow> db" where
  "cascade_delete_app app_id db =
     (let ids = app_deployments app_id db in db\<lparr>
        apps := map (\<lambda>a. a\<lparr> a_pending_deployment_id := null_if ids (a_pending_deployment_id a) \<rparr>)
          (delete_where (\<lambda>a. a_id a = app_id) (apps db)),
        deployments := map (\<lambda>d. d\<lparr> d_expected_current_deployment_id :=
              null_if ids (d_expected_current_deployment_id d) \<rparr>)
          (delete_where (\<lambda>d. d_app_id d = app_id) (deployments db)),
        agent_jobs := map (\<lambda>j. j\<lparr> j_app_id := null_if [app_id] (j_app_id j),
            j_deployment_id := null_if ids (j_deployment_id j) \<rparr>) (agent_jobs db),
        deployment_builds := delete_where (\<lambda>b. b_deployment_id b \<in> set ids) (deployment_builds db),
        deployment_services := delete_where (\<lambda>v. v_app_id v = app_id \<or> v_deployment_id v \<in> set ids)
          (deployment_services db),
        app_suspensions := delete_where (\<lambda>p. p_app_id p = app_id) (app_suspensions db),
        app_compose_runtime := map (\<lambda>c. c\<lparr> c_last_applied_deployment_id :=
              null_if ids (c_last_applied_deployment_id c) \<rparr>)
          (delete_where (\<lambda>c. c_app_id c = app_id) (app_compose_runtime db)),
        app_health_snapshots := map (\<lambda>h. h\<lparr> h_deployment_id := null_if ids (h_deployment_id h) \<rparr>)
          (delete_where (\<lambda>h. h_app_id h = app_id) (app_health_snapshots db)),
        app_health_events := map (\<lambda>e. e\<lparr> e_deployment_id := null_if ids (e_deployment_id e) \<rparr>)
          (delete_where (\<lambda>e. e_app_id e = app_id) (app_health_events db)),
        app_browser_health := delete_where (\<lambda>w. w_app_id w = app_id
            \<or> (case w_deployment_id w of None \<Rightarrow> False | Some i \<Rightarrow> i \<in> set ids)) (app_browser_health db),
        app_storage_usage := delete_where (\<lambda>u. u_app_id u = app_id) (app_storage_usage db),
        deployment_logs := delete_where (\<lambda>l. l_deployment_id l \<in> set ids) (deployment_logs db),
        app_screenshots := map (\<lambda>i. i\<lparr> i_deployment_id := null_if ids (i_deployment_id i) \<rparr>)
          (delete_where (\<lambda>i. i_app_id i = app_id) (app_screenshots db)),
        webhook_app_events := map (\<lambda>z. z\<lparr> z_deployment_id := null_if ids (z_deployment_id z) \<rparr>)
          (delete_where (\<lambda>z. z_app_id z = app_id) (webhook_app_events db)),
        audit_events := map (\<lambda>x. x\<lparr> x_app_id := null_if [app_id] (x_app_id x),
            x_deployment_id := null_if ids (x_deployment_id x) \<rparr>) (audit_events db),
        app_env_vars := delete_where (\<lambda>n. n_app_id n = app_id) (app_env_vars db),
        rollback_events := delete_where (\<lambda>k. k_app_id k = app_id) (rollback_events db),
        app_public_dns_records := delete_where (\<lambda>y. y_app_id y = app_id) (app_public_dns_records db) \<rparr>)"

definition empty_payloads :: "world \<Rightarrow> uuid \<Rightarrow> db \<Rightarrow> db" where
  "empty_payloads w app_id = update_jobs (\<lambda>j. j_app_id j = Some app_id)
     (\<lambda>j. j\<lparr> j_payload := JObj [], j_updated_at := tx_now w \<rparr>)"

definition delete_resource_snapshots :: "string list \<Rightarrow> db \<Rightarrow> db" where
  "delete_resource_snapshots containers =
     app_resource_snapshots_update (delete_where (\<lambda>r. r_container_name r \<in> set containers))"

definition app_held_jobs :: "uuid \<Rightarrow> db \<Rightarrow> nat" where
  "app_held_jobs app_id db = count_where (\<lambda>j. j_app_id j = Some app_id
     \<and> j_job_type j \<noteq> ''delete_app'' \<and> job_leased (j_status j)) (agent_jobs db)"

definition delete_app_records :: "world \<Rightarrow> uuid \<Rightarrow> uuid \<Rightarrow> string list \<Rightarrow> db \<Rightarrow> (string + bool) \<times> db" where
  "delete_app_records w app_id user_id containers db =
     (if faults w [0, 1] then (Inl ''database'', db)
      else if 0 < app_held_jobs app_id db then (Inr False, db)
      else if containers \<noteq> [] \<and> fault w 2 then (Inl ''failed to delete resource snapshots'', db)
      else if faults w [3, 4, 5, 6] then (Inl ''database'', db)
      else
        (let db0 = (if containers = [] then db else delete_resource_snapshots containers db);
             db1 = empty_payloads w app_id db0 in
         if exists_where (\<lambda>a. a_id a = app_id \<and> a_user_id a = user_id) (apps db1)
         then (Inr True, cascade_delete_app app_id db1)
         else (Inr False, db1)))"

section \<open>The DNS record of a public app\<close>

definition reserved_public_domain_label :: "string \<Rightarrow> bool" where
  "reserved_public_domain_label label \<longleftrightarrow> map to_ascii_lowercase label \<in> set
     [''@'', ''admin'', ''api'', ''app'', ''apps'', ''blog'', ''cloudflare'', ''cpanel'', ''dns'', ''ftp'', ''hostlet'', ''imap'',
      ''mail'', ''mx'', ''ns1'', ''ns2'', ''pop'', ''smtp'', ''ssh'', ''status'', ''support'', ''www'']"

definition hostlet_public_cloudflare_host :: "string option \<Rightarrow> string \<Rightarrow> string + string" where
  "hostlet_public_cloudflare_host base_domain domain =
     (if CHR '':'' \<in> set domain then Inl ''public app domain cannot include a port''
      else case domain_host domain of
        None \<Rightarrow> Inl ''app domain is not a valid hostname''
      | Some h \<Rightarrow>
        let host = map to_ascii_lowercase h in
        if \<not> valid_hostname host then Inl ''app domain is not a valid hostname''
        else case base_domain of
          None \<Rightarrow> Inl ''HOSTLET_BASE_DOMAIN is not configured''
        | Some base \<Rightarrow>
          (case strip_suffix host (''.'' @ base) of
             None \<Rightarrow> Inl (''app domain must end with .'' @ base)
           | Some label \<Rightarrow>
               if label = [] then Inl (''app domain must use a label before '' @ base)
               else if CHR ''.'' \<in> set label then Inl (''app domain must use a single label before '' @ base)
               else if reserved_public_domain_label label then Inl (label @ ''.'' @ base @ '' is reserved'')
               else Inr host))"

text \<open>
  The configuration, the faults of the two statements, and what the request to delete a record with
  the given identifier comes to.
\<close>

record dns_env =
  dns_base_domain :: "string option"
  dns_api_token :: "string option"
  dns_zone_id :: "string option"
  dns_world :: world
  dns_delete_record :: "string \<Rightarrow> string + unit"

definition delete_cloudflare_app_dns :: "dns_env \<Rightarrow> uuid \<Rightarrow> string \<Rightarrow> db \<Rightarrow> (string + unit) \<times> db" where
  "delete_cloudflare_app_dns dns app_id domain db =
     (case hostlet_public_cloudflare_host (dns_base_domain dns) domain of
        Inl _ \<Rightarrow> (Inr (), db)
      | Inr host \<Rightarrow>
        (case (dns_api_token dns, dns_zone_id dns) of
           (Some _, Some zone_id) \<Rightarrow>
             let mine = (\<lambda>y. y_app_id y = app_id \<and> y_zone_id y = zone_id \<and> y_hostname y = host) in
             if fault (dns_world dns) 0 then (Inl ''database'', db)
             else (case find mine (app_public_dns_records db) of
                None \<Rightarrow> (Inr (), db)
              | Some record \<Rightarrow>
                (case dns_delete_record dns (y_cloudflare_record_id record) of
                   Inl e \<Rightarrow> (Inl e, db)
                 | Inr _ \<Rightarrow>
                   if fault (dns_world dns) 1 then (Inl ''database'', db)
                   else (Inr (), app_public_dns_records_update (delete_where mine) db)))
         | _ \<Rightarrow> (Inl ''Cloudflare DNS is not configured'', db)))"

section \<open>Finalizing\<close>

definition record_control_event :: "world \<Rightarrow> string \<Rightarrow> string \<Rightarrow> uuid option \<Rightarrow> uuid option \<Rightarrow> db \<Rightarrow> db" where
  "record_control_event w actor event app_id job_id db =
     (if fault w 0 then db
      else audit (tx_now w) actor None event app_id None job_id (JObj []) db)"

text \<open>
  \<open>ws k\<close> is the world of the \<open>k\<close>-th database call or transaction, \<open>dns\<close> the environment of the
  removal of the public record at Cloudflare.
\<close>

definition finalize_user :: "(nat \<Rightarrow> world) \<Rightarrow> uuid \<Rightarrow> json \<Rightarrow> db \<Rightarrow> uuid option" where
  "finalize_user ws app_id payload db =
     (case Option.bind (get_str payload ''user_id'') (parse_uuid (ws 0)) of
        Some u \<Rightarrow> Some u
      | None \<Rightarrow> if fault (ws 1) 0 then None else map_option a_user_id (find_app app_id db))"

definition payload_containers :: "json \<Rightarrow> string list" where
  "payload_containers payload = List.map_filter as_str
     (case Option.bind (json_get payload ''containers'') as_array of None \<Rightarrow> [] | Some xs \<Rightarrow> xs)"

definition finalize_records :: "(nat \<Rightarrow> world) \<Rightarrow> uuid \<Rightarrow> uuid \<Rightarrow> uuid \<Rightarrow> json \<Rightarrow> db
    \<Rightarrow> (string + bool) \<times> db" where
  "finalize_records ws job_id app_id user_id payload db =
     (case delete_app_records (ws 4) app_id user_id (payload_containers payload) db of
        (Inr True, db1) \<Rightarrow> (Inr True,
          record_control_event (ws 5) ''system'' ''app_deleted'' (Some app_id) (Some job_id) db1)
      | (Inr False, db1) \<Rightarrow> (Inr False,
          mark_agent_job_failed (ws 5) job_id ''app disappeared before deletion completed'' db1)
      | (Inl e, db1) \<Rightarrow> (Inl e, mark_agent_job_failed (ws 5) job_id e db1))"

definition finalize_delete_app_from_job :: "(nat \<Rightarrow> world) \<Rightarrow> dns_env \<Rightarrow> uuid
    \<Rightarrow> db \<Rightarrow> (string + bool) \<times> db" where
  "finalize_delete_app_from_job ws dns job_id db =
     (if fault (ws 0) 0 then (Inl ''database'', db)
      else case find (\<lambda>j. j_id j = job_id \<and> j_job_type j = ''delete_app'' \<and> j_status j = J_Success)
          (agent_jobs db) of
        None \<Rightarrow> (Inr False, db)
      | Some row \<Rightarrow>
        (case j_app_id row of
           None \<Rightarrow> (Inr False, db)
         | Some app_id \<Rightarrow>
           (case finalize_user ws app_id (j_payload row) db of
              None \<Rightarrow> (Inr False, db)
            | Some user_id \<Rightarrow>
              (case refresh_app_teardown_fence (ws 2) app_id db of
                 (Inl e, db1) \<Rightarrow> (Inl e, db1)
               | (Inr active, db1) \<Rightarrow>
                 if 0 < active then (Inr False, db1)
                 else if Option.bind (json_get (j_payload row) ''public_exposure'') as_bool = Some True
                 then (case delete_cloudflare_app_dns dns app_id (case get_str (j_payload row) ''domain'' of
                          None \<Rightarrow> [] | Some s \<Rightarrow> s) db1 of
                     (Inl e, db2) \<Rightarrow> (Inl e, mark_agent_job_failed (ws 3) job_id e db2)
                   | (Inr _, db2) \<Rightarrow> finalize_records ws job_id app_id user_id (j_payload row) db2)
                 else finalize_records ws job_id app_id user_id (j_payload row) db1))))"

fun finalize_loop :: "(nat \<Rightarrow> nat \<Rightarrow> world) \<Rightarrow> dns_env \<Rightarrow> nat \<Rightarrow> nat \<Rightarrow> uuid list
    \<Rightarrow> db \<Rightarrow> (string + nat) \<times> db" where
  "finalize_loop wss dns k finalized [] db = (Inr finalized, db)"
| "finalize_loop wss dns k finalized (i # is) db =
     (case finalize_delete_app_from_job (wss k) dns i db of
        (Inl e, db1) \<Rightarrow> (Inl e, db1)
      | (Inr b, db1) \<Rightarrow> finalize_loop wss dns (Suc k) (if b then Suc finalized else finalized) is db1)"

definition reconcile_completed_delete_jobs :: "(nat \<Rightarrow> nat \<Rightarrow> world) \<Rightarrow> dns_env
    \<Rightarrow> db \<Rightarrow> (string + nat) \<times> db" where
  "reconcile_completed_delete_jobs wss dns db =
     (if fault (wss 0 0) 0 then (Inl ''database'', db)
      else finalize_loop wss dns 1 0 (map j_id (filter (\<lambda>j. j_job_type j = ''delete_app''
        \<and> j_status j = J_Success \<and> j_app_id j \<noteq> None) (agent_jobs db))) db)"

section \<open>The request\<close>

definition dedup_column :: "('r \<Rightarrow> string option) \<Rightarrow> 'r list \<Rightarrow> string list" where
  "dedup_column column rows = remdups_adj (sort (List.map_filter column rows))"

definition delete_payload :: "world \<Rightarrow> app_row \<Rightarrow> uuid \<Rightarrow> deployment_row list \<Rightarrow> json" where
  "delete_payload w a user_id rows = JObj
     [(''type'', JStr ''delete_app''), (''app_id'', JStr (uuid_text w (a_id a))),
      (''route_key'', JStr (''app-'' @ uuid_text w (a_id a))), (''domain'', JStr (a_domain a)),
      (''user_id'', JStr (uuid_text w user_id)), (''public_exposure'', JBool (a_public_exposure a)),
      (''compose_project'', JStr (''hostlet-app-'' @ filter (\<lambda>c. c \<noteq> CHR ''-'') (uuid_text w (a_id a)))),
      (''containers'', JArr (map JStr (dedup_column d_container_name rows))),
      (''images'', JArr (map JStr (filter (\<lambda>i. starts_with i ''hostlet/'')
         (dedup_column d_image_tag rows))))]"

definition delete_app :: "(nat \<Rightarrow> world) \<Rightarrow> (nat \<Rightarrow> world) \<Rightarrow> dns_env \<Rightarrow> uuid
    \<Rightarrow> uuid \<Rightarrow> db \<Rightarrow> uuid response \<times> db" where
  "delete_app ws finalize_ws dns user_id app_id db =
     (if fault (ws 0) 0 then (Code NOT_FOUND, db)
      else case find (\<lambda>a. a_id a = app_id \<and> a_user_id a = user_id) (apps db) of
        None \<Rightarrow> (Code NOT_FOUND, db)
      | Some a \<Rightarrow>
        if fault (ws 1) 0 then (Code INTERNAL_SERVER_ERROR, db)
        else
          (let rows = filter (\<lambda>d. d_app_id d = app_id) (deployments db) in
           case start_app_teardown (ws 2) (a_server_id a) app_id (delete_payload (ws 2) a user_id rows)
               (rows \<noteq> []) db of
             (Inl _, db1) \<Rightarrow> (Code INTERNAL_SERVER_ERROR, db1)
           | (Inr td, db1) \<Rightarrow>
             (let db2 = record_control_event (ws 3) ''owner'' ''delete_app_requested'' (Some app_id)
                    (Some (td_job_id td)) db1 in
              if \<not> td_agent_cleanup_required td \<and> td_active_jobs td = 0 then
                (case finalize_delete_app_from_job finalize_ws dns (td_job_id td) db2 of
                   (Inr True, db3) \<Rightarrow> (Code NO_CONTENT, db3)
                 | (Inr False, db3) \<Rightarrow> (Reply (td_job_id td), db3)
                 | (Inl _, db3) \<Rightarrow> (Code INTERNAL_SERVER_ERROR, db3))
              else (Reply (td_job_id td), db2))))"

section \<open>Correctness\<close>


lemma null_if_SomeD: "null_if is v = Some i \<Longrightarrow> v = Some i \<and> i \<notin> set is"
  by (cases v) (auto simp: null_if_def split: if_splits)









end
