(* ===== verification/Claim.thy ===== *)
theory Claim
  imports Teardown
begin

text \<open>
  How an agent gets work: \<open>claim_job\<close> of \<open>apps/api/src/agent/routes.rs\<close>.  The claim itself is one
  statement, an \<open>UPDATE\<close> of the row that a \<open>SELECT .. ORDER BY .. FOR UPDATE SKIP LOCKED LIMIT 1\<close>
  returns; before it the server's own lapsed jobs are reconciled and requeued.  Signing is a
  parameter (\<open>sign\<close>), as is the loading of the signing secret.
\<close>

section \<open>Requeueing the server's lapsed jobs\<close>

definition requeue_expired_jobs_for_server :: "world \<Rightarrow> uuid \<Rightarrow> db \<Rightarrow> db" where
  "requeue_expired_jobs_for_server w server_id db =
     (if fault w 0 then db
      else update_jobs (\<lambda>j. j_server_id j = Some server_id \<and> retryable_expired db (clock w 0) j)
        (requeue_set w) db)"

section \<open>Which jobs an agent may claim\<close>

definition builder_has_room :: "db \<Rightarrow> server_row \<Rightarrow> bool" where
  "builder_has_room db s \<longleftrightarrow> s_status s \<noteq> ''revoked'' \<and> \<not> s_draining s
     \<and> ''builder'' \<in> set (s_capabilities s)
     \<and> int (count_where (\<lambda>j. j_server_id j = Some (s_id s) \<and> j_job_type j = ''build''
          \<and> job_leased (j_status j)) (agent_jobs db)) < s_max_concurrent_builds s"

definition pool_build :: "db \<Rightarrow> uuid \<Rightarrow> job_row \<Rightarrow> bool" where
  "pool_build db server_id j \<longleftrightarrow> j_server_id j = None \<and> j_job_type j = ''build''
     \<and> (case find_server server_id db of
          None \<Rightarrow> False
        | Some s \<Rightarrow> j_build_pool_id j \<noteq> None \<and> j_build_pool_id j = s_build_pool_id s
            \<and> (case json_text (j_payload j) ''required_platform'' of
                 None \<Rightarrow> False | Some platform \<Rightarrow> platform \<in> set (s_platforms s))
            \<and> builder_has_room db s)"

definition claim_type_ok :: "db \<Rightarrow> job_row \<Rightarrow> bool" where
  "claim_type_ok db j \<longleftrightarrow>
     (if j_job_type j = ''docker_cleanup'' then True
      else if j_job_type j = ''delete_app'' then
        (case j_app_id j of
           None \<Rightarrow> True
         | Some app_id \<Rightarrow> \<not> exists_where (\<lambda>q. j_app_id q = Some app_id \<and> j_id q \<noteq> j_id j
             \<and> j_job_type q \<noteq> ''delete_app'' \<and> job_leased (j_status q)) (agent_jobs db))
      else
        (case j_app_id j of
           None \<Rightarrow> False
         | Some app_id \<Rightarrow> app_exists app_id db \<and> \<not> deletion_fenced app_id db))"

definition claimable :: "world \<Rightarrow> uuid \<Rightarrow> int \<Rightarrow> db \<Rightarrow> job_row \<Rightarrow> bool" where
  "claimable w server_id protocol_version db j \<longleftrightarrow>
     (j_server_id j = Some server_id \<or> pool_build db server_id j)
     \<and> j_status j = J_Queued \<and> j_available_at j \<le> tx_now w
     \<and> j_protocol_version j \<le> protocol_version \<and> j_payload j \<noteq> JObj []
     \<and> claim_type_ok db j
     \<and> (j_job_type j = ''docker_cleanup'' \<longrightarrow>
          \<not> exists_where (\<lambda>d. d_server_id d = server_id \<and> active_status (d_status d)) (deployments db))"

definition next_job :: "world \<Rightarrow> uuid \<Rightarrow> int \<Rightarrow> db \<Rightarrow> job_row option" where
  "next_job w server_id protocol_version db =
     (case sort_key (\<lambda>j. (j_priority j, j_created_at j))
         (filter (\<lambda>j. claimable w server_id protocol_version db j \<and> \<not> row_locked w (j_id j)) (agent_jobs db)) of
        [] \<Rightarrow> None | j # _ \<Rightarrow> Some j)"

definition claim_set :: "world \<Rightarrow> uuid \<Rightarrow> string \<Rightarrow> job_row \<Rightarrow> job_row" where
  "claim_set w server_id agent_id j = j\<lparr> j_status := J_Claimed,
     j_server_id := coalesce (j_server_id j) (Some server_id), j_attempt := j_attempt j + 1,
     j_claim_token := Some (fresh w 0), j_claimed_by := Some agent_id,
     j_claimed_at := Some (tx_now w), j_lease_expires_at := Some (tx_now w + minutes 5),
     j_started_at := coalesce (j_started_at j) (Some (tx_now w)), j_updated_at := tx_now w \<rparr>"

text \<open>\<open>Inl ()\<close> is a failing database; \<open>Inr (Some j)\<close> the row that was claimed, as returned.\<close>

definition claim_next_queued_job :: "world \<Rightarrow> uuid \<Rightarrow> string \<Rightarrow> int \<Rightarrow> db
    \<Rightarrow> (unit + job_row option) \<times> db" where
  "claim_next_queued_job w server_id agent_id protocol_version db =
     (if fault w 0 then (Inl (), db)
      else case next_job w server_id protocol_version db of
        None \<Rightarrow> (Inr None, db)
      | Some j \<Rightarrow> (Inr (Some (claim_set w server_id agent_id j)),
          update_jobs (\<lambda>q. j_id q = j_id j) (claim_set w server_id agent_id) db))"

section \<open>The answer\<close>

record job_envelope =
  env_id :: uuid
  env_type :: string
  env_app_id :: "uuid option"
  env_deployment_id :: "uuid option"
  env_attempt :: int
  env_claim_token :: uuid
  env_lease_expires_at :: "timestamp option"
  env_protocol_version :: int
  env_payload :: json
  env_signature :: string

definition lease_build :: "world \<Rightarrow> uuid \<Rightarrow> db \<Rightarrow> db" where
  "lease_build w deployment_id db =
     (if fault w 0 then db
      else update_builds (\<lambda>b. b_deployment_id b = deployment_id
           \<and> (b_status b = B_Queued \<or> b_status b = B_RetryWait))
        (\<lambda>b. b\<lparr> b_status := B_Leased, b_waiting_reason := None,
               b_started_at := coalesce (b_started_at b) (Some (tx_now w)), b_updated_at := tx_now w \<rparr>) db)"

text \<open>
  The statement has no condition on the status; the unique index on active deployments can make it
  fail, which is ignored.
\<close>

definition mark_building :: "world \<Rightarrow> uuid \<Rightarrow> db \<Rightarrow> db" where
  "mark_building w deployment_id db =
     (if fault w 0 \<or> (case find_deployment deployment_id db of
          None \<Rightarrow> False | Some d \<Rightarrow> another_active deployment_id (d_app_id d) db)
      then db
      else update_deployments (\<lambda>d. d_id d = deployment_id)
        (\<lambda>d. d\<lparr> d_status := D_Building, d_last_heartbeat_at := Some (tx_now w) \<rparr>) db)"

definition mark_build_assigned :: "world \<Rightarrow> uuid \<Rightarrow> db \<Rightarrow> db" where
  "mark_build_assigned w server_id db =
     (if fault w 0 then db
      else update_servers (\<lambda>s. s_id s = server_id)
        (\<lambda>s. s\<lparr> s_last_build_assigned_at := Some (tx_now w) \<rparr>) db)"

definition claim_payload :: "world \<Rightarrow> uuid \<Rightarrow> job_row \<Rightarrow> uuid \<Rightarrow> db \<Rightarrow> json" where
  "claim_payload w server_id j token db =
     (let payload = json_insert ''job_type'' (JStr (j_job_type j))
            (json_insert ''claim_token'' (JStr (uuid_text w token))
              (json_insert ''job_id'' (JStr (uuid_text w (j_id j))) (j_payload j))) in
      case j_deployment_id j of
        None \<Rightarrow> payload
      | Some deployment_id \<Rightarrow> json_insert ''expected_current_deployment_id''
          (json_opt_str (map_option (uuid_text w)
            (if fault w 0 then None
             else case find_deployment deployment_id db of
               None \<Rightarrow> None
             | Some d \<Rightarrow> if d_server_id d = server_id then d_expected_current_deployment_id d else None)))
          payload)"

definition claim_job_response :: "(nat \<Rightarrow> world) \<Rightarrow> (string + string) \<Rightarrow> (string \<Rightarrow> json \<Rightarrow> string) \<Rightarrow> uuid
    \<Rightarrow> job_row \<Rightarrow> uuid \<Rightarrow> db \<Rightarrow> job_envelope option response \<times> db" where
  "claim_job_response ws secret sign server_id j token db =
     (let db1 = (case (j_job_type j = ''build'', j_deployment_id j) of
            (True, Some deployment_id) \<Rightarrow>
              mark_build_assigned (ws 2) server_id (mark_building (ws 1) deployment_id
                (lease_build (ws 0) deployment_id db))
          | _ \<Rightarrow> db);
          payload = claim_payload (ws 3) server_id j token db1 in
      case secret of
        Inl _ \<Rightarrow> (Code INTERNAL_SERVER_ERROR, db1)
      | Inr s \<Rightarrow> (Reply (Some \<lparr> env_id = j_id j, env_type = j_job_type j, env_app_id = j_app_id j,
          env_deployment_id = j_deployment_id j, env_attempt = j_attempt j, env_claim_token = token,
          env_lease_expires_at = j_lease_expires_at j, env_protocol_version = j_protocol_version j,
          env_payload = payload, env_signature = sign s payload \<rparr>), db1))"

section \<open>The handler\<close>

definition clamp_protocol :: "int \<Rightarrow> int" where
  "clamp_protocol v = max 1 (min deployment_protocol_version v)"

definition advertise_protocol :: "world \<Rightarrow> uuid \<Rightarrow> int \<Rightarrow> db \<Rightarrow> db" where
  "advertise_protocol w server_id v db =
     (if fault w 0 then db
      else update_servers (\<lambda>s. s_id s = server_id)
        (\<lambda>s. s\<lparr> s_agent_protocol_version := v, s_last_seen_at := Some (tx_now w) \<rparr>) db)"

definition claim_agent_name :: "string option \<Rightarrow> string" where
  "claim_agent_name agent_id = (case agent_id of
     None \<Rightarrow> ''local-agent''
   | Some s \<Rightarrow> if trim s = [] then ''local-agent'' else trim s)"

definition claim_job :: "(nat \<Rightarrow> world) \<Rightarrow> (string + string) \<Rightarrow> (string \<Rightarrow> json \<Rightarrow> string) \<Rightarrow> uuid option
    \<Rightarrow> string option \<Rightarrow> int \<Rightarrow> db \<Rightarrow> job_envelope option response \<times> db" where
  "claim_job ws secret sign auth agent_id requested_version db =
     (case auth of
        None \<Rightarrow> (Code UNAUTHORIZED, db)
      | Some server_id \<Rightarrow>
        (let version = clamp_protocol requested_version;
             db1 = advertise_protocol (ws 0) server_id version db;
             db2 = snd (reconcile_teardown_fenced_jobs (ws 1) (Some server_id) db1);
             db3 = requeue_expired_jobs_for_server (ws 2) server_id db2 in
         case claim_next_queued_job (ws 3) server_id (claim_agent_name agent_id) version db3 of
           (Inl _, db4) \<Rightarrow> (Code INTERNAL_SERVER_ERROR, db4)
         | (Inr None, db4) \<Rightarrow> (Reply None, db4)
         | (Inr (Some j), db4) \<Rightarrow>
             claim_job_response (\<lambda>k. ws (4 + k)) secret sign server_id j (fresh (ws 3) 0) db4))"

section \<open>Correctness of a claim\<close>

lemma next_job_SomeD:
  assumes "next_job w s v db = Some j"
  shows "j \<in> set (agent_jobs db)" "claimable w s v db j" "\<not> row_locked w (j_id j)"
    "\<And>q. q \<in> set (agent_jobs db) \<Longrightarrow> claimable w s v db q \<Longrightarrow> \<not> row_locked w (j_id q) \<Longrightarrow>
       (j_priority j, j_created_at j) \<le> (j_priority q, j_created_at q)"
proof -
  let ?k = "\<lambda>j. (j_priority j, j_created_at j)"
  let ?P = "\<lambda>j. claimable w s v db j \<and> \<not> row_locked w (j_id j)"
  let ?xs = "sort_key ?k (filter ?P (agent_jobs db))"
  obtain rest where xs: "?xs = j # rest"
    using assms by (auto simp: next_job_def split: list.splits)
  have set: "set ?xs = {q \<in> set (agent_jobs db). ?P q}" by auto
  have "j \<in> set ?xs" using xs by simp
  then show "j \<in> set (agent_jobs db)" "claimable w s v db j" "\<not> row_locked w (j_id j)"
    unfolding set by auto
  have "sorted (map ?k ?xs)" by simp
  then have "\<forall>q \<in> set ?xs. ?k j \<le> ?k q" unfolding xs by auto
  then show "?k j \<le> ?k q" if "q \<in> set (agent_jobs db)" "claimable w s v db q" "\<not> row_locked w (j_id q)" for q
    using that unfolding set by blast
qed

lemma claim_elim:
  assumes "claim_next_queued_job w s agent v db = (Inr (Some c), db')"
  obtains j where "next_job w s v db = Some j" "c = claim_set w s agent j"
    "db' = update_jobs (\<lambda>q. j_id q = j_id j) (claim_set w s agent) db"
  using assms by (auto simp: claim_next_queued_job_def split: option.splits if_splits)

text \<open>
  C8: a claim is exclusive and takes the right job.  The claimed job was queued, due and of a
  protocol the agent speaks; it belongs to the server, or is a pool build of a platform the server
  builds and a builder with room may take; it is no job of a missing app or of an app that is being
  deleted, a deletion is handed out only when no agent holds other work of the app, and an image
  cleanup only when no deployment is active on the server.  Among the claimable jobs that no
  concurrent claim has locked it comes first by priority and age.  It gets a fresh claim token and
  a lease of five minutes; a job that some agent already holds is never touched.
\<close>

theorem claim_next_queued_job_correct:
  assumes "claim_next_queued_job w server_id agent v db = (Inr (Some c), db')" "wf_keys db"
  shows "\<exists>j. find_job (j_id c) db = Some j \<and> find_job (j_id c) db' = Some c
    \<and> j_status j = J_Queued \<and> j_available_at j \<le> tx_now w \<and> j_protocol_version j \<le> v
    \<and> (j_server_id j = Some server_id \<or> pool_build db server_id j) \<and> j_server_id c = Some server_id
    \<and> (j_job_type j \<noteq> ''docker_cleanup'' \<and> j_job_type j \<noteq> ''delete_app'' \<longrightarrow>
         (\<exists>i. j_app_id j = Some i \<and> app_exists i db \<and> \<not> deletion_fenced i db))
    \<and> (\<forall>i. j_job_type j = ''delete_app'' \<and> j_app_id j = Some i \<longrightarrow>
         (\<forall>q \<in> set (agent_jobs db). j_app_id q = Some i \<and> job_leased (j_status q) \<longrightarrow> j_job_type q = ''delete_app''))
    \<and> (j_job_type j = ''docker_cleanup'' \<longrightarrow>
         (\<forall>d \<in> set (deployments db). d_server_id d = server_id \<longrightarrow> \<not> active_status (d_status d)))
    \<and> (\<forall>q \<in> set (agent_jobs db). claimable w server_id v db q \<and> \<not> row_locked w (j_id q) \<longrightarrow>
         (j_priority j, j_created_at j) \<le> (j_priority q, j_created_at q))
    \<and> j_status c = J_Claimed \<and> j_claim_token c = Some (fresh w 0) \<and> j_attempt c = j_attempt j + 1
    \<and> j_lease_expires_at c = Some (tx_now w + 5 * 60 * 1000000)
    \<and> (\<forall>i. i \<noteq> j_id c \<longrightarrow> find_job i db' = find_job i db)"
proof -
  obtain j where j: "next_job w server_id v db = Some j" "c = claim_set w server_id agent j"
    "db' = update_jobs (\<lambda>q. j_id q = j_id j) (claim_set w server_id agent) db"
    by (rule claim_elim [OF assms(1)])
  note N = next_job_SomeD [OF j(1)]
  have id: "j_id c = j_id j" by (simp add: j(2) claim_set_def)
  have row: "find_job (j_id j) db = Some j"
    using N(1) assms(2) by (auto simp: wf_keys_def intro: find_row_unique)
  have find: "find_job i db' = map_option (\<lambda>r. if j_id r = j_id j then claim_set w server_id agent r else r) (find_job i db)" for i
    unfolding j(3) by simp (rule find_row_update, simp add: claim_set_def)
  have here: "find_job (j_id j) db' = Some c" using find row by (simp add: j(2))
  have other: "find_job i db' = find_job i db" if "i \<noteq> j_id j" for i
    unfolding find using that by (cases "find_job i db") (auto dest: find_row_SomeD)
  have C: "j_status j = J_Queued" "j_available_at j \<le> tx_now w" "j_protocol_version j \<le> v"
    "j_server_id j = Some server_id \<or> pool_build db server_id j" "claim_type_ok db j"
    "j_job_type j = ''docker_cleanup'' \<longrightarrow>
       (\<forall>d \<in> set (deployments db). d_server_id d = server_id \<longrightarrow> \<not> active_status (d_status d))"
    using N(2) by (auto simp: claimable_def exists_where_iff)
  have srv: "j_server_id c = Some server_id"
    using C(4) by (auto simp: j(2) claim_set_def pool_build_def)
  have app: "j_job_type j \<noteq> ''docker_cleanup'' \<and> j_job_type j \<noteq> ''delete_app'' \<longrightarrow>
      (\<exists>i. j_app_id j = Some i \<and> app_exists i db \<and> \<not> deletion_fenced i db)"
    using C(5) by (auto simp: claim_type_ok_def split: option.splits if_splits)
  have del: "j_job_type q = ''delete_app''"
    if "j_job_type j = ''delete_app''" "j_app_id j = Some i" "q \<in> set (agent_jobs db)"
      "j_app_id q = Some i" "job_leased (j_status q)" for i q
  proof (cases "j_id q = j_id j")
    case True
    then have "q = j" using that(3) row assms(2) find_row_unique [of j_id "agent_jobs db" q] by (simp add: wf_keys_def)
    then show ?thesis using that(1) by simp
  next
    case False
    then show ?thesis using C(5) that by (auto simp: claim_type_ok_def exists_where_iff)
  qed
  have fields: "j_status c = J_Claimed" "j_claim_token c = Some (fresh w 0)" "j_attempt c = j_attempt j + 1"
    "j_lease_expires_at c = Some (tx_now w + 5 * 60 * 1000000)"
    by (simp_all add: j(2) claim_set_def minutes_def seconds_def)
  show ?thesis unfolding id
    by (intro exI [of _ j]) (use row here other C srv app del fields N(4) in blast)
qed

end
