(* ===== verification/Artifact_Manifest.thy ===== *)
theory Artifact_Manifest
  imports Store Candidate
begin

text \<open>
  The artifact manifest a builder reports (\<open>crates/contracts/src/artifacts.rs\<close>) and the checks the
  API makes before it lets the build be released (\<open>apps/api/src/agent/build_execution.rs\<close>).
\<close>

section \<open>The manifest\<close>

record oci_artifact_descriptor =
  od_digest_ref :: string
  od_media_type :: string
  od_size_bytes :: int

datatype artifact_image_source = Built | Mirrored

record artifact_service_image =
  ai_service :: string
  ai_role :: string
  ai_source :: artifact_image_source
  ai_artifact :: oci_artifact_descriptor

record build_artifact_manifest_v2 =
  bm_schema_version :: int
  bm_build_id :: uuid
  bm_deployment_id :: uuid
  bm_app_id :: uuid
  bm_commit_sha :: string
  bm_platform :: string
  bm_build_plan_digest :: string
  bm_index :: oci_artifact_descriptor
  bm_bundle :: oci_artifact_descriptor
  bm_images :: "artifact_service_image list"

text \<open>\<open>BUILD_ARTIFACT_SCHEMA_VERSION\<close>\<close>

definition build_artifact_schema_version :: int where
  "build_artifact_schema_version = 2"

section \<open>Decoding\<close>

text \<open>
  A derived \<open>Deserialize\<close> reads a struct from an object by field name, or from an array by position
  when the array has one element per field.  \<open>struct_field names v k\<close> is the value it finds for
  the field \<open>k\<close>.
\<close>

definition struct_field :: "string list \<Rightarrow> json \<Rightarrow> string \<Rightarrow> json option" where
  "struct_field names v k =
     (case v of
        JObj kvs \<Rightarrow> map_of kvs k
      | JArr xs \<Rightarrow> if length xs = length names then map_of (zip names xs) k else None
      | _ \<Rightarrow> None)"

definition dec_field :: "string list \<Rightarrow> (json \<Rightarrow> 'a option) \<Rightarrow> json \<Rightarrow> string \<Rightarrow> 'a option" where
  "dec_field names dec v k = Option.bind (struct_field names v k) dec"

definition dec_u16 :: "json \<Rightarrow> int option" where
  "dec_u16 v = (case v of JInt n \<Rightarrow> if 0 \<le> n \<and> n \<le> 65535 then Some n else None | _ \<Rightarrow> None)"

definition dec_uuid :: "world \<Rightarrow> json \<Rightarrow> uuid option" where
  "dec_uuid w v = Option.bind (as_str v) (parse_uuid w)"

definition descriptor_fields :: "string list" where
  "descriptor_fields = [''digestRef'', ''mediaType'', ''sizeBytes'']"

definition descriptor_from_json :: "json \<Rightarrow> oci_artifact_descriptor option" where
  "descriptor_from_json v =
     (case (dec_field descriptor_fields as_str v ''digestRef'',
            dec_field descriptor_fields as_str v ''mediaType'',
            dec_field descriptor_fields as_u64 v ''sizeBytes'') of
        (Some d, Some m, Some n) \<Rightarrow>
          Some \<lparr> od_digest_ref = d, od_media_type = m, od_size_bytes = n \<rparr>
      | _ \<Rightarrow> None)"

text \<open>A unit variant is its name, or an object with the name as its only key and \<open>null\<close> under it.\<close>

definition source_of_name :: "string \<Rightarrow> artifact_image_source option" where
  "source_of_name s = (if s = ''built'' then Some Built else if s = ''mirrored'' then Some Mirrored else None)"

definition source_from_json :: "json \<Rightarrow> artifact_image_source option" where
  "source_from_json v =
     (case v of
        JStr s \<Rightarrow> source_of_name s
      | JObj [(s, JNull)] \<Rightarrow> source_of_name s
      | _ \<Rightarrow> None)"

definition image_fields :: "string list" where
  "image_fields = [''service'', ''role'', ''source'', ''artifact'']"

definition image_from_json :: "json \<Rightarrow> artifact_service_image option" where
  "image_from_json v =
     (case (dec_field image_fields as_str v ''service'', dec_field image_fields as_str v ''role'',
            dec_field image_fields source_from_json v ''source'',
            dec_field image_fields descriptor_from_json v ''artifact'') of
        (Some n, Some r, Some s, Some a) \<Rightarrow>
          Some \<lparr> ai_service = n, ai_role = r, ai_source = s, ai_artifact = a \<rparr>
      | _ \<Rightarrow> None)"

definition dec_list :: "(json \<Rightarrow> 'a option) \<Rightarrow> json \<Rightarrow> 'a list option" where
  "dec_list dec v = Option.bind (as_array v) (\<lambda>xs. those (map dec xs))"

definition manifest_fields :: "string list" where
  "manifest_fields = [''schemaVersion'', ''buildId'', ''deploymentId'', ''appId'', ''commitSha'',
     ''platform'', ''buildPlanDigest'', ''index'', ''bundle'', ''images'']"

definition manifest_from_json :: "world \<Rightarrow> json \<Rightarrow> build_artifact_manifest_v2 option" where
  "manifest_from_json w v =
     (case (dec_field manifest_fields dec_u16 v ''schemaVersion'',
            dec_field manifest_fields (dec_uuid w) v ''buildId'',
            dec_field manifest_fields (dec_uuid w) v ''deploymentId'',
            dec_field manifest_fields (dec_uuid w) v ''appId'',
            dec_field manifest_fields as_str v ''commitSha'',
            dec_field manifest_fields as_str v ''platform'',
            dec_field manifest_fields as_str v ''buildPlanDigest'',
            dec_field manifest_fields descriptor_from_json v ''index'',
            dec_field manifest_fields descriptor_from_json v ''bundle'',
            dec_field manifest_fields (dec_list image_from_json) v ''images'') of
        (Some sv, Some b, Some d, Some a, Some c, Some p, Some g, Some i, Some u, Some is) \<Rightarrow>
          Some \<lparr> bm_schema_version = sv, bm_build_id = b, bm_deployment_id = d, bm_app_id = a,
            bm_commit_sha = c, bm_platform = p, bm_build_plan_digest = g, bm_index = i,
            bm_bundle = u, bm_images = is \<rparr>
      | _ \<Rightarrow> None)"

section \<open>The checks\<close>

definition check :: "bool \<Rightarrow> string \<Rightarrow> string + unit" where
  "check b e = (if b then Inr () else Inl e)"

definition context_of :: "'a option \<Rightarrow> string \<Rightarrow> string + 'a" where
  "context_of v e = (case v of None \<Rightarrow> Inl e | Some x \<Rightarrow> Inr x)"

definition sha256_hex :: "string \<Rightarrow> bool" where
  "sha256_hex s \<longleftrightarrow> length s = 64 \<and> list_all is_ascii_hexdigit s"

definition validate_digest_ref :: "string \<Rightarrow> string \<Rightarrow> string + unit" where
  "validate_digest_ref digest_ref pfx =
     and_then (context_of (strip_prefix digest_ref pfx)
         ''artifact digest is outside the assigned registry repository'')
       (\<lambda>digest. check (sha256_hex digest) ''artifact manifest contains an invalid sha256 digest'')"

definition validate_sha256 :: "string \<Rightarrow> string \<Rightarrow> string + unit" where
  "validate_sha256 value field =
     and_then (context_of (strip_prefix value ''sha256:'') (field @ '' is not sha256-qualified''))
       (\<lambda>digest. check (sha256_hex digest) (field @ '' is invalid''))"

definition valid_image_manifest_media_type :: "string \<Rightarrow> bool" where
  "valid_image_manifest_media_type value \<longleftrightarrow>
     value = ''application/vnd.oci.image.manifest.v1+json''
     \<or> value = ''application/vnd.docker.distribution.manifest.v2+json''"

definition artifact_service_char :: "char \<Rightarrow> bool" where
  "artifact_service_char c \<longleftrightarrow> is_ascii_alphanumeric c \<or> c \<in> set ''-_.@/''"

definition valid_artifact_service_name :: "string \<Rightarrow> bool" where
  "valid_artifact_service_name value \<longleftrightarrow> value \<noteq> [] \<and> length value \<le> 128
     \<and> \<not> starts_with value ''/'' \<and> \<not> ends_with value ''/''
     \<and> \<not> str_contains value ''//'' \<and> \<not> str_contains value ''..''
     \<and> list_all artifact_service_char value"

definition registry_prefix :: "json \<Rightarrow> string + string" where
  "registry_prefix payload =
     and_then (context_of (json_get payload ''artifact_registry'')
         ''build assignment is missing artifact registry configuration'')
       (\<lambda>registry. and_then (context_of (get_str registry ''host'') ''registry host'')
         (\<lambda>host. and_then (context_of (get_str registry ''repository'') ''registry repository'')
           (\<lambda>repository. Inr (host @ ''/'' @ repository @ ''@sha256:''))))"

fun validate_images :: "string \<Rightarrow> string list \<Rightarrow> artifact_service_image list \<Rightarrow> string + unit" where
  "validate_images pfx seen [] = Inr ()"
| "validate_images pfx seen (img # images) =
     (if \<not> valid_artifact_service_name (ai_service img)
      then Inl ''artifact manifest contains an invalid service name''
      else if ai_service img \<in> set seen then Inl ''artifact services must be unique''
      else if ai_role img \<notin> {''web'', ''backing'', ''frontend'', ''backend''}
      then Inl ''artifact manifest contains an invalid service role''
      else and_then (validate_digest_ref (od_digest_ref (ai_artifact img)) pfx)
        (\<lambda>_. if \<not> valid_image_manifest_media_type (od_media_type (ai_artifact img))
             then Inl ''artifact image has an unexpected media type''
             else validate_images pfx (ai_service img # seen) images))"

fun validate_legacy_images :: "string \<Rightarrow> json list \<Rightarrow> string + unit" where
  "validate_legacy_images pfx [] = Inr ()"
| "validate_legacy_images pfx (img # images) =
     and_then (context_of (get_str img ''digestRef'') ''legacy artifact image is missing digestRef'')
       (\<lambda>d. and_then (validate_digest_ref d pfx) (\<lambda>_. validate_legacy_images pfx images))"

definition validate_legacy_build_manifest :: "json \<Rightarrow> json \<Rightarrow> string + unit" where
  "validate_legacy_build_manifest payload manifest =
     and_then (check (get_str manifest ''transport'' = Some ''oci'')
         ''legacy build result must use OCI transport'')
       (\<lambda>_. and_then (check (list_all (\<lambda>(m, p). json_get manifest m = json_get payload p)
              [(''buildId'', ''build_id''), (''commitSha'', ''commit_sha''),
               (''platform'', ''required_platform'')])
             ''legacy artifact manifest does not match the build assignment'')
         (\<lambda>_. and_then (registry_prefix payload)
           (\<lambda>pfx. case Option.bind (json_get manifest ''images'') as_array of
              None \<Rightarrow> Inl ''legacy artifact manifest must contain an image''
            | Some images \<Rightarrow> if images = [] then Inl ''legacy artifact manifest must contain an image''
                else validate_legacy_images pfx images)))"

definition assignment_uuid :: "world \<Rightarrow> json \<Rightarrow> string \<Rightarrow> string + uuid" where
  "assignment_uuid w payload field =
     context_of (Option.bind (get_str payload field) (parse_uuid w))
       (''build assignment is missing '' @ field)"

definition validate_manifest_v2 :: "world \<Rightarrow> json \<Rightarrow> build_artifact_manifest_v2 \<Rightarrow> string + unit" where
  "validate_manifest_v2 w payload m =
     (if bm_schema_version m \<noteq> build_artifact_schema_version
      then Inl ''build result uses an unsupported artifact manifest schema''
      else and_then (assignment_uuid w payload ''build_id'') (\<lambda>expected_build.
        and_then (assignment_uuid w payload ''deployment_id'') (\<lambda>expected_deployment.
        and_then (assignment_uuid w payload ''app_id'') (\<lambda>expected_app.
        if \<not> (bm_build_id m = expected_build \<and> bm_deployment_id m = expected_deployment
              \<and> bm_app_id m = expected_app \<and> get_str payload ''commit_sha'' = Some (bm_commit_sha m)
              \<and> get_str payload ''required_platform'' = Some (bm_platform m))
        then Inl ''artifact manifest does not match the build assignment''
        else and_then (validate_sha256 (bm_build_plan_digest m) ''build plan digest'') (\<lambda>_.
          and_then (registry_prefix payload) (\<lambda>pfx.
          and_then (validate_digest_ref (od_digest_ref (bm_index m)) pfx) (\<lambda>_.
          and_then (validate_digest_ref (od_digest_ref (bm_bundle m)) pfx) (\<lambda>_.
          if od_media_type (bm_index m) \<noteq> ''application/vnd.oci.image.index.v1+json''
          then Inl ''artifact index has an unexpected media type''
          else if \<not> valid_image_manifest_media_type (od_media_type (bm_bundle m))
          then Inl ''release bundle has an unexpected media type''
          else if bm_images m = [] then Inl ''artifact manifest must contain images''
          else if 64 < length (bm_images m) then Inl ''artifact manifest contains too many images''
          else and_then (validate_images pfx [] (bm_images m)) (\<lambda>_.
            check (list_ex (\<lambda>i. ai_role i = ''web'' \<or> ai_role i = ''frontend'') (bm_images m))
              ''artifact manifest must identify a routed service'')))))))))"

definition validate_build_manifest :: "world \<Rightarrow> json \<Rightarrow> json \<Rightarrow> string + unit" where
  "validate_build_manifest w payload manifest =
     (if Option.bind (json_get manifest ''schemaVersion'') as_u64 = Some 1
      then validate_legacy_build_manifest payload manifest
      else and_then (context_of (manifest_from_json w manifest)
          ''build result has an invalid artifact manifest'') (validate_manifest_v2 w payload))"

section \<open>What an accepted manifest guarantees\<close>

lemma check_Inr [simp]: "check b e = Inr u \<longleftrightarrow> b"
  by (simp add: check_def)

lemma context_of_Inr [simp]: "context_of v e = Inr x \<longleftrightarrow> v = Some x"
  by (simp add: context_of_def split: option.splits)

text \<open>A reference lies in the assigned repository and ends in the digest of its content.\<close>

definition pinned :: "string \<Rightarrow> string \<Rightarrow> bool" where
  "pinned pfx r \<longleftrightarrow> (\<exists>h. r = pfx @ h \<and> length h = 64 \<and> (\<forall>c \<in> set h. is_ascii_hexdigit c))"

lemma validate_digest_ref_iff: "validate_digest_ref r pfx = Inr () \<longleftrightarrow> pinned pfx r"
  by (auto simp: validate_digest_ref_def and_then_Inr_iff strip_prefix_iff sha256_hex_def pinned_def
    list_all_iff)

lemma validate_sha256_iff: "validate_sha256 v f = Inr () \<longleftrightarrow> pinned ''sha256:'' v"
  by (auto simp: validate_sha256_def and_then_Inr_iff strip_prefix_iff sha256_hex_def pinned_def
    list_all_iff)

lemma validate_images_iff:
  "validate_images pfx seen images = Inr () \<longleftrightarrow>
     distinct (map ai_service images) \<and> set (map ai_service images) \<inter> set seen = {}
     \<and> (\<forall>i \<in> set images. valid_artifact_service_name (ai_service i)
          \<and> ai_role i \<in> {''web'', ''backing'', ''frontend'', ''backend''}
          \<and> pinned pfx (od_digest_ref (ai_artifact i))
          \<and> valid_image_manifest_media_type (od_media_type (ai_artifact i)))"
proof (induction images arbitrary: seen)
  case (Cons i images)
  show ?case
    by (simp add: and_then_Inr_iff validate_digest_ref_iff Cons.IH del: insert_iff) auto
qed simp

lemma validate_legacy_images_iff:
  "validate_legacy_images pfx images = Inr () \<longleftrightarrow>
     (\<forall>i \<in> set images. \<exists>d. get_str i ''digestRef'' = Some d \<and> pinned pfx d)"
  by (induction images) (auto simp: and_then_Inr_iff validate_digest_ref_iff)

lemma registry_prefix_iff:
  "registry_prefix payload = Inr pfx \<longleftrightarrow> (\<exists>g host repository.
     json_get payload ''artifact_registry'' = Some g \<and> get_str g ''host'' = Some host
     \<and> get_str g ''repository'' = Some repository \<and> pfx = host @ ''/'' @ repository @ ''@sha256:'')"
  by (auto simp: registry_prefix_def and_then_Inr_iff)

lemma validate_manifest_v2_iff:
  "validate_manifest_v2 w payload m = Inr () \<longleftrightarrow> (\<exists>pfx.
     bm_schema_version m = 2 \<and> registry_prefix payload = Inr pfx
     \<and> assignment_uuid w payload ''build_id'' = Inr (bm_build_id m)
     \<and> assignment_uuid w payload ''deployment_id'' = Inr (bm_deployment_id m)
     \<and> assignment_uuid w payload ''app_id'' = Inr (bm_app_id m)
     \<and> get_str payload ''commit_sha'' = Some (bm_commit_sha m)
     \<and> get_str payload ''required_platform'' = Some (bm_platform m)
     \<and> pinned ''sha256:'' (bm_build_plan_digest m)
     \<and> pinned pfx (od_digest_ref (bm_index m)) \<and> pinned pfx (od_digest_ref (bm_bundle m))
     \<and> od_media_type (bm_index m) = ''application/vnd.oci.image.index.v1+json''
     \<and> valid_image_manifest_media_type (od_media_type (bm_bundle m))
     \<and> bm_images m \<noteq> [] \<and> length (bm_images m) \<le> 64
     \<and> validate_images pfx [] (bm_images m) = Inr ()
     \<and> (\<exists>i \<in> set (bm_images m). ai_role i = ''web'' \<or> ai_role i = ''frontend''))"
  unfolding validate_manifest_v2_def build_artifact_schema_version_def
  by (simp add: and_then_Inr_iff validate_sha256_iff validate_digest_ref_iff list_ex_iff not_less) blast

text \<open>
  C25: what a builder may hand to a runner.  The current format is accepted exactly when it is for the
  very build, deployment and app that were assigned, with the assigned commit and platform, and
  every reference in it -- index, bundle and each of at most 64 images -- is pinned by a sha256 digest
  inside the repository that the assignment names; services are distinct and one of them is routed.
\<close>

theorem validate_build_manifest_accepts:
  assumes "Option.bind (json_get manifest ''schemaVersion'') as_u64 \<noteq> Some 1"
  shows "validate_build_manifest w payload manifest = Inr () \<longleftrightarrow> (\<exists>m g host repository.
     manifest_from_json w manifest = Some m \<and> bm_schema_version m = 2
     \<and> Option.bind (get_str payload ''build_id'') (parse_uuid w) = Some (bm_build_id m)
     \<and> Option.bind (get_str payload ''deployment_id'') (parse_uuid w) = Some (bm_deployment_id m)
     \<and> Option.bind (get_str payload ''app_id'') (parse_uuid w) = Some (bm_app_id m)
     \<and> get_str payload ''commit_sha'' = Some (bm_commit_sha m)
     \<and> get_str payload ''required_platform'' = Some (bm_platform m)
     \<and> json_get payload ''artifact_registry'' = Some g
     \<and> get_str g ''host'' = Some host \<and> get_str g ''repository'' = Some repository
     \<and> pinned ''sha256:'' (bm_build_plan_digest m)
     \<and> (\<forall>r \<in> {bm_index m, bm_bundle m} \<union> ai_artifact ` set (bm_images m).
          pinned (host @ ''/'' @ repository @ ''@sha256:'') (od_digest_ref r))
     \<and> od_media_type (bm_index m) = ''application/vnd.oci.image.index.v1+json''
     \<and> (\<forall>r \<in> {bm_bundle m} \<union> ai_artifact ` set (bm_images m).
          valid_image_manifest_media_type (od_media_type r))
     \<and> 1 \<le> length (bm_images m) \<and> length (bm_images m) \<le> 64
     \<and> distinct (map ai_service (bm_images m))
     \<and> (\<forall>i \<in> set (bm_images m). valid_artifact_service_name (ai_service i)
          \<and> ai_role i \<in> {''web'', ''backing'', ''frontend'', ''backend''})
     \<and> (\<exists>i \<in> set (bm_images m). ai_role i = ''web'' \<or> ai_role i = ''frontend''))"
proof -
  have ne: "1 \<le> length xs \<longleftrightarrow> xs \<noteq> []" for xs :: "'x list" by (cases xs) auto
  have "validate_build_manifest w payload manifest = Inr () \<longleftrightarrow> (\<exists>m.
      manifest_from_json w manifest = Some m \<and> validate_manifest_v2 w payload m = Inr ())"
    using assms by (simp add: validate_build_manifest_def and_then_Inr_iff)
  then show ?thesis
    unfolding validate_manifest_v2_iff registry_prefix_iff assignment_uuid_def context_of_Inr
      validate_images_iff ne ball_Un ball_simps image_iff
    by (simp only: list.set Int_empty_right simp_thms) blast
qed

end
