(* ===== verification/Completion.thy ===== *)
theory Completion
  imports Claim Artifact_Manifest Browser_Health
begin

text \<open>
  How a job ends: \<open>complete_job\<close> of \<open>apps/api/src/agent/routes.rs\<close>, and what a finished build turns
  into (\<open>complete_successful_build\<close> and \<open>fail_build\<close> of \<open>agent/build_execution.rs\<close>).  The number
  given to \<open>fault\<close> counts the database calls; a return before \<open>commit\<close> leaves the database as it was.
\<close>

section \<open>A successful build becomes a release job\<close>

definition required_registry_env :: "world \<Rightarrow> string \<Rightarrow> string option" where
  "required_registry_env w key =
     Option.bind (env_var w key) (\<lambda>v. if trim v = [] then None else Some v)"

definition release_registry :: "string \<Rightarrow> string \<Rightarrow> json \<Rightarrow> json" where
  "release_registry user password registry =
     json_insert ''pullPassword'' (JStr password) (json_insert ''pullUsername'' (JStr user)
       (json_remove ''pushPassword'' (json_remove ''pushUsername'' registry)))"

text \<open>The payload of the release job; \<open>None\<close> is one of the errors.\<close>

definition release_payload :: "world \<Rightarrow> json \<Rightarrow> json \<Rightarrow> json option" where
  "release_payload w original manifest =
     (if \<not> is_object original then None
      else let base = json_remove ''github_token'' (json_insert ''artifact_manifest'' manifest
             (json_insert ''type'' (JStr ''release'') original)) in
        case json_get base ''artifact_registry'' of
          None \<Rightarrow> None
        | Some registry \<Rightarrow>
          if \<not> is_object registry then None
          else case (required_registry_env w ''HOSTLET_ARTIFACT_REGISTRY_PULL_USERNAME'',
              required_registry_env w ''HOSTLET_ARTIFACT_REGISTRY_PULL_PASSWORD'') of
            (Some user, Some password) \<Rightarrow>
              Some (json_insert ''artifact_registry'' (release_registry user password registry) base)
          | _ \<Rightarrow> None)"

definition finish_build_guard :: "uuid \<Rightarrow> build_row \<Rightarrow> bool" where
  "finish_build_guard deployment_id b \<longleftrightarrow> b_deployment_id b = deployment_id
     \<and> (b_status b = B_Leased \<or> b_status b = B_Building \<or> b_status b = B_Publishing)"

definition finish_build :: "world \<Rightarrow> uuid \<Rightarrow> json \<Rightarrow> db \<Rightarrow> db" where
  "finish_build w deployment_id manifest = update_builds (finish_build_guard deployment_id)
     (\<lambda>b. b\<lparr> b_status := B_Succeeded, b_artifact_manifest := manifest,
            b_build_plan_digest := get_str manifest ''buildPlanDigest'',
            b_finished_at := Some (tx_now w), b_updated_at := tx_now w \<rparr>)"

definition release_guard :: "uuid \<Rightarrow> deployment_row \<Rightarrow> bool" where
  "release_guard deployment_id d \<longleftrightarrow> d_id d = deployment_id
     \<and> (d_status d = D_Building \<or> d_status d = D_Publishing)"

definition queue_for_release :: "world \<Rightarrow> uuid \<Rightarrow> json \<Rightarrow> db \<Rightarrow> db" where
  "queue_for_release w deployment_id manifest = update_deployments (release_guard deployment_id)
     (\<lambda>d. d\<lparr> d_status := D_QueuedForRelease, d_artifact_manifest := manifest,
            d_last_heartbeat_at := Some (tx_now w) \<rparr>)"

definition release_capacity :: "capacity_decision \<Rightarrow> json \<Rightarrow> json" where
  "release_capacity decision payload =
     (case decision of
        Admitted \<Rightarrow> json_insert ''capacity_reserved'' (JBool True) payload
      | Waiting reason \<Rightarrow> json_insert ''capacity_wait_reason'' (JStr reason)
          (json_insert ''capacity_wait'' (JBool True) payload))"

definition new_release_job :: "world \<Rightarrow> uuid \<Rightarrow> uuid \<Rightarrow> uuid \<Rightarrow> json \<Rightarrow> capacity_decision \<Rightarrow> job_row" where
  "new_release_job w server_id app_id deployment_id payload decision =
     (default_job (tx_now w) (fresh w 0))\<lparr> j_server_id := Some server_id, j_app_id := Some app_id,
        j_deployment_id := Some deployment_id, j_job_type := ''release'', j_status := J_Queued,
        j_payload := release_capacity decision payload, j_priority := 10,
        j_protocol_version := deployment_protocol_version,
        j_available_at := (if decision = Admitted then tx_now w else tx_now w + years 100) \<rparr>"

definition complete_successful_build :: "world \<Rightarrow> uuid \<Rightarrow> uuid \<Rightarrow> json \<Rightarrow> json \<Rightarrow> db \<Rightarrow> db option" where
  "complete_successful_build w deployment_id app_id original_payload manifest db =
     (if validate_build_manifest w original_payload manifest \<noteq> Inr () then None
      else if fault w 20 \<or> \<not> lock_app app_id db
        \<or> fault w 21 \<or> \<not> lock_deployment deployment_id app_id db \<or> fault w 22 then None
      else case find (\<lambda>d. d_id d = deployment_id \<and> d_app_id d = app_id) (deployments db) of
        None \<Rightarrow> None
      | Some d \<Rightarrow>
        if fault w 23 \<or> \<not> lock_server (d_server_id d) db \<or> fault w 24 then None
        else case find_app app_id db of
          None \<Rightarrow> None
        | Some a \<Rightarrow>
          if a_suspended_at a \<noteq> None then None
          else case release_payload w original_payload manifest of
            None \<Rightarrow> None
          | Some payload \<Rightarrow>
            if fault w 25 \<or> count_where (finish_build_guard deployment_id) (deployment_builds db) \<noteq> 1
            then None
            else (let db1 = finish_build w deployment_id manifest db in
              case capacity_decision_in_transaction w 26 (d_server_id d) app_id None db1 of
                Inl _ \<Rightarrow> None
              | Inr decision \<Rightarrow>
                if fault w 29 \<or> count_where (release_guard deployment_id) (deployments db1) \<noteq> 1
                  \<or> fault w 30
                then None
                else Some (agent_jobs_update (\<lambda>js. js @ [new_release_job w (d_server_id d) app_id
                  deployment_id payload decision]) (queue_for_release w deployment_id manifest db1))))"

definition fail_build :: "world \<Rightarrow> uuid \<Rightarrow> string \<Rightarrow> string option \<Rightarrow> db \<Rightarrow> db" where
  "fail_build w deployment_id status failure =
     update_builds (\<lambda>b. b_deployment_id b = deployment_id
         \<and> \<not> (b_status b = B_Succeeded \<or> b_status b = B_Failed \<or> b_status b = B_Canceled))
       (\<lambda>b. b\<lparr> b_status := (if status = ''cancelled'' then B_Canceled else B_Failed),
              b_failure_summary := failure, b_finished_at := Some (tx_now w),
              b_updated_at := tx_now w \<rparr>)"

section \<open>Completion\<close>

record complete_job_request =
  cj_status :: string
  cj_failure :: "string option"
  cj_result :: "json option"
  cj_claim_token :: "uuid option"

definition terminal_request :: "string \<Rightarrow> job_status option" where
  "terminal_request s = (if s = ''success'' then Some J_Success else if s = ''failed'' then Some J_Failed
     else if s = ''cancelled'' then Some J_Cancelled else None)"

definition complete_guard :: "world \<Rightarrow> uuid \<Rightarrow> uuid \<Rightarrow> uuid \<Rightarrow> job_status \<Rightarrow> job_row \<Rightarrow> bool" where
  "complete_guard w job_id server_id token status j \<longleftrightarrow>
     j_id j = job_id \<and> j_server_id j = Some server_id \<and> job_leased (j_status j)
     \<and> j_claim_token j = Some token \<and> ts_gt (j_lease_expires_at j) (clock w 7)
     \<and> ((status = J_Success \<or> status = J_Failed) \<and> j_cancel_requested_at j = None
        \<or> status = J_Cancelled \<and> j_cancel_requested_at j \<noteq> None)"

definition complete_set :: "world \<Rightarrow> job_status \<Rightarrow> string option \<Rightarrow> json \<Rightarrow> job_row \<Rightarrow> job_row" where
  "complete_set w status failure result j = j\<lparr> j_status := status, j_failure_summary := failure,
     j_last_error := failure, j_result := Some result, j_payload := scrub (j_payload j),
     j_lease_expires_at := None, j_updated_at := tx_now w, j_finished_at := Some (tx_now w) \<rparr>"

definition end_deployment :: "world \<Rightarrow> uuid \<Rightarrow> string \<Rightarrow> job_status \<Rightarrow> string option \<Rightarrow> uuid \<Rightarrow> db \<Rightarrow> db" where
  "end_deployment w server_id job_type status failure deployment_id db =
     update_apps (\<lambda>a. a_pending_deployment_id a = Some deployment_id)
       (\<lambda>a. a\<lparr> a_pending_deployment_id := None \<rparr>)
       (update_deployments (\<lambda>d. d_id d = deployment_id \<and> (job_type = ''build'' \<or> d_server_id d = server_id)
           \<and> active_status (d_status d))
         (\<lambda>d. d\<lparr> d_status := (if status = J_Cancelled then D_Canceled else D_Failed),
                d_failure_summary := failure,
                d_failure_code := (if status = J_Cancelled then Some ''cancelled_by_owner'' else d_failure_code d),
                d_finished_at := Some (tx_now w) \<rparr>) db)"

text \<open>What follows the update of the job inside the same transaction; \<open>None\<close> is a 500.\<close>

definition complete_followup :: "world \<Rightarrow> uuid \<Rightarrow> job_row \<Rightarrow> complete_job_request \<Rightarrow> job_status \<Rightarrow> json
    \<Rightarrow> db \<Rightarrow> db option" where
  "complete_followup w server_id j request status result db =
     (if j_job_type j = ''browser_smoke'' \<and> j_app_id j \<noteq> None \<and> j_deployment_id j \<noteq> None
         \<and> fault w 9 then None
      else let db1 = record_job_result w (j_job_type j) (j_app_id j) (j_deployment_id j)
                 (cj_status request) (cj_failure request) db in
        case (if j_job_type j = ''build'' \<and> status = J_Success
              then (case (j_deployment_id j, j_app_id j) of
                  (Some deployment_id, Some app_id) \<Rightarrow>
                    complete_successful_build w deployment_id app_id (j_payload j) result db1
                | _ \<Rightarrow> None)
              else Some db1) of
          None \<Rightarrow> None
        | Some db2 \<Rightarrow>
          (case j_deployment_id j of
             None \<Rightarrow> Some db2
           | Some deployment_id \<Rightarrow>
             if status = J_Success then Some db2
             else if j_job_type j = ''build'' \<and> fault w 10 \<or> fault w 11 \<or> fault w 12 then None
             else Some (end_deployment w server_id (j_job_type j) status (cj_failure request) deployment_id
               (if j_job_type j = ''build''
                then fail_build w deployment_id (cj_status request) (cj_failure request) db2 else db2))))"

definition complete_locks :: "world \<Rightarrow> uuid \<Rightarrow> job_row \<Rightarrow> db \<Rightarrow> bool" where
  "complete_locks w job_id j db \<longleftrightarrow>
     (case j_app_id j of
        None \<Rightarrow> True
      | Some app_id \<Rightarrow> \<not> fault w 2 \<and> lock_app app_id db
          \<and> (case j_deployment_id j of
               None \<Rightarrow> True
             | Some deployment_id \<Rightarrow> \<not> fault w 3 \<and> lock_deployment deployment_id app_id db))
     \<and> \<not> fault w 4 \<and> lock_job job_id (j_app_id j) (j_deployment_id j) db"

definition completion_suspended :: "world \<Rightarrow> job_row \<Rightarrow> db \<Rightarrow> bool" where
  "completion_suspended w j db \<longleftrightarrow>
     (case j_app_id j of
        None \<Rightarrow> False
      | Some app_id \<Rightarrow>
          fault w 5 \<or> (case find_app app_id db of None \<Rightarrow> False | Some a \<Rightarrow> a_suspended_at a \<noteq> None))"

text \<open>\<open>Inl\<close> is a response given before the commit, \<open>Inr j\<close> the committed completion of the job \<open>j\<close> (204).\<close>

definition complete_transaction :: "world \<Rightarrow> uuid \<Rightarrow> uuid \<Rightarrow> complete_job_request \<Rightarrow> job_status \<Rightarrow> uuid
    \<Rightarrow> db \<Rightarrow> (unit response + job_row) \<times> db" where
  "complete_transaction w server_id job_id request status token db =
     (if fault w 0 \<or> fault w 1 then (Inl (Code INTERNAL_SERVER_ERROR), db)
      else case find (\<lambda>j. j_id j = job_id \<and> j_server_id j = Some server_id) (agent_jobs db) of
        None \<Rightarrow> (Inl (Code NOT_FOUND), db)
      | Some j \<Rightarrow>
        if \<not> complete_locks w job_id j db then (Inl (Code CONFLICT), db)
        else if j_claim_token j \<noteq> Some token then (Inl (Text CONFLICT ''claim token is stale''), db)
        else if j_status j = J_Success \<or> j_status j = J_Failed \<or> j_status j = J_Cancelled
        then (if j_status j = status then (Inl (Code NO_CONTENT), db)
              else (Inl (Text CONFLICT ''terminal job status does not match''), db))
        else if \<not> job_leased (j_status j) then (Inl (Text CONFLICT ''job is no longer active''), db)
        else if fault w 6 \<or> \<not> ts_gt (j_lease_expires_at j) (clock w 6)
        then (Inl (Text CONFLICT ''job lease has expired''), db)
        else if j_cancel_requested_at j \<noteq> None \<and> status \<noteq> J_Cancelled
        then (Inl (Text CONFLICT ''job cancellation was requested''), db)
        else if status = J_Success \<and> j_job_type j \<in> {''deploy'', ''rollback'', ''build'', ''release''}
          \<and> completion_suspended w j db
        then (Inl (Text CONFLICT ''app is paused; successful execution is not permitted''), db)
        else let result = (case cj_result request of None \<Rightarrow> JObj [] | Some r \<Rightarrow> r) in
          case (if j_job_type j = ''build'' \<and> status = J_Success
                then validate_build_manifest w (j_payload j) result else Inr ()) of
            Inl e \<Rightarrow> (Inl (Text BAD_REQUEST e), db)
          | Inr _ \<Rightarrow>
            if fault w 7 then (Inl (Code INTERNAL_SERVER_ERROR), db)
            else if count_where (complete_guard w job_id server_id token status) (agent_jobs db) \<noteq> 1
            then (Inl (Text CONFLICT ''job authority changed''), db)
            else case complete_followup w server_id j request status result
                (update_jobs (complete_guard w job_id server_id token status)
                  (complete_set w status (cj_failure request) result) db) of
              None \<Rightarrow> (Inl (Code INTERNAL_SERVER_ERROR), db)
            | Some db1 \<Rightarrow> if fault w 8 then (Inl (Code INTERNAL_SERVER_ERROR), db) else (Inr j, db1))"

text \<open>
  After the commit the completion of a teardown job finalizes the deletion at once; an error there
  is only logged.  \<open>ws\<close> are the worlds of the finalization.
\<close>

definition complete_job :: "world \<Rightarrow> (nat \<Rightarrow> world) \<Rightarrow> dns_env \<Rightarrow> uuid option \<Rightarrow> uuid
    \<Rightarrow> complete_job_request \<Rightarrow> db \<Rightarrow> unit response \<times> db" where
  "complete_job w ws dns auth job_id request db =
     (case auth of
        None \<Rightarrow> (Code UNAUTHORIZED, db)
      | Some server_id \<Rightarrow>
        (case terminal_request (cj_status request) of
           None \<Rightarrow> (Text BAD_REQUEST ''invalid job status'', db)
         | Some status \<Rightarrow>
           (case cj_claim_token request of
              None \<Rightarrow> (Text BAD_REQUEST ''claim token is required'', db)
            | Some token \<Rightarrow>
              (case complete_transaction w server_id job_id request status token db of
                 (Inl r, db1) \<Rightarrow> (r, db1)
               | (Inr j, db1) \<Rightarrow> (Code NO_CONTENT,
                   if status = J_Success \<and> j_job_type j = ''delete_app''
                   then snd (finalize_delete_app_from_job ws dns job_id db1) else db1)))))"

section \<open>Reading a committed completion backwards\<close>

definition completion_result :: "complete_job_request \<Rightarrow> json" where
  "completion_result request = (case cj_result request of None \<Rightarrow> JObj [] | Some r \<Rightarrow> r)"

lemma complete_refused: "complete_transaction w s i request st token db = (Inl r, db') \<Longrightarrow> db' = db"
  unfolding complete_transaction_def Let_def
  by (auto split: option.splits if_split_asm sum.splits)

lemma complete_elim:
  assumes "complete_transaction w s i request st token db = (Inr j, db')"
  shows "j \<in> set (agent_jobs db)" "j_id j = i" "j_server_id j = Some s" "j_claim_token j = Some token"
    "job_leased (j_status j)" "ts_gt (j_lease_expires_at j) (clock w 6)"
    "j_cancel_requested_at j \<noteq> None \<Longrightarrow> st = J_Cancelled"
    "st = J_Success \<Longrightarrow> j_job_type j \<in> {''deploy'', ''rollback'', ''build'', ''release''} \<Longrightarrow>
       \<not> completion_suspended w j db"
    "j_job_type j = ''build'' \<Longrightarrow> st = J_Success \<Longrightarrow>
       validate_build_manifest w (j_payload j) (completion_result request) = Inr ()"
    "count_where (complete_guard w i s token st) (agent_jobs db) = 1"
    "complete_locks w i j db"
    "complete_followup w s j request st (completion_result request)
       (update_jobs (complete_guard w i s token st)
         (complete_set w st (cj_failure request) (completion_result request)) db) = Some db'"
proof -
  let ?find = "find (\<lambda>j. j_id j = i \<and> j_server_id j = Some s) (agent_jobs db)"
  have *: "?find = Some j \<and> j_claim_token j = Some token \<and> job_leased (j_status j)
      \<and> ts_gt (j_lease_expires_at j) (clock w 6) \<and> (j_cancel_requested_at j \<noteq> None \<longrightarrow> st = J_Cancelled)
      \<and> (st = J_Success \<and> j_job_type j \<in> {''deploy'', ''rollback'', ''build'', ''release''} \<longrightarrow>
           \<not> completion_suspended w j db)
      \<and> (j_job_type j = ''build'' \<and> st = J_Success \<longrightarrow>
           validate_build_manifest w (j_payload j) (completion_result request) = Inr ())
      \<and> count_where (complete_guard w i s token st) (agent_jobs db) = 1 \<and> complete_locks w i j db
      \<and> complete_followup w s j request st (completion_result request)
          (update_jobs (complete_guard w i s token st)
            (complete_set w st (cj_failure request) (completion_result request)) db) = Some db'"
    using assms unfolding complete_transaction_def Let_def completion_result_def [symmetric]
    by (clarsimp split: option.splits if_split_asm sum.splits) auto
  then show "j_claim_token j = Some token" "job_leased (j_status j)" "ts_gt (j_lease_expires_at j) (clock w 6)"
    "j_cancel_requested_at j \<noteq> None \<Longrightarrow> st = J_Cancelled"
    "st = J_Success \<Longrightarrow> j_job_type j \<in> {''deploy'', ''rollback'', ''build'', ''release''} \<Longrightarrow>
       \<not> completion_suspended w j db"
    "j_job_type j = ''build'' \<Longrightarrow> st = J_Success \<Longrightarrow>
       validate_build_manifest w (j_payload j) (completion_result request) = Inr ()"
    "count_where (complete_guard w i s token st) (agent_jobs db) = 1" "complete_locks w i j db"
    "complete_followup w s j request st (completion_result request)
       (update_jobs (complete_guard w i s token st)
         (complete_set w st (cj_failure request) (completion_result request)) db) = Some db'"
    by blast+
  from * have "?find = Some j" by blast
  from find_SomeD [OF this] show "j \<in> set (agent_jobs db)" "j_id j = i" "j_server_id j = Some s" by auto
qed

lemma completion_frames [simp]:
  "agent_jobs (finish_build w k m db) = agent_jobs db"
  "deployments (finish_build w k m db) = deployments db"
  "apps (finish_build w k m db) = apps db"
  "servers (finish_build w k m db) = servers db"
  "agent_jobs (queue_for_release w k m db) = agent_jobs db"
  "apps (queue_for_release w k m db) = apps db"
  "servers (queue_for_release w k m db) = servers db"
  "deployment_builds (queue_for_release w k m db) = deployment_builds db"
  "agent_jobs (fail_build w k t f db) = agent_jobs db"
  "deployments (fail_build w k t f db) = deployments db"
  "apps (fail_build w k t f db) = apps db"
  "servers (fail_build w k t f db) = servers db"
  "agent_jobs (end_deployment w s ty st f k db) = agent_jobs db"
  "deployment_builds (end_deployment w s ty st f k db) = deployment_builds db"
  "servers (end_deployment w s ty st f k db) = servers db"
  by (simp_all add: finish_build_def queue_for_release_def fail_build_def end_deployment_def)

lemma complete_successful_build_elim:
  assumes "complete_successful_build w k i payload manifest db = Some db'"
  obtains d a p decision where
    "d \<in> set (deployments db)" "d_id d = k" "d_app_id d = i" "find_app i db = Some a" "a_suspended_at a = None"
    "release_payload w payload manifest = Some p"
    "count_where (finish_build_guard k) (deployment_builds db) = 1"
    "capacity_decision_in_transaction w 26 (d_server_id d) i None (finish_build w k manifest db) = Inr decision"
    "count_where (release_guard k) (deployments db) = 1"
    "db' = agent_jobs_update (\<lambda>js. js @ [new_release_job w (d_server_id d) i k p decision])
       (queue_for_release w k manifest (finish_build w k manifest db))"
proof -
  obtain d a p decision where *: "find (\<lambda>d. d_id d = k \<and> d_app_id d = i) (deployments db) = Some d"
      "find_app i db = Some a" "a_suspended_at a = None"
      "release_payload w payload manifest = Some p"
      "count_where (finish_build_guard k) (deployment_builds db) = 1"
      "capacity_decision_in_transaction w 26 (d_server_id d) i None (finish_build w k manifest db) = Inr decision"
      "count_where (release_guard k) (deployments db) = 1"
      "db' = agent_jobs_update (\<lambda>js. js @ [new_release_job w (d_server_id d) i k p decision])
         (queue_for_release w k manifest (finish_build w k manifest db))"
    using assms unfolding complete_successful_build_def Let_def
    by (clarsimp split: option.splits if_split_asm sum.splits)
  from find_SomeD [OF *(1)] show ?thesis by (intro that [OF _ _ _ *(2-8)]) auto
qed

lemma complete_set_simps [simp]:
  "j_id (complete_set w st f r j) = j_id j" "j_status (complete_set w st f r j) = st"
  "j_payload (complete_set w st f r j) = scrub (j_payload j)"
  "j_claim_token (complete_set w st f r j) = j_claim_token j"
  "j_server_id (complete_set w st f r j) = j_server_id j"
  "j_app_id (complete_set w st f r j) = j_app_id j"
  "j_deployment_id (complete_set w st f r j) = j_deployment_id j"
  "j_job_type (complete_set w st f r j) = j_job_type j"
  "j_lease_expires_at (complete_set w st f r j) = None"
  by (simp_all add: complete_set_def)

text \<open>The follow-up adds at most one job, the release of a build, and changes none.\<close>

lemma complete_followup_jobs:
  assumes "complete_followup w s j request st result db = Some db'"
  shows "\<exists>new. agent_jobs db' = agent_jobs db @ new
    \<and> (new = [] \<or> j_job_type j = ''build'' \<and> st = J_Success \<and> map j_id new = [fresh w 0])"
proof -
  define db1 where "db1 = record_job_result w (j_job_type j) (j_app_id j) (j_deployment_id j)
    (cj_status request) (cj_failure request) db"
  have jobs: "agent_jobs db1 = agent_jobs db" by (simp add: db1_def)
  show ?thesis
  proof (cases "j_job_type j = ''build'' \<and> st = J_Success")
    case True
    then obtain k i where "complete_successful_build w k i (j_payload j) result db1 = Some db'"
      using assms unfolding complete_followup_def Let_def db1_def [symmetric]
      by (auto split: option.splits)
    then show ?thesis using True
      by (elim complete_successful_build_elim) (simp add: jobs new_release_job_def default_job_def)
  next
    case False
    then have "agent_jobs db' = agent_jobs db1"
      using assms unfolding complete_followup_def Let_def db1_def [symmetric]
      by (auto split: option.splits if_splits)
    then show ?thesis using jobs by simp
  qed
qed

lemma complete_set_failure: "j_failure_summary (complete_set w st f r j) = f"
  by (simp add: complete_set_def)

text \<open>A build that reports no manifest is not valid.\<close>

lemma empty_manifest: "validate_build_manifest w payload (JObj []) \<noteq> Inr u"
  by (simp add: validate_build_manifest_def manifest_from_json_def dec_field_def struct_field_def
    json_get_def context_of_def)

text \<open>
  C7: a result counts only while its lease does.  A completion that is committed comes from the
  server and the claim token that hold the job, while the lease is current; it reports a
  cancellation exactly when one was requested; a paused app accepts no successful execution, and a
  build is successful only with a valid manifest.  The row then carries the result and no secret,
  every other job keeps its row, and a request that is refused changes nothing.
\<close>

theorem complete_job_needs_lease:
  assumes "wf_keys db" "terminal_request (cj_status request) = Some st"
  shows "case complete_transaction w server_id job_id request st token db of
      (Inl r, db') \<Rightarrow> db' = db
    | (Inr j, db') \<Rightarrow> find_job job_id db = Some j
        \<and> j_server_id j = Some server_id \<and> j_claim_token j = Some token \<and> job_leased (j_status j)
        \<and> ts_gt (j_lease_expires_at j) (clock w 7)
        \<and> (st = J_Cancelled \<longleftrightarrow> j_cancel_requested_at j \<noteq> None)
        \<and> (st = J_Success \<and> j_job_type j \<in> {''deploy'', ''rollback'', ''build'', ''release''} \<longrightarrow>
             (\<forall>a. j_app_id j = Some (a_id a) \<and> find_app (a_id a) db = Some a \<longrightarrow> a_suspended_at a = None))
        \<and> (st = J_Success \<and> j_job_type j = ''build'' \<longrightarrow>
             (\<exists>m. cj_result request = Some m \<and> validate_build_manifest w (j_payload j) m = Inr ()))
        \<and> (\<exists>c. find_job job_id db' = Some c \<and> j_status c = st \<and> j_lease_expires_at c = None
             \<and> j_failure_summary c = cj_failure request \<and> \<not> has_secrets (j_payload c))
        \<and> (\<forall>q. q \<noteq> job_id \<and> find_job q db \<noteq> None \<longrightarrow> find_job q db' = find_job q db)"
proof -
  let ?guard = "complete_guard w job_id server_id token st"
  let ?set = "complete_set w st (cj_failure request) (completion_result request)"
  {
    fix j db' assume run: "complete_transaction w server_id job_id request st token db = (Inr j, db')"
    note E = complete_elim [OF run]
    have keys: "distinct (map j_id (agent_jobs db))" using assms(1) by (simp add: wf_keys_def)
    have row: "find_job job_id db = Some j" using find_row_unique [OF keys E(1) E(2)] .
    have guard: "?guard j"
      by (rule count_where_1_lookup [OF E(10) _ keys row]) (simp add: complete_guard_def)
    obtain new where jobs: "agent_jobs db' = update_where ?guard ?set (agent_jobs db) @ new"
      using complete_followup_jobs [OF E(12)] by auto
    have find: "find_job q db' = (case find_job q db of None \<Rightarrow> find_row j_id q new
        | Some r \<Rightarrow> Some (if ?guard r then ?set r else r))" for q
      unfolding jobs find_row_append by (simp add: find_row_update split: option.splits)
    have fin: "find_job job_id db' = Some (?set j)" unfolding find row using guard by simp
    have other: "find_job q db' = find_job q db" if q: "q \<noteq> job_id" "find_job q db \<noteq> None" for q
    proof -
      obtain r where r: "find_job q db = Some r" using q(2) by auto
      then have "\<not> ?guard r" using q(1) by (auto simp: complete_guard_def dest: find_row_SomeD)
      then show ?thesis unfolding find r by simp
    qed
    have canc: "st = J_Cancelled \<longleftrightarrow> j_cancel_requested_at j \<noteq> None" "ts_gt (j_lease_expires_at j) (clock w 7)"
      using guard E(7) by (auto simp: complete_guard_def)
    have susp: "a_suspended_at a = None" if "st = J_Success"
      "j_job_type j \<in> {''deploy'', ''rollback'', ''build'', ''release''}"
      "j_app_id j = Some (a_id a)" "find_app (a_id a) db = Some a" for a
      using E(8) [OF that(1,2)] that(3,4) by (auto simp: completion_suspended_def)
    have man: "\<exists>m. cj_result request = Some m \<and> validate_build_manifest w (j_payload j) m = Inr ()"
      if "st = J_Success" "j_job_type j = ''build''"
      using E(9) [OF that(2,1)] empty_manifest by (cases "cj_result request") (auto simp: completion_result_def)
    have "find_job job_id db = Some j
        \<and> j_server_id j = Some server_id \<and> j_claim_token j = Some token \<and> job_leased (j_status j)
        \<and> ts_gt (j_lease_expires_at j) (clock w 7)
        \<and> (st = J_Cancelled \<longleftrightarrow> j_cancel_requested_at j \<noteq> None)
        \<and> (st = J_Success \<and> j_job_type j \<in> {''deploy'', ''rollback'', ''build'', ''release''} \<longrightarrow>
             (\<forall>a. j_app_id j = Some (a_id a) \<and> find_app (a_id a) db = Some a \<longrightarrow> a_suspended_at a = None))
        \<and> (st = J_Success \<and> j_job_type j = ''build'' \<longrightarrow>
             (\<exists>m. cj_result request = Some m \<and> validate_build_manifest w (j_payload j) m = Inr ()))
        \<and> (\<exists>c. find_job job_id db' = Some c \<and> j_status c = st \<and> j_lease_expires_at c = None
             \<and> j_failure_summary c = cj_failure request \<and> \<not> has_secrets (j_payload c))
        \<and> (\<forall>q. q \<noteq> job_id \<and> find_job q db \<noteq> None \<longrightarrow> find_job q db' = find_job q db)"
      using row E(3-5) canc susp man other by (simp add: fin complete_set_failure)
  }
  then show ?thesis using complete_refused
    by (auto split: prod.splits sum.splits)
qed

lemma release_payload_SomeD:
  assumes "release_payload w original manifest = Some p"
  shows "json_get p ''github_token'' = None" "json_get p ''artifact_manifest'' = Some manifest"
    "get_str p ''type'' = Some ''release''" "is_object p"
    "\<exists>g. json_get p ''artifact_registry'' = Some g \<and> json_get g ''pushUsername'' = None
       \<and> json_get g ''pushPassword'' = None"
proof -
  define base where "base = json_remove ''github_token'' (json_insert ''artifact_manifest'' manifest
    (json_insert ''type'' (JStr ''release'') original))"
  have "\<exists>g u v. is_object original \<and> p = json_insert ''artifact_registry'' (release_registry u v g) base"
    using assms unfolding release_payload_def Let_def base_def [symmetric]
    by (auto split: option.splits if_splits)
  then obtain g u v where obj: "is_object original"
    and p: "p = json_insert ''artifact_registry'' (release_registry u v g) base" by blast
  have get: "json_get p k = (if k = ''artifact_registry'' then Some (release_registry u v g)
      else if k = ''github_token'' then None else if k = ''artifact_manifest'' then Some manifest
      else if k = ''type'' then Some (JStr ''release'') else json_get original k)" for k
    unfolding p base_def using obj by (simp add: json_get_insert json_get_remove)
  show "json_get p ''github_token'' = None" "json_get p ''artifact_manifest'' = Some manifest"
    "get_str p ''type'' = Some ''release''" by (simp_all add: get get_str_def)
  show "is_object p" using obj by (simp add: p base_def)
  show "\<exists>g. json_get p ''artifact_registry'' = Some g \<and> json_get g ''pushUsername'' = None
       \<and> json_get g ''pushPassword'' = None"
    by (simp add: get release_registry_def json_get_insert_other json_get_remove)
qed

lemma release_capacity_get:
  "k \<notin> {''capacity_reserved'', ''capacity_wait'', ''capacity_wait_reason''} \<Longrightarrow>
    json_get (release_capacity c p) k = json_get p k"
  by (auto simp: release_capacity_def json_get_insert_other split: capacity_decision.splits)

lemma followup_of_build:
  assumes "complete_followup w s j request J_Success result db = Some db'" "j_job_type j = ''build''"
  obtains k i where "j_deployment_id j = Some k" "j_app_id j = Some i"
    "complete_successful_build w k i (j_payload j) result db = Some db'"
proof -
  have "\<exists>k i. j_deployment_id j = Some k \<and> j_app_id j = Some i
    \<and> complete_successful_build w k i (j_payload j) result db = Some db'"
    using assms unfolding complete_followup_def Let_def
    by (auto simp: record_job_result_def split: option.splits)
  then show ?thesis using that by blast
qed

text \<open>
  C24: a finished build becomes exactly one release.  When a build is completed successfully, the app
  is not paused, its build row is marked succeeded, the deployment waits for its release on the
  server it was placed on, and one release job is queued there that carries the accepted manifest.
  The job contains neither the source token nor the credentials that push to the registry.  It is
  due at once when the server has room, and otherwise it is parked with the reason.
\<close>

theorem build_success_queues_release:
  assumes "complete_transaction w server_id job_id request J_Success token db = (Inr j, db')"
    "j_job_type j = ''build''" "wf_keys db"
  shows "\<exists>k i d a m r. j_deployment_id j = Some k \<and> j_app_id j = Some i
    \<and> find_deployment k db = Some d \<and> d_app_id d = i \<and> active_status (d_status d)
    \<and> find_app i db = Some a \<and> a_suspended_at a = None \<and> cj_result request = Some m
    \<and> (\<exists>d'. find_deployment k db' = Some d' \<and> d_status d' = D_QueuedForRelease \<and> d_artifact_manifest d' = m)
    \<and> (\<exists>b \<in> set (deployment_builds db'). b_deployment_id b = k \<and> b_status b = B_Succeeded \<and> b_artifact_manifest b = m)
    \<and> r \<in> set (agent_jobs db') \<and> length (agent_jobs db') = length (agent_jobs db) + 1
    \<and> j_job_type r = ''release'' \<and> j_status r = J_Queued \<and> j_server_id r = Some (d_server_id d)
    \<and> j_app_id r = Some i \<and> j_deployment_id r = Some k \<and> j_cancel_requested_at r = None
    \<and> json_get (j_payload r) ''artifact_manifest'' = Some m
    \<and> json_get (j_payload r) ''github_token'' = None
    \<and> (\<exists>g. json_get (j_payload r) ''artifact_registry'' = Some g
         \<and> json_get g ''pushUsername'' = None \<and> json_get g ''pushPassword'' = None)
    \<and> (json_text (j_payload r) ''capacity_reserved'' = Some ''true'' \<and> j_available_at r = tx_now w
       \<or> json_text (j_payload r) ''capacity_wait'' = Some ''true'' \<and> j_available_at r = tx_now w + years 100)"
proof -
  note E = complete_elim [OF assms(1)]
  obtain m where m: "cj_result request = Some m" "completion_result request = m"
    using E(9) [OF assms(2) refl] empty_manifest by (cases "cj_result request") (auto simp: completion_result_def)
  define db0 where "db0 = update_jobs (complete_guard w job_id server_id token J_Success)
    (complete_set w J_Success (cj_failure request) m) db"
  obtain k i where ki: "j_deployment_id j = Some k" "j_app_id j = Some i"
    and run: "complete_successful_build w k i (j_payload j) m db0 = Some db'"
    using followup_of_build [OF E(12) assms(2)] unfolding m(2) db0_def by blast
  obtain d a p c where B: "d \<in> set (deployments db0)" "d_id d = k" "d_app_id d = i" "find_app i db0 = Some a"
      "a_suspended_at a = None" "release_payload w (j_payload j) m = Some p"
      "count_where (finish_build_guard k) (deployment_builds db0) = 1"
      "count_where (release_guard k) (deployments db0) = 1"
      "db' = agent_jobs_update (\<lambda>js. js @ [new_release_job w (d_server_id d) i k p c])
        (queue_for_release w k m (finish_build w k m db0))"
    by (rule complete_successful_build_elim [OF run])
  have eqs: "deployments db0 = deployments db" "apps db0 = apps db" "length (agent_jobs db0) = length (agent_jobs db)"
    by (simp_all add: db0_def)
  have d: "find_deployment k db = Some d"
    using B(1,2) assms(3) by (auto simp: eqs wf_keys_def intro: find_row_unique)
  have rel: "release_guard k d"
    by (rule count_where_1_lookup [OF B(8) _ _ d [folded eqs(1)]])
      (use assms(3) in \<open>auto simp: eqs wf_keys_def release_guard_def\<close>)
  have d': "\<exists>d'. find_deployment k db' = Some d' \<and> d_status d' = D_QueuedForRelease \<and> d_artifact_manifest d' = m"
    using d rel by (simp add: B(9) queue_for_release_def find_row_update eqs)
  obtain b where b: "b \<in> set (deployment_builds db0)" "finish_build_guard k b" using count_where_1D [OF B(7)] by blast
  have b': "\<exists>b \<in> set (deployment_builds db'). b_deployment_id b = k \<and> b_status b = B_Succeeded \<and> b_artifact_manifest b = m"
    using bexI [OF _ update_where_hit [OF b(1), of "finish_build_guard k", OF b(2)]] b(2)
    unfolding B(9) by (simp add: finish_build_def finish_build_guard_def)
  define r where "r = new_release_job w (d_server_id d) i k p c"
  have r: "r \<in> set (agent_jobs db')" "length (agent_jobs db') = length (agent_jobs db) + 1"
    unfolding B(9) r_def by (simp_all add: eqs)
  have fields: "j_job_type r = ''release''" "j_status r = J_Queued" "j_server_id r = Some (d_server_id d)"
    "j_app_id r = Some i" "j_deployment_id r = Some k" "j_cancel_requested_at r = None"
    "j_payload r = release_capacity c p"
    "j_available_at r = (if c = Admitted then tx_now w else tx_now w + years 100)"
    by (simp_all add: r_def new_release_job_def default_job_def)
  note P = release_payload_SomeD [OF B(6)]
  have cap: "json_text (j_payload r) ''capacity_reserved'' = Some ''true'' \<and> j_available_at r = tx_now w
       \<or> json_text (j_payload r) ''capacity_wait'' = Some ''true'' \<and> j_available_at r = tx_now w + years 100"
    using P(4) by (auto simp: fields release_capacity_def json_text_def json_get_insert split: capacity_decision.splits)
  have act: "active_status (d_status d)"
    using rel by (auto simp: release_guard_def active_status_def active_deployment_statuses_def)
  have pay: "json_get (j_payload r) ''artifact_manifest'' = Some m" "json_get (j_payload r) ''github_token'' = None"
    "\<exists>g. json_get (j_payload r) ''artifact_registry'' = Some g
         \<and> json_get g ''pushUsername'' = None \<and> json_get g ''pushPassword'' = None"
    using P(1,2,5) by (simp_all add: fields release_capacity_get)
  show ?thesis
    by (rule exI [of _ k], rule exI [of _ i], rule exI [of _ d], rule exI [of _ a], rule exI [of _ m],
        rule exI [of _ r], intro conjI)
      (fact ki d B(3,5) B(4) [unfolded eqs] act m(1) d' b' r fields(1-6) pay cap)+
qed

text \<open>The follow-up keeps every app and deployment row where the locks look for it.\<close>

lemma complete_followup_rows:
  assumes "complete_followup w s j request st result db = Some db'"
  shows "map a_id (apps db') = map a_id (apps db)"
    "map (\<lambda>d. (d_id d, d_app_id d)) (deployments db') = map (\<lambda>d. (d_id d, d_app_id d)) (deployments db)"
proof -
  define db1 where "db1 = record_job_result w (j_job_type j) (j_app_id j) (j_deployment_id j)
    (cj_status request) (cj_failure request) db"
  have eqs: "apps db1 = apps db" "deployments db1 = deployments db" by (simp_all add: db1_def)
  have "map a_id (apps db') = map a_id (apps db)
    \<and> map (\<lambda>d. (d_id d, d_app_id d)) (deployments db') = map (\<lambda>d. (d_id d, d_app_id d)) (deployments db)"
  proof (cases "j_job_type j = ''build'' \<and> st = J_Success")
    case True
    then obtain k i where "complete_successful_build w k i (j_payload j) result db1 = Some db'"
      using assms unfolding complete_followup_def Let_def db1_def [symmetric] by (auto split: option.splits)
    then show ?thesis
      by (elim complete_successful_build_elim) (simp add: eqs queue_for_release_def map_update_where)
  next
    case False
    then have "db' = db1 \<or> (\<exists>ty f k db2. apps db2 = apps db1 \<and> deployments db2 = deployments db1
        \<and> db' = end_deployment w s ty st f k db2)"
      using assms unfolding complete_followup_def Let_def db1_def [symmetric]
      by (auto split: option.splits if_splits) (metis completion_frames(10,11))+
    then show ?thesis by (auto simp: eqs end_deployment_def map_update_where)
  qed
  then show "map a_id (apps db') = map a_id (apps db)"
    "map (\<lambda>d. (d_id d, d_app_id d)) (deployments db') = map (\<lambda>d. (d_id d, d_app_id d)) (deployments db)"
    by blast+
qed

lemma lock_app_ids: "lock_app i db \<longleftrightarrow> i \<in> set (map a_id (apps db))"
  by (auto simp: lock_app_iff)

lemma lock_deployment_ids:
  "lock_deployment k i db \<longleftrightarrow> (k, i) \<in> set (map (\<lambda>d. (d_id d, d_app_id d)) (deployments db))"
  by (auto simp: lock_deployment_iff)

text \<open>
  A lost acknowledgement is harmless.  After a completion has been committed, the same request
  with the same claim token is answered with success again and changes nothing, at any later time.
\<close>

theorem complete_job_idempotent:
  assumes "complete_transaction w server_id job_id request st token db = (Inr j, db')" "wf_keys db"
    "terminal_request (cj_status request) = Some st" "\<And>n. \<not> fault w' n"
  shows "complete_transaction w' server_id job_id request' st token db' = (Inl (Code NO_CONTENT), db')"
proof -
  note E = complete_elim [OF assms(1)]
  let ?guard = "complete_guard w job_id server_id token st"
  let ?set = "complete_set w st (cj_failure request) (completion_result request)"
  have keys: "distinct (map j_id (agent_jobs db))" using assms(2) by (simp add: wf_keys_def)
  have guard: "?guard j"
    by (rule count_where_1_lookup [OF E(10) _ keys find_row_unique [OF keys E(1,2)]]) (simp add: complete_guard_def)
  obtain new where jobs: "agent_jobs db' = update_where ?guard ?set (agent_jobs db) @ new"
    using complete_followup_jobs [OF E(12)] by auto
  let ?c = "?set j"
  have find: "find (\<lambda>q. j_id q = job_id \<and> j_server_id q = Some server_id) (update_where ?guard ?set js @ new) = Some ?c"
    if "j \<in> set js" "distinct (map j_id js)" for js
    using that
  proof (induction js)
    case (Cons q js)
    show ?case
    proof (cases "q = j")
      case True then show ?thesis using guard E(2,3) by simp
    next
      case False
      then have "j \<in> set js" "j_id q \<noteq> job_id" using Cons.prems E(2) by auto
      then show ?thesis using Cons by (simp add: complete_guard_def)
    qed
  qed simp
  note found = find [OF E(1) keys, folded jobs]
  have c: "?c \<in> set (agent_jobs db')" using find_SomeD [OF found] by blast
  have job: "lock_job job_id (j_app_id j) (j_deployment_id j) db'"
    unfolding lock_job_def exists_where_iff by (rule bexI [OF _ c]) (simp add: E(2))
  have locks: "complete_locks w' job_id ?c db'"
    using E(11) job assms(4) complete_followup_rows [OF E(12)]
    unfolding complete_locks_def lock_app_ids lock_deployment_ids by (simp split: option.splits)
  have st: "st = J_Success \<or> st = J_Failed \<or> st = J_Cancelled"
    using assms(3) by (auto simp: terminal_request_def split: if_splits)
  have tok: "j_claim_token ?c = Some token" using E(4) by simp
  show ?thesis unfolding complete_transaction_def
    using found locks st tok assms(4) by auto
qed

lemma fail_build_closed:
  assumes "b \<in> set (deployment_builds (fail_build w k t f db))" "b_deployment_id b = k"
  shows "b_status b = B_Succeeded \<or> b_status b = B_Failed \<or> b_status b = B_Canceled"
proof -
  let ?open = "\<lambda>b. b_deployment_id b = k
    \<and> \<not> (b_status b = B_Succeeded \<or> b_status b = B_Failed \<or> b_status b = B_Canceled)"
  let ?set = "\<lambda>b. b\<lparr> b_status := (if t = ''cancelled'' then B_Canceled else B_Failed),
    b_failure_summary := f, b_finished_at := Some (tx_now w), b_updated_at := tx_now w \<rparr>"
  obtain x where x: "b = (if ?open x then ?set x else x)"
    using assms(1) by (auto simp: fail_build_def in_update_where)
  show ?thesis
  proof (cases "?open x")
    case True
    then have "b = ?set x" using x by simp
    then show ?thesis by simp
  next
    case False
    then have "b = x" using x by argo
    then show ?thesis using False assms(2) by blast
  qed
qed

text \<open>
  A job that did not succeed ends its deployment.  When a failed or cancelled result is
  committed, the deployment of the job (of this server, or of any server for a build) is no longer
  active, carries the reported summary if it was, no app waits for its activation, and its build,
  if the job was one, is over.
\<close>

theorem unsuccessful_job_ends_deployment:
  assumes "complete_transaction w server_id job_id request st token db = (Inr j, db')" "st \<noteq> J_Success"
    "j_deployment_id j = Some k" "find_deployment k db = Some d"
    "j_job_type j = ''build'' \<or> d_server_id d = server_id"
  shows "\<exists>d'. find_deployment k db' = Some d' \<and> \<not> active_status (d_status d')
    \<and> (active_status (d_status d) \<longrightarrow> d_failure_summary d' = cj_failure request
        \<and> d_status d' = (if st = J_Cancelled then D_Canceled else D_Failed))
    \<and> (\<forall>a \<in> set (apps db'). a_pending_deployment_id a \<noteq> Some k)
    \<and> (j_job_type j = ''build'' \<longrightarrow> (\<forall>b \<in> set (deployment_builds db'). b_deployment_id b = k \<longrightarrow>
         b_status b = B_Succeeded \<or> b_status b = B_Failed \<or> b_status b = B_Canceled))"
proof -
  note E = complete_elim [OF assms(1)]
  define db0 where "db0 = update_jobs (complete_guard w job_id server_id token st)
    (complete_set w st (cj_failure request) (completion_result request)) db"
  define db1 where "db1 = record_job_result w (j_job_type j) (j_app_id j) (Some k)
    (cj_status request) (cj_failure request) db0"
  have deps: "deployments db1 = deployments db" by (simp add: db1_def db0_def)
  have db': "db' = end_deployment w server_id (j_job_type j) st (cj_failure request) k
      (if j_job_type j = ''build'' then fail_build w k (cj_status request) (cj_failure request) db1 else db1)"
    using E(12) assms(2,3) unfolding db0_def [symmetric] complete_followup_def Let_def
    by (auto simp: db1_def split: if_splits)
  define d' where "d' = (if active_status (d_status d)
      then d\<lparr> d_status := (if st = J_Cancelled then D_Canceled else D_Failed), d_failure_summary := cj_failure request,
        d_failure_code := (if st = J_Cancelled then Some ''cancelled_by_owner'' else d_failure_code d),
        d_finished_at := Some (tx_now w) \<rparr> else d)"
  have row: "find_deployment k db' = Some d'"
    using assms(4,5) find_row_SomeD [OF assms(4)]
    by (auto simp: db' end_deployment_def find_row_update deps d'_def)
  have d': "\<not> active_status (d_status d')" "active_status (d_status d) \<longrightarrow> d_failure_summary d' = cj_failure request
        \<and> d_status d' = (if st = J_Cancelled then D_Canceled else D_Failed)"
    by (simp_all add: d'_def)
  have pend: "a_pending_deployment_id a \<noteq> Some k" if "a \<in> set (apps db')" for a
    using that by (auto simp: db' end_deployment_def set_update_where)
  have built: "b_status b = B_Succeeded \<or> b_status b = B_Failed \<or> b_status b = B_Canceled"
    if "j_job_type j = ''build''" "b \<in> set (deployment_builds db')" "b_deployment_id b = k" for b
    using that fail_build_closed by (simp add: db')
  show ?thesis using row d' pend built by blast
qed

end
