(* ===== verification/Samples.thy ===== *)
theory Samples
  imports Activation Completion "HOL-Library.Code_Target_Nat"
begin

text \<open>
  A small concrete control plane on which the theorems of the development are applied: one server,
  one app of one user, and the deployments and jobs an example needs.  Identifiers are printed as
  \<open>id-\<close> followed by as many strokes, and are read back from that form.
\<close>

definition sample_uuid_text :: "uuid \<Rightarrow> string" where
  "sample_uuid_text n = ''id-'' @ replicate n CHR ''i''"

definition sample_parse_uuid :: "string \<Rightarrow> uuid option" where
  "sample_parse_uuid s = (if take 3 s = ''id-'' \<and> list_all (\<lambda>c. c = CHR ''i'') (drop 3 s)
     then Some (length s - 3) else None)"

lemma sample_uuid_roundtrip: "sample_parse_uuid (sample_uuid_text n) = Some n"
  by (simp add: sample_parse_uuid_def sample_uuid_text_def list_all_iff)

definition sample_env :: "string \<Rightarrow> string option" where
  "sample_env k = (if k = ''HOSTLET_ARTIFACT_REGISTRY_URL'' then Some ''https://registry.test''
     else if k = ''HOSTLET_ARTIFACT_REGISTRY_PUSH_USERNAME'' then Some ''pusher''
     else if k = ''HOSTLET_ARTIFACT_REGISTRY_PUSH_PASSWORD'' then Some ''push-secret''
     else if k = ''HOSTLET_ARTIFACT_REGISTRY_PULL_USERNAME'' then Some ''puller''
     else if k = ''HOSTLET_ARTIFACT_REGISTRY_PULL_PASSWORD'' then Some ''pull-secret''
     else None)"

text \<open>A world in which the database works and the clock stands at \<open>t\<close>.\<close>

definition sample_world :: "timestamp \<Rightarrow> world" where
  "sample_world t = \<lparr> tx_now = t, clock = (\<lambda>_. t), fresh = (\<lambda>k. 100 + k), fault = (\<lambda>_. False),
     row_locked = (\<lambda>_. False), uuid_text = sample_uuid_text, parse_uuid = sample_parse_uuid,
     env_var = sample_env \<rparr>"

lemma sample_world_simps [simp]:
  "tx_now (sample_world t) = t" "clock (sample_world t) n = t" "fresh (sample_world t) k = 100 + k"
  "\<not> fault (sample_world t) n" "parse_uuid (sample_world t) = sample_parse_uuid"
  by (simp_all add: sample_world_def)

definition sample_server :: server_row where
  "sample_server = \<lparr> s_id = 1, s_user_id = Some 5, s_kind = ''local'', s_status = ''online'',
     s_capabilities = [''app_runner'', ''builder''], s_draining = False, s_max_concurrent_apps = 4,
     s_max_concurrent_builds = 2, s_max_runtime_memory_mb = Some 4096, s_max_running_services = Some 8,
     s_min_available_memory_mb = None, s_min_disk_free_mb = None, s_resource_snapshot = None,
     s_resource_snapshot_at = None, s_build_pool_id = Some 3, s_platforms = [''linux/amd64''],
     s_agent_protocol_version = 6, s_agent_token_hash = Some ''hash'', s_last_seen_at = Some 50,
     s_last_build_assigned_at = None, s_created_at = 1 \<rparr>"

definition sample_app :: "uuid option \<Rightarrow> uuid option \<Rightarrow> int \<Rightarrow> app_row" where
  "sample_app current pending generation = \<lparr> a_id = 10, a_user_id = 5, a_server_id = 1,
     a_container_port = 3000, a_health_path = ''/health'', a_domain = ''app.test'',
     a_current_deployment_id = current, a_pending_deployment_id = pending,
     a_route_generation = generation, a_suspended_at = None, a_queue_priority_offset = 0,
     a_runtime_kind = ''auto'', a_runtime_config = JObj [], a_public_exposure = False,
     a_build_pool_id = None, a_name = ''app'', a_repo_full_name = ''owner/app'', a_branch = ''main'',
     a_hostlet_config_path = ''hostlet.yml'', a_packaging_strategy = ''auto'', a_root_directory = ''.'',
     a_install_command = None, a_build_command = None, a_start_command = None,
     a_memory_limit_mb = Some 256, a_auto_deploy = True, a_cpu_limit = JNull, a_updated_at = 1 \<rparr>"

definition sample_sha :: string where
  "sample_sha = replicate 40 CHR ''a''"

definition sample_deployment :: "uuid \<Rightarrow> deployment_status \<Rightarrow> deployment_row" where
  "sample_deployment i status = \<lparr> d_id = i, d_app_id = 10, d_server_id = 1, d_status = status,
     d_commit_sha = sample_sha, d_image_tag = None, d_container_name = None, d_published_port = None,
     d_compose_project = None, d_runtime_kind = ''auto'', d_runtime_metadata = JObj [],
     d_artifact_manifest = JObj [], d_build_id = None, d_expected_current_deployment_id = None,
     d_activation_generation = None, d_failure_summary = None, d_failure_code = None,
     d_last_heartbeat_at = None, d_started_at = Some 2, d_finished_at = None, d_created_at = 2 \<rparr>"

definition sample_job :: "uuid \<Rightarrow> string \<Rightarrow> job_status \<Rightarrow> uuid option \<Rightarrow> json \<Rightarrow> job_row" where
  "sample_job i ty status deployment payload = (default_job 3 i)\<lparr> j_server_id := Some 1,
     j_app_id := Some 10, j_deployment_id := deployment, j_job_type := ty, j_status := status,
     j_payload := payload, j_attempt := (if status = J_Queued then 0 else 1),
     j_claim_token := (if status = J_Queued then None else Some 7),
     j_claimed_by := (if status = J_Queued then None else Some ''agent''),
     j_lease_expires_at := (if job_leased status then Some 1000 else None) \<rparr>"

definition sample_payload :: json where
  "sample_payload = JObj [(''type'', JStr ''deploy''), (''github_token'', JStr ''token''),
     (''env'', JArr []), (''capacity_reserved'', JBool True)]"

definition sample_db :: "app_row \<Rightarrow> deployment_row list \<Rightarrow> job_row list \<Rightarrow> db" where
  "sample_db a ds js = empty_db\<lparr> servers := [sample_server], apps := [a], deployments := ds,
     agent_jobs := js \<rparr>"

lemma wf_sample [simp]:
  "wf_keys (sample_db a ds js) \<longleftrightarrow> distinct (map j_id js) \<and> distinct (map d_id ds)"
  by (simp add: wf_keys_def sample_db_def empty_db_def)

section \<open>An activation\<close>

definition sample_candidate :: candidate_runtime where
  "sample_candidate = \<lparr> cr_container_name = ''hostlet-app-20'', cr_published_port = 4001,
     cr_image_tag = Some ''hostlet/app:20'', cr_compose_project = None, cr_runtime_metadata = JObj [],
     cr_services = [\<lparr> sr_name = ''web'', sr_role = ''web'', sr_container_name = None,
       sr_image_tag = None, sr_target_port = Some 3000, sr_published_port = Some 4001,
       sr_status = Some ''running'', sr_health_status = None \<rparr>] \<rparr>"

definition activating_db :: db where
  "activating_db = sample_db (sample_app None None 4) [sample_deployment 20 D_HealthChecking]
     [sample_job 30 ''deploy'' J_Running (Some 20) sample_payload]"

definition sample_prepare :: prepare_request where
  "sample_prepare = \<lparr> pr_job_id = 30, pr_claim_token = 7, pr_expected_current_deployment_id = None,
     pr_candidate = sample_candidate \<rparr>"

definition sample_commit :: commit_request where
  "sample_commit = \<lparr> cm_job_id = 30, cm_claim_token = 7, cm_route_generation = 5, cm_local_url = None,
     cm_runtime_metadata = None, cm_rolled_back = False \<rparr>"

definition prepared_db :: db where
  "prepared_db = snd (prepare_activation (sample_world 100) (Some 1) 20 sample_prepare activating_db)"

definition committed_db :: db where
  "committed_db = snd (commit_activation (sample_world 200) (Some 1) 20 sample_commit prepared_db)"

lemma sample_prepare_run:
  "prepare_activation (sample_world 100) (Some 1) 20 sample_prepare activating_db = (Reply 5, prepared_db)"
proof -
  have "fst (prepare_activation (sample_world 100) (Some 1) 20 sample_prepare activating_db) = Reply 5"
    by code_simp
  then show ?thesis by (simp add: prepared_db_def prod_eq_iff)
qed

lemma sample_commit_run:
  "commit_activation (sample_world 200) (Some 1) 20 sample_commit prepared_db = (Code NO_CONTENT, committed_db)"
proof -
  have "fst (commit_activation (sample_world 200) (Some 1) 20 sample_commit prepared_db) = Code NO_CONTENT"
    by code_simp
  then show ?thesis by (simp add: committed_db_def prod_eq_iff)
qed

lemma sample_wf: "wf_keys activating_db" "wf_keys prepared_db"
  by code_simp+

lemma sample_changed: "committed_db \<noteq> prepared_db"
  by code_simp

end
