(* ===== verification/Suspension.thy ===== *)
theory Suspension
  imports Recovery Activation
begin

text \<open>
  Pausing and resuming an app (\<open>apps/api/src/suspensions.rs\<close>).  An app is paused while at least one
  reason for it is recorded; \<open>apps.suspended_at\<close> is the age of the oldest one.  One transaction
  adds or removes a reason, withdraws the lifecycle work of a paused app, and queues the job that
  stops or starts the runtime when the app goes from running to paused or back.
\<close>

section \<open>Data\<close>

definition user_requested :: string where
  "user_requested = ''user_requested''"

record suspension_change =
  sc_app_id :: uuid
  sc_suspended :: bool
  sc_reasons :: "string list"
  sc_job_id :: "uuid option"

record runtime_target =
  rt_server_id :: uuid
  rt_deployment_id :: uuid
  rt_container_name :: string
  rt_compose_project :: "string option"
  rt_container_port :: int
  rt_published_port :: int
  rt_health_path :: string
  rt_domain :: string

datatype change_error = Change_NotFound | Change_Database string

section \<open>The runtime that is stopped or started\<close>

definition load_runtime_target :: "world \<Rightarrow> uuid \<Rightarrow> uuid option \<Rightarrow> db \<Rightarrow> change_error + runtime_target option" where
  "load_runtime_target w app_id owner_id db =
     (if fault w 1 then Inl (Change_Database ''database'')
      else case find (\<lambda>a. a_id a = app_id \<and> (owner_id = None \<or> owner_id = Some (a_user_id a))) (apps db) of
        None \<Rightarrow> Inl Change_NotFound
      | Some a \<Rightarrow>
        (case Option.bind (a_current_deployment_id a) (\<lambda>k. find_deployment k db) of
           None \<Rightarrow> Inr None
         | Some d \<Rightarrow>
           (case (a_current_deployment_id a, d_container_name d, d_published_port d) of
              (Some deployment_id, Some container_name, Some published_port) \<Rightarrow>
                Inr (Some \<lparr> rt_server_id = a_server_id a, rt_deployment_id = deployment_id,
                  rt_container_name = container_name, rt_compose_project = d_compose_project d,
                  rt_container_port = a_container_port a, rt_published_port = published_port,
                  rt_health_path = a_health_path a, rt_domain = a_domain a \<rparr>)
            | _ \<Rightarrow> Inr None)))"

definition enqueue_transition_job :: "world \<Rightarrow> uuid \<Rightarrow> runtime_target \<Rightarrow> string \<Rightarrow> db \<Rightarrow> db" where
  "enqueue_transition_job w app_id target job_type =
     insert_agent_job_in_transaction (tx_now w) (fresh w 0) (rt_server_id target) (Some app_id)
       (Some (rt_deployment_id target)) job_type
       (stop_payload w job_type app_id (rt_deployment_id target) (rt_container_name target)
         (rt_compose_project target) (rt_container_port target) (rt_published_port target)
         (rt_health_path target) (rt_domain target)) 20"

section \<open>Withdrawing the lifecycle work\<close>

definition paused_summary :: string where
  "paused_summary = ''App was paused before this deployment started.''"

definition live_lifecycle :: "uuid \<Rightarrow> job_row \<Rightarrow> bool" where
  "live_lifecycle app_id j \<longleftrightarrow> j_app_id j = Some app_id \<and> lifecycle_job_type (j_job_type j) \<and> job_live (j_status j)"

definition withdraw_guard :: "uuid \<Rightarrow> job_row \<Rightarrow> bool" where
  "withdraw_guard app_id j \<longleftrightarrow> j_app_id j = Some app_id \<and> lifecycle_job_type (j_job_type j) \<and> j_status j = J_Queued"

definition withdrawn_deployments :: "uuid \<Rightarrow> db \<Rightarrow> uuid list" where
  "withdrawn_deployments app_id db = List.map_filter j_deployment_id (filter (withdraw_guard app_id) (agent_jobs db))"

definition withdraw_jobs :: "world \<Rightarrow> uuid \<Rightarrow> db \<Rightarrow> db" where
  "withdraw_jobs w app_id = update_jobs (withdraw_guard app_id)
     (\<lambda>j. j\<lparr> j_status := J_Cancelled, j_failure_summary := Some paused_summary,
            j_payload := scrub (j_payload j), j_updated_at := tx_now w, j_finished_at := Some (tx_now w) \<rparr>)"

definition withdraw_deployments :: "world \<Rightarrow> uuid list \<Rightarrow> db \<Rightarrow> db" where
  "withdraw_deployments w ids db =
     update_apps (\<lambda>a. case a_pending_deployment_id a of None \<Rightarrow> False | Some i \<Rightarrow> i \<in> set ids)
       (\<lambda>a. a\<lparr> a_pending_deployment_id := None, a_updated_at := tx_now w \<rparr>)
     (update_builds (\<lambda>b. b_deployment_id b \<in> set ids \<and> open_build b)
       (\<lambda>b. b\<lparr> b_status := B_Canceled, b_failure_code := Some ''app_paused'',
              b_failure_summary := Some paused_summary, b_finished_at := Some (tx_now w),
              b_updated_at := tx_now w \<rparr>)
     (update_deployments (\<lambda>d. d_id d \<in> set ids \<and> active_status (d_status d))
       (\<lambda>d. d\<lparr> d_status := D_Canceled, d_failure_code := Some ''app_paused'',
              d_failure_summary := Some paused_summary, d_finished_at := Some (tx_now w) \<rparr>) db))"

definition ask_to_cancel :: "world \<Rightarrow> uuid \<Rightarrow> db \<Rightarrow> db" where
  "ask_to_cancel w app_id = update_jobs
     (\<lambda>j. j_app_id j = Some app_id \<and> lifecycle_job_type (j_job_type j) \<and> job_leased (j_status j))
     (\<lambda>j. j\<lparr> j_cancel_requested_at := coalesce (j_cancel_requested_at j) (Some (clock w 11)),
            j_updated_at := tx_now w \<rparr>)"

section \<open>The reasons\<close>

definition app_reasons :: "uuid \<Rightarrow> db \<Rightarrow> suspension_row list" where
  "app_reasons app_id db = filter (\<lambda>p. p_app_id p = app_id) (app_suspensions db)"

definition add_reason :: "world \<Rightarrow> uuid \<Rightarrow> string \<Rightarrow> string \<Rightarrow> db \<Rightarrow> db" where
  "add_reason w app_id reason actor db =
     (if exists_where (\<lambda>p. p_app_id p = app_id \<and> p_reason p = reason) (app_suspensions db) then db
      else app_suspensions_update (\<lambda>ps. ps @ [\<lparr> p_app_id = app_id, p_reason = reason,
        p_created_at = tx_now w, p_created_by = actor \<rparr>]) db)"

definition remove_reason :: "uuid \<Rightarrow> string \<Rightarrow> db \<Rightarrow> db" where
  "remove_reason app_id reason =
     app_suspensions_update (delete_where (\<lambda>p. p_app_id p = app_id \<and> p_reason p = reason))"

definition suspension_reasons_in_tx :: "uuid \<Rightarrow> db \<Rightarrow> string list" where
  "suspension_reasons_in_tx app_id db =
     map p_reason (sort_key (\<lambda>p. (p_created_at p, p_reason p)) (app_reasons app_id db))"

text \<open>\<open>SELECT MIN(created_at)\<close>, which is \<open>NULL\<close> when there is no reason.\<close>

definition oldest_reason :: "uuid \<Rightarrow> db \<Rightarrow> timestamp option" where
  "oldest_reason app_id db =
     (case sort (map p_created_at (app_reasons app_id db)) of [] \<Rightarrow> None | t # _ \<Rightarrow> Some t)"

definition stamp_suspension :: "world \<Rightarrow> uuid \<Rightarrow> db \<Rightarrow> db" where
  "stamp_suspension w app_id db = update_apps (\<lambda>a. a_id a = app_id)
     (\<lambda>a. a\<lparr> a_suspended_at := oldest_reason app_id db, a_updated_at := tx_now w \<rparr>) db"

section \<open>The transaction\<close>

definition pause_effect :: "world \<Rightarrow> uuid \<Rightarrow> string \<Rightarrow> string \<Rightarrow> db \<Rightarrow> db" where
  "pause_effect w app_id reason actor db =
     (let db1 = add_reason w app_id reason actor db;
          ids = withdrawn_deployments app_id db1;
          db2 = withdraw_jobs w app_id db1;
          db3 = (if ids = [] then db2 else withdraw_deployments w ids db2) in
      ask_to_cancel w app_id db3)"

text \<open>The database calls between the loading of the target and the audit event that can fail.\<close>

definition change_faults :: "world \<Rightarrow> uuid \<Rightarrow> runtime_target option \<Rightarrow> bool \<Rightarrow> db \<Rightarrow> bool" where
  "change_faults w app_id target add db \<longleftrightarrow>
     (let live = filter (live_lifecycle app_id) (agent_jobs db) in
      fault w 2 \<or> (target \<noteq> None \<or> List.map_filter j_deployment_id live \<noteq> []) \<and> fault w 3
      \<or> live \<noteq> [] \<and> fault w 4 \<or> faults w [5, 6]
      \<or> add \<and> (faults w [7, 11] \<or> withdrawn_deployments app_id db \<noteq> [] \<and> faults w [8, 9, 10])
      \<or> faults w [12, 13, 15, 16])"

definition change_reason :: "world \<Rightarrow> uuid \<Rightarrow> uuid option \<Rightarrow> string \<Rightarrow> string \<Rightarrow> bool \<Rightarrow> db
    \<Rightarrow> (change_error + suspension_change) \<times> db" where
  "change_reason w app_id owner_id reason actor add db =
     (if trim reason = [] then (Inl (Change_Database ''suspension reason is required''), db)
      else if fault w 0 then (Inl (Change_Database ''database''), db)
      else case load_runtime_target w app_id owner_id db of
        Inl e \<Rightarrow> (Inl e, db)
      | Inr target \<Rightarrow>
        if change_faults w app_id target add db then (Inl (Change_Database ''database''), db)
        else
          (let before = length (app_reasons app_id db);
               db1 = (if add then pause_effect w app_id reason actor db else remove_reason app_id reason db);
               reasons = suspension_reasons_in_tx app_id db1;
               suspended = reasons \<noteq> [];
               db2 = stamp_suspension w app_id db1;
               transitioned = (add \<and> before = 0 \<and> suspended \<or> \<not> add \<and> 0 < before \<and> \<not> suspended);
               job_id = (if transitioned \<and> target \<noteq> None then Some (fresh w 0) else None);
               db3 = (case target of
                  Some t \<Rightarrow> if transitioned
                    then enqueue_transition_job w app_id t (if suspended then ''suspend_app'' else ''resume_app'') db2
                    else db2
                | None \<Rightarrow> db2);
               db4 = audit (tx_now w) (if actor = ''owner'' then ''owner'' else ''operator'') (Some actor)
                  (if add then ''app_suspension_added'' else ''app_suspension_removed'') (Some app_id) None job_id
                  (JObj [(''reason'', JStr reason), (''suspended'', JBool suspended)]) db3 in
           if job_id \<noteq> None \<and> fault w 14 then (Inl (Change_Database ''database''), db)
           else (Inr \<lparr> sc_app_id = app_id, sc_suspended = suspended, sc_reasons = reasons, sc_job_id = job_id \<rparr>, db4)))"

definition set_reason :: "world \<Rightarrow> uuid \<Rightarrow> uuid option \<Rightarrow> string \<Rightarrow> string \<Rightarrow> db
    \<Rightarrow> (change_error + suspension_change) \<times> db" where
  "set_reason w app_id owner_id reason actor db = change_reason w app_id owner_id reason actor True db"

definition clear_reason :: "world \<Rightarrow> uuid \<Rightarrow> uuid option \<Rightarrow> string \<Rightarrow> string \<Rightarrow> db
    \<Rightarrow> (change_error + suspension_change) \<times> db" where
  "clear_reason w app_id owner_id reason actor db = change_reason w app_id owner_id reason actor False db"

section \<open>The two requests\<close>

text \<open>\<open>Inl\<close> is the error text of \<open>request_context\<close>, \<open>Inr\<close> the signed-in user.\<close>

definition suspension_response :: "(string + uuid)
    \<Rightarrow> (uuid \<Rightarrow> (change_error + suspension_change) \<times> db) \<Rightarrow> db \<Rightarrow> suspension_change response \<times> db" where
  "suspension_response context change db =
     (case context of
        Inl e \<Rightarrow> (if e = ''sign in required'' then Code UNAUTHORIZED else Text PAYMENT_REQUIRED e, db)
      | Inr user_id \<Rightarrow>
        (case change user_id of
           (Inr c, db') \<Rightarrow> (Reply c, db')
         | (Inl Change_NotFound, db') \<Rightarrow> (Code NOT_FOUND, db')
         | (Inl (Change_Database _), db') \<Rightarrow> (Code INTERNAL_SERVER_ERROR, db')))"

definition pause_app :: "world \<Rightarrow> (string + uuid) \<Rightarrow> uuid \<Rightarrow> db \<Rightarrow> suspension_change response \<times> db" where
  "pause_app w context app_id db = suspension_response context
     (\<lambda>user_id. set_reason w app_id (Some user_id) user_requested ''owner'' db) db"

definition resume_app :: "world \<Rightarrow> (string + uuid) \<Rightarrow> uuid \<Rightarrow> db \<Rightarrow> suspension_change response \<times> db" where
  "resume_app w context app_id db = suspension_response context
     (\<lambda>user_id. clear_reason w app_id (Some user_id) user_requested ''owner'' db) db"

section \<open>Reading a change backwards\<close>

definition reasons_changed :: "world \<Rightarrow> uuid \<Rightarrow> string \<Rightarrow> string \<Rightarrow> bool \<Rightarrow> db \<Rightarrow> db" where
  "reasons_changed w app_id reason actor add db =
     (if add then pause_effect w app_id reason actor db else remove_reason app_id reason db)"

definition transition :: "world \<Rightarrow> uuid \<Rightarrow> string \<Rightarrow> string \<Rightarrow> bool \<Rightarrow> db \<Rightarrow> bool" where
  "transition w app_id reason actor add db \<longleftrightarrow>
     (let before = length (app_reasons app_id db);
          suspended = suspension_reasons_in_tx app_id (reasons_changed w app_id reason actor add db) \<noteq> [] in
      add \<and> before = 0 \<and> suspended \<or> \<not> add \<and> 0 < before \<and> \<not> suspended)"

lemma change_refused: "change_reason w i u reason actor add db = (Inl e, db') \<Longrightarrow> db' = db"
  unfolding change_reason_def Let_def by (auto split: sum.splits if_splits)

lemma change_elim:
  assumes "change_reason w i u reason actor add db = (Inr c, db')"
  obtains target where "load_runtime_target w i u db = Inr target"
    "sc_reasons c = suspension_reasons_in_tx i (reasons_changed w i reason actor add db)"
    "sc_suspended c \<longleftrightarrow> sc_reasons c \<noteq> []"
    "sc_job_id c = (if transition w i reason actor add db \<and> target \<noteq> None then Some (fresh w 0) else None)"
    "agent_jobs db' = agent_jobs (reasons_changed w i reason actor add db) @
       (case target of Some t \<Rightarrow> if transition w i reason actor add db
          then [new_agent_job (tx_now w) (fresh w 0) (rt_server_id t) (Some i) (Some (rt_deployment_id t))
            (if sc_suspended c then ''suspend_app'' else ''resume_app'')
            (stop_payload w (if sc_suspended c then ''suspend_app'' else ''resume_app'') i (rt_deployment_id t)
              (rt_container_name t) (rt_compose_project t) (rt_container_port t) (rt_published_port t)
              (rt_health_path t) (rt_domain t)) 20] else []
        | None \<Rightarrow> [])"
    "apps db' = apps (stamp_suspension w i (reasons_changed w i reason actor add db))"
    "deployments db' = deployments (reasons_changed w i reason actor add db)"
    "app_suspensions db' = app_suspensions (reasons_changed w i reason actor add db)"
    "deployment_builds db' = deployment_builds (reasons_changed w i reason actor add db)"
proof -
  obtain target where target: "load_runtime_target w i u db = Inr target" "\<not> change_faults w i target add db"
    using assms unfolding change_reason_def by (auto split: sum.splits if_splits)
  note run = assms [unfolded change_reason_def, folded reasons_changed_def transition_def]
  show ?thesis
    by (rule that [OF target(1)])
      (use run target in \<open>auto simp: Let_def transition_def reasons_changed_def enqueue_transition_job_def
        stamp_suspension_def split: if_splits option.splits\<close>)
qed

lemma load_target_app:
  assumes "load_runtime_target w i u db = Inr target"
  obtains a where "a \<in> set (apps db)" "a_id a = i" "u = None \<or> u = Some (a_user_id a)"
proof -
  obtain a where "find (\<lambda>a. a_id a = i \<and> (u = None \<or> u = Some (a_user_id a))) (apps db) = Some a"
    using assms unfolding load_runtime_target_def by (auto split: if_splits option.splits)
  from find_SomeD [OF this] that show ?thesis by blast
qed

section \<open>The effect on the rows\<close>

lemma add_reason_frame [simp]:
  "agent_jobs (add_reason w i r a db) = agent_jobs db" "deployments (add_reason w i r a db) = deployments db"
  "apps (add_reason w i r a db) = apps db" "deployment_builds (add_reason w i r a db) = deployment_builds db"
  by (simp_all add: add_reason_def)

lemma withdraw_frame [simp]:
  "agent_jobs (withdraw_deployments w ids db) = agent_jobs db"
  "app_suspensions (withdraw_deployments w ids db) = app_suspensions db"
  "map a_id (apps (withdraw_deployments w ids db)) = map a_id (apps db)"
  by (simp_all add: withdraw_deployments_def map_update_where)

lemma app_reasons_cong: "app_suspensions db' = app_suspensions db \<Longrightarrow> app_reasons i db' = app_reasons i db"
  by (simp add: app_reasons_def)

lemma pause_effect_frame:
  "app_suspensions (pause_effect w i r a db) = app_suspensions (add_reason w i r a db)"
  "map a_id (apps (pause_effect w i r a db)) = map a_id (apps db)"
  by (simp_all add: pause_effect_def Let_def withdraw_jobs_def ask_to_cancel_def)

definition paused_job :: "world \<Rightarrow> uuid \<Rightarrow> job_row \<Rightarrow> job_row" where
  "paused_job w i j =
     (if withdraw_guard i j
      then j\<lparr> j_status := J_Cancelled, j_failure_summary := Some paused_summary,
             j_payload := scrub (j_payload j), j_updated_at := tx_now w, j_finished_at := Some (tx_now w) \<rparr>
      else if j_app_id j = Some i \<and> lifecycle_job_type (j_job_type j) \<and> job_leased (j_status j)
      then j\<lparr> j_cancel_requested_at := coalesce (j_cancel_requested_at j) (Some (clock w 11)),
             j_updated_at := tx_now w \<rparr>
      else j)"

lemma pause_effect_jobs: "agent_jobs (pause_effect w i r a db) = map (paused_job w i) (agent_jobs db)"
proof -
  define F :: "job_row \<Rightarrow> job_row" where "F = (\<lambda>j. if withdraw_guard i j then j\<lparr> j_status := J_Cancelled, j_failure_summary := Some paused_summary,
      j_payload := scrub (j_payload j), j_updated_at := tx_now w, j_finished_at := Some (tx_now w) \<rparr> else j)"
  define G :: "job_row \<Rightarrow> job_row" where "G = (\<lambda>j. if j_app_id j = Some i \<and> lifecycle_job_type (j_job_type j) \<and> job_leased (j_status j)
      then j\<lparr> j_cancel_requested_at := coalesce (j_cancel_requested_at j) (Some (clock w 11)), j_updated_at := tx_now w \<rparr>
      else j)"
  have "agent_jobs (pause_effect w i r a db) = map G (map F (agent_jobs db))"
    unfolding pause_effect_def Let_def withdraw_jobs_def ask_to_cancel_def F_def G_def by (simp add: update_where_def)
  moreover have "G (F j) = paused_job w i j" for j
    by (cases "withdraw_guard i j") (simp_all add: F_def G_def paused_job_def)
  ultimately show ?thesis by simp
qed

lemma paused_job_id [simp]: "j_id (paused_job w i j) = j_id j" "j_app_id (paused_job w i j) = j_app_id j"
  "j_job_type (paused_job w i j) = j_job_type j"
  by (simp_all add: paused_job_def)

lemma app_reasons_add:
  "set (map p_reason (app_reasons i (add_reason w i r a db))) = insert r (set (map p_reason (app_reasons i db)))"
proof (cases "exists_where (\<lambda>p. p_app_id p = i \<and> p_reason p = r) (app_suspensions db)")
  case True
  then have "r \<in> set (map p_reason (app_reasons i db))" by (auto simp: app_reasons_def exists_where_iff)
  then show ?thesis using True by (auto simp: add_reason_def)
qed (simp add: add_reason_def app_reasons_def)

lemma app_reasons_remove:
  "set (map p_reason (app_reasons i (remove_reason i r db))) = set (map p_reason (app_reasons i db)) - {r}"
  by (auto simp: remove_reason_def app_reasons_def)

lemma set_reasons: "set (suspension_reasons_in_tx i db) = set (map p_reason (app_reasons i db))"
  by (simp add: suspension_reasons_in_tx_def)

lemma oldest_reason_None_iff: "oldest_reason i db = None \<longleftrightarrow> app_reasons i db = []"
proof -
  have sort: "sort xs = [] \<longleftrightarrow> xs = []" for xs :: "nat list" by (metis set_sort set_empty)
  have "oldest_reason i db = None \<longleftrightarrow> sort (map p_created_at (app_reasons i db)) = []"
    by (simp add: oldest_reason_def split: list.split)
  then show ?thesis unfolding sort by simp
qed

lemma stamped_app:
  assumes "i \<in> set (map a_id (apps db))"
  shows "\<exists>a. find_app i (stamp_suspension w i db) = Some a \<and> a_suspended_at a = oldest_reason i db"
proof -
  obtain a where "find_app i db = Some a"
    using assms find_row_None_iff [of a_id i "apps db"] by (cases "find_app i db") auto
  moreover from this have "a_id a = i" by (auto dest: find_row_SomeD)
  ultimately show ?thesis by (simp add: stamp_suspension_def find_row_update)
qed

lemma withdrawn_deployment:
  assumes "j \<in> set (agent_jobs db)" "withdraw_guard i j" "j_deployment_id j = Some k"
    "find_deployment k db = Some d" "active_status (d_status d)"
  shows "\<exists>d'. find_deployment k (pause_effect w i r a db) = Some d' \<and> d_status d' = D_Canceled"
proof -
  have k: "k \<in> set (withdrawn_deployments i db)"
    using assms(1-3) by (force simp: withdrawn_deployments_def List.map_filter_def)
  then have ne: "withdrawn_deployments i db \<noteq> []" by auto
  have eq: "withdrawn_deployments i (add_reason w i r a db) = withdrawn_deployments i db"
    by (simp add: withdrawn_deployments_def)
  have "d_id d = k" using assms(4) by (auto dest: find_row_SomeD)
  then show ?thesis using k ne assms(4,5)
    by (simp add: pause_effect_def Let_def eq withdraw_jobs_def ask_to_cancel_def withdraw_deployments_def find_row_update)
qed

text \<open>
  What a pause may touch besides the app and its own jobs: the deployments that its queued lifecycle
  jobs name.
\<close>

definition queued_for :: "uuid \<Rightarrow> db \<Rightarrow> uuid \<Rightarrow> bool" where
  "queued_for app_id db k \<longleftrightarrow> (\<exists>j \<in> set (agent_jobs db). j_app_id j = Some app_id \<and> lifecycle_job_type (j_job_type j)
     \<and> j_status j = J_Queued \<and> j_deployment_id j = Some k)"

lemma withdrawn_iff: "k \<in> set (withdrawn_deployments i (add_reason w i r a db)) \<longleftrightarrow> queued_for i db k"
  by (force simp: withdrawn_deployments_def queued_for_def withdraw_guard_def List.map_filter_def)

lemma pause_keeps:
  assumes "\<not> queued_for i db k"
  shows "find_deployment k (pause_effect w i r a db) = find_deployment k db"
  using assms withdrawn_iff [of k i w r a db]
  by (cases "find_deployment k db") (auto simp: pause_effect_def Let_def withdraw_jobs_def ask_to_cancel_def withdraw_deployments_def
      find_row_update dest: find_row_SomeD)

lemma pause_keeps_inactive:
  assumes "find_deployment k db = Some d" "\<not> active_status (d_status d)"
  shows "find_deployment k (pause_effect w i r a db) = Some d"
  using assms by (auto simp: pause_effect_def Let_def withdraw_jobs_def ask_to_cancel_def withdraw_deployments_def find_row_update)

lemma pause_keeps_apps:
  assumes "find_app q db = Some x" "q \<noteq> i" "\<And>k. a_pending_deployment_id x = Some k \<Longrightarrow> \<not> queued_for i db k"
  shows "find_app q (stamp_suspension v i (pause_effect w i r a db)) = Some x"
proof -
  have "a_id x = q" using assms(1) find_row_SomeD by metis
  moreover have "k \<notin> set (withdrawn_deployments i (add_reason w i r a db))" if "a_pending_deployment_id x = Some k" for k
    using assms(3) [OF that] withdrawn_iff by simp
  ultimately show ?thesis using assms(1,2)
    by (auto simp: stamp_suspension_def pause_effect_def Let_def withdraw_jobs_def ask_to_cancel_def withdraw_deployments_def
        find_row_update split: option.split)
qed

lemma filter_update_where: "(\<And>x. g x \<Longrightarrow> \<not> p x \<and> \<not> p (f x)) \<Longrightarrow> filter p (update_where g f xs) = filter p xs"
  by (induction xs) (auto simp: update_where_def)

lemma pause_keeps_builds:
  "filter (\<lambda>b. \<not> queued_for i db (b_deployment_id b)) (deployment_builds (pause_effect w i r a db))
    = filter (\<lambda>b. \<not> queued_for i db (b_deployment_id b)) (deployment_builds db)"
  by (auto simp: pause_effect_def Let_def withdraw_jobs_def ask_to_cancel_def withdraw_deployments_def withdrawn_iff
      intro!: filter_update_where)

lemma pause_keeps_reasons:
  "filter (\<lambda>p. p_app_id p \<noteq> i) (app_suspensions (pause_effect w i r a db)) = filter (\<lambda>p. p_app_id p \<noteq> i) (app_suspensions db)"
  unfolding pause_effect_frame by (simp add: add_reason_def)

text \<open>
  C29: a pause reaches everything.  When adding a reason succeeds, the app is paused and the reason is
  among those reported; none of its deploy, rollback, build or release jobs is queued any more and
  each one an agent holds has been asked to cancel; an active deployment whose job was still queued
  is cancelled; the job that stops the runtime is queued only by the first reason.  Nothing else is
  touched: no job of another app and no other job of this one, no finished deployment, no deployment
  and no build but those that the queued jobs of the app name, no other app unless its pending
  deployment is one of these, and no pause reason of another app.
\<close>

theorem pause_withdraws_work:
  assumes "change_reason w app_id owner_id reason actor True db = (Inr c, db')"
  shows "sc_suspended c \<and> reason \<in> set (sc_reasons c)
    \<and> (\<exists>a. find_app app_id db' = Some a \<and> a_suspended_at a \<noteq> None)
    \<and> (\<forall>j \<in> set (agent_jobs db'). j_app_id j = Some app_id \<and> lifecycle_job_type (j_job_type j) \<longrightarrow>
         j_status j \<noteq> J_Queued \<and> (job_leased (j_status j) \<longrightarrow> j_cancel_requested_at j \<noteq> None))
    \<and> (\<forall>j \<in> set (agent_jobs db). \<forall>k d. j_app_id j = Some app_id \<and> lifecycle_job_type (j_job_type j)
         \<and> j_status j = J_Queued \<and> j_deployment_id j = Some k \<and> find_deployment k db = Some d
         \<and> active_status (d_status d) \<longrightarrow> (\<exists>d'. find_deployment k db' = Some d' \<and> d_status d' = D_Canceled))
    \<and> (\<forall>q j. find_job q db = Some j \<and> (j_app_id j \<noteq> Some app_id \<or> \<not> lifecycle_job_type (j_job_type j) \<or> \<not> job_live (j_status j))
         \<longrightarrow> find_job q db' = Some j)
    \<and> (\<forall>k. \<not> queued_for app_id db k \<longrightarrow> find_deployment k db' = find_deployment k db)
    \<and> (\<forall>k d. find_deployment k db = Some d \<and> \<not> active_status (d_status d) \<longrightarrow> find_deployment k db' = Some d)
    \<and> (\<forall>q a. find_app q db = Some a \<and> q \<noteq> app_id \<and> (\<forall>k. a_pending_deployment_id a = Some k \<longrightarrow> \<not> queued_for app_id db k)
         \<longrightarrow> find_app q db' = Some a)
    \<and> filter (\<lambda>b. \<not> queued_for app_id db (b_deployment_id b)) (deployment_builds db')
        = filter (\<lambda>b. \<not> queued_for app_id db (b_deployment_id b)) (deployment_builds db)
    \<and> filter (\<lambda>p. p_app_id p \<noteq> app_id) (app_suspensions db') = filter (\<lambda>p. p_app_id p \<noteq> app_id) (app_suspensions db)
    \<and> (sc_job_id c \<noteq> None \<longrightarrow> (\<forall>p \<in> set (app_suspensions db). p_app_id p \<noteq> app_id)
         \<and> (\<exists>j \<in> set (agent_jobs db'). Some (j_id j) = sc_job_id c \<and> j_job_type j = ''suspend_app'' \<and> j_status j = J_Queued))"
  using assms
proof (cases rule: change_elim)
  case (1 target)
  note E = 1 [unfolded reasons_changed_def if_True]
  obtain new where jobs: "agent_jobs db' = map (paused_job w app_id) (agent_jobs db) @ new"
    and new: "\<forall>j \<in> set new. \<not> lifecycle_job_type (j_job_type j)"
    using E(5) by (auto simp: pause_effect_jobs lifecycle_job_type_def split: option.splits if_splits)
  have reasons: "reason \<in> set (sc_reasons c)"
    using app_reasons_add [of app_id w reason actor db] app_reasons_cong [OF pause_effect_frame(1)]
    by (simp add: E(2) set_reasons)
  then have susp: "sc_suspended c" using E(3) by auto
  have nonempty: "app_reasons app_id (pause_effect w app_id reason actor db) \<noteq> []"
    using reasons by (auto simp: E(2) suspension_reasons_in_tx_def)
  obtain a0 where "a0 \<in> set (apps db)" "a_id a0 = app_id" by (rule load_target_app [OF E(1)])
  then have "app_id \<in> set (map a_id (apps (pause_effect w app_id reason actor db)))"
    unfolding pause_effect_frame by auto
  then have app: "\<exists>a. find_app app_id db' = Some a \<and> a_suspended_at a \<noteq> None"
    using stamped_app nonempty unfolding E(6) by (metis oldest_reason_None_iff)
  have held: "j_status j \<noteq> J_Queued \<and> (job_leased (j_status j) \<longrightarrow> j_cancel_requested_at j \<noteq> None)"
    if j: "j \<in> set (agent_jobs db')" "j_app_id j = Some app_id" "lifecycle_job_type (j_job_type j)" for j
  proof -
    obtain q where "j = paused_job w app_id q" using j new unfolding jobs by auto
    then show ?thesis using j(2,3)
      by (auto simp: paused_job_def withdraw_guard_def coalesce_def split: if_splits option.splits)
  qed
  have deps: "\<exists>d'. find_deployment k db' = Some d' \<and> d_status d' = D_Canceled"
    if "j \<in> set (agent_jobs db)" "j_app_id j = Some app_id" "lifecycle_job_type (j_job_type j)"
      "j_status j = J_Queued" "j_deployment_id j = Some k" "find_deployment k db = Some d" "active_status (d_status d)" for j k d
    unfolding E(7) using withdrawn_deployment [of j db app_id k d] that by (simp add: withdraw_guard_def)
  have same: "paused_job w app_id j = j"
    if "j_app_id j \<noteq> Some app_id \<or> \<not> lifecycle_job_type (j_job_type j) \<or> \<not> job_live (j_status j)" for j
    unfolding paused_job_def withdraw_guard_def using that by (elim disjE) simp_all
  have other: "find_job q db' = Some j" if "find_job q db = Some j"
      "j_app_id j \<noteq> Some app_id \<or> \<not> lifecycle_job_type (j_job_type j) \<or> \<not> job_live (j_status j)" for q j
    unfolding jobs find_row_append using that(1) same [OF that(2)] by (simp add: find_row_map)
  have kept: "\<not> queued_for app_id db k \<Longrightarrow> find_deployment k db' = find_deployment k db"
    "find_deployment k db = Some d \<Longrightarrow> \<not> active_status (d_status d) \<Longrightarrow> find_deployment k db' = Some d" for k d
    unfolding E(7) using pause_keeps pause_keeps_inactive by simp_all
  have kept_apps: "find_app q db' = Some a" if "find_app q db = Some a" "q \<noteq> app_id"
      "\<forall>k. a_pending_deployment_id a = Some k \<longrightarrow> \<not> queued_for app_id db k" for q a
    unfolding E(6) using pause_keeps_apps that by blast
  note frame = pause_keeps_builds [of app_id db w reason actor, folded E(9)] pause_keeps_reasons [of app_id w reason actor db, folded E(8)]
  have job: "(\<forall>p \<in> set (app_suspensions db). p_app_id p \<noteq> app_id)
      \<and> (\<exists>j \<in> set (agent_jobs db'). Some (j_id j) = sc_job_id c \<and> j_job_type j = ''suspend_app'' \<and> j_status j = J_Queued)"
    if "sc_job_id c \<noteq> None"
  proof -
    from that E(4) obtain t where t: "transition w app_id reason actor True db" "target = Some t" "sc_job_id c = Some (fresh w 0)"
      by (auto split: if_splits)
    then have "app_reasons app_id db = []" by (simp add: transition_def Let_def)
    then have none: "\<forall>p \<in> set (app_suspensions db). p_app_id p \<noteq> app_id" by (simp add: app_reasons_def filter_empty_conv)
    have "\<exists>j \<in> set (agent_jobs db'). j_id j = fresh w 0 \<and> j_job_type j = ''suspend_app'' \<and> j_status j = J_Queued"
      using E(5) t susp by (auto simp: pause_effect_jobs)
    then show ?thesis using none t(3) by auto
  qed
  show ?thesis
    by (intro conjI allI ballI impI) (use reasons susp app held deps other job kept kept_apps frame in blast)+
qed

lemma stamp_other: "q \<noteq> i \<Longrightarrow> find_app q (stamp_suspension w i db) = find_app q db"
  by (cases "find_app q db") (auto simp: stamp_suspension_def find_row_update dest: find_row_SomeD)

text \<open>
  C39: reasons stack.  Removing a reason removes exactly that reason of the app, and ends the pause
  exactly when it was the last one: the app stays paused as long as some other reason is recorded, the
  reported reasons are the remaining ones, and the job that starts the runtime again is queued only when
  the app really was paused and no reason is left.  Apart from that job and the app's own row nothing
  changes: no other job, no deployment, no build and no other app.
\<close>

theorem resume_needs_last_reason:
  assumes "change_reason w app_id owner_id reason actor False db = (Inr c, db')"
  shows "set (sc_reasons c) = {p_reason p | p. p \<in> set (app_suspensions db) \<and> p_app_id p = app_id} - {reason}
    \<and> (sc_suspended c \<longleftrightarrow> (\<exists>p \<in> set (app_suspensions db). p_app_id p = app_id \<and> p_reason p \<noteq> reason))
    \<and> (\<exists>a. find_app app_id db' = Some a \<and> (a_suspended_at a = None \<longleftrightarrow> \<not> sc_suspended c))
    \<and> (sc_job_id c \<noteq> None \<longrightarrow> \<not> sc_suspended c
         \<and> (\<exists>p \<in> set (app_suspensions db). p_app_id p = app_id \<and> p_reason p = reason)
         \<and> (\<exists>j \<in> set (agent_jobs db'). Some (j_id j) = sc_job_id c \<and> j_job_type j = ''resume_app'' \<and> j_status j = J_Queued))
    \<and> take (length (agent_jobs db)) (agent_jobs db') = agent_jobs db
    \<and> length (agent_jobs db') \<le> length (agent_jobs db) + (if sc_job_id c = None then 0 else 1)
    \<and> deployments db' = deployments db \<and> deployment_builds db' = deployment_builds db
    \<and> (\<forall>q. q \<noteq> app_id \<longrightarrow> find_app q db' = find_app q db)
    \<and> app_suspensions db' = filter (\<lambda>p. \<not> (p_app_id p = app_id \<and> p_reason p = reason)) (app_suspensions db)"
  using assms
proof (cases rule: change_elim)
  case (1 target)
  note E = 1 [unfolded reasons_changed_def if_False]
  have set: "set (map p_reason (app_reasons app_id db)) = {p_reason p | p. p \<in> set (app_suspensions db) \<and> p_app_id p = app_id}"
    by (auto simp: app_reasons_def)
  have reasons: "set (sc_reasons c) = {p_reason p | p. p \<in> set (app_suspensions db) \<and> p_app_id p = app_id} - {reason}"
    unfolding E(2) set_reasons app_reasons_remove set ..
  then have susp: "sc_suspended c \<longleftrightarrow> (\<exists>p \<in> set (app_suspensions db). p_app_id p = app_id \<and> p_reason p \<noteq> reason)"
    using E(3) by (auto simp flip: set_empty)
  obtain a0 where "a0 \<in> set (apps db)" "a_id a0 = app_id" by (rule load_target_app [OF E(1)])
  then have "app_id \<in> set (map a_id (apps (remove_reason app_id reason db)))" by (auto simp: remove_reason_def)
  moreover have "app_reasons app_id (remove_reason app_id reason db) = [] \<longleftrightarrow> \<not> sc_suspended c"
    unfolding E(3) E(2) by (simp add: suspension_reasons_in_tx_def flip: set_empty)
  ultimately have app: "\<exists>a. find_app app_id db' = Some a \<and> (a_suspended_at a = None \<longleftrightarrow> \<not> sc_suspended c)"
    using stamped_app unfolding E(6) by (metis oldest_reason_None_iff)
  have job: "\<not> sc_suspended c \<and> (\<exists>p \<in> set (app_suspensions db). p_app_id p = app_id \<and> p_reason p = reason)
      \<and> (\<exists>j \<in> set (agent_jobs db'). Some (j_id j) = sc_job_id c \<and> j_job_type j = ''resume_app'' \<and> j_status j = J_Queued)"
    if "sc_job_id c \<noteq> None"
  proof -
    from that E(4) obtain t where t: "transition w app_id reason actor False db" "target = Some t" "sc_job_id c = Some (fresh w 0)"
      by (auto split: if_splits)
    then have b: "app_reasons app_id db \<noteq> []" "\<not> sc_suspended c"
      using E(2,3) by (auto simp: transition_def Let_def reasons_changed_def)
    then obtain p where "p \<in> set (app_suspensions db)" "p_app_id p = app_id"
      by (auto simp: app_reasons_def filter_empty_conv)
    then have "\<exists>p \<in> set (app_suspensions db). p_app_id p = app_id \<and> p_reason p = reason" using b(2) susp by blast
    moreover have "\<exists>j \<in> set (agent_jobs db'). j_id j = fresh w 0 \<and> j_job_type j = ''resume_app'' \<and> j_status j = J_Queued"
      using E(5) t b(2) by (auto simp: remove_reason_def)
    ultimately show ?thesis using b(2) t(3) by auto
  qed
  have "take (length (agent_jobs db)) (agent_jobs db') = agent_jobs db" "deployments db' = deployments db"
    "deployment_builds db' = deployment_builds db"
    "app_suspensions db' = filter (\<lambda>p. \<not> (p_app_id p = app_id \<and> p_reason p = reason)) (app_suspensions db)"
    using E(5,7,8,9) by (simp_all add: remove_reason_def delete_where_def)
  moreover have "length (agent_jobs db') \<le> length (agent_jobs db) + (if sc_job_id c = None then 0 else 1)"
    using E(4,5) by (auto simp: remove_reason_def split: option.splits)
  moreover have "find_app q db' = find_app q db" if "q \<noteq> app_id" for q
    unfolding E(6) stamp_other [OF that] by (simp add: remove_reason_def)
  ultimately show ?thesis using reasons susp app job by blast
qed

end
