(* ===== verification/Cleanup.thy ===== *)
theory Cleanup
  imports Recovery Candidate
begin

text \<open>
  \<open>apps/api/src/cleanup.rs\<close>: which containers and images a Docker cleanup has to keep, the retention
  rules of the database, and the jobs that ask an agent to clean up.
\<close>

section \<open>Intervals\<close>

definition hours :: "nat \<Rightarrow> timestamp" where
  "hours n = minutes (n * 60)"

definition days :: "nat \<Rightarrow> timestamp" where
  "days n = hours (n * 24)"

text \<open>\<open>t < now() - interval\<close>\<close>

definition older_than :: "world \<Rightarrow> timestamp \<Rightarrow> timestamp \<Rightarrow> bool" where
  "older_than w interval t \<longleftrightarrow> t + interval < tx_now w"

section \<open>Environment knobs\<close>

definition cleanup_keep_previous_value :: "string \<Rightarrow> nat option" where
  "cleanup_keep_previous_value s =
     (let v = trim s in
      if v = [] then None
      else case parse_i64 v of
        Some n \<Rightarrow> if 1 \<le> n \<and> n \<le> 100 then Some (nat n) else None
      | None \<Rightarrow> None)"

definition cleanup_keep_previous :: "world \<Rightarrow> nat" where
  "cleanup_keep_previous w =
     (case Option.bind (env_var w ''HOSTLET_CLEANUP_KEEP_PREVIOUS'') cleanup_keep_previous_value of
        Some n \<Rightarrow> n | None \<Rightarrow> 1)"

definition cleanup_keep_failed_hours_value :: "string \<Rightarrow> nat option" where
  "cleanup_keep_failed_hours_value s =
     (let v = trim s in
      if v = [] then None
      else case parse_i64 v of
        Some n \<Rightarrow> if 0 \<le> n \<and> n \<le> 720 then Some (nat n) else None
      | None \<Rightarrow> None)"

definition cleanup_keep_failed_hours :: "world \<Rightarrow> nat" where
  "cleanup_keep_failed_hours w =
     (case Option.bind (env_var w ''HOSTLET_CLEANUP_KEEP_FAILED_HOURS'') cleanup_keep_failed_hours_value of
        Some n \<Rightarrow> n | None \<Rightarrow> 0)"

definition auto_cleanup_enabled_value :: "string \<Rightarrow> bool" where
  "auto_cleanup_enabled_value s \<longleftrightarrow>
     map to_ascii_lowercase (trim s) \<notin> {''0'', ''false'', ''no''}"

definition auto_cleanup_enabled :: "world \<Rightarrow> bool" where
  "auto_cleanup_enabled w =
     (case env_var w ''HOSTLET_AUTO_CLEANUP'' of Some v \<Rightarrow> auto_cleanup_enabled_value v | None \<Rightarrow> True)"

section \<open>Image references\<close>

text \<open>\<open>chars().any(char::is_whitespace)\<close>, on bytes.\<close>

fun has_whitespace :: "string \<Rightarrow> bool" where
  "has_whitespace [] = False"
| "has_whitespace (c # s) =
     (ws1 (byte c)
      \<or> (case s of d # _ \<Rightarrow> ws2 (byte c) (byte d) | [] \<Rightarrow> False)
      \<or> (case s of d # e # _ \<Rightarrow> ws3 (byte c) (byte d) (byte e) | _ \<Rightarrow> False)
      \<or> has_whitespace s)"

definition clean_image_ref :: "string \<Rightarrow> string option" where
  "clean_image_ref value =
     (let image_ref = trim value in
      if image_ref = [] \<or> 512 < length image_ref \<or> has_whitespace image_ref then None
      else Some image_ref)"

definition metadata_image_ref :: "json \<Rightarrow> string \<Rightarrow> string list" where
  "metadata_image_ref metadata k =
     (case Option.bind (get_str metadata k) clean_image_ref of Some r \<Rightarrow> [r] | None \<Rightarrow> [])"

definition deployment_image_refs :: "string option \<Rightarrow> json \<Rightarrow> string list" where
  "deployment_image_refs image_tag metadata = remdups_adj (sort
     ((case Option.bind image_tag clean_image_ref of Some r \<Rightarrow> [r] | None \<Rightarrow> [])
      @ metadata_image_ref metadata ''imageRef'' @ metadata_image_ref metadata ''image_ref''
      @ metadata_image_ref metadata ''imageDigest'' @ metadata_image_ref metadata ''image_digest''
      @ (case json_get metadata ''buildArtifact'' of
           Some artifact \<Rightarrow> metadata_image_ref artifact ''imageRef'' @ metadata_image_ref artifact ''imageDigest''
         | None \<Rightarrow> [])
      @ (case json_get metadata ''build_artifact'' of
           Some artifact \<Rightarrow> metadata_image_ref artifact ''image_ref'' @ metadata_image_ref artifact ''image_digest''
         | None \<Rightarrow> [])))"

section \<open>Which deployments are kept\<close>

definition live_docker_status :: "deployment_status \<Rightarrow> bool" where
  "live_docker_status s \<longleftrightarrow> s = D_Success \<or> s = D_RolledBack"

definition docker_cleanup_keep_status :: "deployment_status \<Rightarrow> bool" where
  "docker_cleanup_keep_status s \<longleftrightarrow> active_status s \<or> live_docker_status s"

definition failed_status :: "deployment_status \<Rightarrow> bool" where
  "failed_status s \<longleftrightarrow> deployment_as_str s \<in> {''failed'', ''expired'', ''cancelled''}"

text \<open>\<open>ORDER BY finished_at DESC NULLS LAST, created_at DESC\<close>, as an ascending key.\<close>

definition finished_desc :: "deployment_row \<Rightarrow> (int \<times> int) \<times> int" where
  "finished_desc d = ((case d_finished_at d of Some t \<Rightarrow> (0, - int t) | None \<Rightarrow> (1, 0)), - int (d_created_at d))"

definition current_first :: "app_row \<Rightarrow> deployment_row \<Rightarrow> int \<times> (int \<times> int) \<times> int" where
  "current_first a d = ((if a_current_deployment_id a = Some (d_id d) then 0 else 1), finished_desc d)"

text \<open>
  The partitions of the two window functions, each in its order: \<open>row_number() <= n\<close> selects the first
  \<open>n\<close> rows of the partition.  Rows that the order does not tell apart keep the order of the table.
\<close>

definition protected_rows :: "app_row \<Rightarrow> db \<Rightarrow> deployment_row list" where
  "protected_rows a db = sort_key (current_first a)
     (filter (\<lambda>d. d_app_id d = a_id a \<and> docker_cleanup_keep_status (d_status d)) (deployments db))"

definition success_rows :: "app_row \<Rightarrow> db \<Rightarrow> deployment_row list" where
  "success_rows a db = sort_key finished_desc
     (filter (\<lambda>d. d_app_id d = a_id a \<and> d_status d = D_Success
        \<and> a_current_deployment_id a \<noteq> Some (d_id d)) (deployments db))"

definition recently_failed :: "world \<Rightarrow> nat \<Rightarrow> deployment_row \<Rightarrow> bool" where
  "recently_failed w keep_failed_hours d \<longleftrightarrow> 0 < keep_failed_hours \<and> failed_status (d_status d)
     \<and> tx_now w \<le> (case d_finished_at d of Some t \<Rightarrow> t | None \<Rightarrow> d_created_at d) + hours keep_failed_hours"

definition keep_deployment :: "world \<Rightarrow> nat \<Rightarrow> nat \<Rightarrow> db \<Rightarrow> deployment_row \<Rightarrow> bool" where
  "keep_deployment w keep_previous keep_failed_hours db d \<longleftrightarrow>
     (case find_app (d_app_id d) db of
        None \<Rightarrow> False
      | Some a \<Rightarrow> active_status (d_status d)
          \<or> d_id d \<in> set (map d_id (take (keep_previous + 1) (protected_rows a db)))
          \<or> d_id d \<in> set (map d_id (take keep_previous (success_rows a db)))
          \<or> recently_failed w keep_failed_hours d)"

definition keep_rows :: "world \<Rightarrow> nat \<Rightarrow> nat \<Rightarrow> db \<Rightarrow> deployment_row list" where
  "keep_rows w keep_previous keep_failed_hours db =
     filter (keep_deployment w keep_previous keep_failed_hours db) (deployments db)"

record keep_lists =
  kl_containers :: "string list"
  kl_images :: "string list"

definition candidate_containers :: "candidate_runtime \<Rightarrow> string list" where
  "candidate_containers c = cr_container_name c # List.map_filter sr_container_name (cr_services c)"

definition docker_keep_lists :: "world \<Rightarrow> nat \<Rightarrow> nat \<Rightarrow> db \<Rightarrow> string + keep_lists" where
  "docker_keep_lists w keep_previous keep_failed_hours db =
     (let rows = keep_rows w keep_previous keep_failed_hours db;
          ids = map d_id rows;
          services = filter (\<lambda>v. v_deployment_id v \<in> set ids) (deployment_services db);
          results = List.map_filter j_result
            (filter (\<lambda>j. case j_deployment_id j of Some i \<Rightarrow> i \<in> set ids | None \<Rightarrow> False) (agent_jobs db)) in
      if fault w 0 \<or> ids \<noteq> [] \<and> faults w [1, 2] then Inl ''database''
      else Inr \<lparr>
        kl_containers = remdups_adj (sort (List.map_filter d_container_name rows
          @ List.map_filter v_container_name services
          @ concat (map candidate_containers (List.map_filter candidate_from_json results)))),
        kl_images = remdups_adj (sort (concat
          (map (\<lambda>d. deployment_image_refs (d_image_tag d) (d_runtime_metadata d)) rows))) \<rparr>)"

definition stale_container_count :: "world \<Rightarrow> nat \<Rightarrow> nat \<Rightarrow> db \<Rightarrow> nat" where
  "stale_container_count w keep_previous keep_failed_hours db =
     count_where (\<lambda>d. d_container_name d \<noteq> None
       \<and> d_id d \<notin> set (map d_id (keep_rows w keep_previous keep_failed_hours db))) (deployments db)"

section \<open>Retention rules\<close>

definition recent_deployments :: "nat \<Rightarrow> uuid \<Rightarrow> db \<Rightarrow> uuid list" where
  "recent_deployments n app_id db = map d_id (take n
     (sort_key (\<lambda>d. - int (d_created_at d)) (filter (\<lambda>d. d_app_id d = app_id) (deployments db))))"

definition log_expired :: "world \<Rightarrow> db \<Rightarrow> log_row \<Rightarrow> bool" where
  "log_expired w db l \<longleftrightarrow>
     (case find_deployment (l_deployment_id l) db of
        None \<Rightarrow> False
      | Some d \<Rightarrow> older_than w (days 30) (l_created_at l)
          \<and> d_id d \<notin> set (recent_deployments 20 (d_app_id d) db)
          \<and> \<not> exists_where (\<lambda>j. j_deployment_id j = Some (d_id d) \<and> job_live (j_status j)) (agent_jobs db))"

text \<open>
  \<open>row_number() OVER (PARTITION BY app_id ORDER BY created_at DESC) > n\<close>: at least \<open>n\<close> events of the
  same app come before this one.  The events are numbered by their place in the table, and of two
  events of the same instant the later one comes first.
\<close>

definition event_before :: "nat \<times> health_event_row \<Rightarrow> nat \<times> health_event_row \<Rightarrow> bool" where
  "event_before p q \<longleftrightarrow> e_app_id (snd p) = e_app_id (snd q)
     \<and> (e_created_at (snd q) < e_created_at (snd p)
        \<or> e_created_at (snd q) = e_created_at (snd p) \<and> fst q < fst p)"

definition numbered :: "'a list \<Rightarrow> (nat \<times> 'a) list" where
  "numbered xs = List.enumerate 0 xs"

definition beyond_cap :: "nat \<Rightarrow> health_event_row list \<Rightarrow> nat \<times> health_event_row \<Rightarrow> bool" where
  "beyond_cap n es p \<longleftrightarrow> n \<le> count_where (\<lambda>q. event_before q p) (numbered es)"

definition event_expired :: "world \<Rightarrow> health_event_row list \<Rightarrow> nat \<times> health_event_row \<Rightarrow> bool" where
  "event_expired w es p \<longleftrightarrow> older_than w (days 7) (e_created_at (snd p)) \<or> beyond_cap 500 es p"

definition snapshot_expired :: "world \<Rightarrow> db \<Rightarrow> resource_row \<Rightarrow> bool" where
  "snapshot_expired w db r \<longleftrightarrow> older_than w (days 7) (r_sampled_at r)
     \<and> \<not> exists_where (\<lambda>d. d_container_name d = Some (r_container_name r)
          \<and> exists_where (\<lambda>a. a_current_deployment_id a = Some (d_id d)) (apps db)) (deployments db)"

definition job_ended_at :: "job_row \<Rightarrow> timestamp" where
  "job_ended_at j = (case j_finished_at j of Some t \<Rightarrow> t | None \<Rightarrow> j_updated_at j)"

definition completed_job_expired :: "world \<Rightarrow> job_row \<Rightarrow> bool" where
  "completed_job_expired w j \<longleftrightarrow> (j_status j = J_Success \<or> j_status j = J_Cancelled)
     \<and> older_than w (days 30) (job_ended_at j)"

definition failed_job_expired :: "world \<Rightarrow> job_row \<Rightarrow> bool" where
  "failed_job_expired w j \<longleftrightarrow> (j_status j = J_Failed \<or> j_status j = J_Expired)
     \<and> older_than w (days 90) (job_ended_at j)"

section \<open>Purging the database\<close>

record purged =
  pg_deployment_logs :: nat
  pg_health_events :: nat
  pg_resource_snapshots :: nat
  pg_webhook_events :: nat
  pg_completed_agent_jobs :: nat
  pg_failed_agent_jobs :: nat

definition delete_logs :: "world \<Rightarrow> db \<Rightarrow> db" where
  "delete_logs w db = deployment_logs_update (delete_where (log_expired w db)) db"

definition delete_events :: "world \<Rightarrow> db \<Rightarrow> db" where
  "delete_events w db = app_health_events_update
     (\<lambda>es. map snd (filter (\<lambda>p. \<not> event_expired w es p) (numbered es))) db"

definition delete_snapshots :: "world \<Rightarrow> db \<Rightarrow> db" where
  "delete_snapshots w db = app_resource_snapshots_update (delete_where (snapshot_expired w db)) db"

text \<open>The outcomes of a delivery go with it (\<open>ON DELETE CASCADE\<close>).\<close>

definition webhook_expired :: "world \<Rightarrow> webhook_row \<Rightarrow> bool" where
  "webhook_expired w y \<longleftrightarrow> older_than w (days 14) (y_created_at y)"

definition delete_webhooks :: "world \<Rightarrow> db \<Rightarrow> db" where
  "delete_webhooks w db =
     (let ids = map y_id (filter (webhook_expired w) (webhook_events db)) in
      db\<lparr> webhook_events := delete_where (webhook_expired w) (webhook_events db),
          webhook_app_events := delete_where (\<lambda>z. z_event_id z \<in> set ids) (webhook_app_events db) \<rparr>)"

text \<open>Audit events and screenshots lose their reference to a deleted job (\<open>ON DELETE SET NULL\<close>).\<close>

definition forget :: "uuid list \<Rightarrow> uuid option \<Rightarrow> uuid option" where
  "forget ids v = (case v of Some i \<Rightarrow> if i \<in> set ids then None else Some i | None \<Rightarrow> None)"

definition delete_jobs :: "(job_row \<Rightarrow> bool) \<Rightarrow> db \<Rightarrow> db" where
  "delete_jobs P db =
     (let ids = map j_id (filter P (agent_jobs db)) in
      db\<lparr> agent_jobs := delete_where P (agent_jobs db),
          audit_events := map (\<lambda>x. x\<lparr> x_job_id := forget ids (x_job_id x) \<rparr>) (audit_events db),
          app_screenshots := map (\<lambda>i. i\<lparr> i_agent_job_id := forget ids (i_agent_job_id i) \<rparr>) (app_screenshots db) \<rparr>)"

text \<open>Six statements, each its own transaction; the first that fails ends the call.\<close>

definition purge_counts :: "(nat \<Rightarrow> world) \<Rightarrow> db \<Rightarrow> purged" where
  "purge_counts ws db = \<lparr>
     pg_deployment_logs = count_where (log_expired (ws 0) db) (deployment_logs db),
     pg_health_events = count_where (event_expired (ws 1) (app_health_events db)) (numbered (app_health_events db)),
     pg_resource_snapshots = count_where (snapshot_expired (ws 2) db) (app_resource_snapshots db),
     pg_webhook_events = count_where (webhook_expired (ws 3)) (webhook_events db),
     pg_completed_agent_jobs = count_where (completed_job_expired (ws 4)) (agent_jobs db),
     pg_failed_agent_jobs = count_where (failed_job_expired (ws 5)) (agent_jobs db) \<rparr>"

definition apply_database_cleanup :: "(nat \<Rightarrow> world) \<Rightarrow> db \<Rightarrow> (string + purged) \<times> db" where
  "apply_database_cleanup ws db =
     (let db1 = delete_logs (ws 0) db;
          db2 = delete_events (ws 1) db1;
          db3 = delete_snapshots (ws 2) db2;
          db4 = delete_webhooks (ws 3) db3;
          db5 = delete_jobs (completed_job_expired (ws 4)) db4;
          db6 = delete_jobs (failed_job_expired (ws 5)) db5 in
      if fault (ws 0) 0 then (Inl ''database'', db)
      else if fault (ws 1) 0 then (Inl ''database'', db1)
      else if fault (ws 2) 0 then (Inl ''database'', db2)
      else if fault (ws 3) 0 then (Inl ''database'', db3)
      else if fault (ws 4) 0 then (Inl ''database'', db4)
      else if fault (ws 5) 0 then (Inl ''database'', db5)
      else (Inr \<lparr>
        pg_deployment_logs = length (deployment_logs db) - length (deployment_logs db1),
        pg_health_events = length (app_health_events db1) - length (app_health_events db2),
        pg_resource_snapshots = length (app_resource_snapshots db2) - length (app_resource_snapshots db3),
        pg_webhook_events = length (webhook_events db3) - length (webhook_events db4),
        pg_completed_agent_jobs = length (agent_jobs db4) - length (agent_jobs db5),
        pg_failed_agent_jobs = length (agent_jobs db5) - length (agent_jobs db6) \<rparr>, db6))"

section \<open>The plan and the jobs\<close>

record cleanup_plan_row =
  cp_database :: purged
  cp_stale_deployment_containers :: nat
  cp_local_server_id :: "uuid option"
  cp_lists :: keep_lists

definition cleanup_plan_with_keep_failed_hours :: "(nat \<Rightarrow> world) \<Rightarrow> nat \<Rightarrow> db \<Rightarrow> string + cleanup_plan_row" where
  "cleanup_plan_with_keep_failed_hours ws keep_failed_hours db =
     (if list_ex (\<lambda>k. fault (ws k) 0) [0, 1, 2, 3, 4, 5] then Inl ''database''
      else let keep_previous = cleanup_keep_previous (ws 6) in
        and_then (docker_keep_lists (ws 6) keep_previous keep_failed_hours db) (\<lambda>keep.
          if fault (ws 7) 0 \<or> fault (ws 8) 0 then Inl ''database''
          else Inr \<lparr> cp_database = purge_counts ws db,
            cp_stale_deployment_containers = stale_container_count (ws 7) keep_previous keep_failed_hours db,
            cp_local_server_id = map_option s_id (find (\<lambda>s. s_kind s = ''local'') (servers db)),
            cp_lists = keep \<rparr>))"

definition cleanup_plan :: "(nat \<Rightarrow> world) \<Rightarrow> db \<Rightarrow> string + cleanup_plan_row" where
  "cleanup_plan ws db = cleanup_plan_with_keep_failed_hours ws (cleanup_keep_failed_hours (ws 6)) db"

definition cleanup_payload :: "keep_lists \<Rightarrow> json" where
  "cleanup_payload keep = JObj
     [(''type'', JStr ''docker_cleanup''), (''keep_containers'', JArr (map JStr (kl_containers keep))),
      (''keep_images'', JArr (map JStr (kl_images keep))), (''dry_run'', JBool False)]"

definition enqueue_cleanup :: "world \<Rightarrow> uuid \<Rightarrow> keep_lists \<Rightarrow> db \<Rightarrow> (string + uuid) \<times> db" where
  "enqueue_cleanup w server_id keep db =
     enqueue_agent_job w server_id None None ''docker_cleanup'' (cleanup_payload keep) 50 db"

definition run_cleanup :: "(nat \<Rightarrow> world) \<Rightarrow> (nat \<Rightarrow> world) \<Rightarrow> world \<Rightarrow> db \<Rightarrow> (string + purged \<times> uuid option) \<times> db" where
  "run_cleanup plan_ws ws w db =
     (case cleanup_plan plan_ws db of
        Inl e \<Rightarrow> (Inl ''failed to build cleanup plan'', db)
      | Inr plan \<Rightarrow>
        (case apply_database_cleanup ws db of
           (Inl e, db1) \<Rightarrow> (Inl ''database cleanup failed'', db1)
         | (Inr deleted, db1) \<Rightarrow>
           (case cp_local_server_id plan of
              None \<Rightarrow> (Inr (deleted, None), db1)
            | Some server_id \<Rightarrow>
              (case enqueue_cleanup w server_id (cp_lists plan) db1 of
                 (Inl _, db2) \<Rightarrow> (Inr (deleted, None), db2)
               | (Inr job_id, db2) \<Rightarrow> (Inr (deleted, Some job_id), db2)))))"

definition superseded :: string where
  "superseded = ''Superseded by a newer automatic Docker cleanup job.''"

definition supersede_cleanups :: "world \<Rightarrow> uuid \<Rightarrow> db \<Rightarrow> db" where
  "supersede_cleanups w server_id db =
     (if fault w 0 then db
      else update_jobs (\<lambda>j. j_server_id j = Some server_id \<and> j_job_type j = ''docker_cleanup'' \<and> j_status j = J_Queued)
        (\<lambda>j. j\<lparr> j_status := J_Cancelled, j_failure_summary := Some superseded, j_last_error := Some superseded,
               j_finished_at := Some (tx_now w), j_updated_at := tx_now w \<rparr>) db)"

definition auto_cleanup_for_server :: "(nat \<Rightarrow> world) \<Rightarrow> uuid \<Rightarrow> db \<Rightarrow> (string + uuid option) \<times> db" where
  "auto_cleanup_for_server ws server_id db =
     (if \<not> auto_cleanup_enabled (ws 0) then (Inr None, db)
      else case docker_keep_lists (ws 0) (cleanup_keep_previous (ws 0)) (cleanup_keep_failed_hours (ws 0)) db of
        Inl e \<Rightarrow> (Inl e, db)
      | Inr keep \<Rightarrow>
        (case enqueue_cleanup (ws 2) server_id keep (supersede_cleanups (ws 1) server_id db) of
           (Inl e, db1) \<Rightarrow> (Inl e, db1)
         | (Inr job_id, db1) \<Rightarrow> (Inr (Some job_id), db1)))"

fun sweep_servers :: "(nat \<Rightarrow> nat \<Rightarrow> world) \<Rightarrow> nat \<Rightarrow> uuid list \<Rightarrow> db \<Rightarrow> db" where
  "sweep_servers wss k [] db = db"
| "sweep_servers wss k (server_id # ids) db =
     sweep_servers wss (Suc k) ids (snd (auto_cleanup_for_server (wss k) server_id db))"

definition auto_cleanup_sweep :: "world \<Rightarrow> (nat \<Rightarrow> nat \<Rightarrow> world) \<Rightarrow> db \<Rightarrow> db" where
  "auto_cleanup_sweep w wss db =
     (if \<not> auto_cleanup_enabled w \<or> fault w 0 then db
      else sweep_servers wss 0 (remdups (map d_server_id (deployments db))) db)"


section \<open>What a cleanup keeps\<close>

lemma newest_None: "newest t rs = None \<longleftrightarrow> rs = []"
  by (cases rs) (auto split: option.splits)

lemma newest_max:
  "newest t rs = Some d \<Longrightarrow> d \<in> set rs \<and> (\<forall>q \<in> set rs. \<not> later (t q) (t d))"
  by (induction rs arbitrary: d) (auto simp: later_def newest_None split: option.splits if_splits)

lemma set_map_filter: "set (List.map_filter f xs) = {y. \<exists>x \<in> set xs. f x = Some y}"
  by (force simp: List.map_filter_def)

lemma sort_key_hd:
  assumes "d \<in> set rs"
  obtains y ys where "sort_key f rs = y # ys" "y \<in> set rs" "f y \<le> f d"
proof (cases "sort_key f rs")
  case Nil
  with assms show ?thesis by (metis empty_iff set_empty set_sort)
next
  case (Cons y ys)
  have s: "set (y # ys) = set rs" using Cons by (metis set_sort)
  have "sorted (map f (y # ys))" using Cons by (metis sorted_sort_key)
  moreover have "d \<in> set (y # ys)" using assms s by blast
  ultimately have "f y \<le> f d" by auto
  then show ?thesis using that Cons s by (metis list.set_intros(1))
qed

lemma current_kept:
  assumes "d \<in> set (deployments db)" "d_app_id d = a_id a" "a_current_deployment_id a = Some (d_id d)"
    "docker_cleanup_keep_status (d_status d)"
  shows "d_id d \<in> set (map d_id (take (Suc k) (protected_rows a db)))"
proof -
  have "d \<in> set (filter (\<lambda>d. d_app_id d = a_id a \<and> docker_cleanup_keep_status (d_status d)) (deployments db))"
    using assms by simp
  then obtain y ys where y: "protected_rows a db = y # ys" "current_first a y \<le> current_first a d"
    unfolding protected_rows_def by (rule sort_key_hd [where f = "current_first a"])
  from y(2) have "a_current_deployment_id a = Some (d_id y)"
    using assms(3) by (auto simp: current_first_def less_eq_prod_def split: if_splits)
  with assms(3) y(1) show ?thesis by simp
qed

definition finish_distinct :: "uuid \<Rightarrow> db \<Rightarrow> bool" where
  "finish_distinct app_id db \<longleftrightarrow>
     (\<forall>d \<in> set (deployments db). d_app_id d = app_id \<and> d_status d = D_Success \<longrightarrow> d_finished_at d \<noteq> None
        \<and> (\<forall>q \<in> set (deployments db). d_app_id q = app_id \<and> d_status q = D_Success
             \<and> d_finished_at q = d_finished_at d \<longrightarrow> q = d))"

lemma rollback_target_kept:
  assumes "previous_success a db = Some d" "finish_distinct (a_id a) db" "0 < k"
  shows "d_id d \<in> set (map d_id (take k (success_rows a db)))"
proof -
  let ?P = "\<lambda>d. d_app_id d = a_id a \<and> d_status d = D_Success \<and> a_current_deployment_id a \<noteq> Some (d_id d)"
  have eq: "(\<lambda>d. d_app_id d = a_id a \<and> d_status d = D_Success
      \<and> (a_current_deployment_id a = None \<or> a_current_deployment_id a \<noteq> Some (d_id d))) = ?P" by auto
  have new: "newest d_finished_at (filter ?P (deployments db)) = Some d"
    using assms(1) by (simp add: previous_success_def eq)
  from newest_max [OF new] have d: "d \<in> set (filter ?P (deployments db))"
    and max: "\<And>q. q \<in> set (filter ?P (deployments db)) \<Longrightarrow> \<not> later (d_finished_at q) (d_finished_at d)" by auto
  obtain y ys where y: "success_rows a db = y # ys" "y \<in> set (filter ?P (deployments db))"
    "finished_desc y \<le> finished_desc d"
    unfolding success_rows_def by (rule sort_key_hd [OF d, where f = finished_desc])
  have rows: "d \<in> set (deployments db)" "d_app_id d = a_id a" "d_status d = D_Success"
    "y \<in> set (deployments db)" "d_app_id y = a_id a" "d_status y = D_Success" using d y(2) by simp_all
  have "d_finished_at d \<noteq> None" "d_finished_at y \<noteq> None"
    using assms(2) rows unfolding finish_distinct_def by blast+
  then obtain t u where tu: "d_finished_at d = Some t" "d_finished_at y = Some u" by blast
  have "t \<le> u" using y(3) by (simp add: finished_desc_def less_eq_prod_def tu) linarith
  moreover have "u \<le> t" using max [OF y(2)] tu by (simp add: later_def)
  ultimately have "d_finished_at y = d_finished_at d" using tu by simp
  then have "y = d" using assms(2) rows unfolding finish_distinct_def by blast
  then show ?thesis using y(1) assms(3) by (cases k) auto
qed

definition needed :: "app_row \<Rightarrow> db \<Rightarrow> deployment_row \<Rightarrow> bool" where
  "needed a db d \<longleftrightarrow> active_status (d_status d)
     \<or> a_current_deployment_id a = Some (d_id d) \<and> live_docker_status (d_status d)
     \<or> previous_success a db = Some d"

lemma needed_kept:
  assumes "d \<in> set (deployments db)" "find_app (d_app_id d) db = Some a" "needed a db d" "finish_distinct (a_id a) db" "0 < k"
  shows "d \<in> set (keep_rows w k h db)"
proof -
  have a: "d_app_id d = a_id a" using assms(2) by (auto dest: find_row_SomeD)
  show ?thesis
    using assms current_kept [OF assms(1) a, of k] rollback_target_kept [of a db d k] a
    by (auto simp: keep_rows_def keep_deployment_def needed_def docker_cleanup_keep_status_def)
qed

text \<open>
  The images recorded for a deployment: its tag, and the references its metadata has at one of the
  places where the agent writes them.
\<close>

definition recorded_image :: "deployment_row \<Rightarrow> string \<Rightarrow> bool" where
  "recorded_image d t \<longleftrightarrow> d_image_tag d = Some t
     \<or> (\<exists>k \<in> {''imageRef'', ''image_ref'', ''imageDigest'', ''image_digest''}. get_str (d_runtime_metadata d) k = Some t)
     \<or> (\<exists>x. json_get (d_runtime_metadata d) ''buildArtifact'' = Some x \<and> (get_str x ''imageRef'' = Some t \<or> get_str x ''imageDigest'' = Some t))
     \<or> (\<exists>x. json_get (d_runtime_metadata d) ''build_artifact'' = Some x \<and> (get_str x ''image_ref'' = Some t \<or> get_str x ''image_digest'' = Some t))"

text \<open>An image reference as Docker accepts it: visible ASCII, at most 512 characters.\<close>

definition plain_image :: "string \<Rightarrow> bool" where
  "plain_image t \<longleftrightarrow> t \<noteq> [] \<and> length t \<le> 512 \<and> list_all (\<lambda>c. 32 < byte c \<and> byte c < 127) t"

lemma plain_no_whitespace: "list_all (\<lambda>c. 32 < byte c \<and> byte c < 127) t \<Longrightarrow> \<not> has_whitespace t"
  by (induction t rule: has_whitespace.induct) (auto simp: ws1_def ws2_def ws3_def split: list.splits)

lemma plain_image_clean:
  assumes "plain_image t"
  shows "clean_image_ref t = Some t"
proof -
  have visible: "32 < byte c \<and> byte c < 127" if "c \<in> set t" for c
    using assms that by (auto simp: plain_image_def list_all_iff)
  have ne: "t \<noteq> []" using assms by (simp add: plain_image_def)
  have "trim t = t" using visible [OF hd_in_set [OF ne]] visible [OF last_in_set [OF ne]]
    by (intro trim_id [OF ne]) (auto simp: ws1_def)
  then show ?thesis using assms plain_no_whitespace by (simp add: clean_image_ref_def plain_image_def)
qed

lemma recorded_image_listed:
  assumes "recorded_image d t" "plain_image t"
  shows "t \<in> set (deployment_image_refs (d_image_tag d) (d_runtime_metadata d))"
  using assms(1) plain_image_clean [OF assms(2)]
  by (auto simp: recorded_image_def deployment_image_refs_def metadata_image_ref_def)

text \<open>
  C31: a Docker cleanup never takes away what is running or what a rollback needs.  Take a deployment of
  an existing app that is in progress, that is the current one and live, or that a rollback would go
  back to - where the successes of the app finished at different times.  The keep lists of every cleanup
  job contain its container, its service containers, the containers of a candidate that one of its jobs
  has reported, and every image recorded for the deployment itself: the tag and the references of its
  metadata.  The images of the further services of a generated topology are not recorded there and not
  kept.
\<close>

theorem cleanup_keeps_needed:
  assumes "docker_keep_lists w (cleanup_keep_previous w) h db = Inr keep" "d \<in> set (deployments db)"
    "find_app (d_app_id d) db = Some a" "needed a db d" "finish_distinct (a_id a) db"
  shows "(\<forall>c. d_container_name d = Some c \<longrightarrow> c \<in> set (kl_containers keep))
    \<and> (\<forall>v \<in> set (deployment_services db). \<forall>c. v_deployment_id v = d_id d \<and> v_container_name v = Some c \<longrightarrow>
         c \<in> set (kl_containers keep))
    \<and> (\<forall>j \<in> set (agent_jobs db). \<forall>r. j_deployment_id j = Some (d_id d)
         \<and> Option.bind (j_result j) candidate_from_json = Some r \<longrightarrow> cr_container_name r \<in> set (kl_containers keep)
         \<and> (\<forall>s \<in> set (cr_services r). \<forall>c. sr_container_name s = Some c \<longrightarrow> c \<in> set (kl_containers keep)))
    \<and> (\<forall>t. recorded_image d t \<and> plain_image t \<longrightarrow> t \<in> set (kl_images keep))"
proof -
  let ?k = "cleanup_keep_previous w"
  have "0 < ?k" by (auto simp: cleanup_keep_previous_def cleanup_keep_previous_value_def Let_def
      split: option.splits if_splits bind_splits)
  then have d: "d \<in> set (keep_rows w ?k h db)" using needed_kept assms(2-5) by blast
  then have id: "d_id d \<in> set (map d_id (keep_rows w ?k h db))" by simp
  let ?rows = "keep_rows w ?k h db" and ?ids = "set (map d_id (keep_rows w ?k h db))"
  let ?jobs = "filter (\<lambda>j. case j_deployment_id j of Some i \<Rightarrow> i \<in> ?ids | None \<Rightarrow> False) (agent_jobs db)"
  have keep: "set (kl_containers keep) = set (List.map_filter d_container_name ?rows)
      \<union> set (List.map_filter v_container_name (filter (\<lambda>v. v_deployment_id v \<in> ?ids) (deployment_services db)))
      \<union> (\<Union>r \<in> set (List.map_filter candidate_from_json (List.map_filter j_result ?jobs)). set (candidate_containers r))"
    "set (kl_images keep) = (\<Union>d \<in> set ?rows. set (deployment_image_refs (d_image_tag d) (d_runtime_metadata d)))"
    using assms(1) by (auto simp: docker_keep_lists_def Let_def split: if_splits)
  have job: "r \<in> set (List.map_filter candidate_from_json (List.map_filter j_result ?jobs))"
    if q: "j \<in> set (agent_jobs db)" "j_deployment_id j = Some (d_id d)" "Option.bind (j_result j) candidate_from_json = Some r" for j r
  proof -
    obtain x where x: "j_result j = Some x" "candidate_from_json x = Some r" using q(3) by (cases "j_result j") auto
    have "j \<in> set ?jobs" using q(1,2) id by simp
    then have "x \<in> set (List.map_filter j_result ?jobs)" using x(1) unfolding set_map_filter by blast
    then show ?thesis using x(2) unfolding set_map_filter [of candidate_from_json] by blast
  qed
  have own: "c \<in> set (kl_containers keep)" if "d_container_name d = Some c" for c
    unfolding keep(1) set_map_filter using d that by blast
  have services: "c \<in> set (kl_containers keep)"
    if "v \<in> set (deployment_services db)" "v_deployment_id v = d_id d" "v_container_name v = Some c" for v c
    unfolding keep(1) set_map_filter [of v_container_name] using that id by auto
  have "set (candidate_containers r) \<subseteq> set (kl_containers keep)"
    if "j \<in> set (agent_jobs db)" "j_deployment_id j = Some (d_id d)" "Option.bind (j_result j) candidate_from_json = Some r" for j r
    unfolding keep(1) using job [OF that] by blast
  then have candidates: "cr_container_name r \<in> set (kl_containers keep)
      \<and> (\<forall>s \<in> set (cr_services r). \<forall>c. sr_container_name s = Some c \<longrightarrow> c \<in> set (kl_containers keep))"
    if "j \<in> set (agent_jobs db)" "j_deployment_id j = Some (d_id d)" "Option.bind (j_result j) candidate_from_json = Some r" for j r
    using that unfolding candidate_containers_def set_map_filter by (fastforce simp: set_map_filter)
  have images: "t \<in> set (kl_images keep)" if "recorded_image d t" "plain_image t" for t
    unfolding keep(2) using d recorded_image_listed [OF that] by blast
  show ?thesis using own services candidates images by blast
qed


section \<open>What a purge removes\<close>

lemma deleted_count: "length xs - length (delete_where P xs) = count_where P xs"
  using sum_length_filter_compl [of P xs] by (simp add: delete_where_def count_where_def)

lemma kept_count: "length (numbered xs) - length (filter (\<lambda>p. \<not> P p) (numbered xs)) = count_where P (numbered xs)"
  using deleted_count [of "numbered xs" P] by (simp add: delete_where_def)

lemma length_numbered [simp]: "length (numbered xs) = length xs"
  by (simp add: numbered_def)

lemma purge_frame [simp]:
  "deployments (delete_logs w db) = deployments db" "apps (delete_logs w db) = apps db"
  "agent_jobs (delete_logs w db) = agent_jobs db" "app_health_events (delete_logs w db) = app_health_events db"
  "app_resource_snapshots (delete_logs w db) = app_resource_snapshots db" "webhook_events (delete_logs w db) = webhook_events db"
  "deployments (delete_events w db) = deployments db" "apps (delete_events w db) = apps db"
  "agent_jobs (delete_events w db) = agent_jobs db" "deployment_logs (delete_events w db) = deployment_logs db"
  "app_resource_snapshots (delete_events w db) = app_resource_snapshots db" "webhook_events (delete_events w db) = webhook_events db"
  "deployments (delete_snapshots w db) = deployments db" "apps (delete_snapshots w db) = apps db"
  "agent_jobs (delete_snapshots w db) = agent_jobs db" "deployment_logs (delete_snapshots w db) = deployment_logs db"
  "app_health_events (delete_snapshots w db) = app_health_events db" "webhook_events (delete_snapshots w db) = webhook_events db"
  "deployments (delete_webhooks w db) = deployments db" "apps (delete_webhooks w db) = apps db"
  "agent_jobs (delete_webhooks w db) = agent_jobs db" "deployment_logs (delete_webhooks w db) = deployment_logs db"
  "app_health_events (delete_webhooks w db) = app_health_events db"
  "deployments (delete_jobs P db) = deployments db" "apps (delete_jobs P db) = apps db"
  "deployment_logs (delete_jobs P db) = deployment_logs db" "app_health_events (delete_jobs P db) = app_health_events db"
  "agent_jobs (delete_jobs P db) = delete_where P (agent_jobs db)"
  by (simp_all add: delete_logs_def delete_events_def delete_snapshots_def delete_webhooks_def delete_jobs_def Let_def)

lemma purge_tables:
  "deployment_logs (delete_logs w db) = delete_where (log_expired w db) (deployment_logs db)"
  "app_health_events (delete_events w db) =
     map snd (filter (\<lambda>p. \<not> event_expired w (app_health_events db) p) (numbered (app_health_events db)))"
  "app_resource_snapshots (delete_snapshots w db) = delete_where (snapshot_expired w db) (app_resource_snapshots db)"
  "webhook_events (delete_webhooks w db) = delete_where (webhook_expired w) (webhook_events db)"
  by (simp_all add: delete_logs_def delete_events_def delete_snapshots_def delete_webhooks_def Let_def)

lemma snapshot_expired_cong:
  "deployments db' = deployments db \<Longrightarrow> apps db' = apps db \<Longrightarrow> snapshot_expired w db' = snapshot_expired w db"
  by (rule ext) (simp add: snapshot_expired_def)

lemma count_failed_after_completed:
  "count_where (failed_job_expired w) (delete_where (completed_job_expired v) js) = count_where (failed_job_expired w) js"
  by (induction js) (auto simp: count_where_def delete_where_def failed_job_expired_def completed_job_expired_def)

text \<open>
  The preview of a cleanup is what the cleanup does.  The six counts that the plan shows are
  computed by other statements than the deletions, yet for the same database and clock a cleanup
  without database errors deletes exactly the announced number of rows of every table.
\<close>

theorem plan_predicts_cleanup:
  assumes "cleanup_plan ws db = Inr plan"
  shows "fst (apply_database_cleanup ws db) = Inr (cp_database plan)"
proof -
  have ok: "\<not> fault (ws 0) 0" "\<not> fault (ws 1) 0" "\<not> fault (ws 2) 0" "\<not> fault (ws 3) 0" "\<not> fault (ws 4) 0" "\<not> fault (ws 5) 0"
    and plan: "cp_database plan = purge_counts ws db"
    using assms by (auto simp: cleanup_plan_def cleanup_plan_with_keep_failed_hours_def and_then_Inr_iff Let_def split: if_splits)
  have "length es - length (filter (\<lambda>p. \<not> event_expired w es p) (numbered es)) = count_where (event_expired w es) (numbered es)" for w es
    using kept_count [of es "event_expired w es"] by simp
  then show ?thesis
    by (simp add: plan purge_counts_def apply_database_cleanup_def Let_def ok deleted_count count_failed_after_completed
      purge_tables snapshot_expired_cong [of "delete_events (ws 1) (delete_logs (ws 0) db)" db] del: One_nat_def)
qed

section \<open>The cap on health events\<close>

lemma event_before_irrefl: "\<not> event_before p p"
  by (simp add: event_before_def)

lemma event_before_trans: "event_before p q \<Longrightarrow> event_before q r \<Longrightarrow> event_before p r"
  by (auto simp: event_before_def)

lemma event_before_total:
  "e_app_id (snd p) = e_app_id (snd q) \<Longrightarrow> fst p \<noteq> fst q \<Longrightarrow> event_before p q \<or> event_before q p"
  by (auto simp: event_before_def)

lemma count_where_strict:
  assumes "\<And>x. P x \<Longrightarrow> Q x" "y \<in> set xs" "Q y" "\<not> P y"
  shows "count_where P xs < count_where Q xs"
proof -
  have le: "count_where P ys \<le> count_where Q ys" for ys
    using assms(1) by (induction ys) (auto simp: count_where_def)
  show ?thesis using assms(2)
  proof (induction xs)
    case (Cons x xs)
    show ?case
    proof (cases "x = y")
      case True
      then show ?thesis using le [of xs] assms(3,4) by (simp add: count_where_def)
    next
      case False
      then show ?thesis using Cons assms(1) [of x] by (auto simp: count_where_def)
    qed
  qed simp
qed

lemma capped_events:
  "count_where (\<lambda>p. e_app_id (snd p) = i \<and> \<not> beyond_cap n es p) (numbered es) \<le> n"
proof -
  let ?K = "{p \<in> set (numbered es). e_app_id (snd p) = i \<and> \<not> beyond_cap n es p}"
  let ?rank = "\<lambda>p. count_where (\<lambda>q. event_before q p) (numbered es)"
  have lt: "?rank p < ?rank q" if "p \<in> ?K" "event_before p q" for p q
    by (rule count_where_strict [where y = p]) (use that event_before_trans event_before_irrefl in blast)+
  have fst_inj: "p = q" if "p \<in> ?K" "q \<in> ?K" "fst p = fst q" for p q
    using that by (auto simp: numbered_def in_set_enumerate_eq prod_eq_iff)
  have "inj_on ?rank ?K"
  proof (rule inj_onI)
    fix p q assume pq: "p \<in> ?K" "q \<in> ?K" "?rank p = ?rank q"
    show "p = q"
    proof (rule ccontr)
      assume "p \<noteq> q"
      then have "event_before p q \<or> event_before q p" using pq(1,2) fst_inj event_before_total by blast
      then show False using lt pq by fastforce
    qed
  qed
  moreover have "?rank ` ?K \<subseteq> {..<n}" by (auto simp: beyond_cap_def)
  ultimately have "card ?K \<le> n" using card_inj_on_le [of ?rank ?K "{..<n}"] by simp
  moreover have "count_where (\<lambda>p. e_app_id (snd p) = i \<and> \<not> beyond_cap n es p) (numbered es) = card ?K"
    unfolding count_where_def by (subst distinct_card [symmetric]) (simp_all add: numbered_def)
  ultimately show ?thesis by simp
qed

lemma count_map_snd: "count_where P (map snd ps) = count_where (\<lambda>p. P (snd p)) ps"
  by (induction ps) (simp_all add: count_where_def)

lemma count_where_mono: "(\<And>x. P x \<Longrightarrow> Q x) \<Longrightarrow> count_where P xs \<le> count_where Q xs"
  by (induction xs) (auto simp: count_where_def)

lemma count_where_filter: "count_where P (filter Q xs) = count_where (\<lambda>x. P x \<and> Q x) xs"
  by (induction xs) (simp_all add: count_where_def)

lemma capped_rows:
  assumes "\<And>p. keep p \<Longrightarrow> \<not> beyond_cap n es p"
  shows "count_where (\<lambda>e. e_app_id e = i) (map snd (filter keep (numbered es))) \<le> n"
  unfolding count_map_snd count_where_filter
  by (rule order_trans [OF count_where_mono capped_events [of i n es]]) (use assms in blast)

text \<open>
  A purge, finished or cut off by an error, touches neither apps nor deployments, keeps every job
  that is queued or held, and keeps the log of a deployment that such a job belongs to and of the
  twenty newest deployments of each app; a finished purge leaves at most 500 health events per app.
\<close>

theorem cleanup_retains:
  assumes "apply_database_cleanup ws db = (r, db')"
  shows "deployments db' = deployments db \<and> apps db' = apps db
    \<and> (\<forall>j \<in> set (agent_jobs db). job_live (j_status j) \<longrightarrow> j \<in> set (agent_jobs db'))
    \<and> (\<forall>l \<in> set (deployment_logs db). (\<exists>j \<in> set (agent_jobs db). j_deployment_id j = Some (l_deployment_id l) \<and> job_live (j_status j))
         \<or> (\<exists>i. l_deployment_id l \<in> set (recent_deployments 20 i db) \<and> wf_keys db) \<longrightarrow> l \<in> set (deployment_logs db'))
    \<and> ((\<exists>p. r = Inr p) \<longrightarrow> (\<forall>i. count_where (\<lambda>e. e_app_id e = i) (app_health_events db') \<le> 500))"
proof -
  have logs: "deployment_logs db' = deployment_logs (delete_logs (ws 0) db) \<or> deployment_logs db' = deployment_logs db"
    and jobs: "\<exists>P. agent_jobs db' = filter P (agent_jobs db) \<and> (\<forall>j. job_live (j_status j) \<longrightarrow> P j)"
    and same: "deployments db' = deployments db" "apps db' = apps db"
    and events: "(\<exists>p. r = Inr p) \<Longrightarrow> app_health_events db' = app_health_events (delete_events (ws 1) (delete_logs (ws 0) db))"
    using assms by (auto simp: apply_database_cleanup_def Let_def delete_where_def completed_job_expired_def failed_job_expired_def
        split: if_splits intro: exI [of _ "\<lambda>_. True"])
  have recent: "d_app_id d = i" if r: "k \<in> set (recent_deployments 20 i db)" "find_deployment k db = Some d" "wf_keys db" for k i d
  proof -
    obtain q where "q \<in> set (deployments db)" "d_app_id q = i" "d_id q = k"
      using r(1) by (auto simp: recent_deployments_def dest!: in_set_takeD)
    then show ?thesis using r(2,3) by (metis deployment_table.lookup_iff option.inject wf_keys_def)
  qed
  have log: "\<not> log_expired w db l"
    if "(\<exists>j \<in> set (agent_jobs db). j_deployment_id j = Some (l_deployment_id l) \<and> job_live (j_status j))
        \<or> (\<exists>i. l_deployment_id l \<in> set (recent_deployments 20 i db) \<and> wf_keys db)" for w l
  proof (cases "find_deployment (l_deployment_id l) db")
    case (Some d)
    then have "d_id d = l_deployment_id l" by (auto dest: find_row_SomeD)
    with Some that recent [of "l_deployment_id l" _ d] show ?thesis by (auto simp: log_expired_def exists_where_iff)
  qed (simp add: log_expired_def)
  have "l \<in> set (deployment_logs db')"
    if "l \<in> set (deployment_logs db)" "(\<exists>j \<in> set (agent_jobs db). j_deployment_id j = Some (l_deployment_id l) \<and> job_live (j_status j))
        \<or> (\<exists>i. l_deployment_id l \<in> set (recent_deployments 20 i db) \<and> wf_keys db)" for l
    using logs that(1) log [OF that(2), of "ws 0"] by (auto simp: delete_logs_def)
  moreover have "count_where (\<lambda>e. e_app_id e = i) (app_health_events db') \<le> 500" if "\<exists>p. r = Inr p" for i
    using events [OF that] by (simp add: delete_events_def) (rule capped_rows, simp add: event_expired_def)
  moreover have "j \<in> set (agent_jobs db')" if "j \<in> set (agent_jobs db)" "job_live (j_status j)" for j
    using jobs that by auto
  ultimately show ?thesis using same by blast
qed

end
