(* ===== verification/Screenshots.thy ===== *)
theory Screenshots
  imports Cleanup Browser_Health
begin

text \<open>
  \<open>apps/api/src/screenshots.rs\<close> with \<open>screenshots/storage.rs\<close> and \<open>screenshots/recapture.rs\<close>: the
  browser jobs of a live app, the upload of a screenshot by the agent that holds such a job, and the
  sweep over the files.  The screenshot directory is the list of its file names; \<open>io k\<close> says that the
  \<open>k\<close>-th file operation fails.  The hooks of an embedding product are parameters.
\<close>

section \<open>Settings and checks\<close>

definition capture_url_for_domain :: "string \<Rightarrow> string" where
  "capture_url_for_domain domain =
     (let host = trim domain;
          scheme = (if starts_with host ''localhost'' \<or> starts_with host ''127.0.0.1'' \<or> starts_with host ''[::1]''
            then ''http'' else ''https'') in
      scheme @ ''://'' @ host @ ''/'')"

definition screenshotter_image_ref :: "world \<Rightarrow> string" where
  "screenshotter_image_ref w =
     (let image = trim (case env_var w ''HOSTLET_SCREENSHOTTER_IMAGE'' of Some v \<Rightarrow> v | None \<Rightarrow> []);
          registry = (case env_var w ''HOSTLET_IMAGE_REGISTRY'' of Some v \<Rightarrow> v | None \<Rightarrow> ''local'');
          tag = (case env_var w ''HOSTLET_IMAGE_TAG'' of Some v \<Rightarrow> v | None \<Rightarrow> ''latest'') in
      if image \<noteq> [] then image
      else rev (dropWhile (\<lambda>c. c = CHR ''/'') (rev registry)) @ ''/hostlet-screenshotter:'' @ tag)"

definition screenshot_content_type :: "string option \<Rightarrow> string option" where
  "screenshot_content_type header =
     (case header of
        None \<Rightarrow> None
      | Some v \<Rightarrow>
        (let value = trim (hd (split_char CHR '';'' v)) in
         if value = ''image/jpeg'' \<or> value = ''image/jpg'' then Some ''image/jpeg''
         else if value = ''image/webp'' then Some ''image/webp''
         else None))"

definition valid_dimension :: "int option \<Rightarrow> bool" where
  "valid_dimension v \<longleftrightarrow> (case v of None \<Rightarrow> True | Some n \<Rightarrow> 1 \<le> n \<and> n \<le> 4096)"

definition live_deployment_status :: "deployment_status \<Rightarrow> bool" where
  "live_deployment_status s \<longleftrightarrow> s = D_Success \<or> s = D_RolledBack"

text \<open>
  \<open>chrono::Duration::days\<close> panics on a number of days whose milliseconds do not fit in an \<open>i64\<close>;
  \<open>None\<close> stands for that.
\<close>

definition recapture_max_age :: "world \<Rightarrow> timestamp option" where
  "recapture_max_age w =
     (let n = (case positive (Option.bind (env_var w ''HOSTLET_SCREENSHOT_RECAPTURE_DAYS'') parse_i64) of
                Some n \<Rightarrow> n | None \<Rightarrow> 30) in
      if 106751991167 < n then None else Some (days (nat n)))"

section \<open>Queueing browser jobs\<close>

definition screenshot_payload :: "world \<Rightarrow> uuid \<Rightarrow> uuid \<Rightarrow> string \<Rightarrow> string \<Rightarrow> json" where
  "screenshot_payload w app_id deployment_id domain job_type = JObj
     [(''type'', JStr job_type), (''app_id'', JStr (uuid_text w app_id)),
      (''deployment_id'', JStr (uuid_text w deployment_id)),
      (''capture_url'', JStr (capture_url_for_domain domain)), (''width'', JInt 1280), (''height'', JInt 720),
      (''format'', JStr ''jpeg''), (''screenshotter_image'', JStr (screenshotter_image_ref w))]"

definition enqueue_screenshot_job :: "world \<Rightarrow> uuid \<Rightarrow> uuid \<Rightarrow> uuid \<Rightarrow> string \<Rightarrow> string \<Rightarrow> int \<Rightarrow> db
    \<Rightarrow> (string + uuid) \<times> db" where
  "enqueue_screenshot_job w server_id app_id deployment_id domain job_type priority db =
     enqueue_agent_job w server_id (Some app_id) (Some deployment_id) job_type
       (screenshot_payload w app_id deployment_id domain job_type) priority db"

definition screenshot_job_exists :: "uuid \<Rightarrow> uuid \<Rightarrow> db \<Rightarrow> bool" where
  "screenshot_job_exists app_id deployment_id db = exists_where (\<lambda>j. j_app_id j = Some app_id
     \<and> j_deployment_id j = Some deployment_id \<and> j_job_type j = ''browser_smoke'' \<and> job_live (j_status j)) (agent_jobs db)"

definition newest_capture :: "uuid \<Rightarrow> db \<Rightarrow> timestamp option" where
  "newest_capture app_id db =
     (case rev (sort (map i_captured_at (filter (\<lambda>i. i_app_id i = app_id) (app_screenshots db)))) of
        [] \<Rightarrow> None | t # _ \<Rightarrow> Some t)"

definition should_enqueue_capture :: "world \<Rightarrow> uuid \<Rightarrow> uuid \<Rightarrow> db \<Rightarrow> string + bool" where
  "should_enqueue_capture w app_id deployment_id db =
     (if fault w 0 then Inl ''database''
      else if \<not> exists_where (\<lambda>i. i_app_id i = app_id \<and> i_deployment_id i = Some deployment_id
          \<and> i_source i = ''generated'') (app_screenshots db) then Inr True
      else case newest_capture app_id db of
        None \<Rightarrow> Inr True
      | Some captured_at \<Rightarrow>
        (case recapture_max_age w of
           None \<Rightarrow> Inl ''TimeDelta::days out of bounds''
         | Some age \<Rightarrow> Inr (captured_at + age < clock w 0)))"

text \<open>\<open>mark_pending\<close> is a transaction of its own; a failing call leaves nothing of it.\<close>

definition try_mark_pending :: "world \<Rightarrow> uuid \<Rightarrow> uuid \<Rightarrow> db \<Rightarrow> (string + unit) \<times> db" where
  "try_mark_pending w app_id deployment_id db =
     (if faults w [0, 1, 2] then (Inl ''database'', db) else (Inr (), mark_pending w app_id deployment_id db))"

type_synonym capture_hook = "uuid \<Rightarrow> uuid \<Rightarrow> uuid \<Rightarrow> string \<Rightarrow> string + bool"

definition enqueue_auto_screenshot_for_deployment :: "(nat \<Rightarrow> world) \<Rightarrow> capture_hook \<Rightarrow> uuid \<Rightarrow> db
    \<Rightarrow> (string + uuid option) \<times> db" where
  "enqueue_auto_screenshot_for_deployment ws allow_auto_capture deployment_id db =
     (if fault (ws 0) 0 then (Inl ''database'', db)
      else case find_deployment deployment_id db of
        None \<Rightarrow> (Inr None, db)
      | Some d \<Rightarrow>
        (case find (\<lambda>a. a_id a = d_app_id d \<and> a_current_deployment_id a = Some deployment_id) (apps db) of
           None \<Rightarrow> (Inr None, db)
         | Some a \<Rightarrow>
           if \<not> live_deployment_status (d_status d) \<or> \<not> a_public_exposure a then (Inr None, db)
           else case should_enqueue_capture (ws 1) (a_id a) deployment_id db of
             Inl e \<Rightarrow> (Inl e, db)
           | Inr False \<Rightarrow> (Inr None, db)
           | Inr True \<Rightarrow>
             (case allow_auto_capture (a_id a) deployment_id (a_server_id a) (a_domain a) of
                Inl e \<Rightarrow> (Inl e, db)
              | Inr False \<Rightarrow> (Inr None, db)
              | Inr True \<Rightarrow>
                if fault (ws 2) 0 then (Inl ''database'', db)
                else if screenshot_job_exists (a_id a) deployment_id db then (Inr None, db)
                else case try_mark_pending (ws 3) (a_id a) deployment_id db of
                  (Inl e, db1) \<Rightarrow> (Inl e, db1)
                | (Inr _, db1) \<Rightarrow>
                  (case enqueue_screenshot_job (ws 4) (a_server_id a) (a_id a) deployment_id (a_domain a)
                      ''browser_smoke'' 30 db1 of
                     (Inl e, db2) \<Rightarrow> (Inl e, db2)
                   | (Inr job_id, db2) \<Rightarrow> (Inr (Some job_id), db2)))))"

datatype screenshot_queue_error = Queue_NotFound | Queue_NotReady string | Queue_Internal string

definition enqueue_screenshot_for_owner :: "(nat \<Rightarrow> world) \<Rightarrow> uuid \<Rightarrow> uuid \<Rightarrow> db
    \<Rightarrow> (screenshot_queue_error + uuid) \<times> db" where
  "enqueue_screenshot_for_owner ws user_id app_id db =
     (if fault (ws 0) 0 then (Inl (Queue_Internal ''database''), db)
      else case find (\<lambda>a. a_id a = app_id \<and> a_user_id a = user_id) (apps db) of
        None \<Rightarrow> (Inl Queue_NotFound, db)
      | Some a \<Rightarrow>
        if \<not> a_public_exposure a
        then (Inl (Queue_NotReady ''app must be public before Hostlet can publish a screenshot''), db)
        else case Option.bind (a_current_deployment_id a) (\<lambda>k. find_deployment k db) of
          None \<Rightarrow> (Inl (Queue_NotReady ''app does not have a current deployment''), db)
        | Some d \<Rightarrow>
          if \<not> live_deployment_status (d_status d)
          then (Inl (Queue_NotReady ''app must have a live deployment before capture''), db)
          else case enqueue_screenshot_job (ws 1) (a_server_id a) app_id (d_id d) (a_domain a)
              ''capture_screenshot'' 20 db of
            (Inl e, db1) \<Rightarrow> (Inl (Queue_Internal e), db1)
          | (Inr job_id, db1) \<Rightarrow> (Inr job_id, db1))"

definition enqueue_browser_smoke_for_owner :: "(nat \<Rightarrow> world) \<Rightarrow> uuid \<Rightarrow> uuid \<Rightarrow> db
    \<Rightarrow> (screenshot_queue_error + uuid) \<times> db" where
  "enqueue_browser_smoke_for_owner ws user_id app_id db =
     (if fault (ws 0) 0 then (Inl (Queue_Internal ''database''), db)
      else case find (\<lambda>a. a_id a = app_id \<and> a_user_id a = user_id) (apps db) of
        None \<Rightarrow> (Inl Queue_NotFound, db)
      | Some a \<Rightarrow>
        (case Option.bind (a_current_deployment_id a) (\<lambda>k. find_deployment k db) of
           None \<Rightarrow> (Inl (Queue_NotReady ''app does not have a current deployment''), db)
         | Some d \<Rightarrow>
           if \<not> a_public_exposure a then (Inl (Queue_NotReady ''browser checks require a public app''), db)
           else if \<not> live_deployment_status (d_status d)
           then (Inl (Queue_NotReady ''app does not have a live deployment''), db)
           else case try_mark_pending (ws 1) app_id (d_id d) db of
             (Inl e, db1) \<Rightarrow> (Inl (Queue_Internal e), db1)
           | (Inr _, db1) \<Rightarrow>
             (case enqueue_screenshot_job (ws 2) (a_server_id a) app_id (d_id d) (a_domain a)
                 ''browser_smoke'' 20 db1 of
                (Inl e, db2) \<Rightarrow> (Inl (Queue_Internal e), db2)
              | (Inr job_id, db2) \<Rightarrow> (Inr job_id, db2))))"

section \<open>Recapturing stale screenshots\<close>

definition stale_screenshot_deployment_ids :: "world \<Rightarrow> timestamp \<Rightarrow> db \<Rightarrow> uuid list" where
  "stale_screenshot_deployment_ids w age db = List.map_filter
     (\<lambda>a. case Option.bind (a_current_deployment_id a) (\<lambda>k. find_deployment k db) of
        None \<Rightarrow> None
      | Some d \<Rightarrow> if a_public_exposure a \<and> live_deployment_status (d_status d)
          \<and> (case newest_capture (a_id a) db of None \<Rightarrow> True | Some t \<Rightarrow> t + age < clock w 0)
          then Some (d_id d) else None) (apps db)"

fun capture_each :: "(nat \<Rightarrow> nat \<Rightarrow> world) \<Rightarrow> capture_hook \<Rightarrow> nat \<Rightarrow> uuid list \<Rightarrow> db \<Rightarrow> db" where
  "capture_each wss hook k [] db = db"
| "capture_each wss hook k (i # is) db =
     capture_each wss hook (Suc k) is (snd (enqueue_auto_screenshot_for_deployment (wss k) hook i db))"

definition sweep_stale_screenshots :: "world \<Rightarrow> (nat \<Rightarrow> nat \<Rightarrow> world) \<Rightarrow> capture_hook \<Rightarrow> db \<Rightarrow> db" where
  "sweep_stale_screenshots w wss hook db =
     (case recapture_max_age w of
        None \<Rightarrow> db
      | Some age \<Rightarrow> if fault w 0 then db
          else capture_each wss hook 0 (stale_screenshot_deployment_ids w age db) db)"

section \<open>Storing an upload\<close>

record upload_query =
  uq_app_id :: uuid
  uq_deployment_id :: uuid
  uq_job_id :: uuid
  uq_width :: "int option"
  uq_height :: "int option"
  uq_capture_url :: "string option"

datatype upload_error = Upload_NotFound | Upload_Invalid string | Upload_Internal string

definition remove_file :: "(nat \<Rightarrow> bool) \<Rightarrow> nat \<Rightarrow> string \<Rightarrow> string list \<Rightarrow> string list" where
  "remove_file io k name files = (if io k then files else removeAll name files)"

definition write_screenshot_file :: "(nat \<Rightarrow> bool) \<Rightarrow> string \<Rightarrow> string \<Rightarrow> string list \<Rightarrow> bool \<times> string list" where
  "write_screenshot_file io tmp final files =
     (if io 1 then (False, remove_file io 5 tmp files)
      else
        (let files1 = (if tmp \<in> set files then files else files @ [tmp]) in
         if io 2 \<or> io 3 \<or> io 4 then (False, remove_file io 5 tmp files1)
         else (True, removeAll tmp files1 @ (if final \<in> set files1 then [] else [final]))))"

definition upload_authorized :: "uuid \<Rightarrow> upload_query \<Rightarrow> db \<Rightarrow> bool" where
  "upload_authorized server_id q db \<longleftrightarrow> exists_where (\<lambda>j. j_id j = uq_job_id q \<and> j_server_id j = Some server_id
     \<and> j_app_id j = Some (uq_app_id q) \<and> j_deployment_id j = Some (uq_deployment_id q)
     \<and> (j_job_type j = ''capture_screenshot'' \<or> j_job_type j = ''browser_smoke'') \<and> job_leased (j_status j)
     \<and> exists_where (\<lambda>d. d_id d = uq_deployment_id q \<and> d_server_id d = server_id) (deployments db)) (agent_jobs db)"

definition new_screenshot :: "world \<Rightarrow> upload_query \<Rightarrow> string \<Rightarrow> nat \<Rightarrow> string \<Rightarrow> screenshot_row" where
  "new_screenshot w q content_type bytes path = \<lparr> i_id = fresh w 0, i_app_id = uq_app_id q,
     i_deployment_id = Some (uq_deployment_id q), i_agent_job_id = Some (uq_job_id q), i_source = ''generated'',
     i_content_type = content_type, i_byte_size = int bytes, i_width = uq_width q, i_height = uq_height q,
     i_storage_path = path, i_capture_url = uq_capture_url q, i_captured_at = tx_now w \<rparr>"

definition screenshot_path :: "world \<Rightarrow> string \<Rightarrow> string" where
  "screenshot_path w content_type = uuid_text w (fresh w 0) @ (if content_type = ''image/webp'' then ''.webp'' else ''.jpg'')"

type_synonym stored_hook = "screenshot_row \<Rightarrow> db \<Rightarrow> string + db"

definition store_uploaded_screenshot :: "(nat \<Rightarrow> world) \<Rightarrow> (nat \<Rightarrow> bool) \<Rightarrow> stored_hook \<Rightarrow> uuid \<Rightarrow> upload_query
    \<Rightarrow> string \<Rightarrow> nat \<Rightarrow> string list \<Rightarrow> db \<Rightarrow> (upload_error + screenshot_row) \<times> string list \<times> db" where
  "store_uploaded_screenshot ws io after_screenshot_stored server_id q content_type bytes files db =
     (let final = screenshot_path (ws 1) content_type;
          tmp = uuid_text (ws 1) (fresh (ws 1) 0) @ ''.tmp'';
          row = new_screenshot (ws 1) q content_type bytes final in
      if fault (ws 0) 0 then (Inl (Upload_Internal ''database''), files, db)
      else if \<not> upload_authorized server_id q db then (Inl Upload_NotFound, files, db)
      else if \<not> (valid_dimension (uq_width q) \<and> valid_dimension (uq_height q))
      then (Inl (Upload_Invalid ''screenshot dimensions are out of range''), files, db)
      else if io 0 then (Inl (Upload_Internal ''io''), files, db)
      else case write_screenshot_file io tmp final files of
        (False, files1) \<Rightarrow> (Inl (Upload_Internal ''io''), files1, db)
      | (True, files1) \<Rightarrow>
        if fault (ws 1) 0 then (Inl (Upload_Internal ''database''), files1, db)
        else if fault (ws 1) 1 then (Inl (Upload_Internal ''database''), remove_file io 6 final files1, db)
        else case after_screenshot_stored row (app_screenshots_update (\<lambda>is. is @ [row]) db) of
          Inl e \<Rightarrow> (Inl (Upload_Internal e), remove_file io 6 final files1, db)
        | Inr db1 \<Rightarrow>
          if fault (ws 1) 2 then (Inl (Upload_Internal ''database''), remove_file io 6 final files1, db)
          else (Inr row, files1, db1))"

definition max_screenshot_bytes :: nat where
  "max_screenshot_bytes = 4000000"

definition upload_agent_screenshot :: "(nat \<Rightarrow> world) \<Rightarrow> (nat \<Rightarrow> bool) \<Rightarrow> stored_hook \<Rightarrow> uuid option
    \<Rightarrow> string option \<Rightarrow> upload_query \<Rightarrow> nat \<Rightarrow> string list \<Rightarrow> db \<Rightarrow> screenshot_row response \<times> string list \<times> db" where
  "upload_agent_screenshot ws io hook server content_header q bytes files db =
     (case server of
        None \<Rightarrow> (Code UNAUTHORIZED, files, db)
      | Some server_id \<Rightarrow>
        (case screenshot_content_type content_header of
           None \<Rightarrow> (Text BAD_REQUEST ''screenshot must be image/jpeg or image/webp'', files, db)
         | Some content_type \<Rightarrow>
           if bytes = 0 \<or> max_screenshot_bytes < bytes
           then (Text BAD_REQUEST ''screenshot image is empty or too large'', files, db)
           else case store_uploaded_screenshot ws io hook server_id q content_type bytes files db of
             (Inr row, rest) \<Rightarrow> (Reply row, rest)
           | (Inl Upload_NotFound, rest) \<Rightarrow> (Code NOT_FOUND, rest)
           | (Inl (Upload_Invalid m), rest) \<Rightarrow> (Text BAD_REQUEST m, rest)
           | (Inl (Upload_Internal _), rest) \<Rightarrow> (Code INTERNAL_SERVER_ERROR, rest)))"

section \<open>The sweep over the files\<close>

record dir_entry =
  de_stem :: string
  de_ext :: string
  de_is_file :: bool
  de_age :: timestamp  \<comment> \<open>zero when the modification time cannot be read\<close>

definition is_sweep_candidate :: "world \<Rightarrow> string \<Rightarrow> string \<Rightarrow> timestamp \<Rightarrow> bool" where
  "is_sweep_candidate w stem extension age \<longleftrightarrow> extension \<in> {''jpg'', ''webp'', ''tmp''}
     \<and> parse_uuid w stem \<noteq> None \<and> seconds 3600 \<le> age"

definition file_name :: "dir_entry \<Rightarrow> string" where
  "file_name e = de_stem e @ ''.'' @ de_ext e"

text \<open>
  The loop over \<open>read_dir\<close>: \<open>None\<close> is an entry, or its metadata, that cannot be read; \<open>io k\<close> the
  failure to remove the \<open>k\<close>-th file and \<open>fault w k\<close> the failure of its lookup.
\<close>

fun sweep_entries :: "world \<Rightarrow> (nat \<Rightarrow> bool) \<Rightarrow> nat \<Rightarrow> dir_entry option list \<Rightarrow> db \<Rightarrow> string list \<Rightarrow> string list" where
  "sweep_entries w io k [] db files = files"
| "sweep_entries w io k (None # es) db files = sweep_entries w io (Suc k) es db files"
| "sweep_entries w io k (Some e # es) db files =
     sweep_entries w io (Suc k) es db
       (if \<not> de_is_file e \<or> \<not> is_sweep_candidate w (de_stem e) (de_ext e) (de_age e) then files
        else if de_ext e = ''tmp'' then remove_file io k (file_name e) files
        else if fault w k \<or> exists_where (\<lambda>i. i_storage_path i = file_name e) (app_screenshots db) then files
        else remove_file io k (file_name e) files)"

section \<open>Correctness\<close>

lemma remove_file_other: "name \<noteq> f \<Longrightarrow> f \<in> set files \<Longrightarrow> f \<in> set (remove_file io k name files)"
  by (simp add: remove_file_def)

text \<open>
  The sweep over the screenshot directory removes only what nobody needs.  A file that goes has
  a well-formed name and is at least an hour old, and it is a left-over temporary file or no stored
  screenshot refers to it; whatever cannot be read or looked up stays.
\<close>

theorem sweep_spares_stored:
  assumes "f \<in> set files" "f \<notin> set (sweep_entries w io k es db files)"
  shows "\<exists>e. Some e \<in> set es \<and> file_name e = f \<and> de_is_file e \<and> seconds 3600 \<le> de_age e \<and> parse_uuid w (de_stem e) \<noteq> None
    \<and> (de_ext e = ''tmp'' \<or> (de_ext e = ''jpg'' \<or> de_ext e = ''webp'') \<and> (\<forall>i \<in> set (app_screenshots db). i_storage_path i \<noteq> f))"
  using assms
proof (induction w io k es db files rule: sweep_entries.induct)
  case (3 w io k e es db files)
  let ?files = "if \<not> de_is_file e \<or> \<not> is_sweep_candidate w (de_stem e) (de_ext e) (de_age e) then files
        else if de_ext e = ''tmp'' then remove_file io k (file_name e) files
        else if fault w k \<or> exists_where (\<lambda>i. i_storage_path i = file_name e) (app_screenshots db) then files
        else remove_file io k (file_name e) files"
  show ?case
  proof (cases "f \<in> set ?files")
    case True
    with 3 show ?thesis by fastforce
  next
    case False
    then have "file_name e = f" using 3(2) remove_file_other [of "file_name e" f files io k] by (auto split: if_splits)
    moreover have "de_is_file e" "is_sweep_candidate w (de_stem e) (de_ext e) (de_age e)"
      "de_ext e = ''tmp'' \<or> \<not> exists_where (\<lambda>i. i_storage_path i = file_name e) (app_screenshots db)"
      using False 3(2) by (auto split: if_splits)
    ultimately show ?thesis
      by (intro exI [of _ e]) (auto simp: is_sweep_candidate_def exists_where_iff)
  qed
qed simp_all

text \<open>
  Only the agent that holds the browser job of a deployment on its own server stores a screenshot
  for it, at most once per upload, with the file in place when the row becomes visible; a refused
  upload changes no row, and leaves no file behind when the file system works.
\<close>

theorem upload_stored:
  assumes "store_uploaded_screenshot ws io hook server_id q content_type bytes files db = (r, files', db')"
    "\<And>row db. hook row db = Inr db \<or> (\<exists>e. hook row db = Inl e)"
    "screenshot_path (ws 1) content_type \<notin> set files" "uuid_text (ws 1) (fresh (ws 1) 0) @ ''.tmp'' \<notin> set files"
  shows "(case r of
       Inr row \<Rightarrow> upload_authorized server_id q db \<and> app_screenshots db' = app_screenshots db @ [row]
         \<and> i_app_id row = uq_app_id q \<and> i_agent_job_id row = Some (uq_job_id q) \<and> i_storage_path row \<in> set files'
         \<and> agent_jobs db' = agent_jobs db \<and> deployments db' = deployments db
     | Inl e \<Rightarrow> db' = db \<and> ((\<forall>k. \<not> io k) \<and> \<not> fault (ws 1) 0 \<longrightarrow> files' = files))"
proof -
  let ?final = "screenshot_path (ws 1) content_type" and ?tmp = "uuid_text (ws 1) (fresh (ws 1) 0) @ ''.tmp''"
  have ne: "?tmp \<noteq> ?final" by (auto simp: screenshot_path_def)
  obtain b files1 where w: "write_screenshot_file io ?tmp ?final files = (b, files1)" by fastforce
  have w1: "b \<Longrightarrow> files1 = files @ [?final]" and w2: "\<not> b \<Longrightarrow> (\<forall>k. \<not> io k) \<Longrightarrow> files1 = files"
    using w assms(3,4) ne by (auto simp: write_screenshot_file_def Let_def remove_file_def removeAll_id split: if_splits)
  have rm: "(\<forall>k. \<not> io k) \<Longrightarrow> remove_file io 6 ?final (files @ [?final]) = files"
    using assms(3) by (simp add: remove_file_def removeAll_id)
  show ?thesis
    using assms(1) w1 w2 rm assms(2) [of "new_screenshot (ws 1) q content_type bytes ?final"
        "app_screenshots_update (\<lambda>is. is @ [new_screenshot (ws 1) q content_type bytes ?final]) db"]
    by (cases b) (auto simp: store_uploaded_screenshot_def Let_def w new_screenshot_def simp del: One_nat_def split: if_split_asm sum.split_asm)
qed

end
