(* ===== verification/Agent_Messages.thy ===== *)
theory Agent_Messages
  imports Complex_Main Screenshots
begin

text \<open>
  \<open>apps/api/src/agent/messages.rs\<close>, \<open>agent/health_ports.rs\<close> and \<open>truncate_log_line\<close> of
  \<open>agent/validation.rs\<close>: the events an authenticated agent sends over its socket.  Every field of an
  event is validated, capped or dropped before it reaches a table, and every statement is fenced to
  the server the agent authenticated as.
\<close>

section \<open>Reading a message\<close>

definition msg_uuid :: "world \<Rightarrow> json \<Rightarrow> string \<Rightarrow> uuid option" where
  "msg_uuid w msg k = Option.bind (get_str msg k) (parse_uuid w)"

definition bounded_int :: "int \<Rightarrow> int \<Rightarrow> json \<Rightarrow> string \<Rightarrow> int option" where
  "bounded_int lo hi msg k =
     (case Option.bind (json_get msg k) as_i64 of
        Some n \<Rightarrow> if lo \<le> n \<and> n \<le> hi then Some n else None
      | None \<Rightarrow> None)"

text \<open>\<open>chars().take(n)\<close>: a byte that continues a character belongs to the last one taken.\<close>

fun take_chars :: "nat \<Rightarrow> string \<Rightarrow> string" where
  "take_chars n [] = []"
| "take_chars n (c # s) =
     (if is_continuation c then c # take_chars n s
      else case n of 0 \<Rightarrow> [] | Suc m \<Rightarrow> c # take_chars m s)"

definition capped_str :: "json \<Rightarrow> string \<Rightarrow> nat \<Rightarrow> string option" where
  "capped_str msg k max_chars = map_option (take_chars max_chars) (get_str msg k)"

abbreviation port_of :: "json \<Rightarrow> string \<Rightarrow> int option" where
  "port_of \<equiv> bounded_int 1 65535"

definition max_log_line_bytes :: nat where "max_log_line_bytes = 8192"
definition max_log_lines_per_deployment :: nat where "max_log_lines_per_deployment = 20000"
definition max_health_events_per_app :: nat where "max_health_events_per_app = 500"
definition resource_bytes_max :: int where "resource_bytes_max = 1125899906842624"
definition storage_max_volumes :: nat where "storage_max_volumes = 32"
definition health_text_max_chars :: nat where "health_text_max_chars = 512"
definition resource_stat_max_chars :: nat where "resource_stat_max_chars = 128"

section \<open>What a handler reads from outside\<close>

text \<open>
  Doubles: \<open>NaN\<close>, an infinity, or a rational number.  The decoding of a telemetry document into
  \<open>HostResourceSnapshot\<close> and of a bounded double are parameters, as are the status policy and the
  capture hook of an embedding product.  \<open>me_statement k\<close> is the world of the \<open>k\<close>-th statement or
  transaction of a handler; the other worlds belong to the calls named by the field.
\<close>

datatype f64 = F_NaN | F_Infinite bool | F_Finite rat

definition is_finite :: "f64 \<Rightarrow> bool" where
  "is_finite x \<longleftrightarrow> (case x of F_Finite _ \<Rightarrow> True | _ \<Rightarrow> False)"

definition percentage :: "f64 \<Rightarrow> bool" where
  "percentage x \<longleftrightarrow> (case x of F_Finite q \<Rightarrow> 0 \<le> q \<and> q \<le> 100 | _ \<Rightarrow> False)"

record host_resource_snapshot = host_snapshot +
  hs_swap_used_mib :: int
  hs_load_one :: f64
  hs_load_five :: f64
  hs_load_fifteen :: f64
  hs_running_containers :: int
  hs_cpu_utilization_percent :: "f64 option"
  hs_logical_cpu_count :: "int option"

datatype policy_decision = Policy_Accept | Policy_Fail string "json option"

record message_env =
  me_statement :: "nat \<Rightarrow> world"
  me_services :: "nat \<Rightarrow> world"
  me_screenshot :: "nat \<Rightarrow> world"
  me_cleanup :: "nat \<Rightarrow> world"
  me_deploy :: "nat \<Rightarrow> world"
  me_deploy_env :: deploy_env
  me_policy :: "string \<Rightarrow> json option \<Rightarrow> policy_decision"
  me_capture_hook :: capture_hook
  me_decode_snapshot :: "json \<Rightarrow> host_resource_snapshot option"
  me_bounded_f64 :: "json \<Rightarrow> string \<Rightarrow> json option"

section \<open>Heartbeat\<close>

definition valid_host_resource_snapshot :: "host_resource_snapshot \<Rightarrow> bool" where
  "valid_host_resource_snapshot s \<longleftrightarrow> 0 < hs_memory_total_mib s
     \<and> hs_memory_available_mib s \<le> hs_memory_total_mib s \<and> 0 < hs_disk_total_mib s
     \<and> hs_disk_free_mib s \<le> hs_disk_total_mib s
     \<and> is_finite (hs_load_one s) \<and> is_finite (hs_load_five s) \<and> is_finite (hs_load_fifteen s)
     \<and> (case hs_cpu_utilization_percent s of None \<Rightarrow> True | Some x \<Rightarrow> percentage x)
     \<and> (case hs_logical_cpu_count s of None \<Rightarrow> True | Some n \<Rightarrow> 1 \<le> n \<and> n \<le> 4096)"

definition handle_heartbeat :: "message_env \<Rightarrow> uuid \<Rightarrow> json \<Rightarrow> db \<Rightarrow> db" where
  "handle_heartbeat me server_id msg db =
     (let w = me_statement me 0;
          snapshot = (case Option.bind (json_get msg ''resources'') (me_decode_snapshot me) of
             Some s \<Rightarrow> if valid_host_resource_snapshot s then Some (host_snapshot.truncate s) else None
           | None \<Rightarrow> None) in
      if fault w 0 then db
      else update_servers (\<lambda>s. s_id s = server_id)
        (\<lambda>s. s\<lparr> s_status := ''online'', s_last_seen_at := Some (tx_now w),
               s_resource_snapshot := coalesce snapshot (s_resource_snapshot s),
               s_resource_snapshot_at := (if snapshot = None then s_resource_snapshot_at s else Some (tx_now w)) \<rparr>) db)"

section \<open>Services of a deployment\<close>

definition deployment_container_name :: "json \<Rightarrow> string option" where
  "deployment_container_name msg =
     (case get_str msg ''container_name'' of
        Some name \<Rightarrow> if valid_container_name name then Some name else None
      | None \<Rightarrow> None)"

definition service_of_json :: "world \<Rightarrow> uuid \<Rightarrow> uuid \<Rightarrow> json \<Rightarrow> service_row option" where
  "service_of_json w deployment_id app_id service =
     (case (get_str service ''name'', get_str service ''role'') of
        (Some name, Some role) \<Rightarrow>
          if name = [] \<or> 64 < length name \<or> role \<notin> {''web'', ''backing''} then None
          else
            (let health = capped_str service ''healthStatus'' 32 in
             Some \<lparr> v_deployment_id = deployment_id, v_app_id = app_id, v_service_name = name, v_role = role,
               v_container_name = (case get_str service ''containerName'' of
                  Some n \<Rightarrow> if valid_container_name n then Some n else None | None \<Rightarrow> None),
               v_image_tag = capped_str service ''imageTag'' 256,
               v_target_port = port_of service ''targetPort'', v_published_port = port_of service ''publishedPort'',
               v_status = capped_str service ''status'' 64, v_health_status = health,
               v_last_checked_at = Some (tx_now w),
               v_last_healthy_at = (if health = Some ''healthy'' then Some (tx_now w) else None) \<rparr>)
      | _ \<Rightarrow> None)"

definition same_service :: "service_row \<Rightarrow> service_row \<Rightarrow> bool" where
  "same_service v q \<longleftrightarrow> v_deployment_id q = v_deployment_id v \<and> v_service_name q = v_service_name v"

text \<open>\<open>INSERT .. ON CONFLICT (deployment_id, service_name) DO UPDATE\<close> under the cap of 64 services.\<close>

definition upsert_service :: "service_row \<Rightarrow> service_row list \<Rightarrow> service_row list" where
  "upsert_service v rows =
     (if exists_where (same_service v) rows
      then update_where (same_service v)
        (\<lambda>q. q\<lparr> v_role := v_role v, v_container_name := v_container_name v, v_image_tag := v_image_tag v,
               v_target_port := v_target_port v, v_published_port := v_published_port v, v_status := v_status v,
               v_health_status := v_health_status v, v_last_checked_at := v_last_checked_at v,
               v_last_healthy_at := coalesce (v_last_healthy_at v) (v_last_healthy_at q) \<rparr>) rows
      else if count_where (\<lambda>q. v_deployment_id q = v_deployment_id v) rows < deployment_service_report_max
      then rows @ [v] else rows)"

definition persist_service :: "world \<Rightarrow> uuid \<Rightarrow> uuid \<Rightarrow> json \<Rightarrow> db \<Rightarrow> db" where
  "persist_service w server_id deployment_id service db =
     (case find (\<lambda>d. d_id d = deployment_id \<and> d_server_id d = server_id) (deployments db) of
        None \<Rightarrow> db
      | Some d \<Rightarrow>
        (case service_of_json w deployment_id (d_app_id d) service of
           None \<Rightarrow> db
         | Some v \<Rightarrow> if fault w 0 then db else deployment_services_update (upsert_service v) db))"

fun persist_each :: "(nat \<Rightarrow> world) \<Rightarrow> nat \<Rightarrow> uuid \<Rightarrow> uuid \<Rightarrow> json list \<Rightarrow> db \<Rightarrow> db" where
  "persist_each ws k server_id deployment_id [] db = db"
| "persist_each ws k server_id deployment_id (s # ss) db =
     persist_each ws (Suc k) server_id deployment_id ss (persist_service (ws k) server_id deployment_id s db)"

definition persist_deployment_services :: "(nat \<Rightarrow> world) \<Rightarrow> uuid \<Rightarrow> uuid \<Rightarrow> json list \<Rightarrow> db \<Rightarrow> db" where
  "persist_deployment_services ws server_id deployment_id reports =
     persist_each ws 0 server_id deployment_id (take deployment_service_report_max reports)"

section \<open>Status of a deployment\<close>

definition reported_status :: "message_env \<Rightarrow> json \<Rightarrow> (deployment_status \<times> string option \<times> json option) option" where
  "reported_status me msg =
     (case get_str msg ''status'' of
        None \<Rightarrow> None
      | Some status \<Rightarrow>
        if \<not> valid_deployment_status status then None
        else
          (let metadata = json_get msg ''runtime_metadata'' in
           case me_policy me status metadata of
             Policy_Accept \<Rightarrow>
               map_option (\<lambda>s. (s, get_str msg ''failure'', metadata)) (deployment_from_str status)
           | Policy_Fail failure policy_metadata \<Rightarrow>
               Some (D_Failed, Some failure, coalesce policy_metadata metadata)))"

definition build_report :: "uuid \<Rightarrow> uuid \<Rightarrow> deployment_status \<Rightarrow> db \<Rightarrow> bool" where
  "build_report deployment_id server_id status db \<longleftrightarrow> status \<in> {D_Building, D_Publishing, D_Failed}
     \<and> exists_where (\<lambda>j. j_deployment_id j = Some deployment_id \<and> j_server_id j = Some server_id
          \<and> j_job_type j = ''build'' \<and> job_leased (j_status j)) (agent_jobs db)"

definition status_guard :: "uuid \<Rightarrow> uuid \<Rightarrow> deployment_status \<Rightarrow> db \<Rightarrow> deployment_row \<Rightarrow> bool" where
  "status_guard deployment_id server_id status db d \<longleftrightarrow> d_id d = deployment_id
     \<and> (d_server_id d = server_id \<or> build_report deployment_id server_id status db) \<and> active_status (d_status d)"

definition status_set :: "world \<Rightarrow> json \<Rightarrow> deployment_status \<Rightarrow> string option \<Rightarrow> json option \<Rightarrow> deployment_row
    \<Rightarrow> deployment_row" where
  "status_set w msg status failure metadata d = d\<lparr> d_status := status,
     d_image_tag := coalesce (get_str msg ''image_tag'') (d_image_tag d),
     d_container_name := coalesce (deployment_container_name msg) (d_container_name d),
     d_published_port := coalesce (port_of msg ''published_port'') (d_published_port d),
     d_failure_summary := failure,
     d_failure_code := coalesce (get_str msg ''failure_code'') (d_failure_code d),
     d_compose_project := coalesce (get_str msg ''compose_project'') (d_compose_project d),
     d_runtime_metadata := (case metadata of None \<Rightarrow> d_runtime_metadata d | Some m \<Rightarrow> m),
     d_finished_at := (if status \<in> {D_Success, D_Failed, D_RolledBack} then Some (tx_now w) else d_finished_at d) \<rparr>"

definition switch_app :: "world \<Rightarrow> uuid \<Rightarrow> uuid \<Rightarrow> string option \<Rightarrow> db \<Rightarrow> db option" where
  "switch_app w server_id deployment_id local_url db =
     (if faults w [0, 1] then None
      else case find (\<lambda>d. d_id d = deployment_id \<and> d_server_id d = server_id) (deployments db) of
        None \<Rightarrow> None
      | Some d \<Rightarrow>
        if \<not> lock_app (d_app_id d) db \<or> \<not> lock_deployment deployment_id (d_app_id d) db \<or> faults w [2, 3, 4, 5, 6, 7] then None
        else Some (reset_for_activation (d_app_id d) (update_apps (\<lambda>a. a_id a = d_app_id d)
          (\<lambda>a. a\<lparr> a_current_deployment_id := Some deployment_id,
                 a_domain := (case local_url of Some u \<Rightarrow> u | None \<Rightarrow> a_domain a) \<rparr>) db)))"

definition status_followup :: "message_env \<Rightarrow> uuid \<Rightarrow> uuid \<Rightarrow> deployment_status \<Rightarrow> db \<Rightarrow> db" where
  "status_followup me server_id deployment_id status db =
     (let db1 = snd (enqueue_auto_screenshot_for_deployment (me_screenshot me) (me_capture_hook me) deployment_id db) in
      if status = D_Success then snd (auto_cleanup_for_server (me_cleanup me) server_id db1) else db1)"

definition handle_deployment_status :: "message_env \<Rightarrow> uuid \<Rightarrow> json \<Rightarrow> db \<Rightarrow> db" where
  "handle_deployment_status me server_id msg db =
     (let w = me_statement me 0 in
      case (msg_uuid w msg ''deployment_id'', reported_status me msg) of
        (Some i, Some (status, failure, metadata)) \<Rightarrow>
          if fault w 0 then db
          else
            (let updated = count_where (status_guard i server_id status db) (deployments db);
                 db1 = update_deployments (status_guard i server_id status db) (status_set w msg status failure metadata) db;
                 db2 = (case Option.bind (json_get msg ''services'') as_array of
                    Some reports \<Rightarrow> if updated = 1
                      then persist_deployment_services (me_services me) server_id i reports db1 else db1
                  | None \<Rightarrow> db1) in
             if (status = D_Success \<or> status = D_RolledBack) \<and> updated = 1 then
               (case switch_app (me_statement me 1) server_id i (get_str msg ''local_url'') db2 of
                  None \<Rightarrow> db2
                | Some db3 \<Rightarrow> status_followup me server_id i status db3)
             else db2)
      | _ \<Rightarrow> db)"

section \<open>Storage and resource samples\<close>

definition volume_of_json :: "json \<Rightarrow> (string \<times> int) option" where
  "volume_of_json vol =
     (case (capped_str vol ''name'' 64, bounded_int 0 resource_bytes_max vol ''usedBytes'') of
        (Some name, Some bytes) \<Rightarrow> Some (name, bytes) | _ \<Rightarrow> None)"

definition or_zero :: "int option \<Rightarrow> int" where
  "or_zero v = (case v of Some n \<Rightarrow> n | None \<Rightarrow> 0)"

definition handle_storage_stats :: "message_env \<Rightarrow> uuid \<Rightarrow> json \<Rightarrow> db \<Rightarrow> db" where
  "handle_storage_stats me server_id msg db =
     (let w = me_statement me 0 in
      case (msg_uuid w msg ''appId'', bounded_int 0 resource_bytes_max msg ''usedBytes'') of
        (Some app_id, Some used_bytes) \<Rightarrow>
          (let row = \<lparr> u_app_id = app_id, u_used_bytes = used_bytes,
                 u_image_bytes = or_zero (bounded_int 0 resource_bytes_max msg ''imageBytes''),
                 u_container_bytes = or_zero (bounded_int 0 resource_bytes_max msg ''containerBytes''),
                 u_volumes = List.map_filter volume_of_json (take storage_max_volumes
                    (case Option.bind (json_get msg ''volumes'') as_array of Some xs \<Rightarrow> xs | None \<Rightarrow> [])),
                 u_sampled_at = tx_now w \<rparr> in
           if fault w 0 \<or> \<not> exists_where (\<lambda>a. a_id a = app_id \<and> a_server_id a = server_id) (apps db) then db
           else app_storage_usage_update (\<lambda>rows. if exists_where (\<lambda>u. u_app_id u = app_id) rows
              then update_where (\<lambda>u. u_app_id u = app_id) (\<lambda>_. row) rows else rows @ [row]) db)
      | _ \<Rightarrow> db)"

definition resource_text :: "json \<Rightarrow> string \<Rightarrow> string \<Rightarrow> string" where
  "resource_text msg k default_text = take_chars resource_stat_max_chars
     (case get_str msg k of Some s \<Rightarrow> s | None \<Rightarrow> default_text)"

definition handle_resource_stats :: "message_env \<Rightarrow> uuid \<Rightarrow> json \<Rightarrow> db \<Rightarrow> db" where
  "handle_resource_stats me server_id msg db =
     (let w = me_statement me 0; bytes = bounded_int 0 resource_bytes_max msg in
      case get_str msg ''container'' of
        None \<Rightarrow> db
      | Some container \<Rightarrow>
        (let row = \<lparr> r_container_name = container, r_cpu_percent = resource_text msg ''cpuPercent'' ''0%'',
               r_memory_usage = resource_text msg ''memoryUsage'' ''0B / 0B'',
               r_memory_percent = resource_text msg ''memoryPercent'' ''0%'',
               r_network_io = resource_text msg ''networkIo'' ''0B / 0B'',
               r_block_io = resource_text msg ''blockIo'' ''0B / 0B'', r_pids = resource_text msg ''pids'' ''0'',
               r_cpu_percent_value = me_bounded_f64 me msg ''cpuPercentValue'',
               r_memory_usage_bytes = bytes ''memoryUsageBytes'', r_memory_limit_bytes = bytes ''memoryLimitBytes'',
               r_memory_percent_value = me_bounded_f64 me msg ''memoryPercentValue'',
               r_network_rx_bytes = bytes ''networkRxBytes'', r_network_tx_bytes = bytes ''networkTxBytes'',
               r_block_read_bytes = bytes ''blockReadBytes'', r_block_write_bytes = bytes ''blockWriteBytes'',
               r_pids_current = bounded_int 0 1000000 msg ''pidsCurrent'', r_sampled_at = tx_now w \<rparr> in
         if \<not> valid_container_name container \<or> fault w 0
           \<or> \<not> exists_where (\<lambda>d. d_server_id d = server_id \<and> (d_container_name d = Some container
                \<or> exists_where (\<lambda>v. v_deployment_id v = d_id d \<and> v_container_name v = Some container)
                    (deployment_services db))) (deployments db) then db
         else app_resource_snapshots_update (\<lambda>rows. if exists_where (\<lambda>r. r_container_name r = container) rows
            then update_where (\<lambda>r. r_container_name r = container) (\<lambda>_. row) rows else rows @ [row]) db))"

section \<open>Log lines\<close>

definition truncate_log_line :: "string \<Rightarrow> nat \<Rightarrow> string" where
  "truncate_log_line line max_bytes =
     (if length line \<le> max_bytes then line
      else take (boundary_before line max_bytes) line @ ''...[truncated]'')"

record log_event =
  le_deployment_id :: uuid
  le_stream :: string
  le_line :: string

definition log_stream :: "json \<Rightarrow> string" where
  "log_stream msg = (case get_str msg ''stream'' of Some s \<Rightarrow> s | None \<Rightarrow> ''stdout'')"

definition may_log :: "uuid \<Rightarrow> uuid \<Rightarrow> db \<Rightarrow> bool" where
  "may_log deployment_id server_id db \<longleftrightarrow>
     exists_where (\<lambda>d. d_id d = deployment_id \<and> d_server_id d = server_id) (deployments db)
     \<or> exists_where (\<lambda>j. j_deployment_id j = Some deployment_id \<and> j_server_id j = Some server_id
          \<and> j_job_type j = ''build'' \<and> job_leased (j_status j)) (agent_jobs db)"

definition handle_log :: "message_env \<Rightarrow> uuid \<Rightarrow> json \<Rightarrow> db \<Rightarrow> log_event option \<times> db" where
  "handle_log me server_id msg db =
     (let w = me_statement me 0; stream = log_stream msg in
      case (msg_uuid w msg ''deployment_id'', get_str msg ''line'') of
        (Some i, Some text) \<Rightarrow>
          (let line = truncate_log_line text max_log_line_bytes in
           if stream \<notin> {''stdout'', ''stderr'', ''git'', ''docker'', ''caddy''} \<or> fault w 0
             \<or> \<not> may_log i server_id db
             \<or> max_log_lines_per_deployment \<le> count_where (\<lambda>l. l_deployment_id l = i) (deployment_logs db)
           then (None, db)
           else (Some \<lparr> le_deployment_id = i, le_stream = stream, le_line = line \<rparr>,
             deployment_logs_update (\<lambda>ls. ls @ [\<lparr> l_deployment_id = i, l_stream = stream, l_line = line,
               l_created_at = tx_now w \<rparr>]) db))
      | _ \<Rightarrow> (None, db))"

section \<open>Health\<close>

record health_transition_event =
  ht_app_id :: uuid
  ht_deployment_id :: "uuid option"
  ht_container_name :: "string option"
  ht_status :: health_status
  ht_previous_status :: "health_status option"
  ht_checked_url :: "string option"
  ht_http_status :: "int option"
  ht_latency_ms :: "int option"
  ht_failure_count :: int
  ht_success_count :: int
  ht_error :: "string option"

definition is_health_down_status :: "health_status \<Rightarrow> bool" where
  "is_health_down_status s \<longleftrightarrow> s = H_Unhealthy"

definition health_transition_needs_alert :: "health_status \<Rightarrow> health_status option \<Rightarrow> bool" where
  "health_transition_needs_alert status previous \<longleftrightarrow> is_health_down_status status
     \<and> \<not> (case previous of Some p \<Rightarrow> is_health_down_status p | None \<Rightarrow> False)"

definition current_fence :: "uuid \<Rightarrow> uuid \<Rightarrow> uuid \<Rightarrow> db \<Rightarrow> bool" where
  "current_fence server_id app_id deployment_id db \<longleftrightarrow>
     exists_where (\<lambda>a. a_id a = app_id \<and> a_server_id a = server_id
       \<and> a_current_deployment_id a = Some deployment_id) (apps db)"

definition route_owner :: "uuid \<Rightarrow> uuid \<Rightarrow> uuid \<Rightarrow> db \<Rightarrow> deployment_row \<Rightarrow> bool" where
  "route_owner server_id app_id deployment_id db d \<longleftrightarrow> d_id d = deployment_id \<and> d_server_id d = server_id
     \<and> d_app_id d = app_id \<and> current_fence server_id app_id deployment_id db
     \<and> (d_status d = D_Success \<or> d_status d = D_RolledBack)"

definition inferred_backend :: "json \<Rightarrow> string \<Rightarrow> bool" where
  "inferred_backend metadata name \<longleftrightarrow> list_ex
     (\<lambda>s. json_text s ''role'' = Some ''backend'' \<and> json_text s ''name'' = Some name)
     (case Option.bind (json_pointer metadata [''inferenceReceipt'', ''services'']) as_array of
        Some xs \<Rightarrow> xs | None \<Rightarrow> [])"

definition service_port_guard :: "uuid \<Rightarrow> uuid \<Rightarrow> uuid \<Rightarrow> string \<Rightarrow> string option \<Rightarrow> db \<Rightarrow> service_row \<Rightarrow> bool" where
  "service_port_guard server_id app_id deployment_id frontend backend db v \<longleftrightarrow>
     v_deployment_id v = deployment_id \<and> v_app_id v = app_id \<and> v_role v = ''web''
     \<and> exists_where (\<lambda>d. route_owner server_id app_id deployment_id db d \<and> d_container_name d = Some frontend
          \<and> (v_container_name v = Some frontend
             \<or> backend \<noteq> None \<and> v_container_name v = backend \<and> inferred_backend (d_runtime_metadata d) (v_service_name v)))
        (deployments db)"

definition persist_observed_ports :: "(nat \<Rightarrow> world) \<Rightarrow> uuid \<Rightarrow> uuid \<Rightarrow> uuid \<Rightarrow> string option \<Rightarrow> int
    \<Rightarrow> (string \<times> int) option \<Rightarrow> db \<Rightarrow> db" where
  "persist_observed_ports ws server_id app_id deployment_id frontend_container frontend_port backend db =
     (let db1 = (if fault (ws 0) 0 then db
            else update_deployments (\<lambda>d. route_owner server_id app_id deployment_id db d
                \<and> d_container_name d = frontend_container) (\<lambda>d. d\<lparr> d_published_port := Some frontend_port \<rparr>) db) in
      case frontend_container of
        None \<Rightarrow> db1
      | Some frontend \<Rightarrow>
        if fault (ws 1) 0 then db1
        else deployment_services_update (update_where
            (service_port_guard server_id app_id deployment_id frontend (map_option fst backend) db1)
            (\<lambda>v. v\<lparr> v_published_port := (if v_container_name v = Some frontend then Some frontend_port
                   else map_option snd backend) \<rparr>)) db1)"

definition prune_health_events :: "(nat \<Rightarrow> world) \<Rightarrow> uuid \<Rightarrow> db \<Rightarrow> db" where
  "prune_health_events ws app_id db =
     (let db1 = (if fault (ws 0) 0 then db
            else app_health_events_update (delete_where (\<lambda>e. e_app_id e = app_id
              \<and> older_than (ws 0) (days 7) (e_created_at e))) db) in
      if fault (ws 1) 0 then db1
      else app_health_events_update (\<lambda>es. map snd (filter (\<lambda>p. e_app_id (snd p) \<noteq> app_id
        \<or> \<not> beyond_cap max_health_events_per_app es p) (numbered es))) db1)"

record health_report =
  hp_app_id :: uuid
  hp_deployment_id :: "uuid option"
  hp_container :: "string option"
  hp_status :: health_status
  hp_http_status :: "int option"
  hp_latency_ms :: "int option"
  hp_failure_count :: int
  hp_success_count :: int
  hp_checked_url :: "string option"
  hp_error :: "string option"

definition health_report_of :: "world \<Rightarrow> json \<Rightarrow> health_report option" where
  "health_report_of w msg =
     (case (msg_uuid w msg ''app_id'', Option.bind (get_str msg ''status'') health_from_str) of
        (Some app_id, Some status) \<Rightarrow>
          if (case get_str msg ''container_name'' of Some c \<Rightarrow> \<not> valid_container_name c | None \<Rightarrow> False) then None
          else Some \<lparr> hp_app_id = app_id, hp_deployment_id = msg_uuid w msg ''deployment_id'',
            hp_container = get_str msg ''container_name'', hp_status = status,
            hp_http_status = bounded_int 100 599 msg ''http_status'',
            hp_latency_ms = bounded_int 0 300000 msg ''latency_ms'',
            hp_failure_count = or_zero (bounded_int 0 1000000 msg ''failure_count''),
            hp_success_count = or_zero (bounded_int 0 1000000 msg ''success_count''),
            hp_checked_url = capped_str msg ''checked_url'' health_text_max_chars,
            hp_error = capped_str msg ''error'' health_text_max_chars \<rparr>
      | _ \<Rightarrow> None)"

definition health_snapshot :: "world \<Rightarrow> health_report \<Rightarrow> health_row" where
  "health_snapshot w r = \<lparr> h_app_id = hp_app_id r, h_deployment_id = hp_deployment_id r,
     h_container_name = hp_container r, h_status = hp_status r, h_checked_url = hp_checked_url r,
     h_http_status = hp_http_status r, h_latency_ms = hp_latency_ms r, h_failure_count = hp_failure_count r,
     h_success_count = hp_success_count r, h_last_error = hp_error r, h_last_checked_at = Some (tx_now w),
     h_last_healthy_at = (if hp_status r = H_Healthy then Some (tx_now w) else None), h_updated_at = tx_now w \<rparr>"

definition upsert_health :: "health_row \<Rightarrow> health_row list \<Rightarrow> health_row list" where
  "upsert_health h rows =
     (if exists_where (\<lambda>q. h_app_id q = h_app_id h) rows
      then update_where (\<lambda>q. h_app_id q = h_app_id h)
        (\<lambda>q. h\<lparr> h_last_healthy_at := (if h_status h = H_Healthy then h_last_checked_at h else h_last_healthy_at q) \<rparr>) rows
      else rows @ [h])"

definition health_event :: "world \<Rightarrow> health_report \<Rightarrow> health_event_row" where
  "health_event w r = \<lparr> e_app_id = hp_app_id r, e_deployment_id = hp_deployment_id r,
     e_container_name = hp_container r, e_status = hp_status r, e_checked_url = hp_checked_url r,
     e_http_status = hp_http_status r, e_latency_ms = hp_latency_ms r, e_error = hp_error r, e_created_at = tx_now w \<rparr>"

text \<open>
  The transaction: \<open>None\<close> when it is rolled back.  A failing lookup of the previous status is not
  reported by the code, but it aborts the transaction, so that the statement after it fails.
\<close>

definition record_health :: "world \<Rightarrow> uuid \<Rightarrow> health_report \<Rightarrow> db \<Rightarrow> (health_status option \<times> db) option" where
  "record_health w server_id r db =
     (if faults w [0, 1] then None
      else case find (\<lambda>a. a_id a = hp_app_id r \<and> a_server_id a = server_id) (apps db) of
        None \<Rightarrow> None
      | Some a \<Rightarrow>
        if a_current_deployment_id a \<noteq> hp_deployment_id r \<or> is_health_down_status (hp_status r) \<and> fault w 2
          \<or> faults w [3, 4, 5] then None
        else Some ((if is_health_down_status (hp_status r)
              then map_option h_status (find (\<lambda>h. h_app_id h = hp_app_id r) (app_health_snapshots db)) else None),
            app_health_events_update (\<lambda>es. es @ [health_event w r])
              (app_health_snapshots_update (upsert_health (health_snapshot w r)) db)))"

definition observed_backend :: "json \<Rightarrow> (string \<times> int) option" where
  "observed_backend msg =
     (case (get_str msg ''backend_container_name'', port_of msg ''backend_published_port'') of
        (Some c, Some p) \<Rightarrow> if valid_container_name c \<and> get_str msg ''container_name'' \<noteq> Some c then Some (c, p) else None
      | _ \<Rightarrow> None)"

definition handle_health_status :: "message_env \<Rightarrow> uuid \<Rightarrow> json \<Rightarrow> db \<Rightarrow> health_transition_event option \<times> db" where
  "handle_health_status me server_id msg db =
     (case health_report_of (me_statement me 0) msg of
        None \<Rightarrow> (None, db)
      | Some r \<Rightarrow>
        (case record_health (me_statement me 0) server_id r db of
           None \<Rightarrow> (None, db)
         | Some (previous, db1) \<Rightarrow>
           (let db2 = (case (hp_deployment_id r, port_of msg ''published_port'') of
                  (Some deployment_id, Some port) \<Rightarrow> persist_observed_ports (\<lambda>k. me_statement me (1 + k)) server_id
                     (hp_app_id r) deployment_id (hp_container r) port (observed_backend msg) db1
                | _ \<Rightarrow> db1) in
            (if health_transition_needs_alert (hp_status r) previous
             then Some \<lparr> ht_app_id = hp_app_id r, ht_deployment_id = hp_deployment_id r, ht_container_name = hp_container r,
               ht_status = hp_status r, ht_previous_status = previous, ht_checked_url = hp_checked_url r,
               ht_http_status = hp_http_status r, ht_latency_ms = hp_latency_ms r,
               ht_failure_count = hp_failure_count r, ht_success_count = hp_success_count r, ht_error = hp_error r \<rparr>
             else None,
             prune_health_events (\<lambda>k. me_statement me (3 + k)) (hp_app_id r) db2))))"

section \<open>Status of a job\<close>

definition ended :: "job_status \<Rightarrow> bool" where
  "ended s \<longleftrightarrow> s = J_Success \<or> s = J_Failed"

definition job_status_guard :: "uuid \<Rightarrow> uuid \<Rightarrow> job_status \<Rightarrow> db \<Rightarrow> job_row \<Rightarrow> bool" where
  "job_status_guard job_id server_id status db j \<longleftrightarrow> j_id j = job_id \<and> j_server_id j = Some server_id
     \<and> (j_job_type j \<noteq> ''build'' \<or> job_leased status) \<and> job_live (j_status j)
     \<and> \<not> (ended status \<and> (j_cancel_requested_at j \<noteq> None
          \<or> exists_where (\<lambda>a. j_app_id j = Some (a_id a) \<and> a_suspended_at a \<noteq> None \<and> lifecycle_job_type (j_job_type j)) (apps db)))"

definition job_status_set :: "world \<Rightarrow> job_status \<Rightarrow> string option \<Rightarrow> job_row \<Rightarrow> job_row" where
  "job_status_set w status failure j = j\<lparr> j_status := status, j_failure_summary := failure,
     j_payload := (if ended status then scrub (j_payload j) else j_payload j), j_updated_at := tx_now w,
     j_lease_expires_at := (if job_leased status \<and> j_cancel_requested_at j = None then Some (tx_now w + minutes 5)
        else if ended status then None else j_lease_expires_at j),
     j_finished_at := (if ended status then Some (tx_now w) else j_finished_at j) \<rparr>"

definition handle_job_status :: "message_env \<Rightarrow> uuid \<Rightarrow> json \<Rightarrow> db \<Rightarrow> db" where
  "handle_job_status me server_id msg db =
     (let w = me_statement me 0 in
      case (msg_uuid w msg ''job_id'', get_str msg ''status'') of
        (Some job_id, Some text) \<Rightarrow>
          (case (if valid_agent_job_status text then job_from_str text else None) of
             None \<Rightarrow> db
           | Some status \<Rightarrow>
             if faults w [0, 1] then db
             else case find (job_status_guard job_id server_id status db) (agent_jobs db) of
               None \<Rightarrow> db
             | Some j \<Rightarrow>
               if (j_job_type j = ''browser_smoke'' \<and> j_app_id j \<noteq> None \<and> j_deployment_id j \<noteq> None \<and> fault w 2) \<or> fault w 3
               then db
               else record_job_result w (j_job_type j) (j_app_id j) (j_deployment_id j) text (get_str msg ''failure'')
                 (update_jobs (job_status_guard job_id server_id status db)
                   (job_status_set w status (get_str msg ''failure'')) db))
      | _ \<Rightarrow> db)"

section \<open>Repair requests\<close>

definition recently_repaired :: "world \<Rightarrow> uuid \<Rightarrow> db \<Rightarrow> bool" where
  "recently_repaired w app_id db = exists_where (\<lambda>x. x_app_id x = Some app_id
     \<and> x_event_type x = ''runtime_repair_requested'' \<and> tx_now w < x_created_at x + minutes 15) (audit_events db)"

definition handle_reconcile_request :: "message_env \<Rightarrow> uuid \<Rightarrow> json \<Rightarrow> db \<Rightarrow> db" where
  "handle_reconcile_request me server_id msg db =
     (let w = me_statement me 0; w' = me_statement me 1 in
      case (msg_uuid w msg ''app_id'', msg_uuid w msg ''deployment_id'', get_str msg ''reason'') of
        (Some app_id, Some deployment_id, Some reason) \<Rightarrow>
          if \<not> valid_reconcile_reason reason \<or> fault w 0 then db
          else (case find (\<lambda>a. a_id a = app_id \<and> a_server_id a = server_id
                 \<and> a_current_deployment_id a = Some deployment_id) (apps db) of
             None \<Rightarrow> db
           | Some a \<Rightarrow>
             (case find_deployment deployment_id db of
                None \<Rightarrow> db
              | Some d \<Rightarrow>
                if recently_repaired w app_id db then db
                else case create_and_send_deploy (me_deploy me) (me_deploy_env me) (a_user_id a) app_id (d_commit_sha d) db of
                  (Inl _, db1) \<Rightarrow> db1
                | (Inr repair_id, db1) \<Rightarrow>
                  if fault w' 0 then db1
                  else audit (tx_now w') ''agent'' (Some (uuid_text w' server_id)) ''runtime_repair_requested''
                    (Some app_id) (Some repair_id) None
                    (JObj [(''replacesDeploymentId'', JStr (uuid_text w' deployment_id)), (''reason'', JStr reason)]) db1))
      | _ \<Rightarrow> db)"

section \<open>Dispatch\<close>

datatype message_output = Out_None | Out_Log log_event | Out_Health health_transition_event | Out_Runtime_Logs json

definition handle_agent_message :: "message_env \<Rightarrow> uuid \<Rightarrow> json \<Rightarrow> db \<Rightarrow> message_output \<times> db" where
  "handle_agent_message me server_id msg db =
     (case get_str msg ''type'' of
        None \<Rightarrow> (Out_None, db)
      | Some t \<Rightarrow>
        if t = ''runtime_logs_response'' then (Out_Runtime_Logs msg, db)
        else if t = ''heartbeat'' then (Out_None, handle_heartbeat me server_id msg db)
        else if t = ''deployment_status'' then (Out_None, handle_deployment_status me server_id msg db)
        else if t = ''log'' then
          (case handle_log me server_id msg db of
             (Some e, db1) \<Rightarrow> (Out_Log e, db1) | (None, db1) \<Rightarrow> (Out_None, db1))
        else if t = ''resource_stats'' then (Out_None, handle_resource_stats me server_id msg db)
        else if t = ''storage_stats'' then (Out_None, handle_storage_stats me server_id msg db)
        else if t = ''health_status'' then
          (case handle_health_status me server_id msg db of
             (Some e, db1) \<Rightarrow> (Out_Health e, db1) | (None, db1) \<Rightarrow> (Out_None, db1))
        else if t = ''job_status'' then (Out_None, handle_job_status me server_id msg db)
        else if t = ''reconcile_request'' then (Out_None, handle_reconcile_request me server_id msg db)
        else (Out_None, db))"

section \<open>Log lines\<close>

lemma truncate_bound: "length (truncate_log_line line n) \<le> n + 14"
proof (cases "length line \<le> n")
  case False
  have "length (take (boundary_before line n) line) \<le> n" using boundary_before [of line n] by (simp add: min_def)
  with False show ?thesis by (simp add: truncate_log_line_def)
qed (simp add: truncate_log_line_def)

text \<open>
  The log of a deployment cannot outgrow its bounds.  Whatever an agent sends, no deployment gets
  more than 20,000 lines, a stored line has at most 8 KiB and the mark of its truncation, it is the
  line that was sent or a prefix of it cut at a character boundary, and it is announced to the
  listeners exactly when it is stored - which needs the deployment, or a held build of it, to belong
  to the server of the agent.
\<close>

theorem log_bounded:
  assumes "handle_log me server_id msg db = (out, db')"
    "\<forall>i. count_where (\<lambda>l. l_deployment_id l = i) (deployment_logs db) \<le> max_log_lines_per_deployment"
  shows "(\<forall>i. count_where (\<lambda>l. l_deployment_id l = i) (deployment_logs db') \<le> max_log_lines_per_deployment)
    \<and> (out = None \<longrightarrow> db' = db)
    \<and> (\<forall>e. out = Some e \<longrightarrow> may_log (le_deployment_id e) server_id db
         \<and> length (le_line e) \<le> max_log_line_bytes + 14
         \<and> (\<exists>sent n. get_str msg ''line'' = Some sent \<and> is_char_boundary sent n
              \<and> (le_line e = sent \<or> n \<le> max_log_line_bytes \<and> le_line e = take n sent @ ''...[truncated]''))
         \<and> (\<exists>l. deployment_logs db' = deployment_logs db @ [l] \<and> l_deployment_id l = le_deployment_id e
              \<and> l_line l = le_line e \<and> l_stream l = le_stream e))"
proof (cases out)
  case None
  then have "db' = db" using assms(1) by (auto simp: handle_log_def Let_def split: option.splits if_splits)
  with None assms(2) show ?thesis by simp
next
  case (Some e)
  then obtain i sent where E: "get_str msg ''line'' = Some sent" "le_deployment_id e = i" "may_log i server_id db"
    "le_line e = truncate_log_line sent max_log_line_bytes" "le_stream e = log_stream msg"
    "count_where (\<lambda>l. l_deployment_id l = i) (deployment_logs db) < max_log_lines_per_deployment"
    "db' = deployment_logs_update (\<lambda>ls. ls @ [\<lparr> l_deployment_id = i, l_stream = log_stream msg, l_line = le_line e,
        l_created_at = tx_now (me_statement me 0) \<rparr>]) db"
    using assms(1) by (auto simp: handle_log_def Let_def split: option.splits if_splits)
  have "\<exists>n. is_char_boundary sent n \<and> (le_line e = sent \<or> n \<le> max_log_line_bytes \<and> le_line e = take n sent @ ''...[truncated]'')"
    using boundary_before [of sent max_log_line_bytes] by (auto simp: E(4) truncate_log_line_def)
  moreover have "\<forall>k. count_where (\<lambda>l. l_deployment_id l = k) (deployment_logs db') \<le> max_log_lines_per_deployment"
    using assms(2) E(6) by (auto simp: E(7) count_where_def Suc_le_eq)
  moreover have "\<exists>l. deployment_logs db' = deployment_logs db @ [l] \<and> l_deployment_id l = i
      \<and> l_line l = le_line e \<and> l_stream l = le_stream e" using E(5) by (simp add: E(7))
  ultimately show ?thesis using E(1-3) truncate_bound [of sent max_log_line_bytes] Some by (auto simp: E(4))
qed

section \<open>Job reports\<close>

text \<open>
  A job report is fenced.  It changes at most the one job it names, and that only while the job
  is live and belongs to the server of the agent; a job that ended is never reopened.  It can end a
  job only if no cancellation is requested, its app is not paused and it is no build, and then the
  lease and the secrets are gone.  Apps, deployments and builds are not touched.
\<close>

theorem job_report_fenced:
  assumes "handle_job_status me server_id msg db = db'"
  shows "apps db' = apps db \<and> deployments db' = deployments db \<and> deployment_builds db' = deployment_builds db
    \<and> (\<forall>i j. find_job i db = Some j \<longrightarrow> (\<exists>j'. find_job i db' = Some j' \<and> (j' = j \<or>
         msg_uuid (me_statement me 0) msg ''job_id'' = Some i \<and> j_server_id j = Some server_id \<and> job_live (j_status j)
         \<and> j_status j' \<noteq> J_Canceled
         \<and> (ended (j_status j') \<longrightarrow> j_cancel_requested_at j = None \<and> j_job_type j \<noteq> ''build''
              \<and> j_lease_expires_at j' = None \<and> \<not> has_secrets (j_payload j')
              \<and> \<not> (lifecycle_job_type (j_job_type j) \<and> (\<exists>a \<in> set (apps db). j_app_id j = Some (a_id a) \<and> a_suspended_at a \<noteq> None)))
         \<and> (j_cancel_requested_at j \<noteq> None \<longrightarrow> j_lease_expires_at j' = j_lease_expires_at j))))"
proof (cases "db' = db")
  case False
  let ?w = "me_statement me 0"
  have "\<exists>k name status. msg_uuid ?w msg ''job_id'' = Some k \<and> valid_agent_job_status name \<and> job_from_str name = Some status
      \<and> agent_jobs db' = update_where (job_status_guard k server_id status db) (job_status_set ?w status (get_str msg ''failure'')) (agent_jobs db)
      \<and> apps db' = apps db \<and> deployments db' = deployments db \<and> deployment_builds db' = deployment_builds db"
    using False assms by (auto simp: handle_job_status_def Let_def split: option.splits if_splits)
  then obtain k name status where E: "msg_uuid ?w msg ''job_id'' = Some k" "valid_agent_job_status name" "job_from_str name = Some status"
    "agent_jobs db' = update_where (job_status_guard k server_id status db) (job_status_set ?w status (get_str msg ''failure'')) (agent_jobs db)"
    "apps db' = apps db" "deployments db' = deployments db" "deployment_builds db' = deployment_builds db" by blast
  have ok: "status \<noteq> J_Canceled" using E(2,3) by (auto simp: valid_agent_job_status_def job_wire.from_str_iff)
  have look: "find_row j_id i (agent_jobs db') = map_option (\<lambda>j. if job_status_guard k server_id status db j
      then job_status_set ?w status (get_str msg ''failure'') j else j) (find_job i db)" for i
    unfolding E(4) by (rule find_row_update) (simp add: job_status_set_def)
  show ?thesis unfolding E(5-7) look
    using ok by (auto simp: E(1) job_status_set_def job_status_guard_def ended_def exists_where_iff dest: find_row_SomeD)
qed auto

text \<open>
  A progress report of a browser check reads as a failure.  The result of a browser check is
  recorded for every report, also for one that only says that the check is running: the health of
  the current deployment then shows \<open>failed\<close> until the check reports success.
\<close>

theorem running_check_shows_failed:
  assumes "msg_uuid (me_statement me 0) msg ''job_id'' = Some i" "get_str msg ''status'' = Some ''running''"
    "find_job i db = Some j" "j_server_id j = Some server_id" "j_status j = J_Claimed" "j_job_type j = ''browser_smoke''"
    "j_app_id j = Some k" "j_deployment_id j = Some n" "find_app k db = Some a" "a_current_deployment_id a = Some n"
    "app_browser_health db = []" "\<forall>q. \<not> fault (me_statement me 0) q" "wf_keys db"
  shows "\<exists>b. app_browser_health (handle_job_status me server_id msg db) = [b] \<and> w_app_id b = k \<and> w_status b = ''failed''"
proof -
  let ?w = "me_statement me 0"
  have run: "valid_agent_job_status ''running''" "job_from_str ''running'' = Some J_Running"
    using job_wire.from_as [of J_Running] by (simp_all add: valid_agent_job_status_def)
  have "job_status_guard i server_id J_Running db j"
    using assms find_row_SomeD [OF assms(3)] by (simp add: job_status_guard_def ended_def)
  moreover have "r = j" if "r \<in> set (agent_jobs db)" "j_id r = i" for r
    using assms(3,13) that by (metis job_table.lookup_iff option.inject wf_keys_def)
  ultimately have "find (job_status_guard i server_id J_Running db) (agent_jobs db) = Some j"
    using find_row_SomeD [OF assms(3)] find_SomeD
    by (cases "find (job_status_guard i server_id J_Running db) (agent_jobs db)")
      (auto simp: find_None_iff job_status_guard_def dest: find_SomeD)
  then have "handle_job_status me server_id msg db = record_job_result ?w ''browser_smoke'' (Some k) (Some n) ''running''
      (get_str msg ''failure'') (update_jobs (job_status_guard i server_id J_Running db)
        (job_status_set ?w J_Running (get_str msg ''failure'')) db)"
    using assms by (simp add: handle_job_status_def Let_def run)
  then show ?thesis using assms(9-11) by (simp add: record_job_result_def Let_def upsert_browser_def)
qed

section \<open>Deployment reports\<close>

lemma enqueue_agent_job_frame [simp]:
  "deployments (snd (enqueue_agent_job w s i k t p r db)) = deployments db"
  "apps (snd (enqueue_agent_job w s i k t p r db)) = apps db"
  "deployment_services (snd (enqueue_agent_job w s i k t p r db)) = deployment_services db"
proof -
  obtain x y where e: "enqueue_agent_job w s i k t p r db = (x, y)" by fastforce
  then have "deployments y = deployments db \<and> apps y = apps db \<and> deployment_services y = deployment_services db"
    by (cases rule: enqueue_agent_job_elim) (auto simp: Let_def delay_job_def)
  then show "deployments (snd (enqueue_agent_job w s i k t p r db)) = deployments db"
    "apps (snd (enqueue_agent_job w s i k t p r db)) = apps db"
    "deployment_services (snd (enqueue_agent_job w s i k t p r db)) = deployment_services db" by (simp_all add: e)
qed

lemma case_pair_snd: "snd (case p of (Inl e, db1) \<Rightarrow> (Inl (f e), db1) | (Inr x, db1) \<Rightarrow> (Inr (g x), db1)) = snd p"
  by (cases p) (simp split: sum.split)

lemma mark_pending_services: "deployment_services (mark_pending w i k db) = deployment_services db"
  by (auto simp: mark_pending_def split: option.splits)

lemma enqueue_auto_frame:
  "deployments (snd (enqueue_auto_screenshot_for_deployment ws hook i db)) = deployments db
   \<and> apps (snd (enqueue_auto_screenshot_for_deployment ws hook i db)) = apps db
   \<and> deployment_services (snd (enqueue_auto_screenshot_for_deployment ws hook i db)) = deployment_services db"
  by (auto simp: enqueue_auto_screenshot_for_deployment_def try_mark_pending_def enqueue_screenshot_job_def
      mark_pending_services case_pair_snd split: option.split sum.split bool.split)

lemma auto_cleanup_frame:
  "deployments (snd (auto_cleanup_for_server ws s db)) = deployments db
   \<and> apps (snd (auto_cleanup_for_server ws s db)) = apps db
   \<and> deployment_services (snd (auto_cleanup_for_server ws s db)) = deployment_services db"
  by (auto simp: auto_cleanup_for_server_def enqueue_cleanup_def case_pair_snd supersede_cleanups_def split: sum.split)

lemma status_followup_frame [simp]:
  "deployments (status_followup me s i st db) = deployments db" "apps (status_followup me s i st db) = apps db"
  "deployment_services (status_followup me s i st db) = deployment_services db"
  by (simp_all add: status_followup_def Let_def enqueue_auto_frame auto_cleanup_frame)

text \<open>The cap on the services of a deployment.\<close>

definition service_cap :: "service_row list \<Rightarrow> bool" where
  "service_cap rows \<longleftrightarrow> (\<forall>k. count_where (\<lambda>v. v_deployment_id v = k) rows \<le> deployment_service_report_max)"

lemma upsert_service_cap: "service_cap rows \<Longrightarrow> service_cap (upsert_service v rows)"
proof -
  assume cap: "service_cap rows"
  have "count_where (\<lambda>q. v_deployment_id q = k) (update_where P f rows) = count_where (\<lambda>q. v_deployment_id q = k) rows"
    if "\<And>q. v_deployment_id (f q) = v_deployment_id q" for k P f
    using that by (induction rows) (auto simp: count_where_def)
  then show ?thesis using cap
    by (auto simp: upsert_service_def service_cap_def) (auto simp: count_where_def)
qed

lemma persist_each_frame:
  "deployments (persist_each ws k s i xs db) = deployments db \<and> apps (persist_each ws k s i xs db) = apps db
   \<and> (service_cap (deployment_services db) \<longrightarrow> service_cap (deployment_services (persist_each ws k s i xs db)))"
  by (induction ws k s i xs db rule: persist_each.induct)
    (auto simp: persist_service_def upsert_service_cap split: option.splits)

lemma switch_app_frame:
  assumes "switch_app w s i u db = Some db'"
  obtains d dom where "d \<in> set (deployments db)" "d_id d = i" "d_server_id d = s"
    "deployments db' = deployments db" "deployment_services db' = deployment_services db"
    "apps db' = update_where (\<lambda>a. a_id a = d_app_id d) (\<lambda>a. a\<lparr> a_current_deployment_id := Some i, a_domain := dom a \<rparr>) (apps db)"
proof -
  let ?dom = "\<lambda>a. case u of Some u \<Rightarrow> u | None \<Rightarrow> a_domain a"
  obtain d where d: "find (\<lambda>d. d_id d = i \<and> d_server_id d = s) (deployments db) = Some d"
    and db': "db' = reset_for_activation (d_app_id d) (update_apps (\<lambda>a. a_id a = d_app_id d)
      (\<lambda>a. a\<lparr> a_current_deployment_id := Some i, a_domain := ?dom a \<rparr>) db)"
    using assms by (auto simp: switch_app_def split: if_splits option.splits)
  show ?thesis using find_SomeD [OF d] by (intro that [of d ?dom]) (simp_all add: db')
qed

lemma deployment_status_elim:
  assumes "handle_deployment_status me s msg db = db'" "db' \<noteq> db"
  obtains i status failure metadata where "msg_uuid (me_statement me 0) msg ''deployment_id'' = Some i"
    "reported_status me msg = Some (status, failure, metadata)"
    "deployments db' = update_where (status_guard i s status db)
       (status_set (me_statement me 0) msg status failure metadata) (deployments db)"
    "service_cap (deployment_services db) \<Longrightarrow> service_cap (deployment_services db')"
    "apps db' = apps db \<or> live_docker_status status \<and> count_where (status_guard i s status db) (deployments db) = 1
       \<and> (\<exists>d \<in> set (deployments db'). d_id d = i \<and> d_server_id d = s
           \<and> (\<exists>dom. apps db' = update_where (\<lambda>a. a_id a = d_app_id d) (\<lambda>a. a\<lparr> a_current_deployment_id := Some i, a_domain := dom a \<rparr>) (apps db)))"
proof -
  let ?w = "me_statement me 0"
  from assms obtain i status failure metadata where
    E: "msg_uuid ?w msg ''deployment_id'' = Some i" "reported_status me msg = Some (status, failure, metadata)" "\<not> fault ?w 0"
    by (auto simp: handle_deployment_status_def Let_def split: option.splits if_splits)
  define g where "g = status_guard i s status db"
  define db1 where "db1 = update_deployments g (status_set ?w msg status failure metadata) db"
  define db2 where "db2 = (case Option.bind (json_get msg ''services'') as_array of
      Some reports \<Rightarrow> if count_where g (deployments db) = 1 then persist_deployment_services (me_services me) s i reports db1 else db1
    | None \<Rightarrow> db1)"
  have db': "db' = (if (status = D_Success \<or> status = D_RolledBack) \<and> count_where g (deployments db) = 1 then
      (case switch_app (me_statement me 1) s i (get_str msg ''local_url'') db2 of None \<Rightarrow> db2
       | Some db3 \<Rightarrow> status_followup me s i status db3) else db2)"
    unfolding assms(1) [symmetric] handle_deployment_status_def Let_def g_def db1_def db2_def
    by (simp add: E del: One_nat_def)
  have f2: "deployments db2 = deployments db1" "apps db2 = apps db"
    "service_cap (deployment_services db) \<longrightarrow> service_cap (deployment_services db2)"
    unfolding db2_def persist_deployment_services_def using persist_each_frame by (auto simp: db1_def split: option.split)
  show ?thesis
  proof (cases "(status = D_Success \<or> status = D_RolledBack) \<and> count_where g (deployments db) = 1
      \<and> switch_app (me_statement me 1) s i (get_str msg ''local_url'') db2 \<noteq> None")
    case True
    then obtain db3 where sw: "switch_app (me_statement me 1) s i (get_str msg ''local_url'') db2 = Some db3" by blast
    from switch_app_frame [OF this] obtain d dom where d: "d \<in> set (deployments db2)" "d_id d = i" "d_server_id d = s"
      "deployments db3 = deployments db2" "deployment_services db3 = deployment_services db2"
      "apps db3 = update_where (\<lambda>a. a_id a = d_app_id d) (\<lambda>a. a\<lparr> a_current_deployment_id := Some i, a_domain := dom a \<rparr>) (apps db2)" .
    have "db' = status_followup me s i status db3" using True sw db' by auto
    then show ?thesis using d f2 True
      by (intro that [OF E(1,2)]) (auto simp: db1_def g_def live_docker_status_def)
  next
    case False
    then have "db' = db2" using db' by (auto split: option.splits if_splits)
    then show ?thesis using f2 by (intro that [OF E(1,2)]) (auto simp: db1_def g_def)
  qed
qed


lemma reported_status_not_canceled:
  "reported_status me msg = Some (status, f, m) \<Longrightarrow> status \<noteq> D_Canceled"
  by (auto simp: reported_status_def Let_def valid_deployment_status_def deployment_wire.from_str_iff
      split: option.splits if_splits policy_decision.splits)

text \<open>
  C32: a deployment report is fenced.  It changes at most the deployment it names, only while that
  deployment is active, and only for the server the deployment runs on - or, for the progress or
  the failure of a build, for a server that holds the build.  A deployment that ended is never
  reopened, no report can cancel one, a stored container name is kept or replaced by a managed one,
  and an ending is stamped.  An app moves only to a deployment of its own on the reporting server that
  was active and has now succeeded.  A deployment never has more than 64 services.
\<close>

theorem deployment_report_fenced:
  assumes "handle_deployment_status me server_id msg db = db'" "wf_keys db" "service_cap (deployment_services db)"
  shows "(\<forall>i d. find_deployment i db = Some d \<longrightarrow> (\<exists>d'. find_deployment i db' = Some d' \<and> (d' = d \<or>
         msg_uuid (me_statement me 0) msg ''deployment_id'' = Some i \<and> active_status (d_status d)
         \<and> (d_server_id d = server_id \<or> build_report i server_id (d_status d') db) \<and> d_status d' \<noteq> D_Canceled
         \<and> (d_container_name d' = d_container_name d \<or> (\<exists>c. d_container_name d' = Some c \<and> valid_container_name c))
         \<and> (\<not> active_status (d_status d') \<longrightarrow> d_finished_at d' = Some (tx_now (me_statement me 0))))))
    \<and> (\<forall>i a. find_app i db = Some a \<longrightarrow> (\<exists>a'. find_app i db' = Some a' \<and> (a' = a \<or>
         (\<exists>k d d'. a_current_deployment_id a' = Some k \<and> find_deployment k db = Some d \<and> find_deployment k db' = Some d'
            \<and> d_app_id d = i \<and> d_server_id d = server_id \<and> active_status (d_status d) \<and> live_docker_status (d_status d')))))
    \<and> service_cap (deployment_services db')"
proof (cases "db' = db")
  case False
  let ?w = "me_statement me 0"
  obtain i status failure metadata where E: "msg_uuid ?w msg ''deployment_id'' = Some i"
    "reported_status me msg = Some (status, failure, metadata)"
    "deployments db' = update_where (status_guard i server_id status db) (status_set ?w msg status failure metadata) (deployments db)"
    "service_cap (deployment_services db) \<Longrightarrow> service_cap (deployment_services db')"
    "apps db' = apps db \<or> live_docker_status status \<and> count_where (status_guard i server_id status db) (deployments db) = 1
       \<and> (\<exists>d \<in> set (deployments db'). d_id d = i \<and> d_server_id d = server_id
           \<and> (\<exists>dom. apps db' = update_where (\<lambda>a. a_id a = d_app_id d) (\<lambda>a. a\<lparr> a_current_deployment_id := Some i, a_domain := dom a \<rparr>) (apps db)))"
    by (rule deployment_status_elim [OF assms(1) False]) blast
  have st: "status \<noteq> D_Canceled" using E(2) reported_status_not_canceled by blast
  have look: "find_deployment k db' = map_option (\<lambda>d. if status_guard i server_id status db d
      then status_set ?w msg status failure metadata d else d) (find_deployment k db)" for k
    unfolding E(3) by (rule find_row_update) (simp add: status_set_def)
  have name: "d_container_name (status_set ?w msg status failure metadata d) = d_container_name d
      \<or> (\<exists>c. d_container_name (status_set ?w msg status failure metadata d) = Some c \<and> valid_container_name c)" for d
    by (auto simp: status_set_def coalesce_def deployment_container_name_def split: option.splits)
  have set: "d_status (status_set ?w msg status failure metadata d) = status"
    "\<not> active_status status \<longrightarrow> d_finished_at (status_set ?w msg status failure metadata d) = Some (tx_now ?w)"
    "d_id (status_set ?w msg status failure metadata d) = d_id d" "d_app_id (status_set ?w msg status failure metadata d) = d_app_id d"
    "d_server_id (status_set ?w msg status failure metadata d) = d_server_id d" for d
    using st active_or_terminal [of status] by (auto simp: status_set_def)
  have deps: "\<exists>d'. find_deployment k db' = Some d' \<and> (d' = d \<or> msg_uuid ?w msg ''deployment_id'' = Some k \<and> active_status (d_status d)
      \<and> (d_server_id d = server_id \<or> build_report k server_id (d_status d') db) \<and> d_status d' \<noteq> D_Canceled
      \<and> (d_container_name d' = d_container_name d \<or> (\<exists>c. d_container_name d' = Some c \<and> valid_container_name c))
      \<and> (\<not> active_status (d_status d') \<longrightarrow> d_finished_at d' = Some (tx_now ?w)))"
    if "find_deployment k db = Some d" for k d
    using that find_row_SomeD [OF that] name [of d] set [of d] st by (auto simp: look E(1) status_guard_def)
  have switched: "\<exists>a'. find_app q db' = Some a' \<and> (a' = a \<or> (\<exists>k d d'. a_current_deployment_id a' = Some k
      \<and> find_deployment k db = Some d \<and> find_deployment k db' = Some d' \<and> d_app_id d = q \<and> d_server_id d = server_id
      \<and> active_status (d_status d) \<and> live_docker_status (d_status d')))"
    if a: "find_app q db = Some a" for q a
  proof (cases "apps db' = apps db")
    case False
    with E(5) obtain x dom where x: "live_docker_status status" "count_where (status_guard i server_id status db) (deployments db) = 1"
      "x \<in> set (deployments db')" "d_id x = i" "d_server_id x = server_id"
      "apps db' = update_where (\<lambda>a. a_id a = d_app_id x) (\<lambda>a. a\<lparr> a_current_deployment_id := Some i, a_domain := dom a \<rparr>) (apps db)" by blast
    from count_where_1D [OF x(2)] obtain d where d: "d \<in> set (deployments db)" "status_guard i server_id status db d" by blast
    have fd: "find_deployment i db = Some d"
      using d assms(2) by (metis deployment_table.lookup_iff status_guard_def wf_keys_def)
    have keys: "map d_id (deployments db') = map d_id (deployments db)"
      unfolding E(3) by (rule map_update_where) (simp add: set)
    have fd': "find_deployment i db' = Some (status_set ?w msg status failure metadata d)" using fd d(2) by (simp add: look)
    moreover have "find_deployment i db' = Some x"
      using x(3,4) keys assms(2) by (intro find_row_unique) (simp_all add: wf_keys_def)
    ultimately have "x = status_set ?w msg status failure metadata d" by simp
    then have dx: "d_app_id x = d_app_id d" "d_server_id d = server_id" using x(5) set [of d] by auto
    have "find_app q db' = Some (if a_id a = d_app_id x then a\<lparr> a_current_deployment_id := Some i, a_domain := dom a \<rparr> else a)"
      using a unfolding x(6) by (subst find_row_update) simp_all
    moreover have "a_id a = q" using a by (auto dest: find_row_SomeD)
    ultimately show ?thesis using fd fd' dx d(2) x(1) set(1) by (auto simp: status_guard_def)
  qed (use a in auto)
  show ?thesis using deps switched E(4) assms(3) by blast
qed (use assms(3) in auto)

section \<open>Health reports\<close>

lemma upsert_health_hit:
  "\<exists>h'. find (\<lambda>q. h_app_id q = h_app_id h) (upsert_health h rows) = Some h' \<and> h_status h' = h_status h
     \<and> h_deployment_id h' = h_deployment_id h"
proof (cases "exists_where (\<lambda>q. h_app_id q = h_app_id h) rows")
  case True
  then show ?thesis unfolding upsert_health_def by (simp, induction rows) auto
next
  case False
  then have "find (\<lambda>q. h_app_id q = h_app_id h) (rows @ [h]) = Some h" by (induction rows) auto
  with False show ?thesis by (simp add: upsert_health_def)
qed

lemma ports_frame:
  "apps (persist_observed_ports ws s i k c p b db) = apps db"
  "agent_jobs (persist_observed_ports ws s i k c p b db) = agent_jobs db"
  "app_health_snapshots (persist_observed_ports ws s i k c p b db) = app_health_snapshots db"
  by (auto simp: persist_observed_ports_def Let_def split: option.split)

lemma ports_deployment:
  assumes "find_deployment q db = Some d"
  shows "find_deployment q (persist_observed_ports ws s i k c p b db) = Some d \<or>
    (route_owner s i k db d \<and> d_container_name d = c
     \<and> find_deployment q (persist_observed_ports ws s i k c p b db) = Some (d\<lparr> d_published_port := Some p \<rparr>))"
  using assms by (auto simp: persist_observed_ports_def Let_def find_row_update split: option.split)

lemma prune_frame:
  "apps (prune_health_events ws i db) = apps db" "agent_jobs (prune_health_events ws i db) = agent_jobs db"
  "app_health_snapshots (prune_health_events ws i db) = app_health_snapshots db"
  "deployments (prune_health_events ws i db) = deployments db"
  by (simp_all add: prune_health_events_def Let_def)

lemma prune_cap:
  assumes "\<not> fault (ws 1) 0"
  shows "count_where (\<lambda>e. e_app_id e = i) (app_health_events (prune_health_events ws i db)) \<le> max_health_events_per_app"
proof -
  have "count_where (\<lambda>e. e_app_id e = i) (map snd (filter (\<lambda>p. e_app_id (snd p) \<noteq> i
      \<or> \<not> beyond_cap max_health_events_per_app es p) (numbered es))) \<le> max_health_events_per_app" for es
    unfolding count_map_snd count_where_filter
    by (rule order_trans [OF count_where_mono capped_events [of i _ es]]) auto
  then show ?thesis using assms by (simp add: prune_health_events_def Let_def)
qed

lemma bounded_int_range: "bounded_int lo hi msg k = Some n \<Longrightarrow> lo \<le> n \<and> n \<le> hi"
  by (auto simp: bounded_int_def split: option.splits if_splits)

lemma record_health_elim:
  assumes "record_health w s r db = Some (previous, db')"
  obtains a where "a \<in> set (apps db)" "a_id a = hp_app_id r" "a_server_id a = s" "a_current_deployment_id a = hp_deployment_id r"
    "previous = (if is_health_down_status (hp_status r)
       then map_option h_status (find (\<lambda>h. h_app_id h = hp_app_id r) (app_health_snapshots db)) else None)"
    "db' = app_health_events_update (\<lambda>es. es @ [health_event w r])
       (app_health_snapshots_update (upsert_health (health_snapshot w r)) db)"
proof -
  obtain a where a: "find (\<lambda>a. a_id a = hp_app_id r \<and> a_server_id a = s) (apps db) = Some a" "a_current_deployment_id a = hp_deployment_id r"
    "previous = (if is_health_down_status (hp_status r)
       then map_option h_status (find (\<lambda>h. h_app_id h = hp_app_id r) (app_health_snapshots db)) else None)"
    "db' = app_health_events_update (\<lambda>es. es @ [health_event w r])
       (app_health_snapshots_update (upsert_health (health_snapshot w r)) db)"
    using assms unfolding record_health_def by (simp split: if_splits option.splits)
  show ?thesis using find_SomeD [OF a(1)] a(2-4) that by blast
qed

text \<open>
  A health report speaks for the current deployment only.  Unless it concerns an app of the
  reporting server and the deployment that is current there, nothing changes and nobody is alerted.
  Otherwise it becomes the snapshot of the app, an alert goes out exactly when the app turns unhealthy,
  the history stays within 500 events, no app or job changes, and of the deployments at most the
  published port of the current one, when the reported container is its own.
\<close>

theorem health_report_fenced:
  assumes "handle_health_status me server_id msg db = (out, db')"
  shows "out = None \<and> db' = db \<or>
    (\<exists>r a. health_report_of (me_statement me 0) msg = Some r \<and> a \<in> set (apps db) \<and> a_id a = hp_app_id r
       \<and> a_server_id a = server_id \<and> a_current_deployment_id a = hp_deployment_id r
       \<and> (\<exists>h. find (\<lambda>h. h_app_id h = hp_app_id r) (app_health_snapshots db') = Some h \<and> h_status h = hp_status r
            \<and> h_deployment_id h = hp_deployment_id r)
       \<and> (out \<noteq> None \<longleftrightarrow> hp_status r = H_Unhealthy
            \<and> \<not> (\<exists>h. find (\<lambda>h. h_app_id h = hp_app_id r) (app_health_snapshots db) = Some h \<and> h_status h = H_Unhealthy))
       \<and> (\<not> fault (me_statement me 4) 0 \<longrightarrow>
            count_where (\<lambda>e. e_app_id e = hp_app_id r) (app_health_events db') \<le> max_health_events_per_app)
       \<and> apps db' = apps db \<and> agent_jobs db' = agent_jobs db
       \<and> (\<forall>i d. find_deployment i db = Some d \<longrightarrow> find_deployment i db' = Some d \<or>
            (hp_deployment_id r = Some i \<and> d_server_id d = server_id \<and> d_app_id d = hp_app_id r
             \<and> live_docker_status (d_status d) \<and> d_container_name d = hp_container r
             \<and> (\<exists>p. 1 \<le> p \<and> p \<le> 65535 \<and> find_deployment i db' = Some (d\<lparr> d_published_port := Some p \<rparr>)))))"
proof (cases "health_report_of (me_statement me 0) msg")
  case None
  with assms show ?thesis by (simp add: handle_health_status_def)
next
  case (Some r)
  let ?w = "me_statement me 0"
  show ?thesis
  proof (cases "record_health ?w server_id r db")
    case None
    with assms Some show ?thesis by (simp add: handle_health_status_def)
  next
    case rec: (Some res)
    obtain previous db1 where res: "res = (previous, db1)" by fastforce
    define db2 where "db2 = (case (hp_deployment_id r, port_of msg ''published_port'') of
        (Some deployment_id, Some port) \<Rightarrow> persist_observed_ports (\<lambda>k. me_statement me (1 + k)) server_id
           (hp_app_id r) deployment_id (hp_container r) port (observed_backend msg) db1
      | _ \<Rightarrow> db1)"
    have out: "out \<noteq> None \<longleftrightarrow> health_transition_needs_alert (hp_status r) previous"
      and db': "db' = prune_health_events (\<lambda>k. me_statement me (3 + k)) (hp_app_id r) db2"
      using assms by (auto simp: handle_health_status_def Some rec res Let_def db2_def split: if_split_asm)
    from rec [unfolded res] obtain a where a: "a \<in> set (apps db)" "a_id a = hp_app_id r" "a_server_id a = server_id"
      "a_current_deployment_id a = hp_deployment_id r" and
      prev: "previous = (if is_health_down_status (hp_status r)
         then map_option h_status (find (\<lambda>h. h_app_id h = hp_app_id r) (app_health_snapshots db)) else None)" and
      db1: "db1 = app_health_events_update (\<lambda>es. es @ [health_event ?w r])
         (app_health_snapshots_update (upsert_health (health_snapshot ?w r)) db)"
      by (rule record_health_elim)
    have f2: "apps db2 = apps db" "agent_jobs db2 = agent_jobs db" "app_health_snapshots db2 = app_health_snapshots db1"
      by (auto simp: db2_def ports_frame db1 split: option.split)
    have snap: "\<exists>h. find (\<lambda>h. h_app_id h = hp_app_id r) (app_health_snapshots db') = Some h \<and> h_status h = hp_status r
        \<and> h_deployment_id h = hp_deployment_id r"
      using upsert_health_hit [of "health_snapshot ?w r" "app_health_snapshots db"]
      by (simp add: db' prune_frame f2) (simp add: db1 health_snapshot_def)
    have alert: "out \<noteq> None \<longleftrightarrow> hp_status r = H_Unhealthy
        \<and> \<not> (\<exists>h. find (\<lambda>h. h_app_id h = hp_app_id r) (app_health_snapshots db) = Some h \<and> h_status h = H_Unhealthy)"
      unfolding out prev health_transition_needs_alert_def is_health_down_status_def by (auto split: option.splits)
    have cap: "\<not> fault (me_statement me 4) 0 \<Longrightarrow>
        count_where (\<lambda>e. e_app_id e = hp_app_id r) (app_health_events db') \<le> max_health_events_per_app"
      unfolding db' by (rule prune_cap) simp
    have deps: "find_deployment i db' = Some d \<or>
        (hp_deployment_id r = Some i \<and> d_server_id d = server_id \<and> d_app_id d = hp_app_id r
         \<and> live_docker_status (d_status d) \<and> d_container_name d = hp_container r
         \<and> (\<exists>p. 1 \<le> p \<and> p \<le> 65535 \<and> find_deployment i db' = Some (d\<lparr> d_published_port := Some p \<rparr>)))"
      if d: "find_deployment i db = Some d" for i d
    proof -
      have d1: "find_deployment i db1 = Some d" using d by (simp add: db1)
      show ?thesis
        unfolding db' prune_frame db2_def
        using ports_deployment [OF d1, of "\<lambda>k. me_statement me (1 + k)" server_id "hp_app_id r"] d1 bounded_int_range find_row_SomeD [OF d]
        by (auto simp: route_owner_def live_docker_status_def split: option.splits) metis+
    qed
    show ?thesis using Some a snap alert cap deps f2 by (auto simp: db' prune_frame)
  qed
qed

end
