(* ===== verification/Webhook.thy ===== *)
theory Webhook
  imports Recovery Contract_Names
begin

text \<open>
  \<open>apps/api/src/github/webhook.rs\<close>: a push delivery of GitHub becomes deployments of the apps that
  follow the branch.  A delivery is claimed with a token under a lease of ten minutes, fanned out to
  the apps, and finalized; every write in between needs the token, so that a handler that lost its
  claim to a redelivery changes nothing any more.  Each statement group below is a transaction of
  its own (\<open>ws k\<close> is its world); the time budget of a handler is one more reason for a call to fail.
\<close>

section \<open>Reading a push\<close>

text \<open>\<open>trim_start_matches\<close> with a string removes the prefix as often as it occurs.\<close>

function trim_start_str :: "string \<Rightarrow> string \<Rightarrow> string" where
  "trim_start_str p s = (if p \<noteq> [] \<and> starts_with s p then trim_start_str p (drop (length p) s) else s)"
  by auto
termination
proof (relation "measure (\<lambda>(p, s). length s)", simp)
  fix p s :: string assume p: "p \<noteq> [] \<and> starts_with s p"
  then have "length p \<le> length s" by (metis starts_with_def length_take min.absorb_iff2 min_def nat_le_linear)
  with p show "((p, drop (length p) s), p, s) \<in> measure (\<lambda>(p, s). length s)" by (cases p) auto
qed

declare trim_start_str.simps [simp del]

definition push_branch :: "json \<Rightarrow> string" where
  "push_branch payload = trim_start_str ''refs/heads/'' (case get_str payload ''ref'' of Some r \<Rightarrow> r | None \<Rightarrow> [])"

definition push_sha :: "json \<Rightarrow> string" where
  "push_sha payload = (case get_str payload ''after'' of Some s \<Rightarrow> s | None \<Rightarrow> ''HEAD'')"

definition push_deleted :: "json \<Rightarrow> bool" where
  "push_deleted payload = (case Option.bind (json_get payload ''deleted'') as_bool of Some b \<Rightarrow> b | None \<Rightarrow> False)"

definition auto_deploy_disabled_reason :: string where
  "auto_deploy_disabled_reason = ''auto redeploy is disabled for this app''"

definition webhook_claim_lease :: timestamp where
  "webhook_claim_lease = minutes 10"

section \<open>Deployments a delivery may count on\<close>

definition viable :: "db \<Rightarrow> deployment_row \<Rightarrow> bool" where
  "viable db d \<longleftrightarrow> d_status d = D_Success \<or> active_status (d_status d)
     \<and> exists_where (\<lambda>j. j_deployment_id j = Some (d_id d) \<and> job_live (j_status j)) (agent_jobs db)"

definition deployment_is_viable :: "uuid \<Rightarrow> db \<Rightarrow> bool" where
  "deployment_is_viable deployment_id db = exists_where (\<lambda>d. d_id d = deployment_id \<and> viable db d) (deployments db)"

text \<open>\<open>ORDER BY created_at DESC, id DESC LIMIT 1\<close>\<close>

definition existing_webhook_deployment :: "uuid \<Rightarrow> string \<Rightarrow> db \<Rightarrow> uuid option" where
  "existing_webhook_deployment app_id sha db =
     (case rev (sort_key (\<lambda>d. (d_created_at d, d_id d)) (filter (\<lambda>d. d_app_id d = app_id
          \<and> map to_ascii_lowercase (d_commit_sha d) = map to_ascii_lowercase sha \<and> viable db d) (deployments db))) of
        [] \<Rightarrow> None | d # _ \<Rightarrow> Some (d_id d))"

section \<open>The claim\<close>

abbreviation update_webhooks :: "(webhook_row \<Rightarrow> bool) \<Rightarrow> (webhook_row \<Rightarrow> webhook_row) \<Rightarrow> db \<Rightarrow> db" where
  "update_webhooks P f \<equiv> webhook_events_update (update_where P f)"

abbreviation find_webhook :: "uuid \<Rightarrow> db \<Rightarrow> webhook_row option" where
  "find_webhook i db \<equiv> find_row y_id i (webhook_events db)"

interpretation webhook_table: keyed_table webhook_events webhook_events_update y_id
  by unfold_locales simp

abbreviation outcome_of :: "uuid \<Rightarrow> uuid \<Rightarrow> webhook_app_row \<Rightarrow> bool" where
  "outcome_of event_id app_id z \<equiv> z_event_id z = event_id \<and> z_app_id z = app_id"

definition matched_apps :: "webhook_row \<Rightarrow> db \<Rightarrow> app_row list" where
  "matched_apps event db = filter (\<lambda>a. a_repo_full_name a = y_repo_full_name event
     \<and> a_branch a = push_branch (y_payload event)) (apps db)"

definition settled_outcome :: "db \<Rightarrow> app_row \<Rightarrow> webhook_app_row \<Rightarrow> bool" where
  "settled_outcome db a z \<longleftrightarrow>
     z_status z = ''ignored'' \<and> z_ignored_reason z = Some auto_deploy_disabled_reason
     \<or> a_auto_deploy a \<and> z_status z = ''deployed''
       \<and> (case z_deployment_id z of Some i \<Rightarrow> deployment_is_viable i db | None \<Rightarrow> False)"

text \<open>The loop of \<open>webhook_event_needs_redrive\<close>: an app without a settled outcome ends it.\<close>

fun redrive_apps :: "world \<Rightarrow> nat \<Rightarrow> uuid \<Rightarrow> app_row list \<Rightarrow> db \<Rightarrow> string + bool" where
  "redrive_apps w k event_id [] db = Inr False"
| "redrive_apps w k event_id (a # as) db =
     (if fault w (2 * k + 1) then Inl ''database''
      else case find (outcome_of event_id (a_id a)) (webhook_app_events db) of
        None \<Rightarrow> Inr True
      | Some z \<Rightarrow>
        if a_auto_deploy a \<and> z_status z = ''deployed'' \<and> z_deployment_id z \<noteq> None \<and> fault w (2 * k + 2)
        then Inl ''database''
        else if settled_outcome db a z then redrive_apps w (Suc k) event_id as db
        else Inr True)"

definition webhook_event_needs_redrive :: "world \<Rightarrow> webhook_row \<Rightarrow> db \<Rightarrow> string + bool" where
  "webhook_event_needs_redrive w event db =
     (if y_event_type event \<noteq> ''push'' \<or> push_deleted (y_payload event)
        \<or> \<not> valid_commit_sha (push_sha (y_payload event)) then Inr False
      else if fault w 0 then Inl ''database''
      else redrive_apps w 0 (y_id event) (matched_apps event db) db)"

definition new_webhook :: "world \<Rightarrow> string \<Rightarrow> string \<Rightarrow> string \<Rightarrow> json \<Rightarrow> webhook_row" where
  "new_webhook w delivery event repo payload = \<lparr> y_id = fresh w 0, y_delivery = delivery, y_repo_full_name = repo,
     y_event_type = event, y_payload = payload, y_branch = None, y_commit_sha = None, y_ignored_reason = None,
     y_processed = False, y_processed_at = None, y_processing = False, y_processing_started_at = None,
     y_processing_token = None, y_created_at = tx_now w \<rparr>"

definition record_delivery :: "webhook_row \<Rightarrow> db \<Rightarrow> db" where
  "record_delivery y db = (if exists_where (\<lambda>q. y_delivery q = y_delivery y) (webhook_events db) then db
     else webhook_events_update (\<lambda>ys. ys @ [y]) db)"

definition claimable_event :: "timestamp \<Rightarrow> webhook_row \<Rightarrow> bool" where
  "claimable_event t y \<longleftrightarrow> \<not> y_processing y \<or> \<not> y_processed y
     \<and> (case y_processing_started_at y of None \<Rightarrow> True | Some s \<Rightarrow> s + webhook_claim_lease < t)"

definition webhook_claim_set :: "world \<Rightarrow> uuid \<Rightarrow> webhook_row \<Rightarrow> webhook_row" where
  "webhook_claim_set w token y = y\<lparr> y_processed := False, y_processing := True,
     y_processing_started_at := Some (clock w 0), y_processing_token := Some token \<rparr>"

text \<open>\<open>Inr None\<close> is \<open>AlreadyProcessed\<close>, \<open>Inr (Some (event, token))\<close> is \<open>Claimed\<close>.\<close>

definition claim_webhook_event :: "(nat \<Rightarrow> world) \<Rightarrow> string \<Rightarrow> string \<Rightarrow> string \<Rightarrow> json \<Rightarrow> db
    \<Rightarrow> (string + (webhook_row \<times> uuid) option) \<times> db" where
  "claim_webhook_event ws delivery event repo payload db =
     (if fault (ws 0) 0 then (Inl ''database'', db)
      else
        (let db1 = record_delivery (new_webhook (ws 0) delivery event repo payload) db in
         if fault (ws 1) 0 then (Inl ''database'', db1)
         else case find (\<lambda>y. y_delivery y = delivery) (webhook_events db1) of
           None \<Rightarrow> (Inl ''delivery was not recorded'', db1)
         | Some y \<Rightarrow>
           (case (if y_processed y then webhook_event_needs_redrive (ws 2) y db1 else Inr True) of
              Inl e \<Rightarrow> (Inl e, db1)
            | Inr False \<Rightarrow> (Inr None, db1)
            | Inr True \<Rightarrow>
              if fault (ws 3) 0 then (Inl ''database'', db1)
              else
                (let token = fresh (ws 3) 0;
                     guard = (\<lambda>q. y_id q = y_id y \<and> claimable_event (clock (ws 3) 0) q) in
                 case find guard (webhook_events db1) of
                   None \<Rightarrow> (Inl ''delivery is already processing'', db1)
                 | Some q \<Rightarrow> (Inr (Some (webhook_claim_set (ws 3) token q, token)),
                     update_webhooks guard (webhook_claim_set (ws 3) token) db1)))))"

section \<open>Writing under the claim\<close>

definition owns :: "uuid \<Rightarrow> uuid \<Rightarrow> webhook_row \<Rightarrow> bool" where
  "owns event_id token y \<longleftrightarrow> y_id y = event_id \<and> \<not> y_processed y \<and> y_processing y \<and> y_processing_token y = Some token"

definition release_webhook_claim :: "world \<Rightarrow> uuid \<Rightarrow> uuid \<Rightarrow> db \<Rightarrow> db" where
  "release_webhook_claim w event_id token db =
     (if fault w 0 then db
      else update_webhooks (\<lambda>y. y_id y = event_id \<and> \<not> y_processed y \<and> y_processing_token y = Some token)
        (\<lambda>y. y\<lparr> y_processing := False, y_processing_started_at := None, y_processing_token := None \<rparr>) db)"

definition ensure_webhook_claim_owner :: "world \<Rightarrow> uuid \<Rightarrow> uuid \<Rightarrow> db \<Rightarrow> string + unit" where
  "ensure_webhook_claim_owner w event_id token db =
     (if fault w 0 then Inl ''database''
      else if exists_where (owns event_id token) (webhook_events db) then Inr ()
      else Inl ''claim is no longer owned'')"

definition renew_webhook_claim :: "world \<Rightarrow> uuid \<Rightarrow> uuid \<Rightarrow> db \<Rightarrow> (string + bool) \<times> db" where
  "renew_webhook_claim w event_id token db =
     (if fault w 0 then (Inl ''database'', db)
      else (Inr (count_where (owns event_id token) (webhook_events db) = 1),
        update_webhooks (owns event_id token) (\<lambda>y. y\<lparr> y_processing_started_at := Some (clock w 0) \<rparr>) db))"

definition finalize_webhook_event :: "world \<Rightarrow> uuid \<Rightarrow> string \<Rightarrow> string option \<Rightarrow> string option \<Rightarrow> string option
    \<Rightarrow> uuid \<Rightarrow> db \<Rightarrow> (string + unit) \<times> db" where
  "finalize_webhook_event w event_id delivery branch sha reason token db =
     (let guard = (\<lambda>y. owns event_id token y \<and> y_delivery y = delivery) in
      if faults w [0, 1, 2] then (Inl ''database'', db)
      else if count_where guard (webhook_events db) \<noteq> 1 then (Inl ''delivery could not be finalized'', db)
      else (Inr (), update_webhooks guard (\<lambda>y. y\<lparr> y_branch := branch, y_commit_sha := sha, y_ignored_reason := reason,
        y_processed := True, y_processing := False, y_processing_started_at := None, y_processing_token := None,
        y_processed_at := Some (tx_now w) \<rparr>) db))"

text \<open>\<open>ON CONFLICT (webhook_event_id, app_id) DO UPDATE\<close>; the app and the deployment have to exist.\<close>

definition upsert_outcome :: "webhook_app_row \<Rightarrow> webhook_app_row list \<Rightarrow> webhook_app_row list" where
  "upsert_outcome z rows =
     (if exists_where (outcome_of (z_event_id z) (z_app_id z)) rows
      then update_where (outcome_of (z_event_id z) (z_app_id z))
        (\<lambda>q. q\<lparr> z_deployment_id := z_deployment_id z, z_repo_full_name := z_repo_full_name z, z_branch := z_branch z,
               z_commit_sha := z_commit_sha z, z_status := z_status z, z_ignored_reason := z_ignored_reason z \<rparr>) rows
      else rows @ [z])"

definition insert_webhook_app_event :: "world \<Rightarrow> uuid \<Rightarrow> uuid \<Rightarrow> uuid option \<Rightarrow> string \<Rightarrow> string \<Rightarrow> string \<Rightarrow> uuid
    \<Rightarrow> string \<Rightarrow> string option \<Rightarrow> db \<Rightarrow> (string + unit) \<times> db" where
  "insert_webhook_app_event w event_id app_id deployment_id repo branch sha token status reason db =
     (if faults w [0, 1] then (Inl ''database'', db)
      else if \<not> exists_where (owns event_id token) (webhook_events db) then (Inl ''claim is no longer owned'', db)
      else if faults w [2, 3] \<or> find_app app_id db = None
        \<or> (case deployment_id of Some i \<Rightarrow> find_deployment i db = None | None \<Rightarrow> False) then (Inl ''database'', db)
      else (Inr (), webhook_app_events_update (upsert_outcome \<lparr> z_event_id = event_id, z_app_id = app_id,
        z_deployment_id = deployment_id, z_repo_full_name = repo, z_branch = branch, z_commit_sha = sha,
        z_status = status, z_ignored_reason = reason, z_created_at = tx_now w \<rparr>) db))"

section \<open>One app\<close>

definition webhook_app_event_is_terminal :: "string \<Rightarrow> uuid option \<Rightarrow> string option \<Rightarrow> bool" where
  "webhook_app_event_is_terminal status deployment_id ignored_reason \<longleftrightarrow>
     status = ''deployed'' \<and> deployment_id \<noteq> None
     \<or> status = ''ignored'' \<and> ignored_reason = Some auto_deploy_disabled_reason"

definition reusable_outcome :: "db \<Rightarrow> webhook_app_row \<Rightarrow> bool" where
  "reusable_outcome db z \<longleftrightarrow> webhook_app_event_is_terminal (z_status z) (z_deployment_id z) (z_ignored_reason z)
     \<and> (z_status z = ''deployed'' \<longrightarrow> (case z_deployment_id z of Some i \<Rightarrow> deployment_is_viable i db | None \<Rightarrow> False))"

record webhook_ctx =
  wc_ws :: "nat \<Rightarrow> world"
  wc_deploy :: "nat \<Rightarrow> world"
  wc_env :: deploy_env

text \<open>The deployment of a commit: an existing one, or a new one, or one that somebody else just made.\<close>

definition webhook_deployment :: "webhook_ctx \<Rightarrow> uuid \<Rightarrow> app_row \<Rightarrow> string \<Rightarrow> uuid \<Rightarrow> db \<Rightarrow> (string + uuid) \<times> db" where
  "webhook_deployment c event_id a sha token db =
     (if fault (wc_ws c 3) 0 then (Inl ''database'', db)
      else case existing_webhook_deployment (a_id a) sha db of
        Some i \<Rightarrow> (Inr i, db)
      | None \<Rightarrow>
        (case renew_webhook_claim (wc_ws c 4) event_id token db of
           (Inl e, db1) \<Rightarrow> (Inl e, db1)
         | (Inr False, db1) \<Rightarrow> (Inl ''claim expired before deployment creation'', db1)
         | (Inr True, db1) \<Rightarrow>
           (case create_and_send_deploy (wc_deploy c) (wc_env c) (a_user_id a) (a_id a) sha db1 of
              (Inr i, db2) \<Rightarrow> (Inr i, db2)
            | (Inl e, db2) \<Rightarrow>
              if fault (wc_ws c 5) 0 then (Inl ''database'', db2)
              else (case existing_webhook_deployment (a_id a) sha db2 of
                 Some i \<Rightarrow> (Inr i, db2) | None \<Rightarrow> (Inl e, db2)))))"

definition process_webhook_app :: "webhook_ctx \<Rightarrow> uuid \<Rightarrow> app_row \<Rightarrow> string \<Rightarrow> string \<Rightarrow> string \<Rightarrow> uuid \<Rightarrow> db
    \<Rightarrow> (string + unit) \<times> db" where
  "process_webhook_app c event_id a repo branch sha token db =
     (case ensure_webhook_claim_owner (wc_ws c 0) event_id token db of
        Inl e \<Rightarrow> (Inl e, db)
      | Inr _ \<Rightarrow>
        if fault (wc_ws c 1) 0 then (Inl ''database'', db)
        else
          (let previous = find (outcome_of event_id (a_id a)) (webhook_app_events db) in
           if (case previous of None \<Rightarrow> False
               | Some z \<Rightarrow> webhook_app_event_is_terminal (z_status z) (z_deployment_id z) (z_ignored_reason z)
                   \<and> z_status z = ''deployed'' \<and> fault (wc_ws c 2) 0) then (Inl ''database'', db)
           else if (case previous of None \<Rightarrow> False | Some z \<Rightarrow> reusable_outcome db z) then (Inr (), db)
           else if \<not> a_auto_deploy a
           then insert_webhook_app_event (wc_ws c 7) event_id (a_id a) None repo branch sha token
             ''ignored'' (Some auto_deploy_disabled_reason) db
           else case webhook_deployment c event_id a sha token db of
             (Inl e, db1) \<Rightarrow> (Inl e, db1)
           | (Inr i, db1) \<Rightarrow>
             (case ensure_webhook_claim_owner (wc_ws c 6) event_id token db1 of
                Inl e \<Rightarrow> (Inl e, db1)
              | Inr _ \<Rightarrow> insert_webhook_app_event (wc_ws c 7) event_id (a_id a) (Some i) repo branch sha token
                  ''deployed'' None db1)))"

section \<open>The whole delivery\<close>

fun process_apps :: "(nat \<Rightarrow> webhook_ctx) \<Rightarrow> nat \<Rightarrow> webhook_row \<Rightarrow> uuid \<Rightarrow> app_row list \<Rightarrow> db \<Rightarrow> (string + unit) \<times> db" where
  "process_apps cs k event token [] db = (Inr (), db)"
| "process_apps cs k event token (a # as) db =
     (case process_webhook_app (cs k) (y_id event) a (y_repo_full_name event) (push_branch (y_payload event))
         (push_sha (y_payload event)) token db of
        (Inl e, db1) \<Rightarrow> (Inl e, db1)
      | (Inr _, db1) \<Rightarrow> process_apps cs (Suc k) event token as db1)"

text \<open>\<open>ws 4\<close> is the lookup of the apps, \<open>ws 5\<close> the finalization and \<open>ws 6\<close> the release of a failed claim.\<close>

definition process_claimed_webhook :: "(nat \<Rightarrow> world) \<Rightarrow> (nat \<Rightarrow> webhook_ctx) \<Rightarrow> string \<Rightarrow> webhook_row \<Rightarrow> uuid \<Rightarrow> db
    \<Rightarrow> (string + unit) \<times> db" where
  "process_claimed_webhook ws cs delivery event token db =
     (let branch = push_branch (y_payload event); sha = push_sha (y_payload event) in
      if y_event_type event \<noteq> ''push''
      then finalize_webhook_event (ws 5) (y_id event) delivery None None (Some ''unsupported event type'') token db
      else if push_deleted (y_payload event)
      then finalize_webhook_event (ws 5) (y_id event) delivery (Some branch) (Some sha) (Some ''branch was deleted'') token db
      else if \<not> valid_commit_sha sha
      then finalize_webhook_event (ws 5) (y_id event) delivery (Some branch) (Some sha)
        (Some ''push did not include a valid commit SHA'') token db
      else if fault (ws 4) 0 then (Inl ''database'', db)
      else if matched_apps event db = []
      then finalize_webhook_event (ws 5) (y_id event) delivery (Some branch) (Some sha)
        (Some ''no apps matched this repository and branch'') token db
      else case process_apps cs 0 event token (matched_apps event db) db of
        (Inl e, db1) \<Rightarrow> (Inl e, db1)
      | (Inr _, db1) \<Rightarrow> finalize_webhook_event (ws 5) (y_id event) delivery (Some branch) (Some sha) None token db1)"

definition process_webhook :: "(nat \<Rightarrow> world) \<Rightarrow> (nat \<Rightarrow> webhook_ctx) \<Rightarrow> string \<Rightarrow> string \<Rightarrow> string \<Rightarrow> json \<Rightarrow> db
    \<Rightarrow> (string + unit) \<times> db" where
  "process_webhook ws cs delivery event repo payload db =
     (case claim_webhook_event ws delivery event repo payload db of
        (Inl e, db1) \<Rightarrow> (Inl e, db1)
      | (Inr None, db1) \<Rightarrow> (Inr (), db1)
      | (Inr (Some (y, token)), db1) \<Rightarrow>
        (case process_claimed_webhook ws cs delivery y token db1 of
           (Inl e, db2) \<Rightarrow> (Inl e, release_webhook_claim (ws 6) (y_id y) token db2)
         | (Inr _, db2) \<Rightarrow> (Inr (), db2)))"

definition webhook_processing_status :: "string + unit \<Rightarrow> status_code" where
  "webhook_processing_status r = (case r of Inr _ \<Rightarrow> ACCEPTED | Inl _ \<Rightarrow> INTERNAL_SERVER_ERROR)"

section \<open>The claim is exclusive\<close>

lemma record_delivery_frame [simp]:
  "apps (record_delivery y db) = apps db" "deployments (record_delivery y db) = deployments db"
  "webhook_app_events (record_delivery y db) = webhook_app_events db" "agent_jobs (record_delivery y db) = agent_jobs db"
  by (simp_all add: record_delivery_def)

lemma record_delivery_keys:
  assumes "distinct (map y_id (webhook_events db))" "find_webhook (y_id y) db = None"
  shows "distinct (map y_id (webhook_events (record_delivery y db)))"
  using assms webhook_table.keys_insert [OF assms] by (simp add: record_delivery_def)

lemma record_delivery_find:
  "find_webhook i db = Some q \<Longrightarrow> find_webhook i (record_delivery y db) = Some q"
  by (simp add: record_delivery_def find_row_append)

lemma webhook_claim_elim:
  assumes "claim_webhook_event ws delivery event repo payload db = (Inr (Some (y, token)), db')"
  obtains y0 q where "token = fresh (ws 3) 0"
    "find (\<lambda>y. y_delivery y = delivery) (webhook_events (record_delivery (new_webhook (ws 0) delivery event repo payload) db)) = Some y0"
    "q \<in> set (webhook_events (record_delivery (new_webhook (ws 0) delivery event repo payload) db))" "y_id q = y_id y0"
    "claimable_event (clock (ws 3) 0) q" "y = webhook_claim_set (ws 3) token q"
    "db' = update_webhooks (\<lambda>q. y_id q = y_id y0 \<and> claimable_event (clock (ws 3) 0) q) (webhook_claim_set (ws 3) token)
       (record_delivery (new_webhook (ws 0) delivery event repo payload) db)"
proof -
  let ?db1 = "record_delivery (new_webhook (ws 0) delivery event repo payload) db"
  have "\<exists>y0 q. token = fresh (ws 3) 0 \<and> find (\<lambda>y. y_delivery y = delivery) (webhook_events ?db1) = Some y0
      \<and> find (\<lambda>q. y_id q = y_id y0 \<and> claimable_event (clock (ws 3) 0) q) (webhook_events ?db1) = Some q
      \<and> y = webhook_claim_set (ws 3) token q \<and> db' = update_webhooks (\<lambda>q. y_id q = y_id y0 \<and> claimable_event (clock (ws 3) 0) q)
          (webhook_claim_set (ws 3) token) ?db1"
    using assms unfolding claim_webhook_event_def Let_def
    by (auto split: if_splits option.splits sum.splits bool.splits)
  then obtain y0 q where q: "token = fresh (ws 3) 0" "find (\<lambda>y. y_delivery y = delivery) (webhook_events ?db1) = Some y0"
    "find (\<lambda>q. y_id q = y_id y0 \<and> claimable_event (clock (ws 3) 0) q) (webhook_events ?db1) = Some q"
    "y = webhook_claim_set (ws 3) token q" "db' = update_webhooks (\<lambda>q. y_id q = y_id y0 \<and> claimable_event (clock (ws 3) 0) q)
          (webhook_claim_set (ws 3) token) ?db1" by blast
  show ?thesis using find_SomeD [OF q(3)] by (intro that [OF q(1,2) _ _ _ q(4,5)]) auto
qed

lemma webhook_claim_set_simps [simp]:
  "y_id (webhook_claim_set w t y) = y_id y" "y_delivery (webhook_claim_set w t y) = y_delivery y" "\<not> y_processed (webhook_claim_set w t y)"
  "y_processing (webhook_claim_set w t y)" "y_processing_token (webhook_claim_set w t y) = Some t" "y_payload (webhook_claim_set w t y) = y_payload y"
  "y_event_type (webhook_claim_set w t y) = y_event_type y" "y_repo_full_name (webhook_claim_set w t y) = y_repo_full_name y"
  by (simp_all add: webhook_claim_set_def)

lemma webhook_claim_row:
  assumes "claim_webhook_event ws delivery event repo payload db = (Inr (Some (y, token)), db')"
    "distinct (map y_id (webhook_events db))" "find_webhook (fresh (ws 0) 0) db = None"
  obtains q where "token = fresh (ws 3) 0" "y = webhook_claim_set (ws 3) token q" "y_delivery q = delivery"
    "claimable_event (clock (ws 3) 0) q" "distinct (map y_id (webhook_events db'))"
    "find_webhook (y_id q) (record_delivery (new_webhook (ws 0) delivery event repo payload) db) = Some q"
    "\<And>i. find_webhook i db' = map_option (\<lambda>r. if y_id r = y_id q \<and> claimable_event (clock (ws 3) 0) r
       then webhook_claim_set (ws 3) token r else r) (find_webhook i (record_delivery (new_webhook (ws 0) delivery event repo payload) db))"
  using assms(1)
proof (cases rule: webhook_claim_elim)
  case (1 y0 q)
  let ?db1 = "record_delivery (new_webhook (ws 0) delivery event repo payload) db"
  have keys: "distinct (map y_id (webhook_events ?db1))"
    by (rule record_delivery_keys [OF assms(2)]) (simp add: new_webhook_def assms(3))
  have y0: "y0 \<in> set (webhook_events ?db1)" "y_delivery y0 = delivery" using find_SomeD [OF 1(2)] by auto
  have eq: "y0 = q" using keys y0(1) 1(3,4) by (metis find_row_unique option.inject)
  have fq: "find_webhook (y_id q) ?db1 = Some q" using keys 1(3) by (rule find_row_unique) simp
  have look: "find_webhook i db' = map_option (\<lambda>r. if y_id r = y_id q \<and> claimable_event (clock (ws 3) 0) r
       then webhook_claim_set (ws 3) token r else r) (find_webhook i ?db1)" for i
    unfolding 1(7) eq by (simp add: find_row_update)
  have "distinct (map y_id (webhook_events db'))" unfolding 1(7) using keys by (simp add: map_update_where)
  then show ?thesis using that 1(1,5,6) y0(2) eq fq look by blast
qed

lemma claim_exclusive_row:
  assumes "claim_webhook_event ws delivery event repo payload db = (Inr (Some (y, token)), db')"
    "distinct (map y_id (webhook_events db))" "find_webhook (fresh (ws 0) 0) db = None"
  shows "y \<in> set (webhook_events db')" "find_webhook (y_id y) db' = Some y" "owns (y_id y) token y" "y_delivery y = delivery"
    "distinct (map y_id (webhook_events db'))"
proof -
  obtain q where q: "y = webhook_claim_set (ws 3) token q" "y_delivery q = delivery"
    "claimable_event (clock (ws 3) 0) q" "distinct (map y_id (webhook_events db'))"
    "find_webhook (y_id q) (record_delivery (new_webhook (ws 0) delivery event repo payload) db) = Some q"
    "\<And>i. find_webhook i db' = map_option (\<lambda>r. if y_id r = y_id q \<and> claimable_event (clock (ws 3) 0) r
       then webhook_claim_set (ws 3) token r else r) (find_webhook i (record_delivery (new_webhook (ws 0) delivery event repo payload) db))"
    by (rule webhook_claim_row [OF assms]) blast
  show f: "find_webhook (y_id y) db' = Some y" using q by simp
  then show "y \<in> set (webhook_events db')" by (auto dest: find_row_SomeD)
  show "owns (y_id y) token y" "y_delivery y = delivery" "distinct (map y_id (webhook_events db'))"
    using q by (simp_all add: owns_def)
qed

text \<open>
  A delivery has one handler at a time.  A successful claim gives the handler a fresh token and
  makes it the owner of the recorded delivery; it never takes over a delivery that another handler
  holds under a lease younger than ten minutes, and when the delivery was recorded before, the
  handler works on what was recorded then and not on what the request carried.  Other deliveries are
  untouched.
\<close>

theorem claim_exclusive:
  assumes "claim_webhook_event ws delivery event repo payload db = (Inr (Some (y, token)), db')"
    "distinct (map y_id (webhook_events db))" "find_webhook (fresh (ws 0) 0) db = None"
  shows "token = fresh (ws 3) 0 \<and> find_webhook (y_id y) db' = Some y \<and> owns (y_id y) token y \<and> y_delivery y = delivery
    \<and> (\<forall>q. find_webhook (y_id y) db = Some q \<longrightarrow> y_payload y = y_payload q \<and> y_event_type y = y_event_type q
         \<and> y_repo_full_name y = y_repo_full_name q
         \<and> \<not> (y_processing q \<and> (\<exists>s. y_processing_started_at q = Some s \<and> clock (ws 3) 0 \<le> s + webhook_claim_lease)))
    \<and> (\<forall>i q. find_webhook i db = Some q \<and> i \<noteq> y_id y \<longrightarrow> find_webhook i db' = Some q)"
proof -
  obtain q where q: "token = fresh (ws 3) 0" "y = webhook_claim_set (ws 3) token q" "claimable_event (clock (ws 3) 0) q"
    "find_webhook (y_id q) (record_delivery (new_webhook (ws 0) delivery event repo payload) db) = Some q"
    "\<And>i. find_webhook i db' = map_option (\<lambda>r. if y_id r = y_id q \<and> claimable_event (clock (ws 3) 0) r
       then webhook_claim_set (ws 3) token r else r) (find_webhook i (record_delivery (new_webhook (ws 0) delivery event repo payload) db))"
    by (rule webhook_claim_row [OF assms]) blast
  note row = claim_exclusive_row [OF assms]
  have "y_payload y = y_payload r \<and> y_event_type y = y_event_type r \<and> y_repo_full_name y = y_repo_full_name r
      \<and> \<not> (y_processing r \<and> (\<exists>s. y_processing_started_at r = Some s \<and> clock (ws 3) 0 \<le> s + webhook_claim_lease))"
    if "find_webhook (y_id y) db = Some r" for r
  proof -
    have "r = q" using record_delivery_find [OF that] q(2,4) by simp
    then show ?thesis using q(2,3) by (auto simp: claimable_event_def)
  qed
  moreover have "find_webhook i db' = Some r" if "find_webhook i db = Some r" "i \<noteq> y_id y" for i r
    using that record_delivery_find [OF that(1)] find_row_SomeD [OF that(1)] q(2) by (auto simp: q(5))
  ultimately show ?thesis using q(1) row by blast
qed

section \<open>A lost claim writes nothing\<close>

lemma not_owner:
  assumes "find_webhook e db = Some y" "y_processing_token y \<noteq> Some token" "distinct (map y_id (webhook_events db))"
    "q \<in> set (webhook_events db)" "y_id q = e"
  shows "y_processing_token q \<noteq> Some token"
  using assms by (metis find_row_unique option.inject)

text \<open>
  A handler whose token is no longer the stored one cannot write.  Whatever it still tries -
  renewing the claim, recording the outcome of an app, finalizing or releasing the delivery - leaves
  the database as it is, and every step that has to succeed reports the loss.
\<close>

theorem stale_owner_harmless:
  assumes "find_webhook e db = Some y" "y_processing_token y \<noteq> Some token" "distinct (map y_id (webhook_events db))"
  shows "(\<exists>m. ensure_webhook_claim_owner w e token db = Inl m)
    \<and> snd (renew_webhook_claim w e token db) = db \<and> fst (renew_webhook_claim w e token db) \<noteq> Inr True
    \<and> (\<exists>m. insert_webhook_app_event w e app_id dep repo branch sha token status reason db = (Inl m, db))
    \<and> (\<exists>m. finalize_webhook_event w e delivery br co re token db = (Inl m, db))
    \<and> release_webhook_claim w e token db = db"
proof -
  have no: "\<not> owns e token q" if "q \<in> set (webhook_events db)" for q
    using not_owner [OF assms that] by (auto simp: owns_def)
  then have ex: "\<not> exists_where (owns e token) (webhook_events db)" by (auto simp: exists_where_iff)
  have count: "count_where (\<lambda>q. owns e token q \<and> P q) (webhook_events db) = 0" for P
    using no by (simp add: count_where_0)
  have upd: "webhook_events_update (update_where (\<lambda>q. owns e token q) f) db = db" for f
  proof -
    have "update_where (owns e token) f (webhook_events db) = webhook_events db" using no by (rule update_where_none)
    then show ?thesis by simp
  qed
  have rel: "update_where (\<lambda>q. y_id q = e \<and> \<not> y_processed q \<and> y_processing_token q = Some token) f (webhook_events db) = webhook_events db" for f
    by (rule update_where_none) (use not_owner [OF assms] in blast)
  show ?thesis
    using ex count [of "\<lambda>_. True"] count upd rel
    by (auto simp: ensure_webhook_claim_owner_def renew_webhook_claim_def insert_webhook_app_event_def
        finalize_webhook_event_def release_webhook_claim_def Let_def)
qed

section \<open>What a run does to the tables\<close>

lemma build_queued_webhooks [simp]:
  "webhook_events (build_queued w q p s k i f r y db) = webhook_events db"
  "webhook_app_events (build_queued w q p s k i f r y db) = webhook_app_events db"
  by (simp_all add: build_queued_def attach_build_def insert_build_def)

lemma deploy_frame:
  assumes "create_and_send_deploy ws env u i sha db = (r, db')"
  shows "webhook_events db' = webhook_events db \<and> webhook_app_events db' = webhook_app_events db \<and> apps db' = apps db
    \<and> (\<forall>k. find_deployment k db \<noteq> None \<longrightarrow> find_deployment k db' \<noteq> None)
    \<and> (\<forall>k. r = Inr k \<longrightarrow> find_deployment k db' \<noteq> None)"
  using assms unfolding create_and_send_deploy_def
proof (cases rule: deploy_elim)
  case (failed e row)
  then show ?thesis
    by (auto simp: fail_deployment_row_def find_row_update find_row_append split: option.split)
next
  case (started a token sha b q provider platform reason payload)
  then show ?thesis
    by (auto simp: find_row_update find_row_append new_deployment_def record_audit_event_def audit_def split: option.split)
qed auto

definition good_outcome :: "db \<Rightarrow> webhook_app_row \<Rightarrow> bool" where
  "good_outcome db z \<longleftrightarrow> z_status z = ''ignored'' \<and> z_ignored_reason z = Some auto_deploy_disabled_reason
     \<or> z_status z = ''deployed'' \<and> (\<exists>i. z_deployment_id z = Some i \<and> find_deployment i db \<noteq> None)"

definition has_outcome :: "uuid \<Rightarrow> uuid \<Rightarrow> db \<Rightarrow> bool" where
  "has_outcome e i db \<longleftrightarrow> (\<exists>z \<in> set (webhook_app_events db). outcome_of e i z \<and> good_outcome db z)"

definition outcomes_unique :: "db \<Rightarrow> bool" where
  "outcomes_unique db \<longleftrightarrow> distinct (map (\<lambda>z. (z_event_id z, z_app_id z)) (webhook_app_events db))"

text \<open>What every step under the claim guarantees.\<close>

definition advances :: "uuid \<Rightarrow> uuid \<Rightarrow> db \<Rightarrow> db \<Rightarrow> bool" where
  "advances e token db db' \<longleftrightarrow> apps db' = apps db
     \<and> (\<forall>k. find_deployment k db \<noteq> None \<longrightarrow> find_deployment k db' \<noteq> None)
     \<and> (\<forall>i. has_outcome e i db \<longrightarrow> has_outcome e i db')
     \<and> (outcomes_unique db \<longrightarrow> outcomes_unique db')
     \<and> (webhook_events db' = webhook_events db
        \<or> (\<exists>t. webhook_events db' = update_where (owns e token) (\<lambda>y. y\<lparr> y_processing_started_at := Some t \<rparr>) (webhook_events db)))"

lemma good_outcome_mono:
  "(\<And>k. find_deployment k db \<noteq> None \<Longrightarrow> find_deployment k db' \<noteq> None) \<Longrightarrow> good_outcome db z \<Longrightarrow> good_outcome db' z"
  by (fastforce simp: good_outcome_def)

lemma advances_outcomes:
  assumes "webhook_app_events db' = webhook_app_events db" "apps db' = apps db"
    "\<And>k. find_deployment k db \<noteq> None \<Longrightarrow> find_deployment k db' \<noteq> None"
    "webhook_events db' = webhook_events db
       \<or> (\<exists>t. webhook_events db' = update_where (owns e token) (\<lambda>y. y\<lparr> y_processing_started_at := Some t \<rparr>) (webhook_events db))"
  shows "advances e token db db'"
  using assms good_outcome_mono [OF assms(3)] by (auto simp: advances_def has_outcome_def outcomes_unique_def)

lemma advances_refl: "advances e token db db"
  by (simp add: advances_def)

lemma renew_twice:
  "update_where (owns e t) (\<lambda>y. y\<lparr> y_processing_started_at := Some b \<rparr>)
     (update_where (owns e t) (\<lambda>y. y\<lparr> y_processing_started_at := Some a \<rparr>) ys)
   = update_where (owns e t) (\<lambda>y. y\<lparr> y_processing_started_at := Some b \<rparr>) ys"
  by (induction ys) (auto simp: owns_def)

lemma advances_trans: "advances e t db1 db2 \<Longrightarrow> advances e t db2 db3 \<Longrightarrow> advances e t db1 db3"
  unfolding advances_def by (elim conjE disjE exE) (auto simp: renew_twice)

lemma upsert_unique:
  assumes "distinct (map (\<lambda>z. (z_event_id z, z_app_id z)) rows)"
  shows "distinct (map (\<lambda>z. (z_event_id z, z_app_id z)) (upsert_outcome z rows))"
proof -
  have "map (\<lambda>z. (z_event_id z, z_app_id z)) (update_where P f rows) = map (\<lambda>z. (z_event_id z, z_app_id z)) rows"
    if "\<And>q. z_event_id (f q) = z_event_id q \<and> z_app_id (f q) = z_app_id q" for P f
    using that by (intro map_update_where) simp
  then show ?thesis using assms by (auto simp: upsert_outcome_def exists_where_iff)
qed

lemma upsert_hit:
  assumes "good_outcome db z"
  shows "\<exists>q \<in> set (upsert_outcome z rows). outcome_of (z_event_id z) (z_app_id z) q \<and> good_outcome db q"
proof (cases "exists_where (outcome_of (z_event_id z) (z_app_id z)) rows")
  case True
  let ?f = "\<lambda>q. q\<lparr> z_deployment_id := z_deployment_id z, z_repo_full_name := z_repo_full_name z, z_branch := z_branch z,
    z_commit_sha := z_commit_sha z, z_status := z_status z, z_ignored_reason := z_ignored_reason z \<rparr>"
  obtain r where r: "r \<in> set rows" "outcome_of (z_event_id z) (z_app_id z) r" using True by (auto simp: exists_where_iff)
  then have "?f r \<in> set (upsert_outcome z rows)" using True unfolding upsert_outcome_def
    by (simp only: if_True) (rule update_where_hit, auto)
  then show ?thesis by (rule rev_bexI) (use r assms in \<open>simp add: good_outcome_def\<close>)
next
  case False
  then show ?thesis using assms by (simp add: upsert_outcome_def)
qed

lemma upsert_other:
  assumes "q \<in> set rows" "\<not> outcome_of (z_event_id z) (z_app_id z) q"
  shows "q \<in> set (upsert_outcome z rows)"
  using assms by (auto simp: upsert_outcome_def in_update_where intro!: bexI [of _ q])

lemma insert_outcome_advances:
  assumes "insert_webhook_app_event w e i dep repo branch sha token status reason db = (r, db')"
    "status = ''ignored'' \<and> reason = Some auto_deploy_disabled_reason \<or> status = ''deployed'' \<and> dep \<noteq> None"
  shows "advances e token db db'" "r = Inr () \<Longrightarrow> has_outcome e i db'"
proof -
  let ?z = "\<lparr> z_event_id = e, z_app_id = i, z_deployment_id = dep, z_repo_full_name = repo, z_branch = branch, z_commit_sha = sha,
        z_status = status, z_ignored_reason = reason, z_created_at = tx_now w \<rparr>"
  show "advances e token db db'"
  proof (cases "db' = db")
    case False
    then have db': "db' = webhook_app_events_update (upsert_outcome ?z) db" and
      ex: "case dep of Some i \<Rightarrow> find_deployment i db \<noteq> None | None \<Rightarrow> True"
      using assms(1) by (auto simp: insert_webhook_app_event_def split: if_splits option.splits)
    have good: "good_outcome db ?z" using assms(2) ex by (auto simp: good_outcome_def split: option.splits)
    have same: "good_outcome db' = good_outcome db" by (rule ext) (simp add: db' good_outcome_def)
    have "has_outcome e k db'" if k: "has_outcome e k db" for k
    proof (cases "k = i")
      case True
      then show ?thesis using upsert_hit [OF good] by (simp add: has_outcome_def same) (simp add: db')
    next
      case False
      obtain q where q: "q \<in> set (webhook_app_events db)" "outcome_of e k q" "good_outcome db q" using k by (auto simp: has_outcome_def)
      then have "q \<in> set (upsert_outcome ?z (webhook_app_events db))" using False by (intro upsert_other) auto
      then show ?thesis using q by (auto simp: has_outcome_def same) (auto simp: db')
    qed
    moreover have "outcomes_unique db \<longrightarrow> outcomes_unique db'"
      using upsert_unique [of "webhook_app_events db" ?z] by (simp add: outcomes_unique_def db')
    ultimately show ?thesis by (auto simp: advances_def db')
  qed (simp add: advances_refl)
  assume "r = Inr ()"
  then have db': "db' = webhook_app_events_update (upsert_outcome ?z) db" and
    ex: "case dep of Some i \<Rightarrow> find_deployment i db \<noteq> None | None \<Rightarrow> True"
    using assms(1) by (auto simp: insert_webhook_app_event_def split: if_splits option.splits)
  have good: "good_outcome db ?z" using assms(2) ex by (auto simp: good_outcome_def split: option.splits)
  have same: "good_outcome db' = good_outcome db" by (rule ext) (simp add: db' good_outcome_def)
  show "has_outcome e i db'" using upsert_hit [OF good] by (simp add: has_outcome_def same) (simp add: db')
qed

lemma renew_advances: "advances e token db (snd (renew_webhook_claim w e token db))"
  by (rule advances_outcomes) (auto simp: renew_webhook_claim_def)

lemma deploy_advances: "create_and_send_deploy ws env u i sha db = (r, db') \<Longrightarrow> advances e token db db'"
  using deploy_frame [of ws env u i sha db r db'] by (intro advances_outcomes) auto

lemma webhook_deployment_advances:
  assumes "webhook_deployment c e a sha token db = (r, db')"
  shows "advances e token db db'"
proof -
  obtain r1 db1 where rn: "renew_webhook_claim (wc_ws c 4) e token db = (r1, db1)" by fastforce
  then have A: "advances e token db db1" using renew_advances [of e token db "wc_ws c 4"] by simp
  obtain r2 db2 where dp: "create_and_send_deploy (wc_deploy c) (wc_env c) (a_user_id a) (a_id a) sha db1 = (r2, db2)" by fastforce
  then have B: "advances e token db db2" using advances_trans [OF A deploy_advances] by blast
  have "db' = db \<or> db' = db1 \<or> db' = db2"
    using assms unfolding webhook_deployment_def rn
    by (auto simp: dp split: if_splits option.splits sum.splits bool.splits)
  then show ?thesis using A B advances_refl by auto
qed

lemma process_app_advances:
  assumes "process_webhook_app c e a repo branch sha token db = (r, db')"
  shows "advances e token db db'" "r = Inr () \<Longrightarrow> has_outcome e (a_id a) db'"
proof -
  have "advances e token db db' \<and> (r = Inr () \<longrightarrow> has_outcome e (a_id a) db')"
  proof (cases "\<exists>z. find (outcome_of e (a_id a)) (webhook_app_events db) = Some z \<and> reusable_outcome db z")
    case True
    then obtain z where z: "find (outcome_of e (a_id a)) (webhook_app_events db) = Some z" "reusable_outcome db z" by blast
    have "db' = db" using assms z by (auto simp: process_webhook_app_def Let_def split: sum.splits if_splits)
    moreover have "good_outcome db z"
      using z(2) by (auto simp: reusable_outcome_def good_outcome_def webhook_app_event_is_terminal_def deployment_is_viable_def
        exists_where_iff find_row_None_iff split: option.splits)
    then have "has_outcome e (a_id a) db" using find_SomeD [OF z(1)] by (auto simp: has_outcome_def)
    ultimately show ?thesis by (simp add: advances_refl)
  next
    case False
    then have no: "\<not> (case find (outcome_of e (a_id a)) (webhook_app_events db) of None \<Rightarrow> False | Some z \<Rightarrow> reusable_outcome db z)"
      by (auto split: option.splits)
    obtain r1 db1 where wd: "webhook_deployment c e a sha token db = (r1, db1)" by fastforce
    have A: "advances e token db db1" by (rule webhook_deployment_advances [OF wd])
    consider m where "db' = db" "r = Inl m" | m where "db' = db1" "r = Inl m"
      | "insert_webhook_app_event (wc_ws c 7) e (a_id a) None repo branch sha token ''ignored'' (Some auto_deploy_disabled_reason) db = (r, db')"
      | i where "insert_webhook_app_event (wc_ws c 7) e (a_id a) (Some i) repo branch sha token ''deployed'' None db1 = (r, db')"
      using assms no unfolding process_webhook_app_def Let_def wd
      by (auto split: sum.splits if_splits) metis+
    then show ?thesis
    proof cases
      case 1 then show ?thesis by (simp add: advances_refl)
    next
      case 2 then show ?thesis using A by simp
    next
      case 3 from insert_outcome_advances [OF this] show ?thesis by simp
    next
      case (4 i) from insert_outcome_advances [OF this] advances_trans [OF A] show ?thesis by simp
    qed
  qed
  then show "advances e token db db'" "r = Inr () \<Longrightarrow> has_outcome e (a_id a) db'" by auto
qed

lemma process_apps_advances:
  "process_apps cs k event token as db = (r, db') \<Longrightarrow> advances (y_id event) token db db'
     \<and> (r = Inr () \<longrightarrow> (\<forall>a \<in> set as. has_outcome (y_id event) (a_id a) db'))"
proof (induction cs k event token as db arbitrary: r db' rule: process_apps.induct)
  case (2 cs k event token a as db)
  obtain r1 db1 where p: "process_webhook_app (cs k) (y_id event) a (y_repo_full_name event) (push_branch (y_payload event))
      (push_sha (y_payload event)) token db = (r1, db1)" by fastforce
  note A = process_app_advances [OF p]
  show ?case
  proof (cases r1)
    case (Inl m)
    then show ?thesis using 2(2) A p by auto
  next
    case (Inr u)
    then have rest: "process_apps cs (Suc k) event token as db1 = (r, db')" using 2(2) p by simp
    from 2(1) [OF p [symmetric] Inr rest] have B: "advances (y_id event) token db1 db'"
      "r = Inr () \<longrightarrow> (\<forall>a \<in> set as. has_outcome (y_id event) (a_id a) db')" by auto
    have "has_outcome (y_id event) (a_id a) db1" using A(2) Inr by simp
    then show ?thesis using advances_trans [OF A(1) B(1)] B by (auto simp: advances_def)
  qed
qed (auto simp: advances_refl)


section \<open>An acknowledged delivery is done\<close>

lemma finalize_elim:
  assumes "finalize_webhook_event w e delivery br co re token db = (r, db')"
  shows "r \<noteq> Inr () \<Longrightarrow> db' = db"
    "r = Inr () \<Longrightarrow> (\<exists>y \<in> set (webhook_events db'). y_id y = e \<and> y_delivery y = delivery \<and> y_processed y \<and> \<not> y_processing y)
       \<and> webhook_app_events db' = webhook_app_events db \<and> deployments db' = deployments db \<and> apps db' = apps db"
proof -
  show "r \<noteq> Inr () \<Longrightarrow> db' = db" using assms by (auto simp: finalize_webhook_event_def Let_def split: if_splits)
  let ?g = "\<lambda>y. owns e token y \<and> y_delivery y = delivery"
  let ?f = "\<lambda>y. y\<lparr> y_branch := br, y_commit_sha := co, y_ignored_reason := re, y_processed := True, y_processing := False,
    y_processing_started_at := None, y_processing_token := None, y_processed_at := Some (tx_now w) \<rparr>"
  assume "r = Inr ()"
  then have c: "count_where ?g (webhook_events db) = 1" and db': "db' = update_webhooks ?g ?f db"
    using assms by (auto simp: finalize_webhook_event_def Let_def split: if_splits)
  from count_where_1D [OF c] obtain y where y: "y \<in> set (webhook_events db)" "?g y" by blast
  have "?f y \<in> set (webhook_events db')" unfolding db' by (simp add: update_where_hit [OF y(1), of ?g ?f] y(2) del: webhook_row.update_convs)
  then have "\<exists>y \<in> set (webhook_events db'). y_id y = e \<and> y_delivery y = delivery \<and> y_processed y \<and> \<not> y_processing y"
    by (rule rev_bexI) (use y(2) in \<open>simp add: owns_def\<close>)
  then show "(\<exists>y \<in> set (webhook_events db'). y_id y = e \<and> y_delivery y = delivery \<and> y_processed y \<and> \<not> y_processing y)
      \<and> webhook_app_events db' = webhook_app_events db \<and> deployments db' = deployments db \<and> apps db' = apps db"
    by (simp add: db')
qed

lemma redrive_settled:
  "redrive_apps w k e as db = Inr False \<Longrightarrow> a \<in> set as \<Longrightarrow> has_outcome e (a_id a) db"
proof (induction w k e as db rule: redrive_apps.induct)
  case (2 w k e b as db)
  from 2(2) obtain z where z: "find (outcome_of e (a_id b)) (webhook_app_events db) = Some z" "settled_outcome db b z"
    and rest: "redrive_apps w (Suc k) e as db = Inr False"
    by (auto split: if_splits option.splits)
  show ?case
  proof (cases "a = b")
    case True
    have "good_outcome db z" using z(2) by (auto simp: settled_outcome_def good_outcome_def deployment_is_viable_def
        exists_where_iff find_row_None_iff split: option.splits)
    then show ?thesis using find_SomeD [OF z(1)] True by (auto simp: has_outcome_def)
  next
    case False
    then show ?thesis using 2 z rest by (auto split: if_splits)
  qed
qed simp

definition settled :: "webhook_row \<Rightarrow> db \<Rightarrow> db \<Rightarrow> bool" where
  "settled y db db' \<longleftrightarrow> (y_event_type y = ''push'' \<and> \<not> push_deleted (y_payload y) \<and> valid_commit_sha (push_sha (y_payload y)) \<longrightarrow>
     (\<forall>a \<in> set (matched_apps y db). has_outcome (y_id y) (a_id a) db'))"

text \<open>The part of a recorded delivery that never changes.\<close>

definition content :: "db \<Rightarrow> (uuid \<times> string \<times> json \<times> string) list" where
  "content db = map (\<lambda>y. (y_id y, y_event_type y, y_payload y, y_repo_full_name y)) (webhook_events db)"

lemma content_mem: "q \<in> set (webhook_events db) \<Longrightarrow> (y_id q, y_event_type q, y_payload q, y_repo_full_name q) \<in> set (content db)"
  by (auto simp: content_def)

lemma content_update:
  "(\<And>y. y_id (f y) = y_id y \<and> y_event_type (f y) = y_event_type y \<and> y_payload (f y) = y_payload y \<and> y_repo_full_name (f y) = y_repo_full_name y)
   \<Longrightarrow> content (update_webhooks P f db) = content db"
  by (simp add: content_def map_update_where)

lemma advances_content: "advances e t db db' \<Longrightarrow> content db' = content db"
  by (auto simp: advances_def content_def map_update_where)

lemma finalize_content: "content (snd (finalize_webhook_event w e delivery br co re token db)) = content db"
  by (simp add: finalize_webhook_event_def Let_def content_update)

lemma claimed_content:
  assumes "process_claimed_webhook ws cs delivery y token db = (r, db')"
  shows "content db' = content db"
proof -
  obtain r1 db1 where p: "process_apps cs 0 y token (matched_apps y db) db = (r1, db1)" by fastforce
  have c1: "content db1 = content db" using process_apps_advances [OF p] advances_content by blast
  have "db' = db \<or> db' = db1 \<or> (\<exists>br co re. finalize_webhook_event (ws 5) (y_id y) delivery br co re token db = (r, db'))
      \<or> (\<exists>br co re. finalize_webhook_event (ws 5) (y_id y) delivery br co re token db1 = (r, db'))"
    using assms by (auto simp: process_claimed_webhook_def Let_def p split: if_splits sum.splits)
  then show ?thesis using c1 finalize_content by (metis snd_conv)
qed

lemma content_unique:
  assumes "content db' = content db" "distinct (map y_id (webhook_events db))" "y \<in> set (webhook_events db)"
    "q \<in> set (webhook_events db')" "y_id q = y_id y"
  shows "settled q a b = settled y a b"
proof -
  let ?c = "\<lambda>y. (y_id y, y_event_type y, y_payload y, y_repo_full_name y)"
  have "?c q \<in> set (content db)" using content_mem [OF assms(4)] assms(1) by simp
  then obtain y' where y': "y' \<in> set (webhook_events db)" "?c y' = ?c q" by (auto simp: content_def)
  then have "y' = y" using assms(2,3,5) by (metis Pair_inject find_row_unique option.inject)
  then show ?thesis using y'(2) by (auto simp: settled_def matched_apps_def)
qed

lemma claimed_done:
  assumes "process_claimed_webhook ws cs delivery y token db = (Inr (), db')"
  shows "(\<exists>q \<in> set (webhook_events db'). y_id q = y_id y \<and> y_delivery q = delivery \<and> y_processed q) \<and> settled y db db'
    \<and> (outcomes_unique db \<longrightarrow> outcomes_unique db')"
proof (cases "y_event_type y = ''push'' \<and> \<not> push_deleted (y_payload y) \<and> valid_commit_sha (push_sha (y_payload y)) \<and> matched_apps y db \<noteq> []")
  case True
  obtain r1 db1 where p: "process_apps cs 0 y token (matched_apps y db) db = (r1, db1)" by fastforce
  have f: "finalize_webhook_event (ws 5) (y_id y) delivery (Some (push_branch (y_payload y))) (Some (push_sha (y_payload y))) None token db1 = (Inr (), db')"
    and r1: "r1 = Inr ()"
    using assms True by (auto simp: process_claimed_webhook_def Let_def p split: if_splits sum.splits)
  note F = finalize_elim(2) [OF f refl]
  have same: "has_outcome e i db' = has_outcome e i db1" for e i
    using F by (simp add: has_outcome_def good_outcome_def)
  have A: "\<forall>a \<in> set (matched_apps y db). has_outcome (y_id y) (a_id a) db1" "outcomes_unique db \<longrightarrow> outcomes_unique db1"
    using process_apps_advances [OF p] r1 by (auto simp: advances_def)
  show ?thesis using F A by (auto simp: settled_def same outcomes_unique_def)
next
  case False
  then obtain br co re where f: "finalize_webhook_event (ws 5) (y_id y) delivery br co re token db = (Inr (), db')"
    using assms by (auto simp: process_claimed_webhook_def Let_def split: if_splits)
  show ?thesis using finalize_elim(2) [OF f refl] False by (auto simp: settled_def outcomes_unique_def)
qed

text \<open>
  C33: an acknowledged delivery is done.  When the request is answered with success, the delivery is
  recorded and processed, and if it is a push of a commit to a branch, every app that follows the
  branch has an outcome for it - an existing deployment, or the note that automatic deployment is
  switched off for the app - and no app has two.
\<close>

theorem webhook_accepted_done:
  assumes "process_webhook ws cs delivery event repo payload db = (Inr (), db')" "outcomes_unique db"
    "distinct (map y_id (webhook_events db))" "find_webhook (fresh (ws 0) 0) db = None"
  shows "(\<exists>y \<in> set (webhook_events db'). y_delivery y = delivery \<and> y_processed y \<and> settled y db db') \<and> outcomes_unique db'"
proof -
  obtain r1 db1 where c: "claim_webhook_event ws delivery event repo payload db = (r1, db1)" by fastforce
  let ?db0 = "record_delivery (new_webhook (ws 0) delivery event repo payload) db"
  have keys: "distinct (map y_id (webhook_events ?db0))"
    by (rule record_delivery_keys [OF assms(3)]) (simp add: new_webhook_def assms(4))
  show ?thesis
  proof (cases "r1 = Inr None")
    case True
    have c': "claim_webhook_event ws delivery event repo payload db = (Inr None, db1)" using c True by simp
    then have db1: "db1 = ?db0" and y: "\<exists>y. find (\<lambda>y. y_delivery y = delivery) (webhook_events ?db0) = Some y \<and> y_processed y
        \<and> webhook_event_needs_redrive (ws 2) y ?db0 = Inr False"
      unfolding claim_webhook_event_def Let_def
      by (auto split: if_splits option.splits sum.splits bool.splits)
    then obtain y where y: "find (\<lambda>y. y_delivery y = delivery) (webhook_events ?db0) = Some y" "y_processed y"
        "webhook_event_needs_redrive (ws 2) y ?db0 = Inr False" by blast
    have db': "db' = ?db0" using assms(1) c' db1 by (simp add: process_webhook_def)
    have "settled y db ?db0" using y(3) redrive_settled
      by (auto simp: webhook_event_needs_redrive_def settled_def matched_apps_def split: if_splits)
    moreover have "outcomes_unique ?db0" using assms(2) by (simp add: outcomes_unique_def)
    ultimately show ?thesis using find_SomeD [OF y(1)] y(2) db' by blast
  next
    case False
    then obtain y token where r1: "r1 = Inr (Some (y, token))" and p: "process_claimed_webhook ws cs delivery y token db1 = (Inr (), db')"
      using assms(1) c by (auto simp: process_webhook_def split: sum.splits option.splits prod.splits)
    from claim_exclusive_row [OF c [unfolded r1] assms(3,4)] have y: "y \<in> set (webhook_events db1)" by simp
    from c [unfolded r1] have same: "matched_apps q db1 = matched_apps q db" "outcomes_unique db1"
      "map y_id (webhook_events db1) = map y_id (webhook_events ?db0)" for q
      using assms(2) by (cases rule: webhook_claim_elim; simp add: matched_apps_def outcomes_unique_def map_update_where)+
    obtain q where q: "q \<in> set (webhook_events db')" "y_id q = y_id y" "y_delivery q = delivery" "y_processed q" "settled y db1 db'"
      "outcomes_unique db'" using claimed_done [OF p] same(2) by blast
    have "settled q db1 db'" using content_unique [OF claimed_content [OF p] _ y q(1,2)] keys same(3) q(5) by simp
    then show ?thesis using q same(1) by (auto simp: settled_def)
  qed
qed

section \<open>A failed delivery can be repeated\<close>

lemma advances_owner:
  assumes "advances e token db db'" "\<exists>y \<in> set (webhook_events db). owns e token y \<and> y_delivery y = delivery"
  shows "\<exists>y \<in> set (webhook_events db'). owns e token y \<and> y_delivery y = delivery"
proof -
  have "owns e token y \<and> y_delivery y = delivery \<Longrightarrow> owns e token (y\<lparr> y_processing_started_at := Some t \<rparr>) \<and> y_delivery (y\<lparr> y_processing_started_at := Some t \<rparr>) = delivery" for y t
    by (simp add: owns_def)
  then show ?thesis using assms unfolding advances_def by (metis update_where_hit)
qed

lemma claimed_failed:
  assumes "process_claimed_webhook ws cs delivery y token db = (Inl m, db')"
    "\<exists>q \<in> set (webhook_events db). owns (y_id y) token q \<and> y_delivery q = delivery"
  shows "\<exists>q \<in> set (webhook_events db'). owns (y_id y) token q \<and> y_delivery q = delivery"
proof -
  obtain r1 db1 where p: "process_apps cs 0 y token (matched_apps y db) db = (r1, db1)" by fastforce
  have c1: "\<exists>q \<in> set (webhook_events db1). owns (y_id y) token q \<and> y_delivery q = delivery"
    using process_apps_advances [OF p] advances_owner assms(2) by blast
  have "db' = db \<or> db' = db1"
    using assms finalize_elim(1) by (fastforce simp: process_claimed_webhook_def Let_def p split: if_splits sum.splits)
  then show ?thesis using c1 assms(2) by blast
qed

text \<open>
  A delivery that failed is not lost and does not block.  When the handling of a claimed delivery
  fails and the claim can be released, the delivery is recorded as unprocessed and free, and the next
  request for it - at any time, without waiting for the lease, as long as the database works - claims it.
\<close>

theorem failed_delivery_retried:
  assumes "process_webhook ws cs delivery event repo payload db = (Inl m, db')"
    "fst (claim_webhook_event ws delivery event repo payload db) = Inr (Some (y, token))" "\<not> fault (ws 6) 0"
    "distinct (map y_id (webhook_events db))" "find_webhook (fresh (ws 0) 0) db = None"
    "distinct (map y_delivery (webhook_events db'))" "\<forall>k. \<not> fault (ws' k) 0"
  shows "\<exists>y' db''. claim_webhook_event ws' delivery event' repo' payload' db' = (Inr (Some (y', fresh (ws' 3) 0)), db'')
    \<and> y_id y' = y_id y \<and> y_payload y' = y_payload y"
proof -
  obtain db1 where c: "claim_webhook_event ws delivery event repo payload db = (Inr (Some (y, token)), db1)"
    using assms(2) by (metis prod.collapse)
  obtain db2 where p: "process_claimed_webhook ws cs delivery y token db1 = (Inl m, db2)"
    and db': "db' = release_webhook_claim (ws 6) (y_id y) token db2"
    using assms(1) c by (auto simp: process_webhook_def split: sum.splits prod.splits)
  from claim_exclusive_row [OF c assms(4,5)] have y: "y \<in> set (webhook_events db1)" "owns (y_id y) token y" "y_delivery y = delivery"
    and keys1: "distinct (map y_id (webhook_events db1))" by simp_all
  obtain q where q: "q \<in> set (webhook_events db2)" "owns (y_id y) token q" "y_delivery q = delivery"
    using claimed_failed [OF p] y by blast
  let ?q = "q\<lparr> y_processing := False, y_processing_started_at := None, y_processing_token := None \<rparr>"
  have q': "?q \<in> set (webhook_events db')"
    using q(1,2) assms(3) unfolding db' release_webhook_claim_def
    by (simp add: owns_def) (rule update_where_hit, auto)
  have pay: "y_payload q = y_payload y"
  proof -
    have "content db2 = content db1" by (rule claimed_content [OF p])
    then have "(y_id q, y_event_type q, y_payload q, y_repo_full_name q) \<in> set (content db1)"
      using content_mem [OF q(1)] by simp
    then obtain z where "z \<in> set (webhook_events db1)" "y_id z = y_id q" "y_payload z = y_payload q" by (auto simp: content_def)
    moreover from this have "z = y" using keys1 y(1) q(2) by (metis find_row_unique option.inject owns_def)
    ultimately show ?thesis by simp
  qed
  have first: "find (\<lambda>y. y_delivery y = delivery) (webhook_events db') = Some ?q"
    using find_row_unique [OF assms(6) q', of delivery] q(3) by (simp add: find_row_def)
  have rec: "record_delivery (new_webhook (ws' 0) delivery event' repo' payload') db' = db'"
    using q' q(3) by (force simp: record_delivery_def new_webhook_def exists_where_iff)
  let ?g = "\<lambda>z. y_id z = y_id ?q \<and> claimable_event (clock (ws' 3) 0) z"
  have "?g ?q" by (simp add: claimable_event_def)
  then have "find ?g (webhook_events db') \<noteq> None" using q' unfolding find_None_iff by blast
  then obtain z where z: "find ?g (webhook_events db') = Some z" by blast
  have eq: "y_id z = y_id y" using find_SomeD [OF z] q(2) by (simp add: owns_def)
  have keys2: "map y_id (webhook_events db') = map y_id (webhook_events db1)"
  proof -
    have "map y_id (webhook_events db2) = map fst (content db2)" "map y_id (webhook_events db1) = map fst (content db1)"
      by (simp_all add: content_def)
    then show ?thesis using claimed_content [OF p] by (simp add: db' release_webhook_claim_def map_update_where)
  qed
  have keys: "distinct (map y_id (webhook_events db'))" using keys1 keys2 by simp
  have "find_webhook (y_id ?q) db' = Some z" by (rule find_row_unique [OF keys]) (use find_SomeD [OF z] in auto)
  moreover have "find_webhook (y_id ?q) db' = Some ?q" by (rule find_row_unique [OF keys q']) simp
  ultimately have "z = ?q" by simp
  then show ?thesis using z first assms(7) q(2) pay eq
    by (auto simp: claim_webhook_event_def rec Let_def owns_def webhook_claim_set_def)
qed

end
