(* ===== verification/Witnesses.thy ===== *)
theory Witnesses
  imports Samples Suspension Agent_Messages Webhook
begin

text \<open>
  The properties applied to concrete databases: each theorem here evaluates the hypotheses of a
  property on an example of \<open>Samples\<close> and draws the property's conclusion for it.
\<close>

section \<open>Activation\<close>

theorem commit_needs_authority_witness:
  "committed_db \<noteq> prepared_db \<and> (\<exists>d a. find_deployment 20 prepared_db = Some d \<and> active_status (d_status d)
     \<and> find_app (d_app_id d) prepared_db = Some a \<and> a_pending_deployment_id a = Some 20
     \<and> a_route_generation a = 5)"
  using commit_needs_authority [OF sample_commit_run sample_changed sample_wf(2)] sample_changed
  by (auto simp: sample_commit_def)

theorem commit_acknowledged_witness:
  "\<exists>d a. find_deployment 20 committed_db = Some d \<and> d_status d = D_Success
     \<and> find_app (d_app_id d) committed_db = Some a \<and> a_current_deployment_id a = Some 20"
  using commit_acknowledged [OF sample_commit_run sample_wf(2)] by (auto simp: sample_commit_def)

theorem commit_idempotent_witness:
  "commit_activation (sample_world 5000) (Some 1) 20 sample_commit committed_db = (Code NO_CONTENT, committed_db)"
  by (rule commit_idempotent [OF sample_commit_run sample_wf(2)]) simp

lemma sample_candidate_range:
  "in_i32 (cr_published_port (pr_candidate sample_prepare))"
  "list_all service_in_range (cr_services (pr_candidate sample_prepare))"
  "distinct (reported_names (pr_candidate sample_prepare))"
  by (simp_all add: sample_prepare_def sample_candidate_def in_i32_def service_in_range_def reported_names_def
    deployment_service_report_max_def)

theorem prepare_allocates_witness:
  "\<exists>a'. find_app 10 prepared_db = Some a' \<and> a_route_generation a' = 5 \<and> a_pending_deployment_id a' = Some 20"
proof -
  obtain d a' where "find_deployment 20 activating_db = Some d" "find_app (d_app_id d) prepared_db = Some a'"
    "a_route_generation a' = 5" "a_pending_deployment_id a' = Some 20"
    using prepare_allocates [OF sample_prepare_run sample_candidate_range(1,2)] by blast
  moreover from this(1) have "d_app_id d = 10"
    by (simp add: activating_db_def sample_db_def sample_deployment_def split: if_splits) auto
  ultimately show ?thesis by auto
qed

lemma sample_lease:
  assumes "find_job (pr_job_id sample_prepare) activating_db = Some j"
  shows "j_lease_expires_at j = Some 1000"
  using assms by (auto simp: sample_prepare_def activating_db_def sample_db_def sample_job_def default_job_def
    split: if_splits)

theorem prepare_idempotent_witness:
  "fst (prepare_activation (sample_world 150) (Some 1) 20 sample_prepare prepared_db) = Reply 5"
  by (rule prepare_idempotent [OF sample_prepare_run sample_wf(1)]) (auto dest: sample_lease)

theorem prepare_then_commit_witness:
  "\<exists>db'' d a. commit_activation (sample_world 200) (Some 1) 20 sample_commit prepared_db = (Code NO_CONTENT, db'')
    \<and> find_deployment 20 db'' = Some d \<and> d_status d = D_Success
    \<and> find_app (d_app_id d) db'' = Some a \<and> a_current_deployment_id a = Some 20
    \<and> a_pending_deployment_id a = None"
proof -
  have active: "active_status (d_status d)" if "find_deployment 20 activating_db = Some d" for d
    using that by (auto simp: activating_db_def sample_db_def sample_deployment_def active_status_def
      active_deployment_statuses_def split: if_splits)
  have fit: "copies_fit (sample_world 200) 20 sample_commit (pr_candidate sample_prepare) (deployment_services activating_db)"
    by (simp add: copies_fit_def rollback_target_def sample_commit_def)
  have "\<not> cm_rolled_back sample_commit" by (simp add: sample_commit_def)
  moreover have "cm_job_id sample_commit = pr_job_id sample_prepare" "cm_claim_token sample_commit = pr_claim_token sample_prepare"
    "cm_route_generation sample_commit = 5" by (simp_all add: sample_commit_def sample_prepare_def)
  ultimately show ?thesis
    using prepare_then_commit [OF sample_prepare_run sample_wf(1) active _ _ sample_candidate_range _ _ _ fit] sample_lease by auto
qed

definition sample_pulse :: heartbeat_request where
  "sample_pulse = \<lparr> hb_claim_token = 7, hb_phase = D_Starting \<rparr>"

definition pulsed_db :: db where
  "pulsed_db = snd (heartbeat (sample_world 100) (Some 1) 30 sample_pulse activating_db)"

lemma sample_pulse_run:
  "heartbeat (sample_world 100) (Some 1) 30 sample_pulse activating_db =
     (Reply \<lparr> hr_cancel_requested = False, hr_lease_expires_at = Some 300000100 \<rparr>, pulsed_db)"
proof -
  have "fst (heartbeat (sample_world 100) (Some 1) 30 sample_pulse activating_db) =
      Reply \<lparr> hr_cancel_requested = False, hr_lease_expires_at = Some 300000100 \<rparr>"
    by code_simp
  then show ?thesis by (simp add: pulsed_db_def prod_eq_iff)
qed

theorem heartbeat_fenced_witness:
  "\<exists>j'. find_job 30 pulsed_db = Some j' \<and> j_status j' = J_Running \<and> j_lease_expires_at j' = Some 300000100"
  using heartbeat_fenced [OF sample_pulse_run sample_wf(1)] by auto

section \<open>Capacity\<close>

lemma sample_admitted:
  "capacity_decision_in_transaction (sample_world 100) 0 1 10 None activating_db = Inr Admitted"
  by code_simp

theorem capacity_admitted_fits_witness:
  "\<exists>a. a \<in> set (apps activating_db) \<and> a_id a = 10
     \<and> int (length (reserved_jobs 1 None activating_db)) + 1 \<le> s_max_concurrent_builds sample_server"
  using capacity_admitted_fits [OF sample_admitted, of sample_server]
  by (auto simp: Let_def activating_db_def sample_db_def sample_server_def)

theorem select_app_runner_sound_witness:
  "\<exists>s \<in> set (servers activating_db). s_id s = 1 \<and> available_runner activating_db s"
proof -
  have "select_app_runner (sample_world 100) None activating_db = Inr 1" by code_simp
  from select_app_runner_sound [OF this] show ?thesis by blast
qed

definition waiting_db :: db where
  "waiting_db = sample_db (sample_app None None 4) [sample_deployment 20 D_Queued]
     [sample_job 30 ''deploy'' J_Queued (Some 20) (JObj [(''capacity_wait'', JBool True)])]"

theorem scheduler_within_limit_witness:
  "fst (admit_waiting_deployments (\<lambda>_. sample_world 100) waiting_db) = Inr 1
   \<and> builds_within_limit (snd (admit_waiting_deployments (\<lambda>_. sample_world 100) waiting_db))"
proof -
  have "builds_within_limit waiting_db" "wf_keys waiting_db" by code_simp+
  from scheduler_within_limit [OF this] show ?thesis by code_simp
qed

section \<open>The job queue\<close>

definition idle_db :: db where
  "idle_db = sample_db (sample_app (Some 20) None 4) [sample_deployment 20 D_Success] []"

theorem enqueue_agent_job_correct_witness:
  "\<exists>j. find_job 100 (snd (enqueue_agent_job (sample_world 100) 1 (Some 10) (Some 20) ''deploy'' (JObj []) 10 idle_db)) = Some j
     \<and> j_status j = J_Queued \<and> (holds_reservation j \<or> waits_for_capacity j \<and> j_available_at j = 100 + years 100)"
proof -
  let ?run = "enqueue_agent_job (sample_world 100) 1 (Some 10) (Some 20) ''deploy'' (JObj []) 10 idle_db"
  have run: "?run = (Inr 100, snd ?run)"
  proof -
    have "fst ?run = Inr 100" by code_simp
    then show ?thesis by (simp add: prod_eq_iff)
  qed
  have "is_object (JObj [])" "find_job (fresh (sample_world 100) 0) idle_db = None"
    "\<forall>a \<in> set (apps idle_db). 0 \<le> a_queue_priority_offset a \<and> a_queue_priority_offset a \<le> 4"
    by code_simp+
  from enqueue_agent_job_correct [OF run this] show ?thesis by auto
qed

definition sample_url :: "string \<Rightarrow> (string \<times> string option \<times> nat option \<times> string) option" where
  "sample_url url = (if url = ''https://registry.test'' then Some (''https'', Some ''registry.test'', None, ''/'')
     else None)"

definition sample_deploy_env :: deploy_env where
  "sample_deploy_env = \<lparr> token_for_deploy = (\<lambda>_ _. Inr (Some ''token'')),
     github_commit = (\<lambda>_ _ _. Inr (JObj [(''sha'', JStr sample_sha)])), decrypt = Inr, parse_url = sample_url \<rparr>"

definition deployable_db :: db where
  "deployable_db = idle_db\<lparr> build_pools := [\<lparr> q_id = 3, q_provider = ''vm'', q_enabled = True,
     q_qualification_status = ''passed'', q_is_default = True, q_supported_platforms = [''linux/amd64''],
     q_max_concurrent_builds = 2, q_created_at = 1 \<rparr>] \<rparr>"

definition deploy_run :: "(string + uuid) \<times> db" where
  "deploy_run = create_and_send_deploy_with_approval (\<lambda>_. sample_world 100) sample_deploy_env 5 10 ''HEAD'' None
     deployable_db"

theorem create_and_send_deploy_correct_witness:
  "fst deploy_run = Inr 100 \<and> (\<exists>d. find_deployment 100 (snd deploy_run) = Some d \<and> d_status d = D_QueuedForBuild
     \<and> length (d_commit_sha d) = 40)"
proof -
  have ok: "fst deploy_run = Inr 100" by code_simp
  have run: "create_and_send_deploy_with_approval (\<lambda>_. sample_world 100) sample_deploy_env 5 10 ''HEAD'' None
      deployable_db = (Inr 100, snd deploy_run)"
    using ok by (simp add: deploy_run_def prod_eq_iff)
  have "find_deployment (fresh (sample_world 100) 0) deployable_db = None"
    "find_job (fresh (sample_world 100) 1) deployable_db = None" "\<not> fault (sample_world 100) 0"
    by code_simp+
  from create_and_send_deploy_correct [OF run this] ok show ?thesis by blast
qed

definition fresh_build_db :: db where
  "fresh_build_db = snd deploy_run"

theorem claim_next_queued_job_correct_witness:
  "\<exists>c. find_job 101 (snd (claim_next_queued_job (sample_world 200) 1 ''agent'' 6 fresh_build_db)) = Some c
     \<and> j_status c = J_Claimed \<and> j_claim_token c = Some 100 \<and> j_lease_expires_at c = Some 300000200"
proof -
  let ?run = "claim_next_queued_job (sample_world 200) 1 ''agent'' 6 fresh_build_db"
  have fst: "\<exists>c. fst ?run = Inr (Some c) \<and> j_id c = 101"
  proof -
    have "(case fst ?run of Inr (Some c) \<Rightarrow> j_id c = 101 | _ \<Rightarrow> False)" by code_simp
    then show ?thesis by (auto split: sum.splits option.splits)
  qed
  then obtain c where c: "?run = (Inr (Some c), snd ?run)" "j_id c = 101" by (auto simp: prod_eq_iff)
  have "wf_keys fresh_build_db" by code_simp
  from claim_next_queued_job_correct [OF c(1) this] c(2) show ?thesis by auto
qed

section \<open>Recovery\<close>

definition held_db :: db where
  "held_db = sample_db (sample_app None (Some 20) 5) [sample_deployment 20 D_Running]
     [sample_job 30 ''deploy'' J_Running (Some 20) sample_payload]"

lemma held_job: "find_job 30 held_db = Some (sample_job 30 ''deploy'' J_Running (Some 20) sample_payload)"
  by (simp add: held_db_def sample_db_def sample_job_def default_job_def)

lemma held_facts: "distinct (map j_id (agent_jobs held_db))" "wf_keys held_db"
  "job_leased (j_status (sample_job 30 ''deploy'' J_Running (Some 20) sample_payload))"
  "j_lease_expires_at (sample_job 30 ''deploy'' J_Running (Some 20) sample_payload) = Some 1000"
  by code_simp+

theorem recovery_respects_leases_witness:
  "\<exists>j'. find_job 30 (snd (recover_stale_agent_jobs (\<lambda>_. sample_world 500) held_db)) = Some j'
     \<and> j_status j' = J_Running \<and> j_claim_token j' = Some 7"
  using recovery_respects_leases [OF held_facts(1) held_job held_facts(3,4), of "\<lambda>_. sample_world 500"]
  by (auto simp: sample_job_def)

theorem recovery_frees_lapsed_witness:
  "\<exists>j'. find_job 30 (snd (recover_stale_agent_jobs (\<lambda>_. sample_world 2000) held_db)) = Some j'
     \<and> \<not> job_leased (j_status j')"
proof (rule recovery_frees_lapsed [OF held_facts(1) held_job held_facts(3,4)])
  show "app_exists a held_db"
    if "j_app_id (sample_job 30 ''deploy'' J_Running (Some 20) sample_payload) = Some a" for a
    using that by (simp add: sample_job_def app_exists_def held_db_def sample_db_def sample_app_def)
qed simp_all

definition leaking_db :: db where
  "leaking_db = sample_db (sample_app None None 5) [sample_deployment 20 D_Failed]
     [sample_job 30 ''deploy'' J_Failed (Some 20) sample_payload]"

theorem recovery_scrubs_secrets_witness:
  "list_ex (\<lambda>j. has_secrets (j_payload j)) (agent_jobs leaking_db)
   \<and> (\<exists>j. agent_jobs (snd (recover_stale_agent_jobs (\<lambda>_. sample_world 500) leaking_db)) = [j] \<and> \<not> has_secrets (j_payload j))"
proof -
  let ?run = "recover_stale_agent_jobs (\<lambda>_. sample_world 500) leaking_db"
  have "\<exists>n. fst ?run = Inr n" by (rule exI [of _ 0]) code_simp
  then obtain n where run: "?run = (Inr n, snd ?run)" by (auto simp: prod_eq_iff)
  have "map j_status (agent_jobs (snd ?run)) = [J_Failed]" by code_simp
  then obtain j where j: "agent_jobs (snd ?run) = [j]" "j_status j = J_Failed" by auto
  have "list_ex (\<lambda>j. has_secrets (j_payload j)) (agent_jobs leaking_db)" by code_simp
  then show ?thesis using recovery_scrubs_secrets [OF run, of j] j by simp
qed

definition exhausted_db :: db where
  "exhausted_db = sample_db (sample_app None (Some 20) 5) [sample_deployment 20 D_Running]
     [(sample_job 30 ''deploy'' J_Running (Some 20) sample_payload)\<lparr> j_attempt := 3 \<rparr>]"

theorem exhausted_job_fails_deployment_witness:
  "\<exists>d'. find_deployment 20 (snd (recover_expired_jobs (sample_world 2000) True exhausted_db)) = Some d'
     \<and> d_status d' = D_Failed"
proof -
  let ?j = "(sample_job 30 ''deploy'' J_Running (Some 20) sample_payload)\<lparr> j_attempt := 3 \<rparr>"
  have "wf_keys exhausted_db" by code_simp
  moreover have "find_job 30 exhausted_db = Some ?j"
    by (simp add: exhausted_db_def sample_db_def sample_job_def default_job_def)
  moreover have "exhausted_expired (clock (sample_world 2000) n) ?j" for n
    by (simp add: exhausted_expired_def sample_job_def default_job_def)
  moreover have "j_deployment_id ?j = Some 20" by (simp add: sample_job_def)
  moreover have "find_deployment 20 exhausted_db = Some (sample_deployment 20 D_Running)"
    by (simp add: exhausted_db_def sample_db_def sample_deployment_def)
  moreover have "active_status (d_status (sample_deployment 20 D_Running))" by code_simp
  ultimately show ?thesis using exhausted_job_fails_deployment [of exhausted_db 30 ?j "sample_world 2000" 20] by simp blast
qed

section \<open>Cancellation and deletion\<close>

theorem start_app_teardown_fences_witness:
  "deletion_fenced 10 (snd (start_app_teardown (sample_world 500) 1 10 (JObj []) True held_db))"
proof -
  let ?run = "start_app_teardown (sample_world 500) 1 10 (JObj []) True held_db"
  have "(case fst ?run of Inr td \<Rightarrow> td_active_jobs td = 1 | Inl _ \<Rightarrow> False)" by code_simp
  then obtain td where run: "?run = (Inr td, snd ?run)" by (auto simp: prod_eq_iff split: sum.splits)
  have "j_status j \<noteq> J_Canceled" if "j \<in> set (agent_jobs held_db)" "j_job_type j = ''delete_app''" for j
    using that by (auto simp: held_db_def sample_db_def sample_job_def)
  from start_app_teardown_fences [OF run this] show ?thesis by blast
qed

theorem cancel_agent_job_correct_witness:
  "\<exists>j'. find_job 30 (snd (cancel_agent_job_for_actor (sample_world 500) \<lparr> vis_user_id = 5, vis_cloud_mode = False \<rparr>
     30 owner held_db)) = Some j' \<and> j_status j' = J_Running \<and> j_cancel_requested_at j' \<noteq> None"
proof -
  let ?run = "cancel_agent_job_for_actor (sample_world 500) \<lparr> vis_user_id = 5, vis_cloud_mode = False \<rparr> 30 owner held_db"
  have "fst ?run = Inr Cancelled" by code_simp
  then have run: "?run = (Inr Cancelled, snd ?run)" by (simp add: prod_eq_iff)
  from cancel_agent_job_correct [OF run held_facts(2)] show ?thesis
    unfolding held_job by (auto simp: sample_job_def)
qed


section \<open>Builds and completion\<close>

definition sample_digest :: string where
  "sample_digest = ''registry.test/hostlet/apps/a/artifacts@sha256:'' @ replicate 64 CHR ''c''"

definition sample_descriptor :: "string \<Rightarrow> json" where
  "sample_descriptor media = JObj [(''digestRef'', JStr sample_digest), (''mediaType'', JStr media),
     (''sizeBytes'', JInt 10)]"

definition image_media :: string where
  "image_media = ''application/vnd.oci.image.manifest.v1+json''"

definition sample_manifest :: json where
  "sample_manifest = JObj [(''schemaVersion'', JInt 2), (''buildId'', JStr (sample_uuid_text 40)),
     (''deploymentId'', JStr (sample_uuid_text 20)), (''appId'', JStr (sample_uuid_text 10)),
     (''commitSha'', JStr sample_sha), (''platform'', JStr ''linux/amd64''),
     (''buildPlanDigest'', JStr (''sha256:'' @ replicate 64 CHR ''b'')),
     (''index'', sample_descriptor ''application/vnd.oci.image.index.v1+json''),
     (''bundle'', sample_descriptor image_media),
     (''images'', JArr [JObj [(''service'', JStr ''web''), (''role'', JStr ''web''), (''source'', JStr ''built''),
        (''artifact'', sample_descriptor image_media)]])]"

definition build_assignment :: json where
  "build_assignment = JObj [(''type'', JStr ''build''), (''build_id'', JStr (sample_uuid_text 40)),
     (''deployment_id'', JStr (sample_uuid_text 20)), (''app_id'', JStr (sample_uuid_text 10)),
     (''commit_sha'', JStr sample_sha), (''required_platform'', JStr ''linux/amd64''),
     (''github_token'', JStr ''token''),
     (''artifact_registry'', JObj [(''host'', JStr ''registry.test''),
        (''repository'', JStr ''hostlet/apps/a/artifacts''), (''pushUsername'', JStr ''pusher''),
        (''pushPassword'', JStr ''push-secret'')])]"

theorem validate_build_manifest_accepts_witness:
  "\<exists>m. manifest_from_json (sample_world 100) sample_manifest = Some m \<and> length (bm_images m) = 1
     \<and> (\<forall>i \<in> set (bm_images m). pinned ''registry.test/hostlet/apps/a/artifacts@sha256:'' (od_digest_ref (ai_artifact i)))"
proof -
  have other: "Option.bind (json_get sample_manifest ''schemaVersion'') as_u64 \<noteq> Some 1" by code_simp
  have ok: "validate_build_manifest (sample_world 100) build_assignment sample_manifest = Inr ()" by code_simp
  have one: "map_option (\<lambda>m. length (bm_images m)) (manifest_from_json (sample_world 100) sample_manifest) = Some 1"
    by code_simp
  have reg: "Option.bind (json_get build_assignment ''artifact_registry'') (\<lambda>g. get_str g ''host'') = Some ''registry.test''"
    "Option.bind (json_get build_assignment ''artifact_registry'') (\<lambda>g. get_str g ''repository'') =
       Some ''hostlet/apps/a/artifacts''" by code_simp+
  from validate_build_manifest_accepts [OF other, of "sample_world 100" build_assignment] ok
  obtain m g host repository where m: "manifest_from_json (sample_world 100) sample_manifest = Some m"
    "json_get build_assignment ''artifact_registry'' = Some g" "get_str g ''host'' = Some host"
    "get_str g ''repository'' = Some repository"
    "\<forall>r \<in> {bm_index m, bm_bundle m} \<union> ai_artifact ` set (bm_images m).
       pinned (host @ ''/'' @ repository @ ''@sha256:'') (od_digest_ref r)"
    by blast
  then show ?thesis using reg one by auto
qed

definition building_db :: db where
  "building_db = (sample_db (sample_app None None 4) [sample_deployment 20 D_Building]
     [sample_job 30 ''build'' J_Running (Some 20) build_assignment])\<lparr> deployment_builds :=
       [\<lparr> b_id = 40, b_deployment_id = 20, b_build_pool_id = 3, b_status = B_Leased,
          b_required_platform = ''linux/amd64'', b_build_spec = JObj [], b_build_plan_digest = None,
          b_artifact_manifest = JObj [], b_waiting_reason = None, b_failure_code = None,
          b_failure_summary = None, b_started_at = Some 3, b_finished_at = None, b_updated_at = 3 \<rparr>] \<rparr>"

definition sample_success :: complete_job_request where
  "sample_success = \<lparr> cj_status = ''success'', cj_failure = None, cj_result = Some sample_manifest,
     cj_claim_token = Some 7 \<rparr>"

definition sample_failure :: complete_job_request where
  "sample_failure = \<lparr> cj_status = ''failed'', cj_failure = Some ''compile error'', cj_result = None,
     cj_claim_token = Some 7 \<rparr>"

definition built_db :: db where
  "built_db = snd (complete_transaction (sample_world 500) 1 30 sample_success J_Success 7 building_db)"

definition sample_build_job :: job_row where
  "sample_build_job = sample_job 30 ''build'' J_Running (Some 20) build_assignment"

lemma build_success_run:
  "complete_transaction (sample_world 500) 1 30 sample_success J_Success 7 building_db = (Inr sample_build_job, built_db)"
proof -
  have "fst (complete_transaction (sample_world 500) 1 30 sample_success J_Success 7 building_db) = Inr sample_build_job"
    by code_simp
  then show ?thesis by (simp add: built_db_def prod_eq_iff)
qed

lemma building_wf: "wf_keys building_db" "terminal_request (cj_status sample_success) = Some J_Success"
  by code_simp+

theorem complete_job_needs_lease_witness:
  "\<exists>c. find_job 30 built_db = Some c \<and> j_status c = J_Success \<and> \<not> has_secrets (j_payload c)"
  using complete_job_needs_lease [OF building_wf, where w = "sample_world 500" and server_id = 1 and job_id = 30 and token = 7] unfolding build_success_run by auto

theorem build_success_queues_release_witness:
  "\<exists>r \<in> set (agent_jobs built_db). j_job_type r = ''release'' \<and> j_deployment_id r = Some 20
     \<and> json_get (j_payload r) ''github_token'' = None"
proof -
  have ty: "j_job_type sample_build_job = ''build''" and k: "j_deployment_id sample_build_job = Some 20"
    by code_simp+
  from build_success_queues_release [OF build_success_run ty building_wf(1)] k show ?thesis by auto
qed

theorem complete_job_idempotent_witness:
  "complete_transaction (sample_world 9000) 1 30 sample_success J_Success 7 built_db = (Inl (Code NO_CONTENT), built_db)"
  by (rule complete_job_idempotent [OF build_success_run building_wf]) simp

theorem unsuccessful_job_ends_deployment_witness:
  "\<exists>d'. find_deployment 20 (snd (complete_transaction (sample_world 500) 1 30 sample_failure J_Failed 7 building_db)) = Some d'
     \<and> d_status d' = D_Failed \<and> d_failure_summary d' = Some ''compile error''"
proof -
  let ?run = "complete_transaction (sample_world 500) 1 30 sample_failure J_Failed 7 building_db"
  have "fst ?run = Inr sample_build_job" by code_simp
  then have run: "?run = (Inr sample_build_job, snd ?run)" by (simp add: prod_eq_iff)
  have "J_Failed \<noteq> J_Success" "j_deployment_id sample_build_job = Some 20"
    "find_deployment 20 building_db = Some (sample_deployment 20 D_Building)"
    "j_job_type sample_build_job = ''build'' \<or> d_server_id (sample_deployment 20 D_Building) = 1"
    by code_simp+
  note U = unsuccessful_job_ends_deployment [OF run this]
  have "active_status (d_status (sample_deployment 20 D_Building))" by code_simp
  then show ?thesis using U by (auto simp: sample_failure_def)
qed

section \<open>Suspension\<close>

definition queued_db :: db where
  "queued_db = sample_db (sample_app (Some 19) None 4)
     [sample_deployment 20 D_Queued, (sample_deployment 19 D_Success)\<lparr> d_container_name := Some ''hostlet-app-19'', d_published_port := Some 4000 \<rparr>]
     [sample_job 30 ''deploy'' J_Queued (Some 20) sample_payload]"

definition paused_run :: "(change_error + suspension_change) \<times> db" where
  "paused_run = change_reason (sample_world 100) 10 (Some 5) user_requested ''owner'' True queued_db"

definition resumed_run :: "(change_error + suspension_change) \<times> db" where
  "resumed_run = change_reason (sample_world 200) 10 (Some 5) user_requested ''owner'' False (snd paused_run)"

lemma paused_change:
  "change_reason (sample_world 100) 10 (Some 5) user_requested ''owner'' True queued_db =
    (Inr \<lparr> sc_app_id = 10, sc_suspended = True, sc_reasons = [user_requested], sc_job_id = Some 100 \<rparr>, snd paused_run)"
proof -
  have "fst paused_run = Inr \<lparr> sc_app_id = 10, sc_suspended = True, sc_reasons = [user_requested], sc_job_id = Some 100 \<rparr>"
    by code_simp
  then show ?thesis by (simp add: paused_run_def prod_eq_iff)
qed

lemma resumed_change:
  "change_reason (sample_world 200) 10 (Some 5) user_requested ''owner'' False (snd paused_run) =
    (Inr \<lparr> sc_app_id = 10, sc_suspended = False, sc_reasons = [], sc_job_id = Some 100 \<rparr>, snd resumed_run)"
proof -
  have "fst resumed_run = Inr \<lparr> sc_app_id = 10, sc_suspended = False, sc_reasons = [], sc_job_id = Some 100 \<rparr>"
    by code_simp
  then show ?thesis by (simp add: resumed_run_def prod_eq_iff)
qed

theorem pause_withdraws_work_witness:
  "(\<exists>d. find_deployment 20 (snd paused_run) = Some d \<and> d_status d = D_Canceled)
   \<and> (\<exists>j \<in> set (agent_jobs (snd paused_run)). j_id j = 100 \<and> j_job_type j = ''suspend_app'' \<and> j_status j = J_Queued)"
proof -
  have "\<exists>j \<in> set (agent_jobs queued_db). j_app_id j = Some 10 \<and> lifecycle_job_type (j_job_type j) \<and> j_status j = J_Queued
      \<and> j_deployment_id j = Some 20"
    and "\<exists>d. find_deployment 20 queued_db = Some d \<and> active_status (d_status d)"
    by code_simp (simp add: queued_db_def sample_db_def, code_simp)
  with pause_withdraws_work [OF paused_change] show ?thesis by auto
qed

theorem resume_needs_last_reason_witness:
  "(\<exists>a. find_app 10 (snd resumed_run) = Some a \<and> a_suspended_at a = None)
   \<and> (\<exists>j \<in> set (agent_jobs (snd resumed_run)). j_id j = 100 \<and> j_job_type j = ''resume_app'' \<and> j_status j = J_Queued)"
  using resume_needs_last_reason [OF resumed_change] by auto

end
