(* ===== verification/Fence.thy ===== *)
theory Fence
  imports Completion Claim Suspension Agent_Messages Webhook
begin

text \<open>
  What every operation except the preparation of an activation keeps of the fencing data of an app:
  the route generation stays, the pending deployment stays or is cleared, and a deployment that holds
  an activation generation held the same one before.  One fact per operation of the control plane;
  \<open>Lifecycle\<close> joins them.
\<close>

section \<open>What every other operation keeps of the fencing data\<close>

definition fence_apps :: "app_row list \<Rightarrow> app_row list \<Rightarrow> bool" where
  "fence_apps as as' \<longleftrightarrow> (\<forall>a' \<in> set as'. \<exists>a \<in> set as. a_id a = a_id a'
     \<and> a_route_generation a = a_route_generation a'
     \<and> (a_pending_deployment_id a' = None \<or> a_pending_deployment_id a' = a_pending_deployment_id a))"

definition fence_deployments_sub :: "deployment_row list \<Rightarrow> deployment_row list \<Rightarrow> bool" where
  "fence_deployments_sub ds ds' \<longleftrightarrow> (\<forall>d' \<in> set ds'. d_activation_generation d' \<noteq> None \<longrightarrow>
     (\<exists>d \<in> set ds. d_id d = d_id d' \<and> d_app_id d = d_app_id d'
        \<and> d_activation_generation d = d_activation_generation d'))"

definition fence_sub :: "db \<Rightarrow> db \<Rightarrow> bool" where
  "fence_sub db db' \<longleftrightarrow> fence_apps (apps db) (apps db') \<and> fence_deployments_sub (deployments db) (deployments db')"

lemma fence_apps_refl [simp]: "fence_apps as as" by (auto simp: fence_apps_def)
lemma fence_deployments_refl [simp]: "fence_deployments_sub ds ds" by (auto simp: fence_deployments_sub_def)
lemma fence_sub_refl [simp]: "fence_sub db db" by (simp add: fence_sub_def)

lemma fence_sub_trans: "fence_sub x y \<Longrightarrow> fence_sub y z \<Longrightarrow> fence_sub x z"
  unfolding fence_sub_def fence_apps_def fence_deployments_sub_def by (metis (no_types, lifting))

lemma fence_sub_frame: "apps db' = apps db \<Longrightarrow> deployments db' = deployments db \<Longrightarrow> fence_sub db db'"
  by (simp add: fence_sub_def)

lemma fence_apps_update [simp]:
  assumes "\<And>a. a_id (f a) = a_id a \<and> a_route_generation (f a) = a_route_generation a
    \<and> (a_pending_deployment_id (f a) = None \<or> a_pending_deployment_id (f a) = a_pending_deployment_id a)"
  shows "fence_apps as (update_where P f as)"
  using assms by (fastforce simp: fence_apps_def update_where_def)

lemma fence_deployments_update [simp]:
  assumes "\<And>d. d_id (f d) = d_id d \<and> d_app_id (f d) = d_app_id d
    \<and> d_activation_generation (f d) = d_activation_generation d"
  shows "fence_deployments_sub ds (update_where P f ds)"
  using assms by (fastforce simp: fence_deployments_sub_def update_where_def)

lemma fence_deployments_insert [simp]:
  "d_activation_generation d = None \<Longrightarrow> fence_deployments_sub ds (ds @ [d])"
  by (auto simp: fence_deployments_sub_def)

lemma fence_apps_filter [simp]: "fence_apps as (filter P as)" "fence_apps as (delete_where P as)"
  by (auto simp: fence_apps_def delete_where_def)

lemma fence_deployments_filter [simp]:
  "fence_deployments_sub ds (filter P ds)" "fence_deployments_sub ds (delete_where P ds)"
  by (auto simp: fence_deployments_sub_def delete_where_def)

section \<open>Handlers\<close>

lemma heartbeat_fence: "fence_sub db (snd (heartbeat w auth i r db))"
  by (simp add: heartbeat_def Let_def heartbeat_deployment_def heartbeat_deployment_set_def fence_sub_def split: option.split)

lemma commit_finish_frames:
  assumes "commit_finish w s i k request p c db = Some db'"
  shows "apps db' = apps db \<and> deployments db' = deployments db"
proof -
  from assms obtain db1 where "deployments db1 = deployments db" "apps db1 = apps db"
    "schedule_previous_runtime_stop w s i p k db1 = Some db'" by (rule commit_finish_split)
  then show ?thesis by (simp add: schedule_stop_frame)
qed

lemma commit_fence:
  assumes "commit_activation w auth k request db = (r, db')"
  shows "fence_sub db db'"
  using assms
proof (cases rule: commit_activation_elim)
  case (committed s d a j)
  show ?thesis
    by (simp add: fence_sub_def commit_finish_frames [OF committed(4)] commit_effect_def
        commit_app_def commit_job_def commit_deployment_def)
qed simp_all

text \<open>
  The statements that end, cancel or requeue work, one fact each; \<open>fence_step\<close> chains them.
\<close>

lemma fence_step: "fence_sub x y \<Longrightarrow> (\<And>db. fence_sub db (f db)) \<Longrightarrow> fence_sub x (f y)"
  using fence_sub_trans by blast

lemma fence_statements [simp]:
  "fence_sub x db \<Longrightarrow> fence_sub x (end_deployments t s c m is db)"
  "fence_sub x db \<Longrightarrow> fence_sub x (clear_pending t is db)"
  "fence_sub x db \<Longrightarrow> fence_sub x (end_builds t bs c m is db)"
  "fence_sub x db \<Longrightarrow> fence_sub x (fence_deployments t is db)"
  "fence_sub x db \<Longrightarrow> fence_sub x (terminalize_jobs w P db)"
  "fence_sub x db \<Longrightarrow> fence_sub x (update_jobs P f db)"
  "fence_sub x db \<Longrightarrow> fence_sub x (update_builds Q g db)"
  "fence_sub x db \<Longrightarrow> fence_sub x (agent_jobs_update u db)"
  "fence_sub x db \<Longrightarrow> fence_sub x (audit t p q r s' i d j' db)"
  "fence_sub x db \<Longrightarrow> fence_sub x (fail_deployment_row w' k e db)"
  "fence_sub x db \<Longrightarrow> fence_sub x (record_audit_event w' v n o' d1 j1 db)"
  "fence_sub x db \<Longrightarrow> fence_sub x (record_agent_job_audit_event_in_transaction w' act ev i1 d1 j1 db)"
  "fence_sub x db \<Longrightarrow> fence_sub x (mark_deployment_running w' k db)"
  "fence_sub x db \<Longrightarrow> fence_sub x (mark_agent_job_failed w' k e db)"
  "fence_sub x db \<Longrightarrow> fence_sub x (record_control_event w' ac v1 i1 j1 db)"
  "fence_sub x db \<Longrightarrow> fence_sub x (release_pending t i' k db)"
  "fence_sub x db \<Longrightarrow> fence_sub x (cancel_deployment t act k db)"
  "fence_sub x db \<Longrightarrow> fence_sub x (clear_fenced_pending w' k is db)"
  "fence_sub x db \<Longrightarrow> fence_sub x (cancel_fenced_deployments w' is db)"
  "fence_sub x db \<Longrightarrow> fence_sub x (end_deployment w' k ty js o1 k' db)"
  "fence_sub x db \<Longrightarrow> fence_sub x (fail_build w' k st o1 db)"
  "fence_sub x db \<Longrightarrow> fence_sub x (record_job_result w' ty i1 d1 st o1 db)"
  "fence_sub x db \<Longrightarrow> fence_sub x (lease_build w' k db)"
  "fence_sub x db \<Longrightarrow> fence_sub x (mark_building w' k db)"
  "fence_sub x db \<Longrightarrow> fence_sub x (mark_build_assigned w' k db)"
  "fence_sub x db \<Longrightarrow> fence_sub x (advertise_protocol w' k n db)"
  "fence_sub x db \<Longrightarrow> fence_sub x (requeue_expired_jobs_for_server w' k db)"
  by (rule fence_step, assumption, simp add: fence_sub_def end_deployments_def clear_pending_def
      end_builds_def fence_deployments_def terminalize_jobs_def fail_deployment_row_def
      mark_deployment_running_def mark_agent_job_failed_def record_control_event_def
      release_pending_def cancel_deployment_def clear_fenced_pending_def cancel_fenced_deployments_def
      end_deployment_def fail_build_def lease_build_def mark_building_def
      mark_build_assigned_def advertise_protocol_def requeue_expired_jobs_for_server_def
      split: option.split)+

section \<open>Recovery, claims and completion\<close>

lemma reconcile_fence [simp]: "fence_sub x db \<Longrightarrow> fence_sub x (snd (reconcile_teardown_fenced_jobs w s db))"
  by (simp add: reconcile_teardown_fenced_jobs_def Let_def)

lemma pass_fence_sub: "p \<in> set passes \<Longrightarrow> fence_sub db (snd (p w db))"
  by (auto simp: passes_def terminalize_expired_cancellations_def recover_expired_jobs_def
      scrub_pass_def scrub_terminal_job_payload_secrets_def Let_def)

lemma recover_fence: "fence_sub db (snd (recover_stale_agent_jobs ws db))"
proof -
  have "fence_sub x (snd (run_passes ps ws k n db))" if "set ps \<subseteq> set passes" "fence_sub x db" for ps k n db x
    using that
  proof (induction ps arbitrary: k n db)
    case (Cons p ps)
    obtain r y where "p (ws k) db = (r, y)" by fastforce
    moreover from this have "fence_sub x y"
      using pass_fence_sub [of p db "ws k"] Cons.prems fence_sub_trans by fastforce
    ultimately show ?case using Cons by (simp split: sum.split)
  qed simp
  then show ?thesis unfolding recover_stale_agent_jobs_passes by simp
qed

lemma claim_fence:
  assumes "claim_job ws secret sign auth agent v db = (r, db')"
  shows "fence_sub db db'"
proof -
  have "fence_sub x (snd (claim_next_queued_job w s g k y))" if "fence_sub x y" for x w s g k y
    using that by (simp add: claim_next_queued_job_def split: option.split)
  moreover have "fence_sub x (snd (claim_job_response us secret sign s j t y))" if "fence_sub x y" for x us s j t y
    using that by (simp add: claim_job_response_def Let_def split: option.split sum.split bool.split)
  note rules = calculation this
  obtain s where auth: "auth = Some s \<or> db' = db" using assms by (cases auth) (auto simp: claim_job_def)
  define y where "y = requeue_expired_jobs_for_server (ws 2) s (snd (reconcile_teardown_fenced_jobs (ws 1) (Some s)
    (advertise_protocol (ws 0) s (clamp_protocol v) db)))"
  have "fence_sub db (advertise_protocol (ws 0) s (clamp_protocol v) db)"
    by (simp add: advertise_protocol_def fence_sub_frame)
  then have y: "fence_sub db y" unfolding y_def by (intro fence_statements(27) reconcile_fence)
  obtain q z where claim: "claim_next_queued_job (ws 3) s (claim_agent_name agent) (clamp_protocol v) y = (q, z)"
    by fastforce
  from rules(1) [OF y, of "ws 3" s "claim_agent_name agent" "clamp_protocol v"] have z: "fence_sub db z"
    by (simp add: claim)
  have "fence_sub db db'" if q: "auth = Some s"
  proof -
    have "claim_job ws secret sign auth agent v db = (case (q, z) of
        (Inl _, db4) \<Rightarrow> (Code INTERNAL_SERVER_ERROR, db4) | (Inr None, db4) \<Rightarrow> (Reply None, db4)
      | (Inr (Some j), db4) \<Rightarrow> claim_job_response (\<lambda>k. ws (4 + k)) secret sign s j (fresh (ws 3) 0) db4)"
      unfolding claim_job_def q option.case Let_def y_def [symmetric] claim ..
    then have "db' = snd (case (q, z) of
        (Inl _, db4) \<Rightarrow> (Code INTERNAL_SERVER_ERROR, db4) | (Inr None, db4) \<Rightarrow> (Reply None, db4)
      | (Inr (Some j), db4) \<Rightarrow> claim_job_response (\<lambda>k. ws (4 + k)) secret sign s j (fresh (ws 3) 0) db4)"
      using assms by (metis snd_conv)
    with rules(2) [OF z] z show ?thesis by (simp split: sum.split option.split)
  qed
  with auth show ?thesis by auto
qed

lemma fence_app_jobs_fence: "fence_app_jobs_in_transaction w k i db = Some (n, db') \<Longrightarrow> fence_sub db db'"
  by (auto simp: fence_app_jobs_in_transaction_def Let_def split: if_splits)

lemma refresh_fence: "refresh_app_teardown_fence w i db = (r, db') \<Longrightarrow> fence_sub db db'"
  by (auto simp: refresh_app_teardown_fence_def split: option.splits if_splits dest: fence_app_jobs_fence)

lemma fence_apps_map:
  assumes "\<And>a. a_id (f a) = a_id a \<and> a_route_generation (f a) = a_route_generation a
    \<and> (a_pending_deployment_id (f a) = None \<or> a_pending_deployment_id (f a) = a_pending_deployment_id a)"
  shows "fence_apps as (map f (delete_where P as))"
  using assms by (fastforce simp: fence_apps_def delete_where_def)

lemma cascade_fence: "fence_sub db (cascade_delete_app i db)"
proof -
  have "fence_apps (apps db) (apps (cascade_delete_app i db))"
    unfolding cascade_delete_app_def Let_def
    by (simp, rule fence_apps_map) (auto simp: null_if_def split: option.splits)
  moreover have "fence_deployments_sub (deployments db) (deployments (cascade_delete_app i db))"
    by (auto simp: cascade_delete_app_def Let_def fence_deployments_sub_def delete_where_def)
  ultimately show ?thesis by (simp add: fence_sub_def)
qed

lemma delete_records_fence: "delete_app_records w i u cs db = (r, db') \<Longrightarrow> fence_sub db db'"
  by (auto simp: delete_app_records_def Let_def empty_payloads_def delete_resource_snapshots_def split: if_splits
      intro!: fence_sub_trans [OF _ cascade_fence] fence_sub_frame)

lemma dns_fence: "delete_cloudflare_app_dns dns i domain db = (r, db') \<Longrightarrow> fence_sub db db'"
  by (auto simp: delete_cloudflare_app_dns_def Let_def split: sum.splits option.splits if_splits intro: fence_sub_frame)

lemma finalize_fence:
  assumes "finalize_delete_app_from_job ws dns i db = (r, db')"
  shows "fence_sub db db'"
proof -
  have records: "fence_sub x (snd (finalize_records ws i a u p y))" if "fence_sub x y" for x a u p y
  proof -
    obtain q z where "delete_app_records (ws 4) a u (payload_containers p) y = (q, z)" by fastforce
    moreover from this have "fence_sub x z" using that delete_records_fence fence_sub_trans by blast
    ultimately show ?thesis by (simp add: finalize_records_def split: sum.split bool.split)
  qed
  show ?thesis using assms unfolding finalize_delete_app_from_job_def
    by (auto split: option.splits prod.splits sum.splits if_splits dest!: refresh_fence dns_fence)
      (metis records snd_conv fence_statements fence_sub_trans)+
qed

lemma finalize_loop_fence: "finalize_loop wss dns k n is db = (r, db') \<Longrightarrow> fence_sub db db'"
  by (induction wss dns k n "is" db rule: finalize_loop.induct)
    (auto split: prod.splits sum.splits dest!: finalize_fence intro: fence_sub_trans)

lemma reconcile_deletes_fence: "reconcile_completed_delete_jobs wss dns db = (r, db') \<Longrightarrow> fence_sub db db'"
  by (auto simp: reconcile_completed_delete_jobs_def split: if_splits dest: finalize_loop_fence)

lemma complete_build_fence: "complete_successful_build w k i p m db = Some db' \<Longrightarrow> fence_sub db db'"
  by (auto simp: complete_successful_build_def Let_def fence_sub_def finish_build_def queue_for_release_def
      split: option.splits sum.splits if_splits)

lemma complete_fence:
  assumes "complete_job w ws dns auth i request db = (r, db')"
  shows "fence_sub db db'"
proof -
  have follow: "fence_sub x y'" if "complete_followup w s j request st res y = Some y'" "fence_sub x y" for x y y' s j st res
    using that unfolding complete_followup_def Let_def
    by (auto split: option.splits if_splits dest!: complete_build_fence)
      (metis fence_statements(22) fence_sub_trans)
  have "fence_sub db y" if "complete_transaction w s i request st t db = (q, y)" for s st t q y
    using that unfolding complete_transaction_def Let_def
    by (auto split: option.splits sum.splits if_splits dest!: follow [where x = db])
  then show ?thesis using assms unfolding complete_job_def
    by (auto split: option.splits prod.splits sum.splits if_splits) (metis finalize_fence fence_sub_trans prod.collapse)+
qed

section \<open>Deployments, job control and suspension\<close>

lemma enqueue_fence [simp]: "fence_sub x db \<Longrightarrow> fence_sub x (snd (enqueue_agent_job w s i k t p n db))"
  by (rule fence_step [where f = "\<lambda>db. snd (enqueue_agent_job w s i k t p n db)"]) (simp_all add: fence_sub_frame)

lemma enqueue_fenceD: "enqueue_agent_job w s i k t p n db = (r, db') \<Longrightarrow> fence_sub db db'"
  using enqueue_fence [OF fence_sub_refl] by (metis snd_conv)

lemma insert_fence:
  assumes "d_activation_generation row = None" "insert_deployment_tx w what i row db = (r, db')"
  shows "fence_sub db db'"
  using assms(2) by (cases rule: insert_deployment_tx_elim) (simp_all add: fence_sub_def assms(1))

lemma build_queued_fence: "fence_sub x db \<Longrightarrow> fence_sub x (build_queued w q p s k i l r y db)"
  by (rule fence_step) (simp_all add: build_queued_def fence_sub_def attach_build_def insert_build_def)

lemma deploy_fence:
  assumes "create_and_send_deploy_with_approval ws env u i sha approved db = (r, db')"
  shows "fence_sub db db'"
proof -
  obtain q y where pre: "deploy_preconditions ws env u i sha db = q" by blast
  have start: "fence_sub x y'" if "start_build ws env a k c t approved y = (z, y')" "fence_sub x y" for x y a k c t z y'
    using that(1) by (cases rule: start_build_elim) (use that(2) build_queued_fence in auto)
  show ?thesis using assms unfolding create_and_send_deploy_with_approval_def
    by (auto split: sum.splits prod.splits dest!: insert_fence [rotated] start simp: new_deployment_def)
qed

lemma send_job_fence: "send_job ws s k p db = (r, db') \<Longrightarrow> fence_sub db db'"
  unfolding send_job_def Let_def
  by (auto split: sum.splits prod.splits if_splits option.splits dest!: enqueue_fenceD)

lemma rollback_fence:
  assumes "create_and_send_rollback ws env u i db = (r, db')"
  shows "fence_sub db db'"
proof -
  have start: "fence_sub x y'" if "start_rollback ws env a prev port ts k y = (z, y')" "fence_sub x y" for x y a prev port ts k z y'
  proof -
    have "fence_sub y (rollback_events_update f y)" for f by (simp add: fence_sub_frame)
    then have "fence_sub y y'" using that(1) unfolding start_rollback_def Let_def
      by (auto split: sum.splits if_splits dest!: send_job_fence intro: fence_sub_trans)
    with that(2) show ?thesis by (rule fence_sub_trans)
  qed
  show ?thesis using assms unfolding create_and_send_rollback_def
    by (auto split: sum.splits prod.splits dest!: insert_fence [rotated] start simp: new_deployment_def)
qed

lemma cancel_fence: "cancel_agent_job_for_actor w vis i actor db = (r, db') \<Longrightarrow> fence_sub db db'"
  by (auto simp: cancel_agent_job_for_actor_def cancel_effect_def Let_def split: option.splits if_splits)

lemma retry_fence:
  assumes "retry_agent_job_for_actor w ws env vis i actor db = (r, db')"
  shows "fence_sub db db'"
proof -
  have "fence_sub db y" if "requeue_job_for_actor w' vis i actor db = (q, y)" for w' q y
    using that by (auto simp: requeue_job_for_actor_def Let_def split: option.splits if_splits)
  moreover have "fence_sub db y" if "retry_deployment_job_for_actor ws env vis i row actor db = (q, y)" for row q y
    using that by (auto simp: retry_deployment_job_for_actor_def create_and_send_deploy_def
        split: option.splits prod.splits sum.splits if_splits dest!: deploy_fence rollback_fence)
  ultimately show ?thesis using assms unfolding retry_agent_job_for_actor_def
    by (auto split: option.splits if_splits)
qed

lemma start_teardown_fence:
  assumes "start_app_teardown w s i p c db = (r, db')"
  shows "fence_sub db db'"
proof -
  have "fence_sub db y" if "place_delete_job w s i q n c db = (k, y)" for q n k y
    using that by (auto simp: place_delete_job_def Let_def split: option.splits if_splits intro: fence_sub_frame)
  then have place: "fence_sub db z" if "place_delete_job w s i q n c db = (k, y)"
      "fence_app_jobs_in_transaction w 5 i y = Some (m, z)" for q n k y m z
    using that fence_app_jobs_fence fence_sub_trans by blast
  show ?thesis using assms unfolding start_app_teardown_def Let_def
    by (simp split: option.splits prod.splits if_split_asm) (use place in \<open>blast | simp\<close>)+
qed

lemma delete_app_fence:
  assumes "delete_app ws fws dns u i db = (r, db')"
  shows "fence_sub db db'"
proof -
  have "fence_sub x y'" if "finalize_delete_app_from_job fws dns k (record_control_event w a e n j y) = (q, y')" "fence_sub x y"
    for x y' k w a e n j y q
    using fence_sub_trans [OF _ finalize_fence [OF that(1)]] fence_statements(15) [OF that(2)] by blast
  then show ?thesis using assms unfolding delete_app_def Let_def
    by (auto split: option.splits prod.splits sum.splits if_splits bool.splits dest!: start_teardown_fence)
qed

lemma change_fence:
  assumes "change_reason w i u reason actor add db = (r, db')"
  shows "fence_sub db db'"
proof (cases r)
  case (Inl e)
  with assms have "db' = db" by (simp add: change_refused)
  then show ?thesis by simp
next
  case (Inr c)
  have changed: "fence_sub db (reasons_changed w i reason actor add db)"
    by (simp add: reasons_changed_def pause_effect_def Let_def withdraw_deployments_def withdraw_jobs_def ask_to_cancel_def
        add_reason_def remove_reason_def fence_sub_def split: if_split)
  have stamped: "fence_sub db (stamp_suspension w i (reasons_changed w i reason actor add db))"
    by (rule fence_step [OF changed]) (simp add: stamp_suspension_def fence_sub_def)
  from assms Inr have "apps db' = apps (stamp_suspension w i (reasons_changed w i reason actor add db))
      \<and> deployments db' = deployments (reasons_changed w i reason actor add db)"
    by (auto elim: change_elim)
  with changed stamped show ?thesis by (simp add: fence_sub_def)
qed

lemma admit_fence: "admit_waiting_deployments ws db = (r, db') \<Longrightarrow> fence_sub db db'"
proof -
  have one: "fence_sub db db'" if "admit_one w row db = (r, db')" for w row r db db'
    using that by (auto simp: admit_one_def mark_running_def fence_sub_def
        split: option.splits sum.splits capacity_decision.splits if_splits)
  have loop: "fence_sub db db'" if "admit_loop ws k n rows db = (r, db')" for k n rows r db db'
    using that by (induction ws k n rows db rule: admit_loop.induct)
      (auto split: prod.splits sum.splits dest!: one intro: fence_sub_trans)
  show "admit_waiting_deployments ws db = (r, db') \<Longrightarrow> fence_sub db db'"
    by (auto simp: admit_waiting_deployments_def split: if_splits dest: loop)
qed

section \<open>Messages, cleanup, screenshots and webhooks\<close>

lemma deployment_status_fence: "fence_sub db (handle_deployment_status me s msg db)"
proof -
  have switch: "fence_sub x y" if "switch_app w s i u z = Some y" "fence_sub x z" for w i u x y z
  proof -
    have "fence_sub z y" using that(1)
      by (auto simp: switch_app_def fence_sub_def split: option.splits if_splits)
    with that(2) show ?thesis by (rule fence_sub_trans)
  qed
  have services: "fence_sub x (persist_deployment_services ws s i rs z)" if "fence_sub x z" for x ws i rs z
    using that by (simp add: fence_sub_def persist_deployment_services_def persist_each_frame)
  have follow: "fence_sub x (status_followup me s i st z)" if "fence_sub x z" for x i st z
    using that by (simp add: fence_sub_def)
  have status: "fence_sub x (update_deployments P (status_set w msg st f m) x)" for x P w st f m
    by (simp add: fence_sub_def status_set_def)
  show ?thesis unfolding handle_deployment_status_def Let_def
    by (simp add: status services follow split: option.split prod.split) (auto intro!: follow intro: switch [OF _ services [OF status]] switch [OF _ status])
qed

lemma message_fence:
  assumes "handle_agent_message me s msg db = (out, db')"
  shows "fence_sub db db'"
proof -
  have "fence_sub db y" if "handle_health_status me s msg db = (e, y)" for e y
    using that by (auto simp: handle_health_status_def record_health_def Let_def persist_observed_ports_def
        prune_health_events_def fence_sub_def split: option.splits if_splits)
  moreover have "fence_sub db (handle_reconcile_request me s msg db)"
    by (auto simp: handle_reconcile_request_def Let_def create_and_send_deploy_def
        split: option.split prod.split sum.split dest: deploy_fence)
  moreover have "fence_sub db y" if "handle_log me s msg db = (e, y)" for e y
    using that by (auto simp: handle_log_def Let_def fence_sub_frame split: option.splits if_splits)
  moreover have "fence_sub db (handle_job_status me s msg db)"
    by (simp add: handle_job_status_def Let_def split: option.split)
  moreover have "fence_sub db (handle_heartbeat me s msg db)" "fence_sub db (handle_resource_stats me s msg db)"
    "fence_sub db (handle_storage_stats me s msg db)"
    by (simp_all add: handle_heartbeat_def handle_resource_stats_def handle_storage_stats_def Let_def
        fence_sub_frame split: option.split)
  ultimately show ?thesis using assms deployment_status_fence unfolding handle_agent_message_def
    by (auto split: option.splits if_splits prod.splits)
qed

lemma cleanup_fence: "run_cleanup plan_ws ws w db = (r, db') \<Longrightarrow> fence_sub db db'"
proof -
  have purge: "apps y = apps db \<and> deployments y = deployments db" if "apply_database_cleanup ws db = (q, y)" for q y
    using that by (auto simp: apply_database_cleanup_def Let_def split: if_splits)
  have queue: "fence_sub x z" if "enqueue_cleanup w s keep y = (q, z)" "fence_sub x y" for x s keep y q z
    using that enqueue_fence [OF that(2)] by (metis enqueue_cleanup_def snd_conv)
  show "run_cleanup plan_ws ws w db = (r, db') \<Longrightarrow> fence_sub db db'"
    unfolding run_cleanup_def
    by (auto split: sum.splits prod.splits option.splits dest!: purge intro: queue fence_sub_frame)
qed

lemma auto_cleanup_sweep_fence: "fence_sub db (auto_cleanup_sweep w wss db)"
proof -
  have "fence_sub x (sweep_servers wss k ids y)" if "fence_sub x y" for x k ids y
    using that by (induction ids arbitrary: k y) (simp_all add: fence_sub_def auto_cleanup_frame)
  then show ?thesis by (simp add: auto_cleanup_sweep_def)
qed

lemma recapture_fence: "fence_sub db (sweep_stale_screenshots w wss hook db)"
proof -
  have "fence_sub x (capture_each wss hook k ids y)" if "fence_sub x y" for x k ids y
    using that by (induction ids arbitrary: k y) (simp_all add: fence_sub_def enqueue_auto_frame)
  then show ?thesis by (simp add: sweep_stale_screenshots_def split: option.split)
qed

lemma screenshot_requests_fence:
  "enqueue_screenshot_for_owner ws u i db = (r, db') \<Longrightarrow> fence_sub db db'"
  "enqueue_browser_smoke_for_owner ws u i db = (r', db') \<Longrightarrow> fence_sub db db'"
  by (auto simp: enqueue_screenshot_for_owner_def enqueue_browser_smoke_for_owner_def enqueue_screenshot_job_def
      try_mark_pending_def fence_sub_def split: option.splits sum.splits prod.splits if_splits dest!: enqueue_fenceD)

lemma webhook_fence:
  assumes "process_webhook ws cs delivery event repo payload db = (r, db')"
  shows "fence_sub db db'"
proof -
  have frame: "fence_sub x (webhook_events_update f y)" "fence_sub x (webhook_app_events_update g y)"
    if "fence_sub x y" for x y f g using that by (simp_all add: fence_sub_def)
  have finalize: "fence_sub x z" if "finalize_webhook_event w e d b s o' t y = (q, z)" "fence_sub x y" for x w e d b s o' t y q z
    using that by (auto simp: finalize_webhook_event_def Let_def frame split: if_splits)
  have insert: "fence_sub x z" if "insert_webhook_app_event w e i k a b s t st o' y = (q, z)" "fence_sub x y"
    for x w e i k a b s t st o' y q z
    using that by (auto simp: insert_webhook_app_event_def Let_def frame split: if_splits)
  have deploy: "fence_sub x z" if "webhook_deployment c e a s t y = (q, z)" "fence_sub x y" for x c e a s t y q z
    using that unfolding webhook_deployment_def renew_webhook_claim_def create_and_send_deploy_def
    by (auto split: option.splits prod.splits sum.splits bool.splits if_splits dest!: deploy_fence)
      (metis fence_sub_trans frame(1))+
  have app: "fence_sub x z" if "process_webhook_app c e a b br s t y = (q, z)" "fence_sub x y" for x c e a b br s t y q z
    using that unfolding process_webhook_app_def Let_def
    by (simp split: option.splits prod.splits sum.splits if_split_asm) (blast intro: deploy insert)+
  have apps: "fence_sub x z" if "process_apps cs k ev t as y = (q, z)" "fence_sub x y" for x k ev t as y q z
    using that by (induction cs k ev t as y rule: process_apps.induct)
      (auto split: prod.splits sum.splits dest: app)
  have claimed: "fence_sub x z" if "process_claimed_webhook ws cs delivery ev t y = (q, z)" "fence_sub x y" for x ev t y q z
    using that unfolding process_claimed_webhook_def Let_def
    by (simp split: prod.splits sum.splits if_split_asm) (blast intro: apps finalize)+
  have claim: "fence_sub db z" if "claim_webhook_event ws delivery event repo payload db = (q, z)" for q z
    using that unfolding claim_webhook_event_def Let_def record_delivery_def
    by (auto split: option.splits sum.splits bool.splits if_splits intro!: frame)
  show ?thesis using assms unfolding process_webhook_def
    by (auto split: prod.splits sum.splits option.splits dest!: claim)
      (auto simp: release_webhook_claim_def dest!: claimed intro!: frame split: if_splits)
qed

end
