(* ===== verification/Lifecycle.thy ===== *)
theory Lifecycle
  imports Fence
begin

text \<open>
  The control plane as one transition system: every step is one of the modelled operations applied
  to the database, in any order and with any input, clock and failing database call, or the creation
  of an app.  The theory proves the invariant behind the route generation, the fencing token of an
  activation.
\<close>

section \<open>The transition system\<close>

text \<open>
  \<open>operation\<close>: everything except \<open>prepare_activation\<close>.  The hooks, the environment and the worlds of
  the calls are arbitrary.
\<close>

inductive operation :: "db \<Rightarrow> db \<Rightarrow> bool" where
  heartbeat_op: "heartbeat w auth i hb db = (r, db') \<Longrightarrow> operation db db'"
| commit_op: "commit_activation w auth k cm db = (rc, db') \<Longrightarrow> operation db db'"
| claim_op: "claim_job ws secret sign auth agent v db = (re, db') \<Longrightarrow> operation db db'"
| complete_op: "complete_job w ws dns auth i cj db = (rc, db') \<Longrightarrow> operation db db'"
| message_op: "handle_agent_message me s msg db = (out, db') \<Longrightarrow> operation db db'"
| recover_jobs_op: "recover_stale_agent_jobs ws db = (rn, db') \<Longrightarrow> operation db db'"
| recover_deployments_op: "recover_stale_deployments w db = (rn, db') \<Longrightarrow> operation db db'"
| reconcile_deletes_op: "reconcile_completed_delete_jobs wss dns db = (rm, db') \<Longrightarrow> operation db db'"
| admit_op: "admit_waiting_deployments ws db = (rm, db') \<Longrightarrow> operation db db'"
| deploy_op: "create_and_send_deploy_with_approval ws env u i sha approved db = (ri, db') \<Longrightarrow> operation db db'"
| rollback_op: "create_and_send_rollback ws env u i db = (ri, db') \<Longrightarrow> operation db db'"
| enqueue_op: "enqueue_agent_job w s ai di t p n db = (ri, db') \<Longrightarrow> operation db db'"
| cancel_op: "cancel_agent_job_for_actor w vis i actor db = (rk, db') \<Longrightarrow> operation db db'"
| retry_op: "retry_agent_job_for_actor w ws env vis i actor db = (ry, db') \<Longrightarrow> operation db db'"
| suspend_op: "change_reason w i ui reason who add db = (rs, db') \<Longrightarrow> operation db db'"
| delete_op: "delete_app ws fws dns u i db = (ru, db') \<Longrightarrow> operation db db'"
| cleanup_op: "run_cleanup plan_ws ws w db = (rp, db') \<Longrightarrow> operation db db'"
| sweep_op: "operation db (auto_cleanup_sweep w wss db)"
| screenshot_op: "enqueue_screenshot_for_owner ws u i db = (rq, db') \<Longrightarrow> operation db db'"
| browser_op: "enqueue_browser_smoke_for_owner ws u i db = (rq, db') \<Longrightarrow> operation db db'"
| recapture_op: "operation db (sweep_stale_screenshots w wss hook db)"
| webhook_op: "process_webhook ws cs delivery event repo payload db = (rw, db') \<Longrightarrow> operation db db'"

text \<open>
  A state is the database with the identifiers of all apps ever created.  Postgres commits no state
  that breaks a primary key; a new app has an identifier never used before and the column default 0
  as its route generation.
\<close>

inductive system_step :: "db \<times> uuid set \<Rightarrow> db \<times> uuid set \<Rightarrow> bool" where
  operated: "operation db db' \<Longrightarrow> wf_keys db' \<Longrightarrow> system_step (db, ids) (db', ids)"
| prepared: "prepare_activation w auth k pr db = (r, db') \<Longrightarrow> wf_keys db' \<Longrightarrow> system_step (db, ids) (db', ids)"
| created: "a_id a \<notin> ids \<Longrightarrow> a_route_generation a = 0 \<Longrightarrow> a_pending_deployment_id a = None
    \<Longrightarrow> wf_keys (apps_update (\<lambda>as. as @ [a]) db)
    \<Longrightarrow> system_step (db, ids) (apps_update (\<lambda>as. as @ [a]) db, insert (a_id a) ids)"

definition initial :: "db \<times> uuid set \<Rightarrow> bool" where
  "initial s \<longleftrightarrow> wf_keys (fst s) \<and> a_id ` set (apps (fst s)) \<subseteq> snd s
     \<and> (\<forall>d \<in> set (deployments (fst s)). d_activation_generation d = None)"

inductive reachable :: "db \<times> uuid set \<Rightarrow> bool" where
  start: "initial s \<Longrightarrow> reachable s"
| step: "reachable s \<Longrightarrow> system_step s s' \<Longrightarrow> reachable s'"

inductive_cases system_stepE: "system_step s s'"

interpretation control_plane: transition_system initial system_step reachable
proof
  fix s I
  assume "reachable s" "\<And>t. initial t \<Longrightarrow> I t" "\<And>t u. reachable t \<Longrightarrow> I t \<Longrightarrow> system_step t u \<Longrightarrow> I u"
  then show "I s" by (induction rule: reachable.induct) blast+
qed

lemma operation_fence: "operation db db' \<Longrightarrow> fence_sub db db'"
proof (induction rule: operation.induct)
  case (heartbeat_op w auth i hb db r db')
  then show ?case using heartbeat_fence by (metis snd_conv)
next
  case (recover_jobs_op ws db rn db')
  then show ?case using recover_fence by (metis snd_conv)
next
  case (recover_deployments_op w db rn db')
  then show ?case by (auto simp: recover_stale_deployments_def Let_def fence_sub_def split: if_splits)
qed (blast intro: commit_fence claim_fence complete_fence message_fence reconcile_deletes_fence admit_fence
    deploy_fence rollback_fence enqueue_fenceD cancel_fence retry_fence change_fence delete_app_fence cleanup_fence
    auto_cleanup_sweep_fence screenshot_requests_fence recapture_fence webhook_fence)+

section \<open>The abstract fence\<close>

text \<open>
  What the route generation promises, without databases, jobs or leases.  An app has a counter, at
  most one holder of the right to switch the route, and for every deployment the number it was given.
  The only step that gives out a number is \<open>allocate\<close>, which nobody but the holder can repeat.
\<close>

record fence =
  counter :: int
  holder :: "uuid option"
  given :: "(uuid \<times> int) set"

inductive fence_step :: "fence option \<Rightarrow> fence option \<Rightarrow> bool" where
  forget: "h = None \<or> h = holder f \<Longrightarrow> G \<subseteq> given f \<Longrightarrow> fence_step (Some f) (Some (f\<lparr> holder := h, given := G \<rparr>))"
| allocate: "holder f = None \<or> holder f = Some k
    \<Longrightarrow> n = (if holder f = Some k then counter f else counter f + 1)
    \<Longrightarrow> G = given f \<or> G = insert (k, n) {p \<in> given f. fst p \<noteq> k}
    \<Longrightarrow> fence_step (Some f) (Some \<lparr> counter = n, holder = Some k, given = G \<rparr>)"
| delete: "fence_step f None"
| create: "fence_step None (Some \<lparr> counter = 0, holder = None, given = {} \<rparr>)"

definition tokens :: "uuid \<Rightarrow> deployment_row list \<Rightarrow> (uuid \<times> int) set" where
  "tokens i ds = {p. \<exists>d \<in> set ds. d_id d = fst p \<and> d_app_id d = i \<and> d_activation_generation d = Some (snd p)}"

definition fence_of :: "uuid \<Rightarrow> db \<Rightarrow> fence option" where
  "fence_of i db = map_option (\<lambda>a. \<lparr> counter = a_route_generation a, holder = a_pending_deployment_id a,
     given = tokens i (deployments db) \<rparr>) (find_app i db)"

lemma unique_rows:
  assumes "wf_keys db"
  shows "a \<in> set (apps db) \<Longrightarrow> b \<in> set (apps db) \<Longrightarrow> a_id a = a_id b \<Longrightarrow> a = b"
    "d \<in> set (deployments db) \<Longrightarrow> e \<in> set (deployments db) \<Longrightarrow> d_id d = d_id e \<Longrightarrow> d = e"
  using assms unfolding wf_keys_def distinct_map inj_on_def by blast+

lemma tokens_sub: "fence_deployments_sub ds ds' \<Longrightarrow> tokens i ds' \<subseteq> tokens i ds"
  unfolding tokens_def fence_deployments_sub_def by (auto; metis option.distinct(1))

lemma fence_of_sub:
  assumes "fence_sub db db'" "wf_keys db"
  shows "fence_step (fence_of i db) (fence_of i db')"
proof (cases "find_app i db'")
  case None
  then show ?thesis by (simp add: fence_of_def fence_step.delete)
next
  case (Some a')
  then obtain a where a: "a \<in> set (apps db)" "a_id a = i" "a_route_generation a = a_route_generation a'"
    "a_pending_deployment_id a' = None \<or> a_pending_deployment_id a' = a_pending_deployment_id a"
    using assms(1) find_row_SomeD [OF Some] unfolding fence_sub_def fence_apps_def by auto
  have "find_app i db = Some a"
    using app_table.lookup_iff [of db i a] assms(2) a(1,2) by (simp add: wf_keys_def)
  then show ?thesis
    using fence_step.forget [of "a_pending_deployment_id a'" "\<lparr> counter = a_route_generation a,
      holder = a_pending_deployment_id a, given = tokens i (deployments db) \<rparr>" "tokens i (deployments db')"] a(3,4) Some
      tokens_sub assms(1)
    by (simp add: fence_of_def fence_sub_def)
qed

lemma fence_of_refl: "wf_keys db \<Longrightarrow> fence_step (fence_of i db) (fence_of i db)"
  by (rule fence_of_sub) simp_all

lemma tokens_update:
  assumes "\<And>e. e \<in> set ds \<Longrightarrow> d_id e = k \<Longrightarrow> e = d" "d \<in> set ds" "d_id d = k"
    "d_id (f d) = k" "d_app_id (f d) = d_app_id d" "P d \<Longrightarrow> d_activation_generation (f d) = Some n"
  shows "tokens i (update_where (\<lambda>d. d_id d = k \<and> P d) f ds) =
    (if P d \<and> d_app_id d = i then insert (k, n) {p \<in> tokens i ds. fst p \<noteq> k} else tokens i ds)" (is "?l = ?r")
proof (cases "P d")
  case False
  then have "update_where (\<lambda>d. d_id d = k \<and> P d) f ds = ds" using assms(1) by (intro update_where_none) blast
  with False show ?thesis by simp
next
  case True
  have mem: "x \<in> set (update_where (\<lambda>d. d_id d = k \<and> P d) f ds) \<longleftrightarrow> x = f d \<or> x \<in> set ds \<and> d_id x \<noteq> k" for x
  proof
    assume "x \<in> set (update_where (\<lambda>d. d_id d = k \<and> P d) f ds)"
    then obtain e where "e \<in> set ds" "x = (if d_id e = k \<and> P e then f e else e)" by (auto simp: update_where_def)
    then show "x = f d \<or> x \<in> set ds \<and> d_id x \<noteq> k" using assms(1) True by (cases "d_id e = k") auto
  next
    assume "x = f d \<or> x \<in> set ds \<and> d_id x \<noteq> k"
    then have "\<exists>e \<in> set ds. x = (if d_id e = k \<and> P e then f e else e)" using assms(2,3) True by auto
    then show "x \<in> set (update_where (\<lambda>d. d_id d = k \<and> P d) f ds)" unfolding update_where_def set_map image_iff .
  qed
  have bex: "(\<exists>x \<in> set (update_where (\<lambda>d. d_id d = k \<and> P d) f ds). Q x) \<longleftrightarrow> Q (f d) \<or> (\<exists>x \<in> set ds. d_id x \<noteq> k \<and> Q x)" for Q
    unfolding Bex_def mem by blast
  have "p \<in> ?l \<longleftrightarrow> p = (k, n) \<and> d_app_id d = i \<or> p \<in> tokens i ds \<and> fst p \<noteq> k" for p
    unfolding tokens_def mem_Collect_eq bex using assms(4-6) True by (cases p) auto
  moreover have "d_app_id d = i" if "p \<in> tokens i ds" "fst p = k" for p
    using assms(1) that by (auto simp: tokens_def)
  ultimately show ?thesis using True by auto
qed

text \<open>What an activation request does to the fences: nothing, or one allocation.\<close>

lemma prepare_view:
  assumes "prepare_activation w auth k request db = (r, db')" "wf_keys db"
  obtains "db' = db"
  | d :: deployment_row and a where "find_app (d_app_id d) db = Some a" "a_id a = d_app_id d"
      "a_pending_deployment_id a = None \<or> a_pending_deployment_id a = Some k"
      "\<forall>i. find_app i db' = map_option (\<lambda>b. if a_id b = a_id a then prepared_app w k (prepared_generation k a) b else b)
         (find_app i db)"
      "apps db' = update_where (\<lambda>b. a_id b = a_id a) (prepared_app w k (prepared_generation k a)) (apps db)"
      "\<forall>i. tokens i (deployments db') = (if active_status (d_status d) \<and> d_app_id d = i
         then insert (k, prepared_generation k a) {p \<in> tokens i (deployments db). fst p \<noteq> k} else tokens i (deployments db))"
  using assms(1)
proof (cases rule: prepare_activation_elim)
  case refused
  with that(1) show ?thesis by simp
next
  case (prepared s d a j)
  note A = prepared(2) [unfolded prepare_authority_def]
  note row = activation_rowD [OF A [THEN conjunct1]]
  let ?n = "prepared_generation k a"
  have d: "d \<in> set (deployments db)" "d_id d = k" using row(1,2) find_row_SomeD by fast+
  have only_d: "e = d" if "e \<in> set (deployments db)" "d_id e = k" for e
    using unique_rows(2) [OF assms(2) that(1) d(1)] d(2) that(2) by simp
  note effect = prepared(4) prepare_effect_def prepare_app_def prepare_deployment_def prepare_job_def
  have apps': "apps db' = update_where (\<lambda>b. a_id b = a_id a) (prepared_app w k ?n) (apps db)"
    by (simp add: effect update_where_def prepared_app_def)
  have find': "find_app i db' = map_option (\<lambda>b. if a_id b = a_id a then prepared_app w k ?n b else b) (find_app i db)" for i
    by (simp add: apps' find_row_update)
  have deps': "deployments db' = update_where (\<lambda>d. d_id d = k \<and> active_status (d_status d))
      (prepared_deployment w (a_current_deployment_id a) ?n (pr_candidate request)) (deployments db)"
    by (simp add: effect update_where_def prepared_deployment_def)
  have "tokens i (deployments db') = (if active_status (d_status d) \<and> d_app_id d = i
      then insert (k, ?n) {p \<in> tokens i (deployments db). fst p \<noteq> k} else tokens i (deployments db))" for i
    unfolding deps' by (rule tokens_update [OF only_d d]) (simp_all add: prepared_deployment_def d)
  with find' apps' row(3,4) A show ?thesis by (intro that(2) [of d a]) blast+
qed

lemma fence_of_prepare:
  assumes "prepare_activation w auth k request db = (r, db')" "wf_keys db"
  shows "fence_step (fence_of i db) (fence_of i db')"
  using assms
proof (cases rule: prepare_view)
  case 1
  with assms(2) show ?thesis by (simp add: fence_of_refl)
next
  case (2 d a)
  show ?thesis
  proof (cases "i = a_id a")
    case False
    then have "d_app_id d \<noteq> i" using 2(2) by simp
    moreover have "find_app i db' = find_app i db"
      using False by (cases "find_app i db") (auto simp: 2(4) dest: find_row_SomeD)
    ultimately have "fence_of i db' = fence_of i db" by (simp add: fence_of_def 2(6))
    with fence_of_refl [OF assms(2), of i] show ?thesis by simp
  next
    case True
    define f0 where "f0 = \<lparr> counter = a_route_generation a, holder = a_pending_deployment_id a,
      given = tokens i (deployments db) \<rparr>"
    define n where "n = prepared_generation k a"
    have "find_app i db = Some a" using 2(1,2) True by simp
    then have ends: "fence_of i db = Some f0"
      "fence_of i db' = Some \<lparr> counter = n, holder = Some k, given = tokens i (deployments db') \<rparr>"
      using 2(4) by (simp_all add: fence_of_def f0_def n_def)
    have "holder f0 = None \<or> holder f0 = Some k" using 2(3) by (simp add: f0_def)
    moreover have "n = (if holder f0 = Some k then counter f0 else counter f0 + 1)"
      by (simp add: f0_def n_def prepared_generation_def)
    moreover have "tokens i (deployments db') = given f0
        \<or> tokens i (deployments db') = insert (k, n) {p \<in> given f0. fst p \<noteq> k}"
      by (simp add: 2(6) f0_def n_def)
    ultimately show ?thesis unfolding ends by (rule fence_step.allocate)
  qed
qed

section \<open>The invariant of the generations\<close>

text \<open>
  No deployment was given a number above the counter, the current number is in nobody's hands but the
  holder's, and no number was given twice.
\<close>

definition fence_ok :: "fence \<Rightarrow> bool" where
  "fence_ok f \<longleftrightarrow> (\<forall>(k, g) \<in> given f. g \<le> counter f \<and> (g = counter f \<longrightarrow> holder f = None \<or> holder f = Some k))
     \<and> inj_on snd (given f)"

lemma fence_ok_step:
  assumes "fence_step x (Some f')" "\<And>f. x = Some f \<Longrightarrow> fence_ok f"
  shows "fence_ok f'"
  using assms(1)
proof cases
  case (forget h f G)
  then have "fence_ok f" using assms(2) by simp
  with forget show ?thesis by (auto simp: fence_ok_def intro: inj_on_subset)
next
  case (allocate f k n G)
  then have ok: "fence_ok f" using assms(2) by simp
  have below: "g \<le> n \<and> (g = n \<longrightarrow> j = k)" if "(j, g) \<in> given f" for j g
    using ok that allocate(3,4) by (auto simp: fence_ok_def split: if_splits)
  have "inj_on snd G" using allocate(5)
  proof
    assume "G = insert (k, n) {p \<in> given f. fst p \<noteq> k}"
    moreover have "inj_on snd {p \<in> given f. fst p \<noteq> k}" using ok by (auto simp: fence_ok_def inj_on_def)
    ultimately show ?thesis using below by auto
  qed (use ok in \<open>simp add: fence_ok_def\<close>)
  moreover have "g \<le> n \<and> (g = n \<longrightarrow> j = k)" if "(j, g) \<in> G" for j g using below allocate(5) that by auto
  ultimately show ?thesis using allocate(2) by (auto simp: fence_ok_def)
next
  case create
  then show ?thesis by (simp add: fence_ok_def)
qed

definition issued :: "uuid set \<Rightarrow> db \<Rightarrow> bool" where
  "issued ids db \<longleftrightarrow> (\<forall>a \<in> set (apps db). a_id a \<in> ids) \<and> (\<forall>i. tokens i (deployments db) \<noteq> {} \<longrightarrow> i \<in> ids)"

definition fenced :: "db \<times> uuid set \<Rightarrow> bool" where
  "fenced s \<longleftrightarrow> wf_keys (fst s) \<and> issued (snd s) (fst s) \<and> (\<forall>i f. fence_of i (fst s) = Some f \<longrightarrow> fence_ok f)"

lemma fencedD:
  assumes "fenced (db, ids)"
  shows "wf_keys db" "issued ids db" "fence_of i db = Some f \<Longrightarrow> fence_ok f"
  using assms unfolding fenced_def fst_conv snd_conv by blast+

lemma issued_sub: "issued ids db \<Longrightarrow> fence_sub db db' \<Longrightarrow> issued ids db'"
  unfolding issued_def fence_sub_def using tokens_sub by (fastforce simp: fence_apps_def)

lemma issued_prepare:
  assumes "issued ids db" "prepare_activation w auth k request db = (r, db')" "wf_keys db"
  shows "issued ids db'"
  using assms(2,3)
proof (cases rule: prepare_view)
  case (2 d a)
  have "a_id a \<in> ids" using assms(1) find_row_SomeD [OF 2(1)] by (auto simp: issued_def)
  then show ?thesis using assms(1) unfolding issued_def 2(5) 2(6) [rule_format]
    by (auto simp: update_where_def 2(2) split: if_splits)
qed (use assms(1) in simp)

lemma created_fresh:
  assumes "issued ids db" "a_id a \<notin> ids"
  shows "find_app (a_id a) db = None" "tokens (a_id a) (deployments db) = {}"
  using assms by (auto simp: issued_def find_row_None_iff)

lemma step_fence:
  assumes "fenced (db, ids)" "system_step (db, ids) (db', ids')"
  shows "fence_step (fence_of i db) (fence_of i db')"
  using assms(2)
proof cases
  case operated
  then show ?thesis using fence_of_sub operation_fence fencedD(1) [OF assms(1)] by blast
next
  case (prepared w auth k pr r)
  then show ?thesis using fence_of_prepare fencedD(1) [OF assms(1)] by blast
next
  case (created a)
  note new = created_fresh [OF fencedD(2) [OF assms(1)] created(3)]
  show ?thesis
  proof (cases "i = a_id a")
    case True
    with new created(1,4,5) show ?thesis using fence_step.create by (simp add: fence_of_def find_row_append)
  next
    case False
    then have "fence_of i db' = fence_of i db" by (simp add: created(1) fence_of_def find_row_append split: option.split)
    with fence_of_refl [OF fencedD(1) [OF assms(1)]] show ?thesis by simp
  qed
qed

lemma step_fenced:
  assumes "fenced (db, ids)" "system_step (db, ids) (db', ids')"
  shows "fenced (db', ids')"
proof -
  note F = fencedD [OF assms(1)]
  have "wf_keys db' \<and> issued ids' db'" using assms(2)
  proof cases
    case operated
    with F(2) issued_sub operation_fence show ?thesis by blast
  next
    case (prepared w auth k pr r)
    with F(1,2) issued_prepare show ?thesis by blast
  next
    case (created a)
    with F(2) show ?thesis by (auto simp: issued_def)
  qed
  moreover have "fence_ok f" if "fence_of i db' = Some f" for i f
    by (rule fence_ok_step [of "fence_of i db"]) (use step_fence [OF assms, of i] that F(3) in auto)
  ultimately show ?thesis by (simp add: fenced_def)
qed

lemma reachable_fenced: "reachable s \<Longrightarrow> fenced s"
proof (rule control_plane.invariant [where I = fenced])
  fix t assume "initial t"
  then show "fenced t" by (auto simp: initial_def fenced_def issued_def tokens_def fence_of_def fence_ok_def)
next
  fix t u assume "fenced t" "system_step t u"
  then show "fenced u" using step_fenced [of "fst t" "snd t" "fst u" "snd u"] by simp
qed

text \<open>
  C1: the route generation is a fencing token.  Whatever sequence of operations led to the state, no
  deployment holds a generation its app has not reached, no two deployments of an app ever hold the
  same generation, and while an activation is pending the current generation is held by nobody but
  the pending deployment.
\<close>

theorem generations_fence:
  assumes "reachable (db, ids)" "find_app i db = Some a"
    "d \<in> set (deployments db)" "d_app_id d = i" "d_activation_generation d = Some g"
  shows "g \<le> a_route_generation a \<and> (g = a_route_generation a \<longrightarrow> a_pending_deployment_id a \<in> {None, Some (d_id d)})
    \<and> (\<forall>e \<in> set (deployments db). d_app_id e = i \<and> d_activation_generation e = Some g \<longrightarrow> e = d)"
proof -
  have F: "fenced (db, ids)" by (rule reachable_fenced [OF assms(1)])
  define f where "f = \<lparr> counter = a_route_generation a, holder = a_pending_deployment_id a,
    given = tokens i (deployments db) \<rparr>"
  have ok: "fence_ok f" by (rule fencedD(3) [OF F, of i]) (simp add: fence_of_def f_def assms(2))
  have held: "(d_id e, g) \<in> given f" if "e \<in> set (deployments db)" "d_app_id e = i" "d_activation_generation e = Some g" for e
    using that by (auto simp: f_def tokens_def)
  have "e = d" if q: "e \<in> set (deployments db)" "d_app_id e = i" "d_activation_generation e = Some g" for e
  proof -
    have "(d_id e, g) = (d_id d, g)"
      by (rule inj_onD [of snd "given f"]) (use ok held [OF q] held [OF assms(3-5)] in \<open>simp_all add: fence_ok_def\<close>)
    with unique_rows(2) [OF fencedD(1) [OF F] q(1) assms(3)] show ?thesis by simp
  qed
  moreover have "g \<le> counter f \<and> (g = counter f \<longrightarrow> holder f = None \<or> holder f = Some (d_id d))"
    using ok held [OF assms(3-5)] by (auto simp: fence_ok_def)
  ultimately show ?thesis by (auto simp: f_def)
qed

text \<open>
  C3: the control plane implements the abstract fence.  Seen through the app row and the generations
  of its deployments, every step of the system, whatever the operation, is a step of the fence of
  each app: it forgets, it allocates to the one holder, or the app goes or appears.
\<close>

theorem control_plane_refines_fence:
  assumes "reachable (db, ids)" "system_step (db, ids) (db', ids')"
  shows "fence_step (fence_of i db) (fence_of i db')"
  by (rule step_fence [OF reachable_fenced [OF assms(1)] assms(2)])

section \<open>Superseded activations\<close>

text \<open>A deployed app keeps its generation or moves to the next one; a deleted one never comes back.\<close>

lemma step_generation:
  assumes "system_step (db, ids) (db', ids')" "wf_keys db" "i \<in> ids" "\<forall>a \<in> set (apps db). a_id a = i \<longrightarrow> g \<le> a_route_generation a"
  shows "i \<in> ids' \<and> wf_keys db' \<and> (\<forall>a \<in> set (apps db'). a_id a = i \<longrightarrow> g \<le> a_route_generation a)"
  using assms(1)
proof cases
  case operated
  then have "fence_apps (apps db) (apps db')" using operation_fence by (auto simp: fence_sub_def)
  with assms(3,4) operated show ?thesis by (force simp: fence_apps_def)
next
  case (prepared w auth k pr r)
  from prepared(2) assms(2) show ?thesis
  proof (cases rule: prepare_view)
    case (2 d a)
    have "a \<in> set (apps db)" using find_row_SomeD [OF 2(1)] by blast
    moreover have "a_route_generation a \<le> prepared_generation k a" by (simp add: prepared_generation_def)
    ultimately show ?thesis using assms(3,4) prepared by (force simp: 2(5) update_where_def)
  qed (use assms prepared in simp)
next
  case (created a)
  with assms show ?thesis by auto
qed

lemma steps_generation:
  assumes "system_step\<^sup>*\<^sup>* s t" "wf_keys (fst s)" "i \<in> snd s" "\<forall>a \<in> set (apps (fst s)). a_id a = i \<longrightarrow> g \<le> a_route_generation a"
  shows "wf_keys (fst t) \<and> i \<in> snd t \<and> (\<forall>a \<in> set (apps (fst t)). a_id a = i \<longrightarrow> g \<le> a_route_generation a)"
  using assms
proof (induction rule: rtranclp_induct)
  case (step t u)
  then show ?case using step_generation [of "fst t" "snd t" "fst u" "snd u" i g] by simp
qed simp

text \<open>
  C2: once superseded, always superseded.  When an app of a reachable state has moved past a route
  generation, then after any further operations a commit of one of its deployments that presents
  that generation, however late it arrives and whatever else it presents, changes nothing.
\<close>

theorem superseded_commit_refused:
  assumes "reachable (db, ids)" "find_app i db = Some a" "cm_route_generation request < a_route_generation a"
    "system_step\<^sup>*\<^sup>* (db, ids) (later_db, later_ids)" "find_deployment k later_db = Some d" "d_app_id d = i"
  shows "snd (commit_activation w auth k request later_db) = later_db"
proof -
  note F = fencedD [OF reachable_fenced [OF assms(1)]]
  have a: "a \<in> set (apps db)" "a_id a = i" using find_row_SomeD [OF assms(2)] by auto
  have "a_route_generation a \<le> a_route_generation b" if "b \<in> set (apps db)" "a_id b = i" for b
    using unique_rows(1) [OF F(1) that(1) a(1)] that(2) a(2) by simp
  moreover have "i \<in> ids" using F(2) a by (auto simp: issued_def)
  ultimately have late: "\<forall>b \<in> set (apps later_db). a_id b = i \<longrightarrow> a_route_generation a \<le> a_route_generation b"
    using steps_generation [OF assms(4), of i "a_route_generation a"] F(1) by simp
  obtain r db' where run: "commit_activation w auth k request later_db = (r, db')" by fastforce
  from run have "db' = later_db"
  proof (cases rule: commit_activation_elim)
    case (committed s e b j)
    note A = committed(3) [unfolded commit_authority_def]
    note row = activation_rowD [OF A [THEN conjunct1]]
    have "e = d" using row(1) assms(5) by simp
    then have "b \<in> set (apps later_db)" "a_id b = i" using row(3,4) assms(6) find_row_SomeD by fastforce+
    with late have "a_route_generation a \<le> a_route_generation b" by blast
    moreover have "a_route_generation b = cm_route_generation request" using A by blast
    ultimately show ?thesis using assms(3) by simp
  qed simp_all
  with run show ?thesis by simp
qed

end
