(* ===== verification/Witnesses_Service.thy ===== *)
theory Witnesses_Service
  imports Witnesses Lifecycle
begin

text \<open>
  The properties of the whole control plane, of the automatic cleanup, of the agent messages and of
  the webhook applied to the examples of \<open>Samples\<close>.
\<close>

section \<open>The route generation\<close>

lemma sample_reachable: "reachable (prepared_db, {10})"
proof (rule reachable.step)
  show "reachable (activating_db, {10})"
    by (rule reachable.start)
      (simp add: initial_def sample_wf(1), simp add: activating_db_def sample_db_def sample_app_def sample_deployment_def)
  show "system_step (activating_db, {10}) (prepared_db, {10})"
    by (rule system_step.prepared [OF sample_prepare_run sample_wf(2)])
qed

lemma sample_commit_step: "system_step (prepared_db, {10}) (committed_db, {10})"
proof (rule system_step.operated)
  show "operation prepared_db committed_db" by (rule operation.commit_op [OF sample_commit_run])
  show "wf_keys committed_db" by code_simp
qed

lemma sample_pending: "\<exists>a. find_app 10 prepared_db = Some a \<and> a_route_generation a = 5"
proof -
  have "map_option a_route_generation (find_app 10 prepared_db) = Some 5" by code_simp
  then show ?thesis by (cases "find_app 10 prepared_db") auto
qed

theorem generations_fence_witness:
  "\<exists>a d. find_app 10 prepared_db = Some a \<and> d \<in> set (deployments prepared_db) \<and> d_activation_generation d = Some 5
     \<and> a_route_generation a = 5 \<and> a_pending_deployment_id a \<in> {None, Some (d_id d)}"
proof -
  obtain a where a: "find_app 10 prepared_db = Some a" "a_route_generation a = 5" using sample_pending by blast
  have "list_ex (\<lambda>d. d_app_id d = 10 \<and> d_activation_generation d = Some 5) (deployments prepared_db)" by code_simp
  then obtain d where d: "d \<in> set (deployments prepared_db)" "d_app_id d = 10" "d_activation_generation d = Some 5"
    unfolding list_ex_iff by blast
  note fence = generations_fence [OF sample_reachable a(1) d]
  have "a_pending_deployment_id a \<in> {None, Some (d_id d)}"
    by (rule fence [THEN conjunct2, THEN conjunct1, rule_format]) (simp add: a(2))
  with a d show ?thesis by blast
qed

theorem superseded_commit_refused_witness:
  "snd (commit_activation (sample_world 300) (Some 1) 20 (sample_commit\<lparr> cm_route_generation := 4 \<rparr>) committed_db) = committed_db"
proof -
  obtain a where a: "find_app 10 prepared_db = Some a" "a_route_generation a = 5" using sample_pending by blast
  have "map_option d_app_id (find_deployment 20 committed_db) = Some 10" by code_simp
  then obtain d where d: "find_deployment 20 committed_db = Some d" "d_app_id d = 10"
    by (cases "find_deployment 20 committed_db") auto
  show ?thesis
    by (rule superseded_commit_refused [OF sample_reachable a(1) _ r_into_rtranclp [of system_step, OF sample_commit_step] d])
      (simp add: a(2))
qed

theorem control_plane_refines_fence_witness: "fence_step (fence_of 10 prepared_db) (fence_of 10 committed_db)"
  by (rule control_plane_refines_fence [OF sample_reachable sample_commit_step])

section \<open>Cleanup\<close>

definition running_row :: deployment_row where
  "running_row = (sample_deployment 20 D_Running)\<lparr> d_container_name := Some ''hostlet-app-20'' \<rparr>"

definition busy_db :: db where
  "busy_db = sample_db (sample_app None None 4) [running_row] [sample_job 30 ''deploy'' J_Failed (Some 20) (JObj [])]"

theorem cleanup_keeps_needed_witness:
  "\<exists>keep. docker_keep_lists (sample_world 500) (cleanup_keep_previous (sample_world 500)) 24 busy_db = Inr keep
     \<and> ''hostlet-app-20'' \<in> set (kl_containers keep)"
proof -
  have "(case docker_keep_lists (sample_world 500) (cleanup_keep_previous (sample_world 500)) 24 busy_db of
      Inr keep \<Rightarrow> True | Inl _ \<Rightarrow> False)" by code_simp
  then obtain keep where run: "docker_keep_lists (sample_world 500) (cleanup_keep_previous (sample_world 500)) 24 busy_db = Inr keep"
    by (auto split: sum.splits)
  have row: "running_row \<in> set (deployments busy_db)" by (simp add: busy_db_def sample_db_def)
  have app: "find_app (d_app_id running_row) busy_db = Some (sample_app None None 4)"
    by (simp add: busy_db_def sample_db_def running_row_def sample_deployment_def sample_app_def)
  have need: "needed (sample_app None None 4) busy_db running_row"
    by (simp add: needed_def running_row_def sample_deployment_def active_status_def active_deployment_statuses_def)
  have "finish_distinct (a_id (sample_app None None 4)) busy_db"
    by (simp add: finish_distinct_def busy_db_def sample_db_def running_row_def sample_deployment_def)
  note keeps = cleanup_keeps_needed [OF run row app need this]
  show ?thesis using run keeps by (auto simp: running_row_def)
qed

definition stale_db :: db where
  "stale_db = sample_db (sample_app None None 4) [] [(sample_job 30 ''deploy'' J_Failed None (JObj []))\<lparr> j_finished_at := Some 3 \<rparr>]"

theorem plan_predicts_cleanup_witness:
  "\<exists>plan. cleanup_plan (\<lambda>_. sample_world (days 100)) stale_db = Inr plan
     \<and> fst (apply_database_cleanup (\<lambda>_. sample_world (days 100)) stale_db) = Inr (cp_database plan)"
proof -
  have "(case cleanup_plan (\<lambda>_. sample_world (days 100)) stale_db of Inr plan \<Rightarrow> True | Inl _ \<Rightarrow> False)" by code_simp
  then obtain plan where "cleanup_plan (\<lambda>_. sample_world (days 100)) stale_db = Inr plan" by (auto split: sum.splits)
  with plan_predicts_cleanup [OF this] show ?thesis by blast
qed

section \<open>Agent messages\<close>

definition sample_messages :: message_env where
  "sample_messages = \<lparr> me_statement = (\<lambda>_. sample_world 500), me_services = (\<lambda>_. sample_world 500),
     me_screenshot = (\<lambda>_. sample_world 500), me_cleanup = (\<lambda>_. sample_world 500), me_deploy = (\<lambda>_. sample_world 500),
     me_deploy_env = sample_deploy_env, me_policy = (\<lambda>_ _. Policy_Accept), me_capture_hook = (\<lambda>_ _ _ _. Inr False),
     me_decode_snapshot = (\<lambda>_. None), me_bounded_f64 = (\<lambda>_ _. None) \<rparr>"

definition sample_line :: json where
  "sample_line = JObj [(''deployment_id'', JStr (sample_uuid_text 20)), (''line'', JStr ''ready'')]"

theorem log_bounded_witness:
  "count_where (\<lambda>l. l_deployment_id l = 20) (deployment_logs (snd (handle_log sample_messages 1 sample_line busy_db)))
     \<le> max_log_lines_per_deployment
   \<and> map l_line (deployment_logs (snd (handle_log sample_messages 1 sample_line busy_db))) = [''ready'']"
proof -
  obtain out db' where run: "handle_log sample_messages 1 sample_line busy_db = (out, db')" by fastforce
  have "\<forall>i. count_where (\<lambda>l. l_deployment_id l = i) (deployment_logs busy_db) \<le> max_log_lines_per_deployment"
    by (simp add: busy_db_def sample_db_def empty_db_def count_where_def)
  note bound = log_bounded [OF run this]
  moreover have "map l_line (deployment_logs (snd (handle_log sample_messages 1 sample_line busy_db))) = [''ready'']"
    by code_simp
  ultimately show ?thesis using run by simp
qed

definition failed_report :: json where
  "failed_report = JObj [(''deployment_id'', JStr (sample_uuid_text 20)), (''status'', JStr ''failed'')]"

theorem deployment_report_fenced_witness:
  "\<exists>d'. find_deployment 20 (handle_deployment_status sample_messages 1 failed_report busy_db) = Some d'
     \<and> d_status d' = D_Failed \<and> d_finished_at d' = Some 500"
proof -
  let ?db = "handle_deployment_status sample_messages 1 failed_report busy_db"
  have wf: "wf_keys busy_db" and cap: "service_cap (deployment_services busy_db)"
    by (simp add: busy_db_def) (simp add: busy_db_def sample_db_def empty_db_def service_cap_def count_where_def)
  note fence = deployment_report_fenced [OF refl wf cap, of sample_messages 1 failed_report, THEN conjunct1]
  have row: "find_deployment 20 busy_db = Some running_row"
    by (simp add: busy_db_def sample_db_def running_row_def sample_deployment_def)
  have "map_option d_status (find_deployment 20 ?db) = Some D_Failed" by code_simp
  then obtain d' where d': "find_deployment 20 ?db = Some d'" "d_status d' = D_Failed"
    by (cases "find_deployment 20 ?db") auto
  have "d_status running_row = D_Running" by (simp add: running_row_def sample_deployment_def)
  then have "d' \<noteq> running_row" using d'(2) by auto
  moreover have "\<not> active_status (d_status d')" using d'(2) by (simp add: active_status_def active_deployment_statuses_def)
  moreover have "tx_now (me_statement sample_messages 0) = 500" by (simp add: sample_messages_def)
  ultimately show ?thesis using fence row d' by fastforce
qed

definition down_report :: json where
  "down_report = JObj [(''app_id'', JStr (sample_uuid_text 10)), (''deployment_id'', JStr (sample_uuid_text 20)),
     (''status'', JStr ''unhealthy'')]"

theorem health_report_fenced_witness:
  "\<exists>h. find (\<lambda>h. h_app_id h = 10) (app_health_snapshots (snd (handle_health_status sample_messages 1 down_report idle_db))) = Some h
     \<and> h_status h = H_Unhealthy"
proof -
  obtain out db' where run: "handle_health_status sample_messages 1 down_report idle_db = (out, db')" by fastforce
  have "case fst (handle_health_status sample_messages 1 down_report idle_db) of Some _ \<Rightarrow> True | None \<Rightarrow> False" by code_simp
  then have "out \<noteq> None" using run by (auto split: option.splits)
  moreover have "(case health_report_of (me_statement sample_messages 0) down_report of
      Some r \<Rightarrow> hp_app_id r = 10 \<and> hp_status r = H_Unhealthy | None \<Rightarrow> False)" by code_simp
  ultimately show ?thesis using health_report_fenced [OF run] run by (auto split: option.splits)
qed

section \<open>The webhook\<close>

definition sample_push :: json where
  "sample_push = JObj [(''ref'', JStr ''refs/heads/main''), (''after'', JStr sample_sha)]"

abbreviation calm :: "nat \<Rightarrow> world" where
  "calm \<equiv> \<lambda>_. sample_world 100"

definition sample_ctx :: "nat \<Rightarrow> webhook_ctx" where
  "sample_ctx k = \<lparr> wc_ws = calm, wc_deploy = calm, wc_env = sample_deploy_env \<rparr>"

definition broken_ctx :: "nat \<Rightarrow> webhook_ctx" where
  "broken_ctx k = \<lparr> wc_ws = (\<lambda>n. (sample_world 100)\<lparr> fault := (\<lambda>_. n = 3) \<rparr>), wc_deploy = calm, wc_env = sample_deploy_env \<rparr>"

definition push_claim :: "(string + (webhook_row \<times> uuid) option) \<times> db" where
  "push_claim = claim_webhook_event calm ''d1'' ''push'' ''owner/app'' sample_push deployable_db"

lemma push_claim_run: "\<exists>y. fst push_claim = Inr (Some (y, 100))"
proof -
  have "(case fst push_claim of Inr (Some (y, t)) \<Rightarrow> t = 100 | _ \<Rightarrow> False)" by code_simp
  then show ?thesis by (auto split: sum.splits option.splits)
qed

lemma push_fresh: "distinct (map y_id (webhook_events deployable_db))" "find_webhook (fresh (calm 0) 0) deployable_db = None"
  "outcomes_unique deployable_db"
  by (simp_all add: deployable_db_def idle_db_def sample_db_def empty_db_def outcomes_unique_def)

theorem claim_exclusive_witness:
  "\<exists>y. find_webhook (y_id y) (snd push_claim) = Some y \<and> owns (y_id y) 100 y \<and> y_delivery y = ''d1''"
proof -
  obtain y where "fst push_claim = Inr (Some (y, 100))" using push_claim_run by blast
  then have "claim_webhook_event calm ''d1'' ''push'' ''owner/app'' sample_push deployable_db = (Inr (Some (y, 100)), snd push_claim)"
    by (simp add: push_claim_def prod_eq_iff)
  from claim_exclusive [OF this push_fresh(1,2)] show ?thesis by blast
qed

definition push_run :: "(string + unit) \<times> db" where
  "push_run = process_webhook calm sample_ctx ''d1'' ''push'' ''owner/app'' sample_push deployable_db"

theorem webhook_accepted_done_witness:
  "(\<exists>y \<in> set (webhook_events (snd push_run)). y_delivery y = ''d1'' \<and> y_processed y) \<and> outcomes_unique (snd push_run)"
proof -
  have "fst push_run = Inr ()" by code_simp
  then have "process_webhook calm sample_ctx ''d1'' ''push'' ''owner/app'' sample_push deployable_db = (Inr (), snd push_run)"
    by (simp add: push_run_def prod_eq_iff)
  from webhook_accepted_done [OF this push_fresh(3,1,2)] show ?thesis by blast
qed

definition broken_run :: "(string + unit) \<times> db" where
  "broken_run = process_webhook calm broken_ctx ''d1'' ''push'' ''owner/app'' sample_push deployable_db"

theorem failed_delivery_retried_witness:
  "\<exists>y db''. claim_webhook_event calm ''d1'' ''push'' ''owner/app'' sample_push (snd broken_run) = (Inr (Some (y, 100)), db'')"
proof -
  have "fst broken_run = Inl ''database''" by code_simp
  then have run: "process_webhook calm broken_ctx ''d1'' ''push'' ''owner/app'' sample_push deployable_db
      = (Inl ''database'', snd broken_run)"
    by (simp add: broken_run_def prod_eq_iff)
  obtain y where y: "fst (claim_webhook_event calm ''d1'' ''push'' ''owner/app'' sample_push deployable_db) = Inr (Some (y, 100))"
    using push_claim_run unfolding push_claim_def by blast
  have "distinct (map y_delivery (webhook_events (snd broken_run)))" by code_simp
  from failed_delivery_retried [OF run y _ push_fresh(1,2) this, of calm "''push''" "''owner/app''" sample_push] show ?thesis by auto
qed

end
