(* ===== verification/Redaction.thy ===== *)
theory Redaction
  imports Rust_Text
begin

text \<open>
  \<open>apps/agent/src/validation/redaction.rs\<close>: how the agent removes secrets from the lines and command
  arguments it logs.  A line with a credentialed URL loses the credentials; any other line that
  mentions a secret is replaced as a whole; values of environment arguments are always replaced.
\<close>

section \<open>Credentials in URLs\<close>

abbreviation scheme :: string where
  "scheme \<equiv> ''https://''"

definition authority_of :: "string \<Rightarrow> string" where
  "authority_of s = takeWhile (\<lambda>c. c \<noteq> CHR ''/'') s"

definition userinfo_length :: "string \<Rightarrow> nat" where
  "userinfo_length authority = length (takeWhile (\<lambda>c. c \<noteq> CHR ''@'') authority)"

lemma str_find_SomeD: "str_find p s = Some i \<Longrightarrow> i + length p \<le> length s \<and> take (length p) (drop i s) = p"
proof (induction p s arbitrary: i rule: str_find.induct)
  case (2 p c s)
  then show ?case
    by (auto simp: starts_with_def split: if_splits) (metis length_take list.size(4) min.cobounded1 One_nat_def Suc_eq_plus1 length_Cons)
qed (auto split: if_splits)

text \<open>
  The loop of \<open>redact_url_credentials\<close>: \<open>v\<close> is the rest of the value from \<open>pos\<close> on, \<open>result\<close> what has been
  written so far.
\<close>

function redact_loop :: "string \<Rightarrow> string \<Rightarrow> bool \<Rightarrow> string \<times> string \<times> bool" where
  "redact_loop v result found_any =
     (case str_find scheme v of
        None \<Rightarrow> (v, result, found_any)
      | Some i \<Rightarrow>
        let tail = drop (i + 8) v; authority = authority_of tail in
        if CHR ''@'' \<in> set authority
        then redact_loop (drop (userinfo_length authority + 1) tail)
          (result @ take i v @ ''https://[redacted]@'') True
        else redact_loop (drop (length authority) tail) (result @ take (i + 8 + length authority) v) found_any)"
  by auto
termination
proof (relation "measure (\<lambda>(v, _). length v)")
  fix v :: string and result :: string and found_any :: bool and i tail authority
  assume "str_find scheme v = Some i" "tail = drop (i + 8) v"
  then have "length tail < length v" using str_find_SomeD [of scheme v i] by auto
  then show "((drop (userinfo_length authority + 1) tail, result @ take i v @ ''https://[redacted]@'', True), v, result, found_any)
      \<in> measure (\<lambda>(v, _). length v)"
    "((drop (length authority) tail, result @ take (i + 8 + length authority) v, found_any), v, result, found_any)
      \<in> measure (\<lambda>(v, _). length v)"
    by auto
qed simp

declare redact_loop.simps [simp del]

definition redact_url_credentials :: "string \<Rightarrow> string option" where
  "redact_url_credentials value =
     (case redact_loop value [] False of (rest, result, found_any) \<Rightarrow> if found_any then Some (result @ rest) else None)"

section \<open>Lines and arguments\<close>

text \<open>
  \<open>str::to_lowercase\<close> as far as a search for ASCII text sees it: the only characters outside ASCII with
  an ASCII letter in their lower case are U+212A (Kelvin sign) and U+0130.
\<close>

function lowercase_view :: "string \<Rightarrow> string" where
  "lowercase_view [] = []"
| "lowercase_view (c # s) =
     (if c = CHR 0xE2 \<and> take 2 s = [CHR 0x84, CHR 0xAA] then CHR ''k'' # lowercase_view (drop 2 s)
      else if c = CHR 0xC4 \<and> take 1 s = [CHR 0xB0]
      then CHR ''i'' # CHR 0xCC # CHR 0x87 # lowercase_view (drop 1 s)
      else to_ascii_lowercase c # lowercase_view s)"
  by pat_completeness auto
termination by (relation "measure length") auto

definition sensitive :: "string list" where
  "sensitive = [''token'', ''secret'', ''password'', ''passwd'', ''api_key'', ''apikey'', ''access_key'',
     ''private key'', ''authorization:'', ''bearer '', ''credential'']"

definition redact :: "string \<Rightarrow> string" where
  "redact line =
     (case redact_url_credentials line of
        Some redacted \<Rightarrow> redacted
      | None \<Rightarrow> if list_ex (\<lambda>needle. str_contains (lowercase_view line) needle) sensitive then ''[redacted]'' else line)"

definition redact_env_arg :: "string \<Rightarrow> string" where
  "redact_env_arg arg =
     (case split_once_char (CHR ''='') arg of
        Some (key, _) \<Rightarrow> if key \<noteq> [] then key @ ''=[redacted]'' else ''[redacted]''
      | None \<Rightarrow> ''[redacted]'')"

fun args_for_log :: "bool \<Rightarrow> string list \<Rightarrow> string list" where
  "args_for_log redact_next [] = []"
| "args_for_log redact_next (arg # args) =
     (if redact_next then redact_env_arg arg # args_for_log False args
      else if arg = ''-e'' \<or> arg = ''--env'' then arg # args_for_log True args
      else case strip_prefix arg ''--env='' of
        Some value \<Rightarrow> (''--env='' @ redact_env_arg value) # args_for_log False args
      | None \<Rightarrow> redact arg # args_for_log False args)"

definition command_args_for_log :: "string list \<Rightarrow> string list" where
  "command_args_for_log args = args_for_log False args"

section \<open>Lines as sequences of URLs\<close>

text \<open>
  The reference: a line is a text followed by URLs, each an authority and what comes after it.  The
  authority reaches to the first slash, so a URL that is not the last one has a slash after it.
\<close>

type_synonym url_line = "string \<times> (string \<times> string) list"

fun urls_text :: "(string \<times> string) list \<Rightarrow> string" where
  "urls_text [] = []"
| "urls_text ((authority, rest) # us) = scheme @ authority @ rest @ urls_text us"

definition line_text :: "url_line \<Rightarrow> string" where
  "line_text l = fst l @ urls_text (snd l)"

definition plain_url :: "string \<times> string \<Rightarrow> bool" where
  "plain_url u \<longleftrightarrow> CHR ''/'' \<notin> set (fst u) \<and> \<not> str_contains (fst u) ''https:'' \<and> \<not> str_contains (snd u) scheme
     \<and> (snd u = [] \<or> hd (snd u) = CHR ''/'')"

definition plain_line :: "url_line \<Rightarrow> bool" where
  "plain_line l \<longleftrightarrow> \<not> str_contains (fst l) scheme \<and> list_all plain_url (snd l)
     \<and> list_all (\<lambda>u. snd u \<noteq> []) (butlast (snd l))"

definition credentialed :: "string \<times> string \<Rightarrow> bool" where
  "credentialed u \<longleftrightarrow> CHR ''@'' \<in> set (fst u)"

definition scrub_url :: "string \<times> string \<Rightarrow> string \<times> string" where
  "scrub_url u = (if credentialed u then ''[redacted]'' @ dropWhile (\<lambda>c. c \<noteq> CHR ''@'') (fst u) else fst u, snd u)"

text \<open>The scheme does not overlap with itself, so it is found where it was put.\<close>

lemma scheme_first:
  assumes "\<not> str_contains t scheme"
  shows "str_find scheme (t @ scheme @ q) = Some (length t)"
  using assms
proof (induction t)
  case Nil
  then show ?case by (simp add: starts_with_def)
next
  case (Cons c t)
  have "\<not> starts_with (c # t @ scheme @ q) scheme"
  proof
    assume sw: "starts_with (c # t @ scheme @ q) scheme"
    show False
    proof (cases "8 \<le> length (c # t)")
      case True
      with sw have "starts_with (c # t) scheme" by (simp add: starts_with_def)
      with Cons.prems show False by simp
    next
      case False
      define k where "k = length (c # t)"
      have k: "k < 8" "0 < k" using False by (auto simp: k_def)
      have "(c # t @ scheme @ q) ! k = scheme ! k"
      proof -
        have "take (length scheme) (c # t @ scheme @ q) = scheme" using sw unfolding starts_with_def .
        moreover have "k < length scheme" using k(1) by simp
        ultimately show ?thesis by (metis nth_take)
      qed
      moreover have "(c # t @ scheme @ q) ! k = CHR ''h''"
        using nth_append_length [of "c # t" "CHR ''h''" "''ttps://'' @ q"] by (simp add: k_def)
      ultimately have "scheme ! k = CHR ''h''" by simp
      moreover have "k = 1 \<or> k = 2 \<or> k = 3 \<or> k = 4 \<or> k = 5 \<or> k = 6 \<or> k = 7" using k by auto
      ultimately show False by auto
    qed
  qed
  moreover have "str_find scheme (t @ scheme @ q) = Some (length t)" using Cons by simp
  ultimately show ?case by simp
qed

lemma scheme_none: "\<not> str_contains t scheme \<Longrightarrow> str_find scheme t = None"
  by (induction t) auto

lemma no_scheme_join:
  assumes "CHR ''/'' \<notin> set h" "\<not> str_contains h ''https:''" "\<not> str_contains r scheme" "r = [] \<or> hd r = CHR ''/''"
  shows "\<not> str_contains (h @ r) scheme"
proof
  assume "str_contains (h @ r) scheme"
  then obtain u v where eq: "h @ r = u @ scheme @ v" by (auto simp: str_contains_iff)
  then consider (low) us where "h = u @ us" "us @ r = scheme @ v" | (high) us where "r = us @ scheme @ v"
    unfolding append_eq_append_conv2 by blast
  then show False
  proof cases
    case low
    have "takeWhile (\<lambda>c. c \<noteq> CHR ''/'') (us @ r) = us"
      using assms(1,4) low(1) by (cases r) (auto simp: takeWhile_append takeWhile_eq_all_conv)
    moreover have "takeWhile (\<lambda>c. c \<noteq> CHR ''/'') (scheme @ v) = ''https:''" by simp
    ultimately have "us = ''https:''" using low(2) by metis
    with low(1) assms(2) show False unfolding str_contains_iff by (metis append_Nil2)
  next
    case high
    with assms(3) show False unfolding str_contains_iff by blast
  qed
qed

lemma redact_loop_urls:
  assumes "plain_line (t, us)"
  shows "\<exists>rest result. redact_loop (t @ urls_text us) acc found = (rest, result, found \<or> list_ex credentialed us)
    \<and> result @ rest = acc @ t @ urls_text (map scrub_url us)"
  using assms
proof (induction us arbitrary: t acc found)
  case Nil
  then show ?case by (subst redact_loop.simps) (simp add: plain_line_def scheme_none)
next
  case (Cons u us)
  obtain a r where u: "u = (a, r)" by fastforce
  have t: "\<not> str_contains t scheme" and a: "CHR ''/'' \<notin> set a" "\<not> str_contains a ''https:''"
    and r: "\<not> str_contains r scheme" "r = [] \<or> hd r = CHR ''/''" and last: "us = [] \<or> r \<noteq> []"
    and us: "list_all plain_url us" "list_all (\<lambda>u. snd u \<noteq> []) (butlast us)"
    using Cons.prems by (auto simp: plain_line_def plain_url_def u split: if_splits)
  have tail: "authority_of (a @ r @ urls_text us) = a"
    using a(1) r(2) last by (cases r) (auto simp: authority_of_def takeWhile_append takeWhile_eq_all_conv)
  note step = redact_loop.simps [of "t @ scheme @ a @ r @ urls_text us" acc found]
  have d: "drop (length t + 8) (t @ scheme @ x) = x" "take (length t) (t @ scheme @ x) = t"
    "drop (length a) (a @ x) = x" "take (length t + 8 + length a) (t @ scheme @ a @ x) = t @ scheme @ a" for x
    by (simp_all add: numeral_eq_Suc)
  show ?case
  proof (cases "CHR ''@'' \<in> set a")
    case True
    then obtain ui h where split: "a = ui @ CHR ''@'' # h" "CHR ''@'' \<notin> set ui" using split_list_first by metis
    have len: "userinfo_length a = length ui" "dropWhile (\<lambda>c. c \<noteq> CHR ''@'') a = CHR ''@'' # h"
      unfolding split(1) userinfo_length_def by (simp_all add: until_simps [OF split(2)])
    have "\<not> str_contains h ''https:''" using a(2) unfolding split(1) str_contains_iff by (metis append.assoc append_Cons)
    moreover have "CHR ''/'' \<notin> set h" using a(1) split(1) by simp
    ultimately have "plain_line (h @ r, us)"
      using no_scheme_join [of h r] r us by (simp add: plain_line_def)
    from Cons.IH [OF this, of "acc @ t @ ''https://[redacted]@''" True] obtain rest result where
      IH: "redact_loop (h @ r @ urls_text us) (acc @ t @ ''https://[redacted]@'') True = (rest, result, True)"
        "result @ rest = acc @ t @ ''https://[redacted]@'' @ h @ r @ urls_text (map scrub_url us)"
      by auto
    have "redact_loop (t @ urls_text (u # us)) acc found = (rest, result, True)"
    proof -
      have h: "drop (userinfo_length a + 1) (a @ r @ urls_text us) = h @ r @ urls_text us"
        unfolding len(1) by (simp add: split(1))
      have "redact_loop (t @ scheme @ a @ r @ urls_text us) acc found
          = redact_loop (h @ r @ urls_text us) (acc @ t @ ''https://[redacted]@'') True"
        unfolding step scheme_first [OF t] option.case Let_def d tail h by (simp only: True if_True)
      with IH(1) show ?thesis by (simp add: u)
    qed
    with True IH(2) len show ?thesis by (simp add: u credentialed_def [of "(a, r)"] scrub_url_def [of "(a, r)"])
  next
    case False
    have "plain_line (r, us)" using r us by (simp add: plain_line_def)
    from Cons.IH [OF this, of "acc @ t @ scheme @ a" found] obtain rest result where
      IH: "redact_loop (r @ urls_text us) (acc @ t @ scheme @ a) found = (rest, result, found \<or> list_ex credentialed us)"
        "result @ rest = acc @ t @ scheme @ a @ r @ urls_text (map scrub_url us)"
      by auto
    have "redact_loop (t @ urls_text (u # us)) acc found = (rest, result, found \<or> list_ex credentialed us)"
    proof -
      have "redact_loop (t @ scheme @ a @ r @ urls_text us) acc found
          = redact_loop (r @ urls_text us) (acc @ t @ scheme @ a) found"
        unfolding step scheme_first [OF t] option.case Let_def d tail by (simp only: False if_False)
      with IH(1) show ?thesis by (simp add: u)
    qed
    then show ?thesis using False IH(2) by (simp add: u credentialed_def [of "(a, r)"] scrub_url_def [of "(a, r)"])
  qed
qed

text \<open>
  URL credentials never reach a log.  On a line whose URLs are separated by paths, redaction is
  the reference: it replaces in every URL what stands before the at sign by a mark, keeps the rest of
  the line byte for byte, and reports that there was nothing to do exactly when no URL had credentials.
\<close>

theorem redact_urls_correct:
  assumes "plain_line l"
  shows "redact_url_credentials (line_text l) =
    (if list_ex credentialed (snd l) then Some (line_text (fst l, map scrub_url (snd l))) else None)"
proof -
  obtain rest result where "redact_loop (fst l @ urls_text (snd l)) [] False = (rest, result, list_ex credentialed (snd l))"
      "result @ rest = fst l @ urls_text (map scrub_url (snd l))"
    using redact_loop_urls [of "fst l" "snd l" "[]" False] assms by auto
  then show ?thesis by (simp add: redact_url_credentials_def line_text_def)
qed

section \<open>What redaction misses\<close>

text \<open>
  Two lines with secrets that are logged.  A URL without a path hides the credentials of the next URL,
  because its authority is taken to reach to the next slash; and a line with a credentialed URL is not
  searched for other secrets.
\<close>

lemma bare_url_hides_credentials:
  "redact ''fetch https://a.test https://user:pw@b.test/x'' = ''fetch https://a.test https://user:pw@b.test/x''"
  by code_simp

lemma url_hides_password:
  "redact ''password=hunter2 https://user:pw@b.test/x'' = ''password=hunter2 https://[redacted]@b.test/x''"
  by code_simp

section \<open>Environment arguments\<close>

text \<open>No value of an environment argument is logged: only the name of the variable is kept.\<close>

lemma redact_env_arg_name:
  "redact_env_arg arg = ''[redacted]'' \<or> (\<exists>key value. arg = key @ CHR ''='' # value \<and> redact_env_arg arg = key @ ''=[redacted]'')"
proof (cases "CHR ''='' \<in> set arg")
  case True
  then obtain key v where arg: "arg = key @ CHR ''='' # v" "CHR ''='' \<notin> set key" using split_list_first by metis
  then have "takeWhile (\<lambda>c. c \<noteq> CHR ''='') arg = key" by (simp add: until_simps)
  with True arg(1) show ?thesis by (auto simp: redact_env_arg_def split_once_char_def)
qed (simp add: redact_env_arg_def split_once_char_def)

lemma args_for_log_length: "length (args_for_log b args) = length args"
  by (induction b args rule: args_for_log.induct) (auto split: option.splits)

end
