(* ===== verification/Route_Files.thy ===== *)
theory Route_Files
  imports Contract_Names Rust_Text "HOL-Library.AList"
begin

text \<open>
  \<open>apps/agent/src/ops/routes.rs\<close> and the route writers of \<open>apps/agent/src/build.rs\<close>: how the agent
  installs the Caddy route of an app.  A route is a file of one directory.  Every write holds one lock,
  checks that no other file serves the domain, checks the version recorded in the present file, renames
  a new file into place, reloads Caddy and restores the old file when the reload fails.
\<close>

section \<open>The directory and its failures\<close>

type_synonym route_dir = "(string \<times> string) list"

datatype file_write = Written | Not_Opened | Cut nat

text \<open>
  What the file system and Caddy do during one write: how UUIDs are printed and read, which entries
  cannot be listed, which files cannot be read, the name of the temporary file, and how its writing,
  the renaming, the reload and the restoration go.
\<close>

record route_io =
  ri_uuid_text :: "uuid \<Rightarrow> string"
  ri_parse_uuid :: "string \<Rightarrow> uuid option"
  ri_create_dir :: bool
  ri_listed :: "string \<Rightarrow> bool"
  ri_readable :: "string \<Rightarrow> bool"
  ri_temp :: string
  ri_write :: file_write
  ri_rename :: bool
  ri_reload :: bool
  ri_restore :: file_write
  ri_remove :: bool

section \<open>Reading a route\<close>

definition file_extension :: "string \<Rightarrow> string option" where
  "file_extension name = (case rsplit_once (CHR ''.'') name of
     Some (stem, ext) \<Rightarrow> if stem = [] then None else Some ext | None \<Rightarrow> None)"

fun domain_in_lines :: "string list \<Rightarrow> string option" where
  "domain_in_lines [] = None"
| "domain_in_lines (l # ls) =
     (let line = trim l in
      case strip_prefix line ''# hostlet-domain:'' of Some d \<Rightarrow> Some (trim d)
      | None \<Rightarrow> (case split_once_str '' host '' line of Some (_, d) \<Rightarrow> Some (trim d)
      | None \<Rightarrow> (case strip_suffix line '' {'' of Some d \<Rightarrow> Some (trim d)
      | None \<Rightarrow> domain_in_lines ls)))"

definition route_domain :: "string \<Rightarrow> string option" where
  "route_domain contents = domain_in_lines (str_lines contents)"

datatype route_kind = Single | Split

record route_version_row =
  rv_deployment_id :: uuid
  rv_generation :: int
  rv_kind :: route_kind

text \<open>The three version fields found so far.\<close>

type_synonym version_fields = "string option \<times> string option \<times> string option"

definition note_field :: "string \<Rightarrow> string \<Rightarrow> string \<Rightarrow> string option \<Rightarrow> string + string option" where
  "note_field line key what field =
     (case strip_prefix line key of
        None \<Rightarrow> Inr field
      | Some v \<Rightarrow> if field = None then Inr (Some (trim v))
          else Inl (''existing Hostlet route has duplicate '' @ what @ '' metadata''))"

fun version_fields_of :: "string list \<Rightarrow> version_fields \<Rightarrow> string + version_fields" where
  "version_fields_of [] fs = Inr fs"
| "version_fields_of (l # ls) (i, g, k) =
     and_then (note_field (trim l) ''# hostlet-deployment-id:'' ''deployment'' i) (\<lambda>i'.
     and_then (note_field (trim l) ''# hostlet-route-generation:'' ''generation'' g) (\<lambda>g'.
     and_then (note_field (trim l) ''# hostlet-route-kind:'' ''route-kind'' k) (\<lambda>k'.
       version_fields_of ls (i', g', k'))))"

definition route_looks_split :: "string \<Rightarrow> bool" where
  "route_looks_split contents = list_ex (\<lambda>l. trim l = ''@hostletWebsocket header Connection *Upgrade*''
     \<or> starts_with (trim l) ''@'' \<and> ends_with (trim l) ''Websocket {'') (str_lines contents)"

definition route_version :: "(string \<Rightarrow> uuid option) \<Rightarrow> string \<Rightarrow> string + route_version_row option" where
  "route_version parse_uuid contents =
     and_then (version_fields_of (str_lines contents) (None, None, None)) (\<lambda>fs.
       case fs of
         (None, None, None) \<Rightarrow> Inr None
       | (Some i, Some g, k) \<Rightarrow>
           (case parse_uuid i of
              None \<Rightarrow> Inl ''existing Hostlet route has an invalid deployment id''
            | Some d \<Rightarrow>
              (case parse_i64 g of
                 None \<Rightarrow> Inl ''existing Hostlet route has an invalid generation''
               | Some n \<Rightarrow>
                 if n < 0 then Inl ''existing Hostlet route has an invalid generation''
                 else if k \<noteq> None \<and> k \<noteq> Some ''single'' \<and> k \<noteq> Some ''split''
                 then Inl ''existing Hostlet route has an invalid route kind''
                 else Inr (Some \<lparr> rv_deployment_id = d, rv_generation = n,
                   rv_kind = (if k = Some ''split'' \<or> k = None \<and> route_looks_split contents then Split else Single) \<rparr>)))
       | _ \<Rightarrow> Inl ''existing Hostlet route has incomplete version metadata'')"

section \<open>The guards\<close>

fun ensure_no_conflicting_route :: "route_io \<Rightarrow> string \<Rightarrow> string \<Rightarrow> route_dir \<Rightarrow> string + unit" where
  "ensure_no_conflicting_route io target domain [] = Inr ()"
| "ensure_no_conflicting_route io target domain ((name, contents) # entries) =
     (if \<not> ri_listed io name then Inl ''cannot list routes''
      else if name = target \<or> file_extension name \<noteq> Some ''caddy'' \<or> \<not> ri_readable io name \<or> \<not> valid_utf8 contents
      then ensure_no_conflicting_route io target domain entries
      else if route_domain contents = Some domain then Inl (''another Hostlet route already uses domain '' @ domain)
      else ensure_no_conflicting_route io target domain entries)"

definition ensure_route_write_is_current :: "(string \<Rightarrow> uuid option) \<Rightarrow> string option \<Rightarrow> uuid \<Rightarrow> int option \<Rightarrow> route_kind
    \<Rightarrow> string + unit" where
  "ensure_route_write_is_current parse_uuid previous deployment_id generation requested_kind =
     (if (case generation of Some g \<Rightarrow> g < 0 | None \<Rightarrow> False) then Inl ''route generation must be non-negative''
      else case previous of
        None \<Rightarrow> Inr ()
      | Some bytes \<Rightarrow>
        if \<not> valid_utf8 bytes then Inl ''existing Hostlet route is not UTF-8''
        else and_then (route_version parse_uuid bytes) (\<lambda>version.
          case version of
            None \<Rightarrow> Inr ()
          | Some existing \<Rightarrow>
            (case generation of
               None \<Rightarrow> Inl ''an unversioned route write cannot replace a versioned route''
             | Some g \<Rightarrow>
               if g < rv_generation existing then Inl ''stale route generation''
               else if g = rv_generation existing \<and> deployment_id \<noteq> rv_deployment_id existing
               then Inl ''route generation is already owned by another deployment''
               else if g = rv_generation existing \<and> deployment_id = rv_deployment_id existing
                 \<and> rv_kind existing = Split \<and> requested_kind = Single
               then Inl ''a split route cannot be downgraded within the same deployment generation''
               else Inr ())))"

section \<open>Writing and restoring\<close>

definition write_route_file :: "route_io \<Rightarrow> string \<Rightarrow> string \<Rightarrow> route_dir \<Rightarrow> (string + unit) \<times> route_dir" where
  "write_route_file io target contents files =
     (if map_of files (ri_temp io) \<noteq> None then (Inl ''temporary file exists'', files)
      else case ri_write io of
        Not_Opened \<Rightarrow> (Inl ''cannot write the route'', files)
      | Cut n \<Rightarrow> (Inl ''cannot write the route'', AList.update (ri_temp io) (take n contents) files)
      | Written \<Rightarrow>
        if ri_rename io then (Inr (), AList.update target contents files)
        else (Inl ''cannot rename the route'', AList.update (ri_temp io) contents files))"

definition restore_route_file :: "route_io \<Rightarrow> string \<Rightarrow> string option \<Rightarrow> route_dir \<Rightarrow> (string + unit) \<times> route_dir" where
  "restore_route_file io target previous files =
     (case previous of
        Some contents \<Rightarrow>
          (case ri_restore io of
             Written \<Rightarrow> (Inr (), AList.update target contents files)
           | Not_Opened \<Rightarrow> (Inl ''cannot restore the route'', files)
           | Cut n \<Rightarrow> (Inl ''cannot restore the route'', AList.update target (take n contents) files))
      | None \<Rightarrow> if ri_remove io \<or> map_of files target = None then (Inr (), AList.delete target files)
          else (Inl ''cannot remove the route'', files))"

definition remove_route :: "route_io \<Rightarrow> string \<Rightarrow> route_dir \<Rightarrow> (string + unit) \<times> route_dir" where
  "remove_route io app files = restore_route_file io (app @ ''.caddy'') None files"

text \<open>The frame that all four writers share; they differ in the text and in the kind of the route.\<close>

definition apply_route :: "route_io \<Rightarrow> route_kind \<Rightarrow> uuid \<Rightarrow> string \<Rightarrow> string \<Rightarrow> int option \<Rightarrow> string \<Rightarrow> route_dir
    \<Rightarrow> (string + unit) \<times> route_dir" where
  "apply_route io kind deployment_id app domain generation rendered files =
     (let target = app @ ''.caddy'' in
      if \<not> ri_create_dir io then (Inl ''cannot create the directory'', files)
      else case ensure_no_conflicting_route io target domain files of
        Inl e \<Rightarrow> (Inl e, files)
      | Inr _ \<Rightarrow>
        let previous = (if ri_readable io target then map_of files target else None) in
        (case ensure_route_write_is_current (ri_parse_uuid io) previous deployment_id generation kind of
           Inl e \<Rightarrow> (Inl e, files)
         | Inr _ \<Rightarrow>
           (case write_route_file io target rendered files of
              (Inl e, files1) \<Rightarrow> (Inl e, files1)
            | (Inr _, files1) \<Rightarrow>
              if ri_reload io then (Inr (), files1)
              else case restore_route_file io target previous files1 of
                (Inl e, files2) \<Rightarrow> (Inl e, files2)
              | (Inr _, files2) \<Rightarrow> (Inl ''Caddy reload failed and the previous route was restored'', files2))))"

section \<open>The text of a route\<close>

fun unlines :: "string list \<Rightarrow> string" where
  "unlines [] = []"
| "unlines (l # ls) = l @ newline # unlines ls"

definition kind_text :: "route_kind \<Rightarrow> string" where
  "kind_text k = (case k of Single \<Rightarrow> ''single'' | Split \<Rightarrow> ''split'')"

definition version_header :: "route_io \<Rightarrow> uuid \<Rightarrow> int \<Rightarrow> route_kind \<Rightarrow> string" where
  "version_header io deployment_id generation kind = unlines
     [''# hostlet-deployment-id: '' @ ri_uuid_text io deployment_id,
      ''# hostlet-route-generation: '' @ show_int generation,
      ''# hostlet-route-kind: '' @ kind_text kind]"

definition render_caddy_route :: "string \<Rightarrow> string \<Rightarrow> nat \<Rightarrow> string" where
  "render_caddy_route app domain port = unlines
     [''# hostlet-route-key: '' @ app, ''# hostlet-domain: '' @ domain, domain @ '' {'',
      ''  reverse_proxy 127.0.0.1:'' @ show_nat port, ''}'']"

definition render_local_caddy_route :: "string \<Rightarrow> string \<Rightarrow> nat \<Rightarrow> string" where
  "render_local_caddy_route app domain port = unlines
     [''# hostlet-route-key: '' @ app, ''# hostlet-domain: '' @ domain, ''@'' @ app @ '' host '' @ domain,
      ''reverse_proxy @'' @ app @ '' 127.0.0.1:'' @ show_nat port]"

definition caddy_backend_paths :: "string list \<Rightarrow> string list" where
  "caddy_backend_paths path_prefixes = concat (map (\<lambda>p. [p, p @ ''/*'']) path_prefixes)"

definition render_caddy_split_route :: "string \<Rightarrow> string \<Rightarrow> nat \<Rightarrow> nat \<Rightarrow> string list \<Rightarrow> string" where
  "render_caddy_split_route app domain frontend_port backend_port backend_prefixes =
     (let paths = caddy_backend_paths backend_prefixes;
          api_handle = (if paths = [] then [] else
            [''  @hostletBackend path '' @ join_char (CHR '' '') paths, ''  handle @hostletBackend {'',
             ''    reverse_proxy 127.0.0.1:'' @ show_nat backend_port, ''  }'']) in
      unlines ([''# hostlet-route-key: '' @ app, ''# hostlet-domain: '' @ domain, domain @ '' {'',
        ''  @hostletWebsocket header Connection *Upgrade*'', ''  handle @hostletWebsocket {'',
        ''    reverse_proxy 127.0.0.1:'' @ show_nat backend_port, ''  }''] @ api_handle @
        [''  handle {'', ''    reverse_proxy 127.0.0.1:'' @ show_nat frontend_port, ''  }'', ''}'']))"

definition render_local_caddy_split_route :: "string \<Rightarrow> string \<Rightarrow> nat \<Rightarrow> nat \<Rightarrow> string list \<Rightarrow> string" where
  "render_local_caddy_split_route app domain frontend_port backend_port backend_prefixes =
     (let paths = caddy_backend_paths backend_prefixes;
          api_route = (if paths = [] then [] else
            [''@'' @ app @ ''Backend {'', ''  host '' @ domain, ''  path '' @ join_char (CHR '' '') paths, ''}'',
             ''reverse_proxy @'' @ app @ ''Backend 127.0.0.1:'' @ show_nat backend_port]) in
      unlines ([''# hostlet-route-key: '' @ app, ''# hostlet-domain: '' @ domain, ''@'' @ app @ ''Websocket {'',
        ''  host '' @ domain, ''  header Connection *Upgrade*'', ''}'',
        ''reverse_proxy @'' @ app @ ''Websocket 127.0.0.1:'' @ show_nat backend_port] @ api_route @
        [''@'' @ app @ ''Frontend host '' @ domain,
         ''reverse_proxy @'' @ app @ ''Frontend 127.0.0.1:'' @ show_nat frontend_port]))"

section \<open>The writers\<close>

definition versioned :: "route_io \<Rightarrow> uuid \<Rightarrow> int option \<Rightarrow> route_kind \<Rightarrow> string \<Rightarrow> string" where
  "versioned io deployment_id generation kind rendered =
     (case generation of Some g \<Rightarrow> version_header io deployment_id g kind @ rendered | None \<Rightarrow> rendered)"

definition apply_caddy_route_inner :: "route_io \<Rightarrow> uuid \<Rightarrow> string \<Rightarrow> string \<Rightarrow> nat \<Rightarrow> int option \<Rightarrow> route_dir
    \<Rightarrow> (string + unit) \<times> route_dir" where
  "apply_caddy_route_inner io deployment_id app domain port generation files =
     apply_route io Single deployment_id app domain generation
       (versioned io deployment_id generation Single (render_caddy_route app domain port)) files"

definition apply_caddy_split_route_versioned :: "route_io \<Rightarrow> uuid \<Rightarrow> string \<Rightarrow> string \<Rightarrow> nat \<Rightarrow> nat \<Rightarrow> string list \<Rightarrow> int
    \<Rightarrow> route_dir \<Rightarrow> (string + unit) \<times> route_dir" where
  "apply_caddy_split_route_versioned io deployment_id app domain frontend_port backend_port path_prefixes generation files =
     apply_route io Split deployment_id app domain (Some generation) (versioned io deployment_id (Some generation) Split
       (render_caddy_split_route app domain frontend_port backend_port path_prefixes)) files"

definition apply_local_caddy_route_inner :: "route_io \<Rightarrow> uuid \<Rightarrow> string \<Rightarrow> string \<Rightarrow> nat \<Rightarrow> int option \<Rightarrow> route_dir
    \<Rightarrow> (string + unit) \<times> route_dir" where
  "apply_local_caddy_route_inner io deployment_id app domain port generation files =
     apply_route io Single deployment_id app domain generation
       (versioned io deployment_id generation Single (render_local_caddy_route app domain port)) files"

definition apply_local_caddy_split_route_versioned :: "route_io \<Rightarrow> uuid \<Rightarrow> string \<Rightarrow> string \<Rightarrow> nat \<Rightarrow> nat \<Rightarrow> string list
    \<Rightarrow> int \<Rightarrow> route_dir \<Rightarrow> (string + unit) \<times> route_dir" where
  "apply_local_caddy_split_route_versioned io deployment_id app domain frontend_port backend_port path_prefixes generation files =
     apply_route io Split deployment_id app domain (Some generation) (versioned io deployment_id (Some generation) Split
       (render_local_caddy_split_route app domain frontend_port backend_port path_prefixes)) files"

section \<open>Names and lines\<close>

text \<open>The characters of identifiers, slugs, domains and numbers: visible ASCII without \<open>#\<close>, \<open>@\<close> and braces.\<close>

definition name_char :: "char \<Rightarrow> bool" where
  "name_char c \<longleftrightarrow> 33 \<le> byte c \<and> byte c < 123 \<and> c \<noteq> CHR ''#'' \<and> c \<noteq> CHR ''@''"

definition plain_name :: "string \<Rightarrow> bool" where
  "plain_name s \<longleftrightarrow> s \<noteq> [] \<and> list_all name_char s"

definition uuid_printing :: "route_io \<Rightarrow> bool" where
  "uuid_printing io \<longleftrightarrow> (\<forall>i. ri_parse_uuid io (ri_uuid_text io i) = Some i \<and> plain_name (ri_uuid_text io i))"

lemma name_char_simps: "name_char c \<Longrightarrow> \<not> ws1 (byte c) \<and> byte c < 128"
  by (auto simp: name_char_def ws1_def)

lemma alnum_name: "is_ascii_alphanumeric c \<Longrightarrow> name_char c"
  by (auto simp: name_char_def char_defs)

lemma slug_name: "well_formed_slug s \<Longrightarrow> plain_name s"
proof -
  assume s: "well_formed_slug s"
  have "name_char c" if "slug_char c" for c
    using that by (auto simp: slug_char_def name_char_def is_ascii_lowercase_def is_ascii_digit_def byte_def)
  with s show ?thesis by (auto simp: well_formed_slug_def plain_name_def list_all_iff)
qed

lemma digits_name: "plain_name (show_nat n)"
  using show_nat_digits [of n] by (auto simp: plain_name_def list_all_iff intro!: alnum_name simp: is_ascii_alphanumeric_def)

lemma hostname_name: "valid_hostname v \<Longrightarrow> plain_name v"
proof -
  assume v: "valid_hostname v"
  have "set (join_char c ps) \<subseteq> insert c (\<Union>p \<in> set ps. set p)" for c ps
    by (induction c ps rule: join_char.induct) auto
  then have sub: "set v \<subseteq> insert (CHR ''.'') (\<Union>p \<in> set (split_char (CHR ''.'') v). set p)" by (metis join_split)
  have sep: "name_char (CHR ''.'')" "name_char (CHR ''-'')" by (simp_all add: name_char_def byte_def)
  have "name_char c" if q: "c \<in> set v" for c
  proof (cases "c = CHR ''.''")
    case False
    then obtain p where p: "p \<in> set (split_char (CHR ''.'') v)" "c \<in> set p" using sub q by auto
    then have "is_ascii_alphanumeric c \<or> c = CHR ''-''" using v unfolding valid_hostname_def list_all_iff by blast
    then show ?thesis using sep alnum_name by blast
  qed (simp add: sep)
  moreover have "v \<noteq> []" using v by (simp add: valid_hostname_def)
  ultimately show ?thesis by (simp add: plain_name_def list_all_iff)
qed

lemma digits_value_name: "digits_value a s \<noteq> None \<Longrightarrow> list_all name_char s"
  by (induction a s rule: digits_value.induct)
    (auto split: if_splits intro!: alnum_name simp: is_ascii_alphanumeric_def)

lemma port_name: "parse_u16 p \<noteq> None \<Longrightarrow> list_all name_char p"
proof -
  assume p: "parse_u16 p \<noteq> None"
  have plus: "name_char (CHR ''+'')" by (simp add: name_char_def byte_def)
  show ?thesis
  proof (cases p)
    case (Cons c t)
    show ?thesis
    proof (cases "c = CHR ''+''")
      case True
      have "digits_value 0 t \<noteq> None"
        using p Cons True by (auto simp: parse_u16_def parse_unsigned_def split: if_splits option.splits)
      with plus Cons True show ?thesis using digits_value_name by simp
    next
      case False
      have "digits_value 0 p \<noteq> None"
        using p Cons False by (auto simp: parse_u16_def parse_unsigned_def simp del: digits_value.simps split: option.splits)
      then show ?thesis by (rule digits_value_name)
    qed
  qed simp
qed

lemma domain_name: "valid_domain v \<Longrightarrow> plain_name v"
proof (cases "rsplit_once (CHR '':'') v")
  case None
  assume "valid_domain v"
  with None show ?thesis by (simp add: valid_domain_def hostname_name)
next
  case (Some q)
  assume v: "valid_domain v"
  obtain h p where q: "q = (h, p)" by fastforce
  have "v = h @ CHR '':'' # p" using rsplit_once_SomeD Some q by fast
  moreover have "plain_name h" "list_all name_char p"
    using v Some q hostname_name port_name by (auto simp: valid_domain_def)
  moreover have "name_char (CHR '':'')" by (simp add: name_char_def byte_def)
  ultimately show ?thesis by (simp add: plain_name_def)
qed

lemma plain_name_ends:
  assumes "plain_name s"
  shows "name_char (hd s)" "name_char (last s)" "CHR '' '' \<notin> set s" "newline \<notin> set s" "CHR 0x0D \<notin> set s"
proof -
  have "\<not> name_char (CHR '' '')" "\<not> name_char newline" "\<not> name_char (CHR 0x0D)"
    by (simp_all add: name_char_def newline_def byte_def)
  with assms show "name_char (hd s)" "name_char (last s)" "CHR '' '' \<notin> set s" "newline \<notin> set s" "CHR 0x0D \<notin> set s"
    by (auto simp: plain_name_def list_all_iff)
qed

lemma trim_name: "plain_name s \<Longrightarrow> trim s = s"
  using trim_id plain_name_ends(1,2) name_char_simps by (metis plain_name_def)

lemma trim_start_blank: "trim_start (CHR '' '' # s) = trim_start s"
proof -
  have b: "ws1 (byte (CHR '' ''))" by (simp add: ws1_def byte_def)
  consider "s = []" | a where "s = [a]" | a c u where "s = a # c # u" by (metis neq_Nil_conv)
  then show ?thesis using b by cases simp_all
qed

lemma trim_blank_name: "plain_name s \<Longrightarrow> trim (CHR '' '' # s) = s"
  using trim_name [of s] by (simp add: trim_def trim_start_blank)

text \<open>A line that ends with a name is not trimmed.\<close>

lemma trim_line:
  assumes "name_char c \<or> c = CHR ''#'' \<or> c = CHR ''@''" "plain_name s"
  shows "trim (c # t @ s) = c # t @ s"
proof (rule trim_id)
  have "\<not> ws1 (byte (CHR ''#''))" "byte (CHR ''#'') < 128" "\<not> ws1 (byte (CHR ''@''))" "byte (CHR ''@'') < 128"
    by (simp_all add: ws1_def byte_def)
  with assms(1) name_char_simps show "\<not> ws1 (byte (hd (c # t @ s)))" "byte (hd (c # t @ s)) < 128" by auto
  have "last (c # t @ s) = last s" using assms(2) by (simp add: plain_name_def)
  then show "\<not> ws1 (byte (last (c # t @ s)))" "byte (last (c # t @ s)) < 128"
    using plain_name_ends(2) [OF assms(2)] name_char_simps by auto
qed simp

lemma trim_prefix: "\<exists>u. trim_start s = trim s @ u"
proof -
  obtain u where "rev (trim_start s) = u @ trim_rev (rev (trim_start s))" using trim_rev_suffix by blast
  then have "trim_start s = rev (trim_rev (rev (trim_start s))) @ rev u" by (metis rev_append rev_rev_ident)
  then show ?thesis by (auto simp: trim_def trim_end_def)
qed

section \<open>Version metadata in lines\<close>

definition version_keys :: "string list" where
  "version_keys = [''# hostlet-deployment-id:'', ''# hostlet-route-generation:'', ''# hostlet-route-kind:'']"

definition ordinary :: "string \<Rightarrow> bool" where
  "ordinary l \<longleftrightarrow> newline \<notin> set l \<and> CHR 0x0D \<notin> set l \<and> (\<forall>k \<in> set version_keys. \<not> starts_with (trim l) k)"

lemma ordinaryI:
  assumes "newline \<notin> set l" "CHR 0x0D \<notin> set l" "\<And>k. k \<in> set version_keys \<Longrightarrow> \<not> starts_with (trim_start l) k"
  shows "ordinary l"
  unfolding ordinary_def using assms trim_prefix [of l] by (metis append.assoc starts_with_iff)

lemma str_lines_unlines:
  "(\<forall>l \<in> set ls. newline \<notin> set l \<and> CHR 0x0D \<notin> set l) \<Longrightarrow> str_lines (unlines ls @ s) = ls @ str_lines s"
proof (induction ls)
  case (Cons l ls)
  then have "chomp_cr l = l" by (intro chomp_cr_id) (metis last_in_set list.set_intros(1))
  with Cons show ?case by (simp add: str_lines_step)
qed simp

lemma note_field_ordinary: "ordinary l \<Longrightarrow> k \<in> set version_keys \<Longrightarrow> note_field (trim l) k what f = Inr f"
  by (simp add: ordinary_def note_field_def strip_prefix_def)

lemma version_fields_ordinary: "list_all ordinary ls \<Longrightarrow> version_fields_of ls fs = Inr fs"
proof (induction ls arbitrary: fs)
  case (Cons l ls)
  obtain i g k where "fs = (i, g, k)" by (metis prod_cases3)
  with Cons show ?case by (simp add: note_field_ordinary version_keys_def)
qed simp

lemma prefix_Cons [simp]:
  "starts_with s []" "starts_with [] (b # p) \<longleftrightarrow> False" "starts_with (a # s) (b # p) \<longleftrightarrow> a = b \<and> starts_with s p"
  "strip_prefix s [] = Some s" "strip_prefix (a # s) (b # p) = (if a = b then strip_prefix s p else None)"
  by (simp_all add: starts_with_def strip_prefix_def)

text \<open>The header that a versioned write puts in front reads back as what was written.\<close>

lemma header_lines:
  assumes "plain_name u" "plain_name n" "plain_name k"
  shows "version_fields_of ((''# hostlet-deployment-id: '' @ u) # (''# hostlet-route-generation: '' @ n)
      # (''# hostlet-route-kind: '' @ k) # ls) (None, None, None) = version_fields_of ls (Some u, Some n, Some k)"
proof -
  have "trim (''# hostlet-deployment-id: '' @ u) = ''# hostlet-deployment-id: '' @ u"
    "trim (''# hostlet-route-generation: '' @ n) = ''# hostlet-route-generation: '' @ n"
    "trim (''# hostlet-route-kind: '' @ k) = ''# hostlet-route-kind: '' @ k"
    using trim_line [of "CHR ''#''" u "'' hostlet-deployment-id: ''"] trim_line [of "CHR ''#''" n "'' hostlet-route-generation: ''"]
      trim_line [of "CHR ''#''" k "'' hostlet-route-kind: ''"] assms by simp_all
  then show ?thesis using assms by (simp add: note_field_def trim_blank_name)
qed

definition line_ok :: "string \<Rightarrow> bool" where
  "line_ok l \<longleftrightarrow> ordinary l \<and> valid_utf8 l"

lemma name_utf8: "plain_name s \<Longrightarrow> valid_utf8 s"
  using name_char_simps by (intro valid_utf8_ascii) (auto simp: plain_name_def list_all_iff)

lemma ascii_name: "plain_name s \<Longrightarrow> list_all (\<lambda>c. byte c < 128) s"
  using name_char_simps by (auto simp: plain_name_def list_all_iff)

text \<open>A line whose first visible character is not \<open>#\<close> carries no metadata.\<close>

lemma line_okI:
  assumes "trim_start l = c # t" "c \<noteq> CHR ''#''" "newline \<notin> set l" "CHR 0x0D \<notin> set l" "valid_utf8 l"
  shows "line_ok l"
  unfolding line_ok_def
proof
  show "ordinary l" by (rule ordinaryI) (use assms in \<open>auto simp: version_keys_def\<close>)
qed (rule assms(5))

lemma line_ok_lines: "list_all line_ok ls \<Longrightarrow> str_lines (unlines ls) = ls \<and> list_all ordinary ls \<and> valid_utf8 (unlines ls)"
proof -
  assume ok: "list_all line_ok ls"
  then have "str_lines (unlines ls @ []) = ls @ str_lines []"
    by (intro str_lines_unlines) (auto simp: line_ok_def ordinary_def list_all_iff)
  moreover have "valid_utf8 (l @ newline # unlines ls)" if "valid_utf8 l" "valid_utf8 (unlines ls)" for l ls
  proof -
    have "valid_utf8 ([newline] @ unlines ls)"
      by (rule valid_utf8_append [OF _ that(2)]) (simp add: valid_utf8_ascii newline_def byte_def)
    with that(1) show ?thesis using valid_utf8_append by fastforce
  qed
  with ok have "valid_utf8 (unlines ls)" by (induction ls) (auto simp: line_ok_def)
  ultimately show ?thesis using ok by (simp add: line_ok_def list_all_iff)
qed

definition key_lines :: "string \<Rightarrow> string \<Rightarrow> string list" where
  "key_lines app domain = [''# hostlet-route-key: '' @ app, ''# hostlet-domain: '' @ domain]"

lemma key_lines_ok: "plain_name app \<Longrightarrow> plain_name domain \<Longrightarrow> list_all line_ok (key_lines app domain)"
proof -
  assume a: "plain_name app" "plain_name domain"
  have "trim (''# hostlet-route-key: '' @ app) = ''# hostlet-route-key: '' @ app"
    "trim (''# hostlet-domain: '' @ domain) = ''# hostlet-domain: '' @ domain"
    using trim_line [of "CHR ''#''" app "'' hostlet-route-key: ''"] trim_line [of "CHR ''#''" domain "'' hostlet-domain: ''"] a
    by simp_all
  then have "ordinary (''# hostlet-route-key: '' @ app)" "ordinary (''# hostlet-domain: '' @ domain)"
    using plain_name_ends [OF a(1)] plain_name_ends [OF a(2)]
    by (simp_all add: ordinary_def version_keys_def newline_def)
  moreover have "valid_utf8 (''# hostlet-route-key: '' @ app)" "valid_utf8 (''# hostlet-domain: '' @ domain)"
    using a ascii_name by (auto intro!: valid_utf8_ascii simp: byte_def)
  ultimately show ?thesis by (simp add: key_lines_def line_ok_def)
qed

section \<open>The domain of a route\<close>

lemma no_blank_host: "CHR '' '' \<notin> set s \<Longrightarrow> \<not> starts_with s ''host '' \<and> \<not> str_contains s '' host ''"
  by (auto simp: starts_with_iff str_contains_iff)

lemma skip_line:
  assumes "plain_name s" "strip_prefix l ''# hostlet-domain:'' = None" "l = CHR ''#'' # t @ s" "\<not> str_contains l '' host ''"
  shows "domain_in_lines (l # ls) = domain_in_lines ls"
proof -
  have "trim l = l" unfolding assms(3) by (rule trim_line) (use assms(1) in auto)
  moreover have "strip_suffix l '' {'' = None"
  proof -
    have "last l = last s" using assms(1,3) by (simp add: plain_name_def)
    moreover have "last l = CHR ''{''" if "ends_with l '' {''"
    proof -
      have "l = take (length l - 2) l @ '' {''" using that by (metis ends_with_def append_take_drop_id length_Cons list.size(3) numeral_2_eq_2)
      then show ?thesis by (metis last_ConsL last_ConsR last_appendR list.discI)
    qed
    moreover have "\<not> name_char (CHR ''{'')" by (simp add: name_char_def byte_def)
    ultimately show ?thesis using plain_name_ends(2) [OF assms(1)] by (auto simp: strip_suffix_def)
  qed
  moreover have "split_once_str '' host '' l = None"
    using assms(4) str_find_None_iff by (simp add: split_once_str_def)
  ultimately show ?thesis using assms(2) by simp
qed

lemma key_lines_domain:
  assumes "plain_name app" "plain_name domain"
  shows "domain_in_lines (key_lines app domain @ ls) = Some domain"
proof -
  have "domain_in_lines ((''# hostlet-route-key: '' @ app) # ls') = domain_in_lines ls'" for ls'
    by (rule skip_line [OF assms(1), where t = "'' hostlet-route-key: ''"])
      (use no_blank_host [OF plain_name_ends(3) [OF assms(1)]] in simp_all)
  moreover have "trim (''# hostlet-domain: '' @ domain) = ''# hostlet-domain: '' @ domain"
    using trim_line [of "CHR ''#''" domain "'' hostlet-domain: ''"] assms(2) by simp
  ultimately show ?thesis by (simp add: key_lines_def trim_blank_name assms(2))
qed

lemma header_domain:
  assumes "plain_name u" "plain_name n" "plain_name k"
  shows "domain_in_lines ((''# hostlet-deployment-id: '' @ u) # (''# hostlet-route-generation: '' @ n)
      # (''# hostlet-route-kind: '' @ k) # ls) = domain_in_lines ls"
proof -
  have "domain_in_lines ((''# hostlet-deployment-id: '' @ u) # ls') = domain_in_lines ls'" for ls'
    by (rule skip_line [OF assms(1), where t = "'' hostlet-deployment-id: ''"])
      (use no_blank_host [OF plain_name_ends(3) [OF assms(1)]] in simp_all)
  moreover have "domain_in_lines ((''# hostlet-route-generation: '' @ n) # ls') = domain_in_lines ls'" for ls'
    by (rule skip_line [OF assms(2), where t = "'' hostlet-route-generation: ''"])
      (use no_blank_host [OF plain_name_ends(3) [OF assms(2)]] in simp_all)
  moreover have "domain_in_lines ((''# hostlet-route-kind: '' @ k) # ls') = domain_in_lines ls'" for ls'
    by (rule skip_line [OF assms(3), where t = "'' hostlet-route-kind: ''"])
      (use no_blank_host [OF plain_name_ends(3) [OF assms(3)]] in simp_all)
  ultimately show ?thesis by simp
qed

section \<open>What the writers write\<close>

definition clean :: "string \<Rightarrow> bool" where
  "clean s \<longleftrightarrow> newline \<notin> set s \<and> CHR 0x0D \<notin> set s \<and> valid_utf8 s"

lemma clean_Nil: "clean []"
  by (simp add: clean_def)

lemma clean_append: "clean s \<Longrightarrow> clean t \<Longrightarrow> clean (s @ t)"
  by (auto simp: clean_def valid_utf8_append)

lemma clean_Cons: "byte c < 128 \<Longrightarrow> c \<noteq> newline \<Longrightarrow> c \<noteq> CHR 0x0D \<Longrightarrow> clean s \<Longrightarrow> clean (c # s)"
  using clean_append [of "[c]" s] valid_utf8_ascii [of "[c]"] by (auto simp: clean_def)

lemma clean_name: "plain_name s \<Longrightarrow> clean s"
  by (simp add: clean_def name_utf8 plain_name_ends)

lemma clean_join: "list_all clean ps \<Longrightarrow> clean (join_char (CHR '' '') ps)"
  by (induction "CHR '' ''" ps rule: join_char.induct)
    (auto simp: clean_Nil newline_def byte_def intro!: clean_append clean_Cons)

lemmas clean_rules = clean_Nil clean_append clean_Cons clean_name [OF digits_name]

lemma line_ok_visible: "\<not> ws1 (byte c) \<Longrightarrow> byte c < 128 \<Longrightarrow> c \<noteq> CHR ''#'' \<Longrightarrow> clean (c # s) \<Longrightarrow> line_ok (c # s)"
  using trim_start_id [of "c # s"] by (intro line_okI [of "c # s" c s]) (auto simp: clean_def)

lemma line_ok_blank: "line_ok s \<Longrightarrow> line_ok (CHR '' '' # s)"
  using valid_utf8_append [of "'' ''" s] valid_utf8_ascii [of "'' ''"]
  by (simp add: line_ok_def ordinary_def trim_def trim_start_blank newline_def byte_def)

lemma line_ok_name: "plain_name s \<Longrightarrow> clean t \<Longrightarrow> line_ok (s @ t)"
proof -
  assume s: "plain_name s" "clean t"
  then obtain c u where cu: "s = c # u" by (cases s) (auto simp: plain_name_def)
  have "name_char c" using plain_name_ends(1) [OF s(1)] cu by simp
  moreover have "clean (c # u @ t)" using clean_append [OF clean_name [OF s(1)] s(2)] cu by simp
  ultimately show ?thesis using line_ok_visible [of c "u @ t"] name_char_simps cu by (auto simp: name_char_def)
qed

lemmas line_rules = line_ok_visible line_ok_blank line_ok_name clean_rules

definition route_body :: "string \<Rightarrow> string \<Rightarrow> string \<Rightarrow> bool" where
  "route_body app domain text \<longleftrightarrow> (\<exists>rest. list_all line_ok rest \<and> text = unlines (key_lines app domain @ rest))"

lemma single_bodies:
  assumes "plain_name app" "plain_name domain"
  shows "route_body app domain (render_caddy_route app domain port)"
    "route_body app domain (render_local_caddy_route app domain port)"
proof -
  let ?rest = "[domain @ '' {'', ''  reverse_proxy 127.0.0.1:'' @ show_nat port, ''}'']"
  let ?local = "[''@'' @ app @ '' host '' @ domain, ''reverse_proxy @'' @ app @ '' 127.0.0.1:'' @ show_nat port]"
  have "list_all line_ok ?rest" "list_all line_ok ?local"
    using assms clean_name [OF assms(1)] clean_name [OF assms(2)] by (simp_all add: line_rules newline_def byte_def ws1_def)
  then show "route_body app domain (render_caddy_route app domain port)"
    "route_body app domain (render_local_caddy_route app domain port)"
    unfolding route_body_def render_caddy_route_def render_local_caddy_route_def key_lines_def
    by (metis append_Cons append_Nil)+
qed

lemma backend_paths_clean: "list_all clean ps \<Longrightarrow> list_all clean (caddy_backend_paths ps)"
  by (auto simp: caddy_backend_paths_def list_all_iff newline_def byte_def intro!: clean_append clean_Cons clean_Nil)

lemma split_bodies:
  assumes "plain_name app" "plain_name domain" "list_all clean ps"
  shows "route_body app domain (render_caddy_split_route app domain fport bport ps)"
    "route_body app domain (render_local_caddy_split_route app domain fport bport ps)"
proof -
  have paths: "clean (join_char (CHR '' '') (caddy_backend_paths ps))"
    using assms(3) by (intro clean_join backend_paths_clean)
  define handle where "handle = (if caddy_backend_paths ps = [] then [] else
    [''  @hostletBackend path '' @ join_char (CHR '' '') (caddy_backend_paths ps), ''  handle @hostletBackend {'',
     ''    reverse_proxy 127.0.0.1:'' @ show_nat bport, ''  }''])"
  define route where "route = (if caddy_backend_paths ps = [] then [] else
    [''@'' @ app @ ''Backend {'', ''  host '' @ domain, ''  path '' @ join_char (CHR '' '') (caddy_backend_paths ps), ''}'',
     ''reverse_proxy @'' @ app @ ''Backend 127.0.0.1:'' @ show_nat bport])"
  let ?rest = "[domain @ '' {'', ''  @hostletWebsocket header Connection *Upgrade*'', ''  handle @hostletWebsocket {'',
     ''    reverse_proxy 127.0.0.1:'' @ show_nat bport, ''  }''] @ handle @
     [''  handle {'', ''    reverse_proxy 127.0.0.1:'' @ show_nat fport, ''  }'', ''}'']"
  let ?local = "[''@'' @ app @ ''Websocket {'', ''  host '' @ domain, ''  header Connection *Upgrade*'', ''}'',
     ''reverse_proxy @'' @ app @ ''Websocket 127.0.0.1:'' @ show_nat bport] @ route @
     [''@'' @ app @ ''Frontend host '' @ domain, ''reverse_proxy @'' @ app @ ''Frontend 127.0.0.1:'' @ show_nat fport]"
  have "list_all line_ok handle" "list_all line_ok route"
    unfolding handle_def route_def using assms paths clean_name [OF assms(1)] clean_name [OF assms(2)]
    by (simp_all add: line_rules newline_def byte_def ws1_def)
  moreover have "line_ok ''  @hostletWebsocket header Connection *Upgrade*''"
    by (intro line_ok_blank line_ok_visible) (simp_all add: clean_def valid_utf8_ascii newline_def byte_def ws1_def)
  ultimately have "list_all line_ok ?rest" "list_all line_ok ?local"
    using assms clean_name [OF assms(1)] clean_name [OF assms(2)] by (simp_all add: line_rules newline_def byte_def ws1_def)
  moreover have "render_caddy_split_route app domain fport bport ps = unlines (key_lines app domain @ ?rest)"
    "render_local_caddy_split_route app domain fport bport ps = unlines (key_lines app domain @ ?local)"
    by (simp_all add: render_caddy_split_route_def render_local_caddy_split_route_def key_lines_def handle_def route_def Let_def)
  ultimately show "route_body app domain (render_caddy_split_route app domain fport bport ps)"
    "route_body app domain (render_local_caddy_split_route app domain fport bport ps)"
    unfolding route_body_def by metis+
qed

section \<open>Reading back\<close>

lemma unlines_append: "unlines (xs @ ys) = unlines xs @ unlines ys"
  by (induction xs) auto

text \<open>What a writer puts into the file, read by the guards of the next writer.\<close>

lemma written_route_reads:
  fixes d :: uuid and kind :: route_kind
  assumes "uuid_printing io" "plain_name app" "plain_name domain" "route_body app domain body"
    "\<And>g. generation = Some g \<Longrightarrow> 0 \<le> g \<and> g \<le> 9223372036854775807"
  defines "contents \<equiv> versioned io d generation kind body"
  shows "valid_utf8 contents \<and> route_domain contents = Some domain
    \<and> route_version (ri_parse_uuid io) contents = Inr (map_option (\<lambda>g. \<lparr> rv_deployment_id = d, rv_generation = g, rv_kind = kind \<rparr>) generation)"
proof -
  obtain rest where rest: "list_all line_ok rest" "body = unlines (key_lines app domain @ rest)"
    using assms(4) by (auto simp: route_body_def)
  have ok: "list_all line_ok (key_lines app domain @ rest)" using rest(1) key_lines_ok assms(2,3) by simp
  note body = line_ok_lines [OF ok, folded rest(2)]
  show ?thesis
  proof (cases generation)
    case None
    with body show ?thesis
      by (simp add: contents_def versioned_def route_domain_def route_version_def version_fields_ordinary key_lines_domain assms(2,3))
  next
    case (Some g)
    define h1 where "h1 = ''# hostlet-deployment-id: '' @ ri_uuid_text io d"
    define h2 where "h2 = ''# hostlet-route-generation: '' @ show_int g"
    define h3 where "h3 = ''# hostlet-route-kind: '' @ kind_text kind"
    note hs_def = h1_def h2_def h3_def
    have g: "0 \<le> g" "g \<le> 9223372036854775807" using assms(5) Some by auto
    have names: "plain_name (ri_uuid_text io d)" "plain_name (show_int g)" "plain_name (kind_text kind)"
      using assms(1) g digits_name
      by (auto simp: uuid_printing_def show_int_def kind_text_def plain_name_def name_char_def byte_def split: route_kind.splits)
    have whole: "contents = unlines [h1, h2, h3] @ body" by (simp add: contents_def Some versioned_def version_header_def hs_def)
    have hs: "\<forall>l \<in> set [h1, h2, h3]. newline \<notin> set l \<and> CHR 0x0D \<notin> set l"
      using names plain_name_ends by (simp add: hs_def newline_def)
    have lines: "str_lines contents = h1 # h2 # h3 # key_lines app domain @ rest"
      using str_lines_unlines [OF hs, of body] body by (simp add: whole)
    have "valid_utf8 (unlines [h1, h2, h3])"
      using names ascii_name by (auto simp: hs_def newline_def byte_def intro!: valid_utf8_ascii)
    then have "valid_utf8 contents" unfolding whole using body by (intro valid_utf8_append) auto
    moreover have "route_domain contents = Some domain"
      unfolding route_domain_def lines header_domain [OF names, folded hs_def] by (rule key_lines_domain [OF assms(2,3)])
    moreover have "version_fields_of (str_lines contents) (None, None, None)
        = Inr (Some (ri_uuid_text io d), Some (show_int g), Some (kind_text kind))"
      unfolding lines header_lines [OF names, folded hs_def] using body by (intro version_fields_ordinary) simp
    moreover have "ri_parse_uuid io (ri_uuid_text io d) = Some d" using assms(1) by (simp add: uuid_printing_def)
    ultimately show ?thesis using g
      by (simp add: Some route_version_def parse_i64_show kind_text_def split: route_kind.splits)
  qed
qed

section \<open>One write\<close>

lemma restore_other: "n \<noteq> target \<Longrightarrow> map_of (snd (restore_route_file io target previous files)) n = map_of files n"
  by (auto simp: restore_route_file_def AList.update_conv' AList.delete_conv' split: option.splits file_write.splits)

text \<open>The ways a write can end.\<close>

lemma apply_route_elim:
  assumes "apply_route io kind d app domain generation rendered files = (r, files')"
    "ri_readable io (app @ ''.caddy'')" "ri_restore io = Written" "ri_remove io" "ri_temp io \<noteq> app @ ''.caddy''"
  obtains (kept) "r \<noteq> Inr ()" "map_of files' (app @ ''.caddy'') = map_of files (app @ ''.caddy'')"
      "\<forall>n. n \<noteq> ri_temp io \<longrightarrow> n \<noteq> app @ ''.caddy'' \<longrightarrow> map_of files' n = map_of files n"
  | (installed) "r = Inr ()" "files' = AList.update (app @ ''.caddy'') rendered files"
      "ensure_no_conflicting_route io (app @ ''.caddy'') domain files = Inr ()"
      "ensure_route_write_is_current (ri_parse_uuid io) (map_of files (app @ ''.caddy'')) d generation kind = Inr ()"
proof -
  note D = assms(1) [unfolded apply_route_def Let_def]
  have io: "(if ri_readable io (app @ ''.caddy'') then map_of files (app @ ''.caddy'') else None) = map_of files (app @ ''.caddy'')"
    using assms(2) by simp
  note D = D [unfolded io]
  let ?c = "ensure_no_conflicting_route io (app @ ''.caddy'') domain files"
  let ?v = "ensure_route_write_is_current (ri_parse_uuid io) (map_of files (app @ ''.caddy'')) d generation kind"
  consider (bad) "\<not> ri_create_dir io \<or> isl ?c \<or> isl ?v" | (pass) "ri_create_dir io" "?c = Inr ()" "?v = Inr ()"
    by (cases ?c; cases ?v) auto
  then show ?thesis
  proof cases
    case bad
    then have "r \<noteq> Inr () \<and> files' = files" using D by (cases ?c; cases ?v) (auto split: if_splits)
    then show ?thesis by (intro kept) auto
  next
    case pass
    show ?thesis
    proof (cases "write_route_file io (app @ ''.caddy'') rendered files")
      case (Pair w f)
      show ?thesis
      proof (cases w)
        case (Inl e)
        then have "r \<noteq> Inr ()" "files' = f" using D pass Pair by auto
        moreover have "\<forall>n. n \<noteq> ri_temp io \<longrightarrow> map_of f n = map_of files n"
          using Pair Inl by (auto simp: write_route_file_def AList.update_conv' split: if_splits file_write.splits)
        ultimately show ?thesis using assms(5) by (intro kept) auto
      next
        case (Inr u)
        have f: "f = AList.update (app @ ''.caddy'') rendered files"
          using Pair Inr by (auto simp: write_route_file_def split: if_splits file_write.splits)
        show ?thesis
        proof (cases "ri_reload io")
          case True
          then show ?thesis using D pass Pair Inr f by (intro installed) auto
        next
          case False
          define g where "g = snd (restore_route_file io (app @ ''.caddy'') (map_of files (app @ ''.caddy'')) f)"
          have "r \<noteq> Inr () \<and> files' = g"
            using D pass Pair Inr False by (auto simp: g_def split: prod.splits sum.splits)
          moreover have "map_of g (app @ ''.caddy'') = map_of files (app @ ''.caddy'')"
            using assms(3,4) by (auto simp: g_def restore_route_file_def AList.update_conv' AList.delete_conv' split: option.splits)
          moreover have "map_of g n = map_of files n" if "n \<noteq> app @ ''.caddy''" for n
            unfolding g_def restore_other [OF that] by (simp add: f AList.update_conv' that)
          ultimately show ?thesis by (intro kept) auto
        qed
      qed
    qed
  qed
qed

section \<open>Any number of writes\<close>

text \<open>
  The writers with everything they may be called with.  The files can be read, a failed reload can be
  undone, and the temporary file does not look like a route; every other failure is allowed.
\<close>

definition dependable :: "(string \<Rightarrow> uuid option) \<Rightarrow> route_io \<Rightarrow> bool" where
  "dependable parse io \<longleftrightarrow> ri_parse_uuid io = parse \<and> uuid_printing io \<and> (\<forall>n. ri_readable io n)
     \<and> ri_restore io = Written \<and> ri_remove io \<and> file_extension (ri_temp io) \<noteq> Some ''caddy''"

definition route_names :: "string \<Rightarrow> string \<Rightarrow> int option \<Rightarrow> bool" where
  "route_names app domain generation \<longleftrightarrow> well_formed_slug app \<and> valid_domain domain
     \<and> (\<forall>g. generation = Some g \<longrightarrow> g \<le> 9223372036854775807)"

inductive route_write :: "(string \<Rightarrow> uuid option) \<Rightarrow> route_dir \<Rightarrow> route_dir \<Rightarrow> bool" for parse where
  single: "dependable parse io \<Longrightarrow> route_names app domain generation
    \<Longrightarrow> apply_caddy_route_inner io d app domain port generation files = (r, files') \<Longrightarrow> route_write parse files files'"
| split: "dependable parse io \<Longrightarrow> route_names app domain (Some g) \<Longrightarrow> list_all clean ps
    \<Longrightarrow> apply_caddy_split_route_versioned io d app domain fport bport ps g files = (r, files') \<Longrightarrow> route_write parse files files'"
| local_single: "dependable parse io \<Longrightarrow> route_names app domain generation
    \<Longrightarrow> apply_local_caddy_route_inner io d app domain port generation files = (r, files') \<Longrightarrow> route_write parse files files'"
| local_split: "dependable parse io \<Longrightarrow> route_names app domain (Some g) \<Longrightarrow> list_all clean ps
    \<Longrightarrow> apply_local_caddy_split_route_versioned io d app domain fport bport ps g files = (r, files')
    \<Longrightarrow> route_write parse files files'"

inductive_cases route_writeE: "route_write parse files files'"

lemma route_write_apply:
  assumes "route_write parse files files'"
  obtains io kind d app domain generation body r where "dependable parse io" "route_names app domain generation"
    "route_body app domain body"
    "apply_route io kind d app domain generation (versioned io d generation kind body) files = (r, files')"
  using assms
proof (cases rule: route_write.cases)
  case (single io app domain generation d port r)
  then show ?thesis
    using that [of io app domain generation "render_caddy_route app domain port" Single d r] single_bodies slug_name domain_name
    by (auto simp: apply_caddy_route_inner_def route_names_def)
next
  case (split io app domain g ps d fport bport r)
  then show ?thesis
    using that [of io app domain "Some g" "render_caddy_split_route app domain fport bport ps" Split d r] split_bodies slug_name domain_name
    by (auto simp: apply_caddy_split_route_versioned_def route_names_def)
next
  case (local_single io app domain generation d port r)
  then show ?thesis
    using that [of io app domain generation "render_local_caddy_route app domain port" Single d r] single_bodies slug_name domain_name
    by (auto simp: apply_local_caddy_route_inner_def route_names_def)
next
  case (local_split io app domain g ps d fport bport r)
  then show ?thesis
    using that [of io app domain "Some g" "render_local_caddy_split_route app domain fport bport ps" Split d r] split_bodies slug_name domain_name
    by (auto simp: apply_local_caddy_split_route_versioned_def route_names_def)
qed

definition version_at :: "(string \<Rightarrow> uuid option) \<Rightarrow> string \<Rightarrow> route_dir \<Rightarrow> string + route_version_row option" where
  "version_at parse app files = (case map_of files (app @ ''.caddy'') of None \<Rightarrow> Inr None
     | Some c \<Rightarrow> if valid_utf8 c then route_version parse c else Inl ''existing Hostlet route is not UTF-8'')"

definition supersedes :: "route_version_row \<Rightarrow> route_version_row \<Rightarrow> bool" where
  "supersedes new old \<longleftrightarrow> rv_generation old < rv_generation new
     \<or> rv_generation old = rv_generation new \<and> rv_deployment_id old = rv_deployment_id new
       \<and> (rv_kind old = Split \<longrightarrow> rv_kind new = Split)"

lemma current_write_supersedes:
  assumes "ensure_route_write_is_current parse (map_of files (app @ ''.caddy'')) d generation kind = Inr ()"
    "version_at parse app files = Inr (Some v)"
  shows "\<exists>g. generation = Some g \<and> supersedes \<lparr> rv_deployment_id = d, rv_generation = g, rv_kind = kind \<rparr> v"
  using assms
  by (auto simp: ensure_route_write_is_current_def version_at_def supersedes_def split: option.splits if_splits;
    cases kind; auto)

lemma write_nonneg:
  "ensure_route_write_is_current parse previous d (Some g) kind = Inr () \<Longrightarrow> 0 \<le> g"
  by (auto simp: ensure_route_write_is_current_def split: if_splits)

lemma append_caddy_inj: "app @ ''.caddy'' = app' @ ''.caddy'' \<longleftrightarrow> app = app'"
  by simp

lemma caddy_extension: "app \<noteq> [] \<Longrightarrow> file_extension (app @ ''.caddy'') = Some ''caddy''"
  using rsplit_once_append [of "CHR ''.''" "''caddy''" app] by (simp add: file_extension_def)

text \<open>What one write does to the files, for the writers above.\<close>

lemma route_write_view:
  assumes "route_write parse files files'"
  obtains (kept) "\<forall>n. file_extension n = Some ''caddy'' \<longrightarrow> map_of files' n = map_of files n"
  | (installed) app domain contents d generation kind where
      "\<forall>n. map_of files' n = (if n = app @ ''.caddy'' then Some contents else map_of files n)"
      "valid_utf8 contents" "route_domain contents = Some domain"
      "route_version parse contents = Inr (map_option (\<lambda>g. \<lparr> rv_deployment_id = d, rv_generation = g, rv_kind = kind \<rparr>) generation)"
      "ensure_route_write_is_current parse (map_of files (app @ ''.caddy'')) d generation kind = Inr ()"
      "\<exists>io. (\<forall>n. ri_readable io n) \<and> ensure_no_conflicting_route io (app @ ''.caddy'') domain files = Inr ()"
proof -
  obtain io kind d app domain generation body r where W: "dependable parse io" "route_names app domain generation"
    "route_body app domain body"
    "apply_route io kind d app domain generation (versioned io d generation kind body) files = (r, files')"
    using route_write_apply [OF assms] by metis
  note io = W(1) [unfolded dependable_def] and names = W(2) [unfolded route_names_def]
  have "app \<noteq> []" using names by (simp add: well_formed_slug_def)
  then have temp: "ri_temp io \<noteq> app @ ''.caddy''" using io caddy_extension by metis
  have pre: "ri_readable io (app @ ''.caddy'')" "ri_restore io = Written" "ri_remove io" using io by auto
  from W(4) pre temp show ?thesis
  proof (cases rule: apply_route_elim)
    case kept
    have "map_of files' n = map_of files n" if q: "file_extension n = Some ''caddy''" for n
    proof -
      have "n \<noteq> ri_temp io" using io q by auto
      then show ?thesis using kept(2,3) by (cases "n = app @ ''.caddy''") auto
    qed
    then show ?thesis using that(1) by blast
  next
    case installed
    have "0 \<le> g \<and> g \<le> 9223372036854775807" if "generation = Some g" for g
      using write_nonneg [of _ _ d g kind] installed(4) names that by blast
    then have "valid_utf8 (versioned io d generation kind body) \<and> route_domain (versioned io d generation kind body) = Some domain
        \<and> route_version (ri_parse_uuid io) (versioned io d generation kind body)
          = Inr (map_option (\<lambda>g. \<lparr> rv_deployment_id = d, rv_generation = g, rv_kind = kind \<rparr>) generation)"
      using io names by (intro written_route_reads [OF _ slug_name domain_name W(3)]) auto
    with installed io show ?thesis
      by (intro that(2) [of app "versioned io d generation kind body" domain d kind generation]) (auto simp: AList.update_conv')
  qed
qed

lemma supersedes_trans: "supersedes c b \<Longrightarrow> supersedes b a \<Longrightarrow> supersedes c a"
  by (auto simp: supersedes_def)

lemma supersedes_refl: "supersedes v v"
  by (simp add: supersedes_def)

lemma version_step:
  assumes "route_write parse files files'" "version_at parse app files = Inr (Some v)" "app \<noteq> []"
  shows "\<exists>v'. version_at parse app files' = Inr (Some v') \<and> supersedes v' v"
  using assms(1)
proof (cases rule: route_write_view)
  case kept
  then have "map_of files' (app @ ''.caddy'') = map_of files (app @ ''.caddy'')" using caddy_extension assms(3) by blast
  then show ?thesis using assms(2) supersedes_refl by (auto simp: version_at_def)
next
  case (installed app' domain contents d generation kind)
  show ?thesis
  proof (cases "app' = app")
    case True
    then obtain g where "generation = Some g" "supersedes \<lparr> rv_deployment_id = d, rv_generation = g, rv_kind = kind \<rparr> v"
      using current_write_supersedes installed(5) assms(2) by blast
    with installed(1,2,4) True show ?thesis by (auto simp: version_at_def)
  next
    case False
    then show ?thesis using installed(1) assms(2) supersedes_refl by (auto simp: version_at_def)
  qed
qed

text \<open>
  C16: the route of an app never goes back.  Through any sequence of route writes - deployments,
  rollbacks and port repairs, local or not, stale or current, for valid names and domains - the file of a
  versioned route stays versioned, its generation never falls, two writes with the same generation
  belong to the same deployment, and within a generation a split route stays split.  Each write may fail
  to create or list the directory, to write or rename the temporary file or to reload the proxy; the
  route files that exist can be read, and after a failed reload the old file can be put back.  Without
  the first a newer route can be replaced by an older one (\<open>unreadable_route_loses_fence\<close>).
\<close>

theorem route_generation_monotone:
  assumes "(route_write parse)\<^sup>*\<^sup>* files files'" "version_at parse app files = Inr (Some v)" "app \<noteq> []"
  shows "\<exists>v'. version_at parse app files' = Inr (Some v') \<and> supersedes v' v"
  using assms(1)
proof (induction rule: rtranclp_induct)
  case base
  then show ?case using assms(2) supersedes_refl by blast
next
  case (step mid files')
  then show ?case using version_step [OF step.hyps(2) _ assms(3)] supersedes_trans by blast
qed

section \<open>Domains\<close>

lemma no_conflictD:
  assumes "ensure_no_conflicting_route io target domain files = Inr ()" "(n, c) \<in> set files" "n \<noteq> target"
    "file_extension n = Some ''caddy''" "valid_utf8 c" "ri_readable io n"
  shows "route_domain c \<noteq> Some domain"
  using assms by (induction io target domain files rule: ensure_no_conflicting_route.induct) (auto split: if_splits)

definition serves :: "route_dir \<Rightarrow> string \<Rightarrow> string \<Rightarrow> bool" where
  "serves files n domain \<longleftrightarrow> file_extension n = Some ''caddy''
     \<and> (\<exists>c. map_of files n = Some c \<and> valid_utf8 c \<and> route_domain c = Some domain)"

text \<open>
  C17: a domain has one route.  Route writes for valid names and domains, in any number and order, never
  make two route files claim the same domain.  The same failures as above are allowed: the existing route
  files can be read and a failed reload can be undone.  Without the first the check for a conflict skips
  the other route, and both claim the domain (\<open>unreadable_route_shares_domain\<close>).
\<close>

theorem one_route_per_domain:
  assumes "(route_write parse)\<^sup>*\<^sup>* files files'" "\<forall>n m x. serves files n x \<and> serves files m x \<longrightarrow> n = m"
  shows "serves files' n domain \<Longrightarrow> serves files' m domain \<Longrightarrow> n = m"
proof -
  from assms(1) have "\<forall>n m x. serves files' n x \<and> serves files' m x \<longrightarrow> n = m"
  proof (induction rule: rtranclp_induct)
    case (step mid files')
    from step.hyps(2) show ?case
    proof (cases rule: route_write_view)
      case kept
      then have "serves files' n x = serves mid n x" for n x by (auto simp: serves_def)
      with step.IH show ?thesis by simp
    next
      case (installed app domain contents d generation kind)
      let ?t = "app @ ''.caddy''"
      have other: "serves files' n x = serves mid n x" if "n \<noteq> ?t" for n x
        using installed(1) that by (simp add: serves_def)
      have mine: "x = domain" if "serves files' ?t x" for x using that installed(1,3) by (auto simp: serves_def)
      have "\<not> serves mid n domain" if "n \<noteq> ?t" for n
        using installed(6) no_conflictD that unfolding serves_def by (metis map_of_SomeD)
      with other mine step.IH show ?thesis by metis
    qed
  qed (rule assms(2))
  then show "serves files' n domain \<Longrightarrow> serves files' m domain \<Longrightarrow> n = m" by blast
qed

end
