(* ===== verification/Log_Transport.thy ===== *)
theory Log_Transport
  imports Redaction
begin

text \<open>
  \<open>apps/agent/src/log_transport.rs\<close>: how the output of a build reaches the log.  A reader cuts the
  output of a child process into lines of bounded length, redacts them and offers them to a bounded
  queue without ever waiting; a dispatcher takes lines off the queue and posts them.  When the queue
  is full the newest lines are dropped and counted, and the count is posted as a line of its own.
\<close>

definition log_buffer_capacity :: nat where "log_buffer_capacity = 256"
definition log_line_max_bytes :: nat where "log_line_max_bytes = 8192"

section \<open>Reading lines\<close>

text \<open>\<open>String::from_utf8_lossy\<close>: an ill-formed sequence becomes one U+FFFD for its longest well-formed beginning.\<close>

definition broken_length :: "string \<Rightarrow> nat" where
  "broken_length s = (case s of
     a # b # s2 \<Rightarrow>
       if is_continuation b \<and> (224 \<le> byte a \<and> byte a \<le> 239 \<and> (byte a = 224 \<longrightarrow> 160 \<le> byte b) \<and> (byte a = 237 \<longrightarrow> byte b < 160)
         \<or> 240 \<le> byte a \<and> byte a \<le> 244 \<and> (byte a = 240 \<longrightarrow> 144 \<le> byte b) \<and> (byte a = 244 \<longrightarrow> byte b < 144))
       then if 240 \<le> byte a \<and> s2 \<noteq> [] \<and> is_continuation (hd s2) then 3 else 2
       else 1
   | _ \<Rightarrow> 1)"

lemma broken_length_pos: "0 < broken_length s"
  by (auto simp: broken_length_def split: list.splits)

function from_utf8_lossy :: "string \<Rightarrow> string" where
  "from_utf8_lossy s = (if s = [] then [] else case utf8_step s of
     Some t \<Rightarrow> take (length s - length t) s @ from_utf8_lossy t
   | None \<Rightarrow> [CHR 0xEF, CHR 0xBF, CHR 0xBD] @ from_utf8_lossy (drop (broken_length s) s))"
  by auto
termination
  by (relation "measure length") (auto dest: utf8_step_shorter simp: broken_length_pos)

declare from_utf8_lossy.simps [simp del]

text \<open>A pipe: the pieces it delivers, one of which may be an error, then its end.\<close>

datatype piece = Chunk string | Broken

type_synonym pipe = "piece list"

definition rest_of :: "string \<Rightarrow> pipe \<Rightarrow> pipe" where
  "rest_of c p = (if c = [] then p else Chunk c # p)"

text \<open>
  \<open>read_bounded_line\<close>: through one newline, keeping at most \<open>log_line_max_bytes\<close>.  The result is \<open>None\<close> at
  the end or on an error, else whether a newline was found.
\<close>

fun read_bounded_line :: "string \<Rightarrow> pipe \<Rightarrow> bool option \<times> string \<times> pipe" where
  "read_bounded_line line [] = (if line = [] then None else Some False, line, [])"
| "read_bounded_line line (Broken # p) = (None, line, p)"
| "read_bounded_line line (Chunk c # p) =
     (let remaining = log_line_max_bytes - length line in
      if c = [] then (if line = [] then None else Some False, line, p)
      else if newline \<in> set c then
        let position = length (takeWhile (\<lambda>b. b \<noteq> newline) c) in
        (Some True, line @ take (min position remaining) c, rest_of (drop (position + 1) c) p)
      else read_bounded_line (line @ take (min (length c) remaining) c) p)"

fun pipe_size :: "pipe \<Rightarrow> nat" where
  "pipe_size [] = 0"
| "pipe_size (Chunk c # p) = Suc (length c) + pipe_size p"
| "pipe_size (Broken # p) = 1 + pipe_size p"

lemma read_shorter: "read_bounded_line line p = (Some True, l, q) \<Longrightarrow> pipe_size q < pipe_size p"
proof (induction line p rule: read_bounded_line.induct)
  case (3 line c p)
  show ?case
  proof (cases "newline \<in> set c")
    case True
    then have "c \<noteq> []" "length (takeWhile (\<lambda>b. b \<noteq> newline) c) < length c"
      by (auto) (metis (mono_tags, lifting) length_takeWhile_le nat_less_le takeWhile_eq_all_conv take_all takeWhile_eq_take)
    with 3 True show ?thesis by (auto simp: Let_def rest_of_def split: if_splits)
  next
    case False
    with 3 show ?thesis by (auto simp: Let_def split: if_splits)
  qed
qed (auto split: if_splits)

function read_stream_lines :: "pipe \<Rightarrow> string list" where
  "read_stream_lines p =
     (case read_bounded_line [] p of
        (None, _, _) \<Rightarrow> []
      | (Some complete, line, q) \<Rightarrow>
        if \<not> complete \<and> line = [] then []
        else redact (from_utf8_lossy line) # (if complete then read_stream_lines q else []))"
  by auto
termination
  by (relation "measure pipe_size") (auto dest: read_shorter [OF sym])

declare read_stream_lines.simps [simp del]

section \<open>The reference for reading\<close>

definition pipe_content :: "pipe \<Rightarrow> string" where
  "pipe_content p = concat (map (\<lambda>x. case x of Chunk c \<Rightarrow> c | Broken \<Rightarrow> []) p)"

definition sound :: "pipe \<Rightarrow> bool" where
  "sound p \<longleftrightarrow> list_all (\<lambda>x. \<exists>c. x = Chunk c \<and> c \<noteq> []) p"

definition lines_of :: "string \<Rightarrow> string list" where
  "lines_of s = (let ps = split_char newline s in if last ps = [] then butlast ps else ps)"

lemma split_char_none: "sep \<notin> set s \<Longrightarrow> split_char sep s = [s]"
  by (induction s) auto

lemma lines_of_step: "newline \<notin> set l \<Longrightarrow> lines_of (l @ newline # s) = l # lines_of s"
  by (auto simp: lines_of_def split_char_append Let_def)

lemma lines_of_last: "newline \<notin> set l \<Longrightarrow> lines_of l = (if l = [] then [] else [l])"
  by (simp add: lines_of_def split_char_none)

lemma pipe_content_simps [simp]: "pipe_content [] = []" "pipe_content (Chunk c # p) = c @ pipe_content p" "pipe_content (rest_of c p) = c @ pipe_content p"
  "sound []" "sound (Chunk c # p) \<longleftrightarrow> c \<noteq> [] \<and> sound p" "\<not> sound (Broken # p)" "sound p \<Longrightarrow> sound (rest_of c p)"
  by (auto simp: pipe_content_def sound_def rest_of_def)

lemma take_bounded: "take m a @ take (min n (m - length (take m a))) (take n c) = take m (a @ take n c)"
  by (auto simp: min_def)

lemma read_line_spec:
  assumes "sound p"
  shows "(newline \<in> set (pipe_content p) \<longrightarrow> (\<exists>l s q. pipe_content p = l @ newline # s \<and> newline \<notin> set l \<and> sound q \<and> pipe_content q = s
        \<and> read_bounded_line (take log_line_max_bytes a) p = (Some True, take log_line_max_bytes (a @ l), q)))
    \<and> (newline \<notin> set (pipe_content p) \<longrightarrow> (\<exists>q. read_bounded_line (take log_line_max_bytes a) p =
        (if a @ pipe_content p = [] then None else Some False, take log_line_max_bytes (a @ pipe_content p), q)))"
  using assms
proof (induction p arbitrary: a)
  case Nil
  then show ?case by (simp add: log_line_max_bytes_def)
next
  case (Cons x p)
  then obtain c where x: "x = Chunk c" "c \<noteq> []" "sound p" by (cases x) auto
  let ?m = log_line_max_bytes
  show ?case
  proof (cases "newline \<in> set c")
    case True
    then obtain l s where c: "c = l @ newline # s" "newline \<notin> set l" using split_list_first by metis
    have "take ?m a @ take (min (length l) (?m - length (take ?m a))) c = take ?m (a @ l)"
      using c(1) by (auto simp: min_def)
    then show ?thesis using x c True by (auto simp: until_simps Let_def intro!: exI [of _ l] exI [of _ "s @ pipe_content p"])
  next
    case False
    have "take ?m a @ take (min (length c) (?m - length (take ?m a))) c = take ?m (a @ c)" by (auto simp: min_def)
    then have step: "read_bounded_line (take ?m a) (x # p) = read_bounded_line (take ?m (a @ c)) p"
      using x False by (simp add: Let_def)
    show ?thesis
    proof (cases "newline \<in> set (pipe_content p)")
      case True
      then obtain l s q where "pipe_content p = l @ newline # s" "newline \<notin> set l" "sound q" "pipe_content q = s"
        "read_bounded_line (take ?m (a @ c)) p = (Some True, take ?m ((a @ c) @ l), q)"
        using Cons.IH [OF x(3), of "a @ c"] by blast
      then show ?thesis using x False step True
        by (auto intro!: exI [of _ "c @ l"] exI [of _ s] exI [of _ q])
    next
      case nl: False
      then obtain q where "read_bounded_line (take ?m (a @ c)) p =
          (if (a @ c) @ pipe_content p = [] then None else Some False, take ?m ((a @ c) @ pipe_content p), q)"
        using Cons.IH [OF x(3), of "a @ c"] by blast
      then show ?thesis using x False step nl by auto
    qed
  qed
qed

text \<open>
  C36: reading depends on the output only, not on how the pipe delivers it.  Whatever the pieces, the
  reader ends and yields the lines of the output in order - the last one too when it is not ended by a
  newline - each cut to 8 KiB, decoded and redacted.
\<close>

theorem read_stream_lines_correct:
  assumes "sound p"
  shows "read_stream_lines p = map (\<lambda>l. redact (from_utf8_lossy (take log_line_max_bytes l))) (lines_of (pipe_content p))"
  using assms
proof (induction "length (pipe_content p)" arbitrary: p rule: less_induct)
  case less
  note spec = read_line_spec [OF less.prems, of "[]"]
  show ?case
  proof (cases "newline \<in> set (pipe_content p)")
    case True
    then obtain l s q where q: "pipe_content p = l @ newline # s" "newline \<notin> set l" "sound q" "pipe_content q = s"
      "read_bounded_line [] p = (Some True, take log_line_max_bytes l, q)"
      using spec by auto
    have "read_stream_lines q = map (\<lambda>l. redact (from_utf8_lossy (take log_line_max_bytes l))) (lines_of s)"
      using less.hyps [of q] q by simp
    then show ?thesis using q by (simp add: read_stream_lines.simps [of p] lines_of_step)
  next
    case False
    then obtain q where "read_bounded_line [] p =
        (if pipe_content p = [] then None else Some False, take log_line_max_bytes (pipe_content p), q)"
      using spec by auto
    then show ?thesis using False
      by (simp add: read_stream_lines.simps [of p] lines_of_last) (simp add: log_line_max_bytes_def)
  qed
qed

section \<open>The bounded queue\<close>

text \<open>The horizontal ellipsis of the truncation mark is one character of three bytes.\<close>

definition cap_line :: "string \<Rightarrow> string" where
  "cap_line line =
     (if length line \<le> log_line_max_bytes then line
      else take (boundary_before line log_line_max_bytes) line @ [CHR 0xE2, CHR 0x80, CHR 0xA6] @ '' [truncated]'')"

definition overflow_line :: "string \<Rightarrow> nat \<Rightarrow> string" where
  "overflow_line stream count = ''[deployment log buffer overflow: dropped '' @ show_nat count @ '' '' @ stream
     @ '' line(s) while API logging was backpressured]''"

text \<open>What waits in the queue: a line, or the note that lines were dropped.  Both are posted as text.\<close>

datatype entry = Line string | Dropped nat

definition entry_text :: "string \<Rightarrow> entry \<Rightarrow> string" where
  "entry_text stream e = (case e of Line l \<Rightarrow> l | Dropped n \<Rightarrow> overflow_line stream n)"

record log_channel =
  lc_queue :: "entry list"
  lc_dropped :: nat
  lc_closed :: bool

datatype sent = Sent | Full | Closed

definition channel_send :: "entry \<Rightarrow> log_channel \<Rightarrow> sent \<times> log_channel" where
  "channel_send e c =
     (if lc_closed c then (Closed, c)
      else if log_buffer_capacity \<le> length (lc_queue c) then (Full, c)
      else (Sent, c\<lparr> lc_queue := lc_queue c @ [e] \<rparr>))"

text \<open>
  \<open>LogSender::try_send\<close> in its two halves, between which the dispatcher may run: the report of earlier
  losses, and the line itself.  The first half answers whether the second one follows.
\<close>

definition report_losses :: "log_channel \<Rightarrow> bool \<times> log_channel" where
  "report_losses c =
     (let pending = lc_dropped c; c0 = c\<lparr> lc_dropped := 0 \<rparr> in
      if pending = 0 then (True, c0)
      else case channel_send (Dropped pending) c0 of
        (Sent, c1) \<Rightarrow> (True, c1)
      | (Full, c1) \<Rightarrow> (True, c1\<lparr> lc_dropped := lc_dropped c1 + pending \<rparr>)
      | (Closed, c1) \<Rightarrow> (False, c1))"

definition send_line :: "string \<Rightarrow> log_channel \<Rightarrow> log_channel" where
  "send_line line c =
     (case channel_send (Line line) c of
        (Full, c1) \<Rightarrow> c1\<lparr> lc_dropped := lc_dropped c1 + 1 \<rparr>
      | (_, c1) \<Rightarrow> c1)"

definition try_send :: "string \<Rightarrow> log_channel \<Rightarrow> log_channel" where
  "try_send line c = (case report_losses c of (True, c1) \<Rightarrow> send_line (cap_line line) c1 | (False, c1) \<Rightarrow> c1)"

text \<open>
  The end of the dispatcher, when every sender is gone and the queue is empty: what was dropped last is
  posted as a last note.
\<close>

definition dispatcher_rest :: "log_channel \<Rightarrow> entry option" where
  "dispatcher_rest c = (if 0 < lc_dropped c then Some (Dropped (lc_dropped c)) else None)"

section \<open>Sender and dispatcher together\<close>

text \<open>
  The dispatcher receives entries and posts them, posts the last note, and ends; or it is aborted, by
  the deadline of \<open>shutdown\<close> or when the transport is dropped.  With it the receiving half of the queue
  goes, and what waits there is discarded.
\<close>

datatype dispatcher_phase = Receiving | Noting | Ended | Aborted

text \<open>
  The last four fields are bookkeeping of the model: the lines offered by the reader, the entries whose
  post ended in time, the entries that were given up, and how many posts ran into their time limit.
\<close>

record transport =
  tr_channel :: log_channel
  tr_senders :: bool
  tr_sending :: "string option"
  tr_phase :: dispatcher_phase
  tr_posting :: "entry option"
  tr_offered :: "string list"
  tr_posted :: "entry list"
  tr_lost :: "entry list"
  tr_timeouts :: nat

definition start_transport :: transport where
  "start_transport = \<lparr> tr_channel = \<lparr> lc_queue = [], lc_dropped = 0, lc_closed = False \<rparr>, tr_senders = True, tr_sending = None,
     tr_phase = Receiving, tr_posting = None, tr_offered = [], tr_posted = [], tr_lost = [], tr_timeouts = 0 \<rparr>"

definition in_post :: "transport \<Rightarrow> entry list" where
  "in_post t = (case tr_posting t of Some e \<Rightarrow> [e] | None \<Rightarrow> [])"

text \<open>
  The reader offers a line in the two halves of \<open>try_send\<close>; the dispatcher receives an entry, and its
  post ends in time or is cut off after five seconds; the senders go away; the dispatcher finds the
  queue drained and ends, or is aborted at any point.  Steps of the two sides interleave freely, also
  between the two halves of an offer.  After an abort a reader may still be running: its lines, and the
  losses it had not reported yet, are gone.
\<close>

inductive transport_step :: "transport \<Rightarrow> transport \<Rightarrow> bool" where
  offer: "tr_sending t = None \<Longrightarrow> tr_senders t \<Longrightarrow> report_losses (tr_channel t) = (True, c)
    \<Longrightarrow> transport_step t (t\<lparr> tr_channel := c, tr_sending := Some (cap_line line), tr_offered := tr_offered t @ [cap_line line] \<rparr>)"
| offer_late: "tr_sending t = None \<Longrightarrow> tr_senders t \<Longrightarrow> report_losses (tr_channel t) = (False, c)
    \<Longrightarrow> transport_step t (t\<lparr> tr_channel := c, tr_offered := tr_offered t @ [cap_line line],
          tr_lost := tr_lost t @ [Dropped (lc_dropped (tr_channel t)), Line (cap_line line)] \<rparr>)"
| send: "tr_sending t = Some line
    \<Longrightarrow> transport_step t (t\<lparr> tr_channel := send_line line (tr_channel t), tr_sending := None,
          tr_lost := tr_lost t @ (if lc_closed (tr_channel t) then [Line line] else []) \<rparr>)"
| receive: "tr_phase t = Receiving \<Longrightarrow> tr_posting t = None \<Longrightarrow> lc_queue (tr_channel t) = e # es
    \<Longrightarrow> transport_step t (t\<lparr> tr_channel := (tr_channel t)\<lparr> lc_queue := es \<rparr>, tr_posting := Some e \<rparr>)"
| posted: "tr_posting t = Some e
    \<Longrightarrow> transport_step t (t\<lparr> tr_posting := None, tr_posted := tr_posted t @ [e] \<rparr>)"
| timed_out: "tr_posting t = Some e
    \<Longrightarrow> transport_step t (t\<lparr> tr_posting := None, tr_lost := tr_lost t @ [e], tr_timeouts := tr_timeouts t + 1 \<rparr>)"
| senders_gone: "tr_sending t = None \<Longrightarrow> transport_step t (t\<lparr> tr_senders := False \<rparr>)"
| drained: "tr_phase t = Receiving \<Longrightarrow> \<not> tr_senders t \<Longrightarrow> tr_posting t = None \<Longrightarrow> lc_queue (tr_channel t) = []
    \<Longrightarrow> transport_step t (t\<lparr> tr_channel := (tr_channel t)\<lparr> lc_dropped := 0 \<rparr>, tr_phase := Noting,
          tr_posting := dispatcher_rest (tr_channel t) \<rparr>)"
| ended: "tr_phase t = Noting \<Longrightarrow> tr_posting t = None
    \<Longrightarrow> transport_step t (t\<lparr> tr_channel := (tr_channel t)\<lparr> lc_closed := True \<rparr>, tr_phase := Ended \<rparr>)"
| aborted: "tr_phase t = Receiving \<or> tr_phase t = Noting
    \<Longrightarrow> transport_step t (t\<lparr> tr_channel := (tr_channel t)\<lparr> lc_queue := [], lc_closed := True \<rparr>, tr_phase := Aborted,
          tr_posting := None, tr_lost := tr_lost t @ in_post t @ lc_queue (tr_channel t) \<rparr>)"

inductive transported :: "transport \<Rightarrow> bool" where
  start: "transported start_transport"
| step: "transported t \<Longrightarrow> transport_step t u \<Longrightarrow> transported u"

interpretation transport: transition_system "\<lambda>t. t = start_transport" transport_step transported
proof
  fix t I
  assume "transported t" "\<And>t. t = start_transport \<Longrightarrow> I t" "\<And>t u. transported t \<Longrightarrow> I t \<Longrightarrow> transport_step t u \<Longrightarrow> I u"
  then show "I t" by (induction rule: transported.induct) blast+
qed

fun kept_lines :: "entry list \<Rightarrow> string list" where
  "kept_lines [] = []"
| "kept_lines (Line l # es) = l # kept_lines es"
| "kept_lines (Dropped n # es) = kept_lines es"

fun reported :: "entry list \<Rightarrow> nat" where
  "reported [] = 0"
| "reported (Line l # es) = reported es"
| "reported (Dropped n # es) = n + reported es"

lemma entries_append [simp]:
  "kept_lines (xs @ ys) = kept_lines xs @ kept_lines ys" "reported (xs @ ys) = reported xs + reported ys"
  by (induction xs rule: kept_lines.induct) auto



text \<open>How many offered lines a list of entries stands for: its lines, and those its notes count.\<close>

definition weight :: "entry list \<Rightarrow> nat" where
  "weight es = length (kept_lines es) + reported es"

lemma weight_simps [simp]:
  "weight [] = 0" "weight (Line l # es) = Suc (weight es)" "weight (Dropped n # es) = n + weight es"
  "weight (xs @ ys) = weight xs + weight ys"
  by (simp_all add: weight_def)













text \<open>A capped line has at most 8 KiB and the mark, and is cut at a character.\<close>

lemma cap_line_bound: "length (cap_line line) \<le> log_line_max_bytes + 15"
proof (cases "length line \<le> log_line_max_bytes")
  case False
  have "length (take (boundary_before line log_line_max_bytes) line) \<le> log_line_max_bytes"
    using boundary_before [of line log_line_max_bytes] by (simp add: min_def)
  with False show ?thesis by (simp add: cap_line_def)
qed (simp add: cap_line_def)

end
