(* ===== verification/Rate_Limit.thy ===== *)
theory Rate_Limit
  imports Rust_Text "HOL-Library.AList" "HOL-Library.Word"
begin

text \<open>
  \<open>apps/api/src/rate_limit.rs\<close>: fixed-window limits per route and client.  The counters are \<open>u32\<close>, as
  words; an \<open>Instant\<close> is a point of the monotonic clock.  The parser and printer of IP addresses and the
  authentication of agents are parameters of the key.
\<close>

section \<open>The limiter\<close>

record bucket =
  bk_started_at :: timestamp
  bk_count :: "32 word"

type_synonym buckets = "(string \<times> bucket) list"

record rate_rule =
  rr_name :: string
  rr_max :: "32 word"
  rr_window :: timestamp

definition bucket_eviction_threshold :: nat where "bucket_eviction_threshold = 10000"
definition bucket_idle_ttl :: timestamp where "bucket_idle_ttl = seconds 300"
definition rate_window :: timestamp where "rate_window = seconds 60"

definition rate_rule :: "string \<Rightarrow> 32 word \<Rightarrow> rate_rule" where
  "rate_rule name limit = \<lparr> rr_name = name, rr_max = limit, rr_window = rate_window \<rparr>"

definition rules :: "(string \<times> string \<times> rate_rule) list" where
  "rules =
     [(''POST'', ''/api/setup'', rate_rule ''setup'' 8),
      (''POST'', ''/api/unlock'', rate_rule ''unlock'' 10),
      (''POST'', ''/auth/github/device/start'', rate_rule ''github-device-start'' 12),
      (''POST'', ''/auth/github/device/poll'', rate_rule ''github-device-poll'' 90),
      (''POST'', ''/api/agent/register'', rate_rule ''agent-register'' 20),
      (''POST'', ''/api/agent/events'', rate_rule ''agent-events'' 1500),
      (''GET'', ''/ws/agent'', rate_rule ''agent-ws'' 30),
      (''POST'', ''/webhooks/github'', rate_rule ''github-webhook'' 120)]"

definition evict :: "timestamp \<Rightarrow> buckets \<Rightarrow> buckets" where
  "evict now bs = (if bucket_eviction_threshold < length bs
     then filter (\<lambda>(_, b). now - bk_started_at b \<le> bucket_idle_ttl) bs else bs)"

definition counted :: "timestamp \<Rightarrow> timestamp \<Rightarrow> bucket option \<Rightarrow> bucket" where
  "counted now window found =
     (let b = (case found of Some b \<Rightarrow> b | None \<Rightarrow> \<lparr> bk_started_at = now, bk_count = 0 \<rparr>);
          b' = (if window < now - bk_started_at b then \<lparr> bk_started_at = now, bk_count = 0 \<rparr> else b) in
      b'\<lparr> bk_count := bk_count b' + 1 \<rparr>)"

definition check :: "string \<Rightarrow> 32 word \<Rightarrow> timestamp \<Rightarrow> timestamp \<Rightarrow> buckets \<Rightarrow> bool \<times> buckets" where
  "check key limit window now bs =
     (let bs1 = evict now bs; b = counted now window (map_of bs1 key) in
      (bk_count b \<le> limit, AList.update key b bs1))"

section \<open>Rules and keys\<close>

definition rule_for :: "string \<Rightarrow> string \<Rightarrow> rate_rule option" where
  "rule_for meth path = map_option (\<lambda>(_, _, r). r) (find (\<lambda>(m, p, _). m = meth \<and> p = path) rules)"

text \<open>\<open>HeaderMap::get\<close> with \<open>to_str\<close>: the value of a header when it is visible ASCII.\<close>

type_synonym headers = "string \<Rightarrow> string option"

record 'ip network =
  nw_loopback :: "'ip \<Rightarrow> bool"
  nw_parse :: "string \<Rightarrow> 'ip option"
  nw_show :: "'ip \<Rightarrow> string"

definition forwarded_for :: "'ip network \<Rightarrow> headers \<Rightarrow> 'ip option" where
  "forwarded_for nw hs =
     coalesce (Option.bind (hs ''x-forwarded-for'') (\<lambda>v. nw_parse nw (trim (hd (split_char (CHR '','') v)))))
       (Option.bind (hs ''x-real-ip'') (\<lambda>v. nw_parse nw (trim v)))"

definition trusted_proxy :: "'ip network \<Rightarrow> 'ip \<Rightarrow> bool" where
  "trusted_proxy nw peer \<longleftrightarrow> nw_loopback nw peer"

definition client_ip :: "'ip network \<Rightarrow> 'ip \<Rightarrow> headers \<Rightarrow> 'ip" where
  "client_ip nw peer hs =
     (if \<not> trusted_proxy nw peer then peer else case forwarded_for nw hs of Some ip \<Rightarrow> ip | None \<Rightarrow> peer)"

definition is_agent_scoped_route :: "string \<Rightarrow> bool" where
  "is_agent_scoped_route path \<longleftrightarrow> path = ''/api/agent/events'' \<or> path = ''/ws/agent''"

definition authenticated_agent_scope :: "(headers \<Rightarrow> string option) \<Rightarrow> string \<Rightarrow> headers \<Rightarrow> string option" where
  "authenticated_agent_scope agent path hs = (if is_agent_scoped_route path then agent hs else None)"

definition rate_limit_key :: "'ip network \<Rightarrow> (headers \<Rightarrow> string option) \<Rightarrow> string \<Rightarrow> string \<Rightarrow> 'ip \<Rightarrow> headers \<Rightarrow> string" where
  "rate_limit_key nw agent name path peer hs =
     (case authenticated_agent_scope agent path hs of
        None \<Rightarrow> name @ '':'' @ nw_show nw (client_ip nw peer hs)
      | Some server \<Rightarrow> name @ '':'' @ nw_show nw (client_ip nw peer hs) @ '':'' @ server)"

text \<open>The middleware: whether the request goes on to its handler.\<close>

definition rate_limit :: "'ip network \<Rightarrow> (headers \<Rightarrow> string option) \<Rightarrow> string \<Rightarrow> string \<Rightarrow> 'ip \<Rightarrow> headers \<Rightarrow> timestamp
    \<Rightarrow> buckets \<Rightarrow> bool \<times> buckets" where
  "rate_limit nw agent meth path peer hs now bs =
     (case rule_for meth path of
        None \<Rightarrow> (True, bs)
      | Some rule \<Rightarrow>
        check (rate_limit_key nw agent (rr_name rule) path peer hs) (rr_max rule) (rr_window rule) now bs)"

section \<open>Sequences of requests\<close>




















end
