(* ===== verification/Agent_Journal.thy ===== *)
theory Agent_Journal
  imports Activation "HOL-Library.AList"
begin

text \<open>
  \<open>apps/agent/src/journal.rs\<close> and \<open>apps/agent/src/ops/activation.rs\<close>: the agent's side of an activation.
  The agent keeps one journal file per deployment, replaced atomically, and talks to the control plane
  over HTTP; a request or its answer can be lost, and the agent can stop at any point.  When it starts
  again it repeats the commit of every journal that had switched its route.
\<close>

section \<open>Journals\<close>

record deployment_journal =
  dj_version :: int
  dj_deployment_id :: uuid
  dj_job_id :: uuid
  dj_claim_token :: uuid
  dj_phase :: string
  dj_app_id :: "uuid option"
  dj_route_generation :: "int option"
  dj_rolled_back :: bool
  dj_updated_at :: int

definition journal_version :: int where "journal_version = 1"

definition uuid_json :: "world \<Rightarrow> uuid \<Rightarrow> json" where
  "uuid_json w i = JStr (uuid_text w i)"

definition journal_to_json :: "world \<Rightarrow> deployment_journal \<Rightarrow> json" where
  "journal_to_json w j = JObj
     [(''version'', JInt (dj_version j)), (''deployment_id'', uuid_json w (dj_deployment_id j)),
      (''job_id'', uuid_json w (dj_job_id j)), (''claim_token'', uuid_json w (dj_claim_token j)),
      (''phase'', JStr (dj_phase j)),
      (''app_id'', case dj_app_id j of Some i \<Rightarrow> uuid_json w i | None \<Rightarrow> JNull),
      (''route_generation'', enc_opt_int (dj_route_generation j)), (''rolled_back'', JBool (dj_rolled_back j)),
      (''updated_at_unix_ms'', JInt (dj_updated_at j))]"

definition read_uuid :: "world \<Rightarrow> json \<Rightarrow> uuid option" where
  "read_uuid w v = Option.bind (as_str v) (parse_uuid w)"

definition dec_range :: "int \<Rightarrow> int \<Rightarrow> json \<Rightarrow> int option" where
  "dec_range lo hi v = (case v of JInt n \<Rightarrow> if lo \<le> n \<and> n \<le> hi then Some n else None | _ \<Rightarrow> None)"

definition dec_i64 :: "json \<Rightarrow> int option" where
  "dec_i64 v = dec_range (- 9223372036854775808) 9223372036854775807 v"

text \<open>\<open>#[serde(default)]\<close> on \<open>rolled_back\<close>: a missing field is \<open>false\<close>, a present one must be a boolean.\<close>

definition dec_default_bool :: "json \<Rightarrow> string \<Rightarrow> bool option" where
  "dec_default_bool v k = (case json_get v k of None \<Rightarrow> Some False | Some x \<Rightarrow> as_bool x)"

definition journal_from_json :: "world \<Rightarrow> json \<Rightarrow> deployment_journal option" where
  "journal_from_json w v =
     (case (dec_req (dec_range 0 4294967295) v ''version'', dec_req (read_uuid w) v ''deployment_id'',
            dec_req (read_uuid w) v ''job_id'', dec_req (read_uuid w) v ''claim_token'', dec_req as_str v ''phase'',
            dec_opt (read_uuid w) v ''app_id'', dec_opt dec_i64 v ''route_generation'', dec_default_bool v ''rolled_back'',
            dec_req (dec_range 0 340282366920938463463374607431768211455) v ''updated_at_unix_ms'') of
        (Some version, Some i, Some job, Some token, Some phase, Some app, Some g, Some back, Some t) \<Rightarrow>
          Some \<lparr> dj_version = version, dj_deployment_id = i, dj_job_id = job, dj_claim_token = token, dj_phase = phase,
            dj_app_id = app, dj_route_generation = g, dj_rolled_back = back, dj_updated_at = t \<rparr>
      | _ \<Rightarrow> None)"

text \<open>
  The directory: journal files by deployment, the file name being the identifier.  Writing the temporary
  file can fail, and the directory can fail to sync after the rename.
\<close>

type_synonym journals = "(uuid \<times> json) list"

datatype persist_outcome = Persisted | Renamed_Unsynced | Not_Renamed

definition persist :: "world \<Rightarrow> persist_outcome \<Rightarrow> deployment_journal \<Rightarrow> journals \<Rightarrow> bool \<times> journals" where
  "persist w outcome j files =
     (case outcome of
        Not_Renamed \<Rightarrow> (False, files)
      | Renamed_Unsynced \<Rightarrow> (False, AList.update (dj_deployment_id j) (journal_to_json w j) files)
      | Persisted \<Rightarrow> (True, AList.update (dj_deployment_id j) (journal_to_json w j) files))"

definition start_deployment_journal :: "world \<Rightarrow> persist_outcome \<Rightarrow> int \<Rightarrow> uuid \<Rightarrow> uuid \<Rightarrow> uuid \<Rightarrow> uuid option \<Rightarrow> journals
    \<Rightarrow> bool \<times> journals" where
  "start_deployment_journal w outcome now deployment_id job_id claim_token app_id files =
     persist w outcome \<lparr> dj_version = journal_version, dj_deployment_id = deployment_id, dj_job_id = job_id,
       dj_claim_token = claim_token, dj_phase = ''claimed'', dj_app_id = app_id, dj_route_generation = None,
       dj_rolled_back = False, dj_updated_at = now \<rparr> files"

text \<open>Reading a file: missing, unreadable, or read and decoded.\<close>

definition read_journal :: "world \<Rightarrow> bool \<Rightarrow> uuid \<Rightarrow> journals \<Rightarrow> deployment_journal option" where
  "read_journal w readable i files = (if readable then Option.bind (map_of files i) (journal_from_json w) else None)"

definition record_activation_generation :: "world \<Rightarrow> bool \<Rightarrow> persist_outcome \<Rightarrow> int \<Rightarrow> uuid \<Rightarrow> int \<Rightarrow> bool \<Rightarrow> journals
    \<Rightarrow> bool \<times> journals" where
  "record_activation_generation w readable outcome now deployment_id generation rolled_back files =
     (case read_journal w readable deployment_id files of
        None \<Rightarrow> (False, files)
      | Some j \<Rightarrow> persist w outcome (j\<lparr> dj_phase := ''activation_prepared'', dj_route_generation := Some generation,
          dj_rolled_back := rolled_back, dj_updated_at := now \<rparr>) files)"

definition record_deployment_phase :: "world \<Rightarrow> bool \<Rightarrow> persist_outcome \<Rightarrow> int \<Rightarrow> uuid \<Rightarrow> string \<Rightarrow> journals
    \<Rightarrow> bool \<times> journals" where
  "record_deployment_phase w readable outcome now deployment_id phase files =
     (if readable \<and> map_of files deployment_id = None then (True, files)
      else case read_journal w readable deployment_id files of
        None \<Rightarrow> (False, files)
      | Some j \<Rightarrow> persist w outcome (j\<lparr> dj_phase := phase, dj_updated_at := now \<rparr>) files)"

definition finish_deployment_journal :: "bool \<Rightarrow> uuid \<Rightarrow> journals \<Rightarrow> journals" where
  "finish_deployment_journal removable deployment_id files =
     (if removable then AList.delete deployment_id files else files)"

section \<open>Requests to the control plane\<close>

datatype delivery = No_Request | No_Answer | Answered

text \<open>A request that is not delivered does nothing; an answer can be lost after the work is done.\<close>

definition post_request :: "delivery \<Rightarrow> (db \<Rightarrow> 'r response \<times> db) \<Rightarrow> db \<Rightarrow> 'r response option \<times> db" where
  "post_request del handler db =
     (case del of
        No_Request \<Rightarrow> (None, db)
      | No_Answer \<Rightarrow> (None, snd (handler db))
      | Answered \<Rightarrow> (case handler db of (r, db') \<Rightarrow> (Some r, db')))"

definition is_success :: "'r response \<Rightarrow> bool" where
  "is_success r = (case r of Reply _ \<Rightarrow> True | Code c \<Rightarrow> c = NO_CONTENT \<or> c = ACCEPTED
     | Text c _ \<Rightarrow> c = NO_CONTENT \<or> c = ACCEPTED)"

text \<open>
  One call of the agent: the world the API handles the request in, the server the agent is authenticated
  as, what happens to the request, what happens to the files.
\<close>

record agent_call =
  ac_world :: world
  ac_auth :: "uuid option"
  ac_delivery :: delivery
  ac_readable :: bool
  ac_before :: persist_outcome
  ac_after :: persist_outcome
  ac_removable :: bool
  ac_now :: int

definition payload_uuid :: "world \<Rightarrow> json \<Rightarrow> string \<Rightarrow> uuid option" where
  "payload_uuid w payload k = Option.bind (get_str payload k) (parse_uuid w)"

definition prepare_candidate_activation :: "agent_call \<Rightarrow> json \<Rightarrow> uuid \<Rightarrow> candidate_runtime \<Rightarrow> journals \<Rightarrow> db
    \<Rightarrow> int option \<times> journals \<times> db" where
  "prepare_candidate_activation c payload deployment_id candidate files db =
     (let w = ac_world c in
      case (payload_uuid w payload ''job_id'', payload_uuid w payload ''claim_token'') of
        (Some job_id, Some claim_token) \<Rightarrow>
          (case post_request (ac_delivery c) (prepare_activation w (ac_auth c) deployment_id
              \<lparr> pr_job_id = job_id, pr_claim_token = claim_token,
                pr_expected_current_deployment_id = payload_uuid w payload ''expected_current_deployment_id'',
                pr_candidate = candidate \<rparr>) db of
             (Some (Reply generation), db') \<Rightarrow>
               (case record_activation_generation w (ac_readable c) (ac_after c) (ac_now c) deployment_id generation
                   (get_str payload ''type'' = Some ''rollback'') files of
                  (ok, files') \<Rightarrow> (if ok then Some generation else None, files', db'))
           | (_, db') \<Rightarrow> (None, files, db'))
      | _ \<Rightarrow> (None, files, db))"

definition commit_candidate_activation :: "agent_call \<Rightarrow> json \<Rightarrow> uuid \<Rightarrow> int \<Rightarrow> string option \<Rightarrow> json option \<Rightarrow> bool
    \<Rightarrow> journals \<Rightarrow> db \<Rightarrow> bool \<times> journals \<times> db" where
  "commit_candidate_activation c payload deployment_id generation local_url metadata rolled_back files db =
     (let w = ac_world c in
      case (payload_uuid w payload ''job_id'', payload_uuid w payload ''claim_token'') of
        (Some job_id, Some claim_token) \<Rightarrow>
          (case record_deployment_phase w (ac_readable c) (ac_before c) (ac_now c) deployment_id ''route_switched'' files of
             (False, files1) \<Rightarrow> (False, files1, db)
           | (True, files1) \<Rightarrow>
             (case post_request (ac_delivery c) (commit_activation w (ac_auth c) deployment_id
                 \<lparr> cm_job_id = job_id, cm_claim_token = claim_token, cm_route_generation = generation,
                   cm_local_url = local_url, cm_runtime_metadata = metadata, cm_rolled_back = rolled_back \<rparr>) db of
                (Some r, db') \<Rightarrow>
                  if is_success r
                  then (case record_deployment_phase w (ac_readable c) (ac_after c) (ac_now c) deployment_id ''committed'' files1 of
                      (ok, files2) \<Rightarrow> (ok, files2, db'))
                  else (False, files1, db')
              | (None, db') \<Rightarrow> (False, files1, db')))
      | _ \<Rightarrow> (False, files, db))"

section \<open>Starting again\<close>

definition switched :: "string \<Rightarrow> bool" where
  "switched phase \<longleftrightarrow> phase = ''route_switched'' \<or> phase = ''committed''"

definition recover_journal :: "agent_call \<Rightarrow> json \<Rightarrow> journals \<Rightarrow> db \<Rightarrow> journals \<times> db" where
  "recover_journal c file files db =
     (let w = ac_world c in
      case (if ac_readable c then journal_from_json w file else None) of
        None \<Rightarrow> (files, db)
      | Some j \<Rightarrow>
        (case dj_route_generation j of
           None \<Rightarrow> (files, db)
         | Some generation \<Rightarrow>
           if \<not> switched (dj_phase j) then (files, db)
           else case post_request (ac_delivery c) (commit_activation w (ac_auth c) (dj_deployment_id j)
               \<lparr> cm_job_id = dj_job_id j, cm_claim_token = dj_claim_token j, cm_route_generation = generation,
                 cm_local_url = None, cm_runtime_metadata = None, cm_rolled_back = dj_rolled_back j \<rparr>) db of
             (Some r, db') \<Rightarrow> (if is_success r then finish_deployment_journal (ac_removable c) (dj_deployment_id j) files else files, db')
           | (None, db') \<Rightarrow> (files, db')))"

fun recover_each :: "(nat \<Rightarrow> agent_call) \<Rightarrow> nat \<Rightarrow> journals \<Rightarrow> journals \<Rightarrow> db \<Rightarrow> journals \<times> db" where
  "recover_each cs n [] files db = (files, db)"
| "recover_each cs n ((i, file) # entries) files db =
     (case recover_journal (cs n) file files db of (files', db') \<Rightarrow> recover_each cs (Suc n) entries files' db')"

definition log_recoverable_journals :: "(nat \<Rightarrow> agent_call) \<Rightarrow> journals \<Rightarrow> db \<Rightarrow> journals \<times> db" where
  "log_recoverable_journals cs files db = recover_each cs 0 files files db"

section \<open>Journals read back\<close>

definition uuid_codec :: "world \<Rightarrow> world \<Rightarrow> bool" where
  "uuid_codec w w' \<longleftrightarrow> (\<forall>i. parse_uuid w' (uuid_text w i) = Some i)"

definition journal_range :: "deployment_journal \<Rightarrow> bool" where
  "journal_range j \<longleftrightarrow> 0 \<le> dj_version j \<and> dj_version j \<le> 4294967295
     \<and> (\<forall>g. dj_route_generation j = Some g \<longrightarrow> - 9223372036854775808 \<le> g \<and> g \<le> 9223372036854775807)
     \<and> 0 \<le> dj_updated_at j \<and> dj_updated_at j \<le> 340282366920938463463374607431768211455"

lemma read_uuid_json: "uuid_codec w w' \<Longrightarrow> read_uuid w' (uuid_json w i) = Some i"
  by (simp add: read_uuid_def uuid_json_def uuid_codec_def)

lemma journal_decodes:
  assumes "uuid_codec w w'" "journal_range j"
  shows "journal_from_json w' (journal_to_json w j) = Some j"
proof -
  let ?v = "journal_to_json w j"
  have "dec_req (dec_range 0 4294967295) ?v ''version'' = Some (dj_version j)"
    "dec_req (dec_range 0 340282366920938463463374607431768211455) ?v ''updated_at_unix_ms'' = Some (dj_updated_at j)"
    "dec_req as_str ?v ''phase'' = Some (dj_phase j)" "dec_default_bool ?v ''rolled_back'' = Some (dj_rolled_back j)"
    using assms(2) by (simp_all add: dec_req_def dec_range_def journal_to_json_def json_get_def journal_range_def
      dec_default_bool_def)
  moreover have "dec_req (read_uuid w') ?v ''deployment_id'' = Some (dj_deployment_id j)"
    "dec_req (read_uuid w') ?v ''job_id'' = Some (dj_job_id j)" "dec_req (read_uuid w') ?v ''claim_token'' = Some (dj_claim_token j)"
    using read_uuid_json [OF assms(1)] by (simp_all add: dec_req_def journal_to_json_def json_get_def)
  moreover have "dec_opt (read_uuid w') ?v ''app_id'' = Some (dj_app_id j)"
    using read_uuid_json [OF assms(1)]
    by (cases "dj_app_id j") (simp_all add: dec_opt_def journal_to_json_def json_get_def uuid_json_def)
  moreover have "dec_opt dec_i64 ?v ''route_generation'' = Some (dj_route_generation j)"
    using assms(2) by (cases "dj_route_generation j")
      (simp_all add: dec_opt_def journal_to_json_def json_get_def enc_opt_int_def dec_i64_def dec_range_def journal_range_def)
  ultimately show ?thesis by (simp add: journal_from_json_def)
qed

text \<open>
  A journal survives the disk.  What the agent wrote for a deployment is what it reads when it
  starts again, in every field - the generation and the claim that its commit will present included.
\<close>

theorem journal_roundtrip:
  assumes "uuid_codec w w'" "journal_range j" "persist w outcome j files = (True, files')"
  shows "read_journal w' True (dj_deployment_id j) files' = Some j"
  using assms journal_decodes [OF assms(1,2)]
  by (cases outcome) (auto simp: persist_def read_journal_def AList.update_conv')

section \<open>A crash during the commit\<close>

text \<open>Progress of the phase leaves everything else of the journal alone.\<close>

definition same_claim :: "deployment_journal \<Rightarrow> deployment_journal \<Rightarrow> bool" where
  "same_claim j j' \<longleftrightarrow> dj_deployment_id j' = dj_deployment_id j \<and> dj_job_id j' = dj_job_id j
     \<and> dj_claim_token j' = dj_claim_token j \<and> dj_route_generation j' = dj_route_generation j
     \<and> dj_rolled_back j' = dj_rolled_back j \<and> journal_range j'"

lemma phase_recorded:
  assumes "uuid_codec w w" "journal_range j" "dj_deployment_id j = k" "0 \<le> now" "now \<le> 340282366920938463463374607431768211455"
    "record_deployment_phase w True outcome now k phase [(k, journal_to_json w j)] = (ok, files)"
  shows "files = [(k, journal_to_json w j)] \<and> \<not> ok
    \<or> (\<exists>j'. files = [(k, journal_to_json w j')] \<and> same_claim j j' \<and> dj_phase j' = phase)"
proof -
  let ?j = "j\<lparr> dj_phase := phase, dj_updated_at := now \<rparr>"
  have "persist w outcome ?j [(k, journal_to_json w j)] = (ok, files)"
    using assms(6) journal_decodes [OF assms(1,2)] by (simp add: record_deployment_phase_def read_journal_def)
  moreover have "same_claim j ?j" "dj_phase ?j = phase"
    using assms(2,4,5) by (simp_all add: same_claim_def journal_range_def)
  ultimately show ?thesis using assms(3) by (cases outcome) (auto simp: persist_def)
qed

lemma post_commit_cases:
  assumes "post_request del (commit_activation w auth k request) db = (answer, db')"
  shows "db' = db \<or> commit_activation w auth k request db = (Code NO_CONTENT, db')"
proof (cases "commit_activation w auth k request db")
  case (Pair r db0)
  then have "db0 = db \<or> r = Code NO_CONTENT" by (cases rule: commit_activation_elim) auto
  with Pair assms show ?thesis by (cases del) (auto simp: post_request_def)
qed

lemma commit_call_effect:
  assumes "commit_candidate_activation c payload k g local_url metadata back [(k, journal_to_json (ac_world c) j)] db
      = (ok, files, db')"
    "uuid_codec (ac_world c) (ac_world c)" "journal_range j" "dj_deployment_id j = k"
    "ac_readable c" "ac_before c = Persisted" "0 \<le> ac_now c" "ac_now c \<le> 340282366920938463463374607431768211455"
    "payload_uuid (ac_world c) payload ''job_id'' = Some (dj_job_id j)"
    "payload_uuid (ac_world c) payload ''claim_token'' = Some (dj_claim_token j)"
  shows "\<exists>j' url meta. files = [(k, journal_to_json (ac_world c) j')] \<and> same_claim j j' \<and> switched (dj_phase j')
    \<and> (db' = db \<or> commit_activation (ac_world c) (ac_auth c) k \<lparr> cm_job_id = dj_job_id j, cm_claim_token = dj_claim_token j,
         cm_route_generation = g, cm_local_url = url, cm_runtime_metadata = meta, cm_rolled_back = back \<rparr> db = (Code NO_CONTENT, db'))"
proof -
  let ?w = "ac_world c"
  let ?r = "\<lparr> cm_job_id = dj_job_id j, cm_claim_token = dj_claim_token j, cm_route_generation = g,
    cm_local_url = local_url, cm_runtime_metadata = metadata, cm_rolled_back = back \<rparr>"
  let ?j1 = "j\<lparr> dj_phase := ''route_switched'', dj_updated_at := ac_now c \<rparr>"
  have first: "record_deployment_phase ?w (ac_readable c) (ac_before c) (ac_now c) k ''route_switched'' [(k, journal_to_json ?w j)]
      = (True, [(k, journal_to_json ?w ?j1)])"
    using assms(4-6) journal_decodes [OF assms(2,3)] by (simp add: record_deployment_phase_def read_journal_def persist_def)
  have claim: "same_claim j ?j1" "journal_range ?j1"
    using assms(3,7,8) by (simp_all add: same_claim_def journal_range_def)
  obtain answer db1 where post: "post_request (ac_delivery c) (commit_activation ?w (ac_auth c) k ?r) db = (answer, db1)" by fastforce
  note cases = post_commit_cases [OF post]
  have run: "(ok, files, db') = (case answer of
      Some r \<Rightarrow> if is_success r then (case record_deployment_phase ?w (ac_readable c) (ac_after c) (ac_now c) k ''committed''
            [(k, journal_to_json ?w ?j1)] of (ok, files2) \<Rightarrow> (ok, files2, db1))
          else (False, [(k, journal_to_json ?w ?j1)], db1)
      | None \<Rightarrow> (False, [(k, journal_to_json ?w ?j1)], db1))"
    using assms(1,9,10) first post by (simp add: commit_candidate_activation_def Let_def split: option.splits)
  then have db': "db' = db1" by (auto split: option.splits if_splits prod.splits)
  have "\<exists>j'. files = [(k, journal_to_json ?w j')] \<and> same_claim j j' \<and> switched (dj_phase j')"
  proof (cases "\<exists>r. answer = Some r \<and> is_success r")
    case False
    then have "files = [(k, journal_to_json ?w ?j1)]" using run by (auto split: option.splits if_splits)
    moreover have "switched (dj_phase ?j1)" by (simp add: switched_def)
    ultimately show ?thesis using claim(1) by blast
  next
    case True
    obtain ok2 files2 where second: "record_deployment_phase ?w True (ac_after c) (ac_now c) k ''committed''
        [(k, journal_to_json ?w ?j1)] = (ok2, files2)" by fastforce
    then have "files = files2" using run True assms(5) by (auto split: option.splits if_splits)
    with phase_recorded [OF assms(2) claim(2) _ assms(7,8) second] claim assms(4) show ?thesis
      by (auto simp: switched_def same_claim_def)
  qed
  then show ?thesis using cases db' by blast
qed

text \<open>
  C6: an activation survives a crash of the agent, a deployment and a rollback alike.  Start from an
  accepted preparation of an active deployment whose service rows fit (as for the commit above) and
  from the readable journal of it as the only one; the agent calls the commit, whose first step
  persists the switched route in the journal.  Let the commit request then be lost, answered or half
  answered, let the second journal write fail, and let the agent stop: when it next starts, before
  anything else has changed the database, reads and can remove the journal, reaches the control plane
  before the lease has ended and the database works, the deployment is the current one of its app with
  the final status of its kind, and the journal is gone.
\<close>

theorem activation_survives_crash:
  assumes "prepare_activation w auth k request db = (Reply g, db1)" "wf_keys db"
    "\<And>d. find_deployment k db = Some d \<Longrightarrow> active_status (d_status d)"
    "in_i32 (cr_published_port (pr_candidate request))" "list_all service_in_range (cr_services (pr_candidate request))"
    "distinct (reported_names (pr_candidate request))"
    "dj_deployment_id j = k" "dj_job_id j = pr_job_id request" "dj_claim_token j = pr_claim_token request"
    "dj_route_generation j = Some g"
    "\<And>r. cm_rolled_back r = dj_rolled_back j \<Longrightarrow>
       copies_fit (ac_world (cs 0)) k r (pr_candidate request) (deployment_services db)" "journal_range j"
    "ac_auth c = auth" "uuid_codec (ac_world c) (ac_world c)" "ac_readable c" "ac_before c = Persisted"
    "0 \<le> ac_now c" "ac_now c \<le> 340282366920938463463374607431768211455"
    "payload_uuid (ac_world c) payload ''job_id'' = Some (dj_job_id j)"
    "payload_uuid (ac_world c) payload ''claim_token'' = Some (dj_claim_token j)"
    "commit_candidate_activation c payload k g local_url metadata (dj_rolled_back j) [(k, journal_to_json (ac_world c) j)] db1 = (ok, files, db2)"
    "ac_auth (cs 0) = auth" "uuid_codec (ac_world c) (ac_world (cs 0))" "ac_readable (cs 0)" "ac_removable (cs 0)"
    "ac_delivery (cs 0) = Answered" "\<And>n. \<not> fault (ac_world (cs 0)) n"
    "\<And>p. find_job (pr_job_id request) db = Some p \<Longrightarrow> ts_gt (j_lease_expires_at p) (clock (ac_world (cs 0)) 5)
       \<and> ts_gt (j_lease_expires_at p) (clock (ac_world (cs 0)) 6)"
    "log_recoverable_journals cs files db2 = (files', db3)"
  shows "files' = [] \<and> (\<exists>d a. find_deployment k db3 = Some d \<and> d_status d = (if dj_rolled_back j then D_RolledBack else D_Success)
    \<and> find_app (d_app_id d) db3 = Some a \<and> a_current_deployment_id a = Some k)"
proof -
  let ?w = "ac_world (cs 0)"
  have keys: "wf_keys db1"
    using assms(1) by (cases rule: prepare_activation_elim) (use assms(2) in \<open>simp_all add: prepare_keys\<close>)
  obtain j' url meta where j': "files = [(k, journal_to_json (ac_world c) j')]" "same_claim j j'" "switched (dj_phase j')"
    "db2 = db1 \<or> commit_activation (ac_world c) auth k \<lparr> cm_job_id = dj_job_id j, cm_claim_token = dj_claim_token j,
       cm_route_generation = g, cm_local_url = url, cm_runtime_metadata = meta, cm_rolled_back = dj_rolled_back j \<rparr> db1 = (Code NO_CONTENT, db2)"
    using commit_call_effect [OF assms(21,14,12,7,15-20)] assms(13) by blast
  note claim = j'(2) [unfolded same_claim_def]
  let ?r = "\<lparr> cm_job_id = dj_job_id j', cm_claim_token = dj_claim_token j', cm_route_generation = g,
    cm_local_url = None, cm_runtime_metadata = None, cm_rolled_back = dj_rolled_back j \<rparr>"
  have committed: "\<exists>db0 s d a p. commit_activation ?w auth k ?r db2 = (Code NO_CONTENT, db0)
      \<and> activation_row (cm_job_id ?r) k s db0 = Some (d, a, p) \<and> commit_replay k ?r d a p"
  proof (cases "db2 = db1")
    case True
    have "\<exists>db'' d a. commit_activation ?w auth k ?r db1 = (Code NO_CONTENT, db'') \<and> find_deployment k db'' = Some d \<and> d_status d = (if dj_rolled_back j then D_RolledBack else D_Success)
        \<and> find_app (d_app_id d) db'' = Some a \<and> a_current_deployment_id a = Some k \<and> a_pending_deployment_id a = None"
      using prepared_commit [OF assms(1-3,27,28,4-6), of ?r] claim assms(8,9,11) by simp
    with True show ?thesis using committed_row [OF _ keys, of ?w auth k ?r] by blast
  next
    case False
    with j'(4) have c: "commit_activation (ac_world c) auth k \<lparr> cm_job_id = dj_job_id j, cm_claim_token = dj_claim_token j,
       cm_route_generation = g, cm_local_url = url, cm_runtime_metadata = meta, cm_rolled_back = dj_rolled_back j \<rparr> db1 = (Code NO_CONTENT, db2)" by blast
    have "commit_activation ?w auth k ?r db2 = (Code NO_CONTENT, db2)"
      by (rule commit_replayed [OF c keys assms(27)]) (use claim in simp_all)
    moreover obtain s d a p where "activation_row (cm_job_id ?r) k s db2 = Some (d, a, p)" "commit_replay k ?r d a p"
      using committed_row [OF c keys] claim by (auto simp: commit_replay_def terminal_status_def)
    ultimately show ?thesis by blast
  qed
  then obtain db0 s d a p where db0: "commit_activation ?w auth k ?r db2 = (Code NO_CONTENT, db0)"
    "activation_row (cm_job_id ?r) k s db0 = Some (d, a, p)" "commit_replay k ?r d a p" by blast
  have "journal_from_json ?w (journal_to_json (ac_world c) j') = Some j'"
    using journal_decodes assms(23) claim by blast
  then have "files' = [] \<and> db3 = db0"
    using assms(29) db0(1) claim assms(7,10,22,24-26) j'(1,3)
    by (simp add: log_recoverable_journals_def recover_journal_def post_request_def is_success_def finish_deployment_journal_def)
  moreover have "find_deployment k db0 = Some d" "find_app (d_app_id d) db0 = Some a"
    using activation_rowD [OF db0(2)] by auto
  ultimately show ?thesis using db0(3) by (simp add: commit_replay_def terminal_status_def)
qed

end
