(* ===== verification/Health_Targets.thy ===== *)
theory Health_Targets
  imports Store Contract_Names
begin

text \<open>
  What the agent has to watch.  \<open>apps/api/src/agent/routes.rs\<close> (\<open>health_targets\<close>) and
  \<open>agent/health_target_payload.rs\<close> describe the current runtime of every app of a server;
  \<open>apps/agent/src/ops/health.rs\<close> reads the description.  The rows of \<open>deployment_services\<close> stand in the
  order of their identifiers and those of \<open>apps\<close> in the order of their creation.
\<close>

section \<open>Describing a target\<close>

definition json_items :: "json option \<Rightarrow> json list" where
  "json_items v = (case Option.bind v as_array of Some xs \<Rightarrow> xs | None \<Rightarrow> [])"

definition receipt_services :: "json \<Rightarrow> json option" where
  "receipt_services metadata = json_pointer metadata [''inferenceReceipt'', ''services'']"

definition primary_service :: "deployment_row \<Rightarrow> db \<Rightarrow> service_row option" where
  "primary_service d db = find (\<lambda>v. v_deployment_id v = d_id d \<and> v_app_id v = d_app_id d
     \<and> v_container_name v \<noteq> None \<and> v_container_name v = d_container_name d \<and> v_role v = ''web'') (deployment_services db)"

definition backend_entries :: "json \<Rightarrow> json list" where
  "backend_entries metadata = filter (\<lambda>s. json_text s ''role'' = Some ''backend'') (json_items (receipt_services metadata))"

definition backend_service_name :: "json \<Rightarrow> string option" where
  "backend_service_name metadata = (case backend_entries metadata of [s] \<Rightarrow> json_text s ''name'' | _ \<Rightarrow> None)"

definition backend_service :: "deployment_row \<Rightarrow> db \<Rightarrow> service_row option" where
  "backend_service d db = Option.bind (backend_service_name (d_runtime_metadata d)) (\<lambda>name.
     find (\<lambda>v. v_deployment_id v = d_id d \<and> v_app_id v = d_app_id d \<and> v_service_name v = name \<and> v_role v = ''web'')
       (deployment_services db))"

datatype route_shape = Shape_Single | Shape_Split | Shape_Invalid

definition valid_service_text :: "string option \<Rightarrow> bool" where
  "valid_service_text name = (case name of Some n \<Rightarrow> n \<noteq> [] \<and> length n \<le> 64 | None \<Rightarrow> False)"

definition valid_inferred_service :: "json \<Rightarrow> bool" where
  "valid_inferred_service service \<longleftrightarrow> valid_service_text (get_str service ''name'')
     \<and> (case get_str service ''role'' of Some role \<Rightarrow> role \<in> {''frontend'', ''backend'', ''web''} | None \<Rightarrow> False)"

definition route_shape :: "json \<Rightarrow> route_shape" where
  "route_shape metadata =
     (let backend_count = length (backend_entries metadata); named = valid_service_text (backend_service_name metadata) in
      if get_str metadata ''runtime'' \<noteq> Some ''generated_topology''
      then (if backend_count = 0 then Shape_Single else if backend_count = 1 \<and> named then Shape_Split else Shape_Invalid)
      else case Option.bind (receipt_services metadata) as_array of
        None \<Rightarrow> Shape_Invalid
      | Some services \<Rightarrow>
        if services = [] \<or> \<not> list_all valid_inferred_service services then Shape_Invalid
        else let kind = Option.bind (json_pointer metadata [''routing'', ''kind'']) as_str in
          if kind = Some ''single'' \<and> backend_count = 0 then Shape_Single
          else if kind = Some ''split'' \<and> backend_count = 1 \<and> named then Shape_Split
          else Shape_Invalid)"

definition valid_backend_path_prefix :: "string \<Rightarrow> bool" where
  "valid_backend_path_prefix value \<longleftrightarrow> starts_with value ''/'' \<and> value \<noteq> ''/'' \<and> length value \<le> 128
     \<and> \<not> ends_with value ''/'' \<and> \<not> str_contains value ''..'' \<and> CHR ''*'' \<notin> set value \<and> CHR ''?'' \<notin> set value
     \<and> CHR ''#'' \<notin> set value \<and> \<not> has_control value \<and> CHR 0x5C \<notin> set value"

fun collect_prefixes :: "string list \<Rightarrow> json list \<Rightarrow> string list option" where
  "collect_prefixes seen [] = Some seen"
| "collect_prefixes seen (v # vs) =
     (case as_str v of
        None \<Rightarrow> None
      | Some p \<Rightarrow> if \<not> valid_backend_path_prefix p \<or> p \<in> set seen then None else collect_prefixes (seen @ [p]) vs)"

definition valid_backend_path_prefixes :: "json \<Rightarrow> string list option" where
  "valid_backend_path_prefixes v =
     (case as_array v of None \<Rightarrow> None | Some vs \<Rightarrow> if 16 < length vs then None else collect_prefixes [] vs)"

definition port_range :: "int \<Rightarrow> bool" where
  "port_range p \<longleftrightarrow> 1 \<le> p \<and> p \<le> 65535"

definition split_route_payload :: "deployment_row \<Rightarrow> db \<Rightarrow> json option" where
  "split_route_payload d db =
     (case (Option.bind (backend_service d db) v_container_name, Option.bind (backend_service d db) v_target_port,
            Option.bind (backend_service d db) v_published_port, backend_service_name (d_runtime_metadata d)) of
        (Some container, Some target_port, Some published_port, Some name) \<Rightarrow>
          if \<not> valid_container_name container \<or> \<not> port_range target_port \<or> \<not> port_range published_port
            \<or> name = [] \<or> 64 < length name then None
          else map_option (\<lambda>path_prefixes. JObj
              [(''backend'', JObj [(''serviceName'', JStr name), (''containerName'', JStr container),
                  (''targetPort'', JInt target_port), (''publishedPort'', JInt published_port)]),
               (''backendPathPrefixes'', JArr (map JStr path_prefixes))])
            (Option.bind (coalesce (json_pointer (d_runtime_metadata d) [''inferenceReceipt'', ''routing'', ''backendPathPrefixes''])
                (json_pointer (d_runtime_metadata d) [''routing'', ''backendPathPrefixes''])) valid_backend_path_prefixes)
      | _ \<Rightarrow> None)"

definition inferred_probe :: "deployment_row \<Rightarrow> db \<Rightarrow> json option" where
  "inferred_probe d db = Option.bind (primary_service d db) (\<lambda>v.
     Option.bind (find (\<lambda>s. get_str s ''name'' = Some (v_service_name v)) (json_items (receipt_services (d_runtime_metadata d))))
       (\<lambda>s. json_get s ''healthProbe''))"

definition probe_kind :: "deployment_row \<Rightarrow> db \<Rightarrow> string" where
  "probe_kind d db = (case Option.bind (inferred_probe d db) (\<lambda>p. get_str p ''kind'') of Some k \<Rightarrow> k | None \<Rightarrow> ''http'')"

definition target_health_path :: "app_row \<Rightarrow> deployment_row \<Rightarrow> db \<Rightarrow> string" where
  "target_health_path a d db = (case Option.bind (inferred_probe d db) (\<lambda>p. get_str p ''path'') of Some p \<Rightarrow> p | None \<Rightarrow> a_health_path a)"

definition target_port :: "app_row \<Rightarrow> deployment_row \<Rightarrow> db \<Rightarrow> int" where
  "target_port a d db = (case Option.bind (primary_service d db) v_target_port of Some p \<Rightarrow> p | None \<Rightarrow> a_container_port a)"

text \<open>The rows the query selects.\<close>

definition watched :: "uuid \<Rightarrow> app_row \<Rightarrow> deployment_row \<Rightarrow> bool" where
  "watched server_id a d \<longleftrightarrow> a_current_deployment_id a = Some (d_id d) \<and> d_app_id d = a_id a
     \<and> a_server_id a = server_id \<and> d_server_id d = server_id \<and> (d_status d = D_Success \<or> d_status d = D_RolledBack)
     \<and> d_container_name d \<noteq> None \<and> d_published_port d \<noteq> None \<and> a_suspended_at a = None \<and> a_pending_deployment_id a = None"

definition target_payload :: "world \<Rightarrow> db \<Rightarrow> app_row \<Rightarrow> deployment_row \<Rightarrow> json" where
  "target_payload w db a d =
     JObj ([(''appId'', JStr (uuid_text w (a_id a))), (''deploymentId'', JStr (uuid_text w (d_id d))),
        (''containerName'', JStr (the (d_container_name d))), (''containerPort'', JInt (target_port a d db)),
        (''publishedPort'', JInt (the (d_published_port d))), (''healthPath'', JStr (target_health_path a d db)),
        (''probeKind'', JStr (probe_kind d db)),
        (''serviceName'', json_opt_str (map_option v_service_name (primary_service d db))),
        (''domain'', JStr (a_domain a)), (''routeKey'', JStr (''app-'' @ uuid_text w (a_id a))),
        (''routeGeneration'', JInt (a_route_generation a))]
      @ (case route_shape (d_runtime_metadata d) of
           Shape_Single \<Rightarrow> []
         | Shape_Split \<Rightarrow> [(''splitRoute'', case split_route_payload d db of Some v \<Rightarrow> v | None \<Rightarrow> JNull)]
         | Shape_Invalid \<Rightarrow> [(''splitRoute'', JNull)]))"

definition health_targets :: "world \<Rightarrow> uuid option \<Rightarrow> db \<Rightarrow> json list response" where
  "health_targets w auth db =
     (case auth of
        None \<Rightarrow> Code UNAUTHORIZED
      | Some server_id \<Rightarrow>
        if fault w 0 then Code INTERNAL_SERVER_ERROR
        else Reply (concat (map (\<lambda>a. map (target_payload w db a) (filter (watched server_id a) (deployments db))) (apps db))))"

section \<open>Reading a target\<close>

record split_route =
  sp_container_name :: string
  sp_container_port :: int
  sp_published_port :: int
  sp_path_prefixes :: "string list"

record health_target =
  tg_app_id :: uuid
  tg_deployment_id :: uuid
  tg_container_name :: string
  tg_container_port :: int
  tg_published_port :: int
  tg_health_path :: string
  tg_tcp_probe :: bool
  tg_domain :: "string option"
  tg_route_key :: "string option"
  tg_route_generation :: "int option"
  tg_split_route :: "split_route option"

definition either_key :: "json \<Rightarrow> string \<Rightarrow> string \<Rightarrow> json option" where
  "either_key v camel snake = coalesce (json_get v camel) (json_get v snake)"

definition bounded_port :: "json \<Rightarrow> string \<Rightarrow> string \<Rightarrow> int option" where
  "bounded_port v camel snake = Option.bind (either_key v camel snake) (\<lambda>x.
     Option.bind (as_i64 x) (\<lambda>p. if port_range p then Some p else None))"

definition clean_route_key :: "string \<Rightarrow> string option" where
  "clean_route_key value = (let trimmed = trim value in if trimmed = [] \<or> app_slug trimmed \<noteq> trimmed then None else Some trimmed)"

text \<open>The agent has its own copy of the checks on path prefixes.\<close>

definition agent_backend_path_prefix :: "string \<Rightarrow> bool" where
  "agent_backend_path_prefix value \<longleftrightarrow> starts_with value ''/'' \<and> value \<noteq> ''/'' \<and> length value \<le> 128
     \<and> \<not> ends_with value ''/'' \<and> \<not> str_contains value ''..'' \<and> CHR ''*'' \<notin> set value \<and> CHR ''?'' \<notin> set value
     \<and> CHR ''#'' \<notin> set value \<and> \<not> has_control value \<and> CHR 0x5C \<notin> set value"

fun parse_prefix_items :: "string list \<Rightarrow> json list \<Rightarrow> string list option" where
  "parse_prefix_items seen [] = Some seen"
| "parse_prefix_items seen (v # vs) =
     (case as_str v of
        None \<Rightarrow> None
      | Some p \<Rightarrow> if \<not> agent_backend_path_prefix p \<or> p \<in> set seen then None else parse_prefix_items (seen @ [p]) vs)"

definition parse_backend_path_prefixes :: "json \<Rightarrow> string list option" where
  "parse_backend_path_prefixes v =
     (case as_array v of None \<Rightarrow> None | Some vs \<Rightarrow> if 16 < length vs then None else parse_prefix_items [] vs)"

definition parse_split_route :: "json \<Rightarrow> split_route option" where
  "parse_split_route v =
     Option.bind (json_get v ''backend'') (\<lambda>backend.
     Option.bind (Option.bind (either_key backend ''containerName'' ''container_name'') as_str) (\<lambda>container.
     if \<not> valid_container_name container then None
     else Option.bind (bounded_port backend ''targetPort'' ''target_port'') (\<lambda>container_port.
     Option.bind (bounded_port backend ''publishedPort'' ''published_port'') (\<lambda>published_port.
     Option.bind (Option.bind (either_key v ''backendPathPrefixes'' ''backend_path_prefixes'') parse_backend_path_prefixes) (\<lambda>path_prefixes.
       Some \<lparr> sp_container_name = container, sp_container_port = container_port, sp_published_port = published_port,
         sp_path_prefixes = path_prefixes \<rparr>)))))"

definition split_route_field :: "json \<Rightarrow> split_route option option" where
  "split_route_field v = (case either_key v ''splitRoute'' ''split_route'' of
     None \<Rightarrow> Some None | Some x \<Rightarrow> map_option Some (parse_split_route x))"

definition uuid_field :: "world \<Rightarrow> json \<Rightarrow> string \<Rightarrow> string \<Rightarrow> uuid option" where
  "uuid_field w v camel snake = Option.bind (Option.bind (either_key v camel snake) as_str) (parse_uuid w)"

definition health_target_from_payload :: "world \<Rightarrow> json \<Rightarrow> health_target option" where
  "health_target_from_payload w v =
     (case (uuid_field w v ''appId'' ''app_id'', uuid_field w v ''deploymentId'' ''deployment_id'',
            Option.bind (either_key v ''containerName'' ''container_name'') as_str,
            bounded_port v ''publishedPort'' ''published_port'', split_route_field v) of
        (Some app_id, Some deployment_id, Some container_name, Some published_port, Some split) \<Rightarrow>
          let container_port = (case bounded_port v ''containerPort'' ''container_port'' of Some p \<Rightarrow> p | None \<Rightarrow> published_port);
              health_path = (case Option.bind (either_key v ''healthPath'' ''health_path'') as_str of Some p \<Rightarrow> p | None \<Rightarrow> ''/'');
              domain = Option.bind (get_str v ''domain'') (\<lambda>d. if valid_domain d then Some d else None);
              route_key = Option.bind (Option.bind (either_key v ''routeKey'' ''route_key'') as_str) clean_route_key;
              route_generation = Option.bind (Option.bind (either_key v ''routeGeneration'' ''route_generation'') as_i64)
                (\<lambda>g. if 0 \<le> g then Some g else None) in
          if \<not> valid_container_name container_name \<or> \<not> valid_health_path health_path
            \<or> split \<noteq> None \<and> (domain = None \<or> route_key = None \<or> route_generation = None) then None
          else Some \<lparr> tg_app_id = app_id, tg_deployment_id = deployment_id, tg_container_name = container_name,
            tg_container_port = container_port, tg_published_port = published_port, tg_health_path = health_path,
            tg_tcp_probe = (Option.bind (either_key v ''probeKind'' ''probe_kind'') as_str = Some ''tcp''),
            tg_domain = domain, tg_route_key = route_key, tg_route_generation = route_generation, tg_split_route = split \<rparr>
      | _ \<Rightarrow> None)"

section \<open>Both sides together\<close>

definition watchable :: "world \<Rightarrow> db \<Rightarrow> app_row \<Rightarrow> deployment_row \<Rightarrow> bool" where
  "watchable w db a d \<longleftrightarrow> (\<exists>c p. d_container_name d = Some c \<and> valid_container_name c \<and> d_published_port d = Some p \<and> port_range p)
     \<and> port_range (target_port a d db) \<and> valid_health_path (target_health_path a d db) \<and> valid_domain (a_domain a)
     \<and> 0 \<le> a_route_generation a \<and> a_route_generation a \<le> 9223372036854775807 \<and> well_formed_slug (''app-'' @ uuid_text w (a_id a))"

definition single_target :: "world \<Rightarrow> db \<Rightarrow> app_row \<Rightarrow> deployment_row \<Rightarrow> health_target" where
  "single_target w db a d = \<lparr> tg_app_id = a_id a, tg_deployment_id = d_id d, tg_container_name = the (d_container_name d),
     tg_container_port = target_port a d db, tg_published_port = the (d_published_port d),
     tg_health_path = target_health_path a d db, tg_tcp_probe = (probe_kind d db = ''tcp''), tg_domain = Some (a_domain a),
     tg_route_key = Some (''app-'' @ uuid_text w (a_id a)), tg_route_generation = Some (a_route_generation a), tg_split_route = None \<rparr>"

lemma port_i64: "port_range p \<Longrightarrow> as_i64 (JInt p) = Some p"
  by (simp add: port_range_def)

lemma slug_key: "well_formed_slug s \<Longrightarrow> clean_route_key s = Some s"
proof -
  assume s: "well_formed_slug s"
  have "hd s \<in> set s" "last s \<in> set s" "s \<noteq> []" "\<forall>c \<in> set s. slug_char c"
    using s by (auto simp: well_formed_slug_def list_all_iff)
  then have "trim s = s" using slug_char_ascii by (intro trim_id) blast+
  with s \<open>s \<noteq> []\<close> show ?thesis by (simp add: clean_route_key_def app_slug_fixpoint)
qed

lemma collect_prefixes_map: "collect_prefixes seen (map JStr ps) = Some qs \<longleftrightarrow> qs = seen @ ps \<and> list_all valid_backend_path_prefix ps \<and> distinct ps \<and> set seen \<inter> set ps = {}"
  by (induction ps arbitrary: seen) auto

lemma collect_prefixes_Some: "collect_prefixes seen vs = Some qs \<Longrightarrow> \<exists>ps. qs = seen @ ps \<and> vs = map JStr ps"
proof (induction seen vs rule: collect_prefixes.induct)
  case (2 seen v vs)
  then show ?case by (cases v) (auto split: if_splits)
qed simp

text \<open>The prefixes that the API accepts are the ones the agent accepts, and the ones that were recorded.\<close>

lemma agent_prefix_items: "parse_prefix_items seen vs = collect_prefixes seen vs"
  by (induction seen vs rule: parse_prefix_items.induct)
    (simp_all add: agent_backend_path_prefix_def valid_backend_path_prefix_def split: option.split)

lemma agent_prefixes: "parse_backend_path_prefixes v = valid_backend_path_prefixes v"
  by (simp add: parse_backend_path_prefixes_def valid_backend_path_prefixes_def agent_prefix_items split: option.split)

lemma prefixes_recorded:
  assumes "valid_backend_path_prefixes v = Some ps"
  shows "v = JArr (map JStr ps)"
proof -
  obtain vs where vs: "as_array v = Some vs" "collect_prefixes [] vs = Some ps"
    using assms by (auto simp: valid_backend_path_prefixes_def split: option.splits if_splits)
  then have "vs = map JStr ps" using collect_prefixes_Some by fastforce
  with vs(1) show ?thesis by (cases v) auto
qed

definition recorded_prefixes :: "deployment_row \<Rightarrow> json option" where
  "recorded_prefixes d = (case json_pointer (d_runtime_metadata d) [''inferenceReceipt'', ''routing'', ''backendPathPrefixes''] of
     Some v \<Rightarrow> Some v | None \<Rightarrow> json_pointer (d_runtime_metadata d) [''routing'', ''backendPathPrefixes''])"

lemma split_payload_parses:
  assumes "split_route_payload d db = Some v"
  obtains sp b where "parse_split_route v = Some sp" "backend_service d db = Some b"
    "v_container_name b = Some (sp_container_name sp)" "v_target_port b = Some (sp_container_port sp)"
    "v_published_port b = Some (sp_published_port sp)" "recorded_prefixes d = Some (JArr (map JStr (sp_path_prefixes sp)))"
proof -
  obtain b c t p name ps x where b: "backend_service d db = Some b" "v_container_name b = Some c" "v_target_port b = Some t"
      "v_published_port b = Some p" "valid_container_name c" "port_range t" "port_range p"
      "recorded_prefixes d = Some x" "valid_backend_path_prefixes x = Some ps"
      "v = JObj [(''backend'', JObj [(''serviceName'', JStr name), (''containerName'', JStr c), (''targetPort'', JInt t),
        (''publishedPort'', JInt p)]), (''backendPathPrefixes'', JArr (map JStr ps))]"
    using assms
    by (cases "backend_service d db")
      (fastforce simp: split_route_payload_def recorded_prefixes_def coalesce_def bind_eq_Some_conv split: option.splits if_splits)+
  note x = prefixes_recorded [OF b(9)]
  have "parse_backend_path_prefixes (JArr (map JStr ps)) = Some ps" using b(9) x by (simp add: agent_prefixes)
  then have "parse_split_route v = Some \<lparr> sp_container_name = c, sp_container_port = t, sp_published_port = p, sp_path_prefixes = ps \<rparr>"
    using b(5-7) port_i64 unfolding b(10)
    by (simp add: parse_split_route_def json_get_def either_key_def bounded_port_def)
  then show ?thesis using b(1-4,8) x by (intro that) auto
qed

lemma target_fields:
  assumes "watchable w db a d" "\<And>i. parse_uuid w' (uuid_text w i) = Some i"
  shows "health_target_from_payload w' (target_payload w db a d) =
    (case split_route_field (target_payload w db a d) of
       None \<Rightarrow> None | Some split \<Rightarrow> Some ((single_target w db a d)\<lparr> tg_split_route := split \<rparr>))"
proof -
  let ?v = "target_payload w db a d"
  obtain c p where cp: "d_container_name d = Some c" "valid_container_name c" "d_published_port d = Some p" "port_range p"
    using assms(1) by (auto simp: watchable_def)
  note A = assms(1) [unfolded watchable_def]
  have fields: "json_get ?v ''appId'' = Some (JStr (uuid_text w (a_id a)))" "json_get ?v ''deploymentId'' = Some (JStr (uuid_text w (d_id d)))"
    "json_get ?v ''containerName'' = Some (JStr c)" "json_get ?v ''publishedPort'' = Some (JInt p)"
    "json_get ?v ''containerPort'' = Some (JInt (target_port a d db))" "json_get ?v ''healthPath'' = Some (JStr (target_health_path a d db))"
    "json_get ?v ''probeKind'' = Some (JStr (probe_kind d db))" "json_get ?v ''domain'' = Some (JStr (a_domain a))"
    "json_get ?v ''routeKey'' = Some (JStr (''app-'' @ uuid_text w (a_id a)))"
    "json_get ?v ''routeGeneration'' = Some (JInt (a_route_generation a))"
    by (simp_all add: target_payload_def json_get_def cp)
  have gen: "as_i64 (JInt (a_route_generation a)) = Some (a_route_generation a)" using A by simp
  have key: "clean_route_key (''app-'' @ uuid_text w (a_id a)) = Some (''app-'' @ uuid_text w (a_id a))" using A slug_key by blast
  have "uuid_field w' ?v ''appId'' ''app_id'' = Some (a_id a)" "uuid_field w' ?v ''deploymentId'' ''deployment_id'' = Some (d_id d)"
    "bounded_port ?v ''publishedPort'' ''published_port'' = Some p"
    "bounded_port ?v ''containerPort'' ''container_port'' = Some (target_port a d db)"
    using A cp port_i64 by (simp_all add: uuid_field_def bounded_port_def either_key_def fields assms(2))
  then show ?thesis
    using A cp gen key unfolding health_target_from_payload_def
    by (simp add: either_key_def get_str_def fields single_target_def Let_def del: as_i64.simps split: option.splits)
qed

text \<open>
  C34: the agent watches what the control plane describes.  Take a current runtime with sound data: a
  valid container name, health path and domain, ports and a route generation in range.  The agent reads
  back exactly the app, deployment, container, ports, path, probe, domain and route generation of the
  database, and for a split route the container and ports of the backend and all the path prefixes that
  are recorded for it.  A deployment whose topology receipt is inconsistent, or whose backend cannot be
  described, is not watched at all rather than served as a single route.
\<close>

theorem health_target_roundtrip:
  assumes "watchable w db a d" "\<And>i. parse_uuid w' (uuid_text w i) = Some i"
  shows "case route_shape (d_runtime_metadata d) of
      Shape_Single \<Rightarrow> health_target_from_payload w' (target_payload w db a d) = Some (single_target w db a d)
    | Shape_Split \<Rightarrow> (case split_route_payload d db of
        None \<Rightarrow> health_target_from_payload w' (target_payload w db a d) = None
      | Some _ \<Rightarrow> \<exists>sp b. health_target_from_payload w' (target_payload w db a d)
            = Some ((single_target w db a d)\<lparr> tg_split_route := Some sp \<rparr>) \<and> backend_service d db = Some b
          \<and> v_container_name b = Some (sp_container_name sp) \<and> v_target_port b = Some (sp_container_port sp)
          \<and> v_published_port b = Some (sp_published_port sp)
          \<and> recorded_prefixes d = Some (JArr (map JStr (sp_path_prefixes sp))))
    | Shape_Invalid \<Rightarrow> health_target_from_payload w' (target_payload w db a d) = None"
proof -
  note T = target_fields [OF assms]
  let ?v = "target_payload w db a d"
  have none: "parse_split_route JNull = None" by (simp add: parse_split_route_def json_get_def)
  show ?thesis
  proof (cases "route_shape (d_runtime_metadata d)")
    case Shape_Single
    then have "split_route_field ?v = Some None" by (simp add: split_route_field_def either_key_def target_payload_def json_get_def)
    with T Shape_Single show ?thesis by (simp add: single_target_def)
  next
    case Shape_Split
    show ?thesis
    proof (cases "split_route_payload d db")
      case None
      with Shape_Split have "split_route_field ?v = None"
        by (simp add: split_route_field_def either_key_def target_payload_def json_get_def none [unfolded json_get_def])
      with T Shape_Split None show ?thesis by simp
    next
      case (Some x)
      obtain sp b where sp: "parse_split_route x = Some sp" "backend_service d db = Some b"
        "v_container_name b = Some (sp_container_name sp)" "v_target_port b = Some (sp_container_port sp)"
        "v_published_port b = Some (sp_published_port sp)" "recorded_prefixes d = Some (JArr (map JStr (sp_path_prefixes sp)))"
        by (rule split_payload_parses [OF Some])
      have "split_route_field ?v = Some (Some sp)"
        using Shape_Split Some sp(1) by (simp add: split_route_field_def either_key_def target_payload_def json_get_def)
      with T Shape_Split Some sp show ?thesis by (auto intro: exI [of _ sp])
    qed
  next
    case Shape_Invalid
    then have "split_route_field ?v = None"
      by (simp add: split_route_field_def either_key_def target_payload_def json_get_def none [unfolded json_get_def])
    with T Shape_Invalid show ?thesis by simp
  qed
qed

end
