(* ===== verification/Topology.thy ===== *)
theory Topology
  imports Json "HOL-Library.List_Lexorder" "HOL-Library.Char_ord" "HOL-Library.Multiset"
begin

text \<open>
  The zero-config topology planner of the contracts crate (\<open>topology.rs\<close>, \<open>topology_candidates.rs\<close>):
  an inventory of repository files is normalised into a map from paths to contents, every manifest that
  describes a runnable service becomes a candidate, and the candidates decide whether a deployment can be
  generated.  The parser of JSON manifests (\<open>serde_json::from_str\<close>) is a parameter.

  A \<open>BTreeMap\<close> keyed by strings is the association list of its entries in the order of its keys, which is
  the order of their bytes.
\<close>

section \<open>Ordered maps\<close>

fun bt_insert :: "string \<Rightarrow> 'v \<Rightarrow> (string \<times> 'v) list \<Rightarrow> (string \<times> 'v) list" where
  "bt_insert k v [] = [(k, v)]"
| "bt_insert k v ((l, w) # m) =
     (if k < l then (k, v) # (l, w) # m else if k = l then (k, v) # m else (l, w) # bt_insert k v m)"

definition bt_collect :: "(string \<times> 'v) list \<Rightarrow> (string \<times> 'v) list" where
  "bt_collect kvs = fold (\<lambda>kv. bt_insert (fst kv) (snd kv)) kvs []"

definition contains_key :: "(string \<times> 'v) list \<Rightarrow> string \<Rightarrow> bool" where
  "contains_key m k \<longleftrightarrow> map_of m k \<noteq> None"

section \<open>Data\<close>

record repository_file =
  rf_path :: string
  rf_contents :: "string option"

type_synonym repository_inventory = "repository_file list"

datatype topology_readiness = Ready | NeedsSelection | Unsupported

datatype inference_confidence = High | Medium | Low

datatype service_role = Frontend | Backend | Web

datatype health_probe_kind = Http | Tcp

record health_probe =
  hp_kind :: health_probe_kind
  hp_path :: "string option"

record service_candidate =
  sc_selector :: string
  sc_name :: string
  sc_role :: service_role
  sc_root_directory :: string
  sc_provider :: string
  sc_package_manager :: "string option"
  sc_build_command :: "string option"
  sc_start_command :: "string option"
  sc_output_directory :: "string option"
  sc_container_port :: nat
  sc_health_probe :: health_probe
  sc_public_env :: "string list"
  sc_evidence :: "string list"

record inferred_routing =
  ir_websockets_to_backend :: bool
  ir_backend_path_prefixes :: "string list"

record topology_plan =
  tp_schema_version :: nat
  tp_readiness :: topology_readiness
  tp_confidence :: inference_confidence
  tp_services :: "service_candidate list"
  tp_candidates :: "service_candidate list"
  tp_routing :: "inferred_routing option"
  tp_warnings :: "string list"
  tp_summary :: string

record generated_topology_config =
  gt_schema_version :: nat
  gt_mode :: string
  gt_frontend_selector :: "string option"
  gt_backend_selector :: "string option"
  gt_backend_path_prefixes :: "string list"

definition topology_schema_version :: nat where
  "topology_schema_version = 1"

definition default_backend_prefixes :: "string list" where
  "default_backend_prefixes = [''/api'', ''/graphql'', ''/socket.io'', ''/trpc'']"

definition default_topology_config :: generated_topology_config where
  "default_topology_config = \<lparr> gt_schema_version = topology_schema_version, gt_mode = ''auto'',
     gt_frontend_selector = None, gt_backend_selector = None, gt_backend_path_prefixes = default_backend_prefixes \<rparr>"

section \<open>Validation of a stored configuration\<close>

definition valid_route_prefix :: "string \<Rightarrow> bool" where
  "valid_route_prefix value \<longleftrightarrow> starts_with value ''/'' \<and> value \<noteq> ''/'' \<and> length value \<le> 128
     \<and> \<not> ends_with value ''/'' \<and> \<not> str_contains value ''..'' \<and> CHR ''*'' \<notin> set value
     \<and> CHR ''?'' \<notin> set value \<and> CHR ''#'' \<notin> set value \<and> \<not> has_control value \<and> CHR 0x5C \<notin> set value"

datatype topology_error =
    Unsupported_Schema | Bad_Mode | Missing_Selector | Bad_Selector | Too_Many_Prefixes | Bad_Prefix

definition bad_selector :: "string \<Rightarrow> bool" where
  "bad_selector s \<longleftrightarrow> s = [] \<or> 512 < length s \<or> has_control s \<or> str_contains s ''..''"

fun check_prefixes :: "string list \<Rightarrow> string list \<Rightarrow> topology_error + unit" where
  "check_prefixes seen [] = Inr ()"
| "check_prefixes seen (p # ps) =
     (if \<not> valid_route_prefix p \<or> p \<in> set seen then Inl Bad_Prefix else check_prefixes (p # seen) ps)"

definition validate_generated_topology_config :: "generated_topology_config \<Rightarrow> topology_error + unit" where
  "validate_generated_topology_config config =
     (if gt_schema_version config \<noteq> topology_schema_version then Inl Unsupported_Schema
      else if gt_mode config \<notin> {''auto'', ''selected''} then Inl Bad_Mode
      else if gt_mode config = ''selected'' \<and> gt_frontend_selector config = None \<and> gt_backend_selector config = None
        then Inl Missing_Selector
      else if list_ex bad_selector (List.map_filter id [gt_frontend_selector config, gt_backend_selector config])
        then Inl Bad_Selector
      else if 16 < length (gt_backend_path_prefixes config) then Inl Too_Many_Prefixes
      else check_prefixes [] (gt_backend_path_prefixes config))"

definition runtime_config_has_managed_addons :: "json \<Rightarrow> bool" where
  "runtime_config_has_managed_addons rc \<longleftrightarrow>
     (case Option.bind (json_pointer rc [''compose'', ''addOns'']) as_array of None \<Rightarrow> False | Some xs \<Rightarrow> xs \<noteq> [])"

definition runtime_config_has_generated_topology_addons :: "json \<Rightarrow> bool" where
  "runtime_config_has_generated_topology_addons rc \<longleftrightarrow>
     json_get rc ''generatedTopology'' \<noteq> None \<and> runtime_config_has_managed_addons rc"

definition addons_need_compose :: string where
  "addons_need_compose =
     ''managed add-ons require an explicit Compose runtime; generated topology cannot deploy them together''"

definition validate_runtime_config_compatibility :: "json \<Rightarrow> string + unit" where
  "validate_runtime_config_compatibility rc =
     (if runtime_config_has_generated_topology_addons rc then Inl addons_need_compose else Inr ())"

section \<open>Paths\<close>

definition parent_directory :: "string \<Rightarrow> string" where
  "parent_directory path = (case rsplit_once CHR ''/'' path of Some (d, _) \<Rightarrow> d | None \<Rightarrow> ''.'')"

definition join_directory :: "string \<Rightarrow> string \<Rightarrow> string" where
  "join_directory directory path = (if directory = ''.'' then path else directory @ ''/'' @ path)"

definition in_directory :: "string \<Rightarrow> string \<Rightarrow> string" where
  "in_directory directory command =
     (if directory = ''.'' then command else ''cd '' @ directory @ '' && '' @ command)"

definition base_name :: "string \<Rightarrow> string" where
  "base_name directory = last (split_char CHR ''/'' directory)"

function trim_dot_slash :: "string \<Rightarrow> string" where
  "trim_dot_slash s = (if starts_with s ''./'' then trim_dot_slash (drop 2 s) else s)"
  by auto
termination by (relation "measure length") (auto simp: starts_with_iff)

declare trim_dot_slash.simps [simp del]

definition noise_parts :: "string list" where
  "noise_parts = [''node_modules'', ''dist'', ''build'', ''out'', ''target'', ''vendor'', ''coverage'', ''docs'',
     ''test'', ''tests'', ''fixtures'', ''examples'', ''example'']"

definition is_noise_path :: "string \<Rightarrow> bool" where
  "is_noise_path path \<longleftrightarrow>
     list_ex (\<lambda>part. starts_with part ''.'' \<or> part \<in> set noise_parts) (split_char CHR ''/'' path)"

definition normalized_entry :: "repository_file \<Rightarrow> (string \<times> string) option" where
  "normalized_entry f =
     (let path = map (\<lambda>c. if c = CHR 0x5C then CHR ''/'' else c) (trim_dot_slash (rf_path f))
      in if path = [] \<or> is_noise_path path then None
         else Some (path, case rf_contents f of Some c \<Rightarrow> c | None \<Rightarrow> []))"

definition normalized_files :: "repository_inventory \<Rightarrow> (string \<times> string) list" where
  "normalized_files inventory = bt_collect (List.map_filter normalized_entry inventory)"

definition source_file :: "string \<Rightarrow> bool" where
  "source_file path \<longleftrightarrow>
     last (split_char CHR ''.'' path) \<in> {''js'', ''jsx'', ''ts'', ''tsx'', ''vue'', ''svelte''}"

fun find_map :: "('a \<Rightarrow> 'b option) \<Rightarrow> 'a list \<Rightarrow> 'b option" where
  "find_map f [] = None"
| "find_map f (x # xs) = (case f x of Some y \<Rightarrow> Some y | None \<Rightarrow> find_map f xs)"

definition toml_string :: "string \<Rightarrow> string \<Rightarrow> string option" where
  "toml_string contents key = find_map (\<lambda>line. case split_once_char CHR ''='' line of
       None \<Rightarrow> None
     | Some (candidate, value) \<Rightarrow>
         let v = trim_matches_char CHR 0x22 (trim value) in if trim candidate = key \<and> v \<noteq> [] then Some v else None)
     (str_lines contents)"

section \<open>Node packages\<close>

definition manager_of_field :: "string \<Rightarrow> string option" where
  "manager_of_field p =
     (if starts_with p ''pnpm@'' then Some ''pnpm'' else if starts_with p ''yarn@'' then Some ''yarn''
      else if starts_with p ''bun@'' then Some ''bun'' else if starts_with p ''npm@'' then Some ''npm'' else None)"

definition root_node_manager :: "(string \<Rightarrow> json option) \<Rightarrow> (string \<times> string) list \<Rightarrow> string" where
  "root_node_manager parse files =
     (case Option.bind (Option.bind (Option.bind (map_of files ''package.json'') parse)
         (\<lambda>value. get_str value ''packageManager'')) manager_of_field of
        Some manager \<Rightarrow> manager
      | None \<Rightarrow>
          if contains_key files ''pnpm-lock.yaml'' \<or> contains_key files ''pnpm-workspace.yaml'' then ''pnpm''
          else if contains_key files ''yarn.lock'' then ''yarn''
          else if contains_key files ''bun.lock'' \<or> contains_key files ''bun.lockb'' then ''bun'' else ''npm'')"

definition workspace_command :: "string \<Rightarrow> string \<Rightarrow> string \<Rightarrow> bool \<Rightarrow> string" where
  "workspace_command manager name script workspace =
     (if \<not> workspace then manager @ '' run '' @ script
      else if manager = ''pnpm'' \<and> script = ''build'' then ''pnpm --filter '' @ name @ ''... run build''
      else if manager = ''pnpm'' then ''pnpm --filter '' @ name @ '' run '' @ script
      else if manager = ''npm'' then ''npm run '' @ script @ '' --workspace '' @ name
      else if manager = ''yarn'' then ''yarn workspace '' @ name @ '' run '' @ script
      else if manager = ''bun'' then ''bun run --filter '' @ name @ '' '' @ script
      else manager @ '' run '' @ script)"

definition object_keys :: "json \<Rightarrow> string \<Rightarrow> string list" where
  "object_keys value key = (case json_get value key of Some (JObj kvs) \<Rightarrow> map fst kvs | _ \<Rightarrow> [])"

definition frontend_frameworks :: "string list" where
  "frontend_frameworks =
     [''vite'', ''react-scripts'', ''astro'', ''nuxt'', ''@sveltejs/kit'', ''next'', ''@remix-run/react'']"

definition backend_frameworks :: "string list" where
  "backend_frameworks = [''ws'', ''express'', ''fastify'', ''koa'', ''hono'', ''@nestjs/core'', ''socket.io'']"

definition http_probe :: "string \<Rightarrow> health_probe" where
  "http_probe path = \<lparr> hp_kind = Http, hp_path = Some path \<rparr>"

definition tcp_probe :: health_probe where
  "tcp_probe = \<lparr> hp_kind = Tcp, hp_path = None \<rparr>"

definition node_service ::
    "string \<Rightarrow> json \<Rightarrow> string \<Rightarrow> bool \<Rightarrow> string option \<Rightarrow> string list \<Rightarrow> string option \<Rightarrow> string option \<Rightarrow> service_candidate" where
  "node_service manifest_path value manager has_build start_script deps frontend backend =
     (let directory = parent_directory manifest_path;
          name = (case get_str value ''name'' of
                    Some n \<Rightarrow> if trim n \<noteq> [] then n else base_name directory | None \<Rightarrow> base_name directory);
          role = (if backend \<noteq> None then Backend else if frontend \<noteq> None \<and> start_script = None then Frontend else Web);
          workspace = (directory \<noteq> ''.'')
      in \<lparr> sc_selector = ''node:'' @ manifest_path @ '':'' @ name, sc_name = name, sc_role = role,
           sc_root_directory = directory, sc_provider = ''node'', sc_package_manager = Some manager,
           sc_build_command = (if has_build then Some (workspace_command manager name ''build'' workspace) else None),
           sc_start_command = map_option (\<lambda>script. workspace_command manager name script workspace) start_script,
           sc_output_directory = (if role = Frontend
             then Some (join_directory directory (if ''next'' \<in> set deps then ''.next'' else ''dist'')) else None),
           sc_container_port = (if role = Frontend then 80 else 3000),
           sc_health_probe = (if role = Frontend then http_probe ''/health''
             else if backend = Some ''ws'' then tcp_probe else http_probe ''/''),
           sc_public_env = [],
           sc_evidence = (case frontend of Some f \<Rightarrow> [''dependency '' @ f] | None \<Rightarrow> [])
             @ (case backend of Some f \<Rightarrow> [''dependency '' @ f] | None \<Rightarrow> [])
             @ (case start_script of Some s \<Rightarrow> [''scripts.'' @ s] | None \<Rightarrow> [])
             @ (if has_build then [''scripts.build''] else []) \<rparr>)"

definition node_candidate :: "(string \<Rightarrow> json option) \<Rightarrow> string \<Rightarrow> string \<Rightarrow> string \<Rightarrow> service_candidate option" where
  "node_candidate parse manifest_path contents manager =
     (case parse contents of
        None \<Rightarrow> None
      | Some value \<Rightarrow>
          let scripts = object_keys value ''scripts'';
              has_build = (''build'' \<in> set scripts);
              start_script = find (\<lambda>name. name \<in> set scripts) [''start'', ''serve'', ''preview''];
              deps = object_keys value ''dependencies'' @ object_keys value ''devDependencies'';
              frontend = find (\<lambda>d. d \<in> set deps) frontend_frameworks;
              backend = find (\<lambda>d. d \<in> set deps) backend_frameworks
          in if \<not> has_build \<and> start_script = None then None
             else if start_script = None \<and> frontend = None then None
             else Some (node_service manifest_path value manager has_build start_script deps frontend backend))"

section \<open>Other manifests\<close>

definition static_candidates :: "(string \<times> string) list \<Rightarrow> service_candidate list" where
  "static_candidates files = List.map_filter (\<lambda>path.
     let directory = parent_directory path
     in if contains_key files (join_directory directory ''package.json'') then None
        else Some \<lparr> sc_selector = ''static:'' @ path, sc_name = base_name directory, sc_role = Frontend,
          sc_root_directory = directory, sc_provider = ''staticfile'', sc_package_manager = None,
          sc_build_command = None, sc_start_command = None, sc_output_directory = Some directory,
          sc_container_port = 80, sc_health_probe = http_probe ''/health'', sc_public_env = [],
          sc_evidence = [''index.html''] \<rparr>)
     (filter (\<lambda>path. ends_with path ''index.html'') (map fst files))"

definition python_frameworks :: "string list" where
  "python_frameworks = [''fastapi'', ''starlette'', ''flask'', ''django'', ''gunicorn'', ''uvicorn'']"

definition python_start :: "string \<Rightarrow> string" where
  "python_start lower =
     (if str_contains lower ''django'' then ''gunicorn --bind 0.0.0.0:$PORT config.wsgi:application''
      else if str_contains lower ''flask'' then ''gunicorn --bind 0.0.0.0:$PORT app:app''
      else ''uvicorn main:app --host 0.0.0.0 --port $PORT'')"

definition python_candidates :: "(string \<times> string) list \<Rightarrow> service_candidate list" where
  "python_candidates files = List.map_filter (\<lambda>(path, contents).
     let lower = map to_ascii_lowercase contents; directory = parent_directory path
     in map_option (\<lambda>framework. \<lparr> sc_selector = ''python:'' @ path, sc_name = base_name directory, sc_role = Backend,
          sc_root_directory = directory, sc_provider = ''python'', sc_package_manager = None,
          sc_build_command = None, sc_start_command = Some (in_directory directory (python_start lower)),
          sc_output_directory = None, sc_container_port = 3000, sc_health_probe = http_probe ''/'',
          sc_public_env = [], sc_evidence = [''dependency '' @ framework] \<rparr>)
        (find (str_contains lower) python_frameworks))
     (filter (\<lambda>(path, _). ends_with path ''pyproject.toml'' \<or> ends_with path ''requirements.txt'') files)"

definition go_has_main :: "(string \<times> string) list \<Rightarrow> string \<Rightarrow> bool" where
  "go_has_main files directory \<longleftrightarrow>
     list_ex (\<lambda>(candidate, contents). starts_with candidate (trim_end_char CHR ''.'' directory @ ''/'')
         \<and> ends_with candidate ''.go'' \<and> str_contains contents ''package main'') files
     \<or> directory = ''.'' \<and> list_ex (\<lambda>(candidate, contents). ends_with candidate ''.go''
         \<and> str_contains contents ''package main'') files"

definition go_candidates :: "(string \<times> string) list \<Rightarrow> service_candidate list" where
  "go_candidates files = List.map_filter (\<lambda>path.
     let directory = parent_directory path
     in if \<not> go_has_main files directory then None
        else Some \<lparr> sc_selector = ''golang:'' @ path, sc_name = base_name directory, sc_role = Backend,
          sc_root_directory = directory, sc_provider = ''golang'', sc_package_manager = None,
          sc_build_command = Some (in_directory directory ''go build -o /app/hostlet-go .''),
          sc_start_command = Some ''/app/hostlet-go'', sc_output_directory = None, sc_container_port = 3000,
          sc_health_probe = http_probe ''/'', sc_public_env = [], sc_evidence = [''go.mod and package main''] \<rparr>)
     (filter (\<lambda>path. ends_with path ''go.mod'') (map fst files))"

definition rust_candidates :: "(string \<times> string) list \<Rightarrow> service_candidate list" where
  "rust_candidates files = List.map_filter (\<lambda>(path, contents).
     let directory = parent_directory path
     in if \<not> contains_key files (join_directory directory ''src/main.rs'')
          \<or> str_contains contents ''[workspace]'' \<and> \<not> str_contains contents ''[package]'' then None
        else let name = (case toml_string contents ''name'' of Some n \<Rightarrow> n | None \<Rightarrow> base_name directory)
          in Some \<lparr> sc_selector = ''rust:'' @ path @ '':'' @ name, sc_name = name, sc_role = Backend,
            sc_root_directory = directory, sc_provider = ''rust'', sc_package_manager = None,
            sc_build_command = Some (in_directory directory ''cargo build --release''),
            sc_start_command = Some (''/app/'' @ trim_dot_slash directory @ ''/target/release/'' @ name),
            sc_output_directory = None, sc_container_port = 3000, sc_health_probe = http_probe ''/'',
            sc_public_env = [], sc_evidence = [''Cargo binary target''] \<rparr>)
     (filter (\<lambda>(path, _). ends_with path ''Cargo.toml'') files)"

section \<open>Public environment of frontends\<close>

definition public_endpoint_keys :: "string list" where
  "public_endpoint_keys = [''VITE_WS_URL'', ''VITE_API_URL'', ''VITE_BACKEND_URL'', ''NEXT_PUBLIC_WS_URL'',
     ''NEXT_PUBLIC_API_URL'', ''NEXT_PUBLIC_BACKEND_URL'', ''REACT_APP_WS_URL'', ''REACT_APP_API_URL'',
     ''PUBLIC_WS_URL'', ''PUBLIC_API_URL'']"

definition note_public_key :: "string \<Rightarrow> string \<Rightarrow> service_candidate \<Rightarrow> service_candidate" where
  "note_public_key contents key candidate =
     (if str_contains contents key \<and> key \<notin> set (sc_public_env candidate)
      then candidate\<lparr> sc_public_env := sc_public_env candidate @ [key],
        sc_evidence := sc_evidence candidate @ [''source references '' @ key] \<rparr>
      else candidate)"

definition scan_file :: "string \<times> string \<Rightarrow> service_candidate \<Rightarrow> service_candidate" where
  "scan_file file candidate =
     (let root = sc_root_directory candidate
      in if \<not> source_file (fst file) \<or> root \<noteq> ''.'' \<and> \<not> starts_with (fst file) (root @ ''/'') then candidate
         else fold (note_public_key (snd file)) public_endpoint_keys candidate)"

definition attach_public_env_evidence ::
    "service_candidate list \<Rightarrow> (string \<times> string) list \<Rightarrow> service_candidate list" where
  "attach_public_env_evidence candidates files = map (\<lambda>candidate.
     if sc_role candidate \<noteq> Frontend then candidate
     else let c = fold scan_file files candidate in c\<lparr> sc_public_env := sort (sc_public_env c) \<rparr>) candidates"

section \<open>The plan\<close>

fun dedup_by :: "('a \<Rightarrow> 'k) \<Rightarrow> 'a list \<Rightarrow> 'a list" where
  "dedup_by f (x # y # xs) = (if f x = f y then dedup_by f (x # xs) else x # dedup_by f (y # xs))"
| "dedup_by f xs = xs"

definition all_candidates :: "(string \<Rightarrow> json option) \<Rightarrow> (string \<times> string) list \<Rightarrow> service_candidate list" where
  "all_candidates parse files =
     (let manager = root_node_manager parse files;
          found = List.map_filter (\<lambda>(path, contents). node_candidate parse path contents manager)
              (filter (\<lambda>(path, _). ends_with path ''package.json'') files)
            @ static_candidates files @ python_candidates files @ go_candidates files @ rust_candidates files
      in dedup_by sc_selector (sort_key sc_selector (attach_public_env_evidence found files)))"

definition with_role :: "service_role \<Rightarrow> service_candidate list \<Rightarrow> service_candidate list" where
  "with_role r = filter (\<lambda>c. sc_role c = r)"

definition decide_plan :: "service_candidate list \<Rightarrow>
    topology_readiness \<times> inference_confidence \<times> service_candidate list \<times> string \<times> string list" where
  "decide_plan candidates =
     (case (with_role Frontend candidates, with_role Backend candidates, with_role Web candidates) of
        ([f], [b], []) \<Rightarrow> (Ready, High, [f, b],
          ''Hostlet found frontend '' @ sc_root_directory f @ '' and backend '' @ sc_root_directory b @ ''.'', [])
      | ([f], [], []) \<Rightarrow> (Ready, High, [f], ''Hostlet found a frontend in '' @ sc_root_directory f @ ''.'', [])
      | ([], [b], []) \<Rightarrow> (Ready, High, [b], ''Hostlet found a backend in '' @ sc_root_directory b @ ''.'', [])
      | ([], [], [w]) \<Rightarrow> (Ready, High, [w], ''Hostlet found a runnable service in '' @ sc_root_directory w @ ''.'', [])
      | ([], [], []) \<Rightarrow> (Unsupported, Low, [], ''Hostlet could not find a recognizable runnable service.'',
          [''Add an explicit start command or supported application manifest.''])
      | _ \<Rightarrow> (NeedsSelection, Medium, [], ''Hostlet found multiple runnable service candidates.'',
          [''Choose at most one frontend and one backend before deploying.'']))"

definition plan_repository_topology :: "(string \<Rightarrow> json option) \<Rightarrow> repository_inventory \<Rightarrow> topology_plan" where
  "plan_repository_topology parse inventory =
     (let candidates = all_candidates parse (normalized_files inventory)
      in case decide_plan candidates of (readiness, confidence, svcs, summary, warnings) \<Rightarrow>
        \<lparr> tp_schema_version = topology_schema_version, tp_readiness = readiness, tp_confidence = confidence,
          tp_services = svcs, tp_candidates = candidates,
          tp_routing = (if list_ex (\<lambda>s. sc_role s = Backend) svcs
            then Some \<lparr> ir_websockets_to_backend = True, ir_backend_path_prefixes = default_backend_prefixes \<rparr> else None),
          tp_warnings = warnings, tp_summary = summary \<rparr>)"

section \<open>The inspection response\<close>

definition readiness_name :: "topology_readiness \<Rightarrow> string" where
  "readiness_name r = (case r of Ready \<Rightarrow> ''ready'' | NeedsSelection \<Rightarrow> ''needs_selection'' | Unsupported \<Rightarrow> ''unsupported'')"

definition confidence_name :: "inference_confidence \<Rightarrow> string" where
  "confidence_name c = (case c of High \<Rightarrow> ''high'' | Medium \<Rightarrow> ''medium'' | Low \<Rightarrow> ''low'')"

definition role_name :: "service_role \<Rightarrow> string" where
  "role_name r = (case r of Frontend \<Rightarrow> ''frontend'' | Backend \<Rightarrow> ''backend'' | Web \<Rightarrow> ''web'')"

definition opt_field :: "string \<Rightarrow> string option \<Rightarrow> (string \<times> json) list" where
  "opt_field k v = (case v of None \<Rightarrow> [] | Some s \<Rightarrow> [(k, JStr s)])"

definition health_probe_json :: "health_probe \<Rightarrow> json" where
  "health_probe_json p = JObj ((''kind'', JStr (case hp_kind p of Http \<Rightarrow> ''http'' | Tcp \<Rightarrow> ''tcp''))
     # opt_field ''path'' (hp_path p))"

definition candidate_json :: "service_candidate \<Rightarrow> json" where
  "candidate_json c = JObj ([(''selector'', JStr (sc_selector c)), (''name'', JStr (sc_name c)),
       (''role'', JStr (role_name (sc_role c))), (''rootDirectory'', JStr (sc_root_directory c)),
       (''provider'', JStr (sc_provider c))]
     @ opt_field ''packageManager'' (sc_package_manager c) @ opt_field ''buildCommand'' (sc_build_command c)
     @ opt_field ''startCommand'' (sc_start_command c) @ opt_field ''outputDirectory'' (sc_output_directory c)
     @ [(''containerPort'', JInt (int (sc_container_port c))), (''healthProbe'', health_probe_json (sc_health_probe c)),
        (''publicEnv'', JArr (map JStr (sc_public_env c))), (''evidence'', JArr (map JStr (sc_evidence c)))])"

definition plan_json :: "topology_plan \<Rightarrow> json" where
  "plan_json p = JObj ([(''schemaVersion'', JInt (int (tp_schema_version p))),
       (''readiness'', JStr (readiness_name (tp_readiness p))), (''confidence'', JStr (confidence_name (tp_confidence p))),
       (''services'', JArr (map candidate_json (tp_services p))), (''candidates'', JArr (map candidate_json (tp_candidates p)))]
     @ (case tp_routing p of None \<Rightarrow> [] | Some r \<Rightarrow> [(''routing'', JObj [(''websocketsToBackend'', JBool (ir_websockets_to_backend r)),
          (''backendPathPrefixes'', JArr (map JStr (ir_backend_path_prefixes r)))])])
     @ [(''warnings'', JArr (map JStr (tp_warnings p))), (''summary'', JStr (tp_summary p))])"

definition topology_config_json :: "generated_topology_config \<Rightarrow> json" where
  "topology_config_json c = JObj ([(''schemaVersion'', JInt (int (gt_schema_version c))), (''mode'', JStr (gt_mode c))]
     @ opt_field ''frontendSelector'' (gt_frontend_selector c) @ opt_field ''backendSelector'' (gt_backend_selector c)
     @ [(''backendPathPrefixes'', JArr (map JStr (gt_backend_path_prefixes c)))])"

definition addons_warning :: string where
  "addons_warning = ''Managed Postgres/Redis add-ons cannot be combined with generated topology yet. ''
     @ ''Add a hostlet.yml Compose manifest to run the inferred services and backing services together.''"

definition entry_or_insert :: "string \<Rightarrow> json \<Rightarrow> json \<Rightarrow> json" where
  "entry_or_insert k v j = (if json_get j k = None then json_insert k v j else j)"

definition push_warning :: "string \<Rightarrow> json \<Rightarrow> json" where
  "push_warning warning j =
     (let j = entry_or_insert ''warnings'' (JArr []) j
      in case json_get j ''warnings'' of
           Some (JArr ws) \<Rightarrow> if JStr warning \<in> set ws then j else json_insert ''warnings'' (JArr (ws @ [JStr warning])) j
         | _ \<Rightarrow> j)"

definition attach_config :: "json \<Rightarrow> json" where
  "attach_config j =
     (let j = entry_or_insert ''runtimeConfig'' (JObj []) j
      in case json_get j ''runtimeConfig'' of
           Some rc \<Rightarrow> json_insert ''runtimeConfig'' (json_insert ''generatedTopology'' (topology_config_json default_topology_config) rc) j
         | None \<Rightarrow> j)"

definition attach_topology_plan :: "json \<Rightarrow> topology_plan \<Rightarrow> json" where
  "attach_topology_plan inspection plan =
     (if \<not> is_object inspection then inspection
      else let managed_addons = (case json_get inspection ''runtimeConfig'' of
                 None \<Rightarrow> False | Some rc \<Rightarrow> runtime_config_has_managed_addons rc);
               generated_topology_addons = (managed_addons \<and> tp_readiness plan = Ready);
               j = json_insert ''inferencePlan'' (plan_json plan) inspection;
               j = json_insert ''deployable'' (JBool (tp_readiness plan = Ready \<and> \<not> generated_topology_addons)) j;
               j = json_insert ''summary'' (JStr (tp_summary plan)) j;
               j = (if managed_addons \<and> tp_readiness plan \<noteq> Unsupported then push_warning addons_warning j else j)
           in if tp_readiness plan \<noteq> Ready then j
              else let j = attach_config j
                in if 1 < length (tp_services plan) then json_insert ''runtimeKind'' (JStr ''compose'') j else j)"

section \<open>Facts\<close>

subsection \<open>Ordered maps\<close>

lemma bt_insert_set: "set (map fst (bt_insert k v m)) = insert k (set (map fst m))"
  by (induction k v m rule: bt_insert.induct) auto

lemma bt_insert_sorted: "sorted_wrt (<) (map fst m) \<Longrightarrow> sorted_wrt (<) (map fst (bt_insert k v m))"
proof (induction m)
  case (Cons x m)
  obtain l w where x: "x = (l, w)" by (cases x)
  have "l < y" if "y \<in> set (map fst (bt_insert k v m))" "\<not> k < l" "k \<noteq> l" for y
    using that Cons.prems unfolding bt_insert_set by (auto simp: x)
  with Cons show ?case by (auto simp: x)
qed simp

lemma bt_insert_lookup:
  "sorted_wrt (<) (map fst m) \<Longrightarrow> map_of (bt_insert k v m) = (map_of m)(k \<mapsto> v)"
proof (induction m)
  case (Cons x m)
  obtain l w where x: "x = (l, w)" by (cases x)
  show ?case using Cons by (auto simp: x fun_upd_twist)
qed auto

lemma bt_collect_props:
  "sorted_wrt (<) (map fst (bt_collect kvs)) \<and> map_of (bt_collect kvs) = map_of (rev kvs)"
proof -
  have "sorted_wrt (<) (map fst m) \<Longrightarrow>
      sorted_wrt (<) (map fst (fold (\<lambda>kv. bt_insert (fst kv) (snd kv)) kvs m))
      \<and> map_of (fold (\<lambda>kv. bt_insert (fst kv) (snd kv)) kvs m) = map_of m ++ map_of (rev kvs)" for m
  proof (induction kvs arbitrary: m)
    case (Cons kv kvs)
    have "(map_of m)(fst kv \<mapsto> snd kv) ++ map_of (rev kvs) = map_of m ++ (map_of (rev kvs @ [kv]))"
      by (auto simp: fun_eq_iff map_add_def split: option.splits)
    with Cons show ?case by (simp add: bt_insert_sorted bt_insert_lookup del: fun_upd_apply)
  qed simp
  from this [of "[]"] show ?thesis by (simp add: bt_collect_def)
qed

lemma ordered_map_unique:
  fixes m m' :: "(string \<times> 'v) list"
  assumes "sorted_wrt (<) (map fst m)" "sorted_wrt (<) (map fst m')" "map_of m = map_of m'"
  shows "m = m'"
proof -
  have d: "distinct (map fst m)" "distinct (map fst m')"
    using assms strict_sorted_iff by blast+
  have s: "set m = set m'" using assms(3) set_map_of_compr [OF d(1)] set_map_of_compr [OF d(2)] by simp
  have "inj_on fst (set m \<union> set m')" using d(1) by (simp add: s [symmetric] distinct_map)
  then show ?thesis using assms(1,2) d s
    by (intro map_sorted_distinct_set_unique [of fst]) (auto simp: strict_sorted_iff)
qed

lemma normalized_files_cong:
  assumes "mset (List.map_filter normalized_entry i) = mset (List.map_filter normalized_entry i')"
    "distinct (map fst (List.map_filter normalized_entry i))"
  shows "normalized_files i = normalized_files i'"
proof -
  let ?a = "List.map_filter normalized_entry i" and ?b = "List.map_filter normalized_entry i'"
  have "mset (map fst ?a) = mset (map fst ?b)" using assms(1) by (metis mset_map)
  then have d: "distinct (map fst ?b)" using assms(2) by (metis mset_eq_imp_distinct_iff)
  have "map_of (rev ?a) = map_of (rev ?b)"
    using assms d by (intro map_of_eqI) (auto simp: rev_map [symmetric] dest: mset_eq_setD intro!: set_map_of_compr)
  then show ?thesis unfolding normalized_files_def
    by (intro ordered_map_unique) (simp_all add: bt_collect_props)
qed

subsection \<open>Candidates\<close>

lemma dedup_by_props:
  fixes f :: "'a \<Rightarrow> 'k :: linorder"
  shows "sorted (map f xs) \<Longrightarrow> sorted_wrt (<) (map f (dedup_by f xs)) \<and> f ` set (dedup_by f xs) = f ` set xs"
proof (induction f xs rule: dedup_by.induct)
  case (1 f x y xs)
  show ?case
  proof (cases "f x = f y")
    case True
    with 1 show ?thesis by auto
  next
    case False
    then have less: "f x < f y" using "1.prems" by (simp add: order.strict_iff_order)
    have IH: "sorted_wrt (<) (map f (dedup_by f (y # xs)))" "f ` set (dedup_by f (y # xs)) = f ` set (y # xs)"
      using 1 False by simp_all
    have "f x < f z" if z: "z \<in> set (dedup_by f (y # xs))" for z
    proof -
      have "f z \<in> f ` set (y # xs)" using z IH(2) by blast
      then have "f y \<le> f z" using "1.prems" by auto
      with less show ?thesis by simp
    qed
    then have "\<forall>k \<in> f ` set (dedup_by f (y # xs)). f x < k" by blast
    then have "\<forall>k \<in> f ` set (y # xs). f x < k" unfolding IH(2) .
    with False IH show ?thesis by simp
  qed
qed simp_all

lemma all_candidates_sorted: "sorted_wrt (<) (map sc_selector (all_candidates parse files))"
  by (simp add: all_candidates_def Let_def dedup_by_props)

lemma with_role_set: "set (with_role r cs) = {c \<in> set cs. sc_role c = r}"
  by (auto simp: with_role_def)

lemma roles_cover: "set cs = set (with_role Frontend cs) \<union> set (with_role Backend cs) \<union> set (with_role Web cs)"
  by (auto simp: with_role_set intro: service_role.exhaust)

lemma roles_length: "length (with_role Frontend cs) + length (with_role Backend cs) + length (with_role Web cs) = length cs"
proof (induction cs)
  case (Cons c cs)
  then show ?case by (cases "sc_role c") (simp_all add: with_role_def)
qed (simp add: with_role_def)

lemma decide_plan_cases:
  obtains (both) f b where "decide_plan cs = (Ready, High, [f, b],
      ''Hostlet found frontend '' @ sc_root_directory f @ '' and backend '' @ sc_root_directory b @ ''.'', [])"
      "sc_role f = Frontend" "sc_role b = Backend" "set cs = {f, b}"
  | (one) c m where "decide_plan cs = (Ready, High, [c], m, [])" "set cs = {c}"
  | (none) m w where "decide_plan cs = (Unsupported, Low, [], m, w)" "cs = []"
  | (many) m w where "decide_plan cs = (NeedsSelection, Medium, [], m, w)" "2 \<le> length cs"
proof -
  let ?F = "with_role Frontend cs" and ?B = "with_role Backend cs" and ?W = "with_role Web cs"
  note cover = roles_cover [of cs] and len = roles_length [of cs]
  have role: "r \<in> set (with_role k cs) \<Longrightarrow> sc_role r = k" for r k by (simp add: with_role_set)
  consider (FB) f b where "?F = [f]" "?B = [b]" "?W = []" | (F) f where "?F = [f]" "?B = []" "?W = []"
    | (B) b where "?F = []" "?B = [b]" "?W = []" | (W) w where "?F = []" "?B = []" "?W = [w]"
    | (N) "?F = []" "?B = []" "?W = []" | (M) "decide_plan cs = (NeedsSelection, Medium, [],
        ''Hostlet found multiple runnable service candidates.'',
        [''Choose at most one frontend and one backend before deploying.''])" "2 \<le> length cs"
    using len by (cases ?F; cases ?B; cases ?W; cases "tl ?F"; cases "tl ?B"; cases "tl ?W")
      (auto simp: decide_plan_def)
  then show ?thesis
  proof cases
    case FB
    then show ?thesis using cover role [of f Frontend] role [of b Backend] by (intro both [of f b]) (auto simp: decide_plan_def)
  next
    case F then show ?thesis using cover by (intro one) (auto simp: decide_plan_def)
  next
    case B then show ?thesis using cover by (intro one) (auto simp: decide_plan_def)
  next
    case W then show ?thesis using cover by (intro one) (auto simp: decide_plan_def)
  next
    case N then show ?thesis using len by (intro none) (auto simp: decide_plan_def)
  next
    case M then show ?thesis by (rule many)
  qed
qed

subsection \<open>Validation\<close>

lemmas topology_defs = default_topology_config_def default_backend_prefixes_def topology_schema_version_def

lemma check_prefixes_iff:
  "check_prefixes seen ps = Inr () \<longleftrightarrow> distinct ps \<and> set ps \<inter> set seen = {} \<and> (\<forall>p \<in> set ps. valid_route_prefix p)"
  by (induction seen ps rule: check_prefixes.induct) auto

lemma default_config_valid: "validate_generated_topology_config default_topology_config = Inr ()"
  by (simp add: validate_generated_topology_config_def topology_defs List.map_filter_def valid_route_prefix_def
      starts_with_def ends_with_def byte_def)

subsection \<open>The inspection response\<close>

lemma push_warning_get: "k \<noteq> ''warnings'' \<Longrightarrow> json_get (push_warning w j) k = json_get j k"
  by (simp add: push_warning_def entry_or_insert_def Let_def json_get_insert_other split: option.splits json.splits)

lemma push_warning_object: "is_object (push_warning w j) = is_object j"
  by (simp add: push_warning_def entry_or_insert_def Let_def split: option.splits json.splits)

lemma attach_config_get: "k \<noteq> ''runtimeConfig'' \<Longrightarrow> json_get (attach_config j) k = json_get j k"
  by (simp add: attach_config_def entry_or_insert_def Let_def json_get_insert_other split: option.splits)

lemma attach_config_runtime:
  "is_object j \<Longrightarrow> json_get (attach_config j) ''runtimeConfig'' = Some (json_insert ''generatedTopology''
     (topology_config_json default_topology_config) (case json_get j ''runtimeConfig'' of None \<Rightarrow> JObj [] | Some rc \<Rightarrow> rc))"
  by (simp add: attach_config_def entry_or_insert_def Let_def json_get_insert split: option.splits)

lemma managed_addons_insert:
  "runtime_config_has_managed_addons (json_insert ''generatedTopology'' v rc) = runtime_config_has_managed_addons rc"
  by (simp add: runtime_config_has_managed_addons_def json_get_insert_other)

lemma no_managed_addons_empty: "\<not> runtime_config_has_managed_addons (JObj [])"
  by (simp add: runtime_config_has_managed_addons_def json_get_def)

definition managed_addons_of :: "json \<Rightarrow> bool" where
  "managed_addons_of inspection =
     (case json_get inspection ''runtimeConfig'' of None \<Rightarrow> False | Some rc \<Rightarrow> runtime_config_has_managed_addons rc)"

lemma attach_topology_plan_get:
  assumes "is_object inspection"
  shows "json_get (attach_topology_plan inspection plan) ''deployable''
      = Some (JBool (tp_readiness plan = Ready \<and> \<not> managed_addons_of inspection))"
    and "tp_readiness plan = Ready \<Longrightarrow> json_get (attach_topology_plan inspection plan) ''runtimeConfig''
      = Some (json_insert ''generatedTopology'' (topology_config_json default_topology_config)
          (case json_get inspection ''runtimeConfig'' of None \<Rightarrow> JObj [] | Some rc \<Rightarrow> rc))"
  using assms
  by (simp_all add: attach_topology_plan_def Let_def managed_addons_of_def json_get_insert push_warning_get push_warning_object
      attach_config_get attach_config_runtime json_get_insert_other cong: if_cong option.case_cong)

section \<open>Properties\<close>

text \<open>
  The plan does not depend on how the inventory was gathered: two inventories whose relevant files
  (those that are not noise, with their paths normalised) are the same up to order give the same plan.
\<close>

theorem plan_order_independent:
  assumes "mset (List.map_filter normalized_entry i) = mset (List.map_filter normalized_entry j)"
    "distinct (map fst (List.map_filter normalized_entry i))"
  shows "plan_repository_topology parse i = plan_repository_topology parse j"
  using normalized_files_cong [OF assms] by (simp add: plan_repository_topology_def)

text \<open>
  C38: what a plan promises.  Its candidates are in strictly increasing order of selector.  It is ready exactly
  when it deploys something; then it deploys every candidate, no two of the same role, and a web service only
  alone.  It is unsupported exactly when there is no candidate, and when it needs a selection there
  are at least two.  It routes to a backend exactly when it deploys one.
\<close>

theorem plan_correct:
  "let p = plan_repository_topology parse inventory in
     sorted_wrt (<) (map sc_selector (tp_candidates p))
   \<and> (tp_readiness p = Ready \<longleftrightarrow> tp_services p \<noteq> [])
   \<and> (tp_readiness p = Ready \<longrightarrow> set (tp_services p) = set (tp_candidates p)
        \<and> distinct (map sc_role (tp_services p)) \<and> (Web \<in> sc_role ` set (tp_services p) \<longrightarrow> length (tp_services p) = 1))
   \<and> (tp_readiness p = Unsupported \<longleftrightarrow> tp_candidates p = [])
   \<and> (tp_readiness p = NeedsSelection \<longrightarrow> 2 \<le> length (tp_candidates p))
   \<and> (tp_routing p \<noteq> None \<longleftrightarrow> (\<exists>s \<in> set (tp_services p). sc_role s = Backend))"
proof -
  define cs where "cs = all_candidates parse (normalized_files inventory)"
  have sorted: "sorted_wrt (<) (map sc_selector cs)" unfolding cs_def by (rule all_candidates_sorted)
  note unfold = plan_repository_topology_def [of parse inventory, folded cs_def]
  show ?thesis
    by (cases rule: decide_plan_cases [of cs]) (auto simp: unfold sorted Let_def)
qed

text \<open>
  An inspection that reports itself deployable is one the agent accepts: its runtime configuration
  passes the compatibility check, and the topology configuration that was attached to it is a valid one.
\<close>

theorem deployable_is_compatible:
  assumes "is_object inspection" "json_get (attach_topology_plan inspection plan) ''deployable'' = Some (JBool True)"
    "json_get (attach_topology_plan inspection plan) ''runtimeConfig'' = Some rc"
  shows "validate_runtime_config_compatibility rc = Inr () \<and> validate_generated_topology_config default_topology_config = Inr ()
    \<and> (is_object rc \<longrightarrow> json_get rc ''generatedTopology'' = Some (topology_config_json default_topology_config))"
proof -
  note G = attach_topology_plan_get [OF assms(1), of plan]
  have ready: "tp_readiness plan = Ready" "\<not> managed_addons_of inspection" using assms(2) G(1) by auto
  then have rc: "rc = json_insert ''generatedTopology'' (topology_config_json default_topology_config)
      (case json_get inspection ''runtimeConfig'' of None \<Rightarrow> JObj [] | Some rc \<Rightarrow> rc)" (is "_ = json_insert _ _ ?old")
    using assms(3) G(2) by simp
  have "\<not> runtime_config_has_managed_addons ?old"
    using ready(2) by (auto simp: managed_addons_of_def no_managed_addons_empty split: option.splits)
  then have "validate_runtime_config_compatibility rc = Inr ()"
    by (simp add: rc validate_runtime_config_compatibility_def runtime_config_has_generated_topology_addons_def managed_addons_insert)
  then show ?thesis using default_config_valid by (simp add: rc json_get_insert)
qed

text \<open>
  The validator of a stored topology configuration accepts exactly the configurations of the current
  schema, in a known mode, with a selector when the mode needs one, whose selectors are short, free of
  control characters and of parent references, and whose route prefixes are at most sixteen, valid and
  pairwise different.
\<close>

theorem validate_generated_topology_config_iff:
  "validate_generated_topology_config c = Inr () \<longleftrightarrow>
     gt_schema_version c = topology_schema_version
   \<and> (gt_mode c = ''auto'' \<or> gt_mode c = ''selected'' \<and> (gt_frontend_selector c \<noteq> None \<or> gt_backend_selector c \<noteq> None))
   \<and> (\<forall>s. s \<in> set_option (gt_frontend_selector c) \<union> set_option (gt_backend_selector c) \<longrightarrow> \<not> bad_selector s)
   \<and> length (gt_backend_path_prefixes c) \<le> 16 \<and> distinct (gt_backend_path_prefixes c)
   \<and> (\<forall>p \<in> set (gt_backend_path_prefixes c). valid_route_prefix p)"
  by (auto simp: validate_generated_topology_config_def check_prefixes_iff List.map_filter_def list_ex_iff split: option.splits)

end
