(* ===== verification/Compose_Subset.thy ===== *)
theory Compose_Subset
  imports Contract_Names Json "HOL-Library.List_Lexorder" "HOL-Library.Char_ord"
begin

text \<open>
  The Compose policy of the contracts crate (\<open>compose.rs\<close>, \<open>compose_preview.rs\<close>, \<open>compose_addons.rs\<close>) and the rewriting
  that the agent applies before it enforces the policy (\<open>validation.rs\<close>): which Compose files may run on a
  shared host, what the preview tells the user beforehand, and the Compose file that is generated for
  managed add-ons.

  A YAML document is a value of \<open>yaml\<close>, the shape of \<open>serde_yaml::Value\<close> without custom tags; a mapping is an
  association list in which a key occurs once.  Numbers stand for every numeric scalar: the code only asks
  whether a scalar is a string.  A value with an explicit tag, which the code treats like none of the six,
  is left out.  The YAML reader and writer are parameters.
\<close>

section \<open>YAML values\<close>

datatype yaml =
    YNull
  | YBool bool
  | YNum int
  | YStr string
  | YSeq "yaml list"
  | YMap "(yaml \<times> yaml) list"

type_synonym yaml_mapping = "(yaml \<times> yaml) list"

fun yaml_str :: "yaml \<Rightarrow> string option" where
  "yaml_str (YStr s) = Some s" | "yaml_str _ = None"

fun yaml_mapping :: "yaml \<Rightarrow> yaml_mapping option" where
  "yaml_mapping (YMap m) = Some m" | "yaml_mapping _ = None"

fun yaml_sequence :: "yaml \<Rightarrow> yaml list option" where
  "yaml_sequence (YSeq xs) = Some xs" | "yaml_sequence _ = None"

definition map_get :: "yaml_mapping \<Rightarrow> string \<Rightarrow> yaml option" where
  "map_get m key = map_of m (YStr key)"

definition map_has :: "yaml_mapping \<Rightarrow> string \<Rightarrow> bool" where
  "map_has m key \<longleftrightarrow> map_get m key \<noteq> None"

definition yaml_get :: "yaml \<Rightarrow> string \<Rightarrow> yaml option" where
  "yaml_get v key = Option.bind (yaml_mapping v) (\<lambda>m. map_get m key)"

fun yaml_update :: "string \<Rightarrow> (yaml \<Rightarrow> yaml) \<Rightarrow> yaml_mapping \<Rightarrow> yaml_mapping" where
  "yaml_update key f [] = []"
| "yaml_update key f ((k, v) # m) = (if k = YStr key then (k, f v) # m else (k, v) # yaml_update key f m)"

fun yaml_insert :: "string \<Rightarrow> yaml \<Rightarrow> yaml_mapping \<Rightarrow> yaml_mapping" where
  "yaml_insert key w [] = [(YStr key, w)]"
| "yaml_insert key w ((k, v) # m) = (if k = YStr key then (k, w) # m else (k, v) # yaml_insert key w m)"

definition string_seq :: "yaml_mapping \<Rightarrow> string \<Rightarrow> string list" where
  "string_seq m key =
     (case Option.bind (map_get m key) yaml_sequence of None \<Rightarrow> [] | Some xs \<Rightarrow> List.map_filter yaml_str xs)"

section \<open>The manifest\<close>

record compose_section =
  cs_web_service :: string
  cs_file :: "string option"
  cs_port :: "nat option"
  cs_health_path :: "string option"

record compose_manifest =
  cm_runtime :: string
  cm_compose :: compose_section

definition service_name_error :: string where
  "service_name_error = ''compose service names must use lowercase letters, numbers, and hyphens''"

definition validate_compose_service_name :: "string \<Rightarrow> string + unit" where
  "validate_compose_service_name value =
     (if value = [] \<or> 48 < length value
        \<or> \<not> list_all (\<lambda>c. is_ascii_lowercase c \<or> is_ascii_digit c \<or> c = CHR ''-'') value
        \<or> starts_with value ''-'' \<or> ends_with value ''-'' then Inl service_name_error else Inr ())"

definition validate_compose_volume_name :: "string \<Rightarrow> string + unit" where
  "validate_compose_volume_name value = validate_compose_service_name value"

definition compose_file :: "compose_manifest \<Rightarrow> string" where
  "compose_file m = (case cs_file (cm_compose m) of Some f \<Rightarrow> f | None \<Rightarrow> ''compose.yaml'')"

definition validate_compose_manifest :: "compose_manifest \<Rightarrow> string + unit" where
  "validate_compose_manifest m =
     (if cm_runtime m \<noteq> ''compose'' then Inl ''hostlet manifest runtime must be compose''
      else and_then (validate_compose_service_name (cs_web_service (cm_compose m))) (\<lambda>_.
        if \<not> valid_relative_file_path (compose_file m)
        then Inl ''compose file path must be a relative file path inside the repository''
        else if cs_port (cm_compose m) = Some 0 then Inl ''compose port must be from 1 to 65535''
        else case cs_health_path (cm_compose m) of
          Some path \<Rightarrow> if valid_health_path path then Inr () else Inl ''compose health path is invalid''
        | None \<Rightarrow> Inr ()))"

text \<open>The typed decoding \<open>serde_yaml::from_value\<close> of the manifest's fields.\<close>

definition opt_field_of :: "(yaml \<Rightarrow> 'a option) \<Rightarrow> yaml_mapping \<Rightarrow> string \<Rightarrow> 'a option option" where
  "opt_field_of decode m key = (case map_get m key of
     None \<Rightarrow> Some None | Some YNull \<Rightarrow> Some None | Some v \<Rightarrow> map_option Some (decode v))"

definition yaml_u16 :: "yaml \<Rightarrow> nat option" where
  "yaml_u16 v = (case v of YNum n \<Rightarrow> if 0 \<le> n \<and> n \<le> 65535 then Some (nat n) else None | _ \<Rightarrow> None)"

definition manifest_from_value :: "yaml \<Rightarrow> compose_manifest option" where
  "manifest_from_value v =
     (case (Option.bind (yaml_get v ''runtime'') yaml_str, Option.bind (yaml_get v ''compose'') yaml_mapping) of
        (Some runtime, Some m) \<Rightarrow>
          (case (Option.bind (map_get m ''web_service'') yaml_str, opt_field_of yaml_str m ''file'',
                 opt_field_of yaml_u16 m ''port'', opt_field_of yaml_str m ''health_path'') of
             (Some web, Some file, Some port, Some health) \<Rightarrow> Some \<lparr> cm_runtime = runtime, cm_compose =
               \<lparr> cs_web_service = web, cs_file = file, cs_port = port, cs_health_path = health \<rparr> \<rparr>
           | _ \<Rightarrow> None)
      | _ \<Rightarrow> None)"

definition parse_compose_checked :: "(string \<Rightarrow> yaml option) \<Rightarrow> string \<Rightarrow> string + compose_manifest option" where
  "parse_compose_checked from_str manifest_yaml =
     (case from_str manifest_yaml of
        None \<Rightarrow> Inl ''hostlet manifest is not valid YAML''
      | Some value \<Rightarrow>
          (case yaml_get value ''runtime'' of
             None \<Rightarrow> Inr None
           | Some (YStr runtime) \<Rightarrow>
               if runtime \<noteq> ''compose'' then Inr None
               else (case manifest_from_value value of
                 None \<Rightarrow> Inl ''hostlet Compose manifest has an invalid shape''
               | Some manifest \<Rightarrow> and_then (validate_compose_manifest manifest) (\<lambda>_. Inr (Some manifest)))
           | Some _ \<Rightarrow> Inl ''hostlet manifest runtime must be a string''))"

definition parse_compose :: "(string \<Rightarrow> yaml option) \<Rightarrow> string \<Rightarrow> compose_manifest option" where
  "parse_compose from_str manifest_yaml =
     (case parse_compose_checked from_str manifest_yaml of Inr m \<Rightarrow> m | Inl _ \<Rightarrow> None)"

section \<open>The safe subset\<close>

definition forbidden_service_fields :: "string list" where
  "forbidden_service_fields =
     [''container_name'', ''network_mode'', ''privileged'', ''pid'', ''ipc'', ''devices'', ''networks'', ''ports'']"

definition forbidden_top_level_volume_fields :: "string list" where
  "forbidden_top_level_volume_fields = [''driver'', ''driver_opts'', ''external'']"

definition docker_socket_path :: string where
  "docker_socket_path = ''/var/run/docker.sock''"

definition is_host_bind_source :: "string \<Rightarrow> bool" where
  "is_host_bind_source value \<longleftrightarrow>
     starts_with value ''/'' \<or> starts_with value ''.'' \<or> CHR ''/'' \<in> set value \<or> CHR 0x5C \<in> set value"

definition is_mappable_relative_bind :: "string \<Rightarrow> bool" where
  "is_mappable_relative_bind source \<longleftrightarrow> is_host_bind_source source \<and> \<not> starts_with source ''/''
     \<and> ''..'' \<notin> set (split_char CHR ''/'' source)"

definition valid_container_mount_path :: "string \<Rightarrow> bool" where
  "valid_container_mount_path value \<longleftrightarrow> starts_with value ''/'' \<and> value \<noteq> ''/'' \<and> length value \<le> 256
     \<and> ''..'' \<notin> set (split_char CHR ''/'' value) \<and> \<not> has_control value
     \<and> CHR 0x5C \<notin> set value \<and> CHR '','' \<notin> set value \<and> CHR ''='' \<notin> set value"

definition first_field :: "yaml_mapping \<Rightarrow> string list \<Rightarrow> yaml option" where
  "first_field m keys = Option.bind (find (map_has m) keys) (map_get m)"

definition field_text :: "yaml option \<Rightarrow> string" where
  "field_text v = (case Option.bind v yaml_str of Some s \<Rightarrow> s | None \<Rightarrow> [])"

definition volume_subset_warning_for :: "yaml \<Rightarrow> bool \<Rightarrow> string option" where
  "volume_subset_warning_for volume allow =
     (case volume of
        YStr spec \<Rightarrow>
          let parts = split_char CHR '':'' spec; source = hd parts
          in if is_host_bind_source source \<and> (\<not> allow \<or> \<not> is_mappable_relative_bind source)
             then Some (''uses a host bind mount ('' @ spec @ ''); only named volumes are allowed.'')
             else if 1 < length parts \<and> parts ! 1 = docker_socket_path
             then Some (''mounts the Docker socket ('' @ spec @ ''); Hostlet will reject it at deploy.'')
             else None
      | YMap m \<Rightarrow>
          let volume_type = field_text (map_get m ''type''); source = field_text (first_field m [''source'', ''src'']);
              target = field_text (first_field m [''target'', ''dst'', ''destination''])
          in if volume_type = ''bind'' \<or> is_host_bind_source source
             then Some (''uses a host bind mount ('' @ (if source = [] then ''type: bind'' else ''source: '' @ source)
               @ ''); only named volumes are allowed.'')
             else if target = docker_socket_path
             then Some ''mounts the Docker socket; Hostlet will reject it at deploy.'' else None
      | _ \<Rightarrow> None)"

definition short_volume_target_shape_error :: "string \<Rightarrow> string option" where
  "short_volume_target_shape_error spec =
     (let parts = split_char CHR '':'' spec; source = hd parts; has_source = (1 < length parts);
          target = (if has_source then parts ! 1 else source)
      in if 3 < length parts then Some ''volume short-form entries must have at most source, target, and mode.''
         else if target = [] then Some ''volume entries must define a non-empty target.''
         else if has_source \<and> source = [] then Some ''volume entries must define a non-empty source.''
         else if starts_with target ''/'' then None
         else Some ''volume targets must be absolute container paths.'')"

definition volume_fields :: "string list" where
  "volume_fields = [''type'', ''source'', ''src'', ''target'', ''dst'', ''destination'']"

definition volume_entry_shape_error :: "yaml \<Rightarrow> string option" where
  "volume_entry_shape_error volume =
     (case volume of
        YStr spec \<Rightarrow> short_volume_target_shape_error spec
      | YMap m \<Rightarrow>
          if list_ex (\<lambda>field. case map_get m field of None \<Rightarrow> False | Some v \<Rightarrow> yaml_str v = None) volume_fields
          then Some ''volume object fields must be strings.''
          else (case Option.bind (first_field m [''target'', ''dst'', ''destination'']) yaml_str of
             None \<Rightarrow> Some ''volume objects must define a non-empty target.''
           | Some target \<Rightarrow>
               if target = [] then Some ''volume objects must define a non-empty target.''
               else if \<not> starts_with target ''/'' then Some ''volume targets must be absolute container paths.'' else None)
      | _ \<Rightarrow> Some ''volume entries must be strings or objects.'')"

definition volume_errors :: "string \<Rightarrow> bool \<Rightarrow> yaml \<Rightarrow> string list" where
  "volume_errors name allow volume =
     (case volume_entry_shape_error volume of
        Some e \<Rightarrow> [''Service '' @ name @ '' '' @ e]
      | None \<Rightarrow> (case volume_subset_warning_for volume allow of
          Some tail \<Rightarrow> [''Service '' @ name @ '' '' @ tail] | None \<Rightarrow> []))"

definition service_errors :: "bool \<Rightarrow> yaml \<times> yaml \<Rightarrow> string list" where
  "service_errors allow entry =
     (case fst entry of
        YStr name \<Rightarrow>
          (if validate_compose_service_name name = Inr () then []
           else [''Compose service names must use lowercase letters, numbers, and hyphens (invalid service '' @ name @ '').''])
          @ (case snd entry of
               YMap m \<Rightarrow>
                 map (\<lambda>field. ''Service '' @ name @ '' uses unsupported field '' @ field
                     @ ''; Hostlet will reject it at deploy. Remove it before deploying.'')
                   (filter (map_has m) forbidden_service_fields)
                 @ (case map_get m ''volumes'' of
                      None \<Rightarrow> []
                    | Some (YSeq vs) \<Rightarrow> concat (map (volume_errors name allow) vs)
                    | Some _ \<Rightarrow> [''Service '' @ name @ '' volumes must be a sequence.''])
             | _ \<Rightarrow> [''Compose service '' @ name @ '' must be an object.''])
      | _ \<Rightarrow> [''Compose service names must be strings.''])"

definition top_level_volume_errors :: "yaml \<times> yaml \<Rightarrow> string list" where
  "top_level_volume_errors entry =
     (case fst entry of
        YStr name \<Rightarrow>
          (if validate_compose_volume_name name = Inr () then []
           else [''Compose volume names must use lowercase letters, numbers, and hyphens (invalid volume '' @ name @ '').''])
          @ (case snd entry of
               YNull \<Rightarrow> []
             | YMap m \<Rightarrow> map (\<lambda>field. ''Volume '' @ name @ '' uses unsupported field '' @ field
                   @ ''; Hostlet only supports simple named volumes.'') (filter (map_has m) forbidden_top_level_volume_fields)
             | _ \<Rightarrow> [''Compose volume '' @ name @ '' must be an object.''])
      | _ \<Rightarrow> [''Compose volume names must be strings.''])"

definition compose_subset_errors_with_services :: "yaml \<Rightarrow> string \<Rightarrow> bool \<Rightarrow> string list \<Rightarrow> string list" where
  "compose_subset_errors_with_services value web_service allow errors =
     (case Option.bind (yaml_get value ''services'') yaml_mapping of
        None \<Rightarrow> errors @ [''Compose file must define services.'']
      | Some svcs \<Rightarrow>
          errors @ concat (map (service_errors allow) svcs)
          @ (if list_ex (\<lambda>entry. fst entry = YStr web_service) svcs then []
             else [''Declared web service '' @ web_service @ '' is not defined in the compose file.'']))"

definition document_errors :: "yaml \<Rightarrow> string \<Rightarrow> bool \<Rightarrow> string list" where
  "document_errors value web_service allow =
     (let errors = (if validate_compose_service_name web_service = Inr () then []
            else [''Declared web service '' @ web_service @ '' has an invalid Compose service name.''])
      in compose_subset_errors_with_services value web_service allow (errors
           @ (case yaml_get value ''volumes'' of
                None \<Rightarrow> []
              | Some (YMap vols) \<Rightarrow> concat (map top_level_volume_errors vols)
              | Some _ \<Rightarrow> [''Compose top-level volumes must be a mapping.''])))"

definition compose_subset_errors :: "(string \<Rightarrow> yaml option) \<Rightarrow> string \<Rightarrow> string \<Rightarrow> bool \<Rightarrow> string list" where
  "compose_subset_errors from_str compose_yaml web_service allow =
     (case from_str compose_yaml of
        None \<Rightarrow> [''Compose file is not valid YAML.'']
      | Some value \<Rightarrow> document_errors value web_service allow)"

fun join_with :: "string \<Rightarrow> string list \<Rightarrow> string" where
  "join_with sep [] = []"
| "join_with sep [x] = x"
| "join_with sep (x # y # xs) = x @ sep @ join_with sep (y # xs)"

definition validate_compose_subset :: "(string \<Rightarrow> yaml option) \<Rightarrow> string \<Rightarrow> string \<Rightarrow> string + unit" where
  "validate_compose_subset from_str compose_yaml web_service =
     (let errors = compose_subset_errors from_str compose_yaml web_service False
      in if errors = [] then Inr () else Inl (join_with ''; '' errors))"

definition compose_subset_warnings :: "(string \<Rightarrow> yaml option) \<Rightarrow> string \<Rightarrow> string \<Rightarrow> string list" where
  "compose_subset_warnings from_str compose_yaml web_service = compose_subset_errors from_str compose_yaml web_service True"

section \<open>The preview of services\<close>

record service_summary =
  ss_name :: string
  ss_role :: string
  ss_image :: "string option"
  ss_build :: bool
  ss_ports :: "string list"
  ss_volumes :: "string list"

definition parse_compose_services :: "(string \<Rightarrow> yaml option) \<Rightarrow> string \<Rightarrow> string \<Rightarrow> service_summary list" where
  "parse_compose_services from_str compose_yaml web_service =
     (case Option.bind (Option.bind (from_str compose_yaml) (\<lambda>v. yaml_get v ''services'')) yaml_mapping of
        None \<Rightarrow> []
      | Some svcs \<Rightarrow> List.map_filter (\<lambda>(name, service). map_option (\<lambda>n.
            let m = yaml_mapping service
            in \<lparr> ss_name = n, ss_role = (if n = web_service then ''web'' else ''backing''),
                 ss_image = Option.bind (Option.bind m (\<lambda>m. map_get m ''image'')) yaml_str,
                 ss_build = (case m of None \<Rightarrow> False | Some m \<Rightarrow> map_has m ''build''),
                 ss_ports = (case m of None \<Rightarrow> [] | Some m \<Rightarrow> string_seq m ''ports''),
                 ss_volumes = (case m of None \<Rightarrow> [] | Some m \<Rightarrow> string_seq m ''volumes'') \<rparr>) (yaml_str name)) svcs)"

text \<open>\<open>splitn(3, ':')\<close>: the third piece keeps the remaining separators.\<close>

definition split_mount :: "string \<Rightarrow> string \<times> (string \<times> string option) option" where
  "split_mount spec =
     (case split_once_char CHR '':'' spec of
        None \<Rightarrow> (spec, None)
      | Some (source, rest) \<Rightarrow> (source, Some (case split_once_char CHR '':'' rest of
          None \<Rightarrow> (rest, None) | Some (target, mode) \<Rightarrow> (target, Some mode))))"

definition declared_data_path :: "string \<Rightarrow> string option" where
  "declared_data_path spec =
     (case split_mount spec of
        (source, Some (target, _)) \<Rightarrow>
          if is_mappable_relative_bind source \<and> valid_container_mount_path target then Some target else None
      | _ \<Rightarrow> None)"

definition detect_data_mount_path :: "(string \<Rightarrow> yaml option) \<Rightarrow> string \<Rightarrow> string option" where
  "detect_data_mount_path from_str compose_yaml =
     (case List.map_filter declared_data_path (concat (map ss_volumes (parse_compose_services from_str compose_yaml []))) of
        [] \<Rightarrow> None | path # _ \<Rightarrow> Some path)"

definition with_data_mount_path :: "json \<Rightarrow> string \<Rightarrow> json" where
  "with_data_mount_path inspection path =
     (if \<not> is_object inspection then inspection
      else let j = (if json_get inspection ''runtimeConfig'' = None
                    then json_insert ''runtimeConfig'' (JObj []) inspection else inspection)
        in case json_get j ''runtimeConfig'' of
             Some rc \<Rightarrow> json_insert ''runtimeConfig'' (json_insert ''dataMountPath'' (JStr path) rc) j
           | None \<Rightarrow> j)"

section \<open>The agent's rewriting of relative binds\<close>

definition managed_volume_name :: "string \<Rightarrow> string" where
  "managed_volume_name target =
     (let slug = trim_matches_char CHR ''-''
        (map (\<lambda>c. if is_ascii_alphanumeric c then to_ascii_lowercase c else CHR ''-'')
           (filter (\<lambda>c. \<not> is_continuation c) (trim_start_char CHR ''/'' target)))
      in if slug = [] then ''hostlet-data'' else ''hostlet-'' @ slug)"

definition remap_entry :: "string \<Rightarrow> (string \<times> string) option" where
  "remap_entry spec =
     (case split_mount spec of
        (source, Some (target, mode)) \<Rightarrow>
          if \<not> is_mappable_relative_bind source then None
          else let name = managed_volume_name target
            in Some (name, name @ '':'' @ target @ (case mode of None \<Rightarrow> [] | Some m \<Rightarrow> '':'' @ m))
      | _ \<Rightarrow> None)"

definition remap_volume :: "yaml \<Rightarrow> yaml" where
  "remap_volume v =
     (case Option.bind (yaml_str v) remap_entry of None \<Rightarrow> v | Some (_, replacement) \<Rightarrow> YStr replacement)"

definition volume_added :: "yaml \<Rightarrow> string list" where
  "volume_added v = (case Option.bind (yaml_str v) remap_entry of None \<Rightarrow> [] | Some (name, _) \<Rightarrow> [name])"

definition remap_service :: "yaml \<Rightarrow> yaml" where
  "remap_service s = (case s of
     YMap m \<Rightarrow> YMap (yaml_update ''volumes'' (\<lambda>v. case v of YSeq vs \<Rightarrow> YSeq (map remap_volume vs) | _ \<Rightarrow> v) m)
   | _ \<Rightarrow> s)"

definition service_added :: "yaml \<Rightarrow> string list" where
  "service_added s = (case s of
     YMap m \<Rightarrow> (case map_get m ''volumes'' of Some (YSeq vs) \<Rightarrow> concat (map volume_added vs) | _ \<Rightarrow> [])
   | _ \<Rightarrow> [])"

definition volumes_added :: "yaml \<Rightarrow> string list" where
  "volumes_added value =
     (case Option.bind (yaml_get value ''services'') yaml_mapping of
        None \<Rightarrow> [] | Some svcs \<Rightarrow> sort (remdups (concat (map (\<lambda>(_, s). service_added s) svcs))))"

definition remap_services :: "yaml_mapping \<Rightarrow> yaml_mapping" where
  "remap_services root = yaml_update ''services''
     (\<lambda>v. case v of YMap svcs \<Rightarrow> YMap (map (\<lambda>(n, s). (n, remap_service s)) svcs) | _ \<Rightarrow> v) root"

definition register_volume :: "string \<Rightarrow> yaml_mapping \<Rightarrow> yaml_mapping" where
  "register_volume name vols = (if map_has vols name then vols else yaml_insert name YNull vols)"

definition remap_host_binds_to_named_volumes ::
    "(string \<Rightarrow> yaml option) \<Rightarrow> (yaml \<Rightarrow> string) \<Rightarrow> string \<Rightarrow> string + string" where
  "remap_host_binds_to_named_volumes from_str to_str contents =
     (case from_str contents of
        None \<Rightarrow> Inl ''compose file is not valid YAML''
      | Some (YMap root) \<Rightarrow>
          let added = volumes_added (YMap root); root = remap_services root
          in if added = [] then Inr contents
             else let root = (if map_has root ''volumes'' then root else yaml_insert ''volumes'' (YMap []) root)
               in (case map_get root ''volumes'' of
                     Some (YMap vols) \<Rightarrow> Inr (to_str (YMap (yaml_update ''volumes'' (\<lambda>_. YMap (fold register_volume added vols)) root)))
                   | _ \<Rightarrow> Inl ''compose top-level volumes must be a mapping'')
      | Some _ \<Rightarrow> Inr contents)"

section \<open>Managed add-ons\<close>

record add_on_env =
  ae_key :: string
  ae_generate :: bool
  ae_default :: "string option"

record add_on_inject =
  ai_key :: string
  ai_template :: string

record add_on =
  ao_key :: string
  ao_name :: string
  ao_category :: string
  ao_icon :: string
  ao_image :: string
  ao_service_name :: string
  ao_port :: nat
  ao_volumes :: "string list"
  ao_env :: "add_on_env list"
  ao_inject :: "add_on_inject list"
  ao_min_plan :: string

definition add_on_var :: "string \<Rightarrow> bool \<Rightarrow> string option \<Rightarrow> add_on_env" where
  "add_on_var key generate fallback = \<lparr> ae_key = key, ae_generate = generate, ae_default = fallback \<rparr>"

definition add_on_catalog :: "add_on list" where
  "add_on_catalog =
     [\<lparr> ao_key = ''postgres'', ao_name = ''PostgreSQL'', ao_category = ''database'', ao_icon = ''database'',
        ao_image = ''postgres:16-alpine'', ao_service_name = ''postgres'', ao_port = 5432,
        ao_volumes = [''pgdata:/var/lib/postgresql/data''],
        ao_env = [add_on_var ''POSTGRES_PASSWORD'' True None, add_on_var ''POSTGRES_USER'' False (Some ''postgres''),
                  add_on_var ''POSTGRES_DB'' False (Some ''app'')],
        ao_inject = [\<lparr> ai_key = ''DATABASE_URL'', ai_template =
          ''postgres://${POSTGRES_USER}:${POSTGRES_PASSWORD}'' @ ''@postgres:5432/${POSTGRES_DB}'' \<rparr>], ao_min_plan = ''starter'' \<rparr>,
      \<lparr> ao_key = ''redis'', ao_name = ''Redis'', ao_category = ''cache'', ao_icon = ''zap'',
        ao_image = ''redis:7-alpine'', ao_service_name = ''redis'', ao_port = 6379,
        ao_volumes = [''redis-data:/data''], ao_env = [],
        ao_inject = [\<lparr> ai_key = ''REDIS_URL'', ai_template = ''redis://redis:6379'' \<rparr>], ao_min_plan = ''starter'' \<rparr>]"

definition add_on_service :: "add_on \<Rightarrow> yaml" where
  "add_on_service a = YMap ([(YStr ''image'', YStr (ao_image a))]
     @ (if ao_env a = [] then [] else [(YStr ''environment'',
          YMap (fold (\<lambda>e. yaml_insert (ae_key e) (YStr (''${'' @ ae_key e @ ''}''))) (ao_env a) []))])
     @ (if ao_volumes a = [] then [] else [(YStr ''volumes'', YSeq (map YStr (ao_volumes a)))]))"

definition generated_document :: "string \<Rightarrow> add_on list \<Rightarrow> yaml" where
  "generated_document web_service addons =
     (let web = YMap ((YStr ''image'', YStr ''${HOSTLET_WEB_IMAGE}'')
            # (if addons = [] then [] else [(YStr ''depends_on'', YSeq (map (\<lambda>a. YStr (ao_service_name a)) addons))]));
          svcs = fold (\<lambda>a. yaml_insert (ao_service_name a) (add_on_service a)) addons [(YStr web_service, web)];
          vols = fold (\<lambda>v. yaml_insert (hd (split_char CHR '':'' v)) YNull) (concat (map ao_volumes addons)) []
      in YMap ((YStr ''services'', YMap svcs) # (if vols = [] then [] else [(YStr ''volumes'', YMap vols)])))"

record generated_compose =
  gc_compose_file :: string
  gc_web_service :: string
  gc_port :: nat
  gc_health_path :: string
  gc_compose :: string

definition generate_compose ::
    "(yaml \<Rightarrow> string) \<Rightarrow> string \<Rightarrow> nat \<Rightarrow> string \<Rightarrow> add_on list \<Rightarrow> generated_compose" where
  "generate_compose to_str web_service port health_path addons =
     \<lparr> gc_compose_file = ''compose.generated.hostlet.yml'', gc_web_service = web_service, gc_port = port,
       gc_health_path = health_path, gc_compose = to_str (generated_document web_service addons) \<rparr>"

definition generated_compose_json :: "generated_compose \<Rightarrow> json" where
  "generated_compose_json g = JObj [(''composeFile'', JStr (gc_compose_file g)), (''webService'', JStr (gc_web_service g)),
     (''port'', JInt (int (gc_port g))), (''healthPath'', JStr (gc_health_path g)), (''compose'', JStr (gc_compose g))]"

fun addon_env_upsert :: "string \<Rightarrow> string \<Rightarrow> (string \<times> string) list \<Rightarrow> (string \<times> string) list" where
  "addon_env_upsert key value [] = [(key, value)]"
| "addon_env_upsert key value ((k, v) # env) =
     (if k = key then (k, value) # env else (k, v) # addon_env_upsert key value env)"

function str_replace :: "string \<Rightarrow> string \<Rightarrow> string \<Rightarrow> string" where
  "str_replace pat by [] = []"
| "str_replace pat by (c # s) =
     (if pat \<noteq> [] \<and> starts_with (c # s) pat then by @ str_replace pat by (drop (length pat) (c # s))
      else c # str_replace pat by s)"
  by pat_completeness auto
termination by (relation "measure (\<lambda>(_, _, s). length s)") (auto simp: starts_with_def)

definition render_addon_template :: "string \<Rightarrow> (string \<times> string) list \<Rightarrow> string" where
  "render_addon_template template env = fold (\<lambda>(key, value). str_replace (''${'' @ key @ ''}'') value) env template"

text \<open>The secret generator is a closure with a state: the n-th call returns \<open>secret n\<close>.\<close>

definition add_env :: "(nat \<Rightarrow> string) \<Rightarrow> add_on_env \<Rightarrow> nat \<times> (string \<times> string) list \<Rightarrow> nat \<times> (string \<times> string) list" where
  "add_env secret e st =
     (if ae_generate e then (Suc (fst st), addon_env_upsert (ae_key e) (secret (fst st)) (snd st))
      else (fst st, addon_env_upsert (ae_key e) (case ae_default e of Some d \<Rightarrow> d | None \<Rightarrow> []) (snd st)))"

definition inject_env :: "add_on_inject \<Rightarrow> (string \<times> string) list \<Rightarrow> (string \<times> string) list" where
  "inject_env i env = addon_env_upsert (ai_key i) (render_addon_template (ai_template i) env) env"

fun choose_addons ::
    "(nat \<Rightarrow> string) \<Rightarrow> json list \<Rightarrow> add_on list \<Rightarrow> nat \<times> (string \<times> string) list
      \<Rightarrow> string + add_on list \<times> (string \<times> string) list" where
  "choose_addons secret [] chosen st = Inr (chosen, snd st)"
| "choose_addons secret (item # items) chosen st =
     (case get_str item ''key'' of
        None \<Rightarrow> Inl ''each add-on requires a key''
      | Some key \<Rightarrow>
          (case find (\<lambda>a. ao_key a = key) add_on_catalog of
             None \<Rightarrow> Inl (''unknown add-on '' @ key)
           | Some addon \<Rightarrow>
               if ao_service_name addon \<in> set (map ao_service_name chosen)
               then Inl (''add-on '' @ key @ '' was requested more than once'')
               else let st = fold (add_env secret) (ao_env addon) st;
                        st = (fst st, fold inject_env (ao_inject addon) (snd st))
                 in choose_addons secret items (chosen @ [addon]) st))"

definition resolve_managed_addons ::
    "(yaml \<Rightarrow> string) \<Rightarrow> json \<Rightarrow> string \<Rightarrow> nat \<Rightarrow> string \<Rightarrow> (nat \<Rightarrow> string)
      \<Rightarrow> string + (json \<times> (string \<times> string) list) option" where
  "resolve_managed_addons to_str runtime_config web_service port health_path secret =
     (case Option.bind (json_pointer runtime_config [''compose'', ''addOns'']) as_array of
        None \<Rightarrow> Inr None
      | Some [] \<Rightarrow> Inr None
      | Some requested \<Rightarrow>
          and_then (choose_addons secret requested [] (0, [])) (\<lambda>(chosen, env).
            if \<not> is_object runtime_config then Inl ''runtime config must be an object''
            else Inr (Some (json_insert ''generatedCompose''
              (generated_compose_json (generate_compose to_str web_service port health_path chosen)) runtime_config, env))))"

section \<open>Facts\<close>

subsection \<open>Mappings\<close>

lemma map_get_insert: "map_get (yaml_insert k w m) l = (if l = k then Some w else map_get m l)"
  by (induction k w m rule: yaml_insert.induct) (auto simp: map_get_def)

lemma map_get_update: "map_get (yaml_update k f m) l = (if l = k then map_option f (map_get m l) else map_get m l)"
  by (induction k f m rule: yaml_update.induct) (auto simp: map_get_def)

lemma map_has_update [simp]: "map_has (yaml_update k f m) l = map_has m l"
  by (simp add: map_has_def map_get_update)

lemma yaml_get_YMap [simp]: "yaml_get (YMap m) k = map_get m k"
  by (simp add: yaml_get_def)

subsection \<open>Mount specifications\<close>

lemma split_once_SomeD:
  "split_once_char sep s = Some (a, b) \<Longrightarrow> s = a @ sep # b \<and> sep \<notin> set a"
proof -
  assume h: "split_once_char sep s = Some (a, b)"
  then have m: "sep \<in> set s" and a: "a = takeWhile (\<lambda>c. c \<noteq> sep) s" and b: "b = tl (dropWhile (\<lambda>c. c \<noteq> sep) s)"
    by (auto simp: split_once_char_def split: if_splits)
  have "dropWhile (\<lambda>c. c \<noteq> sep) s = sep # b"
    using m b hd_dropWhile [of "\<lambda>c. c \<noteq> sep" s] by (cases "dropWhile (\<lambda>c. c \<noteq> sep) s") auto
  then show ?thesis using takeWhile_dropWhile_id [of "\<lambda>c. c \<noteq> sep" s] a set_takeWhileD by (metis (mono_tags, lifting))
qed

lemma split_once_NoneD: "split_once_char sep s = None \<Longrightarrow> sep \<notin> set s"
  by (simp add: split_once_char_def split: if_splits)

lemma split_char_single: "sep \<notin> set s \<Longrightarrow> split_char sep s = [s]"
  by (induction s) auto

lemma split_mount_parts:
  "split_mount spec = (source, None) \<Longrightarrow> split_char CHR '':'' spec = [source]"
  "split_mount spec = (source, Some (target, None)) \<Longrightarrow> split_char CHR '':'' spec = [source, target]"
  "split_mount spec = (source, Some (target, Some mode)) \<Longrightarrow>
     split_char CHR '':'' spec = source # target # split_char CHR '':'' mode \<and> CHR '':'' \<notin> set target"
  by (auto simp: split_mount_def split_char_append split_char_single split: option.splits prod.splits
      dest!: split_once_SomeD split_once_NoneD)

lemma managed_volume_name_chars: "list_all slug_char (managed_volume_name target)"
proof -
  let ?m = "map (\<lambda>c. if is_ascii_alphanumeric c then to_ascii_lowercase c else CHR ''-'')
      (filter (\<lambda>c. \<not> is_continuation c) (trim_start_char CHR ''/'' target))"
  have "slug_char c" if "c \<in> set (trim_matches_char CHR ''-'' ?m)" for c
  proof -
    from that have "c \<in> set ?m" using trim_matches_set by blast
    then show ?thesis by (auto simp: lowercase_is_slug) (simp_all add: slug_char_def)
  qed
  then show ?thesis
    by (auto simp: managed_volume_name_def Let_def list_all_iff) (simp_all add: slug_char_def char_defs)
qed

lemma managed_volume_name_ends:
  "hd (managed_volume_name target) = CHR ''h'' \<and> last (managed_volume_name target) \<noteq> CHR ''-''"
proof -
  let ?m = "map (\<lambda>c. if is_ascii_alphanumeric c then to_ascii_lowercase c else CHR ''-'')
      (filter (\<lambda>c. \<not> is_continuation c) (trim_start_char CHR ''/'' target))"
  show ?thesis using trim_matches_ends [of "CHR ''-''" ?m] by (auto simp: managed_volume_name_def Let_def)
qed

lemma slug_not_special: "slug_char c \<Longrightarrow> c \<noteq> CHR '':'' \<and> c \<noteq> CHR ''/'' \<and> c \<noteq> CHR 0x5C"
  by (auto simp: slug_char_def char_defs)

lemma managed_volume_name_safe:
  "CHR '':'' \<notin> set (managed_volume_name target)" "\<not> is_host_bind_source (managed_volume_name target)"
  "managed_volume_name target \<noteq> []"
proof -
  have all: "\<forall>c \<in> set (managed_volume_name target). slug_char c" using managed_volume_name_chars by (simp add: list_all_iff)
  show ne: "managed_volume_name target \<noteq> []" by (simp add: managed_volume_name_def Let_def)
  obtain s where s: "managed_volume_name target = CHR ''h'' # s"
    using ne managed_volume_name_ends [of target] by (cases "managed_volume_name target") auto
  show "CHR '':'' \<notin> set (managed_volume_name target)" using all slug_not_special by blast
  have "CHR ''/'' \<notin> set (managed_volume_name target)" "CHR 0x5C \<notin> set (managed_volume_name target)"
    using all slug_not_special by blast+
  then show "\<not> is_host_bind_source (managed_volume_name target)" by (simp add: is_host_bind_source_def starts_with_def s)
qed

lemma managed_volume_name_valid:
  "validate_compose_volume_name (managed_volume_name target) = Inr () \<longleftrightarrow> length (managed_volume_name target) \<le> 48"
proof -
  obtain s where s: "managed_volume_name target = CHR ''h'' # s"
    using managed_volume_name_safe(3) managed_volume_name_ends [of target] by (cases "managed_volume_name target") auto
  have "\<not> ends_with (managed_volume_name target) ''-''"
  proof
    assume "ends_with (managed_volume_name target) ''-''"
    then obtain u where "managed_volume_name target = u @ ''-''" by (metis append_take_drop_id ends_with_def)
    then show False using managed_volume_name_ends [of target] by simp
  qed
  moreover have "list_all (\<lambda>c. is_ascii_lowercase c \<or> is_ascii_digit c \<or> c = CHR ''-'') (managed_volume_name target)"
    using managed_volume_name_chars [of target] by (simp add: list_all_iff slug_char_def)
  ultimately show ?thesis
    by (simp add: validate_compose_volume_name_def validate_compose_service_name_def s starts_with_def)
qed

subsection \<open>Rewriting and the two checks\<close>

definition volume_ok :: "bool \<Rightarrow> yaml \<Rightarrow> bool" where
  "volume_ok allow v \<longleftrightarrow> volume_entry_shape_error v = None \<and> volume_subset_warning_for v allow = None"

lemma volume_errors_Nil: "volume_errors name allow v = [] \<longleftrightarrow> volume_ok allow v"
  by (simp add: volume_errors_def volume_ok_def split: option.splits)

lemma short_ok:
  "volume_ok allow (YStr spec) \<longleftrightarrow>
    (let parts = split_char CHR '':'' spec in
      if length parts = 1 then hd parts \<noteq> [] \<and> starts_with (hd parts) ''/'' \<and> \<not> is_host_bind_source (hd parts)
      else length parts \<le> 3 \<and> hd parts \<noteq> [] \<and> starts_with (parts ! 1) ''/'' \<and> parts ! 1 \<noteq> docker_socket_path
        \<and> (is_host_bind_source (hd parts) \<longrightarrow> allow \<and> is_mappable_relative_bind (hd parts)))"
proof -
  obtain p ps where parts: "split_char CHR '':'' spec = p # ps" by (cases "split_char CHR '':'' spec") auto
  note D = volume_ok_def volume_entry_shape_error_def volume_subset_warning_for_def short_volume_target_shape_error_def
  show ?thesis
  proof (cases ps)
    case Nil
    then show ?thesis by (auto simp: D parts Let_def is_mappable_relative_bind_def)
  next
    case (Cons t qs)
    then show ?thesis by (auto simp: D parts Let_def starts_with_def)
  qed
qed

lemma mappable_nonempty: "is_mappable_relative_bind source \<Longrightarrow> source \<noteq> [] \<and> is_host_bind_source source"
  by (auto simp: is_mappable_relative_bind_def is_host_bind_source_def starts_with_def)

lemma remap_volume_ok: "volume_ok False (remap_volume v) \<longleftrightarrow> volume_ok True v"
proof (cases "Option.bind (yaml_str v) remap_entry")
  case None
  then have same: "remap_volume v = v" by (simp add: remap_volume_def)
  have "volume_ok False v \<longleftrightarrow> volume_ok True v"
  proof (cases v)
    case (YStr spec)
    then have "remap_entry spec = None" using None by simp
    then consider "length (split_char CHR '':'' spec) = 1"
      | "\<not> is_mappable_relative_bind (hd (split_char CHR '':'' spec))"
      by (cases "split_mount spec") (auto simp: remap_entry_def Let_def split_mount_parts split: option.splits if_splits prod.splits
          dest!: split_mount_parts)
    then show ?thesis unfolding YStr by cases (auto simp: short_ok Let_def)
  qed (simp_all add: volume_ok_def volume_entry_shape_error_def volume_subset_warning_for_def)
  then show ?thesis by (simp add: same)
next
  case (Some nr)
  then obtain spec where v: "v = YStr spec" and e: "remap_entry spec = Some nr" by (cases v) auto
  then obtain source target mode where m: "split_mount spec = (source, Some (target, mode))" "is_mappable_relative_bind source"
      and r: "snd nr = managed_volume_name target @ '':'' @ target @ (case mode of None \<Rightarrow> [] | Some m \<Rightarrow> '':'' @ m)"
    by (auto simp: remap_entry_def Let_def split: prod.splits option.splits if_splits)
  have remapped: "remap_volume v = YStr (snd nr)" using Some by (simp add: remap_volume_def split: prod.splits)
  obtain ps where parts: "split_char CHR '':'' spec = source # target # ps"
      "split_char CHR '':'' (snd nr) = managed_volume_name target # target # ps"
  proof (cases mode)
    case None
    have "split_char CHR '':'' spec = [source, target]" using m(1) None by (simp add: split_mount_parts)
    moreover have "CHR '':'' \<notin> set target" using \<open>split_char CHR '':'' spec = [source, target]\<close>
      by (metis list.set_intros(1,2) split_char_no_sep)
    then have "split_char CHR '':'' (snd nr) = [managed_volume_name target, target]"
      by (simp add: r None split_char_append managed_volume_name_safe split_char_single)
    ultimately show ?thesis by (rule that)
  next
    case (Some x)
    then have "split_char CHR '':'' spec = source # target # split_char CHR '':'' x" "CHR '':'' \<notin> set target"
      using m(1) split_mount_parts(3) by blast+
    then show ?thesis by (intro that) (simp_all add: r Some split_char_append managed_volume_name_safe)
  qed
  show ?thesis unfolding remapped unfolding v short_ok parts
    using mappable_nonempty [OF m(2)] m(2) by (auto simp: managed_volume_name_safe)
qed

definition service_ok :: "bool \<Rightarrow> yaml \<times> yaml \<Rightarrow> bool" where
  "service_ok allow entry \<longleftrightarrow> (\<exists>name m. entry = (YStr name, YMap m) \<and> validate_compose_service_name name = Inr ()
     \<and> (\<forall>field \<in> set forbidden_service_fields. \<not> map_has m field)
     \<and> (\<forall>v. map_get m ''volumes'' = Some v \<longrightarrow> (\<exists>vs. v = YSeq vs \<and> (\<forall>x \<in> set vs. volume_ok allow x))))"

lemma service_errors_Nil: "service_errors allow entry = [] \<longleftrightarrow> service_ok allow entry"
  by (cases entry) (auto simp: service_errors_def service_ok_def filter_empty_conv volume_errors_Nil split: yaml.splits option.splits)

lemma remap_service_ok: "service_ok False (n, remap_service s) \<longleftrightarrow> service_ok True (n, s)"
proof (cases s)
  case (YMap m)
  show ?thesis
  proof (cases "map_get m ''volumes''")
    case None
    then show ?thesis by (auto simp: service_ok_def remap_service_def YMap map_get_update)
  next
    case (Some v)
    then show ?thesis
      by (cases v) (auto simp: service_ok_def remap_service_def YMap map_get_update remap_volume_ok)
  qed
qed (auto simp: service_ok_def remap_service_def)

lemma yaml_update_same: "(\<And>v. map_get m k = Some v \<Longrightarrow> f v = v) \<Longrightarrow> yaml_update k f m = m"
  by (induction k f m rule: yaml_update.induct) (auto simp: map_get_def split: if_splits)

lemma remap_service_same:
  assumes "service_added s = []"
  shows "remap_service s = s"
proof -
  have "volume_added v = [] \<Longrightarrow> remap_volume v = v" for v
    by (simp add: volume_added_def remap_volume_def split: option.splits prod.splits)
  then show ?thesis using assms
    by (cases s) (auto simp: remap_service_def service_added_def intro!: yaml_update_same map_idI split: yaml.splits)
qed

definition top_level_ok :: "yaml \<Rightarrow> bool" where
  "top_level_ok v \<longleftrightarrow> (\<exists>vols. v = YMap vols \<and> (\<forall>entry \<in> set vols. top_level_volume_errors entry = []))"

lemma document_errors_Nil:
  "document_errors value web allow = [] \<longleftrightarrow> validate_compose_service_name web = Inr ()
    \<and> (\<forall>v. yaml_get value ''volumes'' = Some v \<longrightarrow> top_level_ok v)
    \<and> (\<exists>svcs. yaml_get value ''services'' = Some (YMap svcs) \<and> (\<forall>entry \<in> set svcs. service_ok allow entry)
        \<and> YStr web \<in> fst ` set svcs)"
proof -
  have vols: "(case yaml_get value ''volumes'' of None \<Rightarrow> [] | Some (YMap vols) \<Rightarrow> concat (map top_level_volume_errors vols)
      | Some _ \<Rightarrow> [''Compose top-level volumes must be a mapping.'']) = []
    \<longleftrightarrow> (\<forall>v. yaml_get value ''volumes'' = Some v \<longrightarrow> top_level_ok v)"
    by (auto simp: top_level_ok_def split: option.splits yaml.splits)
  show ?thesis
  proof (cases "Option.bind (yaml_get value ''services'') yaml_mapping")
    case None
    have "\<nexists>svcs. yaml_get value ''services'' = Some (YMap svcs)" using None by auto
    with None show ?thesis by (simp add: document_errors_def compose_subset_errors_with_services_def Let_def)
  next
    case (Some svcs)
    then have svcs: "yaml_get value ''services'' = Some (YMap svcs)" by (auto simp: bind_eq_Some_conv elim: yaml_mapping.elims)
    have web: "list_ex (\<lambda>entry. fst entry = YStr web) svcs \<longleftrightarrow> YStr web \<in> fst ` set svcs"
      by (force simp: list_ex_iff)
    show ?thesis
      using vols by (simp add: document_errors_def compose_subset_errors_with_services_def Let_def svcs service_errors_Nil web)
  qed
qed

lemma register_volumes_ok:
  "top_level_ok (YMap (fold register_volume names vols)) \<longleftrightarrow>
     top_level_ok (YMap vols) \<and> (\<forall>n \<in> set names. validate_compose_volume_name n = Inr ())"
proof -
  have insert: "(\<forall>e \<in> set (yaml_insert n YNull m). top_level_volume_errors e = [])
      \<longleftrightarrow> (\<forall>e \<in> set m. top_level_volume_errors e = []) \<and> validate_compose_volume_name n = Inr ()"
    if "\<not> map_has m n" for n m
    using that
  proof (induction n YNull m rule: yaml_insert.induct)
    case (1 key) then show ?case by (simp add: top_level_volume_errors_def)
  next
    case (2 key k v m) then show ?case by (auto simp: map_has_def map_get_def split: if_splits)
  qed
  have present: "validate_compose_volume_name n = Inr ()"
    if m: "map_has m n" "\<forall>e \<in> set m. top_level_volume_errors e = []" for n m
  proof -
    obtain v where "(YStr n, v) \<in> set m" using m(1) by (auto simp: map_has_def map_get_def dest: map_of_SomeD)
    then have "top_level_volume_errors (YStr n, v) = []" using m(2) by blast
    then show ?thesis by (simp add: top_level_volume_errors_def split: if_splits)
  qed
  have step: "top_level_ok (YMap (register_volume n m)) \<longleftrightarrow> top_level_ok (YMap m) \<and> validate_compose_volume_name n = Inr ()" for n m
    using insert [of m n] present [of m n] by (auto simp: register_volume_def top_level_ok_def)
  show ?thesis by (induction names arbitrary: vols) (auto simp: step)
qed

lemma volume_added_managed: "n \<in> set (volume_added v) \<Longrightarrow> \<exists>target. n = managed_volume_name target"
  by (cases v) (auto simp: volume_added_def remap_entry_def Let_def split: option.splits if_splits prod.splits)

lemma volumes_added_managed: "n \<in> set (volumes_added value) \<Longrightarrow> \<exists>target. n = managed_volume_name target"
  using volume_added_managed
  by (fastforce simp: volumes_added_def service_added_def split: option.splits yaml.splits)

definition services_ok :: "bool \<Rightarrow> string \<Rightarrow> yaml_mapping \<Rightarrow> bool" where
  "services_ok allow web root \<longleftrightarrow> (\<exists>svcs. map_get root ''services'' = Some (YMap svcs)
     \<and> (\<forall>entry \<in> set svcs. service_ok allow entry) \<and> YStr web \<in> fst ` set svcs)"

lemma remap_services_ok: "services_ok False web (remap_services root) \<longleftrightarrow> services_ok True web root"
proof -
  have all: "(\<forall>e \<in> set (map (\<lambda>(n, s). (n, remap_service s)) svcs). service_ok False e) \<longleftrightarrow> (\<forall>e \<in> set svcs. service_ok True e)" for svcs
    using remap_service_ok by fastforce
  have keys: "w \<in> fst ` set (map (\<lambda>(n, s). (n, remap_service s)) svcs) \<longleftrightarrow> w \<in> fst ` set svcs" for svcs w by force
  show ?thesis
  proof (cases "map_get root ''services''")
    case None
    then show ?thesis by (simp add: services_ok_def remap_services_def map_get_update)
  next
    case (Some v)
    then show ?thesis
      by (cases v) (simp_all add: services_ok_def remap_services_def map_get_update all keys del: set_map image_set)
  qed
qed

subsection \<open>Well-formed documents\<close>

text \<open>What the YAML reader produces and the writer preserves: no mapping has a key twice.\<close>

fun yaml_wf :: "yaml \<Rightarrow> bool" where
  "yaml_wf (YSeq xs) \<longleftrightarrow> (\<forall>x \<in> set xs. yaml_wf x)"
| "yaml_wf (YMap m) \<longleftrightarrow> distinct (map fst m) \<and> (\<forall>e \<in> set m. yaml_wf (fst e) \<and> yaml_wf (snd e))"
| "yaml_wf _ \<longleftrightarrow> True"

lemma yaml_update_keys [simp]: "map fst (yaml_update k f m) = map fst m"
  by (induction k f m rule: yaml_update.induct) auto

lemma yaml_update_entry: "e \<in> set (yaml_update k f m) \<Longrightarrow> e \<in> set m \<or> (\<exists>v. (YStr k, v) \<in> set m \<and> e = (YStr k, f v))"
  by (induction k f m rule: yaml_update.induct) (auto split: if_splits)

lemma wf_update:
  assumes "yaml_wf (YMap m)" "\<And>v. yaml_wf v \<Longrightarrow> yaml_wf (f v)"
  shows "yaml_wf (YMap (yaml_update k f m))"
proof -
  have "yaml_wf (fst e) \<and> yaml_wf (snd e)" if "e \<in> set (yaml_update k f m)" for e
    using yaml_update_entry [OF that] assms by auto
  with assms(1) show ?thesis by simp
qed

lemma yaml_insert_entry: "e \<in> set (yaml_insert k w m) \<Longrightarrow> e \<in> set m \<or> e = (YStr k, w)"
  by (induction k w m rule: yaml_insert.induct) (auto split: if_splits)

lemma yaml_insert_keys: "fst ` set (yaml_insert k w m) = insert (YStr k) (fst ` set m)"
  by (induction k w m rule: yaml_insert.induct) auto

lemma wf_insert: "yaml_wf (YMap m) \<Longrightarrow> yaml_wf w \<Longrightarrow> yaml_wf (YMap (yaml_insert k w m))"
proof (induction k w m rule: yaml_insert.induct)
  case (2 key w k v m)
  have keys: "fst ` set (yaml_insert key w m) = insert (YStr key) (fst ` set m)" by (rule yaml_insert_keys)
  from 2 show ?case by (auto simp: keys)
qed simp

lemma wf_remap_volume: "yaml_wf v \<Longrightarrow> yaml_wf (remap_volume v)"
  by (simp add: remap_volume_def split: option.splits prod.splits)

lemma wf_remap_service: "yaml_wf s \<Longrightarrow> yaml_wf (remap_service s)"
proof (cases s)
  case (YMap m)
  assume "yaml_wf s"
  then show ?thesis unfolding YMap remap_service_def yaml.case
    by (intro wf_update) (auto simp: wf_remap_volume split: yaml.splits simp del: yaml_wf.simps(2))
qed (simp_all add: remap_service_def)

lemma wf_remap_services: "yaml_wf (YMap root) \<Longrightarrow> yaml_wf (YMap (remap_services root))"
  unfolding remap_services_def
proof (intro wf_update)
  fix v assume "yaml_wf v"
  then show "yaml_wf (case v of YMap svcs \<Rightarrow> YMap (map (\<lambda>(n, s). (n, remap_service s)) svcs) | _ \<Rightarrow> v)"
    by (cases v) (auto simp: wf_remap_service split_def comp_def)
qed

lemma wf_register: "yaml_wf (YMap vols) \<Longrightarrow> yaml_wf (YMap (fold register_volume names vols))"
  by (induction names arbitrary: vols) (simp_all add: register_volume_def wf_insert del: yaml_wf.simps(2))

section \<open>Properties\<close>

lemma remapped_document:
  assumes "yaml_wf (YMap root)" "volumes_added (YMap root) = added" "added \<noteq> []"
    "remap_host_binds_to_named_volumes from_str to_str contents = Inr c" "from_str contents = Some (YMap root)"
  obtains root' where "c = to_str (YMap root')" "yaml_wf (YMap root')"
    "map_get root' ''services'' = map_get (remap_services root) ''services''"
    "\<exists>vols. map_get root' ''volumes'' = Some (YMap (fold register_volume added vols))
      \<and> (map_get root ''volumes'' = Some (YMap vols) \<or> map_get root ''volumes'' = None \<and> vols = [])"
proof -
  let ?r = "remap_services root"
  define r2 where "r2 = (if map_has ?r ''volumes'' then ?r else yaml_insert ''volumes'' (YMap []) ?r)"
  have wf: "yaml_wf (YMap r2)" using wf_remap_services [OF assms(1)] wf_insert [of ?r "YMap []" "''volumes''"]
    by (cases "map_has ?r ''volumes''") (simp_all add: r2_def)
  obtain vols where vols: "map_get r2 ''volumes'' = Some (YMap vols)"
    and c: "c = to_str (YMap (yaml_update ''volumes'' (\<lambda>_. YMap (fold register_volume added vols)) r2))"
    using assms(3,4) by (auto simp: remap_host_binds_to_named_volumes_def assms(2,5) Let_def r2_def [symmetric]
        split: option.splits yaml.splits)
  have old: "map_get root ''volumes'' = Some (YMap vols) \<or> map_get root ''volumes'' = None \<and> vols = []"
    using vols by (auto simp: r2_def map_get_insert map_has_def remap_services_def map_get_update split: if_splits)
  have "(YStr ''volumes'', YMap vols) \<in> set r2" using vols by (auto simp: map_get_def dest: map_of_SomeD)
  then have "yaml_wf (YMap vols)" using wf unfolding yaml_wf.simps(2) [of r2] by (metis snd_conv)
  then have "yaml_wf (YMap (fold register_volume added vols))" by (rule wf_register)
  then have wf': "yaml_wf (YMap (yaml_update ''volumes'' (\<lambda>_. YMap (fold register_volume added vols)) r2))"
    using wf by (intro wf_update)
  have svcs: "map_get r2 ''services'' = map_get ?r ''services''" by (simp add: r2_def map_get_insert)
  show ?thesis by (rule that [OF c wf']) (use svcs vols old in \<open>auto simp: map_get_update\<close>)
qed



text \<open>
  C22: the preview and the agent agree.  The agent accepts a Compose file, after moving its relative binds onto
  managed volumes, exactly when the preview has no warning for it and every volume name it makes up fits
  the 48 characters that a volume name may have.  The second condition is not part of the preview.
\<close>

theorem preview_agrees_with_agent:
  assumes "\<And>c y. from_str c = Some y \<Longrightarrow> yaml_wf y" "\<And>y. yaml_wf y \<Longrightarrow> from_str (to_str y) = Some y"
    "from_str contents = Some y"
  shows "(\<exists>c. remap_host_binds_to_named_volumes from_str to_str contents = Inr c \<and> validate_compose_subset from_str c web = Inr ())
    \<longleftrightarrow> compose_subset_warnings from_str contents web = [] \<and> (\<forall>n \<in> set (volumes_added y). length n \<le> 48)"
proof (cases "\<exists>root. y = YMap root \<and> volumes_added y \<noteq> []")
  case False
  then have same: "remap_host_binds_to_named_volumes from_str to_str contents = Inr contents" and none: "volumes_added y = []"
    by (cases y; simp add: remap_host_binds_to_named_volumes_def assms(3) Let_def volumes_added_def yaml_get_def)+
  have "service_ok False e \<longleftrightarrow> service_ok True e"
    if s: "yaml_get y ''services'' = Some (YMap svcs)" "e \<in> set svcs" for svcs e
  proof -
    have "set (sort (remdups (concat (map (\<lambda>(_, s). service_added s) svcs)))) = {}"
      using none s(1) by (simp add: volumes_added_def)
    then have "\<forall>e \<in> set svcs. set (service_added (snd e)) = {}" by (auto simp: split_def)
    then have "service_added (snd e) = []" using s(2) by auto
    then show ?thesis using remap_service_ok [of "fst e" "snd e"] by (simp add: remap_service_same)
  qed
  then have "document_errors y web False = [] \<longleftrightarrow> document_errors y web True = []"
    unfolding document_errors_Nil by metis
  then show ?thesis unfolding same
    by (simp add: none validate_compose_subset_def compose_subset_warnings_def compose_subset_errors_def assms(3) Let_def)
next
  case True
  then obtain root where y: "y = YMap root" and added: "volumes_added y \<noteq> []" by blast
  have wf: "yaml_wf (YMap root)" using assms(1,3) y by blast
  have valid: "validate_compose_volume_name n = Inr () \<longleftrightarrow> length n \<le> 48" if "n \<in> set (volumes_added y)" for n
    using volumes_added_managed [OF that] managed_volume_name_valid by blast
  have preview: "compose_subset_warnings from_str contents web = [] \<longleftrightarrow> validate_compose_service_name web = Inr ()
      \<and> (\<forall>v. map_get root ''volumes'' = Some v \<longrightarrow> top_level_ok v) \<and> services_ok True web root"
    by (simp add: compose_subset_warnings_def compose_subset_errors_def assms(3) y document_errors_Nil services_ok_def)
  have strict: "validate_compose_subset from_str (to_str (YMap r)) web = Inr () \<longleftrightarrow> validate_compose_service_name web = Inr ()
      \<and> (\<forall>v. map_get r ''volumes'' = Some v \<longrightarrow> top_level_ok v) \<and> services_ok False web r" if "yaml_wf (YMap r)" for r
    using assms(2) [OF that]
    by (simp add: validate_compose_subset_def compose_subset_errors_def Let_def document_errors_Nil services_ok_def)
  show ?thesis
  proof (cases "remap_host_binds_to_named_volumes from_str to_str contents")
    case (Inl e)
    then have "\<exists>v. map_get root ''volumes'' = Some v \<and> (\<nexists>vols. v = YMap vols)"
      using added by (auto simp: remap_host_binds_to_named_volumes_def assms(3) y Let_def map_has_def remap_services_def
          map_get_update map_get_insert split: option.splits yaml.splits if_splits)
    then have "compose_subset_warnings from_str contents web \<noteq> []" unfolding preview top_level_ok_def by blast
    with Inl show ?thesis by simp
  next
    case (Inr c)
    obtain root' vols where r: "c = to_str (YMap root')" "yaml_wf (YMap root')"
      "map_get root' ''services'' = map_get (remap_services root) ''services''"
      "map_get root' ''volumes'' = Some (YMap (fold register_volume (volumes_added y) vols))"
      "map_get root ''volumes'' = Some (YMap vols) \<or> map_get root ''volumes'' = None \<and> vols = []"
      by (rule remapped_document [OF wf _ added Inr]) (auto simp: y assms(3))
    have "top_level_ok (YMap (fold register_volume (volumes_added y) vols))
      \<longleftrightarrow> top_level_ok (YMap vols) \<and> (\<forall>n \<in> set (volumes_added y). length n \<le> 48)"
      using valid by (simp add: register_volumes_ok)
    moreover have "top_level_ok (YMap [])" by (simp add: top_level_ok_def)
    moreover have "services_ok False web root' \<longleftrightarrow> services_ok True web root"
      using remap_services_ok [of web root] r(3) by (simp add: services_ok_def)
    ultimately show ?thesis using Inr strict [OF r(2)] r(1,4,5) unfolding preview by auto
  qed
qed



lemma insert_services_ok:
  assumes "\<forall>e \<in> set svcs. service_ok False e" "\<forall>a \<in> set addons. service_ok False (YStr (ao_service_name a), add_on_service a)"
  shows "(\<forall>e \<in> set (fold (\<lambda>a. yaml_insert (ao_service_name a) (add_on_service a)) addons svcs). service_ok False e)
    \<and> fst ` set svcs \<subseteq> fst ` set (fold (\<lambda>a. yaml_insert (ao_service_name a) (add_on_service a)) addons svcs)"
  using assms
proof (induction addons arbitrary: svcs)
  case (Cons a addons)
  let ?s = "yaml_insert (ao_service_name a) (add_on_service a) svcs"
  have "\<forall>e \<in> set ?s. service_ok False e" using Cons.prems yaml_insert_entry by fastforce
  then have "(\<forall>e \<in> set (fold (\<lambda>a. yaml_insert (ao_service_name a) (add_on_service a)) addons ?s). service_ok False e)
    \<and> fst ` set ?s \<subseteq> fst ` set (fold (\<lambda>a. yaml_insert (ao_service_name a) (add_on_service a)) addons ?s)"
    using Cons.IH [of ?s] Cons.prems(2) by simp
  then show ?case using yaml_insert_keys [of "ao_service_name a" "add_on_service a" svcs] by auto
qed simp

lemma insert_volumes_ok:
  assumes "top_level_ok (YMap m)" "\<forall>v \<in> set vs. validate_compose_volume_name (hd (split_char CHR '':'' v)) = Inr ()"
  shows "top_level_ok (YMap (fold (\<lambda>v. yaml_insert (hd (split_char CHR '':'' v)) YNull) vs m))"
  using assms
proof (induction vs arbitrary: m)
  case (Cons v vs)
  have "top_level_ok (YMap (yaml_insert (hd (split_char CHR '':'' v)) YNull m))"
    using Cons.prems yaml_insert_entry
    by (fastforce simp: top_level_ok_def top_level_volume_errors_def dest!: yaml_insert_entry)
  then show ?case using Cons by simp
qed simp

lemma catalog_ok:
  "\<forall>a \<in> set add_on_catalog. service_ok False (YStr (ao_service_name a), add_on_service a)"
  "\<forall>a \<in> set add_on_catalog. \<forall>v \<in> set (ao_volumes a). validate_compose_volume_name (hd (split_char CHR '':'' v)) = Inr ()"
  by (simp_all add: add_on_catalog_def add_on_service_def add_on_var_def service_ok_def short_ok Let_def
      forbidden_service_fields_def map_has_def map_get_def validate_compose_volume_name_def validate_compose_service_name_def
      starts_with_def ends_with_def is_host_bind_source_def docker_socket_path_def char_defs)

lemma generated_document_ok:
  assumes "set addons \<subseteq> set add_on_catalog" "validate_compose_service_name web = Inr ()"
  shows "document_errors (generated_document web addons) web False = []"
proof -
  define w where "w = YMap ((YStr ''image'', YStr ''${HOSTLET_WEB_IMAGE}'')
      # (if addons = [] then [] else [(YStr ''depends_on'', YSeq (map (\<lambda>a. YStr (ao_service_name a)) addons))]))"
  have w: "service_ok False (YStr web, w)"
    using assms(2) by (simp add: service_ok_def w_def forbidden_service_fields_def map_has_def map_get_def)
  have "\<forall>a \<in> set addons. service_ok False (YStr (ao_service_name a), add_on_service a)"
    using assms(1) catalog_ok(1) by blast
  then have svcs: "(\<forall>e \<in> set (fold (\<lambda>a. yaml_insert (ao_service_name a) (add_on_service a)) addons [(YStr web, w)]). service_ok False e)
      \<and> YStr web \<in> fst ` set (fold (\<lambda>a. yaml_insert (ao_service_name a) (add_on_service a)) addons [(YStr web, w)])"
    using insert_services_ok [of "[(YStr web, w)]" addons] w by auto
  have "\<forall>v \<in> set (concat (map ao_volumes addons)). validate_compose_volume_name (hd (split_char CHR '':'' v)) = Inr ()"
    using assms(1) catalog_ok(2) by fastforce
  then have "top_level_ok (YMap (fold (\<lambda>v. yaml_insert (hd (split_char CHR '':'' v)) YNull) (concat (map ao_volumes addons)) []))"
    by (intro insert_volumes_ok) (simp_all add: top_level_ok_def)
  then show ?thesis using svcs assms(2)
    by (simp add: document_errors_Nil generated_document_def Let_def w_def [symmetric] map_get_def)
qed

lemma wf_fold_insert:
  "yaml_wf (YMap m) \<Longrightarrow> \<forall>x \<in> set xs. yaml_wf (g x) \<Longrightarrow> yaml_wf (YMap (fold (\<lambda>x. yaml_insert (f x) (g x)) xs m))"
  by (induction xs arbitrary: m) (simp_all add: wf_insert del: yaml_wf.simps(2))

lemma generated_document_wf:
  assumes "set addons \<subseteq> set add_on_catalog"
  shows "yaml_wf (generated_document web addons)"
proof -
  have "\<forall>a \<in> set add_on_catalog. yaml_wf (add_on_service a)"
    by (simp add: add_on_catalog_def add_on_service_def add_on_var_def)
  then have a: "\<forall>a \<in> set addons. yaml_wf (add_on_service a)" using assms by blast
  have svcs: "yaml_wf (YMap (fold (\<lambda>a. yaml_insert (ao_service_name a) (add_on_service a)) addons
      [(YStr web, YMap ((YStr ''image'', YStr ''${HOSTLET_WEB_IMAGE}'')
        # (if addons = [] then [] else [(YStr ''depends_on'', YSeq (map (\<lambda>a. YStr (ao_service_name a)) addons))])))]))"
    by (rule wf_fold_insert [OF _ a]) simp
  have vols: "yaml_wf (YMap (fold (\<lambda>v. yaml_insert (hd (split_char CHR '':'' v)) YNull) (concat (map ao_volumes addons)) []))"
    by (rule wf_fold_insert) simp_all
  show ?thesis using svcs vols by (simp add: generated_document_def Let_def)
qed

lemma choose_addons_catalog:
  "choose_addons secret items chosen st = Inr (chosen', env) \<Longrightarrow> set chosen \<subseteq> set add_on_catalog \<Longrightarrow>
    distinct (map ao_service_name chosen) \<Longrightarrow>
    set chosen' \<subseteq> set add_on_catalog \<and> distinct (map ao_service_name chosen') \<and> length chosen' = length chosen + length items"
proof (induction secret items chosen st rule: choose_addons.induct)
  case (2 secret item items chosen st)
  obtain key a where a: "get_str item ''key'' = Some key" "find (\<lambda>a. ao_key a = key) add_on_catalog = Some a"
      "ao_service_name a \<notin> set (map ao_service_name chosen)"
    using "2.prems"(1) by (auto split: option.splits if_splits)
  have "a \<in> set add_on_catalog" using find_SomeD [OF a(2)] by blast
  with "2.IH" [OF a(1,2,3)] "2.prems" a show ?case by (auto simp: Let_def)
qed simp

text \<open>
  The Compose file that is generated for managed add-ons always passes the gate of the agent, whatever
  add-ons of the catalogue were requested; no add-on is in it twice.
\<close>

theorem generated_compose_accepted:
  assumes "resolve_managed_addons to_str rc web port health secret = Inr (Some (rc', env))"
    "validate_compose_service_name web = Inr ()" "\<And>y. yaml_wf y \<Longrightarrow> from_str (to_str y) = Some y"
  shows "\<exists>addons. set addons \<subseteq> set add_on_catalog \<and> distinct (map ao_service_name addons)
    \<and> json_pointer rc' [''generatedCompose'', ''compose''] = Some (JStr (to_str (generated_document web addons)))
    \<and> validate_compose_subset from_str (to_str (generated_document web addons)) web = Inr ()"
proof -
  obtain addons items where addons: "rc' = json_insert ''generatedCompose'' (generated_compose_json (generate_compose to_str web port health addons)) rc"
      "is_object rc" and chosen: "choose_addons secret items [] (0, []) = Inr (addons, env)"
    using assms(1) unfolding resolve_managed_addons_def
    by (auto simp: and_then_Inr_iff simp del: choose_addons.simps split: option.splits list.splits if_splits)
  have "set addons \<subseteq> set add_on_catalog" "distinct (map ao_service_name addons)"
    using choose_addons_catalog [OF chosen] by simp_all
  note addons = addons this
  have "json_pointer rc' [''generatedCompose'', ''compose''] = Some (JStr (to_str (generated_document web addons)))"
    by (simp add: addons(1) json_get_insert addons(2) generated_compose_json_def generate_compose_def) (simp add: json_get_def)
  moreover have "validate_compose_subset from_str (to_str (generated_document web addons)) web = Inr ()"
    using assms(3) [OF generated_document_wf [OF addons(3)]] generated_document_ok [OF addons(3) assms(2)]
    by (simp add: validate_compose_subset_def compose_subset_errors_def Let_def)
  ultimately show ?thesis using addons(3,4) by blast
qed

end
