(* ===== verification/Inference.thy ===== *)
theory Inference
  imports Compose_Subset Topology
begin

text \<open>
  Inference from the files of a repository (\<open>inference.rs\<close> of the contracts crate): the package manager and
  framework of a Node package, the start command that manifests suggest, the managed services that dependencies
  imply, what a Dockerfile says, and the inspection responses that report all this.  The JSON and YAML
  readers are parameters; a \<open>HashSet\<close> of identifiers is a list, which the code only searches.
\<close>

section \<open>Node packages\<close>

record package_inference =
  pi_framework :: string
  pi_package_manager :: string

definition parsed_or_empty :: "(string \<Rightarrow> json option) \<Rightarrow> string \<Rightarrow> json" where
  "parsed_or_empty parse contents = (case parse contents of Some v \<Rightarrow> v | None \<Rightarrow> JObj [])"

definition package_manager_from_field :: "string \<Rightarrow> string option" where
  "package_manager_from_field value =
     (let manager = hd (split_char CHR ''@'' value)
      in if manager \<in> {''bun'', ''pnpm'', ''yarn'', ''npm''} then Some manager else None)"

definition infer_package_manager :: "(string \<Rightarrow> json option) \<Rightarrow> string \<Rightarrow> bool \<Rightarrow> bool \<Rightarrow> bool \<Rightarrow> string" where
  "infer_package_manager parse package_json has_bun_lock has_pnpm_lock has_yarn_lock =
     (case Option.bind (get_str (parsed_or_empty parse package_json) ''packageManager'') package_manager_from_field of
        Some manager \<Rightarrow> manager
      | None \<Rightarrow> if has_bun_lock then ''bun'' else if has_pnpm_lock then ''pnpm'' else if has_yarn_lock then ''yarn'' else ''npm'')"

definition framework_of :: "string list \<Rightarrow> string" where
  "framework_of deps =
     (if ''next'' \<in> set deps then ''Next.js'' else if ''astro'' \<in> set deps then ''Astro''
      else if ''nuxt'' \<in> set deps then ''Nuxt''
      else if ''@remix-run/node'' \<in> set deps \<or> ''@remix-run/react'' \<in> set deps then ''Remix''
      else if ''@sveltejs/kit'' \<in> set deps then ''SvelteKit'' else if ''vite'' \<in> set deps then ''Vite'' else ''Node'')"

definition infer_package_json :: "(string \<Rightarrow> json option) \<Rightarrow> string \<Rightarrow> bool \<Rightarrow> bool \<Rightarrow> bool \<Rightarrow> package_inference" where
  "infer_package_json parse contents has_bun_lock has_pnpm_lock has_yarn_lock =
     (let package = parsed_or_empty parse contents
      in \<lparr> pi_framework = framework_of (object_keys package ''dependencies'' @ object_keys package ''devDependencies''),
           pi_package_manager = infer_package_manager parse contents has_bun_lock has_pnpm_lock has_yarn_lock \<rparr>)"

section \<open>Start commands\<close>

record command_suggestion =
  cmd_command :: string
  cmd_source_file :: string
  cmd_source_detail :: string
  cmd_confidence :: string

record repo_command_files =
  cf_procfile :: "string option"
  cf_package_json :: "string option"
  cf_railway_json :: "string option"
  cf_render_yaml :: "(string \<times> string) option"
  cf_dockerfile :: "string option"

definition make_suggestion :: "string \<Rightarrow> string \<Rightarrow> string \<Rightarrow> string \<Rightarrow> command_suggestion option" where
  "make_suggestion command src_file source_detail confidence =
     (case clean_command (Some command) of
        Inr (Some c) \<Rightarrow> Some \<lparr> cmd_command = c, cmd_source_file = src_file, cmd_source_detail = source_detail,
          cmd_confidence = confidence \<rparr>
      | _ \<Rightarrow> None)"

fun procfile_lines :: "string list \<Rightarrow> command_suggestion option" where
  "procfile_lines [] = None"
| "procfile_lines (l # ls) =
     (let line = trim l in
      if line = [] \<or> starts_with line ''#'' then procfile_lines ls
      else case split_once_char CHR '':'' line of
        None \<Rightarrow> procfile_lines ls
      | Some (process, command) \<Rightarrow>
          if trim process = ''web'' then make_suggestion (trim command) ''Procfile'' ''web'' ''high'' else procfile_lines ls)"

definition procfile_start_command :: "string \<Rightarrow> command_suggestion option" where
  "procfile_start_command contents = procfile_lines (str_lines contents)"

definition package_script_command :: "string \<Rightarrow> string \<Rightarrow> string" where
  "package_script_command package_manager script =
     (if package_manager = ''bun'' then ''bun run '' @ script else package_manager @ '' run '' @ script)"

fun first_script :: "json \<Rightarrow> string \<Rightarrow> string list \<Rightarrow> command_suggestion option" where
  "first_script scripts manager [] = None"
| "first_script scripts manager (script # rest) =
     (case get_str scripts script of
        None \<Rightarrow> first_script scripts manager rest
      | Some command \<Rightarrow>
          if trim command = [] then first_script scripts manager rest
          else case clean_command (Some command) of
            Inr (Some _) \<Rightarrow> make_suggestion (package_script_command manager script) ''package.json'' (''scripts.'' @ script)
              (if script = ''start'' then ''high'' else ''medium'')
          | _ \<Rightarrow> None)"

definition package_json_start_command :: "(string \<Rightarrow> json option) \<Rightarrow> string \<Rightarrow> command_suggestion option" where
  "package_json_start_command parse contents =
     (case Option.bind (parse contents) (\<lambda>package. json_get package ''scripts'') of
        Some (JObj scripts) \<Rightarrow>
          first_script (JObj scripts) (infer_package_manager parse contents False False False) [''start'', ''preview'', ''serve'']
      | _ \<Rightarrow> None)"

definition railway_start_command :: "(string \<Rightarrow> json option) \<Rightarrow> string \<Rightarrow> command_suggestion option" where
  "railway_start_command parse contents = Option.bind (parse contents) (\<lambda>value.
     case Option.bind (json_pointer value [''deploy'', ''startCommand'']) as_str of
       Some command \<Rightarrow> make_suggestion command ''railway.json'' ''deploy.startCommand'' ''medium''
     | None \<Rightarrow> (case get_str value ''startCommand'' of
         Some command \<Rightarrow> make_suggestion command ''railway.json'' ''startCommand'' ''medium'' | None \<Rightarrow> None))"

fun first_service_command :: "string \<Rightarrow> nat \<Rightarrow> yaml list \<Rightarrow> command_suggestion option" where
  "first_service_command src_file index [] = None"
| "first_service_command src_file index (service # rest) =
     (case Option.bind (yaml_get service ''startCommand'') yaml_str of
        None \<Rightarrow> first_service_command src_file (Suc index) rest
      | Some command \<Rightarrow> make_suggestion command src_file (''services['' @ show_nat index @ ''].startCommand'') ''medium'')"

definition render_start_command :: "(string \<Rightarrow> yaml option) \<Rightarrow> string \<times> string \<Rightarrow> command_suggestion option" where
  "render_start_command from_str file =
     (case Option.bind (Option.bind (from_str (snd file)) (\<lambda>v. yaml_get v ''services'')) yaml_sequence of
        None \<Rightarrow> None | Some svcs \<Rightarrow> first_service_command (fst file) 0 svcs)"

definition to_ascii_uppercase :: "char \<Rightarrow> char" where
  "to_ascii_uppercase c = (if is_ascii_lowercase c then char_of (byte c - 32) else c)"

definition uppercase :: "string \<Rightarrow> string" where
  "uppercase s = map to_ascii_uppercase s"

definition docker_instruction :: "string \<Rightarrow> (string \<times> string) option" where
  "docker_instruction l =
     (let line = trim l in
      if starts_with (uppercase line) ''CMD '' then Some (''CMD'', trim (drop 4 line))
      else if starts_with (uppercase line) ''ENTRYPOINT '' then Some (''ENTRYPOINT'', trim (drop 10 line)) else None)"

definition json_strings :: "json \<Rightarrow> string list option" where
  "json_strings v = (case v of JArr xs \<Rightarrow> those (map as_str xs) | _ \<Rightarrow> None)"

definition docker_instruction_command :: "(string \<Rightarrow> json option) \<Rightarrow> string \<Rightarrow> string option" where
  "docker_instruction_command parse raw =
     (if starts_with raw ''['' then
        (case Option.bind (parse raw) json_strings of
           None \<Rightarrow> None | Some parts \<Rightarrow> let command = join_with '' '' parts in if trim command = [] then None else Some command)
      else if trim raw = [] then None else Some raw)"

definition dockerfile_start_command :: "(string \<Rightarrow> json option) \<Rightarrow> string \<Rightarrow> command_suggestion option" where
  "dockerfile_start_command parse contents =
     (case rev (List.map_filter docker_instruction (str_lines contents)) of
        [] \<Rightarrow> None
      | (instruction, raw) # _ \<Rightarrow> Option.bind (docker_instruction_command parse raw)
          (\<lambda>command. make_suggestion command ''Dockerfile'' instruction ''low''))"

definition detect_start_command ::
    "(string \<Rightarrow> json option) \<Rightarrow> (string \<Rightarrow> yaml option) \<Rightarrow> repo_command_files \<Rightarrow> command_suggestion option" where
  "detect_start_command parse from_str files =
     coalesce (Option.bind (cf_procfile files) procfile_start_command)
     (coalesce (Option.bind (cf_package_json files) (package_json_start_command parse))
     (coalesce (Option.bind (cf_railway_json files) (railway_start_command parse))
     (coalesce (Option.bind (cf_render_yaml files) (render_start_command from_str))
       (Option.bind (cf_dockerfile files) (dockerfile_start_command parse)))))"

definition suggestion_json :: "command_suggestion \<Rightarrow> json" where
  "suggestion_json s = JObj [(''command'', JStr (cmd_command s)), (''sourceFile'', JStr (cmd_source_file s)),
     (''sourceDetail'', JStr (cmd_source_detail s)), (''confidence'', JStr (cmd_confidence s))]"

definition with_command_suggestion :: "json \<Rightarrow> command_suggestion option \<Rightarrow> json" where
  "with_command_suggestion inspection suggestion =
     (case suggestion of None \<Rightarrow> inspection
      | Some s \<Rightarrow> json_insert ''commandSuggestions'' (JObj [(''start'', suggestion_json s)]) inspection)"

section \<open>Detected services\<close>

record detected_services =
  ds_addons :: "string list"
  ds_warnings :: "string list"

definition catalog_position :: "string \<Rightarrow> nat" where
  "catalog_position key = length (takeWhile (\<lambda>a. ao_key a \<noteq> key) add_on_catalog)"

text \<open>A key that is not in the catalogue comes last, as with \<open>usize::MAX\<close>.\<close>

definition sort_to_catalog_order :: "detected_services \<Rightarrow> detected_services" where
  "sort_to_catalog_order d = d\<lparr> ds_addons := sort_key catalog_position (ds_addons d) \<rparr>"

definition push_new :: "string \<Rightarrow> string list \<Rightarrow> string list" where
  "push_new x xs = (if x \<in> set xs then xs else xs @ [x])"

definition merge :: "detected_services \<Rightarrow> detected_services \<Rightarrow> detected_services" where
  "merge d other = sort_to_catalog_order \<lparr> ds_addons = fold push_new (ds_addons other) (ds_addons d),
     ds_warnings = fold push_new (ds_warnings other) (ds_warnings d) \<rparr>"

record service_signal =
  sg_needle :: string
  sg_service :: string
  sg_exact :: bool

definition signal :: "string \<Rightarrow> string \<Rightarrow> bool \<Rightarrow> service_signal" where
  "signal needle service exact = \<lparr> sg_needle = needle, sg_service = service, sg_exact = exact \<rparr>"

definition service_signals :: "service_signal list" where
  "service_signals =
     [signal ''pg'' ''postgres'' True, signal ''pg-promise'' ''postgres'' True, signal ''postgres'' ''postgres'' False,
      signal ''postgresql'' ''postgres'' False, signal ''psycopg'' ''postgres'' False, signal ''asyncpg'' ''postgres'' False,
      signal ''tokio-postgres'' ''postgres'' False, signal ''lib/pq'' ''postgres'' False, signal ''pgx'' ''postgres'' False,
      signal ''prisma'' ''postgres'' False, signal ''sequelize'' ''postgres'' False, signal ''typeorm'' ''postgres'' False,
      signal ''drizzle-orm'' ''postgres'' False, signal ''knex'' ''postgres'' False, signal ''redis'' ''redis'' False,
      signal ''bull'' ''redis'' True, signal ''bullmq'' ''redis'' True, signal ''mongoose'' ''mongodb'' False,
      signal ''mongodb'' ''mongodb'' False, signal ''mongo'' ''mongodb'' False, signal ''mysql'' ''mysql'' False,
      signal ''mariadb'' ''mysql'' False]"

definition package_json_dependencies :: "(string \<Rightarrow> json option) \<Rightarrow> string \<Rightarrow> string list" where
  "package_json_dependencies parse contents =
     (let package = parsed_or_empty parse contents
      in map (map to_ascii_lowercase) (object_keys package ''dependencies'' @ object_keys package ''devDependencies''))"

definition token_char :: "char \<Rightarrow> bool" where
  "token_char c \<longleftrightarrow> is_ascii_alphanumeric c \<or> c \<in> {CHR ''/'', CHR ''.'', CHR ''-'', CHR ''_'', CHR ''@''}"

fun tokens_from :: "string \<Rightarrow> string \<Rightarrow> string list" where
  "tokens_from acc [] = [acc]"
| "tokens_from acc (c # s) = (if token_char c then tokens_from (acc @ [c]) s else acc # tokens_from [] s)"

definition manifest_dependency_tokens :: "string \<Rightarrow> string list" where
  "manifest_dependency_tokens contents =
     filter (\<lambda>token. 2 \<le> length token) (tokens_from [] (map to_ascii_lowercase contents))"

definition signal_matches :: "string list \<Rightarrow> service_signal \<Rightarrow> bool" where
  "signal_matches identifiers s \<longleftrightarrow>
     list_ex (\<lambda>i. if sg_exact s then i = sg_needle s else str_contains i (sg_needle s)) identifiers"

definition skip_warning :: "string \<Rightarrow> string" where
  "skip_warning service = ''Detected a '' @ service @ '' dependency, but Hostlet has no managed '' @ service
     @ '' add-on yet, so it was skipped. Bring your own compose to run it yourself.''"

definition in_catalog :: "string \<Rightarrow> bool" where
  "in_catalog key \<longleftrightarrow> list_ex (\<lambda>a. ao_key a = key) add_on_catalog"

definition infer_service_addons :: "string list \<Rightarrow> detected_services" where
  "infer_service_addons identifiers =
     (let svcs = fold push_new (map sg_service (filter (signal_matches identifiers) service_signals)) []
      in sort_to_catalog_order \<lparr> ds_addons = filter in_catalog svcs,
           ds_warnings = map skip_warning (filter (\<lambda>s. \<not> in_catalog s) svcs) \<rparr>)"

definition infer_addons_from_compose :: "(string \<Rightarrow> yaml option) \<Rightarrow> string \<Rightarrow> detected_services" where
  "infer_addons_from_compose from_str compose_yaml =
     infer_service_addons (map (\<lambda>i. map to_ascii_lowercase (hd (split_char CHR '':'' i)))
       (List.map_filter ss_image (parse_compose_services from_str compose_yaml [])))"

definition summary_json :: "service_summary \<Rightarrow> json" where
  "summary_json s = JObj [(''name'', JStr (ss_name s)), (''role'', JStr (ss_role s)), (''image'', json_opt_str (ss_image s)),
     (''build'', JBool (ss_build s)), (''ports'', JArr (map JStr (ss_ports s))), (''volumes'', JArr (map JStr (ss_volumes s)))]"

definition chosen_addons :: "detected_services \<Rightarrow> add_on list" where
  "chosen_addons d = List.map_filter (\<lambda>key. find (\<lambda>a. ao_key a = key) add_on_catalog) (ds_addons d)"

definition web_summary :: service_summary where
  "web_summary = \<lparr> ss_name = ''web'', ss_role = ''web'', ss_image = None, ss_build = True, ss_ports = [], ss_volumes = [] \<rparr>"

definition add_on_summary :: "add_on \<Rightarrow> service_summary" where
  "add_on_summary a = \<lparr> ss_name = ao_service_name a, ss_role = ''backing'', ss_image = Some (ao_image a), ss_build = False,
     ss_ports = [], ss_volumes = ao_volumes a \<rparr>"

definition detected_note :: "add_on list \<Rightarrow> string" where
  "detected_note chosen = ''Hostlet auto-detected '' @ join_with '', '' (map ao_name chosen)
     @ '' from your dependencies and will run '' @ (if length chosen = 1 then ''it'' else ''them'') @ '' as a managed service''
     @ (if length chosen = 1 then [] else ''s'') @ '', injecting connection details (e.g. DATABASE_URL) into your app.''"

definition addons_config :: "string list \<Rightarrow> json" where
  "addons_config keys = JObj [(''compose'', JObj [(''addOns'', JArr (map (\<lambda>key. JObj [(''key'', JStr key)]) keys))])]"

definition push_notes :: "string list \<Rightarrow> json \<Rightarrow> json" where
  "push_notes notes j = (case json_get j ''warnings'' of
     Some (JArr ws) \<Rightarrow> if notes = [] then j else json_insert ''warnings'' (JArr (ws @ map JStr notes)) j
   | _ \<Rightarrow> j)"

definition with_detected_services :: "json \<Rightarrow> detected_services \<Rightarrow> json" where
  "with_detected_services inspection d =
     (if \<not> is_object inspection then inspection
      else if ds_addons d = [] then push_notes (ds_warnings d) inspection
      else let chosen = chosen_addons d;
               j = json_insert ''runtimeKind'' (JStr ''compose'') inspection;
               j = json_insert ''webService'' (JStr ''web'') j;
               j = json_insert ''services'' (JArr (map summary_json (web_summary # map add_on_summary chosen))) j;
               j = json_insert ''runtimeConfig'' (addons_config (ds_addons d)) j
           in push_notes (detected_note chosen # ds_warnings d) j)"

section \<open>Dockerfiles\<close>

record dockerfile_inference =
  df_port :: "int option"
  df_env :: "json list"
  df_warnings :: "string list"

definition parse_i32 :: "string \<Rightarrow> int option" where
  "parse_i32 s = parse_signed 2147483647 s"

definition valid_env_prompt_key :: "string \<Rightarrow> bool" where
  "valid_env_prompt_key key \<longleftrightarrow> key \<noteq> [] \<and> length key \<le> 128
     \<and> list_all (\<lambda>c. is_ascii_alphanumeric c \<or> c = CHR ''_'') key \<and> \<not> is_ascii_digit (hd key)"

definition exposed_ports :: "string \<Rightarrow> int list" where
  "exposed_ports args = List.map_filter (\<lambda>token. parse_i32 (hd (split_char CHR ''/'' token))) (split_whitespace args)"

definition prompted_env :: "string \<Rightarrow> json list" where
  "prompted_env args = List.map_filter (\<lambda>item. let key = trim (hd (split_char CHR ''='' item))
     in if valid_env_prompt_key key
        then Some (JObj [(''key'', JStr key), (''required'', JBool False), (''value'', JStr []), (''source'', JStr ''Dockerfile ENV'')])
        else None) (split_whitespace args)"

definition arg_warning :: "string \<Rightarrow> string list" where
  "arg_warning args = (let key = trim (hd (split_char CHR ''='' args)) in
     if valid_env_prompt_key key
     then [''Dockerfile declares build arg '' @ key @ ''; Hostlet does not prompt for build args yet.''] else [])"

definition scan_line :: "string \<Rightarrow> int list \<times> json list \<times> string list" where
  "scan_line l =
     (let line = trim l; upper = uppercase line in
      if starts_with upper ''EXPOSE '' then (exposed_ports (drop 7 line), [], [])
      else if starts_with upper ''ENV '' then ([], prompted_env (drop 4 line), [])
      else if starts_with upper ''ARG '' then ([], [], arg_warning (drop 4 line))
      else if starts_with upper ''VOLUME '' then ([], [], [''Dockerfile declares volumes. Hostlet provides /data automatically; ''
        @ ''verify the app persists data where expected.''])
      else ([], [], []))"

definition preferred_port :: "int list \<Rightarrow> int option" where
  "preferred_port ports =
     coalesce (find (\<lambda>p. p \<in> set ports) [3000, 8080, 8000, 80, 5000, 4000]) (find (\<lambda>p. p \<noteq> 22) ports)"

definition infer_dockerfile :: "string \<Rightarrow> dockerfile_inference" where
  "infer_dockerfile contents =
     (let scanned = map scan_line (str_lines contents);
          ports = sort (remdups (concat (map fst scanned))); preferred = preferred_port ports
      in \<lparr> df_port = preferred, df_env = concat (map (fst \<circ> snd) scanned),
           df_warnings = [''Public Dockerfiles run arbitrary build steps on this machine. ''
               @ ''Review the upstream project before deploying.'']
             @ concat (map (snd \<circ> snd) scanned)
             @ (if 1 < length ports then [''Dockerfile exposes multiple ports (['' @ join_with '', '' (map show_int ports)
                 @ '']); Hostlet selected '' @ show_int (case preferred of Some p \<Rightarrow> p | None \<Rightarrow> 3000) @ ''.''] else []) \<rparr>)"

section \<open>Inspection responses\<close>

record inspection_base_input =
  ib_repo :: string
  ib_branch :: string
  ib_default_branch :: string
  ib_deployable :: bool
  ib_container_port :: int
  ib_packaging_options :: "string list"
  ib_recommended_packaging_strategy :: string
  ib_env :: "json list"
  ib_warnings :: "string list"
  ib_summary :: string

definition repo_app_name :: "string \<Rightarrow> string" where
  "repo_app_name repo = (case split_char CHR ''/'' repo of _ # name # _ \<Rightarrow> name | _ \<Rightarrow> ''app'')"

definition inspection_base :: "inspection_base_input \<Rightarrow> json" where
  "inspection_base i = JObj [(''repoFullName'', JStr (ib_repo i)), (''defaultBranch'', JStr (ib_default_branch i)),
     (''branch'', JStr (ib_branch i)), (''appName'', JStr (repo_app_name (ib_repo i))), (''deployable'', JBool (ib_deployable i)),
     (''runtimeKind'', JStr ''single''), (''rootDirectory'', JStr ''.''), (''containerPort'', JInt (ib_container_port i)),
     (''healthPath'', JStr ''/''), (''hostletConfigPath'', JStr ''hostlet.yml''), (''runtimeConfig'', JObj []),
     (''packagingStrategy'', JStr ''auto''), (''packagingOptions'', JArr (map JStr (ib_packaging_options i))),
     (''recommendedPackagingStrategy'', JStr (ib_recommended_packaging_strategy i)), (''env'', JArr (ib_env i)),
     (''warnings'', JArr (map JStr (ib_warnings i))), (''summary'', JStr (ib_summary i)), (''autoDeployAvailable'', JBool False)]"

definition dockerfile_inspection :: "string \<Rightarrow> string \<Rightarrow> string \<Rightarrow> dockerfile_inference \<Rightarrow> json" where
  "dockerfile_inspection repo branch default_branch inference = inspection_base \<lparr> ib_repo = repo, ib_branch = branch,
     ib_default_branch = default_branch, ib_deployable = True,
     ib_container_port = (case df_port inference of Some p \<Rightarrow> p | None \<Rightarrow> 3000),
     ib_packaging_options = [''auto'', ''dockerfile'', ''generated''], ib_recommended_packaging_strategy = ''auto'',
     ib_env = df_env inference, ib_warnings = df_warnings inference,
     ib_summary = ''Dockerfile detected. Hostlet inferred a single-container runtime.'' \<rparr>"

definition node_inspection :: "string \<Rightarrow> string \<Rightarrow> string \<Rightarrow> package_inference \<Rightarrow> bool \<Rightarrow> json" where
  "node_inspection repo branch default_branch inference has_dockerfile =
     json_insert ''packageManager'' (JStr (pi_package_manager inference))
     (json_insert ''detectedFramework'' (JStr (pi_framework inference))
     (inspection_base \<lparr> ib_repo = repo, ib_branch = branch, ib_default_branch = default_branch, ib_deployable = True,
       ib_container_port = 3000,
       ib_packaging_options = (if has_dockerfile then [''auto'', ''generated'', ''dockerfile''] else [''auto'', ''generated'']),
       ib_recommended_packaging_strategy = ''generated'', ib_env = [],
       ib_warnings = (if has_dockerfile
         then [''Node app and Dockerfile detected. Hostlet recommends Railpack generated runtime; ''
             @ ''select repository Dockerfile only when the app depends on custom image setup.'',
           ''Set custom build/start commands if the Railpack preview is incomplete.'']
         else [''Node app detected. Hostlet will build it with Railpack. ''
             @ ''Set custom build/start commands if the preview is incomplete.'']),
       ib_summary = pi_framework inference @ '' app detected. Hostlet will use generated Railpack runtime support with ''
         @ pi_package_manager inference @ ''.'' \<rparr>))"

definition railpack_inspection :: "string \<Rightarrow> string \<Rightarrow> string \<Rightarrow> string \<Rightarrow> json" where
  "railpack_inspection repo branch default_branch language = inspection_base \<lparr> ib_repo = repo, ib_branch = branch,
     ib_default_branch = default_branch, ib_deployable = True, ib_container_port = 3000,
     ib_packaging_options = [''auto'', ''generated''], ib_recommended_packaging_strategy = ''generated'', ib_env = [],
     ib_warnings = [language @ '' app detected. Hostlet will build it with Railpack if there is no repository Dockerfile.''],
     ib_summary = language @ '' app detected. Hostlet will use generated Railpack runtime support.'' \<rparr>"

definition compose_inspection ::
    "string \<Rightarrow> string \<Rightarrow> string \<Rightarrow> string \<Rightarrow> compose_section \<Rightarrow> service_summary list \<Rightarrow> string list \<Rightarrow> json" where
  "compose_inspection repo branch default_branch hostlet_config_path compose svcs subset_warnings =
     (let web = cs_web_service compose
      in json_insert ''services'' (JArr (map summary_json svcs))
        (json_insert ''healthPath'' (JStr (case cs_health_path compose of Some p \<Rightarrow> p | None \<Rightarrow> ''/''))
        (json_insert ''hostletConfigPath'' (JStr hostlet_config_path)
        (json_insert ''webService'' (JStr web)
        (json_insert ''runtimeKind'' (JStr ''compose'')
        (inspection_base \<lparr> ib_repo = repo, ib_branch = branch, ib_default_branch = default_branch,
          ib_deployable = (subset_warnings = []),
          ib_container_port = (case cs_port compose of Some p \<Rightarrow> int p | None \<Rightarrow> 3000), ib_packaging_options = [''auto''],
          ib_recommended_packaging_strategy = ''auto'', ib_env = [],
          ib_warnings = (''Multi-service Compose app detected ('' @ show_nat (length svcs) @ '' services). Hostlet runs the ''
            @ [CHR 0x27] @ web @ [CHR 0x27] @ '' service as the web entrypoint; the other services are reachable only on ''
            @ ''the app'' @ [CHR 0x27] @ ''s internal network.'') # subset_warnings,
          ib_summary = ''Compose app detected with '' @ show_nat (length svcs) @ '' services. Web service: '' @ web @ ''.'' \<rparr>))))))"

definition compose_rejection_inspection :: "string \<Rightarrow> string \<Rightarrow> string \<Rightarrow> string \<Rightarrow> string \<Rightarrow> json" where
  "compose_rejection_inspection repo branch default_branch hostlet_config_path reason =
     json_insert ''services'' (JArr [])
     (json_insert ''hostletConfigPath'' (JStr hostlet_config_path)
     (json_insert ''runtimeKind'' (JStr ''compose'')
     (inspection_base \<lparr> ib_repo = repo, ib_branch = branch, ib_default_branch = default_branch, ib_deployable = False,
       ib_container_port = 3000, ib_packaging_options = [''auto''], ib_recommended_packaging_strategy = ''auto'', ib_env = [],
       ib_warnings = [''Hostlet Compose manifest is not deployable: '' @ reason],
       ib_summary = ''Hostlet found a Compose marker but the manifest is invalid.'' \<rparr>)))"

definition unknown_inspection :: "string \<Rightarrow> string \<Rightarrow> string \<Rightarrow> json" where
  "unknown_inspection repo branch default_branch = inspection_base \<lparr> ib_repo = repo, ib_branch = branch,
     ib_default_branch = default_branch, ib_deployable = False, ib_container_port = 3000, ib_packaging_options = [''auto''],
     ib_recommended_packaging_strategy = ''auto'', ib_env = [],
     ib_warnings = [''No root Dockerfile, package.json, Python, Go, Rust, static, or Hostlet Compose marker was found. ''
       @ ''Add a start command or a supported app manifest before deploying.''],
     ib_summary = ''Hostlet could not infer a runnable app shape.'' \<rparr>"

definition gitea_generated_compose :: string where
  "gitea_generated_compose = concat (map (\<lambda>l. l @ [newline]) [''services:'', ''  server:'',
     ''    image: docker.gitea.com/gitea:latest-rootless'', ''    restart: unless-stopped'', ''    environment:'',
     ''      GITEA__server__DOMAIN: localhost'', ''      GITEA__server__HTTP_PORT: '' @ [CHR 0x22] @ ''3000'' @ [CHR 0x22],
     ''      GITEA__database__DB_TYPE: sqlite3'', ''    volumes:'', ''      - gitea-data:/var/lib/gitea'',
     ''      - gitea-config:/etc/gitea'', ''volumes:'', ''  gitea-data:'', ''  gitea-config:''])"

definition gitea_inspection :: "string \<Rightarrow> string \<Rightarrow> string \<Rightarrow> json" where
  "gitea_inspection repo branch default_branch = JObj [(''repoFullName'', JStr repo), (''defaultBranch'', JStr default_branch),
     (''branch'', JStr branch), (''appName'', JStr ''gitea''), (''deployable'', JBool True), (''runtimeKind'', JStr ''compose''),
     (''rootDirectory'', JStr ''.''), (''containerPort'', JInt 3000), (''healthPath'', JStr ''/''),
     (''hostletConfigPath'', JStr ''hostlet.yml''),
     (''runtimeConfig'', JObj [(''generatedCompose'', JObj [(''composeFile'', JStr ''compose.generated.hostlet.yml''),
       (''webService'', JStr ''server''), (''port'', JInt 3000), (''healthPath'', JStr ''/''),
       (''compose'', JStr gitea_generated_compose)])]),
     (''packagingStrategy'', JStr ''auto''), (''packagingOptions'', JArr [JStr ''auto'']),
     (''recommendedPackagingStrategy'', JStr ''auto''), (''env'', JArr []),
     (''warnings'', JArr [JStr ''Gitea SSH Git access is not exposed in Hostlet 0.3.9; use HTTPS Git through the web route.'',
       JStr ''The generated Gitea default uses SQLite and named Docker volumes for the simplest self-hosted setup.'']),
     (''summary'', JStr (''Gitea detected. Hostlet will use the official rootless image with SQLite ''
       @ ''and persistent named volumes.'')), (''autoDeployAvailable'', JBool False)]"

section \<open>Trimming twice\<close>

lemma trim_start_fix_iff:
  "trim_start s = s \<longleftrightarrow> (case s of [] \<Rightarrow> True | a # t \<Rightarrow> \<not> ws1 (byte a) \<and> (case t of [] \<Rightarrow> True | b # u \<Rightarrow>
     \<not> ws2 (byte a) (byte b) \<and> (case u of [] \<Rightarrow> True | c # v \<Rightarrow> \<not> ws3 (byte a) (byte b) (byte c))))"
proof (cases s rule: trim_start.cases)
  case (1 a b c t)
  have "trim_start t \<noteq> a # b # c # t" "trim_start (c # t) \<noteq> a # b # c # t" "trim_start (b # c # t) \<noteq> a # b # c # t"
    using trim_start_length [of t] trim_start_length [of "c # t"] trim_start_length [of "b # c # t"] by auto
  then show ?thesis unfolding 1 by simp
next
  case (2 a b)
  have "trim_start [b] \<noteq> [a, b]" using trim_start_length [of "[b]"] by auto
  then show ?thesis unfolding 2 by simp
qed simp_all

lemma trim_start_idem: "trim_start (trim_start s) = trim_start s"
  by (induction s rule: trim_start.induct) auto

lemma trim_rev_idem: "trim_rev (trim_rev s) = trim_rev s"
  by (induction s rule: trim_rev.induct) auto

lemma trim_end_prefix: "\<exists>k. trim_end s = take k s"
proof -
  obtain u where "rev s = u @ trim_rev (rev s)" using trim_rev_suffix by blast
  then have "s = trim_end s @ rev u" by (metis rev_append rev_rev_ident trim_end_def)
  then have "trim_end s = take (length (trim_end s)) s" by (metis append_eq_conv_conj)
  then show ?thesis by blast
qed

lemma trim_start_take: "trim_start s = s \<Longrightarrow> trim_start (take k s) = take k s"
  unfolding trim_start_fix_iff
  by (auto simp: take_Cons' split: list.splits if_splits)

lemma trim_idem: "trim (trim s) = trim s"
proof -
  obtain k where k: "trim_end (trim_start s) = take k (trim_start s)" using trim_end_prefix by blast
  have "trim_start (trim s) = trim s" unfolding trim_def k by (rule trim_start_take) (rule trim_start_idem)
  moreover have "trim_end (trim s) = trim s" by (simp add: trim_def trim_end_def trim_rev_idem)
  ultimately show ?thesis by (simp add: trim_def [of "trim s"])
qed

section \<open>Suggested commands\<close>

lemma make_suggestion_clean:
  "make_suggestion c f d k = Some s \<Longrightarrow> clean_command (Some (cmd_command s)) = Inr (Some (cmd_command s))"
  by (auto simp: make_suggestion_def clean_command_def clean_optional_def trim_idem split: option.splits sum.splits if_splits)

lemma procfile_lines_clean:
  "procfile_lines ls = Some s \<Longrightarrow> clean_command (Some (cmd_command s)) = Inr (Some (cmd_command s))"
  by (induction ls rule: procfile_lines.induct)
    (auto simp: Let_def split: if_splits option.splits dest: make_suggestion_clean)

lemma first_script_clean:
  "first_script v m ss = Some s \<Longrightarrow> clean_command (Some (cmd_command s)) = Inr (Some (cmd_command s))"
proof (induction v m ss rule: first_script.induct)
  case (2 scripts manager script rest)
  show ?case
  proof (cases "get_str scripts script")
    case None
    with 2 show ?thesis by simp
  next
    case (Some c)
    show ?thesis
    proof (cases "trim c = []")
      case True
      with 2 Some show ?thesis by simp
    next
      case False
      with "2.prems" Some show ?thesis by (auto split: sum.splits option.splits dest: make_suggestion_clean)
    qed
  qed
qed simp

lemma first_service_clean:
  "first_service_command f i ys = Some s \<Longrightarrow> clean_command (Some (cmd_command s)) = Inr (Some (cmd_command s))"
  by (induction f i ys rule: first_service_command.induct) (auto split: option.splits dest: make_suggestion_clean)

lemma package_json_clean:
  assumes "package_json_start_command parse contents = Some s"
  shows "clean_command (Some (cmd_command s)) = Inr (Some (cmd_command s))"
proof -
  note run = assms [unfolded package_json_start_command_def]
  obtain v where v: "Option.bind (parse contents) (\<lambda>package. json_get package ''scripts'') = Some v"
    using run by (cases "Option.bind (parse contents) (\<lambda>package. json_get package ''scripts'')") simp_all
  obtain scripts where "v = JObj scripts" using run unfolding v by (cases v) simp_all
  then have "first_script (JObj scripts) (infer_package_manager parse contents False False False)
      [''start'', ''preview'', ''serve''] = Some s"
    using run unfolding v by (simp only: option.case json.case)
  then show ?thesis by (rule first_script_clean)
qed

lemma dockerfile_clean:
  "dockerfile_start_command parse contents = Some s \<Longrightarrow> clean_command (Some (cmd_command s)) = Inr (Some (cmd_command s))"
  unfolding dockerfile_start_command_def
  by (cases "rev (List.map_filter docker_instruction (str_lines contents))")
    (auto simp: bind_eq_Some_conv dest: make_suggestion_clean)

lemma coalesce_SomeD: "coalesce a b = Some s \<Longrightarrow> a = Some s \<or> b = Some s"
  by (cases a) simp_all

text \<open>
  Every start command that Hostlet suggests is one that it accepts: wherever it was found, it is not
  empty, not longer than 500 bytes, has no line break or NUL, and cleaning it changes nothing.
\<close>

theorem suggested_command_accepted:
  assumes "detect_start_command parse from_str files = Some s"
  shows "clean_command (Some (cmd_command s)) = Inr (Some (cmd_command s))"
proof -
  note run = assms [unfolded detect_start_command_def]
  have "Option.bind (cf_procfile files) procfile_start_command = Some s
    \<or> Option.bind (cf_package_json files) (package_json_start_command parse) = Some s
    \<or> Option.bind (cf_railway_json files) (railway_start_command parse) = Some s
    \<or> Option.bind (cf_render_yaml files) (render_start_command from_str) = Some s
    \<or> Option.bind (cf_dockerfile files) (dockerfile_start_command parse) = Some s"
    using coalesce_SomeD [OF run] by (elim disjE) (simp, drule coalesce_SomeD, elim disjE, simp, drule coalesce_SomeD, elim disjE, simp,
      drule coalesce_SomeD, elim disjE, simp_all)
  then show ?thesis
  proof (elim disjE)
    assume "Option.bind (cf_procfile files) procfile_start_command = Some s"
    then show ?thesis by (auto simp: bind_eq_Some_conv procfile_start_command_def dest: procfile_lines_clean)
  next
    assume "Option.bind (cf_package_json files) (package_json_start_command parse) = Some s"
    then show ?thesis by (auto simp: bind_eq_Some_conv dest: package_json_clean)
  next
    assume "Option.bind (cf_railway_json files) (railway_start_command parse) = Some s"
    then show ?thesis
      by (auto simp: bind_eq_Some_conv railway_start_command_def split: option.splits dest: make_suggestion_clean)
  next
    assume "Option.bind (cf_render_yaml files) (render_start_command from_str) = Some s"
    then show ?thesis
      by (auto simp: bind_eq_Some_conv render_start_command_def simp del: first_service_command.simps split: option.splits
        dest: first_service_clean)
  next
    assume "Option.bind (cf_dockerfile files) (dockerfile_start_command parse) = Some s"
    then show ?thesis
      by (auto simp: bind_eq_Some_conv dest: dockerfile_clean)
  qed
qed

section \<open>Detected services\<close>

inductive detection :: "detected_services \<Rightarrow> bool" where
  found: "detection (infer_service_addons identifiers)"
| merged: "detection d \<Longrightarrow> detection e \<Longrightarrow> detection (merge d e)"

lemma fold_push_new: "set (fold push_new ys xs) = set xs \<union> set ys \<and> (distinct xs \<longrightarrow> distinct (fold push_new ys xs))"
  by (induction ys arbitrary: xs) (auto simp: push_new_def)

lemma detection_addons:
  "detection d \<Longrightarrow> distinct (ds_addons d) \<and> list_all in_catalog (ds_addons d) \<and> sorted (map catalog_position (ds_addons d))"
proof (induction rule: detection.induct)
  case (found identifiers)
  then show ?case
    by (auto simp: infer_service_addons_def sort_to_catalog_order_def Let_def fold_push_new list_all_iff)
next
  case (merged d e)
  then show ?case by (auto simp: merge_def sort_to_catalog_order_def fold_push_new list_all_iff)
qed

lemma catalog_keys: "find (\<lambda>a. ao_key a = key) add_on_catalog = Some a \<Longrightarrow> ao_service_name a = key \<and> ao_key a = key"
proof -
  assume "find (\<lambda>a. ao_key a = key) add_on_catalog = Some a"
  then have "a \<in> set add_on_catalog \<and> ao_key a = key" by (rule find_SomeD)
  moreover have "\<forall>a \<in> set add_on_catalog. ao_service_name a = ao_key a" by (simp add: add_on_catalog_def)
  ultimately show ?thesis by simp
qed

lemma in_catalog_find: "in_catalog key \<Longrightarrow> \<exists>a. find (\<lambda>a. ao_key a = key) add_on_catalog = Some a"
  by (cases "find (\<lambda>a. ao_key a = key) add_on_catalog") (auto simp: in_catalog_def list_ex_iff find_None_iff)

lemma choose_addons_succeeds:
  assumes "list_all in_catalog keys" "distinct keys" "set keys \<inter> set (map ao_service_name chosen) = {}"
  shows "\<exists>chosen' env. choose_addons secret (map (\<lambda>key. JObj [(''key'', JStr key)]) keys) chosen st = Inr (chosen', env)
    \<and> map ao_key chosen' = map ao_key chosen @ keys"
  using assms
proof (induction keys arbitrary: chosen st)
  case (Cons key keys)
  obtain a where a: "find (\<lambda>a. ao_key a = key) add_on_catalog = Some a"
    using Cons.prems(1) in_catalog_find by auto
  have name: "ao_service_name a = key" "ao_key a = key" using catalog_keys [OF a] by simp_all
  have "set keys \<inter> set (map ao_service_name (chosen @ [a])) = {}" using Cons.prems name by auto
  then obtain chosen' env where "choose_addons secret (map (\<lambda>key. JObj [(''key'', JStr key)]) keys) (chosen @ [a])
      (let st = fold (add_env secret) (ao_env a) st in (fst st, fold inject_env (ao_inject a) (snd st))) = Inr (chosen', env)"
      "map ao_key chosen' = map ao_key (chosen @ [a]) @ keys"
    using Cons.IH [of "chosen @ [a]" "let st = fold (add_env secret) (ao_env a) st in (fst st, fold inject_env (ao_inject a) (snd st))"]
      Cons.prems(1,2) by (simp add: Let_def) blast
  then show ?case using a name Cons.prems(3) by (simp add: get_str_def json_get_def Let_def)
qed simp

text \<open>
  C23: what Hostlet detects it can provision.  However the backing services of a repository were detected -
  from dependencies, from images of a Compose file, or from both - when the inspection offers add-ons,
  creating the app with the offered configuration succeeds and generates a Compose file with exactly
  these add-ons, in the order of the catalogue, which the agent accepts.
\<close>

theorem detected_services_provision:
  assumes "detection d" "ds_addons d \<noteq> []" "is_object inspection" "\<And>y. yaml_wf y \<Longrightarrow> from_str (to_str y) = Some y"
  shows "\<exists>rc rc' env addons. json_get (with_detected_services inspection d) ''runtimeConfig'' = Some rc
    \<and> resolve_managed_addons to_str rc ''web'' port health secret = Inr (Some (rc', env))
    \<and> json_pointer rc' [''generatedCompose'', ''compose''] = Some (JStr (to_str (generated_document ''web'' addons)))
    \<and> map ao_key addons = ds_addons d \<and> sorted (map catalog_position (map ao_key addons)) \<and> distinct (map ao_key addons)
    \<and> validate_compose_subset from_str (to_str (generated_document ''web'' addons)) ''web'' = Inr ()"
proof -
  note D = detection_addons [OF assms(1)]
  obtain addons env where run: "choose_addons secret (map (\<lambda>key. JObj [(''key'', JStr key)]) (ds_addons d)) [] (0, []) = Inr (addons, env)"
      "map ao_key addons = ds_addons d"
    using choose_addons_succeeds [of "ds_addons d" "[]" secret "(0, [])"] D by auto
  define rc where "rc = addons_config (ds_addons d)"
  have get: "json_get (with_detected_services inspection d) ''runtimeConfig'' = Some rc"
    using assms(2,3) by (simp add: with_detected_services_def Let_def push_notes_def json_get_insert json_get_insert_other rc_def
        split: option.splits json.splits)
  let ?j = "generated_compose_json (generate_compose to_str ''web'' port health addons)"
  have "resolve_managed_addons to_str rc ''web'' port health secret = Inr (Some (json_insert ''generatedCompose'' ?j rc, env))"
  proof -
    obtain x xs where items: "map (\<lambda>key. JObj [(''key'', JStr key)]) (ds_addons d) = x # xs"
      using assms(2) by (cases "ds_addons d") auto
    show ?thesis using run(1) unfolding rc_def addons_config_def items
      by (simp add: resolve_managed_addons_def json_get_def is_object_def del: choose_addons.simps)
  qed
  moreover have "json_pointer (json_insert ''generatedCompose'' ?j rc) [''generatedCompose'', ''compose'']
      = Some (JStr (to_str (generated_document ''web'' addons)))"
    by (simp add: rc_def addons_config_def json_insert_def json_get_def generated_compose_json_def generate_compose_def)
  moreover have cat: "set addons \<subseteq> set add_on_catalog" using choose_addons_catalog [OF run(1)] by simp
  have "validate_compose_service_name ''web'' = Inr ()" by (simp add: validate_compose_service_name_def str_defs char_defs)
  then have "validate_compose_subset from_str (to_str (generated_document ''web'' addons)) ''web'' = Inr ()"
    using assms(4) [OF generated_document_wf [OF cat]] generated_document_ok [OF cat]
    by (simp add: validate_compose_subset_def compose_subset_errors_def Let_def)
  ultimately show ?thesis using get run(2) D by (intro exI [of _ rc] exI [of _ env] exI [of _ addons] exI conjI) simp_all
qed

end
