(* ===== verification/Agent_Health.thy ===== *)
theory Agent_Health
  imports Health_Targets Route_Files Log_Transport
begin

text \<open>
  The agent's health loop: \<open>apps/agent/src/ops/health.rs\<close> (probing one target, following the ports that
  Docker publishes), \<open>ops/reconcile.rs\<close> (what to do about a container that is gone) and \<open>ops.rs\<close>
  (the counters of a pass, starting a stopped container, asking for a rebuild, and the jobs that probe,
  restart, stop, suspend and resume a runtime).  Docker, the HTTP client and the clock are parameters:
  what each call returns is a field of the environment of a probe.  The state of the agent keeps, besides
  the counters and the route directory, everything the agent has posted and every Docker command that
  it has issued, oldest first; \<open>post\<close> never fails, whether or not the event arrives.
\<close>

section \<open>Containers\<close>

datatype container_state = Running | Restarting string | Stopped string | Oom_Killed | Missing

datatype container_actual = Actual_Running | Actual_Stopped | Actual_Missing

datatype reconcile_decision = Decide_Healthy | Start_Stopped | Rebuild | Rebuild_Image_Gone

definition error_message :: "container_state \<Rightarrow> string" where
  "error_message s = (case s of
     Running \<Rightarrow> []
   | Restarting exit_code \<Rightarrow> ''container is restarting after exit code '' @ exit_code
   | Stopped exit_code \<Rightarrow> ''container is not running; last exit code '' @ exit_code
   | Oom_Killed \<Rightarrow> ''container was OOM-killed''
   | Missing \<Rightarrow> ''container does not exist'')"

definition inspect_container_state :: "string \<Rightarrow> container_state option" where
  "inspect_container_state value =
     (case split_whitespace value of
        running # restarting # oom_killed # rest \<Rightarrow>
          let exit_code = (case rest of c # _ \<Rightarrow> c | [] \<Rightarrow> ''unknown'') in
          Some (if restarting = ''true'' then Restarting exit_code
                else if oom_killed = ''true'' then Oom_Killed
                else if running = ''true'' then Running else Stopped exit_code)
      | _ \<Rightarrow> None)"

text \<open>What a command gives: it could not be run, or whether it succeeded and what it printed.\<close>

type_synonym command_result = "string + bool \<times> string"

definition container_state_of :: "command_result \<Rightarrow> string + container_state" where
  "container_state_of output =
     (case output of Inl err \<Rightarrow> Inl err
      | Inr (success, stdout) \<Rightarrow>
        if \<not> success then Inr Missing
        else case inspect_container_state (trim (from_utf8_lossy stdout)) of
          Some s \<Rightarrow> Inr s | None \<Rightarrow> Inl ''docker inspect returned malformed state'')"

definition container_actual_from_state :: "container_state option \<Rightarrow> container_actual option" where
  "container_actual_from_state s = (case s of
     Some Running \<Rightarrow> Some Actual_Running | Some (Stopped _) \<Rightarrow> Some Actual_Stopped | Some Missing \<Rightarrow> Some Actual_Missing
   | _ \<Rightarrow> None)"

definition decide_reconcile :: "container_actual \<Rightarrow> bool \<Rightarrow> bool \<Rightarrow> reconcile_decision" where
  "decide_reconcile actual image_present repair_in_flight =
     (if repair_in_flight then Decide_Healthy
      else case actual of Actual_Running \<Rightarrow> Decide_Healthy | Actual_Stopped \<Rightarrow> Start_Stopped
        | Actual_Missing \<Rightarrow> if image_present then Rebuild else Rebuild_Image_Gone)"

definition after_last_colon :: "string \<Rightarrow> string" where
  "after_last_colon line = (case rsplit_once (CHR '':'') line of Some (_, port) \<Rightarrow> port | None \<Rightarrow> line)"

definition docker_published_port :: "command_result \<Rightarrow> string + int" where
  "docker_published_port output =
     (case output of Inl _ \<Rightarrow> Inl ''failed to inspect Docker published port''
      | Inr (success, stdout) \<Rightarrow>
        if \<not> success then Inl ''could not inspect Docker published port''
        else if \<not> valid_utf8 stdout then Inl ''Docker port output was not valid UTF-8''
        else case List.map_filter (\<lambda>line. parse_u16 (trim (after_last_colon line))) (str_lines stdout) of
          port # _ \<Rightarrow> Inr (int port) | [] \<Rightarrow> Inl ''Docker did not report a published port'')"

definition docker_image_present :: "command_result \<Rightarrow> bool" where
  "docker_image_present output = (case output of Inr (success, _) \<Rightarrow> success | Inl _ \<Rightarrow> False)"

section \<open>The state of the agent\<close>

record health_probe_result =
  pr_healthy :: bool
  pr_url :: string
  pr_http_status :: "nat option"
  pr_latency_ms :: nat
  pr_error :: "string option"
  pr_container_state :: "container_state option"

record health_counts =
  hc_failures :: nat
  hc_successes :: nat
  hc_auto_start_attempted :: bool
  hc_repair_requested :: bool
  hc_repair_attempts :: nat

datatype agent_event =
    Log_Line uuid string string
  | Health_Status health_target health_probe_result string nat nat
  | Reconcile_Request uuid uuid bool

record agent_state =
  ag_counts :: "uuid \<Rightarrow> health_counts"
  ag_routes :: route_dir
  ag_events :: "agent_event list"
  ag_docker :: "(string \<times> string) list"

record agent_config =
  ac_health_host :: string
  ac_local_mode :: bool
  ac_local_router :: bool

text \<open>What Docker, the API, the file system, the network and the clock do during one probe.\<close>

record probe_io =
  pi_inspect :: command_result
  pi_frontend :: command_result
  pi_backend :: command_result
  pi_targets :: "string + json list"
  pi_route :: route_io
  pi_tcp :: "(string + unit) option"
  pi_http :: "string + nat \<times> string"
  pi_elapsed :: nat

record observation =
  ob_probe :: probe_io
  ob_image :: command_result
  ob_start :: "string + unit"
  ob_reprobe :: probe_io

definition post :: "agent_event \<Rightarrow> agent_state \<Rightarrow> agent_state" where
  "post e st = st\<lparr> ag_events := ag_events st @ [e] \<rparr>"

definition run_docker :: "string \<Rightarrow> string \<Rightarrow> agent_state \<Rightarrow> agent_state" where
  "run_docker command container st = st\<lparr> ag_docker := ag_docker st @ [(command, container)] \<rparr>"

definition default_counts :: health_counts where
  "default_counts = \<lparr> hc_failures = 0, hc_successes = 0, hc_auto_start_attempted = False, hc_repair_requested = False,
     hc_repair_attempts = 0 \<rparr>"

definition u32_max :: nat where
  "u32_max = 4294967295"

definition saturating_succ :: "nat \<Rightarrow> nat" where
  "saturating_succ n = min u32_max (n + 1)"

section \<open>Events\<close>

definition opt_json :: "('a \<Rightarrow> json) \<Rightarrow> 'a option \<Rightarrow> json" where
  "opt_json f x = (case x of Some v \<Rightarrow> f v | None \<Rightarrow> JNull)"

definition health_status_event :: "world \<Rightarrow> health_target \<Rightarrow> health_probe_result \<Rightarrow> string \<Rightarrow> nat \<Rightarrow> nat \<Rightarrow> json" where
  "health_status_event w target result status failure_count success_count = JObj
     [(''type'', JStr ''health_status''), (''app_id'', JStr (uuid_text w (tg_app_id target))),
      (''deployment_id'', JStr (uuid_text w (tg_deployment_id target))),
      (''container_name'', JStr (tg_container_name target)), (''published_port'', JInt (tg_published_port target)),
      (''backend_container_name'', opt_json (\<lambda>r. JStr (sp_container_name r)) (tg_split_route target)),
      (''backend_published_port'', opt_json (\<lambda>r. JInt (sp_published_port r)) (tg_split_route target)),
      (''status'', JStr status), (''checked_url'', JStr (pr_url result)),
      (''http_status'', opt_json (\<lambda>n. JInt (int n)) (pr_http_status result)), (''latency_ms'', JInt (int (pr_latency_ms result))),
      (''failure_count'', JInt (int failure_count)), (''success_count'', JInt (int success_count)),
      (''error'', opt_json JStr (pr_error result))]"

definition event_json :: "world \<Rightarrow> agent_event \<Rightarrow> json" where
  "event_json w e = (case e of
     Log_Line deployment_id stream line \<Rightarrow> JObj [(''type'', JStr ''log''), (''deployment_id'', JStr (uuid_text w deployment_id)),
       (''stream'', JStr stream), (''line'', JStr line)]
   | Health_Status target result status f s \<Rightarrow> health_status_event w target result status f s
   | Reconcile_Request app_id deployment_id image_present \<Rightarrow> JObj [(''type'', JStr ''reconcile_request''),
       (''app_id'', JStr (uuid_text w app_id)), (''deployment_id'', JStr (uuid_text w deployment_id)),
       (''reason'', JStr ''rebuild''), (''image_present'', JBool image_present)])"

definition single_probe_health_event :: "health_target \<Rightarrow> health_probe_result \<Rightarrow> agent_event" where
  "single_probe_health_event target result =
     (if pr_healthy result then Health_Status target result ''healthy'' 0 1 else Health_Status target result ''degraded'' 1 0)"

section \<open>Targets\<close>

definition fetch_health_targets :: "world \<Rightarrow> string + json list \<Rightarrow> string + health_target list" where
  "fetch_health_targets w raw = (case raw of Inl err \<Rightarrow> Inl err
     | Inr values \<Rightarrow> Inr (List.map_filter (health_target_from_payload w) values))"

definition select_health_target_by_id :: "uuid \<Rightarrow> uuid \<Rightarrow> health_target list \<Rightarrow> health_target option" where
  "select_health_target_by_id app_id deployment_id targets =
     find (\<lambda>t. tg_app_id t = app_id \<and> tg_deployment_id t = deployment_id) targets"

definition select_current_health_target :: "world \<Rightarrow> json \<Rightarrow> health_target list \<Rightarrow> health_target option" where
  "select_current_health_target w payload targets =
     Option.bind (uuid_field w payload ''app_id'' ''appId'') (\<lambda>app_id.
     Option.bind (uuid_field w payload ''deployment_id'' ''deploymentId'') (\<lambda>deployment_id.
       select_health_target_by_id app_id deployment_id targets))"

definition current_health_target :: "world \<Rightarrow> string + json list \<Rightarrow> json \<Rightarrow> string + health_target option" where
  "current_health_target w raw payload =
     and_then (fetch_health_targets w raw) (\<lambda>targets. Inr (select_current_health_target w payload targets))"

definition current_health_target_by_id :: "world \<Rightarrow> string + json list \<Rightarrow> uuid \<Rightarrow> uuid \<Rightarrow> string + health_target option" where
  "current_health_target_by_id w raw app_id deployment_id =
     and_then (fetch_health_targets w raw) (\<lambda>targets. Inr (select_health_target_by_id app_id deployment_id targets))"

section \<open>Following the published ports\<close>

definition same_route_owner :: "health_target \<Rightarrow> health_target \<Rightarrow> bool" where
  "same_route_owner left right \<longleftrightarrow> tg_container_name left = tg_container_name right
     \<and> tg_container_port left = tg_container_port right \<and> tg_domain left = tg_domain right
     \<and> tg_route_key left = tg_route_key right \<and> tg_route_generation left = tg_route_generation right
     \<and> (case (tg_split_route left, tg_split_route right) of
          (None, None) \<Rightarrow> True
        | (Some l, Some r) \<Rightarrow> sp_container_name l = sp_container_name r \<and> sp_container_port l = sp_container_port r
            \<and> sp_path_prefixes l = sp_path_prefixes r
        | _ \<Rightarrow> False)"

definition published_port_changed :: "int \<Rightarrow> int \<Rightarrow> bool" where
  "published_port_changed stored actual \<longleftrightarrow> stored \<noteq> actual"

definition split_route_ports_changed :: "health_target \<Rightarrow> int \<Rightarrow> int option \<Rightarrow> bool" where
  "split_route_ports_changed target actual_frontend actual_backend \<longleftrightarrow>
     published_port_changed (tg_published_port target) actual_frontend
     \<or> (case (tg_split_route target, actual_backend) of
          (Some route, Some actual) \<Rightarrow> published_port_changed (sp_published_port route) actual | _ \<Rightarrow> False)"

definition with_ports :: "int \<Rightarrow> int option \<Rightarrow> health_target \<Rightarrow> health_target" where
  "with_ports frontend backend target = target\<lparr> tg_published_port := frontend,
     tg_split_route := (case (tg_split_route target, backend) of
       (Some route, Some actual) \<Rightarrow> Some (route\<lparr> sp_published_port := actual \<rparr>) | _ \<Rightarrow> tg_split_route target) \<rparr>"

definition refresh_route :: "agent_config \<Rightarrow> route_io \<Rightarrow> health_target \<Rightarrow> int \<Rightarrow> int option \<Rightarrow> route_dir
    \<Rightarrow> (string + unit) \<times> route_dir" where
  "refresh_route cfg io target frontend_port backend_port files =
     (let d = tg_deployment_id target in
      case (tg_route_key target, tg_domain target) of
        (Some route_key, Some domain) \<Rightarrow>
          (case (tg_split_route target, backend_port) of
             (Some route, Some backend) \<Rightarrow>
               (case tg_route_generation target of
                  None \<Rightarrow> (Inl ''split route refresh requires a route generation'', files)
                | Some generation \<Rightarrow>
                  if ac_local_mode cfg then
                    (if ac_local_router cfg then apply_local_caddy_split_route_versioned io d route_key domain
                       (nat frontend_port) (nat backend) (sp_path_prefixes route) generation files
                     else (Inr (), files))
                  else apply_caddy_split_route_versioned io d route_key domain
                    (nat frontend_port) (nat backend) (sp_path_prefixes route) generation files)
           | _ \<Rightarrow>
             if ac_local_mode cfg then
               (if ac_local_router cfg
                then apply_local_caddy_route_inner io d route_key domain (nat frontend_port) (tg_route_generation target) files
                else (Inr (), files))
             else apply_caddy_route_inner io d route_key domain (nat frontend_port) (tg_route_generation target) files)
      | _ \<Rightarrow> (Inr (), files))"

definition drift_line :: "health_target \<Rightarrow> int \<Rightarrow> int option \<Rightarrow> string" where
  "drift_line current frontend backend =
     ''Detected Docker-published port drift for '' @ tg_container_name current @ ''; updating route from ''
       @ show_int (tg_published_port current) @ '' to '' @ show_int frontend
       @ (case (backend, tg_split_route current) of
            (Some actual, Some route) \<Rightarrow> '' and backend '' @ sp_container_name route @ '' '' @ show_int (sp_published_port route)
              @ '' to '' @ show_int actual
          | _ \<Rightarrow> []) @ ''.''"

definition actual_ports :: "probe_io \<Rightarrow> health_target \<Rightarrow> string + int \<times> int option" where
  "actual_ports io target =
     and_then (docker_published_port (pi_frontend io)) (\<lambda>frontend.
       case tg_split_route target of
         None \<Rightarrow> Inr (frontend, None)
       | Some _ \<Rightarrow> and_then (docker_published_port (pi_backend io)) (\<lambda>backend. Inr (frontend, Some backend)))"

definition refresh_published_ports :: "agent_config \<Rightarrow> world \<Rightarrow> probe_io \<Rightarrow> health_target \<Rightarrow> agent_state
    \<Rightarrow> (string + health_target) \<times> agent_state" where
  "refresh_published_ports cfg w io target st =
     (case actual_ports io target of
        Inl err \<Rightarrow> (Inl err, st)
      | Inr (frontend, backend) \<Rightarrow>
        if \<not> split_route_ports_changed target frontend backend then (Inr target, st)
        else case current_health_target_by_id w (pi_targets io) (tg_app_id target) (tg_deployment_id target) of
          Inl err \<Rightarrow> (Inl err, st)
        | Inr None \<Rightarrow> (Inl ''health target no longer belongs to the current deployment'', st)
        | Inr (Some current) \<Rightarrow>
          if \<not> same_route_owner target current
          then (Inl ''health route ownership changed while published ports were inspected'', st)
          else if \<not> split_route_ports_changed current frontend backend then (Inr (with_ports frontend backend target), st)
          else (let st1 = post (Log_Line (tg_deployment_id target) ''stdout'' (drift_line current frontend backend)) st in
            case refresh_route cfg (pi_route io) current frontend backend (ag_routes st1) of
              (Inl err, files) \<Rightarrow> (Inl err, st1\<lparr> ag_routes := files \<rparr>)
            | (Inr _, files) \<Rightarrow> (Inr (with_ports frontend backend target), st1\<lparr> ag_routes := files \<rparr>)))"

section \<open>One probe\<close>

definition health_url :: "agent_config \<Rightarrow> health_target \<Rightarrow> string" where
  "health_url cfg target = ''http://'' @ ac_health_host cfg @ '':'' @ show_int (tg_published_port target) @ tg_health_path target"

definition is_ok_status :: "nat \<Rightarrow> bool" where
  "is_ok_status code \<longleftrightarrow> 200 \<le> code \<and> code < 300 \<or> 300 \<le> code \<and> code < 400"

definition health_error_for_status :: "nat \<times> string \<Rightarrow> string option" where
  "health_error_for_status status = (if is_ok_status (fst status) then None else Some (''HTTP '' @ snd status))"

definition probe_result :: "probe_io \<Rightarrow> string \<Rightarrow> nat option \<Rightarrow> string option \<Rightarrow> container_state option \<Rightarrow> bool \<Rightarrow> health_probe_result" where
  "probe_result io url http_status error state healthy = \<lparr> pr_healthy = healthy, pr_url = url, pr_http_status = http_status,
     pr_latency_ms = pi_elapsed io, pr_error = error, pr_container_state = state \<rparr>"

definition probe_health_target :: "agent_config \<Rightarrow> world \<Rightarrow> probe_io \<Rightarrow> health_target \<Rightarrow> agent_state
    \<Rightarrow> health_probe_result \<times> health_target \<times> agent_state" where
  "probe_health_target cfg w io target st =
     (case container_state_of (pi_inspect io) of
        Inl err \<Rightarrow> (probe_result io (health_url cfg target) None (Some err) None False, target, st)
      | Inr state \<Rightarrow>
        if state \<noteq> Running
        then (probe_result io (health_url cfg target) None (Some (error_message state)) (Some state) False, target, st)
        else case refresh_published_ports cfg w io target st of
          (Inl err, st1) \<Rightarrow> (probe_result io (health_url cfg target) None (Some err) (Some state) False, target, st1)
        | (Inr target1, st1) \<Rightarrow>
          (let url = health_url cfg target1 in
           ((if tg_tcp_probe target1 then
               (case pi_tcp io of
                  Some (Inr _) \<Rightarrow> probe_result io url None None (Some state) True
                | Some (Inl err) \<Rightarrow> probe_result io url None (Some err) (Some state) False
                | None \<Rightarrow> probe_result io url None (Some ''TCP health probe timed out'') (Some state) False)
             else
               (case pi_http io of
                  Inr status \<Rightarrow> probe_result io url (Some (fst status)) (health_error_for_status status) (Some state)
                    (is_ok_status (fst status))
                | Inl err \<Rightarrow> probe_result io url None (Some err) (Some state) False)), target1, st1)))"

definition failed_health_probe :: "agent_config \<Rightarrow> health_target \<Rightarrow> string \<Rightarrow> health_probe_result" where
  "failed_health_probe cfg target error = \<lparr> pr_healthy = False, pr_url = health_url cfg target, pr_http_status = None,
     pr_latency_ms = 0, pr_error = Some error, pr_container_state = None \<rparr>"

section \<open>A pass over the targets\<close>

definition max_repair_attempts :: nat where
  "max_repair_attempts = 3"

definition record_health_probe :: "health_counts \<Rightarrow> health_probe_result \<Rightarrow> health_counts" where
  "record_health_probe entry result =
     (if pr_healthy result
      then entry\<lparr> hc_successes := saturating_succ (hc_successes entry), hc_failures := 0, hc_auto_start_attempted := False,
        hc_repair_requested := False, hc_repair_attempts := 0 \<rparr>
      else entry\<lparr> hc_failures := saturating_succ (hc_failures entry) \<rparr>)"

definition starting :: "health_target \<Rightarrow> agent_state \<Rightarrow> agent_state" where
  "starting target st = run_docker ''start'' (tg_container_name target) (post (Log_Line (tg_deployment_id target) ''stdout''
     (''Health checks failed and container is stopped; starting '' @ tg_container_name target @ ''.'')) st)"

definition auto_start_container :: "agent_config \<Rightarrow> world \<Rightarrow> observation \<Rightarrow> health_target \<Rightarrow> health_counts \<Rightarrow> agent_state
    \<Rightarrow> health_counts \<times> health_probe_result \<times> health_target \<times> agent_state" where
  "auto_start_container cfg w ob target entry st =
     (let entry1 = entry\<lparr> hc_auto_start_attempted := True \<rparr>; d = tg_deployment_id target; st1 = starting target st in
      case ob_start ob of
        Inr _ \<Rightarrow>
          (case probe_health_target cfg w (ob_reprobe ob) target st1 of
             (result, target1, st2) \<Rightarrow>
               if pr_healthy result
               then (entry1\<lparr> hc_successes := saturating_succ (hc_successes entry1), hc_failures := 0,
                       hc_auto_start_attempted := False \<rparr>, result, target1,
                     post (Log_Line d ''stdout'' (''Auto-started container '' @ tg_container_name target1 @ ''.'')) st2)
               else (entry1, result, target1, st2))
      | Inl err \<Rightarrow>
          (let result = failed_health_probe cfg target (''auto-start failed: '' @ err) in
           (entry1, result, target, post (Log_Line d ''stderr'' (''auto-start failed: '' @ err)) st1)))"

definition request_app_rebuild :: "health_target \<Rightarrow> bool \<Rightarrow> agent_state \<Rightarrow> agent_state" where
  "request_app_rebuild target image_present st = post (Reconcile_Request (tg_app_id target) (tg_deployment_id target) image_present) st"

definition react :: "agent_config \<Rightarrow> world \<Rightarrow> observation \<Rightarrow> health_probe_result \<Rightarrow> health_target \<Rightarrow> health_counts \<Rightarrow> agent_state
    \<Rightarrow> health_counts \<times> health_probe_result \<times> health_target \<times> agent_state" where
  "react cfg w ob result target entry st =
     (if hc_failures entry < 3 then (entry, result, target, st)
      else case container_actual_from_state (pr_container_state result) of
        Some Actual_Stopped \<Rightarrow>
          if \<not> hc_auto_start_attempted entry then auto_start_container cfg w ob target entry st
          else (entry, result, target, st)
      | Some Actual_Missing \<Rightarrow>
          if \<not> hc_repair_requested entry \<and> hc_repair_attempts entry < max_repair_attempts then
            (let image_present = docker_image_present (ob_image ob);
                 decision = decide_reconcile Actual_Missing image_present (hc_repair_requested entry) in
             if decision = Rebuild \<or> decision = Rebuild_Image_Gone
             then (entry\<lparr> hc_repair_requested := True, hc_repair_attempts := hc_repair_attempts entry + 1 \<rparr>, result, target,
                   request_app_rebuild target image_present st)
             else (entry, result, target, st))
          else (entry, result, target, st)
      | _ \<Rightarrow> (entry, result, target, st))"

definition health_status_text :: "health_probe_result \<Rightarrow> nat \<Rightarrow> string" where
  "health_status_text result failures =
     (if pr_healthy result then ''healthy'' else if 3 \<le> failures then ''unhealthy'' else ''degraded'')"

definition check_target :: "agent_config \<Rightarrow> world \<Rightarrow> observation \<Rightarrow> health_target \<Rightarrow> agent_state \<Rightarrow> agent_state" where
  "check_target cfg w ob target st =
     (case probe_health_target cfg w (ob_probe ob) target st of
        (result, target1, st1) \<Rightarrow>
          (case react cfg w ob result target1 (record_health_probe (ag_counts st1 (tg_app_id target1)) result) st1 of
             (entry, result1, target2, st2) \<Rightarrow>
               post (Health_Status target2 result1 (health_status_text result1 (hc_failures entry)) (hc_failures entry) (hc_successes entry))
                 (st2\<lparr> ag_counts := (ag_counts st2)(tg_app_id target1 := entry) \<rparr>)))"

fun check_targets :: "agent_config \<Rightarrow> world \<Rightarrow> (nat \<Rightarrow> observation) \<Rightarrow> nat \<Rightarrow> health_target list \<Rightarrow> agent_state \<Rightarrow> agent_state" where
  "check_targets cfg w obs n [] st = st"
| "check_targets cfg w obs n (target # targets) st = check_targets cfg w obs (n + 1) targets (check_target cfg w (obs n) target st)"

definition publish_runtime_health :: "agent_config \<Rightarrow> world \<Rightarrow> string + json list \<Rightarrow> (nat \<Rightarrow> observation) \<Rightarrow> agent_state \<Rightarrow> agent_state" where
  "publish_runtime_health cfg w raw obs st =
     (case fetch_health_targets w raw of Inl _ \<Rightarrow> st | Inr targets \<Rightarrow> check_targets cfg w obs 0 targets st)"

section \<open>Jobs on a running app\<close>

definition report_probe :: "agent_config \<Rightarrow> world \<Rightarrow> probe_io \<Rightarrow> health_target \<Rightarrow> agent_state \<Rightarrow> agent_state" where
  "report_probe cfg w io target st =
     (case probe_health_target cfg w io target st of (result, target1, st1) \<Rightarrow> post (single_probe_health_event target1 result) st1)"

definition health_check_job :: "agent_config \<Rightarrow> world \<Rightarrow> string + json list \<Rightarrow> probe_io \<Rightarrow> json \<Rightarrow> agent_state
    \<Rightarrow> (string + unit) \<times> agent_state" where
  "health_check_job cfg w raw io payload st =
     (case current_health_target w raw payload of
        Inl err \<Rightarrow> (Inl err, st)
      | Inr None \<Rightarrow> (Inl ''health-check job no longer targets the current deployment'', st)
      | Inr (Some target) \<Rightarrow> (Inr (), report_probe cfg w io target st))"

definition restart_container_job :: "agent_config \<Rightarrow> world \<Rightarrow> string + json list \<Rightarrow> string + unit \<Rightarrow> probe_io \<Rightarrow> json \<Rightarrow> agent_state
    \<Rightarrow> (string + unit) \<times> agent_state" where
  "restart_container_job cfg w raw restarted io payload st =
     (case current_health_target w raw payload of
        Inl err \<Rightarrow> (Inl err, st)
      | Inr None \<Rightarrow> (Inl ''restart job no longer targets the current deployment'', st)
      | Inr (Some target) \<Rightarrow>
          (let st1 = run_docker ''restart'' (tg_container_name target) st in
           case restarted of Inl err \<Rightarrow> (Inl err, st1) | Inr _ \<Rightarrow> (Inr (), report_probe cfg w io target st1)))"

text \<open>A command whose object may be gone: its failure is ignored when the output says so.\<close>

definition run_quiet_absent_ok :: "string \<Rightarrow> string list \<Rightarrow> command_result \<Rightarrow> string + unit" where
  "run_quiet_absent_ok bin absent_needles output =
     (case output of Inl err \<Rightarrow> Inl err
      | Inr (success, combined) \<Rightarrow>
        if success \<or> list_ex (str_contains combined) absent_needles then Inr ()
        else Inl (bin @ '' exited: '' @ trim combined))"

definition stop_container_job :: "world \<Rightarrow> command_result \<Rightarrow> json \<Rightarrow> agent_state \<Rightarrow> (string + unit) \<times> agent_state" where
  "stop_container_job w output payload st =
     (case health_target_from_payload w payload of
        None \<Rightarrow> (Inl ''stop job missing valid health target'', st)
      | Some target \<Rightarrow> (run_quiet_absent_ok ''docker'' [''No such container''] output, run_docker ''stop'' (tg_container_name target) st))"

definition valid_prefixed_name :: "string \<Rightarrow> string \<Rightarrow> nat \<Rightarrow> (char \<Rightarrow> bool) \<Rightarrow> bool" where
  "valid_prefixed_name value start max_len ok \<longleftrightarrow> starts_with value start \<and> length value \<le> max_len \<and> list_all ok value"

definition valid_compose_project_name :: "string \<Rightarrow> bool" where
  "valid_compose_project_name value = list_ex (\<lambda>start. valid_prefixed_name value start 64
     (\<lambda>c. is_ascii_lowercase c \<or> is_ascii_digit c \<or> c = CHR ''-'')) [''hostlet-app-'', ''hostlet-release-'']"

definition docker_names_by_label :: "command_result \<Rightarrow> string + string list" where
  "docker_names_by_label output =
     (case output of Inl err \<Rightarrow> Inl err
      | Inr (success, stdout) \<Rightarrow>
        if \<not> success then Inr []
        else if \<not> valid_utf8 stdout then Inl ''invalid utf-8''
        else Inr (filter (\<lambda>line. line \<noteq> []) (map trim (str_lines stdout))))"

definition app_runtime_containers :: "world \<Rightarrow> command_result \<Rightarrow> json \<Rightarrow> string + string list" where
  "app_runtime_containers w listing payload =
     and_then (case get_str payload ''compose_project'' of
         None \<Rightarrow> Inr []
       | Some project \<Rightarrow>
         if \<not> valid_compose_project_name project then Inl ''app transition job contains an invalid compose project''
         else and_then (docker_names_by_label listing) (\<lambda>containers.
           if list_ex (\<lambda>name. \<not> valid_container_name name) containers
           then Inl ''app transition job resolved an invalid managed container'' else Inr containers))
       (\<lambda>containers. if containers \<noteq> [] then Inr containers
          else case health_target_from_payload w payload of
            None \<Rightarrow> Inl ''app transition job missing valid runtime target''
          | Some target \<Rightarrow> Inr [tg_container_name target])"

fun run_each :: "string \<Rightarrow> (string \<Rightarrow> command_result) \<Rightarrow> string list \<Rightarrow> agent_state \<Rightarrow> (string + unit) \<times> agent_state" where
  "run_each command docker [] st = (Inr (), st)"
| "run_each command docker (container # containers) st =
     (let st1 = run_docker command container st in
      case run_quiet_absent_ok ''docker'' [''No such container''] (docker container) of
        Inl err \<Rightarrow> (Inl err, st1) | Inr _ \<Rightarrow> run_each command docker containers st1)"

definition suspend_app_job :: "world \<Rightarrow> command_result \<Rightarrow> (string \<Rightarrow> command_result) \<Rightarrow> json \<Rightarrow> agent_state
    \<Rightarrow> (string + unit) \<times> agent_state" where
  "suspend_app_job w listing docker payload st =
     (case app_runtime_containers w listing payload of
        Inl err \<Rightarrow> (Inl err, st) | Inr containers \<Rightarrow> run_each ''stop'' docker containers st)"

definition resume_app_job :: "agent_config \<Rightarrow> world \<Rightarrow> string + json list \<Rightarrow> command_result \<Rightarrow> (string \<Rightarrow> command_result)
    \<Rightarrow> string + json list \<Rightarrow> probe_io \<Rightarrow> json \<Rightarrow> agent_state \<Rightarrow> (string + unit) \<times> agent_state" where
  "resume_app_job cfg w before listing docker later io payload st =
     (case current_health_target w before payload of
        Inl err \<Rightarrow> (Inl err, st)
      | Inr None \<Rightarrow> (Inl ''resume job no longer targets the current deployment'', st)
      | Inr (Some _) \<Rightarrow>
        (case app_runtime_containers w listing payload of
           Inl err \<Rightarrow> (Inl err, st)
         | Inr containers \<Rightarrow>
           (case run_each ''start'' docker containers st of
              (Inl err, st1) \<Rightarrow> (Inl err, st1)
            | (Inr _, st1) \<Rightarrow>
              (case current_health_target w later payload of
                 Inl err \<Rightarrow> (Inl err, st1)
               | Inr None \<Rightarrow> (Inl ''resume job no longer targets the current deployment'', st1)
               | Inr (Some target) \<Rightarrow> (Inr (), report_probe cfg w io target st1)))))"

section \<open>What a pass may post\<close>

text \<open>
  The contract of the loop is a monitor over what it has posted so far: the current streak of failed
  reports of an app and the rebuilds that were asked for since its last healthy report.
\<close>

definition streak_step :: "uuid \<Rightarrow> agent_event \<Rightarrow> nat \<Rightarrow> nat" where
  "streak_step a e n = (case e of
     Health_Status t r _ _ _ \<Rightarrow> if tg_app_id t = a then if pr_healthy r then 0 else n + 1 else n | _ \<Rightarrow> n)"

definition pending_step :: "uuid \<Rightarrow> agent_event \<Rightarrow> nat \<Rightarrow> nat" where
  "pending_step a e n = (case e of
     Health_Status t r _ _ _ \<Rightarrow> if tg_app_id t = a \<and> pr_healthy r then 0 else n
   | Reconcile_Request b _ _ \<Rightarrow> if b = a then n + 1 else n
   | _ \<Rightarrow> n)"

definition streak :: "uuid \<Rightarrow> agent_event list \<Rightarrow> nat" where
  "streak a es = fold (streak_step a) es 0"

definition pending :: "uuid \<Rightarrow> agent_event list \<Rightarrow> nat" where
  "pending a es = fold (pending_step a) es 0"

definition allowed :: "agent_event list \<Rightarrow> agent_event \<Rightarrow> bool" where
  "allowed es e \<longleftrightarrow> (case e of
     Log_Line _ _ _ \<Rightarrow> True
   | Reconcile_Request a _ _ \<Rightarrow> pending a es = 0 \<and> 2 \<le> streak a es
   | Health_Status t r status f _ \<Rightarrow>
       (let n = streak (tg_app_id t) (es @ [e]) in
        f = min u32_max n \<and> status = (if pr_healthy r then ''healthy'' else if 3 \<le> n then ''unhealthy'' else ''degraded'')))"

fun accepts :: "agent_event list \<Rightarrow> agent_event list \<Rightarrow> bool" where
  "accepts seen [] \<longleftrightarrow> True"
| "accepts seen (e # es) \<longleftrightarrow> allowed seen e \<and> accepts (seen @ [e]) es"

definition tallied :: "agent_state \<Rightarrow> bool" where
  "tallied st \<longleftrightarrow> accepts [] (ag_events st)
     \<and> (\<forall>a. hc_failures (ag_counts st a) = min u32_max (streak a (ag_events st))
         \<and> (0 < pending a (ag_events st) \<longrightarrow> hc_repair_requested (ag_counts st a)))"

section \<open>Quiet steps\<close>

lemma streak_append [simp]: "streak a (es @ [e]) = streak_step a e (streak a es)"
  by (simp add: streak_def)

lemma pending_append [simp]: "pending a (es @ [e]) = pending_step a e (pending a es)"
  by (simp add: pending_def)

lemma accepts_append: "accepts seen (es @ fs) \<longleftrightarrow> accepts seen es \<and> accepts (seen @ es) fs"
  by (induction es arbitrary: seen) auto

text \<open>A step that posts only log lines and leaves the counters alone.\<close>

definition quiet :: "agent_state \<Rightarrow> agent_state \<Rightarrow> bool" where
  "quiet st st' \<longleftrightarrow> ag_counts st' = ag_counts st
     \<and> (\<exists>ls. ag_events st' = ag_events st @ ls \<and> (\<forall>e \<in> set ls. \<exists>d s l. e = Log_Line d s l))"

lemma quiet_refl [simp]: "quiet st st"
  by (simp add: quiet_def)

lemma quiet_trans [trans]: "quiet a b \<Longrightarrow> quiet b c \<Longrightarrow> quiet a c"
  unfolding quiet_def by (metis append_assoc set_append Un_iff)

lemma quiet_log [simp]: "quiet a b \<Longrightarrow> quiet a (post (Log_Line d s l) b)"
  unfolding quiet_def post_def by auto

lemma quiet_updates [simp]: "quiet a (b\<lparr> ag_routes := files \<rparr>) = quiet a b" "quiet a (run_docker c n b) = quiet a b"
  by (simp_all add: quiet_def run_docker_def)

lemma quiet_events:
  assumes "quiet st st'"
  shows "streak a (ag_events st') = streak a (ag_events st)" "pending a (ag_events st') = pending a (ag_events st)"
    "accepts [] (ag_events st') = accepts [] (ag_events st)" "ag_counts st' = ag_counts st"
proof -
  have logs: "streak a (es @ ls) = streak a es \<and> pending a (es @ ls) = pending a es \<and> accepts [] (es @ ls) = accepts [] es"
    if "\<forall>e \<in> set ls. \<exists>d s l. e = Log_Line d s l" for es ls
    using that
  proof (induction ls rule: rev_induct)
    case (snoc e ls)
    then obtain d s l where "e = Log_Line d s l" by auto
    then have "streak_step a e n = n" "pending_step a e n = n" "allowed xs e" for n xs
      by (simp_all add: streak_step_def pending_step_def allowed_def)
    then have "streak a ((es @ ls) @ [e]) = streak a (es @ ls)" "pending a ((es @ ls) @ [e]) = pending a (es @ ls)"
      by (simp_all only: streak_append pending_append)
    moreover have "accepts [] ((es @ ls) @ [e]) = accepts [] (es @ ls)"
      using \<open>\<And>xs. allowed xs e\<close> unfolding accepts_append [of _ "es @ ls"] by simp
    ultimately show ?case using snoc by simp
  qed simp
  then show "streak a (ag_events st') = streak a (ag_events st)" "pending a (ag_events st') = pending a (ag_events st)"
    "accepts [] (ag_events st') = accepts [] (ag_events st)" "ag_counts st' = ag_counts st"
    using assms unfolding quiet_def by auto
qed

definition same_target :: "health_target \<Rightarrow> health_target \<Rightarrow> bool" where
  "same_target t t' \<longleftrightarrow> tg_app_id t' = tg_app_id t \<and> tg_deployment_id t' = tg_deployment_id t
     \<and> tg_container_name t' = tg_container_name t \<and> tg_tcp_probe t' = tg_tcp_probe t"

lemma same_target_refl [simp]: "same_target t t"
  by (simp add: same_target_def)

lemma same_target_ports [simp]: "same_target t (with_ports f b t)"
  by (simp add: same_target_def with_ports_def)

lemma refresh_quiet:
  "refresh_published_ports cfg w io t st = (r, st') \<Longrightarrow> quiet st st' \<and> (\<forall>t'. r = Inr t' \<longrightarrow> same_target t t')"
  unfolding refresh_published_ports_def Let_def
  by (auto split: sum.splits option.splits prod.splits if_splits)

lemma probe_quiet:
  assumes "probe_health_target cfg w io t st = (r, t', st')"
  shows "quiet st st' \<and> same_target t t'"
proof (cases "container_state_of (pi_inspect io)")
  case (Inl err)
  then show ?thesis using assms by (auto simp: probe_health_target_def)
next
  case (Inr s)
  show ?thesis
  proof (cases "refresh_published_ports cfg w io t st")
    case (Pair x st1)
    with refresh_quiet [OF Pair] Inr assms show ?thesis
      by (cases x) (auto simp: probe_health_target_def Let_def split: if_splits)
  qed
qed

section \<open>One target\<close>

lemma auto_start_quiet:
  assumes "auto_start_container cfg w ob t entry st = (entry', r, t', st')"
  shows "quiet st st' \<and> same_target t t' \<and> hc_failures entry' = (if pr_healthy r then 0 else hc_failures entry)
    \<and> hc_repair_requested entry' = hc_repair_requested entry"
proof (cases "ob_start ob")
  case (Inl err)
  then show ?thesis using assms by (auto simp: auto_start_container_def Let_def failed_health_probe_def starting_def)
next
  case (Inr u)
  have "quiet st (starting t st)" by (simp add: starting_def)
  obtain r2 t2 st2 where P: "probe_health_target cfg w (ob_reprobe ob) t (starting t st) = (r2, t2, st2)" by (metis prod_cases3)
  with probe_quiet [OF P] quiet_trans [OF \<open>quiet st (starting t st)\<close>] Inr assms show ?thesis
    by (auto simp: auto_start_container_def Let_def split: if_splits)
qed

text \<open>What a failed probe may lead to: nothing, a start of the container, or a request.\<close>

lemma react_cases:
  assumes "react cfg w ob r t entry st = (entry', r', t', st')"
  obtains (idle) "entry' = entry" "r' = r" "t' = t" "st' = st"
  | (started) "3 \<le> hc_failures entry" "quiet st st'" "same_target t t'"
      "hc_failures entry' = (if pr_healthy r' then 0 else hc_failures entry)" "hc_repair_requested entry' = hc_repair_requested entry"
  | (requested) i where "3 \<le> hc_failures entry" "\<not> hc_repair_requested entry" "hc_repair_requested entry'"
      "hc_failures entry' = hc_failures entry" "r' = r" "t' = t"
      "st' = post (Reconcile_Request (tg_app_id t) (tg_deployment_id t) i) st"
proof (cases "hc_failures entry < 3")
  case True
  then have "entry' = entry \<and> r' = r \<and> t' = t \<and> st' = st" using assms by (auto simp: react_def)
  then show ?thesis using idle by blast
next
  case over: False
  show ?thesis
  proof (cases "container_actual_from_state (pr_container_state r)")
    case None
    then have "entry' = entry \<and> r' = r \<and> t' = t \<and> st' = st" using assms over by (simp add: react_def)
    then show ?thesis using idle by blast
  next
    case (Some a)
    show ?thesis
    proof (cases a)
      case Actual_Running
      then have "entry' = entry \<and> r' = r \<and> t' = t \<and> st' = st" using assms over Some by (simp add: react_def)
      then show ?thesis using idle by blast
    next
      case Actual_Stopped
      show ?thesis
      proof (cases "hc_auto_start_attempted entry")
        case True
        then have "entry' = entry \<and> r' = r \<and> t' = t \<and> st' = st" using assms over Some Actual_Stopped by (simp add: react_def)
        then show ?thesis using idle by blast
      next
        case not_attempted: False
        then have "auto_start_container cfg w ob t entry st = (entry', r', t', st')"
          using assms Some Actual_Stopped over by (simp add: react_def)
        then show ?thesis using started auto_start_quiet over by fastforce
      qed
    next
      case Actual_Missing
      then show ?thesis
        using assms idle requested Some over
        by (auto simp: react_def Let_def decide_reconcile_def request_app_rebuild_def split: if_splits)
    qed
  qed
qed

lemma saturating_min: "saturating_succ (min u32_max n) = min u32_max (n + 1)"
  by (simp add: saturating_succ_def)

lemma u32_small: "3 \<le> min u32_max n \<longleftrightarrow> 3 \<le> n"
  by (simp add: u32_max_def)

lemma record_counts:
  "hc_failures (record_health_probe entry r) = (if pr_healthy r then 0 else saturating_succ (hc_failures entry))"
  "hc_repair_requested (record_health_probe entry r) = (\<not> pr_healthy r \<and> hc_repair_requested entry)"
  by (simp_all add: record_health_probe_def)

lemma report_keeps:
  assumes counts: "accepts [] (ag_events st)"
      "\<And>b. b \<noteq> tg_app_id t \<Longrightarrow> hc_failures (ag_counts st b) = min u32_max (streak b (ag_events st))
        \<and> (0 < pending b (ag_events st) \<longrightarrow> hc_repair_requested (ag_counts st b))"
    and mine: "hc_failures entry = (if pr_healthy r then 0 else min u32_max (streak (tg_app_id t) (ag_events st) + 1))"
      "\<not> pr_healthy r \<Longrightarrow> 0 < pending (tg_app_id t) (ag_events st) \<Longrightarrow> hc_repair_requested entry"
  shows "tallied (post (Health_Status t r (health_status_text r (hc_failures entry)) (hc_failures entry) k)
    (st\<lparr> ag_counts := (ag_counts st)(tg_app_id t := entry) \<rparr>))"
  using assms u32_small [of "streak (tg_app_id t) (ag_events st) + 1"]
  by (auto simp: tallied_def post_def accepts_append allowed_def streak_step_def pending_step_def health_status_text_def Let_def)

lemma check_target_tallied:
  assumes "tallied st"
  shows "tallied (check_target cfg w ob t st)"
proof -
  let ?a = "tg_app_id t"
  obtain r t1 st1 where P: "probe_health_target cfg w (ob_probe ob) t st = (r, t1, st1)" by (metis prod_cases3)
  note quiet1 = conjunct1 [OF probe_quiet [OF P]] and t1 = conjunct2 [OF probe_quiet [OF P]]
  let ?n = "streak ?a (ag_events st1)"
  define entry where "entry = record_health_probe (ag_counts st1 ?a) r"
  have st1: "accepts [] (ag_events st1)"
    "hc_failures (ag_counts st1 b) = min u32_max (streak b (ag_events st1))"
    "0 < pending b (ag_events st1) \<longrightarrow> hc_repair_requested (ag_counts st1 b)" for b
    using assms unfolding tallied_def quiet_events [OF quiet1] by auto
  have entry: "hc_failures entry = (if pr_healthy r then 0 else min u32_max (?n + 1))"
    "hc_repair_requested entry = (\<not> pr_healthy r \<and> hc_repair_requested (ag_counts st1 ?a))"
    by (simp_all add: entry_def record_counts st1 saturating_min)
  obtain entry' r' t2 st2 where R: "react cfg w ob r t1 entry st1 = (entry', r', t2, st2)" by (metis prod_cases4)
  have run: "check_target cfg w ob t st = post (Health_Status t2 r' (health_status_text r' (hc_failures entry')) (hc_failures entry')
      (hc_successes entry')) (st2\<lparr> ag_counts := (ag_counts st2)(tg_app_id t1 := entry') \<rparr>)"
    using P R t1 by (simp add: check_target_def entry_def same_target_def)
  have ids: "tg_app_id t1 = ?a" using t1 by (simp add: same_target_def)
  from R show ?thesis
  proof (cases rule: react_cases)
    case idle
    then show ?thesis
      unfolding run using ids st1 entry report_keeps [of st1 t1 entry r "hc_successes entry"] by auto
  next
    case started
    note ev = quiet_events [OF started(2)]
    have "\<not> pr_healthy r" using started(1) entry(1) by auto
    then show ?thesis
      unfolding run using ids st1 entry started(3-5) report_keeps [of st2 t2 entry' r' "hc_successes entry'"]
      by (auto simp: ev same_target_def)
  next
    case (requested i)
    have bad: "\<not> pr_healthy r" using requested(1) entry(1) by auto
    then have "2 \<le> ?n" using requested(1) entry(1) u32_small [of "?n + 1"] by simp
    moreover have "pending ?a (ag_events st1) = 0" using requested(2) entry(2) st1(3) [of ?a] bad by auto
    ultimately have "accepts [] (ag_events st2)"
      using st1(1) ids by (simp add: requested(7) post_def accepts_append allowed_def)
    moreover have "streak b (ag_events st2) = streak b (ag_events st1)" "ag_counts st2 = ag_counts st1" for b
      by (simp_all add: requested(7) post_def streak_step_def)
    moreover have "b \<noteq> ?a \<Longrightarrow> pending b (ag_events st2) = pending b (ag_events st1)" for b
      using ids by (simp add: requested(7) post_def pending_step_def)
    ultimately show ?thesis
      unfolding run using ids st1 entry requested(3-6) report_keeps [of st2 t2 entry' r' "hc_successes entry'"] bad by auto
  qed
qed

lemma check_targets_tallied: "tallied st \<Longrightarrow> tallied (check_targets cfg w obs n ts st)"
  by (induction cfg w obs n ts st rule: check_targets.induct) (simp_all add: check_target_tallied)

text \<open>Any number of passes.  Other tasks may rewrite the routes in between, and Docker commands may be run.\<close>

inductive health_passes :: "agent_state \<Rightarrow> agent_state \<Rightarrow> bool" where
  start: "health_passes st st"
| pass: "health_passes st st' \<Longrightarrow> health_passes st (publish_runtime_health cfg w raw obs st')"
| other: "health_passes st st' \<Longrightarrow> health_passes st (st'\<lparr> ag_routes := files, ag_docker := commands \<rparr>)"

definition fresh_agent :: "route_dir \<Rightarrow> agent_state" where
  "fresh_agent files = \<lparr> ag_counts = (\<lambda>_. default_counts), ag_routes = files, ag_events = [], ag_docker = [] \<rparr>"

lemma tallied_other: "tallied (st\<lparr> ag_routes := files, ag_docker := commands \<rparr>) = tallied st"
  by (simp add: tallied_def)

lemma health_passes_tallied: "health_passes st st' \<Longrightarrow> tallied st \<Longrightarrow> tallied st'"
  by (induction rule: health_passes.induct)
    (auto simp: publish_runtime_health_def check_targets_tallied tallied_other split: sum.splits)

lemma accepts_prefix: "accepts [] (xs @ e # ys) \<Longrightarrow> allowed xs e"
  by (simp add: accepts_append)

text \<open>
  C20: the health loop raises no false alarm and never floods the API with repairs.  Whatever the
  probes, Docker and the API do, a rebuild of an app is requested only after at least two failed reports
  in a row, that is during the third failure of a streak or a later one, and after one request no other
  follows until the app was reported healthy - although the constant of the source allows for three
  requests per streak, the loop posts at most one; an app is reported unhealthy exactly from its third failure in a row on, and the failure count in a
  report is the length of the streak of failures, kept within 32 bits.
\<close>

theorem health_alarms_correct:
  assumes "health_passes (fresh_agent files) st" "ag_events st = xs @ e # ys"
  shows "case e of
      Reconcile_Request a d i \<Rightarrow> pending a xs = 0 \<and> 2 \<le> streak a xs
    | Health_Status t r status f k \<Rightarrow> f = min u32_max (streak (tg_app_id t) (xs @ [e]))
        \<and> (status = ''healthy'') = pr_healthy r \<and> (status = ''unhealthy'') = (3 \<le> streak (tg_app_id t) (xs @ [e]))
    | Log_Line _ _ _ \<Rightarrow> True"
proof -
  have "tallied (fresh_agent files)"
    by (simp add: tallied_def fresh_agent_def default_counts_def streak_def pending_def)
  then have "tallied st" using assms(1) health_passes_tallied by blast
  then have "accepts [] (xs @ e # ys)" using assms(2) by (simp add: tallied_def)
  then have "allowed xs e" by (rule accepts_prefix)
  then show ?thesis by (auto simp: allowed_def Let_def streak_step_def split: agent_event.splits if_splits)
qed

section \<open>Routes\<close>

text \<open>A target as it comes out of the parser names a route that the writers accept.\<close>

definition routable :: "health_target \<Rightarrow> bool" where
  "routable t \<longleftrightarrow> (\<forall>k. tg_route_key t = Some k \<longrightarrow> well_formed_slug k) \<and> (\<forall>d. tg_domain t = Some d \<longrightarrow> valid_domain d)
     \<and> (\<forall>g. tg_route_generation t = Some g \<longrightarrow> g \<le> 9223372036854775807)
     \<and> (\<forall>r. tg_split_route t = Some r \<longrightarrow> list_all valid_backend_path_prefix (sp_path_prefixes r))"

lemma clean_key_slug: "clean_route_key v = Some k \<Longrightarrow> well_formed_slug k"
  by (auto simp: clean_route_key_def Let_def split: if_splits) (metis app_slug_well_formed)

lemma as_i64_max: "as_i64 v = Some g \<Longrightarrow> g \<le> 9223372036854775807"
  by (cases v) (auto split: if_splits)

lemma prefixes_valid: "valid_backend_path_prefixes v = Some ps \<Longrightarrow> list_all valid_backend_path_prefix ps"
proof -
  assume v: "valid_backend_path_prefixes v = Some ps"
  then obtain vs where vs: "collect_prefixes [] vs = Some ps"
    by (auto simp: valid_backend_path_prefixes_def split: option.splits if_splits)
  then obtain qs where "ps = [] @ qs" "vs = map JStr qs" using collect_prefixes_Some by blast
  with vs show ?thesis using collect_prefixes_map [of "[]" qs ps] by simp
qed

lemma split_field_valid:
  "split_route_field v = Some (Some r) \<Longrightarrow> list_all valid_backend_path_prefix (sp_path_prefixes r)"
  by (auto simp: split_route_field_def parse_split_route_def agent_prefixes bind_eq_Some_conv split: option.splits if_splits dest: prefixes_valid)

lemma parsed_routable:
  assumes "health_target_from_payload w v = Some t"
  shows "routable t"
proof -
  have "tg_route_key t = Option.bind (Option.bind (either_key v ''routeKey'' ''route_key'') as_str) clean_route_key"
    "tg_domain t = Option.bind (get_str v ''domain'') (\<lambda>d. if valid_domain d then Some d else None)"
    "tg_route_generation t = Option.bind (Option.bind (either_key v ''routeGeneration'' ''route_generation'') as_i64)
      (\<lambda>g. if 0 \<le> g then Some g else None)"
    "split_route_field v = Some (tg_split_route t)"
    using assms unfolding health_target_from_payload_def Let_def by (auto split: option.splits if_splits)
  then show ?thesis
    unfolding routable_def
    by (auto simp: bind_eq_Some_conv split: if_splits dest: clean_key_slug as_i64_max split_field_valid)
qed

text \<open>
  The environment of a probe as the route fence needs it: the files can be read and restored, and the
  strings of the API are UTF-8, as Rust's strings are.
\<close>

definition sound_io :: "(string \<Rightarrow> uuid option) \<Rightarrow> world \<Rightarrow> probe_io \<Rightarrow> bool" where
  "sound_io parse w io \<longleftrightarrow> dependable parse (pi_route io)
     \<and> (\<forall>ts. fetch_health_targets w (pi_targets io) = Inr ts \<longrightarrow>
         (\<forall>t \<in> set ts. \<forall>r. tg_split_route t = Some r \<longrightarrow> list_all valid_utf8 (sp_path_prefixes r)))"

lemma has_control_low: "c \<in> set p \<Longrightarrow> byte c < 32 \<Longrightarrow> has_control p"
  by (induction p rule: has_control.induct) auto

lemma prefix_clean:
  assumes "valid_backend_path_prefix p" "valid_utf8 p"
  shows "clean p"
  using assms has_control_low [of newline p] has_control_low [of "CHR 0x0D" p]
  by (auto simp: valid_backend_path_prefix_def clean_def newline_def byte_def)

lemma current_sound:
  assumes "sound_io parse w io" "current_health_target_by_id w (pi_targets io) a d = Inr (Some c)"
  shows "routable c \<and> (\<forall>r. tg_split_route c = Some r \<longrightarrow> list_all clean (sp_path_prefixes r))"
proof -
  obtain ts where ts: "fetch_health_targets w (pi_targets io) = Inr ts" "select_health_target_by_id a d ts = Some c"
    using assms(2) by (auto simp: current_health_target_by_id_def and_then_def split: sum.splits)
  then have c: "c \<in> set ts" by (auto simp: select_health_target_by_id_def dest: find_SomeD)
  then obtain v where "health_target_from_payload w v = Some c"
    using ts(1) by (auto simp: fetch_health_targets_def map_filter_def split: sum.splits)
  then have "routable c" by (rule parsed_routable)
  then show ?thesis using assms(1) ts(1) c prefix_clean unfolding sound_io_def routable_def list_all_iff by blast
qed

lemma refresh_route_writes:
  assumes "dependable parse io" "routable t" "\<forall>r. tg_split_route t = Some r \<longrightarrow> list_all clean (sp_path_prefixes r)"
    "refresh_route cfg io t f b files = (r, files')"
  shows "(route_write parse)\<^sup>*\<^sup>* files files'"
proof (cases "tg_route_key t = None \<or> tg_domain t = None \<or> files' = files")
  case True
  then show ?thesis using assms(4) by (auto simp: refresh_route_def Let_def split: option.splits)
next
  case False
  then obtain k d where kd: "tg_route_key t = Some k" "tg_domain t = Some d" "files' \<noteq> files" by auto
  have names: "route_names k d generation" if "generation = None \<or> generation = tg_route_generation t" for generation
    using assms(2) kd that by (auto simp: routable_def route_names_def)
  show ?thesis
  proof (cases "\<exists>rt bp. tg_split_route t = Some rt \<and> b = Some bp")
    case True
    then obtain rt bp where s: "tg_split_route t = Some rt" "b = Some bp" by blast
    with assms(4) kd obtain g where g: "tg_route_generation t = Some g"
      by (auto simp: refresh_route_def Let_def split: option.splits)
    have "route_write parse files files'"
    proof (cases "ac_local_mode cfg")
      case True
      with assms(4) kd s g have "apply_local_caddy_split_route_versioned io (tg_deployment_id t) k d (nat f) (nat bp)
          (sp_path_prefixes rt) g files = (r, files')"
        by (auto simp: refresh_route_def Let_def split: if_splits)
      then show ?thesis using route_write.local_split [OF assms(1)] names [of "Some g"] g assms(3) s by auto
    next
      case False
      with assms(4) kd s g have "apply_caddy_split_route_versioned io (tg_deployment_id t) k d (nat f) (nat bp)
          (sp_path_prefixes rt) g files = (r, files')"
        by (auto simp: refresh_route_def Let_def)
      then show ?thesis using route_write.split [OF assms(1)] names [of "Some g"] g assms(3) s by auto
    qed
    then show ?thesis by blast
  next
    case single: False
    have "route_write parse files files'"
    proof (cases "ac_local_mode cfg")
      case True
      with assms(4) kd single have "apply_local_caddy_route_inner io (tg_deployment_id t) k d (nat f)
          (tg_route_generation t) files = (r, files')"
        by (auto simp: refresh_route_def Let_def split: if_splits option.splits)
      then show ?thesis using route_write.local_single [OF assms(1)] names by blast
    next
      case False
      with assms(4) kd single have "apply_caddy_route_inner io (tg_deployment_id t) k d (nat f)
          (tg_route_generation t) files = (r, files')"
        by (auto simp: refresh_route_def Let_def split: option.splits)
      then show ?thesis using route_write.single [OF assms(1)] names by blast
    qed
    then show ?thesis by blast
  qed
qed

lemma refresh_ports_writes:
  assumes "sound_io parse w io" "refresh_published_ports cfg w io t st = (r, st')"
  shows "(route_write parse)\<^sup>*\<^sup>* (ag_routes st) (ag_routes st')"
proof (cases "ag_routes st' = ag_routes st")
  case False
  then obtain f b c x files where s: "current_health_target_by_id w (pi_targets io) (tg_app_id t) (tg_deployment_id t) = Inr (Some c)"
    "refresh_route cfg (pi_route io) c f b (ag_routes st) = (x, files)" "ag_routes st' = files"
    using assms(2) unfolding refresh_published_ports_def
    by (auto simp: post_def Let_def split: sum.splits option.splits prod.splits if_splits)
  have "dependable parse (pi_route io)" using assms(1) by (simp add: sound_io_def)
  then show ?thesis using refresh_route_writes [OF _ _ _ s(2)] current_sound [OF assms(1) s(1)] s(3) by blast
qed simp

lemma probe_writes:
  assumes "sound_io parse w io" "probe_health_target cfg w io t st = (r, t', st')"
  shows "(route_write parse)\<^sup>*\<^sup>* (ag_routes st) (ag_routes st')"
proof (cases "refresh_published_ports cfg w io t st")
  case (Pair x st1)
  have "st' = st \<or> st' = st1"
    using assms(2) Pair by (auto simp: probe_health_target_def Let_def split: sum.splits if_splits)
  then show ?thesis using refresh_ports_writes [OF assms(1) Pair] by auto
qed

lemma post_routes [simp]: "ag_routes (post e st) = ag_routes st" "ag_routes (starting t st) = ag_routes st"
  by (simp_all add: post_def starting_def run_docker_def)

lemma auto_start_writes:
  assumes "sound_io parse w (ob_reprobe ob)" "auto_start_container cfg w ob t entry st = (entry', r, t', st')"
  shows "(route_write parse)\<^sup>*\<^sup>* (ag_routes st) (ag_routes st')"
proof -
  obtain r2 t2 st2 where P: "probe_health_target cfg w (ob_reprobe ob) t (starting t st) = (r2, t2, st2)" by (metis prod_cases3)
  have "ag_routes st' = ag_routes st \<or> ag_routes st' = ag_routes st2"
    using assms(2) P by (auto simp: auto_start_container_def Let_def split: sum.splits if_splits)
  then show ?thesis using probe_writes [OF assms(1) P] by auto
qed

lemma react_writes:
  assumes "sound_io parse w (ob_reprobe ob)" "react cfg w ob r t entry st = (entry', r', t', st')"
  shows "(route_write parse)\<^sup>*\<^sup>* (ag_routes st) (ag_routes st')"
proof (cases "auto_start_container cfg w ob t entry st")
  case (fields e x y st1)
  have "ag_routes st' = ag_routes st \<or> st' = st1"
    using assms(2) fields unfolding react_def Let_def
    by (auto simp: request_app_rebuild_def split: option.splits container_actual.splits if_splits)
  then show ?thesis using auto_start_writes [OF assms(1) fields] by auto
qed

lemma check_target_writes:
  assumes "sound_io parse w (ob_probe ob)" "sound_io parse w (ob_reprobe ob)"
  shows "(route_write parse)\<^sup>*\<^sup>* (ag_routes st) (ag_routes (check_target cfg w ob t st))"
proof -
  obtain r t1 st1 where P: "probe_health_target cfg w (ob_probe ob) t st = (r, t1, st1)" by (metis prod_cases3)
  obtain e r' t2 st2 where R: "react cfg w ob r t1 (record_health_probe (ag_counts st1 (tg_app_id t1)) r) st1 = (e, r', t2, st2)"
    by (metis prod_cases4)
  have "ag_routes (check_target cfg w ob t st) = ag_routes st2" using P R by (simp add: check_target_def)
  then show ?thesis using probe_writes [OF assms(1) P] react_writes [OF assms(2) R] by simp
qed

lemma check_targets_writes:
  assumes "\<And>n. sound_io parse w (ob_probe (obs n)) \<and> sound_io parse w (ob_reprobe (obs n))"
  shows "(route_write parse)\<^sup>*\<^sup>* (ag_routes st) (ag_routes (check_targets cfg w obs n ts st))"
proof (induction ts arbitrary: n st)
  case (Cons t ts)
  then show ?case using check_target_writes [of parse w "obs n" st cfg t] assms [of n] by (simp add: rtranclp_trans)
qed simp

text \<open>
  Following Docker's ports never undoes a deployment.  A health pass rewrites routes on its own when
  Docker published a container under another port; whatever it finds, and with whatever failures, the
  route of every app keeps its place in the order of activations: it stays versioned, its generation does
  not fall, and within a generation it stays with its deployment.
\<close>

theorem health_pass_keeps_fence:
  assumes "\<And>n. sound_io parse w (ob_probe (obs n)) \<and> sound_io parse w (ob_reprobe (obs n))"
    "version_at parse app (ag_routes st) = Inr (Some v)" "app \<noteq> []"
  shows "\<exists>v'. version_at parse app (ag_routes (publish_runtime_health cfg w raw obs st)) = Inr (Some v') \<and> supersedes v' v"
proof -
  have "(route_write parse)\<^sup>*\<^sup>* (ag_routes st) (ag_routes (publish_runtime_health cfg w raw obs st))"
    using check_targets_writes [OF assms(1)] by (auto simp: publish_runtime_health_def split: sum.splits)
  then show ?thesis
  proof (induction rule: rtranclp_induct)
    case base
    then show ?case using assms(2) supersedes_refl by blast
  next
    case (step mid files')
    then show ?case using version_step [OF step.hyps(2) _ assms(3)] supersedes_trans by blast
  qed
qed

text \<open>
  A healthy report describes the container as Docker runs it: the container is running, the probe went to
  the port that Docker publishes for it now, and the answer was a connection or a status below 400.
\<close>

theorem healthy_probe_current:
  assumes "probe_health_target cfg w io t st = (r, t', st')" "pr_healthy r"
  shows "container_state_of (pi_inspect io) = Inr Running \<and> docker_published_port (pi_frontend io) = Inr (tg_published_port t')
    \<and> pr_url r = health_url cfg t' \<and> pr_error r = None
    \<and> (if tg_tcp_probe t then pi_tcp io = Some (Inr ()) else \<exists>s. pi_http io = Inr s \<and> 200 \<le> fst s \<and> fst s < 400)"
proof -
  have run: "container_state_of (pi_inspect io) = Inr Running"
    using assms by (auto simp: probe_health_target_def probe_result_def split: sum.splits if_splits)
  obtain x st1 where R: "refresh_published_ports cfg w io t st = (x, st1)" by fastforce
  obtain t1 where x: "x = Inr t1" using assms run R by (cases x) (auto simp: probe_health_target_def probe_result_def)
  have "t' = t1" using assms run R x by (auto simp: probe_health_target_def Let_def)
  moreover have "docker_published_port (pi_frontend io) = Inr (tg_published_port t1)"
    using R x unfolding refresh_published_ports_def
    by (auto simp: actual_ports_def and_then_def with_ports_def split_route_ports_changed_def published_port_changed_def Let_def
      split: sum.splits option.splits prod.splits if_splits)
  moreover have "tg_tcp_probe t1 = tg_tcp_probe t" using refresh_quiet [OF R] x by (simp add: same_target_def)
  ultimately show ?thesis
    using assms run R x
    by (auto simp: probe_health_target_def probe_result_def Let_def health_error_for_status_def is_ok_status_def
      split: sum.splits option.splits if_splits)
qed

end
