(* ===== verification/Sessions.thy ===== *)
theory Sessions
  imports Json Store Rust_Text "HOL-Library.Word" "HOL-Library.AList"
begin

text \<open>
  Sessions: \<open>apps/api/src/auth.rs\<close> (signed cookies, the control-plane password, the GitHub device
  flow), \<open>password.rs\<close>, \<open>device_flow.rs\<close> and the comparison and signing helpers of
  \<open>crates/contracts/src/crypto.rs\<close>.  HMAC, Argon2, AES, base64, the URL and JSON parsers and GitHub are
  parameters.  Every handler returns its answer with the cookies that it sets, as grants; the state is the
  part of the schema that these handlers use.
\<close>

section \<open>Parameters and state\<close>

record auth_config =
  au_client_id :: string
  au_session_secret :: string
  au_setup_token :: "string option"
  au_allowed_logins :: "string list option"
  au_public_web_url :: string
  au_public_api_url :: string
  au_allowed_web_origins :: "string list"
  au_mode :: string
  au_hmac :: "string \<Rightarrow> string \<Rightarrow> 8 word list"
  au_encode :: "string \<Rightarrow> string"
  au_decode :: "string \<Rightarrow> string option"
  au_verify_password :: "string \<Rightarrow> string \<Rightarrow> unit + bool"
  au_parse_url :: "string \<Rightarrow> (string \<times> string option \<times> nat option) option"
  au_uuid_text :: "uuid \<Rightarrow> string"
  au_parse_uuid :: "string \<Rightarrow> uuid option"

record stored_device_flow =
  df_device_code :: string
  df_web_origin :: string
  df_expires_at :: int
  df_interval :: int

record github_user =
  gu_id :: int
  gu_login :: string
  gu_name :: "string option"
  gu_avatar_url :: "string option"

record user_row =
  us_id :: uuid
  us_github_id :: int
  us_login :: string
  us_name :: "string option"
  us_avatar_url :: "string option"

record github_account_row =
  ga_user_id :: uuid
  ga_github_id :: int
  ga_token :: string
  ga_scopes :: string

record auth_db =
  settings :: "(string \<times> string) list"
  users :: "user_row list"
  github_accounts :: "github_account_row list"

datatype fetched = Unreachable | Not_Json | Payload json

text \<open>
  The environment of one request: the readings of the clock in seconds, which statements fail, what GitHub
  answers, the fresh values, what Argon2 and AES return and how flows are written as JSON.
\<close>

record auth_env =
  ae_clock :: "nat \<Rightarrow> int"
  ae_fault :: "nat \<Rightarrow> bool"
  ae_fetched :: fetched
  ae_user :: "unit + github_user"
  ae_flow_id :: string
  ae_new_user :: uuid
  ae_hash :: "unit + string"
  ae_cipher :: "unit + string"
  ae_write_flow :: "stored_device_flow \<Rightarrow> string"
  ae_read_flow :: "string \<Rightarrow> stored_device_flow option"

record auth_headers =
  ah_cookie :: "string option"
  ah_setup_token :: "string option"
  ah_referer :: "string option"
  ah_origin :: "string option"

record grant =
  gr_cookie :: string
  gr_value :: string
  gr_ttl :: int
  gr_at :: int

datatype auth_reply = Panicked | Replied nat json "grant list"

fun grants_of :: "auth_reply \<Rightarrow> grant list" where
  "grants_of Panicked = []"
| "grants_of (Replied _ _ gs) = gs"

section \<open>Signatures\<close>

definition hex_digit :: "nat \<Rightarrow> char" where
  "hex_digit n = (if n < 10 then char_of (48 + n) else char_of (87 + n))"

definition hex_bytes :: "8 word list \<Rightarrow> string" where
  "hex_bytes bs = concat (map (\<lambda>b. [hex_digit (unat b div 16), hex_digit (unat b mod 16)]) bs)"

definition constant_time_eq :: "string \<Rightarrow> string \<Rightarrow> bool" where
  "constant_time_eq a b =
     (if length a \<noteq> length b then False
      else fold (\<lambda>(x, y) acc. Bit_Operations.or acc (Bit_Operations.xor (word_of_nat (of_char x)) (word_of_nat (of_char y))))
        (zip a b) (0 :: 8 word) = 0)"

definition sign_with :: "(string \<Rightarrow> string \<Rightarrow> 8 word list) \<Rightarrow> string \<Rightarrow> string \<Rightarrow> string" where
  "sign_with hmac secret payload = ''sha256='' @ hex_bytes (hmac secret payload)"

definition verify_signature :: "(string \<Rightarrow> string \<Rightarrow> 8 word list) \<Rightarrow> string \<Rightarrow> string \<Rightarrow> string \<Rightarrow> bool" where
  "verify_signature hmac secret payload signature = constant_time_eq (sign_with hmac secret payload) signature"

section \<open>Signed values\<close>

definition signed_data :: "auth_config \<Rightarrow> string \<Rightarrow> int \<Rightarrow> string" where
  "signed_data cfg value expires_at = ''v2.'' @ au_encode cfg value @ ''.'' @ show_int expires_at"

definition signed_value :: "auth_config \<Rightarrow> string \<Rightarrow> int \<Rightarrow> string" where
  "signed_value cfg value expires_at =
     (let data = signed_data cfg value expires_at in data @ ''.'' @ sign_with (au_hmac cfg) (au_session_secret cfg) data)"

definition verify_signed_payload :: "auth_config \<Rightarrow> int \<Rightarrow> string \<Rightarrow> string \<Rightarrow> string option" where
  "verify_signed_payload cfg now value start =
     (case split_once_char (CHR ''.'') value of
        None \<Rightarrow> None
      | Some (payload, rest) \<Rightarrow>
        let (expires, signature) = (case split_once_char (CHR ''.'') rest of Some (e, s) \<Rightarrow> (e, Some s) | None \<Rightarrow> (rest, None)) in
        case parse_i64 expires of
          None \<Rightarrow> None
        | Some expires_at \<Rightarrow>
          (case signature of
             None \<Rightarrow> None
           | Some sig \<Rightarrow>
             if now > expires_at then None
             else if verify_signature (au_hmac cfg) (au_session_secret cfg) (start @ payload @ ''.'' @ show_int expires_at) sig
             then Some payload else None))"

definition verify_signed_value_v2 :: "auth_config \<Rightarrow> int \<Rightarrow> string \<Rightarrow> string option" where
  "verify_signed_value_v2 cfg now value =
     Option.bind (verify_signed_payload cfg now value ''v2.'') (\<lambda>payload.
     Option.bind (au_decode cfg payload) (\<lambda>decoded. if valid_utf8 decoded then Some decoded else None))"

definition verify_signed_value_v1 :: "auth_config \<Rightarrow> int \<Rightarrow> string \<Rightarrow> string option" where
  "verify_signed_value_v1 cfg now value = verify_signed_payload cfg now value []"

definition verify_signed_value :: "auth_config \<Rightarrow> int \<Rightarrow> string \<Rightarrow> string option" where
  "verify_signed_value cfg now value =
     (case strip_prefix value ''v2.'' of
        Some rest \<Rightarrow> verify_signed_value_v2 cfg now rest
      | None \<Rightarrow> verify_signed_value_v1 cfg now value)"

section \<open>Cookies\<close>

definition session_cookie :: string where
  "session_cookie = ''hostlet_session''"

definition unlock_cookie :: string where
  "unlock_cookie = ''hostlet_unlock''"

definition session_ttl :: int where
  "session_ttl = 14 * 86400"

definition unlock_ttl :: int where
  "unlock_ttl = 12 * 3600"

fun cookie_in :: "string \<Rightarrow> string list \<Rightarrow> string option" where
  "cookie_in name [] = None"
| "cookie_in name (part # parts) =
     (case Option.bind (strip_prefix (trim part) name) (\<lambda>rest. strip_prefix rest ''='') of
        Some value \<Rightarrow> Some value | None \<Rightarrow> cookie_in name parts)"

definition cookie_value :: "auth_headers \<Rightarrow> string \<Rightarrow> string option" where
  "cookie_value headers name = Option.bind (ah_cookie headers) (\<lambda>cookie. cookie_in name (split_char (CHR '';'') cookie))"

definition build_cookie :: "string \<Rightarrow> string \<Rightarrow> int option \<Rightarrow> bool \<Rightarrow> string \<Rightarrow> string" where
  "build_cookie name value max_age secure path =
     name @ ''='' @ value @ ''; HttpOnly; SameSite=Lax; Path='' @ path
       @ (case max_age of Some n \<Rightarrow> ''; Max-Age='' @ show_int n | None \<Rightarrow> [])
       @ (if secure then ''; Secure'' else [])"

definition expire_cookie :: "string \<Rightarrow> bool \<Rightarrow> string \<Rightarrow> string" where
  "expire_cookie name secure path =
     name @ ''=; HttpOnly; SameSite=Lax; Path='' @ path @ ''; Max-Age=0'' @ (if secure then ''; Secure'' else [])"

definition cookie_secure :: "string \<Rightarrow> bool" where
  "cookie_secure public_api_url = starts_with (trim_start public_api_url) ''https://''"

text \<open>The header line that carries a grant.\<close>

definition grant_cookie :: "auth_config \<Rightarrow> grant \<Rightarrow> string" where
  "grant_cookie cfg g = build_cookie (gr_cookie g) (signed_value cfg (gr_value g) (gr_at g + gr_ttl g)) (Some (gr_ttl g))
     (cookie_secure (au_public_api_url cfg)) ''/''"

definition unlock_grant :: "int \<Rightarrow> grant" where
  "unlock_grant now = \<lparr> gr_cookie = unlock_cookie, gr_value = ''unlocked'', gr_ttl = unlock_ttl, gr_at = now \<rparr>"

definition session_grant :: "auth_config \<Rightarrow> uuid \<Rightarrow> int \<Rightarrow> grant" where
  "session_grant cfg user_id now = \<lparr> gr_cookie = session_cookie, gr_value = au_uuid_text cfg user_id, gr_ttl = session_ttl, gr_at = now \<rparr>"

definition current_user_id_from_headers :: "auth_config \<Rightarrow> int \<Rightarrow> auth_headers \<Rightarrow> uuid option" where
  "current_user_id_from_headers cfg now headers =
     Option.bind (cookie_value headers session_cookie) (\<lambda>value.
     Option.bind (verify_signed_value cfg now value) (\<lambda>user_id. au_parse_uuid cfg user_id))"

definition control_plane_unlocked :: "auth_config \<Rightarrow> int \<Rightarrow> auth_headers \<Rightarrow> bool" where
  "control_plane_unlocked cfg now headers \<longleftrightarrow>
     Option.bind (cookie_value headers unlock_cookie) (verify_signed_value cfg now) = Some ''unlocked''"

definition current_user_id :: "auth_config \<Rightarrow> int \<Rightarrow> auth_headers \<Rightarrow> uuid option" where
  "current_user_id cfg now headers =
     (if control_plane_unlocked cfg now headers then current_user_id_from_headers cfg now headers else None)"

definition request_context :: "auth_config \<Rightarrow> int \<Rightarrow> auth_headers \<Rightarrow> string + uuid" where
  "request_context cfg now headers =
     (case current_user_id cfg now headers of Some user_id \<Rightarrow> Inr user_id | None \<Rightarrow> Inl ''sign in required'')"

section \<open>Rows\<close>

definition control_plane_password_key :: string where
  "control_plane_password_key = ''control_plane_password_hash''"

definition device_flow_key :: "string \<Rightarrow> string" where
  "device_flow_key flow_id = ''github_device_flow:'' @ flow_id"

definition control_plane_password_hash :: "auth_db \<Rightarrow> string option" where
  "control_plane_password_hash db = map_of (settings db) control_plane_password_key"

definition store_control_plane_password_hash :: "string \<Rightarrow> auth_db \<Rightarrow> bool \<times> auth_db" where
  "store_control_plane_password_hash hash db =
     (if control_plane_password_hash db \<noteq> None then (False, db)
      else (True, db\<lparr> settings := settings db @ [(control_plane_password_key, hash)] \<rparr>))"

definition store_device_flow :: "auth_env \<Rightarrow> string \<Rightarrow> stored_device_flow \<Rightarrow> auth_db \<Rightarrow> auth_db" where
  "store_device_flow e flow_id flow db = db\<lparr> settings := AList.update (device_flow_key flow_id) (ae_write_flow e flow) (settings db) \<rparr>"

definition load_device_flow :: "auth_env \<Rightarrow> string \<Rightarrow> auth_db \<Rightarrow> stored_device_flow option" where
  "load_device_flow e flow_id db = Option.bind (map_of (settings db) (device_flow_key flow_id)) (ae_read_flow e)"

definition delete_device_flow :: "string \<Rightarrow> auth_db \<Rightarrow> auth_db" where
  "delete_device_flow flow_id db = db\<lparr> settings := AList.delete (device_flow_key flow_id) (settings db) \<rparr>"

definition single_existing_user_id :: "auth_db \<Rightarrow> uuid option" where
  "single_existing_user_id db = (case users db of [u] \<Rightarrow> Some (us_id u) | _ \<Rightarrow> None)"

definition github_user_exists :: "int \<Rightarrow> auth_db \<Rightarrow> bool" where
  "github_user_exists github_id db = list_ex (\<lambda>u. us_github_id u = github_id) (users db)"

definition renew_user :: "github_user \<Rightarrow> user_row \<Rightarrow> user_row" where
  "renew_user g x = (if us_github_id x = gu_id g
     then x\<lparr> us_login := gu_login g, us_name := gu_name g, us_avatar_url := gu_avatar_url g \<rparr> else x)"

definition upsert_user :: "uuid \<Rightarrow> github_user \<Rightarrow> auth_db \<Rightarrow> uuid \<times> auth_db" where
  "upsert_user new_id g db =
     (case find (\<lambda>u. us_github_id u = gu_id g) (users db) of
        Some u \<Rightarrow> (us_id u, db\<lparr> users := map (renew_user g) (users db) \<rparr>)
      | None \<Rightarrow> (new_id, db\<lparr> users := users db @ [\<lparr> us_id = new_id, us_github_id = gu_id g, us_login = gu_login g,
          us_name = gu_name g, us_avatar_url = gu_avatar_url g \<rparr>] \<rparr>))"

definition upsert_account :: "uuid \<Rightarrow> int \<Rightarrow> string \<Rightarrow> string \<Rightarrow> auth_db \<Rightarrow> auth_db" where
  "upsert_account user_id github_id cipher scopes db =
     (if list_ex (\<lambda>a. ga_user_id a = user_id \<and> ga_github_id a = github_id) (github_accounts db)
      then db\<lparr> github_accounts := map (\<lambda>a. if ga_user_id a = user_id \<and> ga_github_id a = github_id
        then a\<lparr> ga_token := cipher, ga_scopes := scopes \<rparr> else a) (github_accounts db) \<rparr>
      else db\<lparr> github_accounts := github_accounts db @ [\<lparr> ga_user_id = user_id, ga_github_id = github_id,
        ga_token = cipher, ga_scopes = scopes \<rparr>] \<rparr>)"

section \<open>Logging in\<close>

text \<open>
  The checks run as statements of their own, before the transaction that writes: \<open>seen\<close> is the state
  that they read and \<open>db\<close> the one that is written.
\<close>

definition login_allowed :: "auth_config \<Rightarrow> github_user \<Rightarrow> auth_db \<Rightarrow> bool" where
  "login_allowed cfg g seen =
     (case au_allowed_logins cfg of
        Some allowed \<Rightarrow> map to_ascii_lowercase (gu_login g) \<in> set allowed
      | None \<Rightarrow> users seen = [] \<or> github_user_exists (gu_id g) seen)"

definition store_github_access_token :: "auth_config \<Rightarrow> auth_env \<Rightarrow> string option \<Rightarrow> auth_db \<Rightarrow> auth_db
    \<Rightarrow> (unit + uuid \<times> string) \<times> auth_db" where
  "store_github_access_token cfg e scopes seen db =
     (case ae_user e of
        Inl _ \<Rightarrow> (Inl (), db)
      | Inr g \<Rightarrow>
        if au_allowed_logins cfg = None \<and> ae_fault e 2 \<or> \<not> login_allowed cfg g seen \<or> ae_fault e 3 then (Inl (), db)
        else case ae_cipher e of
          Inl _ \<Rightarrow> (Inl (), db)
        | Inr cipher \<Rightarrow>
          if ae_fault e 4 then (Inl (), db)
          else (case upsert_user (ae_new_user e) g db of
            (user_id, db1) \<Rightarrow> (Inr (user_id, gu_login g),
              upsert_account user_id (gu_id g) cipher (case scopes of Some s \<Rightarrow> s | None \<Rightarrow> []) db1)))"

definition unlock_response :: "auth_config \<Rightarrow> auth_env \<Rightarrow> auth_db \<Rightarrow> auth_reply" where
  "unlock_response cfg e db =
     (case (if ae_fault e 5 then None else single_existing_user_id db) of
        None \<Rightarrow> Replied 204 JNull [unlock_grant (ae_clock e 1)]
      | Some user_id \<Rightarrow> Replied 204 JNull [unlock_grant (ae_clock e 1), session_grant cfg user_id (ae_clock e 2)])"

definition valid_control_plane_password :: "string \<Rightarrow> bool" where
  "valid_control_plane_password password \<longleftrightarrow> 12 \<le> length (filter (\<lambda>c. \<not> is_continuation c) password) \<and> \<not> has_control password"

definition setup_password :: "auth_config \<Rightarrow> auth_env \<Rightarrow> auth_headers \<Rightarrow> string \<Rightarrow> auth_db \<Rightarrow> auth_reply \<times> auth_db" where
  "setup_password cfg e headers password db =
     (if (case au_setup_token cfg of
            Some expected \<Rightarrow> \<not> constant_time_eq (case ah_setup_token headers of Some t \<Rightarrow> t | None \<Rightarrow> []) expected
          | None \<Rightarrow> False) then (Replied 401 JNull [], db)
      else if \<not> valid_control_plane_password password
      then (Replied 400 (JStr ''password must be at least 12 characters'') [], db)
      else case ae_hash e of
        Inl _ \<Rightarrow> (Replied 500 JNull [], db)
      | Inr hash \<Rightarrow>
        if ae_fault e 0 then (Replied 500 JNull [], db)
        else (case store_control_plane_password_hash hash db of
          (True, db1) \<Rightarrow> (unlock_response cfg e db1, db1)
        | (False, db1) \<Rightarrow> (Replied 409 (JStr ''control plane password is already set'') [], db1)))"

definition unlock :: "auth_config \<Rightarrow> auth_env \<Rightarrow> string \<Rightarrow> auth_db \<Rightarrow> auth_reply" where
  "unlock cfg e password db =
     (case (if ae_fault e 0 then None else control_plane_password_hash db) of
        None \<Rightarrow> Replied 428 (JStr ''setup is required'') []
      | Some hash \<Rightarrow>
        (case au_verify_password cfg hash password of
           Inr True \<Rightarrow> unlock_response cfg e db
         | Inr False \<Rightarrow> Replied 401 JNull []
         | Inl _ \<Rightarrow> Replied 401 JNull []))"

section \<open>The device flow\<close>

definition normalize_origin :: "auth_config \<Rightarrow> string \<Rightarrow> string option" where
  "normalize_origin cfg value =
     (case au_parse_url cfg value of
        Some (scheme, Some host, port) \<Rightarrow>
          if scheme = ''http'' \<or> scheme = ''https''
          then Some (scheme @ ''://'' @ host @ (case port of Some n \<Rightarrow> '':'' @ show_nat n | None \<Rightarrow> [])) else None
      | _ \<Rightarrow> None)"

definition request_web_origin :: "auth_config \<Rightarrow> auth_headers \<Rightarrow> string option" where
  "request_web_origin cfg headers =
     coalesce (Option.bind (ah_referer headers) (normalize_origin cfg)) (Option.bind (ah_origin headers) (normalize_origin cfg))"

definition web_origin_allowed :: "auth_config \<Rightarrow> string \<Rightarrow> bool" where
  "web_origin_allowed cfg value =
     (case normalize_origin cfg value of Some origin \<Rightarrow> origin \<in> set (au_allowed_web_origins cfg) | None \<Rightarrow> False)"

definition redirect_origin :: "auth_config \<Rightarrow> auth_headers \<Rightarrow> string" where
  "redirect_origin cfg headers =
     (case request_web_origin cfg headers of
        Some origin \<Rightarrow> if web_origin_allowed cfg origin then origin else au_public_web_url cfg
      | None \<Rightarrow> au_public_web_url cfg)"

definition github_device_json :: "string \<Rightarrow> fetched \<Rightarrow> auth_reply + json" where
  "github_device_json parse_fail_message f = (case f of
     Unreachable \<Rightarrow> Inl (Replied 502 (JStr ''Could not reach GitHub device authorization endpoint'') [])
   | Not_Json \<Rightarrow> Inl (Replied 502 (JStr parse_fail_message) [])
   | Payload v \<Rightarrow> Inr v)"

text \<open>Timestamps end in the year 262142; adding a longer duration panics.\<close>

definition max_timestamp :: int where
  "max_timestamp = 8210266876799"

definition int_or :: "json \<Rightarrow> string \<Rightarrow> int \<Rightarrow> int" where
  "int_or v key dflt = (case Option.bind (json_get v key) as_i64 of Some n \<Rightarrow> n | None \<Rightarrow> dflt)"

definition begin_flow :: "auth_config \<Rightarrow> auth_env \<Rightarrow> auth_headers \<Rightarrow> json \<Rightarrow> auth_db \<Rightarrow> auth_reply \<times> auth_db" where
  "begin_flow cfg e headers payload db =
     (case get_str payload ''device_code'' of
        None \<Rightarrow> (Replied 502 (JStr ''GitHub did not return a device code'') [], db)
      | Some device_code \<Rightarrow>
        case get_str payload ''user_code'' of
          None \<Rightarrow> (Replied 502 (JStr ''GitHub did not return a user code'') [], db)
        | Some user_code \<Rightarrow>
          case get_str payload ''verification_uri'' of
            None \<Rightarrow> (Replied 502 (JStr ''GitHub did not return a verification URL'') [], db)
          | Some verification_uri \<Rightarrow>
            (let expires_in = max (int_or payload ''expires_in'' 900) 60;
                 interval = max (int_or payload ''interval'' 5) 5;
                 expires_at = ae_clock e 1 + expires_in;
                 stored = \<lparr> df_device_code = device_code, df_web_origin = redirect_origin cfg headers,
                   df_expires_at = expires_at, df_interval = interval \<rparr> in
             if max_timestamp < expires_at then (Panicked, db)
             else if ae_fault e 2 then (Replied 500 JNull [], db)
             else (Replied 200 (JObj [(''flowId'', JStr (ae_flow_id e)), (''userCode'', JStr user_code),
               (''verificationUri'', JStr verification_uri),
               (''verificationUriComplete'', case get_str payload ''verification_uri_complete'' of Some u \<Rightarrow> JStr u | None \<Rightarrow> JNull),
               (''expiresIn'', JInt expires_in), (''interval'', JInt interval)]) [],
               store_device_flow e (ae_flow_id e) stored db)))"

definition github_device_start :: "auth_config \<Rightarrow> auth_env \<Rightarrow> auth_headers \<Rightarrow> auth_db \<Rightarrow> auth_reply \<times> auth_db" where
  "github_device_start cfg e headers db =
     (if trim (au_client_id cfg) = [] then (Replied 503 (JStr (''GitHub device flow is not configured. Set GITHUB_CLIENT_ID ''
        @ ''and enable Device Flow on the GitHub OAuth App.'')) [], db)
      else if ae_fault e 0 \<or> control_plane_password_hash db = None then (Replied 428 (JStr ''setup is required'') [], db)
      else if \<not> control_plane_unlocked cfg (ae_clock e 0) headers \<and> (ae_fault e 1 \<or> users db = []) then (Replied 401 JNull [], db)
      else case github_device_json ''GitHub returned an unexpected device flow response'' (ae_fetched e) of
        Inl reply \<Rightarrow> (reply, db)
      | Inr payload \<Rightarrow>
        (case get_str payload ''error'' of
           Some err \<Rightarrow> (Replied 502 (JStr (''GitHub device flow failed: ''
             @ (case get_str payload ''error_description'' of Some d \<Rightarrow> d | None \<Rightarrow> err))) [], db)
         | None \<Rightarrow> begin_flow cfg e headers payload db))"

definition flow_reply :: "string \<Rightarrow> string \<Rightarrow> int option \<Rightarrow> json" where
  "flow_reply status message interval = JObj ([(''status'', JStr status), (''message'', JStr message)]
     @ (case interval of Some n \<Rightarrow> [(''interval'', JInt n)] | None \<Rightarrow> []))"

definition wrap_i64 :: "int \<Rightarrow> int" where
  "wrap_i64 n = (n + 9223372036854775808) mod 18446744073709551616 - 9223372036854775808"

text \<open>A statement whose failure is ignored.\<close>

definition attempt :: "bool \<Rightarrow> (auth_db \<Rightarrow> auth_db) \<Rightarrow> auth_db \<Rightarrow> auth_db" where
  "attempt fails f db = (if fails then db else f db)"

definition poll_error :: "auth_env \<Rightarrow> string \<Rightarrow> stored_device_flow \<Rightarrow> json \<Rightarrow> auth_db \<Rightarrow> auth_reply \<times> auth_db" where
  "poll_error e flow_id flow payload db =
     (let err = (case get_str payload ''error'' of Some t \<Rightarrow> t | None \<Rightarrow> ''authorization_pending'');
          gone = attempt (ae_fault e 1) (delete_device_flow flow_id) db in
      if err = ''authorization_pending'' then
        (Replied 200 (flow_reply ''pending'' ''Waiting for GitHub authorization.'' (Some (df_interval flow))) [], db)
      else if err = ''slow_down'' then
        (let slower = flow\<lparr> df_interval := wrap_i64 (df_interval flow + 5) \<rparr> in
         (Replied 200 (flow_reply ''pending'' ''GitHub asked Hostlet to slow down polling.'' (Some (df_interval slower))) [],
          attempt (ae_fault e 1) (store_device_flow e flow_id slower) db))
      else if err = ''expired_token'' then
        (Replied 200 (flow_reply ''expired'' ''This GitHub device login expired. Start a new login.'' None) [], gone)
      else if err = ''access_denied'' then
        (Replied 200 (flow_reply ''denied'' ''GitHub authorization was cancelled.'' None) [], gone)
      else (Replied 502 (JStr (''GitHub device authorization failed: ''
        @ (case get_str payload ''error_description'' of Some d \<Rightarrow> d | None \<Rightarrow> ''GitHub device authorization failed.''))) [], gone))"

definition poll_login :: "auth_config \<Rightarrow> auth_env \<Rightarrow> string \<Rightarrow> stored_device_flow \<Rightarrow> json \<Rightarrow> auth_db \<Rightarrow> auth_db \<Rightarrow> auth_reply \<times> auth_db" where
  "poll_login cfg e flow_id flow payload seen db =
     (case store_github_access_token cfg e (get_str payload ''scope'') seen db of
        (Inr (user_id, login), db1) \<Rightarrow>
          (Replied 200 (JObj [(''status'', JStr ''authorized''), (''message'', JStr ''GitHub connected.''),
             (''login'', JStr login), (''redirectTo'', JStr (df_web_origin flow))]) [session_grant cfg user_id (ae_clock e 2)],
           attempt (ae_fault e 1) (delete_device_flow flow_id) db1)
      | (Inl _, db1) \<Rightarrow>
          (Replied 400 (JStr ''GitHub login failed'') [], attempt (ae_fault e 1) (delete_device_flow flow_id) db1))"

definition github_device_poll :: "auth_config \<Rightarrow> auth_env \<Rightarrow> string \<Rightarrow> auth_db \<Rightarrow> auth_db \<Rightarrow> auth_reply \<times> auth_db" where
  "github_device_poll cfg e body_flow_id seen db =
     (let flow_id = trim body_flow_id;
          expired = Replied 200 (flow_reply ''expired'' ''This GitHub device login expired. Start a new login.'' None) [] in
      if flow_id = [] then (Replied 400 (JStr ''flow_id is required'') [], db)
      else case (if ae_fault e 0 then None else load_device_flow e flow_id db) of
        None \<Rightarrow> (expired, db)
      | Some flow \<Rightarrow>
        if ae_clock e 0 > df_expires_at flow then (expired, attempt (ae_fault e 1) (delete_device_flow flow_id) db)
        else case github_device_json ''GitHub returned an unexpected device authorization response'' (ae_fetched e) of
          Inl reply \<Rightarrow> (reply, db)
        | Inr payload \<Rightarrow>
          (case get_str payload ''access_token'' of
             None \<Rightarrow> poll_error e flow_id flow payload db
           | Some access_token \<Rightarrow> poll_login cfg e flow_id flow payload seen db))"

section \<open>Reading the session\<close>

definition opt_str :: "string option \<Rightarrow> json" where
  "opt_str x = (case x of Some s \<Rightarrow> JStr s | None \<Rightarrow> JNull)"

definition me :: "auth_config \<Rightarrow> auth_env \<Rightarrow> auth_headers \<Rightarrow> auth_db \<Rightarrow> auth_reply" where
  "me cfg e headers db =
     (case current_user_id cfg (ae_clock e 0) headers of
        None \<Rightarrow> Replied 401 JNull []
      | Some user_id \<Rightarrow>
        (case (if ae_fault e 0 then None else find (\<lambda>u. us_id u = user_id) (users db)) of
           None \<Rightarrow> Replied 401 JNull []
         | Some u \<Rightarrow> Replied 200 (JObj [(''id'', JStr (au_uuid_text cfg (us_id u))), (''login'', JStr (us_login u)),
             (''name'', opt_str (us_name u)), (''avatarUrl'', opt_str (us_avatar_url u))]) []))"

definition session_status :: "auth_config \<Rightarrow> auth_env \<Rightarrow> auth_headers \<Rightarrow> auth_reply" where
  "session_status cfg e headers = Replied 200 (JObj [(''mode'', JStr (au_mode cfg)),
     (''authenticated'', JBool (current_user_id cfg (ae_clock e 0) headers \<noteq> None)), (''user'', JNull)]) []"

definition setup_status :: "auth_config \<Rightarrow> auth_env \<Rightarrow> auth_headers \<Rightarrow> auth_db \<Rightarrow> auth_reply" where
  "setup_status cfg e headers db =
     (let setup_required = (ae_fault e 0 \<or> control_plane_password_hash db = None) in
      Replied 200 (JObj [(''mode'', JStr (au_mode cfg)), (''setupRequired'', JBool setup_required),
        (''unlocked'', JBool (\<not> setup_required \<and> control_plane_unlocked cfg (ae_clock e 0) headers))]) [])"

definition logout_cookies :: "auth_config \<Rightarrow> string list" where
  "logout_cookies cfg = (let secure = cookie_secure (au_public_api_url cfg) in
     [expire_cookie session_cookie secure ''/'', expire_cookie unlock_cookie secure ''/''])"

section \<open>Histories\<close>

datatype auth_call =
    Setup_Password auth_headers string
  | Unlock string
  | Device_Start auth_headers
  | Device_Poll string

definition answer :: "auth_config \<Rightarrow> auth_env \<Rightarrow> auth_call \<Rightarrow> auth_db \<Rightarrow> auth_reply \<times> auth_db" where
  "answer cfg e call db = (case call of
     Setup_Password headers password \<Rightarrow> setup_password cfg e headers password db
   | Unlock password \<Rightarrow> (unlock cfg e password db, db)
   | Device_Start headers \<Rightarrow> github_device_start cfg e headers db
   | Device_Poll flow_id \<Rightarrow> github_device_poll cfg e flow_id db db)"

text \<open>
  The histories of an installation: the calls one after the other, from an empty database, with what each
  granted.  Other parts of the system write other keys of \<open>settings\<close> and never write \<open>users\<close>.
\<close>

type_synonym history = "(auth_env \<times> auth_call \<times> grant list) list"

inductive auth_run :: "auth_config \<Rightarrow> auth_db \<Rightarrow> history \<Rightarrow> bool" for cfg where
  fresh: "auth_run cfg \<lparr> settings = [], users = [], github_accounts = [] \<rparr> []"
| call: "auth_run cfg db log \<Longrightarrow> answer cfg e c db = (reply, db') \<Longrightarrow> auth_run cfg db' (log @ [(e, c, grants_of reply)])"
| other: "auth_run cfg db log \<Longrightarrow> map_of ss control_plane_password_key = control_plane_password_hash db
    \<Longrightarrow> auth_run cfg (db\<lparr> settings := ss \<rparr>) log"

definition issued :: "history \<Rightarrow> grant set" where
  "issued log = (\<Union>(e, c, gs) \<in> set log. set gs)"

section \<open>Comparing and printing\<close>

lemma byte_inj: "(word_of_nat (of_char x) :: 8 word) = word_of_nat (of_char y) \<longleftrightarrow> x = y"
proof -
  have "unat (word_of_nat (of_char c) :: 8 word) = of_char c" for c :: char
    using nat_of_char_less_256 [of c] by (simp add: unat_of_nat take_bit_nat_eq_self)
  then show ?thesis by (metis of_char_eq_iff)
qed

lemma or_zero: "Bit_Operations.or a b = (0 :: 8 word) \<longleftrightarrow> a = 0 \<and> b = 0"
  by (rule or_eq_0_iff)

lemma xor_zero: "Bit_Operations.xor a b = (0 :: 8 word) \<longleftrightarrow> a = b"
  by (auto simp: bit_eq_iff bit_xor_iff)

lemma fold_differences:
  "fold (\<lambda>(x, y) acc. Bit_Operations.or acc (Bit_Operations.xor (word_of_nat (of_char x)) (word_of_nat (of_char y)))) ps acc
     = (0 :: 8 word) \<longleftrightarrow> acc = 0 \<and> (\<forall>(x, y) \<in> set ps. x = y)"
  by (induction ps arbitrary: acc) (auto simp: or_zero xor_zero byte_inj)

lemma constant_time_eq_iff [simp]: "constant_time_eq a b \<longleftrightarrow> a = b"
proof (cases "length a = length b")
  case True
  then have "(\<forall>(x, y) \<in> set (zip a b). x = y) \<longleftrightarrow> a = b" by (induction a b rule: list_induct2) auto
  with True show ?thesis by (simp add: constant_time_eq_def fold_differences)
next
  case False
  then show ?thesis by (auto simp: constant_time_eq_def)
qed

lemma verify_signature_iff [simp]: "verify_signature hmac secret data sig \<longleftrightarrow> sig = sign_with hmac secret data"
  by (auto simp: verify_signature_def)

lemma show_nat_inj: "show_nat m = show_nat n \<longleftrightarrow> m = n"
  by (metis digits_value_show option.inject)

lemma show_int_inj: "show_int m = show_int n \<longleftrightarrow> m = n"
proof -
  have "show_nat k \<noteq> CHR ''-'' # s" for k s
    by (rule show_nat_hd [of k]) (auto simp: is_ascii_digit_def byte_def)
  then show ?thesis by (auto simp: show_int_def show_nat_inj) metis+
qed

lemma show_int_no_dot: "CHR ''.'' \<notin> set (show_int n)"
  using show_nat_digits [of "nat n"] show_nat_digits [of "nat (- n)"]
  by (auto simp: show_int_def list_all_iff is_ascii_digit_def byte_def)

lemma split_dot: "CHR ''.'' \<notin> set a \<Longrightarrow> split_once_char (CHR ''.'') (a @ CHR ''.'' # b) = Some (a, b)"
  by (simp add: split_once_char_def takeWhile_append dropWhile_append)

lemma split_dotD: "split_once_char (CHR ''.'') s = Some (a, b) \<Longrightarrow> s = a @ CHR ''.'' # b \<and> CHR ''.'' \<notin> set a"
proof -
  assume s: "split_once_char (CHR ''.'') s = Some (a, b)"
  let ?P = "\<lambda>c. c \<noteq> CHR ''.''"
  have dot: "CHR ''.'' \<in> set s" and a: "a = takeWhile ?P s" and b: "b = tl (dropWhile ?P s)"
    using s by (auto simp: split_once_char_def split: if_splits)
  have "dropWhile ?P s \<noteq> []" using dot by (auto simp: dropWhile_eq_Nil_conv)
  then have "dropWhile ?P s = CHR ''.'' # b" using hd_dropWhile [of ?P s] b by (cases "dropWhile ?P s") auto
  then show ?thesis using takeWhile_dropWhile_id [of ?P s] set_takeWhileD [of "CHR ''.''" ?P s] a by auto
qed

lemma first_dot: "a @ CHR ''.'' # b = c @ CHR ''.'' # d \<Longrightarrow> CHR ''.'' \<notin> set a \<Longrightarrow> CHR ''.'' \<notin> set c \<Longrightarrow> a = c \<and> b = d"
  by (metis split_dot option.inject prod.inject)

section \<open>Cookies come from grants\<close>

text \<open>What the code relies on of base64 and of the text of identifiers.\<close>

definition codec_laws :: "auth_config \<Rightarrow> bool" where
  "codec_laws cfg \<longleftrightarrow> (\<forall>v. au_decode cfg (au_encode cfg v) = Some v \<and> CHR ''.'' \<notin> set (au_encode cfg v))
     \<and> (\<forall>u. au_parse_uuid cfg (au_uuid_text cfg u) = Some u) \<and> au_parse_uuid cfg ''unlocked'' = None"

lemma codecD:
  assumes "codec_laws cfg"
  shows "au_decode cfg (au_encode cfg v) = Some v" "CHR ''.'' \<notin> set (au_encode cfg v)"
    "au_parse_uuid cfg (au_uuid_text cfg u) = Some u" "au_parse_uuid cfg ''unlocked'' = None"
  using assms by (auto simp: codec_laws_def)

definition grant_data :: "auth_config \<Rightarrow> grant \<Rightarrow> string" where
  "grant_data cfg g = signed_data cfg (gr_value g) (gr_at g + gr_ttl g)"

text \<open>
  Unforgeability of the MAC, for one request: a string of the request that is the signature of some data
  under the session secret was made by this server, for data that it signed.
\<close>

definition unforged :: "auth_config \<Rightarrow> grant set \<Rightarrow> auth_headers \<Rightarrow> bool" where
  "unforged cfg G headers \<longleftrightarrow> (\<forall>name \<in> {unlock_cookie, session_cookie}. \<forall>value start sig data. cookie_value headers name = Some value
     \<longrightarrow> value = start @ sig \<longrightarrow> verify_signature (au_hmac cfg) (au_session_secret cfg) data sig \<longrightarrow> data \<in> grant_data cfg ` G)"

lemma payloadD:
  assumes "verify_signed_payload cfg now value start = Some payload"
  obtains expires sig e where "value = payload @ CHR ''.'' # expires @ CHR ''.'' # sig" "CHR ''.'' \<notin> set payload"
    "now \<le> e" "verify_signature (au_hmac cfg) (au_session_secret cfg) (start @ payload @ ''.'' @ show_int e) sig"
  using assms unfolding verify_signed_payload_def
  by (auto split: option.splits prod.splits if_splits dest!: split_dotD)

lemma verified_granted:
  assumes "codec_laws cfg" "verify_signed_value cfg now value = Some v"
    "\<And>start sig data. value = start @ sig \<Longrightarrow> verify_signature (au_hmac cfg) (au_session_secret cfg) data sig
      \<Longrightarrow> data \<in> grant_data cfg ` G"
  shows "\<exists>g \<in> G. gr_value g = v \<and> now \<le> gr_at g + gr_ttl g"
proof (cases "strip_prefix value ''v2.''")
  case None
  then have "verify_signed_payload cfg now value [] = Some v"
    using assms(2) by (simp add: verify_signed_value_def verify_signed_value_v1_def)
  then obtain expires sig e where v: "value = v @ CHR ''.'' # expires @ CHR ''.'' # sig" "CHR ''.'' \<notin> set v"
    "verify_signature (au_hmac cfg) (au_session_secret cfg) ([] @ v @ ''.'' @ show_int e) sig" by (rule payloadD)
  have "[] @ v @ ''.'' @ show_int e \<in> grant_data cfg ` G"
    using assms(3) [OF _ v(3), of "v @ CHR ''.'' # expires @ [CHR ''.'']"] v(1) by simp
  then obtain g where "[] @ v @ ''.'' @ show_int e = grant_data cfg g" by blast
  then have "v @ CHR ''.'' # show_int e = ''v2'' @ CHR ''.'' # au_encode cfg (gr_value g) @ CHR ''.'' # show_int (gr_at g + gr_ttl g)"
    by (simp add: grant_data_def signed_data_def)
  then have "show_int e = au_encode cfg (gr_value g) @ CHR ''.'' # show_int (gr_at g + gr_ttl g)"
    using first_dot [OF _ v(2), of "show_int e" "''v2''"] by simp
  then have "CHR ''.'' \<in> set (show_int e)" by simp
  then show ?thesis using show_int_no_dot by blast
next
  case (Some rest)
  then have whole: "value = ''v2.'' @ rest" by (simp add: strip_prefix_iff)
  obtain p where p: "verify_signed_payload cfg now rest ''v2.'' = Some p" "au_decode cfg p = Some v"
    using assms(2) Some by (auto simp: verify_signed_value_def verify_signed_value_v2_def bind_eq_Some_conv split: if_splits)
  from p(1) obtain expires sig e where r: "rest = p @ CHR ''.'' # expires @ CHR ''.'' # sig" "CHR ''.'' \<notin> set p" "now \<le> e"
    "verify_signature (au_hmac cfg) (au_session_secret cfg) (''v2.'' @ p @ ''.'' @ show_int e) sig" by (rule payloadD)
  have "''v2.'' @ p @ ''.'' @ show_int e \<in> grant_data cfg ` G"
    using assms(3) [OF _ r(4), of "''v2.'' @ p @ CHR ''.'' # expires @ [CHR ''.'']"] r(1) whole by simp
  then obtain g where g: "g \<in> G" "p @ CHR ''.'' # show_int e = au_encode cfg (gr_value g) @ CHR ''.'' # show_int (gr_at g + gr_ttl g)"
    by (auto simp: grant_data_def signed_data_def)
  then have "p = au_encode cfg (gr_value g) \<and> show_int e = show_int (gr_at g + gr_ttl g)"
    using first_dot r(2) codecD(2) [OF assms(1)] by blast
  then show ?thesis using g(1) r(3) p(2) codecD(1) [OF assms(1)] show_int_inj by (intro bexI [of _ g]) auto
qed

text \<open>
  The value of a cookie that the server set comes back, until it expires and no longer.
\<close>

theorem cookie_roundtrip:
  assumes "codec_laws cfg" "valid_utf8 v" "0 \<le> expires_at" "expires_at \<le> 9223372036854775807"
  shows "verify_signed_value cfg now (signed_value cfg v expires_at) = (if now \<le> expires_at then Some v else None)"
proof -
  let ?sig = "sign_with (au_hmac cfg) (au_session_secret cfg) (signed_data cfg v expires_at)"
  let ?rest = "au_encode cfg v @ CHR ''.'' # show_int expires_at @ CHR ''.'' # ?sig"
  have "signed_value cfg v expires_at = ''v2.'' @ ?rest" by (simp add: signed_value_def signed_data_def Let_def)
  then have "strip_prefix (signed_value cfg v expires_at) ''v2.'' = Some ?rest" by (simp add: strip_prefix_iff)
  moreover have "verify_signed_payload cfg now ?rest ''v2.'' = (if now \<le> expires_at then Some (au_encode cfg v) else None)"
    using assms(3,4) codecD(2) [OF assms(1)] show_int_no_dot
    by (simp add: verify_signed_payload_def split_dot parse_i64_show signed_data_def)
  ultimately show ?thesis
    using codecD(1) [OF assms(1)] assms(2) by (simp add: verify_signed_value_def verify_signed_value_v2_def)
qed

section \<open>What the handlers keep\<close>

lemma flow_keys_differ: "device_flow_key f \<noteq> control_plane_password_key"
  by (simp add: device_flow_key_def control_plane_password_key_def)

lemma flow_writes_keep [simp]:
  "control_plane_password_hash (store_device_flow e f flow db) = control_plane_password_hash db"
  "control_plane_password_hash (delete_device_flow f db) = control_plane_password_hash db"
  "control_plane_password_hash (attempt b (store_device_flow e f flow) db) = control_plane_password_hash db"
  "control_plane_password_hash (attempt b (delete_device_flow f) db) = control_plane_password_hash db"
  "users (store_device_flow e f flow db) = users db" "users (delete_device_flow f db) = users db"
  "users (attempt b (store_device_flow e f flow) db) = users db" "users (attempt b (delete_device_flow f) db) = users db"
  using flow_keys_differ [of f]
  by (auto simp: control_plane_password_hash_def store_device_flow_def delete_device_flow_def attempt_def
    AList.update_conv' AList.delete_conv')

text \<open>A user of one state is still there in the next, with the same identifiers.\<close>

definition same_users :: "auth_db \<Rightarrow> auth_db \<Rightarrow> bool" where
  "same_users db db' \<longleftrightarrow> (\<forall>u \<in> set (users db). \<exists>u' \<in> set (users db'). us_id u' = us_id u \<and> us_github_id u' = us_github_id u)"

lemma same_users_eq: "users db' = users db \<Longrightarrow> same_users db db'"
  by (auto simp: same_users_def)

lemma renew_user_ids [simp]: "us_id (renew_user g x) = us_id x" "us_github_id (renew_user g x) = us_github_id x"
  by (simp_all add: renew_user_def)

lemma upsert_user_row:
  assumes "upsert_user n g db = (u, db')"
  shows "same_users db db' \<and> (\<exists>r \<in> set (users db'). us_id r = u \<and> us_github_id r = gu_id g)
    \<and> control_plane_password_hash db' = control_plane_password_hash db"
  using assms
  by (auto simp: upsert_user_def same_users_def control_plane_password_hash_def split: option.splits dest!: find_SomeD)

lemma upsert_account_keeps [simp]:
  "users (upsert_account u g c sc db) = users db"
  "control_plane_password_hash (upsert_account u g c sc db) = control_plane_password_hash db"
  by (simp_all add: upsert_account_def control_plane_password_hash_def)

lemma login_row:
  assumes "store_github_access_token cfg e scopes seen db = (r, db')"
  shows "same_users db db' \<and> control_plane_password_hash db' = control_plane_password_hash db
    \<and> (\<forall>u l. r = Inr (u, l) \<longrightarrow> (\<exists>g. ae_user e = Inr g \<and> login_allowed cfg g seen
        \<and> (\<exists>x \<in> set (users db'). us_id x = u \<and> us_github_id x = gu_id g)))"
proof (cases "db' = db")
  case True
  then show ?thesis using assms
    by (auto simp: store_github_access_token_def same_users_eq split: sum.splits if_splits prod.splits dest!: upsert_user_row)
next
  case False
  then show ?thesis using assms
    by (auto simp: store_github_access_token_def same_users_def split: sum.splits if_splits prod.splits dest!: upsert_user_row)
qed

section \<open>Why a cookie was granted\<close>

definition password_shown :: "auth_config \<Rightarrow> string \<Rightarrow> auth_env \<Rightarrow> auth_call \<Rightarrow> bool" where
  "password_shown cfg hash e c = (case c of
     Unlock password \<Rightarrow> au_verify_password cfg hash password = Inr True
   | Setup_Password headers password \<Rightarrow> ae_hash e = Inr hash \<and> valid_control_plane_password password
       \<and> (\<forall>token. au_setup_token cfg = Some token \<longrightarrow> token = (case ah_setup_token headers of Some t \<Rightarrow> t | None \<Rightarrow> []))
   | _ \<Rightarrow> False)"

definition github_shown :: "auth_env \<Rightarrow> auth_call \<Rightarrow> auth_db \<Rightarrow> uuid \<Rightarrow> bool" where
  "github_shown e c db u \<longleftrightarrow> (\<exists>f g. c = Device_Poll f \<and> ae_user e = Inr g
     \<and> (\<exists>x \<in> set (users db). us_id x = u \<and> us_github_id x = gu_id g))"

definition justified :: "auth_config \<Rightarrow> auth_db \<Rightarrow> auth_env \<Rightarrow> auth_call \<Rightarrow> grant \<Rightarrow> bool" where
  "justified cfg db e c g \<longleftrightarrow>
     (\<exists>t. g = unlock_grant t \<and> (\<exists>h. control_plane_password_hash db = Some h \<and> password_shown cfg h e c))
     \<or> (\<exists>t u. g = session_grant cfg u t \<and> u \<in> us_id ` set (users db)
         \<and> ((\<exists>h. control_plane_password_hash db = Some h \<and> password_shown cfg h e c) \<or> github_shown e c db u))"

lemma justified_mono:
  assumes "justified cfg db e c g" "same_users db db'"
    "\<And>h. control_plane_password_hash db = Some h \<Longrightarrow> control_plane_password_hash db' = Some h"
  shows "justified cfg db' e c g"
proof -
  have "u \<in> us_id ` set (users db')" if "u \<in> us_id ` set (users db)" for u
    using that assms(2) by (auto simp: same_users_def) (metis image_eqI)
  moreover have "github_shown e c db' u" if "github_shown e c db u" for u
    using that assms(2) unfolding same_users_def github_shown_def by metis
  ultimately show ?thesis using assms(1,3) unfolding justified_def by metis
qed

lemma unlock_response_justified:
  assumes "control_plane_password_hash db = Some h" "password_shown cfg h e c" "g \<in> set (grants_of (unlock_response cfg e db))"
  shows "justified cfg db e c g"
  using assms by (auto simp: unlock_response_def justified_def single_existing_user_id_def split: option.splits if_splits list.splits)

lemma answer_setup:
  assumes "setup_password cfg e headers password db = (reply, db')"
  shows "same_users db db' \<and> (control_plane_password_hash db = None \<or> control_plane_password_hash db' = control_plane_password_hash db)
    \<and> (\<forall>g \<in> set (grants_of reply). justified cfg db' e (Setup_Password headers password) g)"
proof (cases "grants_of reply = []")
  case True
  then show ?thesis using assms
    by (auto simp: setup_password_def store_control_plane_password_hash_def same_users_eq split: option.splits sum.splits if_splits)
next
  case False
  then obtain hash where h: "ae_hash e = Inr hash" "store_control_plane_password_hash hash db = (True, db')"
    "reply = unlock_response cfg e db'" "password_shown cfg hash e (Setup_Password headers password)"
    using assms
    by (auto simp: setup_password_def password_shown_def split: option.splits sum.splits if_splits prod.splits bool.splits)
  then have "control_plane_password_hash db' = Some hash" "control_plane_password_hash db = None" "users db' = users db"
    by (auto simp: store_control_plane_password_hash_def control_plane_password_hash_def map_add_def split: if_splits)
  then show ?thesis using h unlock_response_justified [of db' hash cfg e] by (simp add: same_users_eq)
qed

lemma answer_unlock:
  assumes "g \<in> set (grants_of (unlock cfg e password db))"
  shows "justified cfg db e (Unlock password) g"
proof -
  obtain h where "control_plane_password_hash db = Some h" "au_verify_password cfg h password = Inr True"
    "g \<in> set (grants_of (unlock_response cfg e db))"
    using assms by (auto simp: unlock_def split: option.splits sum.splits if_splits bool.splits)
  then show ?thesis by (intro unlock_response_justified) (auto simp: password_shown_def)
qed

lemma answer_start:
  assumes "github_device_start cfg e headers db = (reply, db')"
  shows "users db' = users db \<and> control_plane_password_hash db' = control_plane_password_hash db \<and> grants_of reply = []"
  using assms unfolding github_device_start_def begin_flow_def github_device_json_def Let_def
  by (auto split: option.splits sum.splits if_splits fetched.splits)

lemma poll_error_keeps:
  assumes "poll_error e f flow payload db = (reply, db')"
  shows "users db' = users db \<and> control_plane_password_hash db' = control_plane_password_hash db \<and> grants_of reply = []"
  using assms unfolding poll_error_def Let_def by (auto split: if_splits)

lemma poll_login_justified:
  assumes "poll_login cfg e flow_id flow payload seen db = (reply, db')"
  shows "same_users db db' \<and> control_plane_password_hash db' = control_plane_password_hash db
    \<and> (\<forall>g \<in> set (grants_of reply). justified cfg db' e (Device_Poll f) g)"
proof -
  obtain r db1 where s: "store_github_access_token cfg e (get_str payload ''scope'') seen db = (r, db1)" by fastforce
  have db': "users db' = users db1" "control_plane_password_hash db' = control_plane_password_hash db1"
    using assms s by (auto simp: poll_login_def split: sum.splits)
  have "justified cfg db' e (Device_Poll f) g" if g: "g \<in> set (grants_of reply)" for g
  proof -
    obtain u l where r: "r = Inr (u, l)" "g = session_grant cfg u (ae_clock e 2)"
      using assms s g by (auto simp: poll_login_def split: sum.splits)
    obtain x y where "ae_user e = Inr y" "x \<in> set (users db')" "us_id x = u" "us_github_id x = gu_id y"
      using login_row [OF s] r(1) db'(1) by auto
    then have "github_shown e (Device_Poll f) db' u" "u \<in> us_id ` set (users db')" by (auto simp: github_shown_def)
    then show ?thesis using r(2) by (auto simp: justified_def)
  qed
  then show ?thesis using login_row [OF s] db' by (simp add: same_users_def)
qed

lemma answer_poll:
  assumes "github_device_poll cfg e f seen db = (reply, db')"
  shows "same_users db db' \<and> control_plane_password_hash db' = control_plane_password_hash db
    \<and> (\<forall>g \<in> set (grants_of reply). justified cfg db' e (Device_Poll f) g)"
proof (cases "\<exists>flow payload. poll_login cfg e (trim f) flow payload seen db = (reply, db')")
  case True
  then show ?thesis using poll_login_justified by blast
next
  case False
  then have "users db' = users db \<and> control_plane_password_hash db' = control_plane_password_hash db \<and> grants_of reply = []"
    using assms unfolding github_device_poll_def Let_def github_device_json_def
    by (auto split: option.splits sum.splits if_splits fetched.splits dest!: poll_error_keeps)
  then show ?thesis by (simp add: same_users_eq)
qed

lemma answer_step:
  assumes "answer cfg e c db = (reply, db')"
  shows "same_users db db' \<and> (control_plane_password_hash db = None \<or> control_plane_password_hash db' = control_plane_password_hash db)
    \<and> (\<forall>g \<in> set (grants_of reply). justified cfg db' e c g)"
proof (cases c)
  case (Setup_Password headers password)
  then show ?thesis using assms answer_setup by (simp add: answer_def)
next
  case (Unlock password)
  then show ?thesis using assms answer_unlock by (auto simp: answer_def same_users_eq)
next
  case (Device_Start headers)
  then show ?thesis using assms answer_start by (fastforce simp: answer_def same_users_eq)
next
  case (Device_Poll f)
  then show ?thesis using assms answer_poll by (simp add: answer_def)
qed

lemma run_justified:
  assumes "auth_run cfg db log"
  shows "\<forall>(e, c, gs) \<in> set log. \<forall>g \<in> set gs. justified cfg db e c g"
  using assms
proof (induction rule: auth_run.induct)
  case (call db log e c reply db')
  note step = answer_step [OF call.hyps(2)]
  then have "justified cfg db e' c' g \<Longrightarrow> justified cfg db' e' c' g" for e' c' g using justified_mono by fastforce
  then show ?case using call.IH step by auto
next
  case (other db log ss)
  have "justified cfg db e' c' g \<Longrightarrow> justified cfg (db\<lparr> settings := ss \<rparr>) e' c' g" for e' c' g
    by (erule justified_mono) (auto simp: same_users_def control_plane_password_hash_def other.hyps(2))
  then show ?case using other.IH by auto
qed simp

lemma cookie_granted:
  assumes "auth_run cfg db log" "codec_laws cfg" "unforged cfg (issued log) headers"
    "name \<in> {unlock_cookie, session_cookie}" "cookie_value headers name = Some value" "verify_signed_value cfg now value = Some v"
  obtains e c gs g where "(e, c, gs) \<in> set log" "g \<in> set gs" "gr_value g = v" "now \<le> gr_at g + gr_ttl g" "justified cfg db e c g"
proof -
  have "\<exists>g \<in> issued log. gr_value g = v \<and> now \<le> gr_at g + gr_ttl g"
    using assms(3,4,5) unfolding unforged_def by (intro verified_granted [OF assms(2,6)]) blast
  then obtain e c gs g where "(e, c, gs) \<in> set log" "g \<in> set gs" "gr_value g = v" "now \<le> gr_at g + gr_ttl g"
    by (auto simp: issued_def)
  moreover from this have "justified cfg db e c g" using run_justified [OF assms(1)] by fastforce
  ultimately show ?thesis using that by blast
qed

text \<open>
  C18: nobody acts without the password.  Take any history of an installation and any request, with
  cookies of any origin, whose signatures were not forged.  If the request is taken to be of a user, then
  that user is registered; somebody showed the control-plane password, or set it up with the setup token,
  and twelve hours have not passed since; and within the last fourteen days a session was opened for
  this very user, by the password or by a GitHub account whose identifier is the user's.
\<close>

theorem session_authentic:
  assumes "auth_run cfg db log" "codec_laws cfg" "unforged cfg (issued log) headers"
    "current_user_id cfg now headers = Some u"
  shows "\<exists>h. control_plane_password_hash db = Some h \<and> u \<in> us_id ` set (users db)
    \<and> (\<exists>(e, c, gs) \<in> set log. password_shown cfg h e c \<and> (\<exists>t. unlock_grant t \<in> set gs \<and> now \<le> t + 12 * 3600))
    \<and> (\<exists>(e, c, gs) \<in> set log. (password_shown cfg h e c \<or> github_shown e c db u)
        \<and> (\<exists>t. session_grant cfg u t \<in> set gs \<and> now \<le> t + 14 * 86400))"
proof -
  obtain key where ul: "cookie_value headers unlock_cookie = Some key" "verify_signed_value cfg now key = Some ''unlocked''"
    using assms(4) by (auto simp: current_user_id_def control_plane_unlocked_def bind_eq_Some_conv split: if_splits)
  obtain token v where se: "cookie_value headers session_cookie = Some token" "verify_signed_value cfg now token = Some v"
    "au_parse_uuid cfg v = Some u"
    using assms(4) by (auto simp: current_user_id_def current_user_id_from_headers_def bind_eq_Some_conv split: if_splits)
  note laws = codecD(3,4) [OF assms(2)]
  obtain e c gs g where U: "(e, c, gs) \<in> set log" "g \<in> set gs" "gr_value g = ''unlocked''" "now \<le> gr_at g + gr_ttl g" "justified cfg db e c g"
    by (rule cookie_granted [OF assms(1-3) _ ul]) simp
  have "gr_value (session_grant cfg u' t) \<noteq> ''unlocked''" for u' t
    using laws(2) laws(1) [of u'] by (auto simp: session_grant_def)
  with U obtain t h where t: "g = unlock_grant t" "control_plane_password_hash db = Some h" "password_shown cfg h e c"
    unfolding justified_def by blast
  obtain e' c' gs' g' where S: "(e', c', gs') \<in> set log" "g' \<in> set gs'" "gr_value g' = v" "now \<le> gr_at g' + gr_ttl g'" "justified cfg db e' c' g'"
    by (rule cookie_granted [OF assms(1-3) _ se(1,2)]) simp
  have "gr_value (unlock_grant t) \<noteq> v" for t using laws(2) se(3) by (auto simp: unlock_grant_def)
  with S obtain t' u' where t': "g' = session_grant cfg u' t'" "u' \<in> us_id ` set (users db)"
    "(\<exists>h. control_plane_password_hash db = Some h \<and> password_shown cfg h e' c') \<or> github_shown e' c' db u'"
    unfolding justified_def by blast
  have "u' = u" using laws(1) [of u'] se(3) S(3) t'(1) by (simp add: session_grant_def)
  then have "(\<exists>(e, c, gs) \<in> set log. (password_shown cfg h e c \<or> github_shown e c db u)
      \<and> (\<exists>t. session_grant cfg u t \<in> set gs \<and> now \<le> t + 14 * 86400))"
    using S(1,2,4) t' t(2) by (intro bexI [of _ "(e', c', gs')"]) (auto simp: session_grant_def session_ttl_def)
  moreover have "\<exists>(e, c, gs) \<in> set log. password_shown cfg h e c \<and> (\<exists>t. unlock_grant t \<in> set gs \<and> now \<le> t + 12 * 3600)"
    using U(1,2,4) t by (intro bexI [of _ "(e, c, gs)"]) (auto simp: unlock_grant_def unlock_ttl_def)
  ultimately show ?thesis using t(2) t'(2) \<open>u' = u\<close> by blast
qed

section \<open>Who can register\<close>

definition registered :: "auth_config \<Rightarrow> user_row list \<Rightarrow> bool" where
  "registered cfg us = (case au_allowed_logins cfg of
     Some allowed \<Rightarrow> list_all (\<lambda>u. map to_ascii_lowercase (us_login u) \<in> set allowed) us
   | None \<Rightarrow> length us \<le> 1)"

lemma upsert_registered:
  assumes "registered cfg (users db)" "login_allowed cfg g db" "upsert_user n g db = (u, db')"
  shows "registered cfg (users db')"
proof (cases "au_allowed_logins cfg")
  case None
  then show ?thesis
    using assms by (auto simp: registered_def login_allowed_def github_user_exists_def upsert_user_def list_ex_iff find_None_iff split: option.splits)
next
  case (Some allowed)
  then show ?thesis
    using assms by (auto simp: registered_def login_allowed_def upsert_user_def list_all_iff renew_user_def split: option.splits)
qed

lemma answer_registered:
  assumes "registered cfg (users db)" "answer cfg e c db = (reply, db')"
  shows "registered cfg (users db')"
proof (cases "users db' = users db")
  case False
  then obtain f where f: "github_device_poll cfg e f db db = (reply, db')"
    using assms(2)
    by (cases c) (auto simp: answer_def setup_password_def store_control_plane_password_hash_def dest!: answer_start
      split: option.splits sum.splits if_splits)
  then obtain flow payload where "poll_login cfg e (trim f) flow payload db db = (reply, db')"
    using False unfolding github_device_poll_def Let_def github_device_json_def
    by (auto split: option.splits sum.splits if_splits fetched.splits dest!: poll_error_keeps)
  then obtain r db1 where s: "store_github_access_token cfg e (get_str payload ''scope'') db db = (r, db1)" "users db' = users db1"
    by (auto simp: poll_login_def split: prod.splits sum.splits)
  then show ?thesis
    using assms(1) False upsert_registered
    by (auto simp: store_github_access_token_def split: sum.splits if_splits prod.splits)
qed (use assms in simp)

text \<open>
  C19: registration is closed.  When an allow list is configured, every registered user's GitHub login is
  on it; without one, whoever signs in first owns the installation, and nobody else is ever registered,
  whichever handlers are called one after the other.
\<close>

theorem registration_closed:
  assumes "auth_run cfg db log"
  shows "case au_allowed_logins cfg of
      Some allowed \<Rightarrow> \<forall>u \<in> set (users db). map to_ascii_lowercase (us_login u) \<in> set allowed
    | None \<Rightarrow> length (users db) \<le> 1"
proof -
  from assms have "registered cfg (users db)"
  proof (induction rule: auth_run.induct)
    case fresh
    then show ?case by (simp add: registered_def split: option.splits)
  qed (simp_all add: answer_registered)
  then show ?thesis by (simp add: registered_def list_all_iff split: option.splits)
qed

text \<open>
  The password is set once.  No handler - not even one that is given the identifier of a device flow
  by its caller, which becomes part of a key of the same table - changes or removes the stored hash, and a
  second setup opens no session.
\<close>

theorem password_set_once:
  assumes "control_plane_password_hash db = Some h" "answer cfg e c db = (reply, db')"
  shows "control_plane_password_hash db' = Some h \<and> (\<forall>headers password. c = Setup_Password headers password \<longrightarrow> grants_of reply = [])"
proof -
  have "control_plane_password_hash db' = Some h" using answer_step [OF assms(2)] assms(1) by simp
  moreover have "grants_of reply = []" if "c = Setup_Password headers password" for headers password
    using assms that
    by (auto simp: answer_def setup_password_def store_control_plane_password_hash_def split: option.splits sum.splits if_splits)
  ultimately show ?thesis by blast
qed

text \<open>
  The check and the registration are separate statements, so two first logins that overlap are both
  registered when there is no allow list.
\<close>

lemma concurrent_first_logins:
  assumes "au_allowed_logins cfg = None" "ae_user e = Inr g" "ae_user e' = Inr g'" "gu_id g \<noteq> gu_id g'"
    "\<not> ae_fault e 2" "\<not> ae_fault e 3" "\<not> ae_fault e 4" "\<not> ae_fault e' 2" "\<not> ae_fault e' 3" "\<not> ae_fault e' 4"
    "ae_cipher e = Inr x" "ae_cipher e' = Inr y" "users db = []"
    "store_github_access_token cfg e s db db = (r, db1)" "store_github_access_token cfg e' s' db db1 = (r', db2)"
  shows "length (users db2) = 2"
  using assms by (auto simp: store_github_access_token_def login_allowed_def upsert_user_def split: option.splits prod.splits)

end
