(* ===== verification/Agent_Worker.thy ===== *)
theory Agent_Worker
  imports Agent_Journal Completion Sessions
begin

text \<open>
  The worker of the agent (\<open>apps/agent/src/runtime.rs\<close>): accepting a claimed job, keeping its lease
  while it runs, and reporting its end.  What the job itself does is a parameter here.  Times are in
  microseconds; the lease is renewed once a minute, a request takes at most the 20 seconds that the HTTP
  client allows.
\<close>

section \<open>Renewing the lease\<close>

datatype beat = Renewed bool | Beat_Failed

text \<open>One request, and how the agent reads the answer: the receipt carries the flag, any other answer is an error.\<close>

definition beat_of :: "heartbeat_receipt response option \<Rightarrow> beat" where
  "beat_of reply = (case reply of Some (Reply r) \<Rightarrow> Renewed (hr_cancel_requested r) | _ \<Rightarrow> Beat_Failed)"

definition heartbeat_job :: "agent_call \<Rightarrow> uuid \<Rightarrow> uuid \<Rightarrow> db \<Rightarrow> beat \<times> db" where
  "heartbeat_job c job_id claim_token db =
     (case post_request (ac_delivery c) (heartbeat (ac_world c) (ac_auth c) job_id
         \<lparr> hb_claim_token = claim_token, hb_phase = D_Running \<rparr>) db of
        (reply, db') \<Rightarrow> (beat_of reply, db'))"

text \<open>
  The renewal loop over the beats that were answered, each with what the rest of the system did to the
  database since the one before.  The first component is the failures counted so far (a \<open>u8\<close>), or \<open>None\<close>
  once the job was told to stop.
\<close>

fun renew_loop :: "nat \<Rightarrow> ((db \<Rightarrow> db) \<times> agent_call) list \<Rightarrow> uuid \<Rightarrow> uuid \<Rightarrow> db \<Rightarrow> nat option \<times> db" where
  "renew_loop failures [] job_id claim_token db = (Some failures, db)"
| "renew_loop failures ((others, c) # bs) job_id claim_token db =
     (case heartbeat_job c job_id claim_token (others db) of
        (Renewed cancel_requested, db') \<Rightarrow>
          if cancel_requested then (None, db') else renew_loop 0 bs job_id claim_token db'
      | (Beat_Failed, db') \<Rightarrow>
          if 4 \<le> min 255 (failures + 1) then (None, db')
          else renew_loop (min 255 (failures + 1)) bs job_id claim_token db')"

datatype job_outcome =
    Job_Ok "json option"
  | Job_Unacknowledged
  | Job_Cancelled
  | Job_Reported string
  | Job_Failed string

text \<open>
  The job runs beside the renewal: it ends by itself while the renewal goes on, or is dropped when the
  renewal tells it to stop.  \<open>jr_beats\<close> are the beats answered before that, \<open>jr_outcome\<close> how the job ends when it is
  not dropped, \<open>jr_files\<close> what it does to the journal files.
\<close>

record job_run =
  jr_first :: agent_call
  jr_error :: string
  jr_beats :: "((db \<Rightarrow> db) \<times> agent_call) list"
  jr_outcome :: job_outcome
  jr_files :: "journals \<Rightarrow> journals"

definition run_claimed_job_with_lease :: "job_run \<Rightarrow> uuid \<Rightarrow> uuid \<Rightarrow> journals \<Rightarrow> db \<Rightarrow> job_outcome \<times> journals \<times> db" where
  "run_claimed_job_with_lease run job_id claim_token files db =
     (case heartbeat_job (jr_first run) job_id claim_token db of
        (Beat_Failed, db1) \<Rightarrow> (Job_Failed (jr_error run), files, db1)
      | (Renewed _, db1) \<Rightarrow>
        (case renew_loop 0 (jr_beats run) job_id claim_token db1 of
           (Some _, db2) \<Rightarrow> (jr_outcome run, jr_files run files, db2)
         | (None, db2) \<Rightarrow> (Job_Cancelled, jr_files run files, db2)))"

section \<open>Reporting the end\<close>

record complete_call =
  cc_world :: world
  cc_worlds :: "nat \<Rightarrow> world"
  cc_dns :: dns_env
  cc_auth :: "uuid option"
  cc_delivery :: delivery

definition response_status :: "'r response \<Rightarrow> status_code option" where
  "response_status r = (case r of Code c \<Rightarrow> Some c | Text c _ \<Rightarrow> Some c | Reply _ \<Rightarrow> None)"

definition accepted_completion :: "string \<Rightarrow> unit response \<Rightarrow> bool" where
  "accepted_completion status r \<longleftrightarrow> is_success r \<or> status = ''success'' \<and> response_status r = Some NOT_FOUND"

fun status_number :: "status_code \<Rightarrow> nat" where
  "status_number NO_CONTENT = 204"
| "status_number ACCEPTED = 202"
| "status_number BAD_REQUEST = 400"
| "status_number UNAUTHORIZED = 401"
| "status_number PAYMENT_REQUIRED = 402"
| "status_number NOT_FOUND = 404"
| "status_number CONFLICT = 409"
| "status_number INTERNAL_SERVER_ERROR = 500"

definition retryable_completion :: "unit response \<Rightarrow> bool" where
  "retryable_completion r \<longleftrightarrow> (case response_status r of
     Some s \<Rightarrow> 500 \<le> status_number s \<and> status_number s < 600 \<or> status_number s = 429 | None \<Rightarrow> False)"

text \<open>
  At most four attempts; a request without an answer, a server error and a refusal by the rate limiter
  are tried again.  The handler itself answers with none of these but 500; a gateway that answers in its
  place, with 429 or 503, is a request that was not delivered.
\<close>

fun complete_attempts :: "complete_call list \<Rightarrow> uuid \<Rightarrow> complete_job_request \<Rightarrow> db \<Rightarrow> bool \<times> db" where
  "complete_attempts [] job_id request db = (False, db)"
| "complete_attempts (c # cs) job_id request db =
     (case post_request (cc_delivery c) (complete_job (cc_world c) (cc_worlds c) (cc_dns c) (cc_auth c) job_id request) db of
        (Some r, db') \<Rightarrow>
          if accepted_completion (cj_status request) r then (True, db')
          else if retryable_completion r then complete_attempts cs job_id request db'
          else (False, db')
      | (None, db') \<Rightarrow> complete_attempts cs job_id request db')"

definition complete_claimed_job :: "(nat \<Rightarrow> complete_call) \<Rightarrow> uuid \<Rightarrow> uuid \<Rightarrow> string \<Rightarrow> string option \<Rightarrow> json option \<Rightarrow> db \<Rightarrow> bool \<times> db" where
  "complete_claimed_job calls job_id claim_token status failure result db =
     complete_attempts (map calls [1..<5]) job_id
       \<lparr> cj_status = status, cj_failure = failure, cj_result = result, cj_claim_token = Some claim_token \<rparr> db"

section \<open>One job\<close>

text \<open>
  A job of the claim response: its payload, its signature and its token, as far as they are present; \<open>raw\<close>
  is the payload as bytes.
\<close>

record claimed_job =
  cl_payload :: "json option"
  cl_signature :: "string option"
  cl_claim_token :: "string option"

record worker =
  wk_world :: world
  wk_hmac :: "string \<Rightarrow> string \<Rightarrow> 8 word list"
  wk_secret :: string
  wk_raw :: "json \<Rightarrow> string"
  wk_persist :: persist_outcome
  wk_now :: int
  wk_removable :: bool
  wk_calls :: "nat \<Rightarrow> complete_call"

text \<open>What the worker does with a claimed job, with everything it needs to go on.\<close>

definition accept_job :: "worker \<Rightarrow> claimed_job \<Rightarrow> (uuid \<times> uuid \<times> uuid option \<times> json) option" where
  "accept_job k job =
     Option.bind (cl_payload job) (\<lambda>payload.
     Option.bind (cl_signature job) (\<lambda>signature.
       if \<not> verify_signature (wk_hmac k) (wk_secret k) (wk_raw k payload) signature then None
       else Option.bind (payload_uuid (wk_world k) payload ''job_id'') (\<lambda>job_id.
         Option.bind (Option.bind (cl_claim_token job) (parse_uuid (wk_world k))) (\<lambda>claim_token.
           Some (job_id, claim_token, payload_uuid (wk_world k) payload ''deployment_id'', payload)))))"

definition deployment_failure_message :: "job_outcome \<Rightarrow> string" where
  "deployment_failure_message r = (case r of Job_Reported m \<Rightarrow> m | Job_Failed m \<Rightarrow> m
     | Job_Cancelled \<Rightarrow> ''deployment was cancelled before activation'' | _ \<Rightarrow> [])"

datatype report = Log_Line uuid string string | Deployment_Status uuid string string

text \<open>What is posted for a job that did not succeed, unless the job has reported its failure itself.\<close>

definition report_deployment_failure :: "uuid option \<Rightarrow> string \<Rightarrow> report list" where
  "report_deployment_failure deployment_id message =
     (case deployment_id of
        None \<Rightarrow> []
      | Some d \<Rightarrow> [Log_Line d ''stderr'' message, Deployment_Status d ''failed'' message])"

definition failure_reports :: "job_outcome \<Rightarrow> uuid option \<Rightarrow> report list" where
  "failure_reports r deployment_id =
     (case r of
        Job_Cancelled \<Rightarrow> (case deployment_id of
            None \<Rightarrow> []
          | Some d \<Rightarrow> [Deployment_Status d ''canceled'' (deployment_failure_message r)])
      | Job_Failed m \<Rightarrow> report_deployment_failure deployment_id m
      | _ \<Rightarrow> [])"

definition finish_job :: "worker \<Rightarrow> uuid \<Rightarrow> uuid \<Rightarrow> uuid option \<Rightarrow> job_outcome \<Rightarrow> journals \<Rightarrow> db
    \<Rightarrow> report list \<times> journals \<times> db" where
  "finish_job k job_id claim_token deployment_id outcome files db =
     (let close = (\<lambda>(ok, db'). (if ok then (case deployment_id of Some d \<Rightarrow> finish_deployment_journal (wk_removable k) d files
            | None \<Rightarrow> files) else files, db')) in
      case outcome of
        Job_Ok result \<Rightarrow> ([], close (complete_claimed_job (wk_calls k) job_id claim_token ''success'' None result db))
      | Job_Unacknowledged \<Rightarrow> ([], files, db)
      | _ \<Rightarrow> (failure_reports outcome deployment_id, close (complete_claimed_job (wk_calls k) job_id claim_token
          (if outcome = Job_Cancelled then ''cancelled'' else ''failed'') (Some (deployment_failure_message outcome)) None db)))"

definition claim_and_run_job :: "worker \<Rightarrow> job_run \<Rightarrow> claimed_job
    \<Rightarrow> journals \<Rightarrow> db \<Rightarrow> report list \<times> journals \<times> db" where
  "claim_and_run_job k run job files db =
     (case accept_job k job of
        None \<Rightarrow> ([], files, db)
      | Some (job_id, claim_token, deployment_id, payload) \<Rightarrow>
        (case (case deployment_id of
                 None \<Rightarrow> (True, files)
               | Some d \<Rightarrow> start_deployment_journal (wk_world k) (wk_persist k) (wk_now k) d job_id claim_token
                   (payload_uuid (wk_world k) payload ''app_id'') files) of
           (False, files1) \<Rightarrow> ([], files1, db)
         | (True, files1) \<Rightarrow>
           (case run_claimed_job_with_lease run job_id claim_token files1 db of
              (outcome, files2, db2) \<Rightarrow> finish_job k job_id claim_token deployment_id outcome files2 db2)))"

section \<open>The dispatch of a job\<close>

datatype job_handler =
    Build_Artifact | Release_Artifact | Deploy_App | Rollback_App | Delete_App | Health_Check | Capture_Screenshot
  | Restart_Container | Stop_Container | Suspend_App | Resume_App | Docker_Cleanup

definition handle_job :: "json \<Rightarrow> job_handler option" where
  "handle_job payload =
     map_of [(''build'', Build_Artifact), (''release'', Release_Artifact), (''deploy'', Deploy_App),
       (''rollback'', Rollback_App), (''delete_app'', Delete_App), (''health_check'', Health_Check),
       (''capture_screenshot'', Capture_Screenshot), (''browser_smoke'', Capture_Screenshot),
       (''restart_container'', Restart_Container), (''stop_container'', Stop_Container), (''suspend_app'', Suspend_App),
       (''stop_previous_deployment'', Suspend_App), (''resume_app'', Resume_App), (''docker_cleanup'', Docker_Cleanup)]
       (case get_str payload ''type'' of None \<Rightarrow> [] | Some t \<Rightarrow> t)"

section \<open>The lease outlives the job\<close>

definition lease_from :: "uuid \<Rightarrow> timestamp \<Rightarrow> db \<Rightarrow> bool" where
  "lease_from i t db \<longleftrightarrow> (\<exists>j l. find_job i db = Some j \<and> j_lease_expires_at j = Some l \<and> t \<le> l)"

definition quiet :: "uuid \<Rightarrow> (db \<Rightarrow> db) \<Rightarrow> bool" where
  "quiet i others \<longleftrightarrow> (\<forall>db. wf_keys db \<longrightarrow> wf_keys (others db)
     \<and> map_option j_lease_expires_at (find_job i (others db)) = map_option j_lease_expires_at (find_job i db))"

lemma quiet_lease:
  assumes "quiet i others" "wf_keys db" "lease_from i t db"
  shows "lease_from i t (others db)"
proof -
  obtain j l where j: "find_job i db = Some j" "j_lease_expires_at j = Some l" "t \<le> l"
    using assms(3) by (auto simp: lease_from_def)
  have "map_option j_lease_expires_at (find_job i (others db)) = Some (Some l)"
    using assms(1,2) j by (simp add: quiet_def)
  then show ?thesis using j(3) by (auto simp: lease_from_def)
qed

lemma heartbeat_wf_keys:
  assumes "heartbeat w auth i r db = (x, db')" "wf_keys db"
  shows "wf_keys db'"
  using assms(1)
proof (cases rule: heartbeat_elim)
  case (renewed s j)
  then show ?thesis using assms(2)
    by (auto simp: wf_keys_def Let_def heartbeat_deployment_def map_update_where heartbeat_set_def heartbeat_deployment_set_def)
qed (use assms(2) in simp)

text \<open>A heartbeat leaves the lease alone or sets it five minutes ahead; a receipt without cancellation did the latter.\<close>

lemma heartbeat_lease:
  assumes "heartbeat w auth i r db = (x, db')" "wf_keys db"
  shows "lease_from i t db \<Longrightarrow> t \<le> tx_now w + seconds 300 \<Longrightarrow> lease_from i t db'"
    "x = Reply receipt \<Longrightarrow> \<not> hr_cancel_requested receipt \<Longrightarrow> lease_from i (tx_now w + seconds 300) db'"
proof -
  note fenced = heartbeat_fenced [OF _ assms(2)]
  show "lease_from i (tx_now w + seconds 300) db'" if "x = Reply receipt" "\<not> hr_cancel_requested receipt"
    using fenced [OF assms(1) [unfolded that(1)]] that(2) by (auto simp: lease_from_def seconds_def)
  show "lease_from i t db'" if "lease_from i t db" "t \<le> tx_now w + seconds 300"
    using assms(1)
  proof (cases rule: heartbeat_elim)
    case (renewed s j)
    then show ?thesis using fenced [OF assms(1) [unfolded renewed(5)]] that
      by (auto simp: lease_from_def seconds_def split: if_splits)
  qed (use that in simp)
qed

lemma beat_of_Renewed: "beat_of reply = Renewed b \<longleftrightarrow> (\<exists>r. reply = Some (Reply r) \<and> hr_cancel_requested r = b)"
  by (auto simp: beat_of_def split: option.splits response.splits)

lemma heartbeat_job_lease:
  assumes "heartbeat_job c i tok db = (b, db')" "wf_keys db"
  shows "wf_keys db'"
    "lease_from i t db \<Longrightarrow> t \<le> tx_now (ac_world c) + seconds 300 \<Longrightarrow> lease_from i t db'"
    "b = Renewed False \<Longrightarrow> lease_from i (tx_now (ac_world c) + seconds 300) db'"
proof -
  let ?h = "heartbeat (ac_world c) (ac_auth c) i \<lparr> hb_claim_token = tok, hb_phase = D_Running \<rparr>"
  obtain x db0 where h: "?h db = (x, db0)" by fastforce
  have run: "db' = db \<and> b = Beat_Failed \<or> db' = db0 \<and> (b = Beat_Failed \<or> b = beat_of (Some x))"
    using assms(1) h by (cases "ac_delivery c") (auto simp: heartbeat_job_def post_request_def beat_of_def)
  show "wf_keys db'" using run heartbeat_wf_keys [OF h] assms(2) by blast
  show "lease_from i t db \<Longrightarrow> t \<le> tx_now (ac_world c) + seconds 300 \<Longrightarrow> lease_from i t db'"
    using run heartbeat_lease(1) [OF h assms(2)] by blast
  assume "b = Renewed False"
  then have "db' = db0" "\<exists>r. x = Reply r \<and> \<not> hr_cancel_requested r" using run
    by (auto simp: beat_of_Renewed eq_commute [of "Renewed False"])
  then show "lease_from i (tx_now (ac_world c) + seconds 300) db'" using heartbeat_lease(2) [OF h assms(2)] by blast
qed

text \<open>
  The invariant of the loop before the tick at time \<open>T\<close>: after \<open>f\<close> failures in a row the lease lasts until
  \<open>60 f\<close> seconds before \<open>T + 240 s\<close>.
\<close>

lemma renew_loop_lease:
  assumes "renew_loop f bs i tok db = (Some g, db')" "wf_keys db" "f < 4"
    "lease_from i l db" "T + seconds 240 \<le> l + seconds (60 * f)"
    "\<And>n. n < length bs \<Longrightarrow> quiet i (fst (bs ! n)) \<and> T + seconds (60 * n) \<le> tx_now (ac_world (snd (bs ! n)))"
  shows "g < 4 \<and> (\<exists>l. lease_from i l db' \<and> T + seconds (60 * length bs) + seconds 240 \<le> l + seconds (60 * g))"
  using assms
proof (induction f bs i tok db arbitrary: T l rule: renew_loop.induct)
  case (2 f others c bs i tok db)
  obtain b db1 where beat: "heartbeat_job c i tok (others db) = (b, db1)" by fastforce
  have quiet: "quiet i others" and tick: "T \<le> tx_now (ac_world c)" using "2.prems"(6) [of 0] by (auto simp: seconds_def)
  have wf: "wf_keys (others db)" using quiet "2.prems"(2) by (simp add: quiet_def)
  have lease: "lease_from i l (others db)" by (rule quiet_lease [OF quiet "2.prems"(2,4)])
  note B = heartbeat_job_lease [OF beat wf]
  have later: "quiet i (fst (bs ! n)) \<and> (T + seconds 60) + seconds (60 * n) \<le> tx_now (ac_world (snd (bs ! n)))"
    if "n < length bs" for n
    using "2.prems"(6) [of "Suc n"] that by (simp add: seconds_def algebra_simps)
  have shift: "T + seconds 60 + seconds (60 * length bs) = T + seconds (60 * length ((others, c) # bs))"
    by (simp add: seconds_def)
  show ?case
  proof (cases b)
    case (Renewed cancel)
    then have run: "\<not> cancel" "renew_loop 0 bs i tok db1 = (Some g, db')"
      using "2.prems"(1) beat by (auto split: if_splits)
    show ?thesis unfolding shift [symmetric]
      by (rule "2.IH"(1) [OF beat [symmetric] Renewed run(1) run(2) B(1) _ B(3) _ later])
        (use Renewed run(1) tick in \<open>auto simp: seconds_def\<close>)
  next
    case Beat_Failed
    then have run: "\<not> 4 \<le> min 255 (f + 1)" "renew_loop (min 255 (f + 1)) bs i tok db1 = (Some g, db')"
      using "2.prems"(1) beat by (auto split: if_splits)
    obtain l' where l': "lease_from i l' (others db)" "l' \<le> tx_now (ac_world c) + seconds 300"
        "T + seconds 240 \<le> l' + seconds (60 * f)"
    proof (rule that [of "min l (tx_now (ac_world c) + seconds 300)"])
      show "lease_from i (min l (tx_now (ac_world c) + seconds 300)) (others db)"
        using lease by (auto simp: lease_from_def)
    qed (use "2.prems"(5) tick in \<open>auto simp: seconds_def min_def\<close>)
    show ?thesis unfolding shift [symmetric]
      by (rule "2.IH"(2) [OF beat [symmetric] Beat_Failed run(1) run(2) B(1) _ B(2) [OF l'(1,2)] _ later])
        (use run(1) l'(3) in \<open>auto simp: seconds_def\<close>)
  qed
next
  case (1 f i tok db)
  then show ?case by (auto simp: seconds_def)
qed

text \<open>
  C11: a job never runs on after its lease.  The lease is granted for five minutes, the agent renews it at every
  minute, gives a request twenty seconds and stops the job at the fourth failure in a row.  So as long as the job has not
  been told to stop (the first heartbeat was acknowledged, within twenty seconds before the first tick at time \<open>T\<close>, every
  tick so far was answered or failed, and at time \<open>t\<close> the answer of the next one can still be outstanding), the lease in the database lasts
  at least forty seconds longer, whichever requests were lost on the way there or back.  In between nothing else
  changes the lease of the job; in particular its own commit has not come yet, which ends the job and clears the lease.
\<close>

theorem worker_within_lease:
  assumes "heartbeat_job c i tok db = (Renewed False, db1)" "renew_loop 0 beats i tok db1 = (Some failures, db')" "wf_keys db"
    "T \<le> tx_now (ac_world c) + seconds 20"
    "\<And>n. n < length beats \<Longrightarrow> quiet i (fst (beats ! n)) \<and> T + seconds (60 * n) \<le> tx_now (ac_world (snd (beats ! n)))"
    "t \<le> T + seconds (60 * length beats) + seconds 20"
  shows "\<exists>j l. find_job i db' = Some j \<and> j_lease_expires_at j = Some l \<and> t + seconds 40 \<le> l"
proof -
  note B = heartbeat_job_lease [OF assms(1,3)]
  have start: "T + seconds 240 \<le> tx_now (ac_world c) + seconds 300 + seconds (60 * 0)"
    using assms(4) by (simp add: seconds_def)
  from renew_loop_lease [OF assms(2) B(1) _ B(3) [OF refl] start assms(5)] obtain l where
    "failures < 4" "lease_from i l db'" "T + seconds (60 * length beats) + seconds 240 \<le> l + seconds (60 * failures)" by auto
  then show ?thesis using assms(6) by (fastforce simp: lease_from_def seconds_def)
qed

section \<open>A lost answer does not complete a job twice\<close>

lemma complete_again:
  assumes "complete_transaction w s i request st tok db = (Inr j, db1)" "wf_keys db"
    "terminal_request (cj_status request) = Some st" "cj_claim_token request = Some tok" "\<And>n. \<not> fault w' n"
  shows "complete_job w' ws dns (Some s) i request db1 = (Code NO_CONTENT, db1)"
  using complete_job_idempotent [OF assms(1-3,5)] assms(3,4) by (simp add: complete_job_def)

lemma retries_change_nothing:
  assumes "complete_transaction w s i request st tok db = (Inr j, db1)" "wf_keys db"
    "terminal_request (cj_status request) = Some st" "cj_claim_token request = Some tok"
    "\<And>c n. c \<in> set cs \<Longrightarrow> cc_auth c = Some s \<and> \<not> fault (cc_world c) n"
  shows "complete_attempts cs i request db1 = ((\<exists>c \<in> set cs. cc_delivery c = Answered), db1)"
  using assms(5)
proof (induction cs)
  case (Cons c cs)
  have "complete_job (cc_world c) (cc_worlds c) (cc_dns c) (cc_auth c) i request db1 = (Code NO_CONTENT, db1)"
    using complete_again [OF assms(1-4)] Cons.prems by auto
  then show ?case using Cons
    by (cases "cc_delivery c") (auto simp: post_request_def accepted_completion_def is_success_def)
qed simp

text \<open>
  C12: a job is completed exactly once.  Once the control plane has committed the completion, the agent that repeats the
  request because the answer was lost changes nothing any more, and learns that the job is completed as soon as one of
  its (at most four) attempts is answered.  A completed deletion is left out: its first
  request goes on to remove the app, which empties the payload and the app of the job row.
\<close>

theorem completed_exactly_once:
  assumes "complete_transaction (cc_world (calls 1)) s i request st tok db = (Inr j, db1)" "wf_keys db"
    "terminal_request status = Some st" "\<not> (st = J_Success \<and> j_job_type j = ''delete_app'')"
    "request = \<lparr> cj_status = status, cj_failure = failure, cj_result = result, cj_claim_token = Some tok \<rparr>"
    "cc_delivery (calls 1) \<noteq> No_Request" "cc_auth (calls 1) = Some s"
    "\<And>k n. k \<in> {2, 3, 4} \<Longrightarrow> cc_auth (calls k) = Some s \<and> \<not> fault (cc_world (calls k)) n"
  shows "complete_claimed_job calls i tok status failure result db
    = ((\<exists>k \<in> {1, 2, 3, 4}. cc_delivery (calls k) = Answered), db1)"
proof -
  have req: "cj_status request = status" "cj_claim_token request = Some tok" using assms(5) by simp_all
  have list: "map calls [1..<5] = calls 1 # map calls [2, 3, 4]" by (simp add: upt_rec eval_nat_numeral)
  have "complete_job (cc_world (calls 1)) (cc_worlds (calls 1)) (cc_dns (calls 1)) (Some s) i request db = (Code NO_CONTENT, db1)"
    using assms(1,3,4) req by (auto simp: complete_job_def)
  moreover have "complete_attempts (map calls [2, 3, 4]) i request db1
      = ((\<exists>c \<in> set (map calls [2, 3, 4]). cc_delivery c = Answered), db1)"
    by (rule retries_change_nothing [OF assms(1,2)]) (use assms(3,8) req in auto)
  ultimately show ?thesis using assms(6,7) req
    unfolding complete_claimed_job_def list assms(5) [symmetric]
    by (cases "cc_delivery (calls 1)") (auto simp: post_request_def accepted_completion_def is_success_def)
qed

text \<open>
  The journal of a deployment is removed only after the control plane has acknowledged the end of the job: a job
  whose activation is still unacknowledged reports nothing at all and stays recoverable.
\<close>

theorem journal_kept_until_acknowledged:
  assumes "finish_job k i tok deployment_id outcome files db = (reports, files', db')" "files' \<noteq> files"
  shows "\<exists>status failure result. outcome \<noteq> Job_Unacknowledged
    \<and> complete_claimed_job (wk_calls k) i tok status failure result db = (True, db')"
  using assms by (cases outcome) (auto simp: finish_job_def Let_def split: prod.splits if_splits option.splits)

text \<open>A claimed job that is not signed with the secret of the agent, or carries no token, is ignored.\<close>

theorem unsigned_job_ignored:
  assumes "cl_payload job = None \<or> cl_signature job = None \<or> cl_claim_token job = None
    \<or> cl_payload job = Some payload \<and> cl_signature job = Some sig
      \<and> \<not> verify_signature (wk_hmac k) (wk_secret k) (wk_raw k payload) sig"
  shows "claim_and_run_job k run job files db = ([], files, db)"
  using assms by (auto simp: claim_and_run_job_def accept_job_def bind_eq_None_conv split: option.splits bind_splits)

end
