(* ===== verification/Witnesses_Sessions.thy ===== *)
theory Witnesses_Sessions
  imports Witnesses_Agent Inference Agent_Health Sessions Agent_Worker
begin

text \<open>
  The properties of the repository inference, of the health loop and of the sessions applied to examples.
\<close>

section \<open>Inference\<close>

definition procfile_only :: repo_command_files where
  "procfile_only = \<lparr> cf_procfile = Some ''web: npm start'', cf_package_json = None, cf_railway_json = None,
     cf_render_yaml = None, cf_dockerfile = None \<rparr>"

theorem suggested_command_accepted_witness:
  "\<exists>s. detect_start_command (\<lambda>_. None) (\<lambda>_. None) procfile_only = Some s \<and> cmd_command s = ''npm start''
     \<and> clean_command (Some (cmd_command s)) = Inr (Some ''npm start'')"
proof -
  have "map_option cmd_command (detect_start_command (\<lambda>_. None) (\<lambda>_. None) procfile_only) = Some ''npm start''" by code_simp
  then obtain s where s: "detect_start_command (\<lambda>_. None) (\<lambda>_. None) procfile_only = Some s" "cmd_command s = ''npm start''" by auto
  from suggested_command_accepted [OF s(1)] s show ?thesis by simp
qed

theorem detected_services_provision_witness:
  "\<exists>rc rc' env addons. json_get (with_detected_services (JObj []) (infer_service_addons [''redis''])) ''runtimeConfig'' = Some rc
    \<and> resolve_managed_addons stroke_yaml rc ''web'' 3000 ''/'' (\<lambda>_. ''s'') = Inr (Some (rc', env))
    \<and> map ao_key addons = [''redis'']
    \<and> validate_compose_subset read_strokes (stroke_yaml (generated_document ''web'' addons)) ''web'' = Inr ()"
proof -
  have found: "ds_addons (infer_service_addons [''redis'']) = [''redis'']" by code_simp
  have "is_object (JObj [])" by (simp add: is_object_def)
  from detected_services_provision [OF detection.found _ this stroke_roundtrip, of "[''redis'']" 3000 "''/''" "\<lambda>_. ''s''"] found
  show ?thesis by (metis list.distinct(1))
qed

section \<open>The health loop\<close>

definition gone_probe :: probe_io where
  "gone_probe = \<lparr> pi_inspect = Inr (False, []), pi_frontend = Inl [], pi_backend = Inl [], pi_targets = Inl [],
     pi_route = sample_io, pi_tcp = None, pi_http = Inl [], pi_elapsed = 3 \<rparr>"

definition gone :: observation where
  "gone = \<lparr> ob_probe = gone_probe, ob_image = Inr (True, []), ob_start = Inr (), ob_reprobe = gone_probe \<rparr>"

definition agent_cfg :: agent_config where
  "agent_cfg = \<lparr> ac_health_host = ''127.0.0.1'', ac_local_mode = False, ac_local_router = False \<rparr>"

definition one_target :: "string + json list" where
  "one_target = Inr [JObj [(''appId'', JStr (sample_uuid_text 10)), (''deploymentId'', JStr (sample_uuid_text 20)),
     (''containerName'', JStr ''hostlet-app-20''), (''publishedPort'', JInt 4001)]]"

definition gone_pass :: "agent_state \<Rightarrow> agent_state" where
  "gone_pass st = publish_runtime_health agent_cfg (sample_world 8) one_target (\<lambda>_. gone) st"

definition third_pass :: agent_state where
  "third_pass = gone_pass (gone_pass (gone_pass (fresh_agent [])))"

theorem health_alarms_correct_witness:
  "ag_events third_pass ! 2 = Reconcile_Request 10 20 True \<and> pending 10 (take 2 (ag_events third_pass)) = 0
   \<and> 2 \<le> streak 10 (take 2 (ag_events third_pass))"
proof -
  have "health_passes (fresh_agent []) third_pass"
    unfolding third_pass_def gone_pass_def by (intro health_passes.intros)
  note correct = health_alarms_correct [OF this id_take_nth_drop, of 2]
  have "2 < length (ag_events third_pass)" by code_simp
  note correct = correct [OF this]
  have "ag_events third_pass ! 2 = Reconcile_Request 10 20 True" by code_simp
  with correct show ?thesis by simp
qed

theorem health_pass_keeps_fence_witness:
  "\<exists>v'. version_at sample_parse_uuid ''app'' (ag_routes (gone_pass (fresh_agent first_routes))) = Inr (Some v') \<and> 5 \<le> rv_generation v'"
proof -
  have v: "version_at sample_parse_uuid ''app'' first_routes
      = Inr (Some \<lparr> rv_deployment_id = 20, rv_generation = 5, rv_kind = Single \<rparr>)" by code_simp
  have "sound_io sample_parse_uuid (sample_world 8) gone_probe"
    by (simp add: sound_io_def gone_probe_def sample_dependable fetch_health_targets_def)
  then have "\<And>n. sound_io sample_parse_uuid (sample_world 8) (ob_probe gone) \<and> sound_io sample_parse_uuid (sample_world 8) (ob_reprobe gone)"
    by (simp add: gone_def)
  note keeps = health_pass_keeps_fence [OF this, of "''app''" "fresh_agent first_routes" _ agent_cfg one_target, folded gone_pass_def]
  have "version_at sample_parse_uuid ''app'' (ag_routes (fresh_agent first_routes))
      = Inr (Some \<lparr> rv_deployment_id = 20, rv_generation = 5, rv_kind = Single \<rparr>)" using v by (simp add: fresh_agent_def)
  from keeps [OF this] show ?thesis by (auto simp: supersedes_def)
qed

section \<open>Sessions\<close>

text \<open>An encoding in letters, identifiers as decimal numbers and a MAC with three values.\<close>

fun letters :: "string \<Rightarrow> string" where
  "letters [] = []"
| "letters (c # s) = char_of (65 + (of_char c :: nat) div 16) # char_of (65 + (of_char c :: nat) mod 16) # letters s"

fun unletters :: "string \<Rightarrow> string option" where
  "unletters [] = Some []"
| "unletters [c] = None"
| "unletters (c # d # s) = map_option ((#) (char_of ((of_char c - 65) * 16 + (of_char d - 65) :: nat))) (unletters s)"

lemma letters_back: "unletters (letters s) = Some s \<and> CHR ''.'' \<notin> set (letters s)"
proof (induction s)
  case (Cons c s)
  have "(of_char c :: nat) < 256" by (rule nat_of_char_less_256)
  then have small: "(of_char c :: nat) div 16 < 16" "(of_char c :: nat) mod 16 < 16" by (simp_all add: less_mult_imp_div_less)
  then have codes: "of_char (char_of (65 + (of_char c :: nat) div 16) :: char) = 65 + (of_char c :: nat) div 16"
    "of_char (char_of (65 + (of_char c :: nat) mod 16) :: char) = 65 + (of_char c :: nat) mod 16"
    by simp_all
  have ne: "char_of (65 + n) \<noteq> CHR ''.''" if "n < 16" for n :: nat
  proof
    assume "char_of (65 + n) = CHR ''.''"
    then have "(of_char (char_of (65 + n) :: char) :: nat) = of_char CHR ''.''" by simp
    with that show False by simp
  qed
  have "unletters (letters (c # s)) = Some (c # s)" using codes Cons by simp
  moreover have "CHR ''.'' \<notin> set (letters (c # s))" using ne [OF small(1)] ne [OF small(2)] Cons by (auto simp del: of_char_of)
  ultimately show ?case ..
qed simp

definition unlock_text :: string where
  "unlock_text = ''v2.'' @ letters ''unlocked'' @ ''.43300''"

definition session_text :: string where
  "session_text = ''v2.'' @ letters ''7'' @ ''.1209900''"

definition sample_hmac :: "string \<Rightarrow> string \<Rightarrow> 8 word list" where
  "sample_hmac secret payload = (if payload = unlock_text then [1] else if payload = session_text then [2] else [3])"

definition sample_auth :: auth_config where
  "sample_auth = \<lparr> au_client_id = ''id'', au_session_secret = ''s'', au_setup_token = None, au_allowed_logins = None,
     au_public_web_url = ''https://web.test'', au_public_api_url = ''https://api.test'', au_allowed_web_origins = [],
     au_mode = ''self_hosted'', au_hmac = sample_hmac, au_encode = letters, au_decode = unletters,
     au_verify_password = (\<lambda>h p. Inr (h = p)), au_parse_url = (\<lambda>_. None), au_uuid_text = show_nat, au_parse_uuid = digits_value 0 \<rparr>"

definition sample_flow :: stored_device_flow where
  "sample_flow = \<lparr> df_device_code = ''d'', df_web_origin = ''https://web.test'', df_expires_at = 900, df_interval = 5 \<rparr>"

definition sample_auth_env :: "int \<Rightarrow> auth_env" where
  "sample_auth_env t = \<lparr> ae_clock = (\<lambda>_. t), ae_fault = (\<lambda>_. False),
     ae_fetched = Payload (JObj [(''access_token'', JStr ''gho'')]),
     ae_user = Inr \<lparr> gu_id = 42, gu_login = ''Ada'', gu_name = None, gu_avatar_url = None \<rparr>, ae_flow_id = ''f'', ae_new_user = 7,
     ae_hash = Inr ''hash'', ae_cipher = Inr ''cipher'', ae_write_flow = (\<lambda>_. ''flow''), ae_read_flow = (\<lambda>_. Some sample_flow) \<rparr>"

definition no_headers :: auth_headers where
  "no_headers = \<lparr> ah_cookie = None, ah_setup_token = None, ah_referer = None, ah_origin = None \<rparr>"

definition setup_call :: auth_call where
  "setup_call = Setup_Password no_headers ''correct horse battery''"

definition db_set_up :: auth_db where
  "db_set_up = snd (answer sample_auth (sample_auth_env 100) setup_call \<lparr> settings = [], users = [], github_accounts = [] \<rparr>)"

definition db_flow :: auth_db where
  "db_flow = db_set_up\<lparr> settings := settings db_set_up @ [(device_flow_key ''f'', ''flow'')] \<rparr>"

definition db_logged_in :: auth_db where
  "db_logged_in = snd (answer sample_auth (sample_auth_env 300) (Device_Poll ''f'') db_flow)"

definition sample_history :: history where
  "sample_history = [(sample_auth_env 100, setup_call, [unlock_grant 100]),
     (sample_auth_env 300, Device_Poll ''f'', [session_grant sample_auth 7 300])]"

lemma sample_run: "auth_run sample_auth db_logged_in sample_history"
proof -
  have g1: "grants_of (fst (answer sample_auth (sample_auth_env 100) setup_call \<lparr> settings = [], users = [], github_accounts = [] \<rparr>))
      = [unlock_grant 100]" by code_simp
  have g2: "grants_of (fst (answer sample_auth (sample_auth_env 300) (Device_Poll ''f'') db_flow)) = [session_grant sample_auth 7 300]"
    by code_simp
  have "auth_run sample_auth db_set_up ([] @ [(sample_auth_env 100, setup_call, [unlock_grant 100])])"
    unfolding db_set_up_def g1 [symmetric] by (rule auth_run.call [OF auth_run.fresh]) simp
  then have "auth_run sample_auth db_flow ([] @ [(sample_auth_env 100, setup_call, [unlock_grant 100])])"
    unfolding db_flow_def
    by (rule auth_run.other) (simp add: control_plane_password_hash_def device_flow_key_def control_plane_password_key_def map_add_def split: option.splits)
  then have "auth_run sample_auth db_logged_in (([] @ [(sample_auth_env 100, setup_call, [unlock_grant 100])])
      @ [(sample_auth_env 300, Device_Poll ''f'', [session_grant sample_auth 7 300])])"
    unfolding db_logged_in_def g2 [symmetric] by (rule auth_run.call) simp
  then show ?thesis by (simp add: sample_history_def)
qed

lemma sample_codec_laws: "codec_laws sample_auth"
proof -
  have "digits_value 0 ''unlocked'' = None" by code_simp
  then show ?thesis by (simp add: codec_laws_def sample_auth_def letters_back digits_value_show)
qed

definition sample_cookies :: auth_headers where
  "sample_cookies = no_headers\<lparr> ah_cookie := Some (''hostlet_unlock='' @ signed_value sample_auth ''unlocked'' 43300
     @ ''; hostlet_session='' @ signed_value sample_auth ''7'' 1209900) \<rparr>"

lemma sample_signed:
  "signed_value sample_auth ''unlocked'' 43300 = unlock_text @ ''.sha256=01''"
  "signed_value sample_auth ''7'' 1209900 = session_text @ ''.sha256=02''"
  by code_simp+

lemma sample_cookie_values:
  "cookie_value sample_cookies unlock_cookie = Some (unlock_text @ ''.sha256=01'')"
  "cookie_value sample_cookies session_cookie = Some (session_text @ ''.sha256=02'')"
  by code_simp+

lemma sample_signature:
  "sign_with sample_hmac secret data = ''sha256=0'' @ (if data = unlock_text then ''1'' else if data = session_text then ''2'' else ''3'')"
proof -
  have "hex_bytes [1] = ''01''" "hex_bytes [2] = ''02''" "hex_bytes [3] = ''03''" by code_simp+
  then show ?thesis by (simp add: sign_with_def sample_hmac_def)
qed

lemma sample_unforged: "unforged sample_auth (issued sample_history) sample_cookies"
proof -
  have data: "grant_data sample_auth (unlock_grant 100) = unlock_text" "grant_data sample_auth (session_grant sample_auth 7 300) = session_text"
    by code_simp+
  have all: "grant_data sample_auth ` issued sample_history = {unlock_text, session_text}"
    by (auto simp: sample_history_def issued_def data)
  have known: "data \<in> {unlock_text, session_text}"
    if "token @ ''.sha256=01'' = start @ sign_with sample_hmac secret data \<or> token @ ''.sha256=02'' = start @ sign_with sample_hmac secret data"
    for token start secret data
    using that by (auto simp: sample_signature split: if_splits)
  have key: "au_hmac sample_auth = sample_hmac" by (simp add: sample_auth_def)
  have "data \<in> {unlock_text, session_text}"
    if name: "name = unlock_cookie \<or> name = session_cookie" "cookie_value sample_cookies name = Some token"
      and token: "token = start @ sig" "sig = sign_with sample_hmac secret data" for name token start sig secret data
    using name
  proof (elim disjE)
    assume "name = unlock_cookie"
    then have "token = unlock_text @ ''.sha256=01''" using name(2) sample_cookie_values(1) by simp
    then show ?thesis using token by (intro known [of unlock_text start secret data] disjI1) (simp only:)
  next
    assume "name = session_cookie"
    then have "token = session_text @ ''.sha256=02''" using name(2) sample_cookie_values(2) by simp
    then show ?thesis using token by (intro known [of session_text start secret data] disjI2) (simp only:)
  qed
  then show ?thesis unfolding unforged_def all verify_signature_iff key by blast
qed

theorem session_authentic_witness:
  "current_user_id sample_auth 400 sample_cookies = Some 7 \<and> 7 \<in> us_id ` set (users db_logged_in)
   \<and> (\<exists>(e, c, gs) \<in> set sample_history. \<exists>h. control_plane_password_hash db_logged_in = Some h \<and> password_shown sample_auth h e c)"
proof -
  have "current_user_id sample_auth 400 sample_cookies = Some 7" by code_simp
  from session_authentic [OF sample_run sample_codec_laws sample_unforged this] this show ?thesis by auto
qed

theorem cookie_roundtrip_witness:
  "verify_signed_value sample_auth 400 (signed_value sample_auth ''unlocked'' 43300) = Some ''unlocked''
   \<and> verify_signed_value sample_auth 43301 (signed_value sample_auth ''unlocked'' 43300) = None"
  using cookie_roundtrip [OF sample_codec_laws, of "''unlocked''" 43300] by (simp add: valid_utf8_ascii byte_def)

theorem registration_closed_witness: "length (users db_logged_in) \<le> 1"
  using registration_closed [OF sample_run] by (simp add: sample_auth_def)

theorem password_set_once_witness:
  "control_plane_password_hash (snd (answer sample_auth (sample_auth_env 500) setup_call db_set_up)) = Some ''hash''"
proof -
  have "control_plane_password_hash db_set_up = Some ''hash''" by code_simp
  from password_set_once [OF this prod.collapse [symmetric]] show ?thesis by blast
qed

section \<open>The worker\<close>

definition sample_beats :: "((db \<Rightarrow> db) \<times> agent_call) list" where
  "sample_beats = [(id, sample_call 200 Answered), (id, sample_call 60000200 No_Answer), (id, sample_call 120000200 No_Request)]"

theorem worker_within_lease_witness:
  "\<exists>j l. find_job 30 (snd (renew_loop 0 sample_beats 30 7
       (snd (heartbeat_job (sample_call 100 Answered) 30 7 activating_db)))) = Some j
     \<and> j_lease_expires_at j = Some l \<and> 240000100 \<le> l"
proof -
  let ?first = "heartbeat_job (sample_call 100 Answered) 30 7 activating_db"
  let ?loop = "renew_loop 0 sample_beats 30 7 (snd ?first)"
  have "fst ?first = Renewed False" by code_simp
  then have first: "?first = (Renewed False, snd ?first)" by (simp add: prod_eq_iff)
  have "fst ?loop = Some 2" by code_simp
  then have loop: "?loop = (Some 2, snd ?loop)" by (simp add: prod_eq_iff)
  have quiet: "quiet 30 (fst (sample_beats ! n)) \<and> 100 + seconds (60 * n) \<le> tx_now (ac_world (snd (sample_beats ! n)))"
    if "n < length sample_beats" for n
    using that by (auto simp: sample_beats_def quiet_def less_Suc_eq seconds_def sample_call_def sample_world_def)
  from worker_within_lease [OF first loop sample_wf(1) _ quiet, where t = 200000100]
  show ?thesis by (simp add: sample_beats_def sample_call_def sample_world_def seconds_def)
qed

definition lossy_calls :: "nat \<Rightarrow> complete_call" where
  "lossy_calls n = \<lparr> cc_world = sample_world (500 * n), cc_worlds = (\<lambda>_. sample_world (500 * n)), cc_dns = \<lparr> dns_base_domain = None, dns_api_token = None, dns_zone_id = None,
       dns_world = sample_world (500 * n), dns_delete_record = (\<lambda>_. Inr ()) \<rparr>, cc_auth = Some 1,
     cc_delivery = (if n = 3 then Answered else No_Answer) \<rparr>"

theorem completed_exactly_once_witness:
  "complete_claimed_job lossy_calls 30 7 ''success'' None (Some sample_manifest) building_db = (True, built_db)"
proof -
  have "complete_transaction (cc_world (lossy_calls 1)) 1 30 sample_success J_Success 7 building_db = (Inr sample_build_job, built_db)"
    using build_success_run by (simp add: lossy_calls_def)
  from completed_exactly_once [where calls = lossy_calls, OF this building_wf(1), of "''success''" None "Some sample_manifest"]
  show ?thesis
    by (simp add: lossy_calls_def sample_success_def terminal_request_def sample_build_job_def sample_job_def sample_world_def)
qed

end
