(* ===== verification/Agent_Release.thy ===== *)
theory Agent_Release
  imports Agent_Health Agent_Journal Compose_Subset
begin

text \<open>
  Bringing an image into service: \<open>release_single_image\<close> of \<open>apps/agent/src/runtime/pipeline.rs\<close> with the container it starts
  (\<open>run_app_container\<close>, \<open>validation.rs\<close>, \<open>docker_resources.rs\<close>), the health wait of \<open>build.rs\<close>, the activation and the route, and
  the \<open>rollback\<close> of a single container (\<open>compose.rs\<close>).  The last part of \<open>deploy\<close> is the same code with an image built before.  Docker, the network and
  the control plane answer as the environment says; log lines are left out.
\<close>

section \<open>The container\<close>

datatype container_hardening = Read_Only_Root_Fs | Writable_Root_Fs

definition read_only_root_filesystem :: "container_hardening \<Rightarrow> bool" where
  "read_only_root_filesystem h \<longleftrightarrow> h = Read_Only_Root_Fs"

definition apply_container_hardening_args :: "container_hardening \<Rightarrow> string list" where
  "apply_container_hardening_args h =
     (if read_only_root_filesystem h then [''--read-only'', ''--tmpfs'', ''/tmp''] else [])"

definition env_args :: "json \<Rightarrow> string list" where
  "env_args p = (case json_get p ''env'' of
     Some (JObj m) \<Rightarrow> map (\<lambda>(k, v). k @ ''='' @ (case as_str v of Some s \<Rightarrow> s | None \<Rightarrow> [])) m
   | _ \<Rightarrow> [])"

definition env_pairs_has_key :: "string list \<Rightarrow> string \<Rightarrow> bool" where
  "env_pairs_has_key pairs key = list_ex (\<lambda>(existing, _). existing = key) (List.map_filter (split_once_char (CHR ''='')) pairs)"

definition data_mount_path :: "json \<Rightarrow> string" where
  "data_mount_path p =
     (case Option.bind (json_pointer p [''runtime_config'', ''dataMountPath'']) as_str of
        Some path \<Rightarrow> if valid_container_mount_path path then path else ''/data''
      | None \<Rightarrow> ''/data'')"

definition push_missing :: "string \<Rightarrow> string \<Rightarrow> string list \<Rightarrow> string list" where
  "push_missing key v pairs = (if env_pairs_has_key pairs key then pairs else pairs @ [key @ ''='' @ v])"

definition runtime_env_args :: "json \<Rightarrow> int \<Rightarrow> string list" where
  "runtime_env_args p port =
     push_missing ''DATA_DIR'' (data_mount_path p) (push_missing ''HOSTLET_DATA_DIR'' (data_mount_path p)
       (push_missing ''PORT'' (show_int port) (env_args p)))"

definition docker_port_map :: "int \<Rightarrow> string" where
  "docker_port_map port = ''127.0.0.1::'' @ show_int port"

definition app_data_volume :: "world \<Rightarrow> uuid \<Rightarrow> string" where
  "app_data_volume w app_id = ''hostlet-app-data-'' @ uuid_text w app_id"

definition data_mount :: "world \<Rightarrow> uuid \<Rightarrow> json \<Rightarrow> string" where
  "data_mount w app_id p = ''type=volume,source='' @ app_data_volume w app_id @ '',target='' @ data_mount_path p"

definition limit_args :: "(json \<Rightarrow> string option) \<Rightarrow> json \<Rightarrow> string list" where
  "limit_args cpu_text p =
     (case Option.bind (json_get p ''memory_limit_mb'') as_i64 of
        Some mb \<Rightarrow> [''--memory'', show_int mb @ ''m'', ''--memory-swap'', show_int mb @ ''m''] | None \<Rightarrow> []) @
     (case Option.bind (json_get p ''cpu_limit'') cpu_text of Some cpus \<Rightarrow> [''--cpus'', cpus] | None \<Rightarrow> [])"

text \<open>The arguments of \<open>docker run\<close>; \<open>cpu_text\<close> prints a number with two decimals, when the value is a number.\<close>

definition run_args :: "world \<Rightarrow> (json \<Rightarrow> string option) \<Rightarrow> uuid \<Rightarrow> uuid \<Rightarrow> string \<Rightarrow> string \<Rightarrow> int \<Rightarrow> container_hardening \<Rightarrow> json \<Rightarrow> string list" where
  "run_args w cpu_text deployment_id app_id image_ref container port h p =
     [''run'', ''-d'', ''--name'', container, ''--label'', ''hostlet.managed=true'',
      ''--label'', ''hostlet.app_id='' @ uuid_text w app_id, ''--label'', ''hostlet.deployment_id='' @ uuid_text w deployment_id,
      ''--restart'', ''unless-stopped'', ''--security-opt'', ''no-new-privileges'', ''--cap-drop'', ''ALL'',
      ''--pids-limit'', ''256'', ''-p'', docker_port_map port, ''--mount'', data_mount w app_id p]
     @ limit_args cpu_text p @ apply_container_hardening_args h
     @ concat (map (\<lambda>pair. [''-e'', pair]) (runtime_env_args p port)) @ [image_ref]"

section \<open>The host and its environment\<close>

text \<open>The commands given to Docker, the reports posted, the route files, the journals and the control plane.\<close>

datatype release_report =
    Phase_Report uuid string
  | Failure_Report uuid string "string option" "string option" "int option" "json option"

record release_state =
  rs_commands :: "string list list"
  rs_reports :: "release_report list"
  rs_routes :: route_dir
  rs_files :: journals
  rs_db :: db

record release_io =
  rl_world :: world
  rl_cpu_text :: "json \<Rightarrow> string option"
  rl_inspect :: "string \<Rightarrow> command_result"
  rl_run :: "string list \<Rightarrow> string + unit"
  rl_port :: "string list \<Rightarrow> command_result"
  rl_attempts :: "string option"
  rl_http :: "string \<Rightarrow> nat \<Rightarrow> nat option"
  rl_state :: "string \<Rightarrow> nat \<Rightarrow> command_result"
  rl_start_ms :: nat
  rl_health_ms :: nat
  rl_routing_ms :: nat
  rl_route :: route_io
  rl_prepare :: agent_call
  rl_commit :: agent_call

definition report_phase :: "uuid \<Rightarrow> string \<Rightarrow> release_state \<Rightarrow> release_state" where
  "report_phase d s st = st\<lparr> rs_reports := rs_reports st @ [Phase_Report d s] \<rparr>"

definition report_failure :: "uuid \<Rightarrow> string \<Rightarrow> string option \<Rightarrow> string option \<Rightarrow> int option \<Rightarrow> json option \<Rightarrow> release_state \<Rightarrow> release_state" where
  "report_failure d failure image_ref container port metadata st =
     st\<lparr> rs_reports := rs_reports st @ [Failure_Report d failure image_ref container port metadata] \<rparr>"

definition docker :: "release_io \<Rightarrow> string list \<Rightarrow> release_state \<Rightarrow> (string + unit) \<times> release_state" where
  "docker io args st = (rl_run io args, st\<lparr> rs_commands := rs_commands st @ [args] \<rparr>)"

fun docker_all :: "release_io \<Rightarrow> string list list \<Rightarrow> release_state \<Rightarrow> (string + unit) \<times> release_state" where
  "docker_all io [] st = (Inr (), st)"
| "docker_all io (args # commands) st =
     (case docker io args st of (Inl e, st') \<Rightarrow> (Inl e, st') | (Inr _, st') \<Rightarrow> docker_all io commands st')"

definition volume_commands :: "string \<Rightarrow> string list list" where
  "volume_commands volume =
     [[''volume'', ''create'', volume],
      [''run'', ''--rm'', ''-v'', volume @ '':/data'', ''alpine:3.20'', ''sh'', ''-lc'', ''chmod 0777 /data'']]"

text \<open>
  The commands that bring up the container: an existing one with the same image is started again if it stopped, an existing one
  with another image is removed first.
\<close>

definition candidate_commands :: "release_io \<Rightarrow> uuid \<Rightarrow> uuid \<Rightarrow> string \<Rightarrow> string \<Rightarrow> int \<Rightarrow> container_hardening \<Rightarrow> json \<Rightarrow> string list list" where
  "candidate_commands io deployment_id app_id image_ref container port h p =
     (let start = volume_commands (app_data_volume (rl_world io) app_id)
            @ [run_args (rl_world io) (rl_cpu_text io) deployment_id app_id image_ref container port h p] in
      case rl_inspect io container of
        Inr (True, stdout) \<Rightarrow>
          (case split_char (CHR 0x09) (trim (from_utf8_lossy stdout)) of
             existing # rest \<Rightarrow>
               if existing = image_ref
               then (if rest \<noteq> [] \<and> hd rest = ''true'' then [] else [[''start'', container]])
               else [''rm'', ''-f'', container] # start
           | [] \<Rightarrow> [''rm'', ''-f'', container] # start)
      | _ \<Rightarrow> start)"

definition run_app_container :: "release_io \<Rightarrow> uuid \<Rightarrow> uuid \<Rightarrow> string \<Rightarrow> string \<Rightarrow> int \<Rightarrow> container_hardening \<Rightarrow> json \<Rightarrow> release_state
    \<Rightarrow> (string + int) \<times> release_state" where
  "run_app_container io deployment_id app_id image_ref container port h p st =
     (case docker_all io (candidate_commands io deployment_id app_id image_ref container port h p) st of
        (Inl e, st') \<Rightarrow> (Inl e, st')
      | (Inr _, st') \<Rightarrow> (docker_published_port (rl_port io [''port'', container, show_int port @ ''/tcp'']), st'))"

section \<open>Waiting for health\<close>

definition health_check_attempts_value :: "string \<Rightarrow> nat option" where
  "health_check_attempts_value v =
     (if trim v = [] then None
      else case parse_u16 (trim v) of Some n \<Rightarrow> if 1 \<le> n \<and> n \<le> 900 then Some n else None | None \<Rightarrow> None)"

definition health_check_attempts :: "string option \<Rightarrow> nat" where
  "health_check_attempts v = (case Option.bind v health_check_attempts_value of Some n \<Rightarrow> n | None \<Rightarrow> 30)"

definition container_fatal_state :: "string \<Rightarrow> string option" where
  "container_fatal_state inspect_stdout =
     (case split_whitespace inspect_stdout of
        running # restarting # oom_killed # rest \<Rightarrow>
          let exit_code = (case rest of c # _ \<Rightarrow> c | [] \<Rightarrow> ''unknown'') in
          if oom_killed = ''true'' then Some ''container was OOM-killed during startup; raise the app memory limit and redeploy''
          else if running = ''false'' \<and> restarting = ''false''
          then Some (''container exited with code '' @ exit_code @ '' before passing the health check'')
          else None
      | _ \<Rightarrow> None)"

definition fatal_container_failure :: "command_result \<Rightarrow> string option" where
  "fatal_container_failure output =
     (case output of
        Inl _ \<Rightarrow> None
      | Inr (success, stdout) \<Rightarrow>
          if \<not> success then Some ''container no longer exists; it may have been removed externally''
          else container_fatal_state (trim (from_utf8_lossy stdout)))"

fun health_attempts :: "release_io \<Rightarrow> string \<Rightarrow> string \<Rightarrow> nat \<Rightarrow> nat \<Rightarrow> string + unit" where
  "health_attempts io container url attempt 0 = Inl (''no successful response from '' @ url)"
| "health_attempts io container url attempt (Suc left) =
     (if (case rl_http io url attempt of Some status \<Rightarrow> 200 \<le> status \<and> status < 300 | None \<Rightarrow> False) then Inr ()
      else case fatal_container_failure (rl_state io container attempt) of
        Some msg \<Rightarrow> Inl msg
      | None \<Rightarrow> health_attempts io container url (attempt + 1) left)"

definition wait_health :: "agent_config \<Rightarrow> release_io \<Rightarrow> string \<Rightarrow> int \<Rightarrow> string \<Rightarrow> string + unit" where
  "wait_health cfg io container port path =
     health_attempts io container (''http://'' @ ac_health_host cfg @ '':'' @ show_int port @ path) 1 (health_check_attempts (rl_attempts io))"

definition health_check_failure_message :: "string \<Rightarrow> string" where
  "health_check_failure_message err = ''Health check failed: '' @ err @ ''. Runtime logs were captured, then the failed container was stopped to prevent restart loops. Check the logs above, port setting, and health path.''"

definition put_fields :: "(string \<times> json) list \<Rightarrow> json \<Rightarrow> json" where
  "put_fields kvs metadata = (if is_object metadata then fold (\<lambda>(k, v). json_insert k v) kvs metadata else JObj kvs)"

definition add_startup_runtime_metadata :: "json \<Rightarrow> nat \<Rightarrow> nat \<Rightarrow> json" where
  "add_startup_runtime_metadata metadata start_ms health_ms =
     put_fields [(''containerStartDurationMs'', JInt (int start_ms)), (''healthCheckDurationMs'', JInt (int health_ms)),
       (''bootDurationMs'', JInt (int (start_ms + health_ms)))] metadata"

definition add_routing_runtime_metadata :: "json \<Rightarrow> nat \<Rightarrow> json" where
  "add_routing_runtime_metadata metadata routing_ms = put_fields [(''routingDurationMs'', JInt (int routing_ms))] metadata"

section \<open>From a running container to the current deployment\<close>

text \<open>
  How a release ends.  \<open>Not_Prepared\<close> and \<open>Not_Committed\<close> stand for every error of the two calls of the activation client.
\<close>

datatype release_result =
    Activated int
  | Unhealthy string
  | Not_Prepared
  | Routing_Failed string
  | Not_Committed int
  | Refused string

definition apply_route_versioned :: "agent_config \<Rightarrow> route_io \<Rightarrow> uuid \<Rightarrow> string \<Rightarrow> string \<Rightarrow> int \<Rightarrow> int \<Rightarrow> route_dir
    \<Rightarrow> (string + unit) \<times> route_dir" where
  "apply_route_versioned cfg io deployment_id route_key domain port generation files =
     (if ac_local_mode cfg
      then (if ac_local_router cfg
            then apply_local_caddy_route_inner io deployment_id route_key domain (nat port) (Some generation) files
            else (Inr (), files))
      else apply_caddy_route_inner io deployment_id route_key domain (nat port) (Some generation) files)"

definition local_url_of :: "agent_config \<Rightarrow> string \<Rightarrow> int \<Rightarrow> string option" where
  "local_url_of cfg domain port =
     (if \<not> ac_local_mode cfg then None
      else if ac_local_router cfg then Some domain else Some (''localhost:'' @ show_int port))"

definition activate_candidate :: "agent_config \<Rightarrow> release_io \<Rightarrow> json \<Rightarrow> uuid \<Rightarrow> string \<Rightarrow> string \<Rightarrow> string \<Rightarrow> string \<Rightarrow> int \<Rightarrow> json
    \<Rightarrow> release_state \<Rightarrow> release_result \<times> release_state" where
  "activate_candidate cfg io p deployment_id route_key domain image_ref container port metadata st =
     (case prepare_candidate_activation (rl_prepare io) p deployment_id
         \<lparr> cr_container_name = container, cr_published_port = port, cr_image_tag = Some image_ref, cr_compose_project = None,
           cr_runtime_metadata = metadata, cr_services = [] \<rparr> (rs_files st) (rs_db st) of
        (None, files, db) \<Rightarrow> (Not_Prepared, st\<lparr> rs_files := files, rs_db := db \<rparr>)
      | (Some generation, files, db) \<Rightarrow>
        let st1 = st\<lparr> rs_files := files, rs_db := db \<rparr>;
            metadata1 = add_routing_runtime_metadata metadata (rl_routing_ms io) in
        case apply_route_versioned cfg (rl_route io) deployment_id route_key domain port generation (rs_routes st1) of
          (Inl err, routes) \<Rightarrow>
            let failure = ''Routing failed after health check: '' @ err @ ''. The container was left running and the previous working route was preserved when possible.'' in
            (Routing_Failed failure,
             report_failure deployment_id failure (Some image_ref) (Some container) (Some port) (Some metadata1) (st1\<lparr> rs_routes := routes \<rparr>))
        | (Inr _, routes) \<Rightarrow>
            (case commit_candidate_activation (rl_commit io) p deployment_id generation (local_url_of cfg domain port) (Some metadata1)
                (get_str p ''type'' = Some ''rollback'') (rs_files st1) (rs_db st1) of
               (ok, files2, db2) \<Rightarrow> (if ok then Activated generation else Not_Committed generation,
                  st1\<lparr> rs_routes := routes, rs_files := files2, rs_db := db2 \<rparr>)))"

definition start_and_activate :: "agent_config \<Rightarrow> release_io \<Rightarrow> json \<Rightarrow> uuid \<Rightarrow> uuid \<Rightarrow> string \<Rightarrow> string \<Rightarrow> string \<Rightarrow> string \<Rightarrow> int
    \<Rightarrow> container_hardening \<Rightarrow> json \<Rightarrow> release_state \<Rightarrow> release_result \<times> release_state" where
  "start_and_activate cfg io p deployment_id app_id app_name route_key domain image_ref port h metadata st =
     (let container = ''hostlet-'' @ app_name @ ''-'' @ uuid_text (rl_world io) deployment_id;
          health_path = (case get_str p ''health_path'' of Some s \<Rightarrow> s | None \<Rightarrow> ''/'') in
      case run_app_container io deployment_id app_id image_ref container port h p (report_phase deployment_id ''starting'' st) of
        (Inl e, st1) \<Rightarrow> (Refused e, st1)
      | (Inr internal_port, st1) \<Rightarrow>
        let st2 = report_phase deployment_id ''health_checking'' st1;
            metadata1 = add_startup_runtime_metadata metadata (rl_start_ms io) (rl_health_ms io) in
        case wait_health cfg io container internal_port health_path of
          Inl err \<Rightarrow>
            (Unhealthy err, report_failure deployment_id (health_check_failure_message err) (Some image_ref) (Some container)
               (Some internal_port) (Some metadata1) (snd (docker io [''stop'', container] st2)))
        | Inr _ \<Rightarrow> activate_candidate cfg io p deployment_id route_key domain image_ref container internal_port metadata1 st2)"

definition release_hardening :: "json \<Rightarrow> container_hardening" where
  "release_hardening metadata =
     (if Option.bind (json_get metadata ''readOnlyRootFilesystem'') as_bool = Some False then Writable_Root_Fs else Read_Only_Root_Fs)"

definition release_single_image :: "agent_config \<Rightarrow> release_io \<Rightarrow> json \<Rightarrow> string \<Rightarrow> release_state \<Rightarrow> release_result \<times> release_state" where
  "release_single_image cfg io p image_ref st =
     (let w = rl_world io in
      case (payload_uuid w p ''deployment_id'', payload_uuid w p ''app_id'', Option.bind (json_get p ''container_port'') as_i64, get_str p ''domain'') of
        (Some deployment_id, Some app_id, Some port, Some domain) \<Rightarrow>
          (let app_name = app_slug (''app-'' @ uuid_text w app_id);
               route_key = (case get_str p ''route_key'' of Some k \<Rightarrow> app_slug k | None \<Rightarrow> app_name);
               health_path = (case get_str p ''health_path'' of Some s \<Rightarrow> s | None \<Rightarrow> ''/'');
               metadata = (case json_pointer p [''artifact_manifest'', ''runtimeMetadata''] of Some m \<Rightarrow> m | None \<Rightarrow> JObj []) in
           if \<not> (1 \<le> port \<and> port \<le> 65535) then (Refused ''container port must be between 1 and 65535'', st)
           else if \<not> valid_domain domain then (Refused ''domain must be a hostname with optional port'', st)
           else if \<not> valid_health_path health_path
           then (Refused ''health path must start with / and cannot contain control characters'', st)
           else start_and_activate cfg io p deployment_id app_id app_name route_key domain image_ref port (release_hardening metadata) metadata st)
      | _ \<Rightarrow> (Refused ''missing or malformed field'', st))"

section \<open>Rolling back to a container\<close>

text \<open>A rollback starts the old container again; its routing failure is only reported when the route is a public one.\<close>

definition rollback_metadata :: "json \<Rightarrow> json" where
  "rollback_metadata p =
     (let metadata = (case json_get p ''target_runtime_metadata'' of Some m \<Rightarrow> m | None \<Rightarrow> JObj [(''rollback'', JBool True)]) in
      case get_str p ''target_deployment_id'' of
        Some target \<Rightarrow> json_insert ''rollbackTargetDeploymentId'' (JStr target) metadata | None \<Rightarrow> metadata)"

definition rollback_container :: "agent_config \<Rightarrow> release_io \<Rightarrow> json \<Rightarrow> release_state \<Rightarrow> release_result \<times> release_state" where
  "rollback_container cfg io p st =
     (case (payload_uuid (rl_world io) p ''deployment_id'', get_str p ''target_container'', get_str p ''domain'',
         Option.bind (json_get p ''published_port'') as_i64) of
        (Some deployment_id, Some container, Some domain, Some port) \<Rightarrow>
          (let route_key = (case get_str p ''route_key'' of Some k \<Rightarrow> app_slug k
                 | None \<Rightarrow> app_slug (case get_str p ''app_id'' of Some a \<Rightarrow> a | None \<Rightarrow> ''app''));
               health_path = (case get_str p ''health_path'' of Some s \<Rightarrow> s | None \<Rightarrow> ''/'') in
           if \<not> (1 \<le> port \<and> port \<le> 65535) then (Refused ''container port must be between 1 and 65535'', st)
           else if \<not> valid_domain domain then (Refused ''domain must be a hostname with optional port'', st)
           else case docker io [''start'', container] st of
             (Inl e, st1) \<Rightarrow> (Refused e, st1)
           | (Inr _, st1) \<Rightarrow>
             (case wait_health cfg io container port health_path of
                Inl err \<Rightarrow> (Unhealthy err, st1)
              | Inr _ \<Rightarrow>
                (case prepare_candidate_activation (rl_prepare io) p deployment_id
                    \<lparr> cr_container_name = container, cr_published_port = port, cr_image_tag = get_str p ''target_image'',
                      cr_compose_project = get_str p ''target_compose_project'', cr_runtime_metadata = rollback_metadata p,
                      cr_services = [] \<rparr> (rs_files st1) (rs_db st1) of
                   (None, files, db) \<Rightarrow> (Not_Prepared, st1\<lparr> rs_files := files, rs_db := db \<rparr>)
                 | (Some generation, files, db) \<Rightarrow>
                   let st2 = st1\<lparr> rs_files := files, rs_db := db \<rparr> in
                   case apply_route_versioned cfg (rl_route io) deployment_id route_key domain port generation (rs_routes st2) of
                     (Inl err, routes) \<Rightarrow>
                       let failure = ''Rollback routing failed: '' @ err @ ''. Current working app was preserved.'';
                           st3 = st2\<lparr> rs_routes := routes \<rparr> in
                       (Routing_Failed err, if ac_local_mode cfg then st3 else report_failure deployment_id failure None None None None st3)
                   | (Inr _, routes) \<Rightarrow>
                       (case commit_candidate_activation (rl_commit io) p deployment_id generation
                           (if ac_local_mode cfg \<and> ac_local_router cfg then Some domain else None) None True (rs_files st2) (rs_db st2) of
                          (ok, files2, db2) \<Rightarrow> (if ok then Activated generation else Not_Committed generation,
                            st2\<lparr> rs_routes := routes, rs_files := files2, rs_db := db2 \<rparr>)))))
      | _ \<Rightarrow> (Refused ''missing or malformed field'', st))"

section \<open>The container is confined\<close>

text \<open>
  How Docker reads the arguments of \<open>run\<close>, for the options that the agent uses: a switch stands alone, every other option takes the next
  argument whatever it is, the first argument that is no option is the image.  Any other option is not understood.
\<close>

definition switch_options :: "string list" where
  "switch_options = [''-d'', ''--read-only'']"

definition value_options :: "string list" where
  "value_options = [''--name'', ''--label'', ''--restart'', ''--security-opt'', ''--cap-drop'', ''--pids-limit'', ''-p'', ''--mount'',
     ''--memory'', ''--memory-swap'', ''--cpus'', ''--tmpfs'', ''-e'']"

fun docker_options :: "string list \<Rightarrow> ((string \<times> string) list \<times> string list) option" where
  "docker_options [] = Some ([], [])"
| "docker_options (a # as) =
     (if a \<in> set switch_options then map_option (apfst (Cons (a, []))) (docker_options as)
      else if a \<in> set value_options
      then (case as of v # bs \<Rightarrow> map_option (apfst (Cons (a, v))) (docker_options bs) | [] \<Rightarrow> None)
      else if starts_with a ''-'' then None else Some ([], a # as))"

definition option_values :: "string \<Rightarrow> (string \<times> string) list \<Rightarrow> string list" where
  "option_values f opts = map snd (filter (\<lambda>(g, _). g = f) opts)"

lemma docker_options_value:
  "f \<in> set value_options \<Longrightarrow> docker_options (f # v # as) = map_option (apfst (Cons (f, v))) (docker_options as)"
  by (auto simp: value_options_def switch_options_def)

lemma docker_options_switch:
  "f \<in> set switch_options \<Longrightarrow> docker_options (f # as) = map_option (apfst (Cons (f, []))) (docker_options as)"
  by simp

lemma option_flags:
  "''-d'' \<in> set switch_options" "''--read-only'' \<in> set switch_options"
  "\<forall>f \<in> {''--name'', ''--label'', ''--restart'', ''--security-opt'', ''--cap-drop'', ''--pids-limit'', ''-p'', ''--mount'',
     ''--memory'', ''--memory-swap'', ''--cpus'', ''--tmpfs'', ''-e''}. f \<in> set value_options"
  by (simp_all add: switch_options_def value_options_def)

lemma docker_options_env:
  "docker_options (concat (map (\<lambda>pair. [''-e'', pair]) pairs) @ as) = map_option (apfst ((@) (map (Pair ''-e'') pairs))) (docker_options as)"
proof (induction pairs)
  case Nil
  then show ?case by (cases "docker_options as") auto
next
  case (Cons pair pairs)
  have "''-e'' \<in> set value_options" by (simp add: value_options_def)
  from docker_options_value [OF this, of pair] Cons show ?case
    by (cases "docker_options as") (auto simp del: docker_options.simps(2))
qed

lemma docker_options_image: "image_ref \<noteq> [] \<Longrightarrow> hd image_ref \<noteq> CHR ''-'' \<Longrightarrow> docker_options [image_ref] = Some ([], [image_ref])"
  by (cases image_ref) (auto simp: switch_options_def value_options_def starts_with_def)

definition limit_options :: "(json \<Rightarrow> string option) \<Rightarrow> json \<Rightarrow> (string \<times> string) list" where
  "limit_options cpu_text p =
     (case Option.bind (json_get p ''memory_limit_mb'') as_i64 of
        Some mb \<Rightarrow> [(''--memory'', show_int mb @ ''m''), (''--memory-swap'', show_int mb @ ''m'')] | None \<Rightarrow> []) @
     (case Option.bind (json_get p ''cpu_limit'') cpu_text of Some cpus \<Rightarrow> [(''--cpus'', cpus)] | None \<Rightarrow> [])"

lemma docker_options_limits:
  "docker_options (limit_args cpu_text p @ as) = map_option (apfst ((@) (limit_options cpu_text p))) (docker_options as)"
proof -
  have flags: "''--memory'' \<in> set value_options" "''--memory-swap'' \<in> set value_options" "''--cpus'' \<in> set value_options"
    by (simp_all add: value_options_def)
  show ?thesis
    by (cases "docker_options as") (auto simp: limit_args_def limit_options_def docker_options_value flags simp del: docker_options.simps(2)
        split: option.splits)
qed

lemma docker_options_hardening:
  "docker_options (apply_container_hardening_args h @ as) = map_option (apfst ((@) (if h = Read_Only_Root_Fs
     then [(''--read-only'', []), (''--tmpfs'', ''/tmp'')] else []))) (docker_options as)"
  by (cases "docker_options as")
    (auto simp: apply_container_hardening_args_def read_only_root_filesystem_def switch_options_def value_options_def)

definition container_options :: "world \<Rightarrow> (json \<Rightarrow> string option) \<Rightarrow> uuid \<Rightarrow> uuid \<Rightarrow> string \<Rightarrow> int \<Rightarrow> container_hardening \<Rightarrow> json \<Rightarrow> (string \<times> string) list" where
  "container_options w cpu_text deployment_id app_id container port h p =
     [(''-d'', []), (''--name'', container), (''--label'', ''hostlet.managed=true''),
      (''--label'', ''hostlet.app_id='' @ uuid_text w app_id), (''--label'', ''hostlet.deployment_id='' @ uuid_text w deployment_id),
      (''--restart'', ''unless-stopped''), (''--security-opt'', ''no-new-privileges''), (''--cap-drop'', ''ALL''),
      (''--pids-limit'', ''256''), (''-p'', docker_port_map port), (''--mount'', data_mount w app_id p)]
     @ limit_options cpu_text p @ (if h = Read_Only_Root_Fs then [(''--read-only'', []), (''--tmpfs'', ''/tmp'')] else [])
     @ map (Pair ''-e'') (runtime_env_args p port)"

lemma run_args_options:
  assumes "image_ref \<noteq> []" "hd image_ref \<noteq> CHR ''-''"
  shows "docker_options (tl (run_args w cpu_text d a image_ref container port h p))
    = Some (container_options w cpu_text d a container port h p, [image_ref])"
  unfolding run_args_def container_options_def
  using option_flags
  by (simp add: docker_options_limits docker_options_hardening docker_options_env docker_options_image [OF assms]
      docker_options_switch docker_options_value del: docker_options.simps(2))

lemma limit_option_names: "(f, v) \<in> set (limit_options cpu_text p) \<Longrightarrow> f \<in> {''--memory'', ''--memory-swap'', ''--cpus''}"
  by (auto simp: limit_options_def split: option.splits)

lemma no_limit_option: "f \<notin> {''--memory'', ''--memory-swap'', ''--cpus''} \<Longrightarrow> filter (\<lambda>(g, _). g = f) (limit_options cpu_text p) = []"
  using limit_option_names by (fastforce simp: filter_empty_conv)

lemma data_mount_path_valid: "valid_container_mount_path (data_mount_path p)"
proof -
  have "valid_container_mount_path ''/data''" by code_simp
  then show ?thesis by (simp add: data_mount_path_def split: option.splits)
qed

text \<open>
  C14: a container of an app is confined, whatever the job says.  Docker reads the arguments as exactly these options and the image: no privileges can be gained, all
  capabilities are dropped, processes are limited, the port is published on the loopback address only, and the one mount is the app's own data volume - never a path of the host -
  at an absolute path without parent components.  Environment values, limits and paths of the job cannot add an option of their own; a read-only image runs read-only.
\<close>

theorem container_confined:
  assumes "image_ref \<noteq> []" "hd image_ref \<noteq> CHR ''-''" "CHR '','' \<notin> set (uuid_text w a)"
  shows "\<exists>opts path. docker_options (tl (run_args w cpu_text d a image_ref container port h p)) = Some (opts, [image_ref])
    \<and> option_values ''--security-opt'' opts = [''no-new-privileges''] \<and> option_values ''--cap-drop'' opts = [''ALL'']
    \<and> option_values ''--pids-limit'' opts = [''256''] \<and> option_values ''-p'' opts = [''127.0.0.1::'' @ show_int port]
    \<and> map (split_char (CHR '','')) (option_values ''--mount'' opts)
        = [[''type=volume'', ''source=hostlet-app-data-'' @ uuid_text w a, ''target='' @ path]]
    \<and> starts_with path ''/'' \<and> ''..'' \<notin> set (split_char (CHR ''/'') path)
    \<and> option_values ''-e'' opts = runtime_env_args p port
    \<and> (h = Read_Only_Root_Fs \<longrightarrow> (''--read-only'', []) \<in> set opts)"
proof -
  let ?opts = "container_options w cpu_text d a container port h p" and ?path = "data_mount_path p"
  have path: "starts_with ?path ''/''" "''..'' \<notin> set (split_char (CHR ''/'') ?path)" "CHR '','' \<notin> set ?path"
    using data_mount_path_valid [of p] by (auto simp: valid_container_mount_path_def)
  have mount: "split_char (CHR '','') (data_mount w a p)
      = [''type=volume'', ''source=hostlet-app-data-'' @ uuid_text w a, ''target='' @ ?path]"
  proof -
    have "data_mount w a p = ''type=volume'' @ CHR '','' # (''source=hostlet-app-data-'' @ uuid_text w a) @ CHR '','' # (''target='' @ ?path)"
      by (simp add: data_mount_def app_data_volume_def)
    then show ?thesis using path(3) assms(3)
      by (simp only: split_char_append split_char_single) (auto simp: split_char_append split_char_single)
  qed
  have env: "filter (\<lambda>(g, _). g = f) (map (Pair ''-e'') es) = (if f = ''-e'' then map (Pair ''-e'') es else [])" for f and es :: "string list"
    by (induction es) auto
  have "option_values ''--security-opt'' ?opts = [''no-new-privileges'']" "option_values ''--cap-drop'' ?opts = [''ALL'']"
    "option_values ''--pids-limit'' ?opts = [''256'']" "option_values ''-p'' ?opts = [''127.0.0.1::'' @ show_int port]"
    "option_values ''--mount'' ?opts = [data_mount w a p]" "option_values ''-e'' ?opts = runtime_env_args p port"
    by (auto simp: option_values_def container_options_def no_limit_option env docker_port_map_def comp_def)
  moreover have "h = Read_Only_Root_Fs \<longrightarrow> (''--read-only'', []) \<in> set ?opts" by (simp add: container_options_def)
  ultimately show ?thesis
    using run_args_options [OF assms(1,2)] mount path(1,2) by (intro exI [of _ ?opts] exI [of _ ?path]) simp
qed

section \<open>What a release leaves behind\<close>

text \<open>The current deployment of every app.\<close>

definition current_of :: "db \<Rightarrow> (uuid \<times> uuid option) list" where
  "current_of db = map (\<lambda>a. (a_id a, a_current_deployment_id a)) (apps db)"

lemma prepare_effect_current: "current_of (prepare_effect w s i k r u g db) = current_of db"
  by (auto simp: current_of_def prepare_effect_def prepare_job_def prepare_app_def prepare_deployment_def update_where_def)

lemma prepare_keeps_current:
  assumes "prepare_activation w auth k request db = (r, db')"
  shows "current_of db' = current_of db" "wf_keys db' = wf_keys db"
  using assms by (cases rule: prepare_activation_elim; simp add: prepare_effect_current prepare_keys)+

lemma prepare_call_effect:
  assumes "prepare_candidate_activation c p k candidate files db = (g, files', db')"
  shows "current_of db' = current_of db \<and> wf_keys db' = wf_keys db"
proof -
  let ?h = "\<lambda>i t. prepare_activation (ac_world c) (ac_auth c) k \<lparr> pr_job_id = i, pr_claim_token = t,
    pr_expected_current_deployment_id = payload_uuid (ac_world c) p ''expected_current_deployment_id'', pr_candidate = candidate \<rparr>"
  have post: "current_of x = current_of db \<and> wf_keys x = wf_keys db"
    if "post_request (ac_delivery c) (?h i t) db = (reply, x)" for i t reply x
    using that prepare_keeps_current [of "ac_world c" "ac_auth c" k _ db]
    by (cases "ac_delivery c"; cases "?h i t db") (auto simp: post_request_def)
  have "db' = db \<or> (\<exists>i t reply. post_request (ac_delivery c) (?h i t) db = (reply, db'))"
    using assms by (auto simp: prepare_candidate_activation_def Let_def split: option.splits prod.splits response.splits)
  then show ?thesis using post by blast
qed

lemma commit_success:
  "commit_activation w auth k request db = (r, db') \<Longrightarrow> is_success r \<Longrightarrow> r = Code NO_CONTENT"
  unfolding commit_activation_def
  by (auto simp: is_success_def split: option.splits sum.splits prod.splits if_splits)

lemma commit_call_success:
  assumes "commit_candidate_activation c p k g url metadata rolled_back files db = (True, files', db')"
  obtains i t where "payload_uuid (ac_world c) p ''job_id'' = Some i" "payload_uuid (ac_world c) p ''claim_token'' = Some t"
    "commit_activation (ac_world c) (ac_auth c) k \<lparr> cm_job_id = i, cm_claim_token = t, cm_route_generation = g,
       cm_local_url = url, cm_runtime_metadata = metadata, cm_rolled_back = rolled_back \<rparr> db = (Code NO_CONTENT, db')"
proof -
  let ?h = "\<lambda>i t. commit_activation (ac_world c) (ac_auth c) k \<lparr> cm_job_id = i, cm_claim_token = t, cm_route_generation = g,
       cm_local_url = url, cm_runtime_metadata = metadata, cm_rolled_back = rolled_back \<rparr>"
  obtain i t r where r: "payload_uuid (ac_world c) p ''job_id'' = Some i" "payload_uuid (ac_world c) p ''claim_token'' = Some t"
      "post_request (ac_delivery c) (?h i t) db = (Some r, db')" "is_success r"
    using assms by (auto simp: commit_candidate_activation_def Let_def split: option.splits prod.splits bool.splits if_splits)
  then have "?h i t db = (r, db')" by (cases "ac_delivery c") (auto simp: post_request_def split: prod.splits)
  with commit_success r that show ?thesis by metis
qed

lemma apply_route_success:
  assumes "apply_route io kind d app domain generation rendered files = (Inr (), files')"
  shows "map_of files' (app @ ''.caddy'') = Some rendered"
  using assms
  by (auto simp: apply_route_def write_route_file_def Let_def update_conv' split: sum.splits if_splits prod.splits file_write.splits)

definition answered :: "release_io \<Rightarrow> string \<Rightarrow> bool" where
  "answered io url \<longleftrightarrow> (\<exists>i status. 1 \<le> i \<and> i \<le> health_check_attempts (rl_attempts io)
     \<and> rl_http io url i = Some status \<and> 200 \<le> status \<and> status < 300)"

lemma health_attempts_success:
  "health_attempts io container url n left = Inr () \<Longrightarrow>
     \<exists>i status. n \<le> i \<and> i < n + left \<and> rl_http io url i = Some status \<and> 200 \<le> status \<and> status < 300"
proof (induction left arbitrary: n)
  case (Suc left)
  show ?case
  proof (cases "\<exists>status. rl_http io url n = Some status \<and> 200 \<le> status \<and> status < 300")
    case True
    then show ?thesis by auto
  next
    case False
    with Suc.prems have "health_attempts io container url (n + 1) left = Inr ()" by (auto split: option.splits if_splits)
    from Suc.IH [OF this] obtain i status where i: "n + 1 \<le> i" "i < n + 1 + left" "rl_http io url i = Some status" "200 \<le> status" "status < 300"
      by blast
    then have "n \<le> i" "i < n + Suc left" by simp_all
    with i(3-5) show ?thesis by blast
  qed
qed simp

lemma wait_health_success:
  assumes "wait_health cfg io container port path = Inr u"
  shows "answered io (''http://'' @ ac_health_host cfg @ '':'' @ show_int port @ path)"
  using health_attempts_success [of io container "''http://'' @ ac_health_host cfg @ '':'' @ show_int port @ path" 1
      "health_check_attempts (rl_attempts io)"] assms
  unfolding wait_health_def answered_def by force

lemma docker_all_state:
  "docker_all io cs st = (r, st') \<Longrightarrow> rs_routes st' = rs_routes st \<and> rs_files st' = rs_files st \<and> rs_db st' = rs_db st
     \<and> (\<exists>ran. rs_commands st' = rs_commands st @ ran \<and> (r = Inr () \<longrightarrow> ran = cs))"
proof (induction io cs st rule: docker_all.induct)
  case (2 io args commands st)
  show ?case
  proof (cases "rl_run io args")
    case (Inl e)
    with "2.prems" show ?thesis by (auto simp: docker_def)
  next
    case (Inr u)
    with 2 show ?thesis by (force simp: docker_def)
  qed
qed simp

lemma run_app_container_state:
  assumes "run_app_container io d a image_ref container port h p st = (r, st')"
  shows "rs_routes st' = rs_routes st" "rs_files st' = rs_files st" "rs_db st' = rs_db st"
    "r = Inr q \<Longrightarrow> docker_published_port (rl_port io [''port'', container, show_int port @ ''/tcp'']) = Inr q
       \<and> rs_commands st' = rs_commands st @ candidate_commands io d a image_ref container port h p"
  using assms docker_all_state [of io "candidate_commands io d a image_ref container port h p" st]
  by (auto simp: run_app_container_def split: prod.splits sum.splits)

lemma activate_candidate_cases:
  assumes "activate_candidate cfg io p d route_key domain image_ref container port metadata st = (r, st')"
  obtains (unprepared) "r = Not_Prepared" "rs_routes st' = rs_routes st" "current_of (rs_db st') = current_of (rs_db st)"
  | (unrouted) failure g where "r = Routing_Failed failure" "current_of (rs_db st') = current_of (rs_db st)"
  | (committed) g files db routes metadata1 ok where "apply_route_versioned cfg (rl_route io) d route_key domain port g (rs_routes st) = (Inr (), routes)"
      "current_of db = current_of (rs_db st)" "wf_keys db = wf_keys (rs_db st)" "rs_routes st' = routes"
      "commit_candidate_activation (rl_commit io) p d g (local_url_of cfg domain port) (Some metadata1)
         (get_str p ''type'' = Some ''rollback'') files db = (ok, rs_files st', rs_db st')"
      "r = (if ok then Activated g else Not_Committed g)" "rs_commands st' = rs_commands st"
proof -
  obtain g files db where prep: "prepare_candidate_activation (rl_prepare io) p d
         \<lparr> cr_container_name = container, cr_published_port = port, cr_image_tag = Some image_ref, cr_compose_project = None,
           cr_runtime_metadata = metadata, cr_services = [] \<rparr> (rs_files st) (rs_db st) = (g, files, db)"
    using prod_cases3 by blast
  note P = prepare_call_effect [OF prep]
  show ?thesis
  proof (cases g)
    case None
    with assms prep P show ?thesis by (intro unprepared) (auto simp: activate_candidate_def)
  next
    case (Some n)
    obtain x routes where route: "apply_route_versioned cfg (rl_route io) d route_key domain port n (rs_routes st) = (x, routes)" by fastforce
    show ?thesis
    proof (cases x)
      case (Inl err)
      have "\<exists>failure. r = Routing_Failed failure" "current_of (rs_db st') = current_of (rs_db st)"
        using assms P unfolding activate_candidate_def prep Some Let_def by (auto simp: route Inl report_failure_def)
      then show ?thesis using unrouted by blast
    next
      case (Inr u)
      let ?m = "add_routing_runtime_metadata metadata (rl_routing_ms io)"
      obtain ok files2 db2 where commit: "commit_candidate_activation (rl_commit io) p d n (local_url_of cfg domain port) (Some ?m)
         (get_str p ''type'' = Some ''rollback'') files db = (ok, files2, db2)" using prod_cases3 by blast
      have "r = (if ok then Activated n else Not_Committed n)" "st' = st\<lparr> rs_routes := routes, rs_files := files2, rs_db := db2 \<rparr>"
        using assms unfolding activate_candidate_def prep Some Let_def by (auto simp: route Inr commit)
      with route Inr commit P show ?thesis by (intro committed [of n routes db ?m files ok]) simp_all
    qed
  qed
qed

text \<open>A release passes its checks before it does anything.\<close>

lemma release_single_image_elim:
  assumes "release_single_image cfg io p image_ref st = (r, st')"
  obtains (refused) e where "r = Refused e" "st' = st"
  | (started) d a port domain route_key h metadata where "payload_uuid (rl_world io) p ''deployment_id'' = Some d"
      "Option.bind (json_get p ''container_port'') as_i64 = Some port"
      "payload_uuid (rl_world io) p ''app_id'' = Some a" "get_str p ''domain'' = Some domain" "valid_domain domain"
      "route_key = (case get_str p ''route_key'' of Some k \<Rightarrow> app_slug k | None \<Rightarrow> app_slug (''app-'' @ uuid_text (rl_world io) a))"
      "start_and_activate cfg io p d a (app_slug (''app-'' @ uuid_text (rl_world io) a)) route_key domain image_ref port h metadata st = (r, st')"
  using assms by (auto simp: release_single_image_def Let_def split: option.splits if_splits)

definition container_of :: "release_io \<Rightarrow> uuid \<Rightarrow> uuid \<Rightarrow> string" where
  "container_of io a d = ''hostlet-'' @ app_slug (''app-'' @ uuid_text (rl_world io) a) @ ''-'' @ uuid_text (rl_world io) d"

lemma start_and_activate_elim:
  assumes "start_and_activate cfg io p d a (app_slug (''app-'' @ uuid_text (rl_world io) a)) route_key domain image_ref port h metadata st = (r, st')"
  obtains (not_started) e where "r = Refused e" "rs_routes st' = rs_routes st" "rs_files st' = rs_files st" "rs_db st' = rs_db st"
  | (unhealthy) err where "r = Unhealthy err" "rs_routes st' = rs_routes st" "rs_files st' = rs_files st" "rs_db st' = rs_db st"
      "last (rs_commands st') = [''stop'', container_of io a d]"
  | (healthy) internal_port metadata1 st2 where
      "docker_published_port (rl_port io [''port'', container_of io a d, show_int port @ ''/tcp'']) = Inr internal_port"
      "answered io (''http://'' @ ac_health_host cfg @ '':'' @ show_int internal_port
         @ (case get_str p ''health_path'' of Some s \<Rightarrow> s | None \<Rightarrow> ''/''))"
      "rs_routes st2 = rs_routes st" "rs_files st2 = rs_files st" "rs_db st2 = rs_db st"
      "rs_commands st2 = rs_commands st @ candidate_commands io d a image_ref (container_of io a d) port h p"
      "activate_candidate cfg io p d route_key domain image_ref (container_of io a d) internal_port metadata1 st2 = (r, st')"
proof -
  let ?path = "case get_str p ''health_path'' of Some s \<Rightarrow> s | None \<Rightarrow> ''/''"
  obtain x st1 where run: "run_app_container io d a image_ref (container_of io a d) port h p (report_phase d ''starting'' st) = (x, st1)" by fastforce
  note R = run_app_container_state [OF run, unfolded report_phase_def, simplified]
  show ?thesis
  proof (cases x)
    case (Inl e)
    with assms run R show ?thesis by (intro not_started [of e]) (auto simp: start_and_activate_def container_of_def)
  next
    case (Inr q)
    note ports = R(4) [OF Inr]
    let ?st2 = "report_phase d ''health_checking'' st1"
    show ?thesis
    proof (cases "wait_health cfg io (container_of io a d) q ?path")
      case (Inl err)
      with assms run Inr R unhealthy show ?thesis
        by (auto simp: start_and_activate_def container_of_def Let_def report_failure_def report_phase_def docker_def)
    next
      case (Inr u)
      with assms run \<open>x = Inr q\<close> ports R wait_health_success [OF Inr] show ?thesis
        by (intro healthy [of q ?st2 "add_startup_runtime_metadata metadata (rl_start_ms io) (rl_health_ms io)"])
          (auto simp: start_and_activate_def container_of_def Let_def report_phase_def)
    qed
  qed
qed

text \<open>
  C13: what is activated is serving.  When the agent takes a release for activated, then the commands that bring up the container of the
  deployment from the image of the job all ran (none if it was already running that image), Docker named the published port of this
  container and its configured port, and the health URL on exactly that port answered with success.  The route file of the app leads its domain
  to this port under the route generation of the activation - as a public route, or in local mode as a local one; local mode without a
  router has no route files and leaves them alone.  And in the control plane the deployment has the final status of its kind and is the
  current one of its app with that same generation.
\<close>

theorem activated_is_serving:
  assumes "release_single_image cfg io p image_ref st = (Activated g, st')" "wf_keys (rs_db st)"
  shows "\<exists>d a domain route_key port h internal_port row app.
      payload_uuid (rl_world io) p ''deployment_id'' = Some d \<and> payload_uuid (rl_world io) p ''app_id'' = Some a
    \<and> get_str p ''domain'' = Some domain \<and> valid_domain domain \<and> Option.bind (json_get p ''container_port'') as_i64 = Some port
    \<and> route_key = (case get_str p ''route_key'' of Some k \<Rightarrow> app_slug k | None \<Rightarrow> app_slug (''app-'' @ uuid_text (rl_world io) a))
    \<and> rs_commands st' = rs_commands st @ candidate_commands io d a image_ref (container_of io a d) port h p
    \<and> docker_published_port (rl_port io [''port'', container_of io a d, show_int port @ ''/tcp'']) = Inr internal_port
    \<and> answered io (''http://'' @ ac_health_host cfg @ '':'' @ show_int internal_port
        @ (case get_str p ''health_path'' of Some s \<Rightarrow> s | None \<Rightarrow> ''/''))
    \<and> (if ac_local_mode cfg \<and> \<not> ac_local_router cfg then rs_routes st' = rs_routes st
       else map_of (rs_routes st') (route_key @ ''.caddy'') = Some (versioned (rl_route io) d (Some g) Single
         (if ac_local_mode cfg then render_local_caddy_route route_key domain (nat internal_port)
          else render_caddy_route route_key domain (nat internal_port))))
    \<and> find_deployment d (rs_db st') = Some row
    \<and> d_status row = (if get_str p ''type'' = Some ''rollback'' then D_RolledBack else D_Success)
    \<and> find_app (d_app_id row) (rs_db st') = Some app \<and> a_current_deployment_id app = Some d \<and> a_route_generation app = g"
  using assms(1)
proof (cases rule: release_single_image_elim)
  case (started d a port domain route_key h metadata)
  from started(7) show ?thesis
  proof (cases rule: start_and_activate_elim)
    case (healthy q metadata1 st2)
    from healthy(7) show ?thesis
    proof (cases rule: activate_candidate_cases)
      case (committed n files db routes metadata2 ok)
      then have ok: "ok" "n = g" by (auto split: if_splits)
      have route: "if ac_local_mode cfg \<and> \<not> ac_local_router cfg then routes = rs_routes st
         else map_of routes (route_key @ ''.caddy'') = Some (versioned (rl_route io) d (Some g) Single
           (if ac_local_mode cfg then render_local_caddy_route route_key domain (nat q)
            else render_caddy_route route_key domain (nat q)))"
        using committed(1) ok(2) healthy(3) apply_route_success
        by (auto simp: apply_route_versioned_def apply_caddy_route_inner_def apply_local_caddy_route_inner_def split: if_splits)
      have keys: "wf_keys db" using committed(3) healthy(5) assms(2) by simp
      obtain j t where "commit_activation (ac_world (rl_commit io)) (ac_auth (rl_commit io)) d \<lparr> cm_job_id = j, cm_claim_token = t,
          cm_route_generation = g, cm_local_url = local_url_of cfg domain q, cm_runtime_metadata = Some metadata2,
          cm_rolled_back = (get_str p ''type'' = Some ''rollback'') \<rparr> db = (Code NO_CONTENT, rs_db st')"
        using commit_call_success [OF committed(5) [unfolded ok(2) eqTrueI [OF ok(1)]]] by blast
      from commit_acknowledged [OF this keys] obtain row app where row: "find_deployment d (rs_db st') = Some row"
        "d_status row = (if get_str p ''type'' = Some ''rollback'' then D_RolledBack else D_Success)"
        "find_app (d_app_id row) (rs_db st') = Some app" "a_current_deployment_id app = Some d" "a_route_generation app = g"
        by auto
      have "rs_commands st' = rs_commands st @ candidate_commands io d a image_ref (container_of io a d) port h p"
        using committed(7) healthy(6) by simp
      with row route show ?thesis unfolding committed(4)
        using healthy(1,2) started(1-6) by blast
    qed auto
  qed auto
qed auto

text \<open>What may have changed, by the way a release ended.\<close>

definition undisturbed :: "release_result \<Rightarrow> string \<Rightarrow> release_state \<Rightarrow> release_state \<Rightarrow> bool" where
  "undisturbed r container st st' \<longleftrightarrow>
     (case r of
        Activated _ \<Rightarrow> True
      | Not_Committed _ \<Rightarrow> True
      | Routing_Failed _ \<Rightarrow> current_of (rs_db st') = current_of (rs_db st)
      | Not_Prepared \<Rightarrow> current_of (rs_db st') = current_of (rs_db st) \<and> rs_routes st' = rs_routes st
      | Refused _ \<Rightarrow> rs_db st' = rs_db st \<and> rs_files st' = rs_files st \<and> rs_routes st' = rs_routes st
      | Unhealthy _ \<Rightarrow> rs_db st' = rs_db st \<and> rs_files st' = rs_files st \<and> rs_routes st' = rs_routes st
          \<and> last (rs_commands st') = [''stop'', container])"

lemma start_and_activate_undisturbed:
  assumes "start_and_activate cfg io p d a (app_slug (''app-'' @ uuid_text (rl_world io) a)) route_key domain image_ref port h metadata st = (r, st')"
  shows "undisturbed r (container_of io a d) st st'"
  using assms
proof (cases rule: start_and_activate_elim)
  case (healthy q metadata1 st2)
  from healthy(7) show ?thesis
    by (cases rule: activate_candidate_cases) (simp_all add: healthy undisturbed_def)
qed (simp_all add: undisturbed_def)

text \<open>
  C15: a failed release disturbs nothing.  Unless the commit of the activation was sent, every app keeps its current deployment; unless a
  route was being written, the routes stay as they were; and a candidate that did not become healthy changes neither routes, journals nor the control plane, and is stopped.
\<close>

theorem failed_release_harmless:
  assumes "release_single_image cfg io p image_ref st = (r, st')"
  shows "case r of
      Activated _ \<Rightarrow> True
    | Not_Committed _ \<Rightarrow> True
    | Routing_Failed _ \<Rightarrow> current_of (rs_db st') = current_of (rs_db st)
    | Not_Prepared \<Rightarrow> current_of (rs_db st') = current_of (rs_db st) \<and> rs_routes st' = rs_routes st
    | Refused _ \<Rightarrow> rs_db st' = rs_db st \<and> rs_files st' = rs_files st \<and> rs_routes st' = rs_routes st
    | Unhealthy _ \<Rightarrow> rs_db st' = rs_db st \<and> rs_files st' = rs_files st \<and> rs_routes st' = rs_routes st
        \<and> (\<exists>a d. payload_uuid (rl_world io) p ''app_id'' = Some a \<and> payload_uuid (rl_world io) p ''deployment_id'' = Some d
            \<and> last (rs_commands st') = [''stop'', container_of io a d])"
  using assms
proof (cases rule: release_single_image_elim)
  case (started d a port domain route_key h metadata)
  then show ?thesis using start_and_activate_undisturbed [OF started(7)] by (cases r) (simp_all add: undisturbed_def)
qed simp

end
