(* ===== verification/Agent_Deploy.thy ===== *)
theory Agent_Deploy
  imports Agent_Release Topology
begin

text \<open>
  A deployment from source: \<open>deploy\<close> and \<open>build_image\<close> of \<open>apps/agent/src/runtime/pipeline.rs\<close>, with the metadata and the build commands of
  \<open>build.rs\<close>.  The checkout, the build plan, railpack, and the paths for generated topologies and Compose files are outcomes or handlers of the environment;
  what follows the build is \<open>Agent_Release\<close>.
\<close>

section \<open>Metadata of a build\<close>

definition image_budget_status :: "int option \<Rightarrow> string" where
  "image_budget_status image_size = (case image_size of
     Some n \<Rightarrow> if n > 1000000000 then ''over_budget'' else if n > 500000000 then ''warning'' else ''ok''
   | None \<Rightarrow> ''unknown'')"

definition image_budget_runtime_metadata :: "json \<Rightarrow> int option \<Rightarrow> json" where
  "image_budget_runtime_metadata metadata image_size =
     put_fields [(''imageBudgetStatus'', JStr (image_budget_status image_size)), (''imageBudgetWarnBytes'', JInt 500000000),
       (''imageBudgetMaxBytes'', JInt 1000000000)] metadata"

definition build_artifact_runtime_metadata :: "json \<Rightarrow> json" where
  "build_artifact_runtime_metadata metadata =
     (case get_str metadata ''imageRef'' of
        Some r \<Rightarrow> if trim r = [] \<or> json_get metadata ''buildArtifact'' \<noteq> None then metadata
          else json_insert ''buildArtifact'' (JObj [(''imageRef'', JStr r)]) metadata
      | None \<Rightarrow> metadata)"

record build_plan =
  bp_generated :: bool
  bp_label :: string
  bp_dockerfile :: string
  bp_context :: string

definition opt_int :: "int option \<Rightarrow> json" where
  "opt_int n = (case n of Some k \<Rightarrow> JInt k | None \<Rightarrow> JNull)"

definition build_runtime_metadata :: "build_plan \<Rightarrow> string \<Rightarrow> nat \<Rightarrow> int option \<Rightarrow> json" where
  "build_runtime_metadata build image_ref build_ms image_size =
     build_artifact_runtime_metadata (image_budget_runtime_metadata
       (JObj [(''imageRef'', JStr image_ref), (''packagingStrategy'', JStr (bp_label build)), (''generatedDockerfile'', JBool (bp_generated build)),
          (''detectedLanguage'', JNull), (''detectedFramework'', JNull), (''runtimeKind'', JNull), (''packageManager'', JNull),
          (''buildDurationMs'', JInt (int build_ms)), (''imageSizeBytes'', opt_int image_size)]) image_size)"

definition railpack_runtime_metadata :: "string \<Rightarrow> nat \<Rightarrow> int option \<Rightarrow> json" where
  "railpack_runtime_metadata image_ref build_ms image_size =
     build_artifact_runtime_metadata (image_budget_runtime_metadata
       (JObj [(''imageRef'', JStr image_ref), (''packagingStrategy'', JStr ''generated''), (''generatedDockerfile'', JBool False),
          (''buildBackend'', JStr ''railpack''), (''detectedLanguage'', JNull), (''detectedFramework'', JNull), (''runtimeKind'', JNull),
          (''packageManager'', JNull), (''buildDurationMs'', JInt (int build_ms)), (''imageSizeBytes'', opt_int image_size)]) image_size)"

definition add_git_sync_runtime_metadata :: "json \<Rightarrow> nat \<Rightarrow> json" where
  "add_git_sync_runtime_metadata metadata ms = put_fields [(''gitSyncDurationMs'', JInt (int ms))] metadata"

definition add_build_plan_runtime_metadata :: "json \<Rightarrow> nat \<Rightarrow> json" where
  "add_build_plan_runtime_metadata metadata ms = put_fields [(''buildPlanDurationMs'', JInt (int ms))] metadata"

definition build_prepare_failure_runtime_metadata :: "nat \<Rightarrow> nat \<Rightarrow> json" where
  "build_prepare_failure_runtime_metadata plan_ms git_ms =
     add_git_sync_runtime_metadata (add_build_plan_runtime_metadata (JObj []) plan_ms) git_ms"

definition for_generated_runtime :: "bool \<Rightarrow> container_hardening" where
  "for_generated_runtime generated = (if generated then Writable_Root_Fs else Read_Only_Root_Fs)"

definition add_runtime_metadata :: "container_hardening \<Rightarrow> json \<Rightarrow> json" where
  "add_runtime_metadata h metadata = put_fields [(''readOnlyRootFilesystem'', JBool (read_only_root_filesystem h))] metadata"

section \<open>Building the image\<close>

definition buildx_args :: "string \<Rightarrow> string \<Rightarrow> string \<Rightarrow> string \<Rightarrow> string \<Rightarrow> string list" where
  "buildx_args image_ref dockerfile ctx cache_from cache_to =
     [''buildx'', ''build'', ''--load'', ''--cache-from'', cache_from, ''--cache-to'', cache_to, ''-f'', dockerfile, ''-t'', image_ref, ctx]"

definition buildx_args_without_cache :: "string \<Rightarrow> string \<Rightarrow> string \<Rightarrow> string list" where
  "buildx_args_without_cache image_ref dockerfile ctx = [''buildx'', ''build'', ''--load'', ''-f'', dockerfile, ''-t'', image_ref, ctx]"

definition docker_build_args :: "string \<Rightarrow> string \<Rightarrow> string \<Rightarrow> string list" where
  "docker_build_args image_ref dockerfile ctx = [''build'', ''-f'', dockerfile, ''-t'', image_ref, ctx]"

record deploy_io =
  dp_release :: release_io
  dp_sync :: "string + unit"
  dp_head :: "string + unit"
  dp_project :: "string + string"
  dp_plan :: "string + build_plan"
  dp_railpack :: "string + json"
  dp_ignore_file :: "string + unit"
  dp_buildx :: bool
  dp_local_cache :: bool
  dp_cache_dirs :: "string + unit"
  dp_workdir :: string
  dp_image_size :: "int option"
  dp_git_ms :: nat
  dp_plan_ms :: nat
  dp_build_ms :: nat
  dp_topology :: "release_state \<Rightarrow> release_result \<times> release_state"
  dp_compose :: "string option \<Rightarrow> release_state \<Rightarrow> release_result \<times> release_state"

definition no_native_build_plan :: string where
  "no_native_build_plan = ''No repository Dockerfile selected''"

definition should_try_railpack :: "string \<Rightarrow> bool" where
  "should_try_railpack err \<longleftrightarrow> err = no_native_build_plan"

definition build_timings :: "deploy_io \<Rightarrow> json \<Rightarrow> json" where
  "build_timings dp metadata = add_git_sync_runtime_metadata (add_build_plan_runtime_metadata metadata (dp_plan_ms dp)) (dp_git_ms dp)"

definition run_build :: "deploy_io \<Rightarrow> string \<Rightarrow> uuid \<Rightarrow> string \<Rightarrow> build_plan \<Rightarrow> release_state \<Rightarrow> (string + unit) \<times> release_state" where
  "run_build dp app_name deployment_id image_ref build st =
     (let cache = dp_workdir dp @ ''/build-cache/'' @ app_name;
          io = dp_release dp in
      if dp_buildx dp \<and> dp_local_cache dp then
        (case dp_cache_dirs dp of
           Inl e \<Rightarrow> (Inl e, st)
         | Inr _ \<Rightarrow> docker io (buildx_args image_ref (bp_dockerfile build) (bp_context build) (''type=local,src='' @ cache)
             (''type=local,dest='' @ cache @ ''-'' @ uuid_text (rl_world io) deployment_id @ '',mode=max'')) st)
      else if dp_buildx dp then docker io (buildx_args_without_cache image_ref (bp_dockerfile build) (bp_context build)) st
      else docker io (docker_build_args image_ref (bp_dockerfile build) (bp_context build)) st)"

text \<open>\<open>Inl (True, e)\<close> is a failure that was reported, \<open>Inl (False, e)\<close> one that the caller reports.\<close>

definition build_image :: "deploy_io \<Rightarrow> uuid \<Rightarrow> string \<Rightarrow> string \<Rightarrow> release_state
    \<Rightarrow> (bool \<times> string + json \<times> container_hardening) \<times> release_state" where
  "build_image dp deployment_id app_name image_ref st =
     (case dp_plan dp of
        Inl err \<Rightarrow>
          if should_try_railpack err then
            (case dp_railpack dp of
               Inl e \<Rightarrow>
                 let failure = ''Generated image build failed: '' @ e in
                 (Inl (True, failure), report_failure deployment_id failure (Some image_ref) None None
                    (Some (build_timings dp (railpack_runtime_metadata image_ref (dp_build_ms dp) None))) st)
             | Inr metadata \<Rightarrow> (Inr (add_runtime_metadata Writable_Root_Fs (build_timings dp metadata), Writable_Root_Fs), st))
          else
            (let failure = ''Image build preparation failed: '' @ err in
             (Inl (True, failure), report_failure deployment_id failure (Some image_ref) None None
                (Some (build_prepare_failure_runtime_metadata (dp_plan_ms dp) (dp_git_ms dp))) st))
      | Inr build \<Rightarrow>
        (case (if bp_generated build then dp_ignore_file dp else Inr ()) of
           Inl e \<Rightarrow> (Inl (False, e), st)
         | Inr _ \<Rightarrow>
           (case run_build dp app_name deployment_id image_ref build st of
              (Inl e, st1) \<Rightarrow>
                let failure = ''Image build failed: '' @ e in
                (Inl (True, failure), report_failure deployment_id failure (Some image_ref) None None
                   (Some (build_timings dp (build_runtime_metadata build image_ref (dp_build_ms dp) None))) st1)
            | (Inr _, st1) \<Rightarrow>
                let h = for_generated_runtime (bp_generated build) in
                (Inr (add_runtime_metadata h (build_timings dp (build_runtime_metadata build image_ref (dp_build_ms dp) (dp_image_size dp))), h), st1))))"

section \<open>The deployment\<close>

datatype deploy_result =
    Handed_Over release_result
  | Rejected string
  | Sync_Failed string
  | Build_Failed bool string
  | Started release_result

definition validate_commit_sha :: "string \<Rightarrow> bool" where
  "validate_commit_sha v \<longleftrightarrow> v = ''HEAD'' \<or> length v = 40 \<and> list_all is_ascii_hexdigit v"

definition validate_runtime_config_for_deploy :: "json \<Rightarrow> string + unit" where
  "validate_runtime_config_for_deploy p =
     (case json_get p ''runtime_config'' of Some rc \<Rightarrow> validate_runtime_config_compatibility rc | None \<Rightarrow> Inr ())"

definition deploy_checks :: "string \<Rightarrow> string \<Rightarrow> string \<Rightarrow> int \<Rightarrow> string \<Rightarrow> string \<Rightarrow> json \<Rightarrow> string + unit" where
  "deploy_checks repo branch commit_sha port domain health_path p =
     (if \<not> valid_repo_full_name repo then Inl ''repo must be a GitHub owner/repo name''
      else if \<not> valid_branch branch then Inl ''branch name contains unsupported characters''
      else if \<not> validate_commit_sha commit_sha then Inl ''commit sha must be HEAD or a 40-character hex SHA''
      else if \<not> (1 \<le> port \<and> port \<le> 65535) then Inl ''container port must be between 1 and 65535''
      else if \<not> valid_domain domain then Inl ''domain must be a hostname with optional port''
      else if \<not> valid_health_path health_path then Inl ''health path must start with / and cannot contain control characters''
      else validate_runtime_config_for_deploy p)"

definition needs_web_build :: "json \<Rightarrow> bool" where
  "needs_web_build p = (case Option.bind (json_pointer p [''runtime_config'', ''generatedCompose'', ''compose'']) as_str of
     Some compose \<Rightarrow> str_contains compose ''${HOSTLET_WEB_IMAGE}'' | None \<Rightarrow> False)"

definition deploy_source :: "agent_config \<Rightarrow> deploy_io \<Rightarrow> json \<Rightarrow> uuid \<Rightarrow> uuid \<Rightarrow> string \<Rightarrow> int \<Rightarrow> release_state \<Rightarrow> deploy_result \<times> release_state" where
  "deploy_source cfg dp p deployment_id app_id domain port st =
     (let io = dp_release dp;
          app_name = app_slug (''app-'' @ uuid_text (rl_world io) app_id);
          route_key = (case get_str p ''route_key'' of Some k \<Rightarrow> app_slug k | None \<Rightarrow> app_name);
          image_ref = ''hostlet/'' @ app_name @ '':'' @ uuid_text (rl_world io) deployment_id in
      if json_pointer p [''runtime_config'', ''generatedTopology''] \<noteq> None then (case dp_topology dp st of (r, st') \<Rightarrow> (Handed_Over r, st'))
      else if get_str p ''runtime_kind'' = Some ''compose'' then
        (if needs_web_build p then
           (case build_image dp deployment_id app_name image_ref st of
              (Inl (known, e), st1) \<Rightarrow> (Build_Failed known e, st1)
            | (Inr _, st1) \<Rightarrow> (case dp_compose dp (Some image_ref) st1 of (r, st') \<Rightarrow> (Handed_Over r, st')))
         else (case dp_compose dp None st of (r, st') \<Rightarrow> (Handed_Over r, st')))
      else
        (case build_image dp deployment_id app_name image_ref st of
           (Inl (known, e), st1) \<Rightarrow> (Build_Failed known e, st1)
         | (Inr (metadata, h), st1) \<Rightarrow>
             (case start_and_activate cfg io p deployment_id app_id app_name route_key domain image_ref port h metadata st1 of
                (r, st') \<Rightarrow> (Started r, st'))))"

definition deploy :: "agent_config \<Rightarrow> deploy_io \<Rightarrow> json \<Rightarrow> release_state \<Rightarrow> deploy_result \<times> release_state" where
  "deploy cfg dp p st =
     (let w = rl_world (dp_release dp) in
      case (payload_uuid w p ''deployment_id'', payload_uuid w p ''app_id'', get_str p ''repo'', get_str p ''branch'',
          Option.bind (json_get p ''container_port'') as_i64, get_str p ''domain'') of
        (Some deployment_id, Some app_id, Some repo, Some branch, Some port, Some domain) \<Rightarrow>
          (let commit_sha = (case get_str p ''commit_sha'' of Some c \<Rightarrow> c | None \<Rightarrow> ''HEAD'');
               health_path = (case get_str p ''health_path'' of Some s \<Rightarrow> s | None \<Rightarrow> ''/'') in
           case deploy_checks repo branch commit_sha port domain health_path p of
             Inl e \<Rightarrow> (Rejected e, st)
           | Inr _ \<Rightarrow>
             let st1 = report_phase deployment_id ''building'' st in
             (case (case dp_sync dp of Inl e \<Rightarrow> Inl e | Inr _ \<Rightarrow> if commit_sha \<noteq> ''HEAD'' then dp_head dp else Inr ()) of
                Inl e \<Rightarrow>
                  let failure = ''Repository sync failed: '' @ e in
                  (Sync_Failed failure, report_failure deployment_id failure None None None
                     (Some (JObj [(''gitSyncDurationMs'', JInt (int (dp_git_ms dp)))])) st1)
              | Inr _ \<Rightarrow>
                (case dp_project dp of
                   Inl e \<Rightarrow> (Rejected e, st1)
                 | Inr _ \<Rightarrow> deploy_source cfg dp p deployment_id app_id domain port st1)))
      | _ \<Rightarrow> (Rejected ''missing or malformed field'', st))"

section \<open>A deployment from source\<close>

lemma put_field_get: "json_get (put_fields [(k, v)] metadata) k = Some v"
  by (cases metadata) (simp_all add: put_fields_def is_object_def json_get_insert json_get_def json_insert_def map_of_obj_insert)

lemma release_hardening_recorded: "release_hardening (add_runtime_metadata h metadata) = h"
  by (cases h) (simp_all add: release_hardening_def add_runtime_metadata_def put_field_get read_only_root_filesystem_def)

text \<open>
  An image runs under the same hardening wherever it is started.  The profile that a build chooses is recorded in its metadata so that a server which
  releases the stored image reads back exactly that profile; and only an image that Hostlet generated itself, by its own Dockerfile or by railpack, gets a writable root file system.
\<close>

theorem hardening_travels:
  assumes "build_image dp d app_name image_ref st = (Inr (metadata, h), st')"
  shows "release_hardening metadata = h
    \<and> (h = Writable_Root_Fs \<longleftrightarrow> (case dp_plan dp of Inr build \<Rightarrow> bp_generated build | Inl err \<Rightarrow> err = no_native_build_plan))
    \<and> rs_db st' = rs_db st \<and> rs_routes st' = rs_routes st \<and> rs_files st' = rs_files st"
  using assms
  by (auto simp: build_image_def Let_def run_build_def docker_def should_try_railpack_def for_generated_runtime_def release_hardening_recorded
      split: sum.splits if_splits prod.splits)

lemma build_image_state:
  assumes "build_image dp d app_name image_ref st = (r, st')"
  shows "rs_db st' = rs_db st \<and> rs_routes st' = rs_routes st \<and> rs_files st' = rs_files st"
  using assms
  by (auto simp: build_image_def Let_def run_build_def docker_def report_failure_def split: sum.splits if_splits prod.splits)

lemma deploy_source_cases:
  assumes "deploy_source cfg dp p d a domain port st = (r, st')"
  shows "case r of
      Handed_Over _ \<Rightarrow> True
    | Started r' \<Rightarrow> \<exists>st1. rs_db st1 = rs_db st \<and> rs_routes st1 = rs_routes st \<and> rs_files st1 = rs_files st
        \<and> undisturbed r' (container_of (dp_release dp) a d) st1 st'
    | _ \<Rightarrow> rs_db st' = rs_db st \<and> rs_routes st' = rs_routes st \<and> rs_files st' = rs_files st"
proof -
  let ?io = "dp_release dp"
  let ?name = "app_slug (''app-'' @ uuid_text (rl_world ?io) a)"
  let ?image = "''hostlet/'' @ ?name @ '':'' @ uuid_text (rl_world ?io) d"
  let ?key = "case get_str p ''route_key'' of Some k \<Rightarrow> app_slug k | None \<Rightarrow> ?name"
  obtain b st1 where build: "build_image dp d ?name ?image st = (b, st1)" by fastforce
  note B = build_image_state [OF build]
  show ?thesis
  proof (cases b)
    case (Inl e)
    with assms build B show ?thesis by (cases e) (auto simp: deploy_source_def Let_def split: if_splits prod.splits)
  next
    case (Inr mh)
    obtain r' st2 where run: "start_and_activate cfg ?io p d a ?name ?key domain ?image port (snd mh) (fst mh) st1 = (r', st2)" by fastforce
    note u = start_and_activate_undisturbed [OF run]
    have "(\<exists>x. r = Handed_Over x) \<or> r = Started r' \<and> st' = st2"
      using assms build Inr run
      by (cases mh; cases "get_str p ''route_key''") (auto simp: deploy_source_def Let_def split: if_splits prod.splits)
    then show ?thesis using u B by auto
  qed
qed

text \<open>
  A failed deployment disturbs nothing.  A deployment from source that is rejected, or whose repository or build fails, changes neither routes nor
  journals nor the control plane; one that was built and started obeys the same rules as a release.
\<close>

theorem failed_deploy_harmless:
  assumes "deploy cfg dp p st = (r, st')"
  shows "case r of
      Handed_Over _ \<Rightarrow> True
    | Started r' \<Rightarrow> \<exists>a d st1. payload_uuid (rl_world (dp_release dp)) p ''app_id'' = Some a
        \<and> payload_uuid (rl_world (dp_release dp)) p ''deployment_id'' = Some d
        \<and> rs_db st1 = rs_db st \<and> rs_routes st1 = rs_routes st \<and> rs_files st1 = rs_files st
        \<and> undisturbed r' (container_of (dp_release dp) a d) st1 st'
    | _ \<Rightarrow> rs_db st' = rs_db st \<and> rs_routes st' = rs_routes st \<and> rs_files st' = rs_files st"
proof -
  have early: "rs_db (report_phase d s st) = rs_db st" "rs_routes (report_phase d s st) = rs_routes st" "rs_files (report_phase d s st) = rs_files st" for d s
    by (simp_all add: report_phase_def)
  consider (source) d a domain port where "payload_uuid (rl_world (dp_release dp)) p ''app_id'' = Some a"
      "payload_uuid (rl_world (dp_release dp)) p ''deployment_id'' = Some d"
      "deploy_source cfg dp p d a domain port (report_phase d ''building'' st) = (r, st')"
    | (stopped) "(\<exists>e. r = Rejected e) \<or> (\<exists>e. r = Sync_Failed e)" "rs_db st' = rs_db st \<and> rs_routes st' = rs_routes st \<and> rs_files st' = rs_files st"
    using assms by (auto simp: deploy_def Let_def report_failure_def early split: option.splits sum.splits if_splits)
  then show ?thesis
  proof cases
    case source
    then show ?thesis using deploy_source_cases [OF source(3)] unfolding early by (cases r) auto
  next
    case stopped
    then show ?thesis by auto
  qed
qed

end
