(* ===== verification/Witnesses_Release.thy ===== *)
theory Witnesses_Release
  imports Witnesses_Agent Agent_Deploy
begin

text \<open>
  The properties of a release applied to an example: a release whose second health check succeeds, one that never becomes healthy,
  and a job that tries to add options of its own.
\<close>

definition greedy_job :: json where
  "greedy_job = JObj [(''env'', JObj [(''--privileged'', JStr ''true'')]), (''memory_limit_mb'', JInt 256),
     (''runtime_config'', JObj [(''dataMountPath'', JStr ''/data,volume-opt=device=/'')])]"

theorem container_confined_witness:
  "option_values ''--security-opt'' (container_options (sample_world 1) (\<lambda>_. None) 20 10 ''c'' 3000 Read_Only_Root_Fs greedy_job) = [''no-new-privileges'']
   \<and> fst (the (docker_options (tl (run_args (sample_world 1) (\<lambda>_. None) 20 10 ''app@sha256'' ''c'' 3000 Read_Only_Root_Fs greedy_job))))
     = container_options (sample_world 1) (\<lambda>_. None) 20 10 ''c'' 3000 Read_Only_Root_Fs greedy_job"
proof -
  have "CHR '','' \<notin> set (uuid_text (sample_world 1) 10)" by code_simp
  from container_confined [OF _ _ this, of "''app@sha256''" "\<lambda>_. None" 20 "''c''" 3000 Read_Only_Root_Fs greedy_job]
  show ?thesis using run_args_options [of "''app@sha256''" "sample_world 1" "\<lambda>_. None" 20 10 "''c''" 3000 Read_Only_Root_Fs greedy_job] by auto
qed

definition release_job :: json where
  "release_job = JObj [(''type'', JStr ''deploy''), (''job_id'', JStr (sample_uuid_text 30)), (''claim_token'', JStr (sample_uuid_text 7)),
     (''deployment_id'', JStr (sample_uuid_text 20)), (''app_id'', JStr (sample_uuid_text 10)), (''container_port'', JInt 3000),
     (''domain'', JStr ''app.test'')]"

definition release_env :: "(string \<Rightarrow> nat \<Rightarrow> nat option) \<Rightarrow> release_io" where
  "release_env http = \<lparr> rl_world = sample_world 100, rl_cpu_text = (\<lambda>_. None), rl_inspect = (\<lambda>_. Inr (False, [])), rl_run = (\<lambda>_. Inr ()),
     rl_port = (\<lambda>_. Inr (True, ''127.0.0.1:4001'')), rl_attempts = Some ''3'', rl_http = http, rl_state = (\<lambda>_ _. Inr (True, ''true false false 0'')),
     rl_start_ms = 5, rl_health_ms = 6, rl_routing_ms = 7, rl_route = sample_io, rl_prepare = sample_call 100 Answered,
     rl_commit = sample_call 200 Answered \<rparr>"

definition release_host :: release_state where
  "release_host = \<lparr> rs_commands = [], rs_reports = [], rs_routes = [],
     rs_files = [(20, journal_to_json (sample_world 100) (sample_journal\<lparr> dj_phase := ''claimed'', dj_route_generation := None \<rparr>))],
     rs_db = activating_db \<rparr>"

definition public_agent :: agent_config where
  "public_agent = \<lparr> ac_health_host = ''127.0.0.1'', ac_local_mode = False, ac_local_router = False \<rparr>"

abbreviation good_release :: "release_result \<times> release_state" where
  "good_release \<equiv> release_single_image public_agent (release_env (\<lambda>url i. if url = ''http://127.0.0.1:4001/'' \<and> i = 2 then Some 200 else None)) release_job ''app@sha256'' release_host"

theorem activated_is_serving_witness:
  "\<exists>row app. find_deployment 20 (rs_db (snd good_release)) = Some row \<and> d_status row = D_Success
     \<and> find_app (d_app_id row) (rs_db (snd good_release)) = Some app \<and> a_current_deployment_id app = Some 20 \<and> a_route_generation app = 5"
proof -
  have "fst good_release = Activated 5" by code_simp
  then have run: "good_release = (Activated 5, snd good_release)" by (simp add: prod_eq_iff)
  have "wf_keys (rs_db release_host)" using sample_wf(1) by (simp add: release_host_def)
  moreover have "get_str release_job ''type'' \<noteq> Some ''rollback''" by code_simp
  moreover have "payload_uuid (rl_world (release_env http)) release_job ''deployment_id'' = Some 20" for http
    by (simp add: release_env_def payload_uuid_def release_job_def get_str_def json_get_def sample_uuid_roundtrip)
  ultimately show ?thesis using activated_is_serving [OF run] by auto
qed

abbreviation bad_release :: "release_result \<times> release_state" where
  "bad_release \<equiv> release_single_image public_agent (release_env (\<lambda>_ _. Some 500)) release_job ''app@sha256'' release_host"

theorem failed_release_harmless_witness:
  "rs_db (snd bad_release) = activating_db \<and> rs_routes (snd bad_release) = []"
proof -
  have "(case fst bad_release of Unhealthy _ \<Rightarrow> True | _ \<Rightarrow> False)" by code_simp
  then obtain e where "fst bad_release = Unhealthy e" by (auto split: release_result.splits)
  then have run: "bad_release = (Unhealthy e, snd bad_release)" by (simp add: prod_eq_iff)
  from failed_release_harmless [OF run] show ?thesis by (simp add: release_host_def)
qed

end
