(* ===== verification/Spec2Isabelle.thy ===== *)
theory Spec2Isabelle
  imports Witnesses_Sessions Witnesses_Release
begin

text \<open>
  Hostlet Core is the control plane and the agent of a self-hosted deployment platform.  The API
  (\<open>apps/api\<close>) keeps apps, deployments, servers and jobs in Postgres; agents (\<open>apps/agent\<close>) on the servers claim jobs over
  HTTP under a lease, build and start containers, switch the routes of a Caddy proxy and report back; both
  share the crate \<open>crates/contracts\<close> (names, statuses, Compose policy, planning from the files of a repository).
  This development models the parts that decide what may happen when, and proves what makes them correct.

  \<^bold>\<open>How code becomes definitions.\<close>  A table is a list of records in a field of \<open>db\<close> (\<open>Store\<close>); an SQL statement
  is a row operation of \<open>Prelude\<close> (\<open>update_where\<close>, \<open>find_row\<close>, \<open>count_where\<close>) with the predicate of its \<open>WHERE\<close> and the assignments of its
  \<open>SET\<close>; a handler is a function from the database to its response and the new database.  A transaction is
  one step: the handlers lock the rows they decide on (\<open>FOR UPDATE\<close>, the lock order of \<open>agent/locks.rs\<close>), so transactions on the same app are serial.
  Where the code leaves a transaction and starts another one, the model has two functions, and where it reads outside of a transaction the
  model takes the state it saw as an argument (\<open>store_github_access_token\<close>).  Everything from outside is read from a \<open>world\<close>: the transaction time, the clock at each statement, fresh
  identifiers, which database call fails, the text form of identifiers, the environment.  A failed call
  is a branch with the response and the rollback the code gives it.  Integers that saturate, wrap or are range-checked keep their width; times are microseconds.
  Strings are lists of characters; where Rust works on bytes (log lines, cookies), so does the model (\<open>Rust_Text\<close>).

  \<^bold>\<open>Foundations.\<close>  \<open>Prelude\<close> (types, row operations, the locales \<open>keyed_table\<close>, \<open>transition_system\<close> and \<open>wire_enum\<close>), \<open>Rust_Str\<close>,
  \<open>Rust_Text\<close> (the string operations of Rust that the code uses), \<open>Json\<close> (\<open>serde_json::Value\<close>), \<open>Store\<close> (the schema of \<open>apps/api/migrations\<close>, the
  locks, responses).  \<open>keyed_table\<close> is interpreted for each table with a primary key, \<open>transition_system\<close> for the control plane and the log transport, \<open>wire_enum\<close> for
  the three status enumerations.

  \<^bold>\<open>Contracts.\<close>
  \<^item> \<open>Contract_Names\<close>: the validators and cleaners of \<open>lib.rs\<close> and \<open>validation.rs\<close>; app slugs are well-formed and stable.
  \<^item> \<open>Contract_Status\<close>: the status enumerations, with their round trips.
  \<^item> \<open>Candidate\<close>, \<open>Artifact_Manifest\<close>: the candidate runtime and the build manifest with its JSON form; a manifest is accepted exactly
    when it matches its assignment and pins every image.
  \<^item> \<open>Compose_Subset\<close>: \<open>compose.rs\<close>, \<open>compose_preview.rs\<close>, \<open>compose_addons.rs\<close> and the remapping of binds in \<open>apps/agent/src/validation.rs\<close>.  An accepted file mounts no host path,
    directly or through a volume definition, and has no forbidden field; the preview of the API agrees with the agent; generated files are accepted.
  \<^item> \<open>Topology\<close>: \<open>topology.rs\<close> and \<open>topology_candidates.rs\<close>; what a plan contains, and that it does not depend on the order of the files.
  \<^item> \<open>Inference\<close>: \<open>inference.rs\<close>; a suggested command passes the validators and every offered add-on can be provisioned.

  \<^bold>\<open>Control plane.\<close>
  \<^item> \<open>Activation\<close> (\<open>deployment_execution.rs\<close>) with \<open>Browser_Health\<close>: heartbeat, prepare and commit.  Committing needs the current lease, generation and
    pending mark; an accepted prepare of an active deployment can be committed, also as a rollback; both can be repeated.
  \<^item> \<open>Job_Insert\<close>, \<open>Job_Queue\<close>, \<open>Build_Queue\<close>, \<open>Capacity\<close>, \<open>Deploy\<close>: from a request to a queued job; one active
    deployment per app, admission within the limits of the server.
  \<^item> \<open>Claim\<close>, \<open>Completion\<close>, \<open>Recovery\<close>, \<open>Job_Control\<close>: the life of a job.  A claim is exclusive, a result needs the lease, recovery takes
    exactly the lapsed jobs, a deletion fences its app.
  \<^item> \<open>Suspension\<close>, \<open>Teardown\<close>, \<open>Cleanup\<close>, \<open>Screenshots\<close>: pausing, deleting (with the DNS record of a public app, \<open>web/dns/cloudflare.rs\<close>) and
    cleaning up, with frames: what belongs to other apps stays as it is.
  \<^item> \<open>Agent_Messages\<close>, \<open>Health_Targets\<close>: what agents report and what they have to watch.
  \<^item> \<open>Webhook\<close>, \<open>Rate_Limit\<close>: push deliveries and request limits.
  \<^item> \<open>Sessions\<close> (\<open>auth.rs\<close>, \<open>password.rs\<close>, \<open>device_flow.rs\<close>, \<open>crypto.rs\<close> of the contracts): signed cookies, the control-plane password, GitHub sign-in.
    \<open>auth_run\<close> is any history of these handlers; a request counts as a user's only after the password and a session of that user, and registration stays closed.
  \<^item> \<open>Fence\<close> and \<open>Lifecycle\<close>: all operations as one transition system.  The route generation of an app is a fencing token: in every
    reachable state its holders are distinct and not ahead of the app, a superseded commit is refused for ever, and the whole control plane refines an abstract
    fencing automaton.

  \<^bold>\<open>Agent.\<close>
  \<^item> \<open>Agent_Journal\<close> (\<open>journal.rs\<close>, \<open>ops/activation.rs\<close>): requests and answers can be lost; the recovery at the next start completes an activation whose commit was interrupted.
  \<^item> \<open>Agent_Worker\<close> (\<open>runtime.rs\<close>): claimed jobs, renewal of the lease, completion.  The worker stops before its lease ends, and completes a job once.
  \<^item> \<open>Agent_Release\<close> and \<open>Agent_Deploy\<close> (\<open>runtime/pipeline.rs\<close>, \<open>build.rs\<close>, the \<open>rollback\<close> of \<open>compose.rs\<close>): from source or a stored image to a running container, its health
    check, its activation and its route.  The container is confined whatever the job says, what is activated is serving, a failed release disturbs nothing, and the
    hardening chosen by a build is the one that any release of its image uses.
  \<^item> \<open>Agent_Health\<close> (\<open>ops.rs\<close>, \<open>ops/health.rs\<close>, \<open>ops/reconcile.rs\<close>): probes, failure streaks, repairs and the container jobs.  No false
    alarm, at most one repair request per streak, and a pass keeps the fence of the routes.
  \<^item> \<open>Route_Files\<close> (\<open>ops/routes.rs\<close>, \<open>build.rs\<close>): over a directory whose operations may fail, generations never go back and no domain is served twice, as long as the existing
    files can be read and put back.
  \<^item> \<open>Log_Transport\<close>, \<open>Redaction\<close>: every line is posted, counted as dropped in a posted note, or given up by a timed-out post or by the abort of the
    dispatcher; credentials are removed from URLs.

  \<open>Samples\<close> and the \<open>Witnesses\<close> theories apply the properties with hypotheses to concrete inputs.

  \<^bold>\<open>Bounds and termination.\<close>  Loops are structural recursion or functions with a measure; no definition uses fuel.  The four attempts of a completion, the four failures of a renewal,
  the twenty seconds of a request, the limits of log lines, queues and buckets are the constants of the code.  A polling loop (scheduler, health loop, renewal) is modelled by its
  pass or by the list of its passes.  The 32-bit counters of the rate limiter wrap in the model; its bound holds as long as no window sees \<open>2 ^ 32\<close> requests of one key.

  \<^bold>\<open>Assumptions.\<close>  Properties name what they need: primary keys are distinct (\<open>wf_keys\<close>; \<open>system_step\<close> creates rows with fresh identifiers only), identifiers are printed and read back
  (\<open>uuid_codec\<close>), cookies carry no forged signature (\<open>unforged\<close>), a YAML writer is read back by the reader, and the lease of a job is changed by its own heartbeats only (\<open>quiet\<close>).
  Parameters stand for code outside of the repository: JSON and YAML parsers, HMAC, Argon2, AES, base64, the GitHub API, DNS, Docker, HTTP clients, file system outcomes.

  \<^bold>\<open>Not modelled.\<close>  The checkout, the build plan and railpack (\<open>git.rs\<close>, \<open>build.rs\<close>, \<open>railpack.rs\<close>), the remote build (\<open>runtime/remote_build.rs\<close>), generated topologies
  (\<open>pipeline/generated_topology.rs\<close>) and the Compose runner (\<open>compose.rs\<close>): orchestration of external processes, whose results enter as outcomes or handlers.  Resource, storage and runtime log collection (\<open>ops/resource_stats.rs\<close>, \<open>runtime_logs.rs\<close>), the browser that takes
  screenshots, the web forms over the modelled validators (\<open>web/apps\<close>), read-only endpoints and sockets, the command line client (terminal and HTTP), and the walk over the
  files of a repository (\<open>inventory.rs\<close>).  Floating-point limits (\<open>valid_cpu_limit\<close>) and Unicode case folding beyond the characters that fold to ASCII are left out.
\<close>

end
